(* ===== verification/Basics.thy ===== *)
theory Basics
  imports Main "HOL-Library.Word"
begin

text \<open>
  The prelude of the development.

  \<^item> Machine integers: Rust's \<open>u8\<close>, \<open>u32\<close>, \<open>u64\<close>, \<open>u128\<close> and \<open>usize\<close> (64 bits on every
    release target) are words, with the checked and saturating operations of the standard
    library the code calls.
  \<^item> Errors: \<open>foundation/error.rs\<close>. An \<open>AppError\<close> is its code and its message. The messages
    are Korean prose with interpolated values; a message is modelled by the key of its
    template and the list of the values interpolated, so two error sites have equal messages
    exactly when they use the same template with the same values.
  \<^item> Results: \<open>Result<T, E>\<close> is the sum \<open>'e + 'a\<close>, and the \<open>?\<close> operator is \<open>rbind\<close>.
  \<^item> Effects: an operation of a mutable port is a function from the port's state to its result
    and its next state, chained by \<open>sbind\<close>; a failing operation keeps the effects it had.
  \<^item> Strings: a Rust \<open>String\<close> is its UTF-8 byte sequence. \<open>char_slices\<close> cuts it into
    characters, \<open>code_point\<close> decodes one.
\<close>

named_theorems result_simps "unfolding of the result and effect combinators"

section \<open>Machine integers\<close>

type_synonym u8 = "8 word"
type_synonym u32 = "32 word"
type_synonym u64 = "64 word"
type_synonym u128 = "128 word"
type_synonym usize = "64 word"

definition checked_add :: "'a::len word \<Rightarrow> 'a word \<Rightarrow> 'a word option" where
  "checked_add a b = (if unat a + unat b < 2 ^ LENGTH('a) then Some (a + b) else None)"

definition checked_sub :: "'a::len word \<Rightarrow> 'a word \<Rightarrow> 'a word option" where
  "checked_sub a b = (if b \<le> a then Some (a - b) else None)"

definition checked_mul :: "'a::len word \<Rightarrow> 'a word \<Rightarrow> 'a word option" where
  "checked_mul a b = (if unat a * unat b < 2 ^ LENGTH('a) then Some (a * b) else None)"

definition saturating_add :: "'a::len word \<Rightarrow> 'a word \<Rightarrow> 'a word" where
  "saturating_add a b = (if unat a + unat b < 2 ^ LENGTH('a) then a + b else - 1)"

definition saturating_sub :: "'a::len word \<Rightarrow> 'a word \<Rightarrow> 'a word" where
  "saturating_sub a b = (if b \<le> a then a - b else 0)"

definition saturating_mul :: "'a::len word \<Rightarrow> 'a word \<Rightarrow> 'a word" where
  "saturating_mul a b = (if unat a * unat b < 2 ^ LENGTH('a) then a * b else - 1)"

lemma unat_max_word: "unat (- 1 :: 'a::len word) = 2 ^ LENGTH('a) - 1"
  by (simp add: unsigned_minus_1_eq_mask mask_eq_exp_minus_1)

lemma unat_add_exact:
  fixes a b :: "'a::len word"
  assumes "unat a + unat b < 2 ^ LENGTH('a)"
  shows "unat (a + b) = unat a + unat b"
  using assms by (simp add: unat_word_ariths)

lemma unat_mul_exact:
  fixes a b :: "'a::len word"
  assumes "unat a * unat b < 2 ^ LENGTH('a)"
  shows "unat (a * b) = unat a * unat b"
  using assms by (simp add: unat_word_ariths)

lemma checked_add_Some_iff:
  "checked_add a b = Some c \<longleftrightarrow> unat c = unat a + unat b"
  for a b c :: "'a::len word"
proof
  assume "checked_add a b = Some c"
  then show "unat c = unat a + unat b"
    by (auto simp: checked_add_def unat_add_exact split: if_splits)
next
  assume c: "unat c = unat a + unat b"
  have "unat c < 2 ^ LENGTH('a)" by (rule unsigned_less)
  with c have lt: "unat a + unat b < 2 ^ LENGTH('a)" by simp
  then have "unat (a + b) = unat c" using c by (simp add: unat_add_exact)
  then have "a + b = c" by (rule word_unat_eq_iff [THEN iffD2])
  with lt show "checked_add a b = Some c" by (simp add: checked_add_def)
qed

lemma checked_add_None_iff:
  "checked_add a b = None \<longleftrightarrow> 2 ^ LENGTH('a) \<le> unat a + unat b"
  for a b :: "'a::len word"
  by (auto simp: checked_add_def)

lemma unat_saturating_add:
  "unat (saturating_add a b) = min (unat a + unat b) (2 ^ LENGTH('a) - 1)"
  for a b :: "'a::len word"
  by (auto simp: saturating_add_def unat_add_exact unat_max_word min_def)

lemma unat_saturating_sub: "unat (saturating_sub a b) = unat a - unat b"
  by (auto simp: saturating_sub_def unat_sub word_le_nat_alt)

lemma unat_saturating_mul:
  "unat (saturating_mul a b) = min (unat a * unat b) (2 ^ LENGTH('a) - 1)"
  for a b :: "'a::len word"
proof (cases "unat a * unat b < 2 ^ LENGTH('a)")
  case True
  then show ?thesis by (simp add: saturating_mul_def unat_mul_exact)
next
  case False
  then have "2 ^ LENGTH('a) - 1 \<le> unat a * unat b" by simp
  with False show ?thesis by (simp only: saturating_mul_def unat_max_word if_False min_absorb2)
qed

lemma unat_of_nat_small: "n < 2 ^ LENGTH('a) \<Longrightarrow> unat (of_nat n :: 'a::len word) = n"
  by (simp add: unat_of_nat)

section \<open>Errors and results\<close>

datatype message = Msg string "string list"

record app_error =
  err_code :: u8
  err_message :: message

definition runtime_error :: "string \<Rightarrow> string list \<Rightarrow> app_error" where
  "runtime_error key args = \<lparr>err_code = 1, err_message = Msg key args\<rparr>"

definition usage_error :: "string \<Rightarrow> string list \<Rightarrow> app_error" where
  "usage_error key args = \<lparr>err_code = 2, err_message = Msg key args\<rparr>"

definition blocked_error :: "string \<Rightarrow> string list \<Rightarrow> app_error" where
  "blocked_error key args = \<lparr>err_code = 3, err_message = Msg key args\<rparr>"

type_synonym 'a result = "app_error + 'a"

definition rbind :: "'e + 'a \<Rightarrow> ('a \<Rightarrow> 'e + 'b) \<Rightarrow> 'e + 'b" where
  "rbind r f = (case r of Inl e \<Rightarrow> Inl e | Inr x \<Rightarrow> f x)"

definition map_err :: "('e \<Rightarrow> 'f) \<Rightarrow> 'e + 'a \<Rightarrow> 'f + 'a" where
  "map_err f r = (case r of Inl e \<Rightarrow> Inl (f e) | Inr x \<Rightarrow> Inr x)"

definition ok_or :: "'e \<Rightarrow> 'a option \<Rightarrow> 'e + 'a" where
  "ok_or e x = (case x of None \<Rightarrow> Inl e | Some v \<Rightarrow> Inr v)"

definition is_ok :: "'e + 'a \<Rightarrow> bool" where
  "is_ok r = (case r of Inl _ \<Rightarrow> False | Inr _ \<Rightarrow> True)"

lemma rbind_simps [simp, result_simps]:
  "rbind (Inl e) f = Inl e"
  "rbind (Inr x) f = f x"
  by (simp_all add: rbind_def)

lemma rbind_assoc: "rbind (rbind r f) g = rbind r (\<lambda>x. rbind (f x) g)"
  by (cases r) simp_all

lemma rbind_Inr_iff: "rbind r f = Inr y \<longleftrightarrow> (\<exists>x. r = Inr x \<and> f x = Inr y)"
  by (cases r) simp_all

lemma rbind_Inl_iff:
  "rbind r f = Inl e \<longleftrightarrow> r = Inl e \<or> (\<exists>x. r = Inr x \<and> f x = Inl e)"
  by (cases r) simp_all

lemma map_err_simps [simp, result_simps]:
  "map_err f (Inl e) = Inl (f e)"
  "map_err f (Inr x) = Inr x"
  by (simp_all add: map_err_def)

lemma map_err_Inr_iff: "map_err f r = Inr x \<longleftrightarrow> r = Inr x"
  by (cases r) simp_all

lemma ok_or_simps [simp, result_simps]:
  "ok_or e None = Inl e"
  "ok_or e (Some x) = Inr x"
  by (simp_all add: ok_or_def)

lemma ok_or_Inr_iff: "ok_or e x = Inr v \<longleftrightarrow> x = Some v"
  by (cases x) simp_all

lemma is_ok_simps [simp, result_simps]: "\<not> is_ok (Inl e)" "is_ok (Inr x)"
  by (simp_all add: is_ok_def)

lemma is_ok_iff: "is_ok r \<longleftrightarrow> (\<exists>x. r = Inr x)"
  by (cases r) simp_all

text \<open>\<open>iter().map(f).collect::<Result<Vec<_>, _>>()\<close>: the first error stops the traversal.\<close>

fun traverse :: "('a \<Rightarrow> 'e + 'b) \<Rightarrow> 'a list \<Rightarrow> 'e + 'b list" where
  "traverse f [] = Inr []"
| "traverse f (x # xs) = rbind (f x) (\<lambda>y. rbind (traverse f xs) (\<lambda>ys. Inr (y # ys)))"

lemma traverse_Inr_iff:
  "traverse f xs = Inr ys \<longleftrightarrow> list_all2 (\<lambda>x y. f x = Inr y) xs ys"
  by (induction xs arbitrary: ys) (auto simp: rbind_Inr_iff list_all2_Cons1)

lemma traverse_cong [fundef_cong]:
  "xs = ys \<Longrightarrow> (\<And>x. x \<in> set ys \<Longrightarrow> f x = g x) \<Longrightarrow> traverse f xs = traverse g ys"
  by (induction xs arbitrary: ys) (auto simp: rbind_def split: sum.splits)

section \<open>Stateful operations\<close>

type_synonym ('s, 'a) effect = "'s \<Rightarrow> 'a result \<times> 's"

definition sbind :: "('s, 'a) effect \<Rightarrow> ('a \<Rightarrow> ('s, 'b) effect) \<Rightarrow> ('s, 'b) effect" where
  "sbind m f s = (case m s of (Inl e, s') \<Rightarrow> (Inl e, s') | (Inr x, s') \<Rightarrow> f x s')"

definition sreturn :: "'a \<Rightarrow> ('s, 'a) effect" where
  "sreturn x s = (Inr x, s)"

definition sthrow :: "app_error \<Rightarrow> ('s, 'a) effect" where
  "sthrow e s = (Inl e, s)"

definition sthen :: "('s, unit) effect \<Rightarrow> ('s, 'b) effect \<Rightarrow> ('s, 'b) effect" where
  "sthen m k = sbind m (\<lambda>_. k)"

definition swhen :: "bool \<Rightarrow> ('s, unit) effect \<Rightarrow> ('s, unit) effect" where
  "swhen b m = (if b then m else sreturn ())"

fun seq_all :: "('s, unit) effect list \<Rightarrow> ('s, unit) effect" where
  "seq_all [] = sreturn ()"
| "seq_all (m # ms) = sthen m (seq_all ms)"

lemma sreturn_apply [result_simps]: "sreturn x s = (Inr x, s)"
  by (simp add: sreturn_def)

lemma sthrow_apply [result_simps]: "sthrow e s = (Inl e, s)"
  by (simp add: sthrow_def)

lemma swhen_simps [simp, result_simps]: "swhen True m = m" "swhen False m = sreturn ()"
  by (simp_all add: swhen_def)

lemma sbind_eqs [result_simps]:
  "m s = (Inl e, s') \<Longrightarrow> sbind m f s = (Inl e, s')"
  "m s = (Inr x, s') \<Longrightarrow> sbind m f s = f x s'"
  by (simp_all add: sbind_def)

lemma sbind_return_left [simp]: "sbind (sreturn x) f = f x"
  by (simp add: sbind_def sreturn_def fun_eq_iff)

lemma sthen_return_left [simp]: "sthen (sreturn ()) k = k"
  by (simp add: sthen_def)

lemma sbind_assoc: "sbind (sbind m f) g = sbind m (\<lambda>x. sbind (f x) g)"
  by (rule ext) (simp add: sbind_def split: prod.splits sum.splits)

lemma sthen_assoc: "sthen (sthen m n) k = sthen m (sthen n k)"
  by (simp add: sthen_def sbind_assoc)

lemma sthen_return_right [simp]: "sthen m (sreturn ()) = m"
  by (rule ext) (simp add: sthen_def sbind_def sreturn_def split: prod.splits sum.splits)

lemma seq_all_append: "seq_all (ms @ ns) = sthen (seq_all ms) (seq_all ns)"
  by (induction ms) (simp_all add: sthen_assoc)

lemma sbind_Inr_iff:
  "sbind m f s = (Inr y, s') \<longleftrightarrow> (\<exists>x t. m s = (Inr x, t) \<and> f x t = (Inr y, s'))"
  by (auto simp: sbind_def split: prod.splits sum.splits)

end
