(* ===== verification/Text.thy ===== *)
theory Text
  imports Basics
begin

text \<open>
  Rust strings. A \<open>String\<close> is its UTF-8 byte sequence, a HOL \<open>string\<close>; \<open>len()\<close> is
  \<open>length\<close>. \<open>char_slices\<close> is the iterator \<open>chars()\<close> with each character kept as the bytes
  that encode it, so concatenating a selection of slices gives the substring the code keeps.
  The remaining definitions are the functions of \<open>str\<close> and \<open>char\<close> the modelled code calls.
\<close>

section \<open>Bytes and UTF-8\<close>

abbreviation byte :: "char \<Rightarrow> nat" where
  "byte \<equiv> of_char"

definition continuation :: "char \<Rightarrow> bool" where
  "continuation c \<longleftrightarrow> 128 \<le> byte c \<and> byte c \<le> 191"

text \<open>
  The well-formed encodings of one character (Unicode, table 3-7), the check of
  \<open>std::str::from_utf8\<close>: \<open>utf8_width s\<close> is the width of the character \<open>s\<close> starts with,
  0 when \<open>s\<close> does not start with a well-formed character.
\<close>

definition lead_width :: "char \<Rightarrow> nat" where
  "lead_width a =
     (if byte a < 128 then 1
      else if byte a < 194 then 0
      else if byte a < 224 then 2
      else if byte a < 240 then 3
      else if byte a < 245 then 4
      else 0)"

definition well_formed_tail :: "char \<Rightarrow> string \<Rightarrow> bool" where
  "well_formed_tail a t \<longleftrightarrow> list_all continuation t \<and>
     (byte a = 224 \<longrightarrow> 160 \<le> byte (hd t)) \<and> (byte a = 237 \<longrightarrow> byte (hd t) \<le> 159) \<and>
     (byte a = 240 \<longrightarrow> 144 \<le> byte (hd t)) \<and> (byte a = 244 \<longrightarrow> byte (hd t) \<le> 143)"

definition utf8_width :: "string \<Rightarrow> nat" where
  "utf8_width s = (case s of [] \<Rightarrow> 0 | a # r \<Rightarrow>
     let w = lead_width a; t = take (w - 1) r
     in if length t = w - 1 \<and> well_formed_tail a t then w else 0)"

lemma lead_width_le4: "lead_width a \<le> 4"
  by (simp add: lead_width_def)

lemma utf8_width_Nil [simp]: "utf8_width [] = 0"
  by (simp add: utf8_width_def)

lemma utf8_width_le: "utf8_width s \<le> length s"
  by (cases s) (auto simp: utf8_width_def Let_def)

lemma utf8_width_le4: "utf8_width s \<le> 4"
  using lead_width_le4 by (cases s) (auto simp: utf8_width_def Let_def)

lemma utf8_width_append: "0 < utf8_width s \<Longrightarrow> utf8_width (s @ t) = utf8_width s"
  by (cases s) (auto simp: utf8_width_def Let_def split: if_splits)

lemma utf8_width_ascii: "byte c < 128 \<Longrightarrow> utf8_width (c # s) = 1"
  by (simp add: utf8_width_def lead_width_def well_formed_tail_def)

function utf8_valid :: "string \<Rightarrow> bool" where
  "utf8_valid s =
     (if s = [] then True
      else if utf8_width s = 0 then False
      else utf8_valid (drop (utf8_width s) s))"
  by pat_completeness auto
termination
  by (relation "measure length") auto

declare utf8_valid.simps [simp del]

function char_slices :: "string \<Rightarrow> string list" where
  "char_slices s =
     (if s = [] then []
      else let w = max 1 (utf8_width s) in take w s # char_slices (drop w s))"
  by pat_completeness auto
termination
  by (relation "measure length") (auto simp: Let_def)

declare char_slices.simps [simp del]

definition cont_bits :: "char \<Rightarrow> nat" where
  "cont_bits c = byte c mod 64"

text \<open>The code point of one encoded character; a stray byte reads as U+FFFD.\<close>

fun code_point :: "string \<Rightarrow> nat" where
  "code_point [a] = (if byte a < 128 then byte a else 65533)"
| "code_point [a, b] = (byte a mod 32) * 64 + cont_bits b"
| "code_point [a, b, c] = (byte a mod 16) * 4096 + cont_bits b * 64 + cont_bits c"
| "code_point [a, b, c, d] =
     (byte a mod 8) * 262144 + cont_bits b * 4096 + cont_bits c * 64 + cont_bits d"
| "code_point _ = 65533"

text \<open>\<open>String::push\<close>: the encoding of a scalar value.\<close>

definition utf8_encode :: "nat \<Rightarrow> string" where
  "utf8_encode n =
     (if n < 128 then [char_of n]
      else if n < 2048 then [char_of (192 + n div 64), char_of (128 + n mod 64)]
      else if n < 65536 then
        [char_of (224 + n div 4096), char_of (128 + n div 64 mod 64), char_of (128 + n mod 64)]
      else [char_of (240 + n div 262144), char_of (128 + n div 4096 mod 64),
            char_of (128 + n div 64 mod 64), char_of (128 + n mod 64)])"

lemma char_slices_Nil [simp]: "char_slices [] = []"
  by (simp add: char_slices.simps)

lemma concat_char_slices [simp]: "concat (char_slices s) = s"
proof (induction s rule: char_slices.induct)
  case (1 s)
  then show ?case
    by (cases "s = []") (auto simp: char_slices.simps [of s] Let_def)
qed

lemma char_slices_nonempty: "x \<in> set (char_slices s) \<Longrightarrow> x \<noteq> []"
proof (induction s rule: char_slices.induct)
  case (1 s)
  then show ?case
    by (cases "s = []") (auto simp: char_slices.simps [of s] Let_def)
qed

lemma char_slices_ascii:
  "byte c < 128 \<Longrightarrow> char_slices (c # s) = [c] # char_slices s"
  by (simp add: char_slices.simps [of "c # s"] utf8_width_ascii Let_def)

lemma utf8_valid_ascii_Cons: "byte c < 128 \<Longrightarrow> utf8_valid (c # s) = utf8_valid s"
  by (simp add: utf8_valid.simps [of "c # s"] utf8_width_ascii)

lemma utf8_valid_Nil [simp]: "utf8_valid []"
  by (simp add: utf8_valid.simps)

lemma utf8_valid_step:
  "s \<noteq> [] \<Longrightarrow> utf8_valid s \<longleftrightarrow> 0 < utf8_width s \<and> utf8_valid (drop (utf8_width s) s)"
  by (simp add: utf8_valid.simps [of s])

lemma utf8_valid_append: "utf8_valid s \<Longrightarrow> utf8_valid t \<Longrightarrow> utf8_valid (s @ t)"
proof (induction s rule: utf8_valid.induct)
  case (1 s)
  show ?case
  proof (cases "s = []")
    case False
    with "1.prems" have w: "0 < utf8_width s" and v: "utf8_valid (drop (utf8_width s) s)"
      by (simp_all add: utf8_valid_step)
    from "1.IH" [OF False _ v "1.prems"(2)] w
    have "utf8_valid (drop (utf8_width s) s @ t)" by simp
    with w False show ?thesis
      by (subst utf8_valid_step) (simp_all add: utf8_width_append utf8_width_le)
  qed (use "1.prems" in simp)
qed

definition all_ascii :: "string \<Rightarrow> bool" where
  "all_ascii s \<longleftrightarrow> list_all (\<lambda>c. byte c < 128) s"

lemma all_ascii_valid: "all_ascii s \<Longrightarrow> utf8_valid s"
  by (induction s) (auto simp: all_ascii_def utf8_valid_ascii_Cons)

lemma char_slices_all_ascii: "all_ascii s \<Longrightarrow> char_slices s = map (\<lambda>c. [c]) s"
  by (induction s) (auto simp: all_ascii_def char_slices_ascii)

section \<open>Character classes\<close>

definition is_ascii_digit :: "char \<Rightarrow> bool" where
  "is_ascii_digit c \<longleftrightarrow> 48 \<le> byte c \<and> byte c \<le> 57"

definition is_ascii_lowercase :: "char \<Rightarrow> bool" where
  "is_ascii_lowercase c \<longleftrightarrow> 97 \<le> byte c \<and> byte c \<le> 122"

definition is_ascii_uppercase :: "char \<Rightarrow> bool" where
  "is_ascii_uppercase c \<longleftrightarrow> 65 \<le> byte c \<and> byte c \<le> 90"

definition is_ascii_alphanumeric :: "char \<Rightarrow> bool" where
  "is_ascii_alphanumeric c \<longleftrightarrow>
     is_ascii_digit c \<or> is_ascii_lowercase c \<or> is_ascii_uppercase c"

definition is_ascii_hexdigit :: "char \<Rightarrow> bool" where
  "is_ascii_hexdigit c \<longleftrightarrow>
     is_ascii_digit c \<or> 97 \<le> byte c \<and> byte c \<le> 102 \<or> 65 \<le> byte c \<and> byte c \<le> 70"

definition is_ascii_whitespace :: "char \<Rightarrow> bool" where
  "is_ascii_whitespace c \<longleftrightarrow> byte c \<in> {9, 10, 12, 13, 32}"

definition to_ascii_lowercase :: "string \<Rightarrow> string" where
  "to_ascii_lowercase s = map (\<lambda>c. if is_ascii_uppercase c then char_of (byte c + 32) else c) s"

text \<open>\<open>char::is_control\<close> is the general category Cc, \<open>char::is_whitespace\<close> is White_Space.\<close>

definition is_control :: "nat \<Rightarrow> bool" where
  "is_control n \<longleftrightarrow> n < 32 \<or> 127 \<le> n \<and> n < 160"

definition is_whitespace :: "nat \<Rightarrow> bool" where
  "is_whitespace n \<longleftrightarrow>
     9 \<le> n \<and> n \<le> 13 \<or> n = 32 \<or> n = 133 \<or> n = 160 \<or> n = 5760 \<or> 8192 \<le> n \<and> n \<le> 8202
     \<or> n = 8232 \<or> n = 8233 \<or> n = 8239 \<or> n = 8287 \<or> n = 12288"

definition chars :: "string \<Rightarrow> nat list" where
  "chars s = map code_point (char_slices s)"

section \<open>Functions of str\<close>

definition trim_slices :: "(string \<Rightarrow> bool) \<Rightarrow> string list \<Rightarrow> string list" where
  "trim_slices P xs = rev (dropWhile P (rev (dropWhile P xs)))"

definition trim_matches :: "(nat \<Rightarrow> bool) \<Rightarrow> string \<Rightarrow> string" where
  "trim_matches P s = concat (trim_slices (\<lambda>x. P (code_point x)) (char_slices s))"

definition trim :: "string \<Rightarrow> string" where
  "trim s = trim_matches is_whitespace s"

definition starts_with :: "string \<Rightarrow> string \<Rightarrow> bool" where
  "starts_with p s \<longleftrightarrow> take (length p) s = p"

definition ends_with :: "string \<Rightarrow> string \<Rightarrow> bool" where
  "ends_with p s \<longleftrightarrow> starts_with (rev p) (rev s)"

fun contains_str :: "string \<Rightarrow> string \<Rightarrow> bool" where
  "contains_str p [] = (p = [])"
| "contains_str p (c # s) = (starts_with p (c # s) \<or> contains_str p s)"

fun split_once :: "char \<Rightarrow> string \<Rightarrow> (string \<times> string) option" where
  "split_once d [] = None"
| "split_once d (c # s) =
     (if c = d then Some ([], s) else map_option (\<lambda>(a, b). (c # a, b)) (split_once d s))"

fun split_on :: "(char \<Rightarrow> bool) \<Rightarrow> string \<Rightarrow> string list" where
  "split_on P [] = [[]]"
| "split_on P (c # s) =
     (if P c then [] # split_on P s
      else case split_on P s of [] \<Rightarrow> [[c]] | w # ws \<Rightarrow> (c # w) # ws)"

definition split_ascii_whitespace :: "string \<Rightarrow> string list" where
  "split_ascii_whitespace s = filter (\<lambda>w. w \<noteq> []) (split_on is_ascii_whitespace s)"

fun join :: "string \<Rightarrow> string list \<Rightarrow> string" where
  "join d [] = []"
| "join d [w] = w"
| "join d (w # ws) = w @ d @ join d ws"

lemma starts_with_iff: "starts_with p s \<longleftrightarrow> (\<exists>t. s = p @ t)"
  by (auto simp: starts_with_def) (metis append_take_drop_id)

lemma ends_with_iff: "ends_with p s \<longleftrightarrow> (\<exists>t. s = t @ p)"
  by (auto simp: ends_with_def starts_with_iff) (metis rev_append rev_rev_ident)

lemma contains_str_iff: "contains_str p s \<longleftrightarrow> (\<exists>a b. s = a @ p @ b)"
proof (induction s)
  case (Cons c s)
  have "(\<exists>a b. c # s = a @ p @ b) \<longleftrightarrow> (\<exists>b. c # s = p @ b) \<or> (\<exists>a b. s = a @ p @ b)"
    by (simp add: Cons_eq_append_conv) blast
  with Cons show ?case by (simp add: starts_with_iff)
qed simp

lemma split_once_Some: "split_once d s = Some (a, b) \<Longrightarrow> s = a @ d # b \<and> d \<notin> set a"
  by (induction s arbitrary: a b) (auto split: if_splits)

lemma split_once_None: "split_once d s = None \<longleftrightarrow> d \<notin> set s"
  by (induction s) (auto split: if_splits)

lemma split_once_append: "d \<notin> set a \<Longrightarrow> split_once d (a @ d # b) = Some (a, b)"
  by (induction a) auto

lemma split_on_not_Nil: "split_on P s \<noteq> []"
  by (induction s) (auto split: list.splits)

lemma split_on_no_sep: "w \<in> set (split_on P s) \<Longrightarrow> c \<in> set w \<Longrightarrow> \<not> P c"
proof (induction s arbitrary: w)
  case (Cons a s)
  show ?case
  proof (cases "split_on P s")
    case (Cons x xs)
    with Cons.prems Cons.IH [of x] Cons.IH [of w] show ?thesis
      by (cases "P a") auto
  qed (simp add: split_on_not_Nil)
qed simp

lemma split_on_clean: "(\<And>c. c \<in> set w \<Longrightarrow> \<not> P c) \<Longrightarrow> split_on P w = [w]"
  by (induction w) auto

lemma split_on_append:
  "(\<And>c. c \<in> set w \<Longrightarrow> \<not> P c) \<Longrightarrow> P d \<Longrightarrow> split_on P (w @ d # s) = w # split_on P s"
  by (induction w) auto

lemma split_on_join:
  assumes "ws \<noteq> []" "\<And>w c. w \<in> set ws \<Longrightarrow> c \<in> set w \<Longrightarrow> c \<noteq> d"
  shows "split_on (\<lambda>c. c = d) (join [d] ws) = ws"
  using assms
proof (induction "[d]" ws rule: join.induct)
  case (2 w)
  then show ?case by (auto intro!: split_on_clean)
next
  case (3 w v vs)
  have "split_on (\<lambda>c. c = d) (join [d] (v # vs)) = v # vs"
    by (rule "3.hyps") (use "3.prems" in auto)
  moreover have "split_on (\<lambda>c. c = d) (w @ d # join [d] (v # vs))
      = w # split_on (\<lambda>c. c = d) (join [d] (v # vs))"
    by (rule split_on_append) (use "3.prems" in auto)
  ultimately show ?case by simp
qed simp

lemma join_split_on: "join [d] (split_on (\<lambda>c. c = d) s) = s"
proof (induction s)
  case (Cons c s)
  then show ?case
    by (cases "split_on (\<lambda>c. c = d) s" rule: remdups_adj.cases) (auto simp: split_on_not_Nil)
qed simp

section \<open>Decimal rendering\<close>

definition digit_char :: "nat \<Rightarrow> char" where
  "digit_char n = char_of (48 + n)"

definition digit_value :: "char \<Rightarrow> nat" where
  "digit_value c = byte c - 48"

fun show_nat :: "nat \<Rightarrow> string" where
  "show_nat n = (if n < 10 then [digit_char n] else show_nat (n div 10) @ [digit_char (n mod 10)])"

declare show_nat.simps [simp del]

definition read_digits :: "string \<Rightarrow> nat" where
  "read_digits s = foldl (\<lambda>n c. 10 * n + digit_value c) 0 s"

lemma byte_digit_char: "n < 10 \<Longrightarrow> byte (digit_char n) = 48 + n"
  by (simp add: digit_char_def)

lemma digit_value_char [simp]: "n < 10 \<Longrightarrow> digit_value (digit_char n) = n"
  by (simp add: digit_value_def byte_digit_char)

lemma is_ascii_digit_char [simp]: "n < 10 \<Longrightarrow> is_ascii_digit (digit_char n)"
  by (simp add: is_ascii_digit_def byte_digit_char)

lemma read_digits_snoc: "read_digits (s @ [c]) = 10 * read_digits s + digit_value c"
  by (simp add: read_digits_def)

lemma read_show_nat [simp]: "read_digits (show_nat n) = n"
proof (induction n rule: show_nat.induct)
  case (1 n)
  show ?case
  proof (cases "n < 10")
    case True
    then show ?thesis by (simp add: show_nat.simps [of n] read_digits_def)
  next
    case False
    with "1.IH" show ?thesis
      by (simp add: show_nat.simps [of n] read_digits_snoc)
  qed
qed

lemma show_nat_digits: "c \<in> set (show_nat n) \<Longrightarrow> is_ascii_digit c"
proof (induction n rule: show_nat.induct)
  case (1 n)
  then show ?case by (cases "n < 10") (auto simp: show_nat.simps [of n])
qed

lemma show_nat_not_Nil [simp]: "show_nat n \<noteq> []"
  by (simp add: show_nat.simps [of n])

lemma show_nat_inj: "show_nat m = show_nat n \<longleftrightarrow> m = n"
  by (metis read_show_nat)

section \<open>Lines\<close>

abbreviation LF :: char where "LF \<equiv> CHR 0x0A"
abbreviation CR :: char where "CR \<equiv> CHR 0x0D"

text \<open>\<open>str::lines\<close>: a line ends at LF or CR LF; a last line without LF keeps its CR.\<close>

definition strip_cr :: "string \<Rightarrow> string" where
  "strip_cr w = (if w \<noteq> [] \<and> last w = CR then butlast w else w)"

fun lines_from :: "string \<Rightarrow> string \<Rightarrow> string list" where
  "lines_from cur [] = (if cur = [] then [] else [cur])"
| "lines_from cur (c # s) =
     (if c = LF then strip_cr cur # lines_from [] s else lines_from (cur @ [c]) s)"

definition str_lines :: "string \<Rightarrow> string list" where
  "str_lines s = lines_from [] s"

definition ends_line :: "string \<Rightarrow> bool" where
  "ends_line s \<longleftrightarrow> s = [] \<or> last s = LF"

lemma lines_from_clean: "LF \<notin> set w \<Longrightarrow> lines_from cur (w @ LF # s) = strip_cr (cur @ w) # str_lines s"
  by (induction w arbitrary: cur) (auto simp: str_lines_def)

lemma lines_from_last: "LF \<notin> set w \<Longrightarrow> lines_from cur w = (if cur @ w = [] then [] else [cur @ w])"
  by (induction w arbitrary: cur) auto

lemma lines_from_append: "lines_from cur (a @ LF # s) = lines_from cur (a @ [LF]) @ str_lines s"
  by (induction a arbitrary: cur) (auto simp: str_lines_def)

lemma str_lines_append: "ends_line a \<Longrightarrow> str_lines (a @ s) = str_lines a @ str_lines s"
proof (cases "a = []")
  case False
  moreover assume "ends_line a"
  ultimately have "a = butlast a @ [LF]" by (metis append_butlast_last_id ends_line_def)
  then show ?thesis using lines_from_append [of "[]" "butlast a" s]
    by (metis append.assoc append_Cons append_Nil str_lines_def)
qed (simp add: str_lines_def)

lemma str_lines_line: "LF \<notin> set w \<Longrightarrow> w = [] \<or> last w \<noteq> CR \<Longrightarrow> str_lines (w @ [LF]) = [w]"
  using lines_from_clean [of w "[]" "[]"] by (auto simp: str_lines_def strip_cr_def)

end
