(* ===== verification/Strict_Json.thy ===== *)
theory Strict_Json
  imports Text
begin

text \<open>
  \<open>src/foundation/serialization\<close>: the strict JSON parser (\<open>parser.rs\<close>), the object accessors
  (\<open>object.rs\<close>, \<open>types.rs\<close>), the compact renderer (\<open>render.rs\<close>) and the canonical form
  (\<open>canonical.rs\<close>).

  The parser's mutable \<open>pos\<close> over \<open>bytes\<close> is the suffix of the input still to be read;
  \<open>depth\<close> is an argument, since \<open>container\<close> restores it on every return. The three mutually
  recursive methods \<open>value\<close>, \<open>object\<close> and \<open>array\<close> recurse on that suffix: \<open>parse_json\<close> and the
  two loops carry a guard that the element just read made the suffix shorter, and
  \<open>parse_shorter\<close> shows that the guard never fails, so that \<open>members_loop_step\<close> and
  \<open>elements_loop_step\<close> are the loops as written in the source.
\<close>

section \<open>Values (types.rs)\<close>

datatype json =
    JObject "(string \<times> json) list"
  | JArray "json list"
  | JString string
  | JNumber u128
  | JDecimal string
  | JBool bool
  | JNull

type_synonym json_object = "(string \<times> json) list"

datatype cjson =
    CObject "(string \<times> cjson) list"
  | CArray "cjson list"
  | CString string
  | CUnsigned string
  | CBool bool
  | CNull

fun object_insert :: "string \<Rightarrow> 'v \<Rightarrow> (string \<times> 'v) list \<Rightarrow> 'v option \<times> (string \<times> 'v) list" where
  "object_insert k v [] = (None, [(k, v)])"
| "object_insert k v ((k', v') # xs) =
     (if k' = k then (Some v', (k', v) # xs)
      else (case object_insert k v xs of (r, ys) \<Rightarrow> (r, (k', v') # ys)))"

definition object_get :: "string \<Rightarrow> (string \<times> 'v) list \<Rightarrow> 'v option" where
  "object_get k obj = map_option snd (find (\<lambda>(k', _). k' = k) obj)"

definition object_keys :: "(string \<times> 'v) list \<Rightarrow> string list" where
  "object_keys obj = map fst obj"

definition object_contains_key :: "string \<Rightarrow> (string \<times> 'v) list \<Rightarrow> bool" where
  "object_contains_key k obj = list_ex (\<lambda>(k', _). k' = k) obj"

lemma object_get_map_of: "object_get k obj = map_of obj k"
  by (induction obj) (auto simp: object_get_def)

lemma object_contains_key_iff: "object_contains_key k obj \<longleftrightarrow> k \<in> set (object_keys obj)"
  by (induction obj) (auto simp: object_contains_key_def object_keys_def)

lemma object_insert_fresh:
  "k \<notin> set (object_keys obj) \<Longrightarrow> object_insert k v obj = (None, obj @ [(k, v)])"
  by (induction obj) (auto simp: object_keys_def)

lemma fst_object_insert: "fst (object_insert k v obj) = map_of obj k"
  by (induction obj) (auto split: prod.splits)

section \<open>Errors (error.rs)\<close>

definition json_blocked :: "string \<Rightarrow> string \<Rightarrow> app_error" where
  "json_blocked ctxt reason = blocked_error ''strict-json'' [ctxt, reason]"

abbreviation json_error :: "string \<Rightarrow> app_error" where
  "json_error reason \<equiv> json_blocked ''JSON'' reason"

section \<open>The parser (parser.rs)\<close>

definition max_json_nesting_depth :: nat where
  "max_json_nesting_depth = 64"

abbreviation quote :: char where "quote \<equiv> CHR 0x22"
abbreviation backslash :: char where "backslash \<equiv> CHR 0x5C"

definition is_json_ws :: "char \<Rightarrow> bool" where
  "is_json_ws c \<longleftrightarrow> c = CHR '' '' \<or> c = CHR 0x0A \<or> c = CHR 0x0D \<or> c = CHR 0x09"

definition ws :: "string \<Rightarrow> string" where
  "ws s = dropWhile is_json_ws s"

definition peek :: "string \<Rightarrow> char option" where
  "peek s = (case s of [] \<Rightarrow> None | c # _ \<Rightarrow> Some c)"

definition consume :: "char \<Rightarrow> string \<Rightarrow> bool \<times> string" where
  "consume b s = (if peek s = Some b then (True, tl s) else (False, s))"

definition take_byte :: "char \<Rightarrow> string \<Rightarrow> string result" where
  "take_byte b s =
     (case consume b s of (True, r) \<Rightarrow> Inr r | (False, _) \<Rightarrow> Inl (json_error ''unexpected token''))"

definition literal :: "string \<Rightarrow> string \<Rightarrow> string result" where
  "literal expected s =
     (if take (length expected) s = expected then Inr (drop (length expected) s)
      else Inl (json_error ''invalid literal''))"

definition hex_digit_value :: "char \<Rightarrow> nat option" where
  "hex_digit_value c =
     (if is_ascii_digit c then Some (byte c - 48)
      else if 97 \<le> byte c \<and> byte c \<le> 102 then Some (byte c - 87)
      else if 65 \<le> byte c \<and> byte c \<le> 70 then Some (byte c - 55)
      else None)"

fun hex_loop :: "nat \<Rightarrow> nat \<Rightarrow> string \<Rightarrow> (nat \<times> string) result" where
  "hex_loop 0 acc s = Inr (acc, s)"
| "hex_loop (Suc n) acc [] = Inl (json_error ''short unicode escape'')"
| "hex_loop (Suc n) acc (c # s) =
     (case hex_digit_value c of
        None \<Rightarrow> Inl (json_error ''invalid unicode escape'')
      | Some h \<Rightarrow> hex_loop n (acc * 16 + h) s)"

definition hex4 :: "string \<Rightarrow> (nat \<times> string) result" where
  "hex4 s = hex_loop 4 0 s"

definition char_from_u32 :: "nat \<Rightarrow> nat option" where
  "char_from_u32 n =
     (if n < 55296 \<or> 57344 \<le> n \<and> n < 1114112 then Some n else None)"

text \<open>The arm \<open>b'u'\<close> of \<open>string_value\<close>: the scalar value and the rest after the escape.\<close>

definition unicode_escape :: "string \<Rightarrow> (nat \<times> string) result" where
  "unicode_escape s =
     rbind (hex4 s) (\<lambda>(code, r).
       rbind
         (if 55296 \<le> code \<and> code \<le> 56319 then
            rbind (take_byte backslash r) (\<lambda>r1.
            rbind (take_byte (CHR ''u'') r1) (\<lambda>r2.
            rbind (hex4 r2) (\<lambda>(low, r3).
              if \<not> (56320 \<le> low \<and> low \<le> 57343) then Inl (json_error ''invalid surrogate pair'')
              else Inr (65536 + (code - 55296) * 1024 + (low - 56320), r3))))
          else if 56320 \<le> code \<and> code \<le> 57343 then Inl (json_error ''unpaired low surrogate'')
          else Inr (code, r))
         (\<lambda>(code', r').
           case char_from_u32 code' of
             None \<Rightarrow> Inl (json_error ''invalid unicode escape'')
           | Some ch \<Rightarrow> Inr (ch, r')))"

definition simple_escape :: "char \<Rightarrow> char option" where
  "simple_escape e =
     (if e = quote then Some quote
      else if e = backslash then Some backslash
      else if e = CHR ''/'' then Some (CHR ''/'')
      else if e = CHR ''b'' then Some (CHR 0x08)
      else if e = CHR ''f'' then Some (CHR 0x0C)
      else if e = CHR ''n'' then Some (CHR 0x0A)
      else if e = CHR ''r'' then Some (CHR 0x0D)
      else if e = CHR ''t'' then Some (CHR 0x09)
      else None)"

lemma hex_loop_length: "hex_loop n acc s = Inr (v, r) \<Longrightarrow> length s = length r + n"
  by (induction n acc s rule: hex_loop.induct) (auto split: option.splits)

lemma take_byte_Inr_iff: "take_byte b s = Inr r \<longleftrightarrow> s = b # r"
  by (cases s) (auto simp: take_byte_def consume_def peek_def)

lemma take_byte_Cons [simp]: "take_byte b (b # s) = Inr s"
  by (simp add: take_byte_Inr_iff)

lemma unicode_escape_shorter: "unicode_escape s = Inr (v, r) \<Longrightarrow> length r < length s"
  by (auto simp: unicode_escape_def rbind_Inr_iff hex4_def take_byte_Inr_iff
      dest!: hex_loop_length split: if_splits option.splits prod.splits)

definition lead_byte_width :: "char \<Rightarrow> nat option" where
  "lead_byte_width c =
     (if 194 \<le> byte c \<and> byte c \<le> 223 then Some 2
      else if 224 \<le> byte c \<and> byte c \<le> 239 then Some 3
      else if 240 \<le> byte c \<and> byte c \<le> 244 then Some 4
      else None)"

lemma lead_byte_width_pos: "lead_byte_width c = Some w \<Longrightarrow> 2 \<le> w"
  by (auto simp: lead_byte_width_def split: if_splits)

text \<open>
  One turn of the loop of \<open>string_value\<close> on a byte other than the closing quote: the bytes it
  pushes to \<open>out\<close> and the rest of the input.
\<close>

definition string_char :: "char \<Rightarrow> string \<Rightarrow> (string \<times> string) result" where
  "string_char c s =
     (if c = backslash then
        (case s of
           [] \<Rightarrow> Inl (json_error ''invalid escape'')
         | e # s' \<Rightarrow>
             (case simple_escape e of
                Some x \<Rightarrow> Inr ([x], s')
              | None \<Rightarrow>
                  if e = CHR ''u'' then
                    rbind (unicode_escape s') (\<lambda>(ch, r). Inr (utf8_encode ch, r))
                  else Inl (json_error ''invalid escape'')))
      else if byte c < 32 then Inl (json_error ''control character in string'')
      else if 128 \<le> byte c then
        (case lead_byte_width c of
           None \<Rightarrow> Inl (json_error ''invalid UTF-8'')
         | Some w \<Rightarrow>
             if length (c # s) < w then Inl (json_error ''invalid UTF-8'')
             else if \<not> utf8_valid (take w (c # s)) then Inl (json_error ''invalid UTF-8'')
             else Inr (hd (char_slices (take w (c # s))), drop w (c # s)))
      else Inr ([c], s))"

lemma string_char_shorter: "string_char c s = Inr (x, r) \<Longrightarrow> length r \<le> length s"
  by (auto simp: string_char_def rbind_Inr_iff split: if_splits list.splits option.splits
      dest!: unicode_escape_shorter lead_byte_width_pos)

text \<open>The loop of \<open>string_value\<close> after its opening quote.\<close>

fun string_body :: "string \<Rightarrow> string \<Rightarrow> (string \<times> string) result" where
  "string_body out [] = Inl (json_error ''unterminated string'')"
| "string_body out (c # s) =
     (if c = quote then Inr (out, s)
      else case string_char c s of
        Inl err \<Rightarrow> Inl err
      | Inr (x, r) \<Rightarrow>
          if length r \<le> length s then string_body (out @ x) r else Inl (json_error ''unreachable''))"

definition string_value :: "string \<Rightarrow> (string \<times> string) result" where
  "string_value s = rbind (take_byte quote s) (string_body [])"

lemma string_body_step:
  "string_body out (c # s) =
     (if c = quote then Inr (out, s)
      else rbind (string_char c s) (\<lambda>(x, r). string_body (out @ x) r))"
  by (auto simp: rbind_def dest: string_char_shorter split: sum.splits)

lemma string_body_shorter: "string_body out s = Inr (v, r) \<Longrightarrow> length r < length s"
proof (induction out s rule: string_body.induct)
  case (2 out c s)
  then show ?case by (fastforce split: if_splits sum.splits prod.splits)
qed simp

lemma string_value_shorter: "string_value s = Inr (v, r) \<Longrightarrow> length r < length s"
  by (auto simp: string_value_def rbind_Inr_iff take_byte_Inr_iff dest!: string_body_shorter)

declare string_body.simps(2) [simp del]

section \<open>Numbers\<close>

definition digits_off :: "string \<Rightarrow> string" where
  "digits_off s = dropWhile is_ascii_digit s"

definition number_int_part :: "string \<Rightarrow> string result" where
  "number_int_part s =
     (case peek s of
        None \<Rightarrow> Inl (json_error ''invalid number'')
      | Some c \<Rightarrow>
          if c = CHR ''0'' then
            (if (case peek (tl s) of None \<Rightarrow> False | Some d \<Rightarrow> is_ascii_digit d)
             then Inl (json_error ''leading-zero number'') else Inr (tl s))
          else if is_ascii_digit c then Inr (digits_off s)
          else Inl (json_error ''invalid number''))"

definition number_fraction :: "string \<Rightarrow> string result" where
  "number_fraction s =
     (case consume (CHR ''.'') s of
        (False, r) \<Rightarrow> Inr r
      | (True, r) \<Rightarrow>
          if length (digits_off r) = length r then Inl (json_error ''invalid fraction'')
          else Inr (digits_off r))"

definition number_exponent :: "string \<Rightarrow> string result" where
  "number_exponent s =
     (case peek s of
        None \<Rightarrow> Inr s
      | Some c \<Rightarrow>
          if c = CHR ''e'' \<or> c = CHR ''E'' then
            (let r = tl s;
                 r' = (if peek r = Some (CHR ''+'') \<or> peek r = Some (CHR ''-'') then tl r else r)
             in if length (digits_off r') = length r' then Inl (json_error ''invalid exponent'')
                else Inr (digits_off r'))
          else Inr s)"

definition number_value :: "string \<Rightarrow> (json \<times> string) result" where
  "number_value s =
     rbind (number_int_part (snd (consume (CHR ''-'') s))) (\<lambda>r1.
     rbind (number_fraction r1) (\<lambda>r2.
     rbind (number_exponent r2) (\<lambda>r3.
       let raw = take (length s - length r3) s in
       if \<not> starts_with ''-'' raw \<and> \<not> list_ex (\<lambda>c. c \<in> {CHR ''.'', CHR ''e'', CHR ''E''}) raw
          \<and> read_digits raw < 2 ^ 128
       then Inr (JNumber (of_nat (read_digits raw)), r3)
       else Inr (JDecimal raw, r3))))"

lemma length_digits_off: "length (digits_off s) \<le> length s"
  by (simp add: digits_off_def length_dropWhile_le)

lemma number_int_part_shorter: "number_int_part s = Inr r \<Longrightarrow> length r < length s"
  by (auto simp: number_int_part_def peek_def digits_off_def length_dropWhile_le le_imp_less_Suc
      split: list.splits if_splits option.splits)

lemma number_fraction_shorter: "number_fraction s = Inr r \<Longrightarrow> length r \<le> length s"
  using length_digits_off [of "tl s"]
  by (cases s) (auto simp: number_fraction_def consume_def peek_def split: if_splits)

lemma number_exponent_shorter: "number_exponent s = Inr r \<Longrightarrow> length r \<le> length s"
  using length_digits_off [of "tl s"] length_digits_off [of "tl (tl s)"]
  by (cases s) (auto simp: number_exponent_def peek_def Let_def split: if_splits)

lemma consume_shorter: "length (snd (consume b s)) \<le> length s"
  by (simp add: consume_def)

lemma number_value_shorter: "number_value s = Inr (v, r) \<Longrightarrow> length r < length s"
  using consume_shorter [of "CHR ''-''" s]
  by (auto simp: number_value_def rbind_Inr_iff Let_def split: if_splits
      dest!: number_int_part_shorter number_fraction_shorter number_exponent_shorter)

end
