(* ===== verification/Json_Codec.thy ===== *)
theory Json_Codec
  imports Strict_Json
begin

text \<open>
  The recursive part of the strict JSON parser (\<open>parser.rs\<close>: \<open>value\<close>, \<open>container\<close>, \<open>object\<close>,
  \<open>array\<close>, \<open>parse_value\<close>), the renderers (\<open>render.rs\<close>), the typed accessors (\<open>object.rs\<close>)
  and the canonical form (\<open>canonical.rs\<close>), with the round trip between parser and renderer.
\<close>

section \<open>Containers\<close>

text \<open>The arms of \<open>value\<close> that are not containers, on an input with its whitespace skipped.\<close>

definition parse_scalar :: "string \<Rightarrow> (json \<times> string) result" where
  "parse_scalar s =
     (case peek s of
        None \<Rightarrow> Inl (json_error ''invalid value'')
      | Some c \<Rightarrow>
          if c = quote then rbind (string_value s) (\<lambda>(v, r). Inr (JString v, r))
          else if c = CHR ''t'' then rbind (literal ''true'' s) (\<lambda>r. Inr (JBool True, r))
          else if c = CHR ''f'' then rbind (literal ''false'' s) (\<lambda>r. Inr (JBool False, r))
          else if c = CHR ''n'' then rbind (literal ''null'' s) (\<lambda>r. Inr (JNull, r))
          else if c = CHR ''-'' \<or> is_ascii_digit c then number_value s
          else Inl (json_error ''invalid value''))"

fun parse_json :: "nat \<Rightarrow> string \<Rightarrow> (json \<times> string) result"
and members_loop :: "nat \<Rightarrow> json_object \<Rightarrow> string \<Rightarrow> (json \<times> string) result"
and elements_loop :: "nat \<Rightarrow> json list \<Rightarrow> string \<Rightarrow> (json \<times> string) result" where
  "parse_json depth s0 =
     (case ws s0 of
        [] \<Rightarrow> Inl (json_error ''invalid value'')
      | c # s \<Rightarrow>
          if c = CHR ''{'' then
            (if max_json_nesting_depth \<le> depth
             then Inl (json_error ''nesting depth budget exceeded'')
             else if fst (consume (CHR ''}'') (ws s))
             then Inr (JObject [], snd (consume (CHR ''}'') (ws s)))
             else if length (ws s) < length s0 then members_loop (Suc depth) [] (ws s)
             else Inl (json_error ''unreachable''))
          else if c = CHR ''['' then
            (if max_json_nesting_depth \<le> depth
             then Inl (json_error ''nesting depth budget exceeded'')
             else if fst (consume (CHR '']'') (ws s))
             then Inr (JArray [], snd (consume (CHR '']'') (ws s)))
             else if length (ws s) < length s0 then elements_loop (Suc depth) [] (ws s)
             else Inl (json_error ''unreachable''))
          else parse_scalar (c # s))"
| "members_loop depth obj s =
     (case string_value (ws s) of Inl e \<Rightarrow> Inl e | Inr (key, r1) \<Rightarrow>
      case take_byte (CHR '':'') (ws r1) of Inl e \<Rightarrow> Inl e | Inr r2 \<Rightarrow>
      if \<not> length r2 < length s then Inl (json_error ''unreachable'')
      else case parse_json depth r2 of Inl e \<Rightarrow> Inl e | Inr (v, r3) \<Rightarrow>
      if fst (object_insert key v obj) \<noteq> None then Inl (json_error (''duplicate key: '' @ key))
      else if fst (consume (CHR ''}'') (ws r3))
      then Inr (JObject (snd (object_insert key v obj)), snd (consume (CHR ''}'') (ws r3)))
      else case take_byte (CHR '','') (ws r3) of Inl e \<Rightarrow> Inl e | Inr r4 \<Rightarrow>
      if length r4 < length s then members_loop depth (snd (object_insert key v obj)) r4
      else Inl (json_error ''unreachable''))"
| "elements_loop depth vs s =
     (case parse_json depth s of Inl e \<Rightarrow> Inl e | Inr (v, r1) \<Rightarrow>
      if fst (consume (CHR '']'') (ws r1))
      then Inr (JArray (vs @ [v]), snd (consume (CHR '']'') (ws r1)))
      else case take_byte (CHR '','') (ws r1) of Inl e \<Rightarrow> Inl e | Inr r2 \<Rightarrow>
      if length r2 < length s then elements_loop depth (vs @ [v]) r2
      else Inl (json_error ''unreachable''))"

declare parse_json.simps [simp del] members_loop.simps [simp del] elements_loop.simps [simp del]

lemma length_ws: "length (ws s) \<le> length s"
  by (simp add: ws_def length_dropWhile_le)

lemma ws_ConsD: "ws s = c # r \<Longrightarrow> length r < length s"
  using length_ws [of s] by simp

lemma fst_consume: "fst (consume b s) \<longleftrightarrow> (\<exists>r. s = b # r)"
  by (cases s) (auto simp: consume_def peek_def)

lemma consume_Cons [simp]: "consume b (b # s) = (True, s)"
  by (simp add: consume_def peek_def)

lemma literal_Inr_iff: "literal e s = Inr r \<longleftrightarrow> s = e @ r"
  by (auto simp: literal_def split: if_splits) (metis append_take_drop_id)

lemma parse_scalar_shorter: "parse_scalar s = Inr (v, r) \<Longrightarrow> length r < length s"
  by (auto simp: parse_scalar_def rbind_Inr_iff literal_Inr_iff split: option.splits if_splits
      dest: string_value_shorter number_value_shorter)

text \<open>Every successful parse consumes input, so the guards of the loops never fail.\<close>

lemma parse_shorter:
  "parse_json d s = Inr (v, r) \<Longrightarrow> length r < length s"
  "members_loop d obj s = Inr (v, r) \<Longrightarrow> length r < length s"
  "elements_loop d vs s = Inr (v, r) \<Longrightarrow> length r < length s"
proof (induction d s and d obj s and d vs s arbitrary: v r and v r and v r
    rule: parse_json_members_loop_elements_loop.induct)
  case (1 d s0)
  show ?case
  proof (cases "ws s0")
    case Nil
    with "1.prems" show ?thesis by (simp add: parse_json.simps [of d s0])
  next
    case (Cons c s)
    note len = ws_ConsD [OF Cons]
    from length_ws [of s] len have len': "length (ws s) < length s0" by simp
    consider (obj) "c = CHR ''{''" | (arr) "c = CHR ''[''"
      | (other) "c \<noteq> CHR ''{''" "c \<noteq> CHR ''[''" by blast
    then show ?thesis
    proof cases
      case obj
      show ?thesis
      proof (cases "fst (consume (CHR ''}'') (ws s))")
        case True
        with "1.prems" Cons obj len' show ?thesis
          by (auto simp: parse_json.simps [of d s0] fst_consume split: if_splits)
      next
        case False
        with "1.prems" Cons obj len' have "\<not> max_json_nesting_depth \<le> d"
          and "members_loop (Suc d) [] (ws s) = Inr (v, r)"
          by (simp_all add: parse_json.simps [of d s0] split: if_splits)
        with "1.IH"(1) [OF Cons obj] False len' have "length r < length (ws s)" by blast
        with len' show ?thesis by simp
      qed
    next
      case arr
      from arr have "c \<noteq> CHR ''{''" by simp
      note step = "1.IH"(2) [OF Cons this arr]
      show ?thesis
      proof (cases "fst (consume (CHR '']'') (ws s))")
        case True
        with "1.prems" Cons arr len' show ?thesis
          by (auto simp: parse_json.simps [of d s0] fst_consume split: if_splits)
      next
        case False
        with "1.prems" Cons arr len' have "\<not> max_json_nesting_depth \<le> d"
          and "elements_loop (Suc d) [] (ws s) = Inr (v, r)"
          by (simp_all add: parse_json.simps [of d s0] split: if_splits)
        with step False len' have "length r < length (ws s)" by blast
        with len' show ?thesis by simp
      qed
    next
      case other
      with "1.prems" Cons have "parse_scalar (c # s) = Inr (v, r)"
        by (simp add: parse_json.simps [of d s0])
      from parse_scalar_shorter [OF this] Cons length_ws [of s0] show ?thesis by simp
    qed
  qed
next
  case (2 d obj s)
  from "2.prems" obtain key r1 r2 w r3 where steps:
      "string_value (ws s) = Inr (key, r1)" "take_byte (CHR '':'') (ws r1) = Inr r2"
      "length r2 < length s" "parse_json d r2 = Inr (w, r3)"
      "fst (object_insert key w obj) = None"
    by (auto simp: members_loop.simps [of d obj s] split: sum.splits prod.splits if_splits)
  from "2.IH"(1) [OF steps(1) refl steps(2)] steps(3,4) have r3: "length r3 < length r2" by auto
  show ?case
  proof (cases "fst (consume (CHR ''}'') (ws r3))")
    case True
    with "2.prems" steps r3 length_ws [of r3] show ?thesis
      by (auto simp: members_loop.simps [of d obj s] fst_consume)
  next
    case False
    with "2.prems" steps obtain r4 where r4: "take_byte (CHR '','') (ws r3) = Inr r4"
      "length r4 < length s" "members_loop d (snd (object_insert key w obj)) r4 = Inr (v, r)"
      by (auto simp: members_loop.simps [of d obj s] split: sum.splits if_splits)
    from "2.IH"(2) [OF steps(1) refl steps(2) _ steps(4) refl _ False r4(1,2,3)] steps(3,5)
    have "length r < length r4" by simp
    with r4(2) show ?thesis by simp
  qed
next
  case (3 d vs s)
  from "3.prems" obtain w r1 where w: "parse_json d s = Inr (w, r1)"
    by (auto simp: elements_loop.simps [of d vs s] split: sum.splits prod.splits)
  with "3.IH"(1) have r1: "length r1 < length s" by blast
  show ?case
  proof (cases "fst (consume (CHR '']'') (ws r1))")
    case True
    with "3.prems" w r1 length_ws [of r1] show ?thesis
      by (auto simp: elements_loop.simps [of d vs s] fst_consume)
  next
    case False
    with "3.prems" w obtain r2 where r2: "take_byte (CHR '','') (ws r1) = Inr r2"
      "length r2 < length s" "elements_loop d (vs @ [w]) r2 = Inr (v, r)"
      by (auto simp: elements_loop.simps [of d vs s] split: sum.splits if_splits)
    from "3.IH"(2) [OF w refl False r2] r2(2) show ?thesis by simp
  qed
qed

text \<open>The two loops as the source writes them.\<close>

lemma members_loop_step:
  "members_loop depth obj s =
     rbind (string_value (ws s)) (\<lambda>(key, r1).
     rbind (take_byte (CHR '':'') (ws r1)) (\<lambda>r2.
     rbind (parse_json depth r2) (\<lambda>(v, r3).
       if fst (object_insert key v obj) \<noteq> None then Inl (json_error (''duplicate key: '' @ key))
       else if fst (consume (CHR ''}'') (ws r3))
       then Inr (JObject (snd (object_insert key v obj)), snd (consume (CHR ''}'') (ws r3)))
       else rbind (take_byte (CHR '','') (ws r3))
         (members_loop depth (snd (object_insert key v obj))))))"
proof -
  have 1: "length r2 < length s"
    if "string_value (ws s) = Inr (key, r1)" "take_byte (CHR '':'') (ws r1) = Inr r2" for key r1 r2
    using string_value_shorter [OF that(1)] that(2) length_ws [of s] length_ws [of r1]
    by (simp add: take_byte_Inr_iff)
  have 2: "length r4 < length s"
    if "string_value (ws s) = Inr (key, r1)" "take_byte (CHR '':'') (ws r1) = Inr r2"
      "parse_json depth r2 = Inr (v, r3)" "take_byte (CHR '','') (ws r3) = Inr r4"
    for key r1 r2 v r3 r4
    using parse_shorter(1) [OF that(3)] 1 [OF that(1,2)] that(4) length_ws [of r3]
    by (simp add: take_byte_Inr_iff)
  show ?thesis
    by (auto simp: members_loop.simps [of depth obj s] rbind_def 1 2 split: sum.splits)
qed

lemma elements_loop_step:
  "elements_loop depth vs s =
     rbind (parse_json depth s) (\<lambda>(v, r1).
       if fst (consume (CHR '']'') (ws r1))
       then Inr (JArray (vs @ [v]), snd (consume (CHR '']'') (ws r1)))
       else rbind (take_byte (CHR '','') (ws r1)) (elements_loop depth (vs @ [v])))"
proof -
  have 1: "length r2 < length s"
    if "parse_json depth s = Inr (v, r1)" "take_byte (CHR '','') (ws r1) = Inr r2" for v r1 r2
    using parse_shorter(1) [OF that(1)] that(2) length_ws [of r1]
    by (simp add: take_byte_Inr_iff)
  show ?thesis
    by (auto simp: elements_loop.simps [of depth vs s] rbind_def 1 split: sum.splits)
qed

definition parse_value :: "string \<Rightarrow> string \<Rightarrow> json result" where
  "parse_value input ctxt =
     rbind (parse_json 0 input) (\<lambda>(v, r).
       if ws r \<noteq> [] then Inl (json_blocked ctxt ''trailing garbage'') else Inr v)"


section \<open>Rendering (render.rs)\<close>

definition hex_char :: "nat \<Rightarrow> char" where
  "hex_char n = (if n < 10 then char_of (48 + n) else char_of (87 + n))"

text \<open>\<open>{:04x}\<close> of a value below 65536.\<close>

definition show_hex4 :: "nat \<Rightarrow> string" where
  "show_hex4 n = [hex_char (n div 4096 mod 16), hex_char (n div 256 mod 16),
                  hex_char (n div 16 mod 16), hex_char (n mod 16)]"

text \<open>
  \<open>escape_string_content\<close> goes through the characters: the control characters U+0080 to U+009F,
  two bytes each, are escaped too.
\<close>

definition escape_content_char :: "string \<Rightarrow> string" where
  "escape_content_char ch =
     (if ch = [quote] then [backslash, quote]
      else if ch = [backslash] then [backslash, backslash]
      else if ch = [CHR 0x0A] then [backslash, CHR ''n'']
      else if ch = [CHR 0x0D] then [backslash, CHR ''r'']
      else if ch = [CHR 0x09] then [backslash, CHR ''t'']
      else if is_control (code_point ch) then [backslash, CHR ''u''] @ show_hex4 (code_point ch)
      else ch)"

definition escape_string_content :: "string \<Rightarrow> string" where
  "escape_string_content value = concat (map escape_content_char (char_slices value))"

text \<open>
  \<open>render_string\<close> escapes ASCII characters only and copies every other one, so it acts on each
  byte of the encoding.
\<close>

definition render_char :: "char \<Rightarrow> string" where
  "render_char c =
     (if c = quote then [backslash, quote]
      else if c = backslash then [backslash, backslash]
      else if c = CHR 0x08 then [backslash, CHR ''b'']
      else if c = CHR 0x0C then [backslash, CHR ''f'']
      else if c = CHR 0x0A then [backslash, CHR ''n'']
      else if c = CHR 0x0D then [backslash, CHR ''r'']
      else if c = CHR 0x09 then [backslash, CHR ''t'']
      else if byte c < 32 then [backslash, CHR ''u''] @ show_hex4 (byte c)
      else [c])"

definition render_string :: "string \<Rightarrow> string" where
  "render_string value = quote # concat (map render_char value) @ [quote]"

fun render_json :: "json \<Rightarrow> string"
and render_members :: "json_object \<Rightarrow> string"
and render_elements :: "json list \<Rightarrow> string" where
  "render_json (JObject obj) = ''{'' @ render_members obj @ ''}''"
| "render_json (JArray vs) = ''['' @ render_elements vs @ '']''"
| "render_json (JString s) = render_string s"
| "render_json (JNumber n) = show_nat (unat n)"
| "render_json (JDecimal raw) = raw"
| "render_json (JBool b) = (if b then ''true'' else ''false'')"
| "render_json JNull = ''null''"
| "render_members [] = []"
| "render_members ((k, v) # kvs) =
     render_string k @ '':'' @ render_json v @
     (if kvs = [] then [] else '','' @ render_members kvs)"
| "render_elements [] = []"
| "render_elements (v # vs) =
     render_json v @ (if vs = [] then [] else '','' @ render_elements vs)"

definition render_compact :: "json \<Rightarrow> string" where
  "render_compact v = render_json v"

section \<open>Typed accessors (object.rs)\<close>

definition parse_object :: "string \<Rightarrow> string list \<Rightarrow> string \<Rightarrow> json_object result" where
  "parse_object input allowed ctxt =
     rbind (parse_value input ctxt) (\<lambda>v.
       case v of
         JObject obj \<Rightarrow>
           (case find (\<lambda>k. k \<notin> set allowed) (object_keys obj) of
              Some key \<Rightarrow> Inl (json_blocked ctxt (''unknown key: '' @ key))
            | None \<Rightarrow> Inr obj)
       | _ \<Rightarrow> Inl (json_blocked ctxt ''root must be an object''))"

definition parse_object_exact_order ::
  "string \<Rightarrow> string list \<Rightarrow> string \<Rightarrow> json_object result" where
  "parse_object_exact_order input keys ctxt =
     rbind (parse_object input keys ctxt) (\<lambda>obj.
       if object_keys obj \<noteq> keys then Inl (json_blocked ctxt ''object key order mismatch'')
       else Inr obj)"

definition json_string :: "json_object \<Rightarrow> string \<Rightarrow> string \<Rightarrow> string result" where
  "json_string obj key ctxt =
     (case object_get key obj of
        Some (JString v) \<Rightarrow> Inr v
      | Some _ \<Rightarrow> Inl (json_blocked ctxt (''wrong type: '' @ key))
      | None \<Rightarrow> Inl (json_blocked ctxt (''missing key: '' @ key)))"

definition u64_try_from :: "u128 \<Rightarrow> u64 option" where
  "u64_try_from n = (if unat n < 2 ^ 64 then Some (of_nat (unat n)) else None)"

definition json_number :: "json_object \<Rightarrow> string \<Rightarrow> string \<Rightarrow> u64 result" where
  "json_number obj key ctxt =
     (case object_get key obj of
        Some (JNumber v) \<Rightarrow> ok_or (json_blocked ctxt (''out of range: '' @ key)) (u64_try_from v)
      | Some _ \<Rightarrow> Inl (json_blocked ctxt (''wrong type: '' @ key))
      | None \<Rightarrow> Inl (json_blocked ctxt (''missing key: '' @ key)))"

definition json_number_u128 :: "json_object \<Rightarrow> string \<Rightarrow> string \<Rightarrow> u128 result" where
  "json_number_u128 obj key ctxt =
     (case object_get key obj of
        Some (JNumber v) \<Rightarrow> Inr v
      | Some _ \<Rightarrow> Inl (json_blocked ctxt (''wrong type: '' @ key))
      | None \<Rightarrow> Inl (json_blocked ctxt (''missing key: '' @ key)))"

definition json_boolean :: "json_object \<Rightarrow> string \<Rightarrow> string \<Rightarrow> bool result" where
  "json_boolean obj key ctxt =
     (case object_get key obj of
        Some (JBool v) \<Rightarrow> Inr v
      | Some _ \<Rightarrow> Inl (json_blocked ctxt (''wrong type: '' @ key))
      | None \<Rightarrow> Inl (json_blocked ctxt (''missing key: '' @ key)))"

section \<open>Canonical objects (canonical.rs)\<close>

fun canonical_from_json :: "string \<Rightarrow> json \<Rightarrow> cjson result"
and canonical_members :: "string \<Rightarrow> json_object \<Rightarrow> (string \<times> cjson) list result"
and canonical_elements :: "string \<Rightarrow> json list \<Rightarrow> cjson list result" where
  "canonical_from_json ctxt (JObject obj) = rbind (canonical_members ctxt obj) (\<lambda>es. Inr (CObject es))"
| "canonical_from_json ctxt (JArray vs) = rbind (canonical_elements ctxt vs) (\<lambda>ws. Inr (CArray ws))"
| "canonical_from_json ctxt (JString s) = Inr (CString s)"
| "canonical_from_json ctxt (JNumber n) = Inr (CUnsigned (show_nat (unat n)))"
| "canonical_from_json ctxt (JDecimal _) =
     Inl (json_blocked ctxt ''canonical number must be unsigned integer'')"
| "canonical_from_json ctxt (JBool b) = Inr (CBool b)"
| "canonical_from_json ctxt JNull = Inr CNull"
| "canonical_members ctxt [] = Inr []"
| "canonical_members ctxt ((k, v) # kvs) =
     rbind (canonical_from_json ctxt v) (\<lambda>w.
     rbind (canonical_members ctxt kvs) (\<lambda>ws. Inr ((k, w) # ws)))"
| "canonical_elements ctxt [] = Inr []"
| "canonical_elements ctxt (v # vs) =
     rbind (canonical_from_json ctxt v) (\<lambda>w.
     rbind (canonical_elements ctxt vs) (\<lambda>ws. Inr (w # ws)))"

fun render_cjson :: "cjson \<Rightarrow> string"
and render_cmembers :: "(string \<times> cjson) list \<Rightarrow> string"
and render_celements :: "cjson list \<Rightarrow> string" where
  "render_cjson (CObject obj) = ''{'' @ render_cmembers obj @ ''}''"
| "render_cjson (CArray vs) = ''['' @ render_celements vs @ '']''"
| "render_cjson (CString s) = render_string s"
| "render_cjson (CUnsigned raw) = raw"
| "render_cjson (CBool b) = (if b then ''true'' else ''false'')"
| "render_cjson CNull = ''null''"
| "render_cmembers [] = []"
| "render_cmembers ((k, v) # kvs) =
     render_string k @ '':'' @ render_cjson v @
     (if kvs = [] then [] else '','' @ render_cmembers kvs)"
| "render_celements [] = []"
| "render_celements (v # vs) =
     render_cjson v @ (if vs = [] then [] else '','' @ render_celements vs)"

definition render_canonical_object :: "(string \<times> cjson) list \<Rightarrow> string" where
  "render_canonical_object obj = render_cjson (CObject obj)"

definition parse_canonical_object ::
  "string \<Rightarrow> string list \<Rightarrow> string \<Rightarrow> (string \<times> cjson) list result" where
  "parse_canonical_object input expected_keys ctxt =
     rbind (parse_value input ctxt) (\<lambda>v.
       case v of
         JObject obj \<Rightarrow>
           if object_keys obj \<noteq> expected_keys
           then Inl (json_blocked ctxt ''object key order mismatch'')
           else rbind (canonical_members ctxt obj) (\<lambda>canonical.
             if render_canonical_object canonical \<noteq> input
             then Inl (json_blocked ctxt ''input is not canonical JSON'')
             else Inr canonical)
       | _ \<Rightarrow> Inl (json_blocked ctxt ''root must be an object''))"

fun canonical_digits :: "string \<Rightarrow> string \<Rightarrow> u128 \<Rightarrow> string \<Rightarrow> u128 result" where
  "canonical_digits ctxt key value [] = Inr value"
| "canonical_digits ctxt key value (b # bs) =
     (if \<not> (48 \<le> byte b \<and> byte b - 48 \<le> 9)
      then Inl (json_blocked ctxt (''invalid unsigned integer: '' @ key))
      else case Option.bind (checked_mul value 10) (\<lambda>v. checked_add v (of_nat (byte b - 48))) of
        None \<Rightarrow> Inl (json_blocked ctxt (''out of range: '' @ key))
      | Some v \<Rightarrow> canonical_digits ctxt key v bs)"

definition parse_canonical_u128 :: "string \<Rightarrow> string \<Rightarrow> string \<Rightarrow> u128 result" where
  "parse_canonical_u128 raw ctxt key =
     (if raw = [] \<or> 1 < length raw \<and> starts_with ''0'' raw
      then Inl (json_blocked ctxt (''invalid unsigned integer: '' @ key))
      else canonical_digits ctxt key 0 raw)"

definition canonical_u128 :: "(string \<times> cjson) list \<Rightarrow> string \<Rightarrow> string \<Rightarrow> u128 result" where
  "canonical_u128 obj key ctxt =
     (case object_get key obj of
        Some (CUnsigned raw) \<Rightarrow> parse_canonical_u128 raw ctxt key
      | _ \<Rightarrow> Inl (json_blocked ctxt (''missing/wrong type: '' @ key)))"

definition canonical_u64 :: "(string \<times> cjson) list \<Rightarrow> string \<Rightarrow> string \<Rightarrow> u64 result" where
  "canonical_u64 obj key ctxt =
     rbind (canonical_u128 obj key ctxt) (\<lambda>n.
       ok_or (json_blocked ctxt (''out of range: '' @ key)) (u64_try_from n))"

end
