(* ===== verification/Json_Roundtrip.thy ===== *)
theory Json_Roundtrip
  imports Json_Codec
begin

text \<open>
  Rendering and parsing are inverse on well-formed values: the strict parser reads back what the
  renderer wrote, up to the nesting bound, and accepts no object with a repeated key.
\<close>

section \<open>Strings\<close>

lemma simple_escape_ascii: "simple_escape e = Some x \<Longrightarrow> byte x < 128"
  by (auto simp: simple_escape_def split: if_splits)

lemma hex_digit_value_hex_char: "n < 16 \<Longrightarrow> hex_digit_value (hex_char n) = Some n"
  by (auto simp: hex_digit_value_def hex_char_def is_ascii_digit_def)

lemma hex4_hex_chars:
  assumes "a < 16" "b < 16" "c < 16" "d < 16"
  shows "hex4 (hex_char a # hex_char b # hex_char c # hex_char d # s) =
    Inr (((a * 16 + b) * 16 + c) * 16 + d, s)"
proof -
  have four: "(4::nat) = Suc (Suc (Suc (Suc 0)))" by simp
  show ?thesis
    unfolding hex4_def four using assms by (simp add: hex_digit_value_hex_char)
qed

lemma hex4_show_hex4:
  assumes n: "n < 65536"
  shows "hex4 (show_hex4 n @ s) = Inr (n, s)"
proof -
  have step: "n div (16 * k) * 16 + n div k mod 16 = n div k" for k
    using div_mult_mod_eq [of "n div k" 16] by (simp add: div_mult2_eq mult.commute [of 16 k])
  have "n div 4096 mod 16 = n div 4096" using n by simp
  then have sum: "((n div 4096 mod 16 * 16 + n div 256 mod 16) * 16 + n div 16 mod 16) * 16 + n mod 16 = n"
    using step [of 256] step [of 16] step [of 1] by simp
  have "hex4 (show_hex4 n @ s) = Inr (((n div 4096 mod 16 * 16 + n div 256 mod 16) * 16 + n div 16 mod 16) * 16 + n mod 16, s)"
    unfolding show_hex4_def append_Cons append_Nil by (rule hex4_hex_chars) simp_all
  then show ?thesis by (simp only: sum)
qed

lemma unicode_escape_low:
  assumes "n < 128"
  shows "unicode_escape (show_hex4 n @ s) = Inr (n, s)"
  using assms by (simp add: unicode_escape_def hex4_show_hex4 char_from_u32_def)

lemma string_char_escape:
  assumes "simple_escape e = Some x"
  shows "string_char backslash (e # s) = Inr ([x], s)"
  using assms by (simp add: string_char_def)

lemma string_body_escape:
  assumes "simple_escape e = Some x"
  shows "string_body out (backslash # e # s) = string_body (out @ [x]) s"
  using assms by (simp add: string_body_step string_char_escape)

lemma render_char_escape:
  assumes "c \<in> {quote, backslash, CHR 0x08, CHR 0x0C, CHR 0x0A, CHR 0x0D, CHR 0x09}"
  shows "\<exists>e. render_char c = [backslash, e] \<and> simple_escape e = Some c"
  using assms by (elim insertE emptyE; simp only:; simp add: render_char_def simple_escape_def)

lemma string_body_render_ascii:
  assumes "byte c < 128"
  shows "string_body out (render_char c @ s) = string_body (out @ [c]) s"
proof -
  show ?thesis
  proof (cases "c \<in> {quote, backslash, CHR 0x08, CHR 0x0C, CHR 0x0A, CHR 0x0D, CHR 0x09}")
    case True
    from render_char_escape [OF this] show ?thesis by (auto simp: string_body_escape)
  next
    case special: False
    show ?thesis
    proof (cases "byte c < 32")
      case True
      from special True have "render_char c = backslash # CHR ''u'' # show_hex4 (byte c)"
        by (simp add: render_char_def)
      moreover have "string_char backslash (CHR ''u'' # show_hex4 (byte c) @ s) = Inr ([c], s)"
        using True by (simp add: string_char_def simple_escape_def unicode_escape_low utf8_encode_def)
      ultimately show ?thesis by (simp add: string_body_step)
    next
      case False
      with special assms have "render_char c = [c]" by (simp add: render_char_def)
      moreover have "string_char c s = Inr ([c], s)"
        using special False assms by (simp add: string_char_def)
      ultimately show ?thesis using special by (simp add: string_body_step)
    qed
  qed
qed

lemma render_char_high:
  assumes "128 \<le> byte c"
  shows "render_char c = [c]"
proof -
  have ne: "c \<noteq> k" if "byte k < 128" for k using that assms by auto
  show ?thesis using assms by (simp add: render_char_def ne)
qed

lemma lead_width_lead_byte_width:
  "128 \<le> byte c \<Longrightarrow> 0 < lead_width c \<Longrightarrow> lead_byte_width c = Some (lead_width c)"
  by (simp add: lead_width_def lead_byte_width_def split: if_splits)

lemma utf8_width_lead: "0 < utf8_width (c # s) \<Longrightarrow> utf8_width (c # s) = lead_width c"
  by (simp add: utf8_width_def Let_def split: if_splits)

lemma utf8_width_tail:
  "0 < utf8_width (c # s) \<Longrightarrow> 128 \<le> byte c \<Longrightarrow> x \<in> set (take (utf8_width (c # s) - 1) s) \<Longrightarrow> 128 \<le> byte x"
  by (auto simp: utf8_width_def Let_def well_formed_tail_def continuation_def list_all_iff split: if_splits)

lemma utf8_width_take_same: "utf8_width (take (utf8_width s) s) = utf8_width s"
proof (cases "0 < utf8_width s")
  case True
  then obtain a r where s: "s = a # r" by (cases s) simp_all
  from True have w: "utf8_width s = lead_width a" unfolding s by (rule utf8_width_lead)
  with True have "take (utf8_width s) s = a # take (lead_width a - 1) r"
    by (simp add: s take_Cons')
  with True w show ?thesis
    by (simp add: s utf8_width_def Let_def split: if_splits)
qed simp

lemma string_char_multibyte:
  assumes w: "0 < utf8_width (c # s)" and c: "128 \<le> byte c"
  shows "string_char c s = Inr (take (utf8_width (c # s)) (c # s), drop (utf8_width (c # s)) (c # s))"
proof -
  let ?w = "utf8_width (c # s)"
  let ?ch = "take ?w (c # s)"
  have lw: "lead_byte_width c = Some ?w"
    using lead_width_lead_byte_width [OF c] utf8_width_lead [OF w] w by (simp only:)
  have len: "?w \<le> length (c # s)" by (rule utf8_width_le)
  have chw: "utf8_width ?ch = ?w" by (rule utf8_width_take_same)
  have ne: "?ch \<noteq> []" using w by simp
  have valid: "utf8_valid ?ch"
    using ne chw w by (simp add: utf8_valid_step del: take_Suc_Cons)
  have "hd (char_slices ?ch) = ?ch"
    using ne chw w by (simp add: char_slices.simps [of ?ch] Let_def del: take_Suc_Cons)
  moreover have "c \<noteq> backslash" "\<not> byte c < 32" using c by auto
  ultimately show ?thesis using lw len valid c by (simp add: string_char_def)
qed

lemma string_char_prefix:
  assumes ch: "utf8_width (c # t) = length (c # t)" and c: "128 \<le> byte c"
  shows "string_char c (t @ u) = Inr (c # t, u)"
proof -
  have "utf8_width ((c # t) @ u) = length (c # t)"
    using ch by (subst utf8_width_append) simp_all
  then show ?thesis using string_char_multibyte [of c "t @ u"] c by simp
qed

lemma string_body_render:
  "utf8_valid v \<Longrightarrow>
   string_body out (concat (map render_char v) @ quote # s) = Inr (out @ v, s)"
proof (induction v arbitrary: out rule: utf8_valid.induct)
  case (1 v)
  show ?case
  proof (cases v)
    case Nil
    then show ?thesis by (simp add: string_body_step)
  next
    case (Cons c cs)
    let ?w = "utf8_width v"
    from "1.prems" Cons have w: "0 < ?w" and valid: "utf8_valid (drop ?w v)"
      by (simp_all add: utf8_valid_step)
    have IH: "string_body out' (concat (map render_char (drop ?w v)) @ quote # s) =
        Inr (out' @ drop ?w v, s)" for out'
      using "1.IH" Cons w valid by simp
    show ?thesis
    proof (cases "byte c < 128")
      case True
      with IH [of "out @ [c]"] Cons show ?thesis
        by (simp add: utf8_width_ascii string_body_render_ascii)
    next
      case False
      then have c: "128 \<le> byte c" by simp
      let ?tail = "concat (map render_char (drop ?w v)) @ quote # s"
      have copy: "concat (map render_char xs) = xs" if "\<And>x. x \<in> set xs \<Longrightarrow> 128 \<le> byte x" for xs
        using that by (induction xs) (simp_all add: render_char_high)
      have tk: "take ?w v = c # take (?w - 1) cs" using w Cons by (cases ?w) auto
      have "concat (map render_char (c # take (?w - 1) cs)) = c # take (?w - 1) cs"
        using utf8_width_tail [of c cs] w c Cons by (intro copy) auto
      then have "concat (map render_char (take ?w v)) = take ?w v" by (simp only: tk)
      then have split: "concat (map render_char v) @ quote # s = take ?w v @ ?tail"
        by (metis append.assoc append_take_drop_id concat_append map_append)
      have "utf8_width (take ?w v) = length (take ?w v)"
        using utf8_width_le [of v] by (simp add: utf8_width_take_same)
      then have "string_char c (take (?w - 1) cs @ ?tail) = Inr (take ?w v, ?tail)"
        using string_char_prefix [of c "take (?w - 1) cs" ?tail] c by (simp only: tk)
      moreover have "c \<noteq> quote" using c by auto
      ultimately have "string_body out (take ?w v @ ?tail) = string_body (out @ take ?w v) ?tail"
        by (simp only: tk append_Cons string_body_step) simp
      with split IH [of "out @ take ?w v"] show ?thesis by simp
    qed
  qed
qed

lemma string_value_render:
  "utf8_valid v \<Longrightarrow> string_value (render_string v @ s) = Inr (v, s)"
  using string_body_render [of v "[]" s] by (simp add: string_value_def render_string_def)


section \<open>Numbers\<close>

text \<open>What may follow a number in a rendered value: nothing that would extend it.\<close>

definition delimited :: "string \<Rightarrow> bool" where
  "delimited t \<longleftrightarrow> (case t of [] \<Rightarrow> True | c # _ \<Rightarrow>
     \<not> is_ascii_digit c \<and> c \<notin> {CHR ''.'', CHR ''e'', CHR ''E'', CHR ''+'', CHR ''-''})"

definition decimal_lexeme :: "string \<Rightarrow> bool" where
  "decimal_lexeme raw \<longleftrightarrow> number_value raw = Inr (JDecimal raw, [])"

lemma delimited_Nil [simp]: "delimited []"
  by (simp add: delimited_def)

lemma delimited_punct [simp]:
  "delimited (CHR '','' # t)" "delimited (CHR ''}'' # t)" "delimited (CHR '']'' # t)"
  by (simp_all add: delimited_def is_ascii_digit_def)

lemma digits_off_append: "delimited t \<Longrightarrow> digits_off (s @ t) = digits_off s @ t"
  by (induction s) (auto simp: digits_off_def delimited_def split: list.splits)

lemma peek_append: "peek (s @ t) = (if s = [] then peek t else peek s)"
  by (cases s) (simp_all add: peek_def)

lemma delimited_peek:
  assumes "delimited t" "peek t = Some c"
  shows "\<not> is_ascii_digit c" "c \<noteq> CHR ''.''" "c \<noteq> CHR ''e''" "c \<noteq> CHR ''E''" "c \<noteq> CHR ''+''"
    "c \<noteq> CHR ''-''"
  using assms by (cases t; simp add: delimited_def peek_def)+

lemma peek_Cons [simp]: "peek (c # s) = Some c" "peek [] = None"
  by (simp_all add: peek_def)

lemma number_int_part_append:
  assumes r: "number_int_part s = Inr r" and t: "delimited t"
  shows "number_int_part (s @ t) = Inr (r @ t)"
proof -
  from r obtain c l where s: "s = c # l"
    by (cases s) (simp_all add: number_int_part_def)
  show ?thesis
  proof (cases "c = CHR ''0''")
    case True
    with r s t show ?thesis
      by (auto simp: number_int_part_def peek_append dest: delimited_peek split: option.splits if_splits)
  next
    case False
    with r s have "is_ascii_digit c" "r = digits_off s"
      by (simp_all add: number_int_part_def split: if_splits)
    with False digits_off_append [OF t, of s] s show ?thesis
      by (simp add: number_int_part_def)
  qed
qed

lemma number_fraction_append:
  assumes r: "number_fraction s = Inr r" and t: "delimited t"
  shows "number_fraction (s @ t) = Inr (r @ t)"
proof (cases "peek s = Some (CHR ''.'')")
  case True
  with r t show ?thesis
    by (cases s) (auto simp: number_fraction_def consume_def digits_off_append split: if_splits)
next
  case False
  with r t show ?thesis
    by (auto simp: number_fraction_def consume_def peek_append dest: delimited_peek(2))
qed

lemma number_exponent_append:
  assumes r: "number_exponent s = Inr r" and t: "delimited t"
  shows "number_exponent (s @ t) = Inr (r @ t)"
proof (cases s)
  case Nil
  with r t show ?thesis
    by (auto simp: number_exponent_def dest: delimited_peek split: option.split)
next
  case (Cons c l)
  show ?thesis
  proof (cases "c = CHR ''e'' \<or> c = CHR ''E''")
    case True
    define l' where "l' = (if peek l = Some (CHR ''+'') \<or> peek l = Some (CHR ''-'') then tl l else l)"
    from r Cons True have l': "length (digits_off l') \<noteq> length l'" "r = digits_off l'"
      by (auto simp: number_exponent_def Let_def l'_def split: if_splits)
    then have "l \<noteq> []" by (auto simp: l'_def digits_off_def)
    then have "(if peek (l @ t) = Some (CHR ''+'') \<or> peek (l @ t) = Some (CHR ''-'')
       then tl (l @ t) else l @ t) = l' @ t"
      by (simp add: peek_append l'_def)
    with Cons True l' t show ?thesis
      by (simp add: number_exponent_def Let_def digits_off_append)
  next
    case False
    with r Cons have "r = c # l" by (simp add: number_exponent_def)
    with Cons False show ?thesis by (simp add: number_exponent_def)
  qed
qed

lemma number_value_append:
  assumes v: "number_value s = Inr (v, r)" and t: "delimited t"
  shows "number_value (s @ t) = Inr (v, r @ t)"
proof -
  from v obtain r1 r2 where steps: "number_int_part (snd (consume (CHR ''-'') s)) = Inr r1"
    "number_fraction r1 = Inr r2" "number_exponent r2 = Inr r"
    by (auto simp: number_value_def rbind_Inr_iff Let_def split: if_splits)
  then have "s \<noteq> []" by (auto simp: consume_def number_int_part_def)
  then have "snd (consume (CHR ''-'') (s @ t)) = snd (consume (CHR ''-'') s) @ t"
    by (simp add: consume_def peek_append)
  moreover have "length r \<le> length s"
    using number_value_shorter [OF v] by simp
  ultimately show ?thesis
    using v steps t
    by (auto simp: number_value_def number_int_part_append number_fraction_append
        number_exponent_append Let_def)
qed

lemma show_nat_head:
  "\<exists>c cs. show_nat n = c # cs \<and> is_ascii_digit c \<and> (c = CHR ''0'' \<longrightarrow> n = 0)"
proof (induction n rule: show_nat.induct)
  case (1 n)
  have zero: "digit_char m = CHR ''0'' \<Longrightarrow> m < 10 \<Longrightarrow> m = 0" for m
    using digit_value_char [of m] by (simp add: digit_value_def)
  show ?case
  proof (cases "n < 10")
    case True
    with zero show ?thesis by (simp add: show_nat.simps [of n])
  next
    case False
    with "1.IH" show ?thesis by (auto simp: show_nat.simps [of n])
  qed
qed

lemma show_nat_0 [simp]: "show_nat 0 = ''0''"
  using char_of_char [of "CHR ''0''"] by (simp add: show_nat.simps [of 0] digit_char_def)

lemma digits_off_digits: "(\<And>c. c \<in> set s \<Longrightarrow> is_ascii_digit c) \<Longrightarrow> digits_off s = []"
  by (simp add: digits_off_def)


lemma number_rest_Nil: "number_fraction [] = Inr []" "number_exponent [] = Inr []"
  by (simp_all add: number_fraction_def number_exponent_def consume_def)

lemma number_value_show_nat:
  "number_value (show_nat (unat n)) = Inr (JNumber n, [])" for n :: u128
proof -
  obtain c cs where sn: "show_nat (unat n) = c # cs" and c: "is_ascii_digit c"
    and zero: "c = CHR ''0'' \<longrightarrow> unat n = 0"
    using show_nat_head by blast
  have digits: "is_ascii_digit x" if "x \<in> set (c # cs)" for x
    using that show_nat_digits [of x "unat n"] by (simp add: sn)
  have "c \<noteq> CHR ''-''" using c by (auto simp: is_ascii_digit_def)
  then have minus: "snd (consume (CHR ''-'') (c # cs)) = c # cs" by (simp add: consume_def)
  have "cs = []" if "c = CHR ''0''" using that zero sn by (cases "unat n = 0") auto
  moreover have "digits_off (c # cs) = []" by (rule digits_off_digits) (rule digits)
  ultimately have int: "number_int_part (c # cs) = Inr []"
    using c by (auto simp: number_int_part_def)
  have plain: "x \<notin> {CHR ''.'', CHR ''e'', CHR ''E''}" if "x \<in> set (c # cs)" for x
    using digits [OF that] by (auto simp: is_ascii_digit_def)
  have "\<not> starts_with ''-'' (c # cs)"
    using \<open>c \<noteq> CHR ''-''\<close> by (simp add: starts_with_def)
  moreover have "\<not> list_ex (\<lambda>c. c \<in> {CHR ''.'', CHR ''e'', CHR ''E''}) (c # cs)"
    using plain by (auto simp: list_ex_iff)
  moreover have "read_digits (c # cs) = unat n" by (metis read_show_nat sn)
  moreover have "unat n < 2 ^ 128" using unsigned_less [of n] by simp
  ultimately show ?thesis
    unfolding sn by (simp add: number_value_def minus int number_rest_Nil Let_def)
qed


section \<open>Values\<close>

fun json_depth :: "json \<Rightarrow> nat"
and members_depth :: "json_object \<Rightarrow> nat"
and elements_depth :: "json list \<Rightarrow> nat" where
  "json_depth (JObject obj) = Suc (members_depth obj)"
| "json_depth (JArray vs) = Suc (elements_depth vs)"
| "json_depth (JString s) = 0"
| "json_depth (JNumber n) = 0"
| "json_depth (JDecimal raw) = 0"
| "json_depth (JBool b) = 0"
| "json_depth JNull = 0"
| "members_depth [] = 0"
| "members_depth ((k, v) # kvs) = max (json_depth v) (members_depth kvs)"
| "elements_depth [] = 0"
| "elements_depth (v # vs) = max (json_depth v) (elements_depth vs)"

text \<open>The values the parser produces: UTF-8 strings, distinct keys, decimals as lexemes.\<close>

fun wf_json :: "json \<Rightarrow> bool"
and wf_members :: "json_object \<Rightarrow> bool"
and wf_elements :: "json list \<Rightarrow> bool" where
  "wf_json (JObject obj) = (wf_members obj \<and> distinct (object_keys obj))"
| "wf_json (JArray vs) = wf_elements vs"
| "wf_json (JString s) = utf8_valid s"
| "wf_json (JNumber n) = True"
| "wf_json (JDecimal raw) = decimal_lexeme raw"
| "wf_json (JBool b) = True"
| "wf_json JNull = True"
| "wf_members [] = True"
| "wf_members ((k, v) # kvs) = (utf8_valid k \<and> wf_json v \<and> wf_members kvs)"
| "wf_elements [] = True"
| "wf_elements (v # vs) = (wf_json v \<and> wf_elements vs)"

definition render_start :: "string \<Rightarrow> bool" where
  "render_start s \<longleftrightarrow> (case s of [] \<Rightarrow> False | c # _ \<Rightarrow>
     \<not> is_json_ws c \<and> c \<noteq> CHR ''}'' \<and> c \<noteq> CHR '']'')"

lemma ws_non_ws: "\<not> is_json_ws c \<Longrightarrow> ws (c # s) = c # s"
  by (simp add: ws_def)

lemma ws_render_start: "render_start s \<Longrightarrow> ws (s @ t) = s @ t"
  by (auto simp: render_start_def ws_def split: list.splits)

lemma number_value_head:
  "number_value s = Inr (v, r) \<Longrightarrow> \<exists>c cs. s = c # cs \<and> (c = CHR ''-'' \<or> is_ascii_digit c)"
  by (cases s) (auto simp: number_value_def rbind_Inr_iff number_int_part_def consume_def
      is_ascii_digit_def split: if_splits)

lemma parse_scalar_number:
  assumes "number_value s = Inr (v, r)"
  shows "parse_json d s = Inr (v, r)"
proof -
  from number_value_head [OF assms] obtain c cs where s: "s = c # cs"
    and c: "c = CHR ''-'' \<or> is_ascii_digit c" by blast
  then have ne: "c \<notin> {CHR ''{'', CHR ''['', quote, CHR ''t'', CHR ''f'', CHR ''n''}"
    and nw: "\<not> is_json_ws c"
    by (auto simp: is_ascii_digit_def is_json_ws_def)
  from nw have "ws s = c # cs" by (simp add: s ws_non_ws)
  moreover have "parse_scalar s = Inr (v, r)"
    using ne c assms unfolding s by (simp add: parse_scalar_def)
  ultimately show ?thesis
    using ne by (subst parse_json.simps) (simp add: s)
qed

lemma render_json_start: "wf_json v \<Longrightarrow> render_start (render_json v)"
proof (cases v)
  case (JNumber n)
  then show ?thesis
    using show_nat_head [of "unat n"] by (auto simp: render_start_def is_ascii_digit_def is_json_ws_def)
next
  case (JDecimal raw)
  moreover assume "wf_json v"
  ultimately show ?thesis
    using number_value_head [of raw]
    by (auto simp: render_start_def is_ascii_digit_def is_json_ws_def decimal_lexeme_def)
qed (auto simp: render_start_def render_string_def is_json_ws_def)

lemma parse_json_string:
  "utf8_valid s \<Longrightarrow> parse_json d (render_string s @ t) = Inr (JString s, t)"
  using string_value_render [of s t]
  by (subst parse_json.simps) (simp add: parse_scalar_def ws_non_ws render_string_def is_json_ws_def)

lemma parse_json_literals:
  "parse_json d (''true'' @ t) = Inr (JBool True, t)"
  "parse_json d (''false'' @ t) = Inr (JBool False, t)"
  "parse_json d (''null'' @ t) = Inr (JNull, t)"
  by (subst parse_json.simps, simp add: parse_scalar_def ws_non_ws is_json_ws_def literal_def)+

lemma consume_start:
  "render_start s \<Longrightarrow> \<not> fst (consume (CHR ''}'') (s @ t))"
  "render_start s \<Longrightarrow> \<not> fst (consume (CHR '']'') (s @ t))"
  by (auto simp: render_start_def fst_consume split: list.splits)

lemma render_members_start: "obj \<noteq> [] \<Longrightarrow> render_start (render_members obj)"
  by (cases obj rule: render_members.cases)
    (auto simp: render_start_def render_string_def is_json_ws_def)

lemma render_elements_start: "wf_elements vs \<Longrightarrow> vs \<noteq> [] \<Longrightarrow> render_start (render_elements vs)"
  using render_json_start [of "hd vs"]
  by (cases vs) (auto simp: render_start_def split: list.splits)

lemma parse_json_open:
  assumes "ws s = s" "d < max_json_nesting_depth"
  shows "\<not> fst (consume (CHR ''}'') s) \<Longrightarrow> parse_json d (CHR ''{'' # s) = members_loop (Suc d) [] s"
    and "\<not> fst (consume (CHR '']'') s) \<Longrightarrow> parse_json d (CHR ''['' # s) = elements_loop (Suc d) [] s"
  using assms by (subst parse_json.simps, simp add: ws_non_ws is_json_ws_def)+

lemma parse_json_empty:
  assumes "d < max_json_nesting_depth"
  shows "parse_json d (''{}'' @ t) = Inr (JObject [], t)"
    and "parse_json d (''[]'' @ t) = Inr (JArray [], t)"
  using assms by (subst parse_json.simps, simp add: ws_non_ws is_json_ws_def)+

theorem parse_render:
  "wf_json v \<Longrightarrow> d + json_depth v \<le> max_json_nesting_depth \<Longrightarrow> delimited t \<Longrightarrow>
   parse_json d (render_json v @ t) = Inr (v, t)"
  "wf_members kvs \<Longrightarrow> kvs \<noteq> [] \<Longrightarrow> distinct (object_keys (obj @ kvs)) \<Longrightarrow>
   d + members_depth kvs \<le> max_json_nesting_depth \<Longrightarrow>
   members_loop d obj (render_members kvs @ CHR ''}'' # t) = Inr (JObject (obj @ kvs), t)"
  "wf_elements vs \<Longrightarrow> vs \<noteq> [] \<Longrightarrow> d + elements_depth vs \<le> max_json_nesting_depth \<Longrightarrow>
   elements_loop d us (render_elements vs @ CHR '']'' # t) = Inr (JArray (us @ vs), t)"
proof (induction v and kvs and vs arbitrary: d t and d obj t and d us t
    rule: render_json_render_members_render_elements.induct)
  case (1 obj)
  show ?case
  proof (cases "obj = []")
    case True
    with "1.prems" parse_json_empty(1) [of d t] show ?thesis by simp
  next
    case False
    from "1.prems" have "members_loop (Suc d) [] (render_members obj @ CHR ''}'' # t) = Inr (JObject obj, t)"
      using "1.IH" [of "[]" "Suc d" t] False by simp
    with render_members_start [OF False] "1.prems" show ?thesis
      by (simp add: parse_json_open ws_render_start consume_start)
  qed
next
  case (2 vs)
  show ?case
  proof (cases "vs = []")
    case True
    with "2.prems" parse_json_empty(2) [of d t] show ?thesis by simp
  next
    case False
    from "2.prems" have "elements_loop (Suc d) [] (render_elements vs @ CHR '']'' # t) = Inr (JArray vs, t)"
      using "2.IH" [of "Suc d" "[]" t] False by simp
    with render_elements_start [of vs] False "2.prems" show ?thesis
      by (simp add: parse_json_open ws_render_start consume_start)
  qed
next
  case (3 s)
  then show ?case by (simp add: parse_json_string)
next
  case (4 n)
  then show ?case
    using parse_scalar_number [OF number_value_append [OF number_value_show_nat [of n]]] by simp
next
  case (5 raw)
  then show ?case
    using parse_scalar_number [OF number_value_append [of raw "JDecimal raw" "[]" t]]
    by (simp add: decimal_lexeme_def)
next
  case (6 b)
  then show ?case using parse_json_literals(1,2) [of d t] by (cases b) simp_all
next
  case 7
  then show ?case using parse_json_literals(3) [of d t] by simp
next
  case 8
  then show ?case by simp
next
  case (9 k v kvs)
  define rest where "rest = (if kvs = [] then [] else '','' @ render_members kvs) @ CHR ''}'' # t"
  have "delimited rest" by (simp add: rest_def)
  with "9.prems" "9.IH"(1) [of d rest]
  have v: "parse_json d (render_json v @ rest) = Inr (v, rest)" by simp
  have key: "string_value (render_string k @ CHR '':'' # render_json v @ rest) =
      Inr (k, CHR '':'' # render_json v @ rest)"
    using "9.prems" string_value_render [of k] by simp
  have start: "ws (render_string k @ s) = render_string k @ s" for s
    by (rule ws_render_start) (simp add: render_start_def render_string_def is_json_ws_def)
  have fresh: "object_insert k v obj = (None, obj @ [(k, v)])"
    using "9.prems" by (simp add: object_insert_fresh object_keys_def)
  have head: "members_loop d obj (render_string k @ CHR '':'' # render_json v @ rest) =
     (if fst (consume (CHR ''}'') (ws rest))
      then Inr (JObject (obj @ [(k, v)]), snd (consume (CHR ''}'') (ws rest)))
      else rbind (take_byte (CHR '','') (ws rest)) (members_loop d (obj @ [(k, v)])))"
    by (subst members_loop_step) (simp add: start key v fresh ws_non_ws is_json_ws_def)
  show ?case
  proof (cases "kvs = []")
    case True
    with head show ?thesis by (simp add: rest_def ws_non_ws is_json_ws_def)
  next
    case False
    with "9.IH"(2) [of "obj @ [(k, v)]" d t] "9.prems"
    have "members_loop d (obj @ [(k, v)]) (render_members kvs @ CHR ''}'' # t) =
      Inr (JObject (obj @ (k, v) # kvs), t)" by (simp add: object_keys_def)
    with head False show ?thesis
      by (simp add: rest_def ws_non_ws is_json_ws_def fst_consume)
  qed
next
  case 10
  then show ?case by simp
next
  case (11 v vs)
  define rest where "rest = (if vs = [] then [] else '','' @ render_elements vs) @ CHR '']'' # t"
  have "delimited rest" by (simp add: rest_def)
  with "11.prems" "11.IH"(1) [of d rest]
  have v: "parse_json d (render_json v @ rest) = Inr (v, rest)" by simp
  have head: "elements_loop d us (render_json v @ rest) =
     (if fst (consume (CHR '']'') (ws rest))
      then Inr (JArray (us @ [v]), snd (consume (CHR '']'') (ws rest)))
      else rbind (take_byte (CHR '','') (ws rest)) (elements_loop d (us @ [v])))"
    by (subst elements_loop_step) (simp add: v)
  show ?case
  proof (cases "vs = []")
    case True
    with head show ?thesis by (simp add: rest_def ws_non_ws is_json_ws_def)
  next
    case False
    with "11.IH"(2) [of d "us @ [v]" t] "11.prems"
    have "elements_loop d (us @ [v]) (render_elements vs @ CHR '']'' # t) =
      Inr (JArray (us @ v # vs), t)" by simp
    with head False show ?thesis
      by (simp add: rest_def ws_non_ws is_json_ws_def fst_consume)
  qed
qed

end
