(* ===== verification/Json_Soundness.thy ===== *)
theory Json_Soundness
  imports Json_Roundtrip
begin

text \<open>
  What the strict parser accepts: every parsed value is well formed and at most 64 containers
  deep, so rendering it and parsing the result gives it back; the canonical objects round-trip.
\<close>

section \<open>Strings are UTF-8\<close>

lemma byte_char_of: "n < 256 \<Longrightarrow> byte (char_of n) = n"
  by simp

lemma utf8_valid_single:
  assumes "s \<noteq> []" "utf8_width s = length s"
  shows "utf8_valid s"
  using assms by (simp add: utf8_valid_step)

lemma utf8_valid_two:
  fixes a b :: nat
  assumes "2 \<le> a" "a < 32" "b < 64"
  shows "utf8_valid [char_of (192 + a), char_of (128 + b)]"
proof -
  have "byte (char_of (192 + a)) = 192 + a" "byte (char_of (128 + b)) = 128 + b"
    using assms by simp_all
  with assms show ?thesis
    by (intro utf8_valid_single)
      (simp_all add: utf8_width_def lead_width_def well_formed_tail_def continuation_def del: of_char_of)
qed

lemma utf8_valid_three:
  fixes a b c :: nat
  assumes "a < 16" "b < 64" "c < 64" "a = 0 \<longrightarrow> 32 \<le> b" "a = 13 \<longrightarrow> b \<le> 31"
  shows "utf8_valid [char_of (224 + a), char_of (128 + b), char_of (128 + c)]"
proof -
  have "byte (char_of (224 + a)) = 224 + a" "byte (char_of (128 + b)) = 128 + b"
    "byte (char_of (128 + c)) = 128 + c"
    using assms by simp_all
  with assms show ?thesis
    by (intro utf8_valid_single)
      (simp_all add: utf8_width_def lead_width_def well_formed_tail_def continuation_def
        eval_nat_numeral del: of_char_of)
qed

lemma utf8_valid_four:
  fixes a b c d :: nat
  assumes "a < 5" "b < 64" "c < 64" "d < 64" "a = 0 \<longrightarrow> 16 \<le> b" "a = 4 \<longrightarrow> b \<le> 15"
  shows "utf8_valid [char_of (240 + a), char_of (128 + b), char_of (128 + c), char_of (128 + d)]"
proof -
  have "byte (char_of (240 + a)) = 240 + a" "byte (char_of (128 + b)) = 128 + b"
    "byte (char_of (128 + c)) = 128 + c" "byte (char_of (128 + d)) = 128 + d"
    using assms by simp_all
  with assms show ?thesis
    by (intro utf8_valid_single)
      (simp_all add: utf8_width_def lead_width_def well_formed_tail_def continuation_def
        eval_nat_numeral del: of_char_of)
qed

lemma utf8_valid_encode:
  assumes "char_from_u32 n = Some ch"
  shows "utf8_valid (utf8_encode ch)"
proof -
  from assms have ch: "ch = n" and range: "n < 55296 \<or> 57344 \<le> n \<and> n < 1114112"
    by (auto simp: char_from_u32_def split: if_splits)
  consider "n < 128" | "128 \<le> n" "n < 2048" | "2048 \<le> n" "n < 65536" | "65536 \<le> n"
    by linarith
  then show ?thesis
  proof cases
    case 1
    then show ?thesis by (simp add: ch utf8_encode_def utf8_valid_ascii_Cons)
  next
    case 2
    then have "utf8_valid [char_of (192 + n div 64), char_of (128 + n mod 64)]"
      by (intro utf8_valid_two) auto
    with 2 show ?thesis by (simp add: ch utf8_encode_def)
  next
    case 3
    have q: "n div 64 = n div 4096 * 64 + n div 64 mod 64"
      using div_mult_mod_eq [of "n div 64" 64] by (simp add: div_mult2_eq [symmetric])
    have lo: "32 \<le> n div 64" using 3 by simp
    have hi: "n div 64 < 864 \<or> 896 \<le> n div 64" using range by auto
    from q lo have "n div 4096 = 0 \<longrightarrow> 32 \<le> n div 64 mod 64" by linarith
    moreover from q hi have "n div 4096 = 13 \<longrightarrow> n div 64 mod 64 \<le> 31"
      using mod_less_divisor [of 64 "n div 64"] by linarith
    ultimately have "utf8_valid [char_of (224 + n div 4096), char_of (128 + n div 64 mod 64),
        char_of (128 + n mod 64)]"
      using 3 by (intro utf8_valid_three) auto
    with 3 show ?thesis by (simp add: ch utf8_encode_def)
  next
    case 4
    have q: "n div 4096 = n div 262144 * 64 + n div 4096 mod 64"
      using div_mult_mod_eq [of "n div 4096" 64] by (simp add: div_mult2_eq [symmetric])
    have lo: "16 \<le> n div 4096" using 4 by simp
    have hi: "n div 4096 < 272" using 4 range by auto
    from q lo have "n div 262144 = 0 \<longrightarrow> 16 \<le> n div 4096 mod 64" by linarith
    moreover from q hi have "n div 262144 = 4 \<longrightarrow> n div 4096 mod 64 \<le> 15" by linarith
    ultimately have "utf8_valid [char_of (240 + n div 262144), char_of (128 + n div 4096 mod 64),
        char_of (128 + n div 64 mod 64), char_of (128 + n mod 64)]"
      using 4 range by (intro utf8_valid_four) auto
    with 4 show ?thesis by (simp add: ch utf8_encode_def)
  qed
qed

lemma unicode_escape_valid: "unicode_escape s = Inr (ch, r) \<Longrightarrow> utf8_valid (utf8_encode ch)"
  by (auto simp: unicode_escape_def rbind_Inr_iff split: if_splits option.splits
      intro: utf8_valid_encode)

lemma hd_char_slices_valid: "utf8_valid s \<Longrightarrow> s \<noteq> [] \<Longrightarrow> utf8_valid (hd (char_slices s))"
  using utf8_width_le [of s]
  by (auto simp: utf8_valid_step [of s] char_slices.simps [of s] Let_def max_def
      utf8_width_take_same intro!: utf8_valid_single)

lemma string_char_valid: "string_char c s = Inr (x, r) \<Longrightarrow> utf8_valid x"
  by (auto simp: string_char_def rbind_Inr_iff utf8_valid_ascii_Cons
      split: if_splits list.splits option.splits
      dest: simple_escape_ascii unicode_escape_valid lead_byte_width_pos
      intro!: hd_char_slices_valid)

lemma string_body_valid: "string_body out s = Inr (v, r) \<Longrightarrow> utf8_valid out \<Longrightarrow> utf8_valid v"
proof (induction out s rule: string_body.induct)
  case (2 out c s)
  show ?case
  proof (cases "c = quote")
    case False
    with "2.prems" obtain x r' where x: "string_char c s = Inr (x, r')"
      "string_body (out @ x) r' = Inr (v, r)"
      by (auto simp: string_body_step rbind_Inr_iff)
    with "2.IH" [OF False x(1) refl string_char_shorter [OF x(1)] x(2)] "2.prems" show ?thesis
      by (simp add: utf8_valid_append string_char_valid)
  qed (use 2 in \<open>simp add: string_body_step\<close>)
qed simp

lemma string_value_valid: "string_value s = Inr (v, r) \<Longrightarrow> utf8_valid v"
  by (auto simp: string_value_def rbind_Inr_iff dest: string_body_valid)

section \<open>Decimals are lexemes\<close>

lemma digits_off_suffix: "\<exists>p. s = p @ digits_off s"
  unfolding digits_off_def by (metis takeWhile_dropWhile_id)

lemma digits_off_drop: "digits_off (s @ t) = r @ t \<Longrightarrow> digits_off s = r"
proof (induction s arbitrary: r)
  case Nil
  have "length (digits_off t) \<le> length t" by (rule length_digits_off)
  with Nil show ?case by (auto simp: digits_off_def)
next
  case (Cons c s)
  then show ?case by (cases "is_ascii_digit c") (auto simp: digits_off_def)
qed

lemma number_int_part_drop:
  assumes "number_int_part (s @ t) = Inr (r @ t)"
  shows "number_int_part s = Inr r"
proof (cases s)
  case Nil
  with number_int_part_shorter [OF assms] show ?thesis by simp
next
  case (Cons c l)
  with assms digits_off_drop [of s t r] show ?thesis
    by (cases l) (auto simp: number_int_part_def split: if_splits option.splits)
qed

lemma number_fraction_drop:
  assumes "number_fraction (s @ t) = Inr (r @ t)"
  shows "number_fraction s = Inr r"
proof (cases s)
  case Nil
  with number_fraction_shorter [OF assms] show ?thesis by (simp add: number_rest_Nil)
next
  case (Cons c l)
  show ?thesis
  proof (cases "c = CHR ''.''")
    case True
    with assms Cons have "digits_off (l @ t) = r @ t" "length (digits_off (l @ t)) \<noteq> length (l @ t)"
      by (simp_all add: number_fraction_def split: if_splits)
    with digits_off_drop [of l t r] have "digits_off l = r" "length r \<noteq> length l" by auto
    with Cons True show ?thesis by (simp add: number_fraction_def)
  next
    case False
    with assms Cons have "r = c # l" by (auto simp: number_fraction_def consume_def)
    with Cons False show ?thesis by (simp add: number_fraction_def consume_def)
  qed
qed

lemma number_exponent_drop:
  assumes "number_exponent (s @ t) = Inr (r @ t)"
  shows "number_exponent s = Inr r"
proof (cases s)
  case Nil
  with number_exponent_shorter [OF assms] show ?thesis by (simp add: number_rest_Nil)
next
  case (Cons c l)
  show ?thesis
  proof (cases "c = CHR ''e'' \<or> c = CHR ''E''")
    case False
    with assms Cons have "r = c # l" by (auto simp: number_exponent_def)
    with Cons False show ?thesis by (simp add: number_exponent_def)
  next
    case True
    define signed where "signed x \<longleftrightarrow> peek x = Some (CHR ''+'') \<or> peek x = Some (CHR ''-'')" for x
    define body where "body x = (if signed x then tl x else x)" for x
    have eq: "number_exponent (c # x) =
        (if length (digits_off (body x)) = length (body x)
         then Inl (json_error ''invalid exponent'') else Inr (digits_off (body x)))" for x
      using True by (simp add: number_exponent_def body_def signed_def Let_def)
    from assms Cons have lt: "digits_off (body (l @ t)) = r @ t"
      "length (digits_off (body (l @ t))) \<noteq> length (body (l @ t))"
      by (simp_all add: eq split: if_splits)
    have "l \<noteq> []"
    proof
      assume "l = []"
      with lt have off: "digits_off (body t) = r @ t" "length (digits_off (body t)) \<noteq> length (body t)"
        by simp_all
      have "length (r @ t) \<le> length (body t)"
        using length_digits_off [of "body t"] off(1) by simp
      moreover have "length (body t) < length t" if "signed t"
        using that by (cases t) (auto simp: body_def signed_def)
      moreover have "body t = t" if "\<not> signed t" using that by (simp add: body_def)
      ultimately show False
        using off by (cases "signed t") (fastforce, simp)
    qed
    then have "body (l @ t) = body l @ t" by (simp add: body_def signed_def peek_append)
    with lt digits_off_drop [of "body l" t r] have "digits_off (body l) = r" "length r \<noteq> length (body l)"
      by auto
    with Cons show ?thesis by (simp add: eq)
  qed
qed


lemma number_int_part_suffix: "number_int_part s = Inr r \<Longrightarrow> \<exists>p. s = p @ r"
  using digits_off_suffix [of s]
  by (cases s) (auto simp: number_int_part_def split: if_splits option.splits)

lemma number_fraction_suffix: "number_fraction s = Inr r \<Longrightarrow> \<exists>p. s = p @ r"
  using digits_off_suffix [of "tl s"]
  by (cases s) (auto simp: number_fraction_def consume_def Cons_eq_append_conv split: if_splits)

lemma number_exponent_suffix: "number_exponent s = Inr r \<Longrightarrow> \<exists>p. s = p @ r"
  using digits_off_suffix [of "tl s"] digits_off_suffix [of "tl (tl s)"]
  by (cases s; cases "tl s")
    (auto simp: number_exponent_def Let_def Cons_eq_append_conv split: if_splits)

lemma number_value_lexeme:
  assumes v: "number_value s = Inr (JDecimal raw, r)"
  shows "decimal_lexeme raw"
proof -
  define m s1 where "m = (if peek s = Some (CHR ''-'') then ''-'' else [])"
    and "s1 = snd (consume (CHR ''-'') s)"
  have s: "s = m @ s1" by (cases s) (auto simp: m_def s1_def consume_def)
  from v obtain r1 r2 where steps: "number_int_part s1 = Inr r1"
    "number_fraction r1 = Inr r2" "number_exponent r2 = Inr r"
    and raw: "raw = take (length s - length r) s"
    and kind: "\<not> (\<not> starts_with ''-'' raw \<and> \<not> list_ex (\<lambda>c. c \<in> {CHR ''.'', CHR ''e'', CHR ''E''}) raw
          \<and> read_digits raw < 2 ^ 128)"
    by (auto simp: number_value_def s1_def rbind_Inr_iff Let_def split: if_splits)
  from steps number_int_part_suffix number_fraction_suffix number_exponent_suffix
  obtain p1 p2 p3 where p: "s1 = p1 @ r1" "r1 = p2 @ r2" "r2 = p3 @ r" by metis
  have raw_eq: "raw = m @ p1 @ p2 @ p3" by (simp add: raw s p)
  have "number_int_part (p1 @ p2 @ p3) = Inr (p2 @ p3)"
    by (rule number_int_part_drop [where t = r]) (use steps(1) in \<open>simp add: p\<close>)
  moreover have "number_fraction (p2 @ p3) = Inr p3"
    by (rule number_fraction_drop [where t = r]) (use steps(2) in \<open>simp add: p\<close>)
  moreover have "number_exponent p3 = Inr []"
    by (rule number_exponent_drop [where t = r]) (use steps(3) in \<open>simp add: p\<close>)
  moreover have "snd (consume (CHR ''-'') raw) = p1 @ p2 @ p3"
  proof (cases "peek s = Some (CHR ''-'')")
    case True
    then show ?thesis by (simp add: raw_eq m_def)
  next
    case False
    have "p1 \<noteq> []" using number_int_part_shorter [OF steps(1)] p(1) by auto
    moreover have "m = []" using False by (simp add: m_def)
    then have "s = p1 @ r1" using s p(1) by (simp only: append_Nil)
    ultimately have "peek (p1 @ p2 @ p3) = peek s" by (simp add: peek_append)
    with False show ?thesis by (simp add: raw_eq m_def consume_def)
  qed
  moreover have "number_value raw =
      (if \<not> starts_with ''-'' raw \<and> \<not> list_ex (\<lambda>c. c \<in> {CHR ''.'', CHR ''e'', CHR ''E''}) raw
          \<and> read_digits raw < 2 ^ 128
       then Inr (JNumber (of_nat (read_digits raw)), []) else Inr (JDecimal raw, []))"
    if "number_int_part (snd (consume (CHR ''-'') raw)) = Inr a" "number_fraction a = Inr b"
      "number_exponent b = Inr []" for a b
    using that by (simp add: number_value_def Let_def)
  ultimately show ?thesis
    using kind unfolding decimal_lexeme_def by simp
qed

section \<open>Parsed values are well formed\<close>

lemma wf_members_append: "wf_members (xs @ ys) \<longleftrightarrow> wf_members xs \<and> wf_members ys"
  by (induction xs) auto

lemma wf_elements_append: "wf_elements (xs @ ys) \<longleftrightarrow> wf_elements xs \<and> wf_elements ys"
  by (induction xs) auto

lemma members_depth_append: "members_depth (xs @ ys) = max (members_depth xs) (members_depth ys)"
  by (induction xs) auto

lemma elements_depth_append: "elements_depth (xs @ ys) = max (elements_depth xs) (elements_depth ys)"
  by (induction xs) auto

lemma number_value_wf: "number_value s = Inr (v, r) \<Longrightarrow> wf_json v \<and> json_depth v = 0"
proof (cases v)
  case (JDecimal raw)
  moreover assume "number_value s = Inr (v, r)"
  ultimately show ?thesis by (simp add: number_value_lexeme)
qed (auto simp: number_value_def rbind_Inr_iff Let_def split: if_splits)

lemma parse_scalar_wf:
  assumes "parse_scalar s = Inr (v, r)"
  shows "wf_json v \<and> json_depth v = 0"
proof -
  from assms have "(\<exists>x. string_value s = Inr (x, r) \<and> v = JString x) \<or> (\<exists>b. v = JBool b)
      \<or> v = JNull \<or> number_value s = Inr (v, r)"
    by (auto simp: parse_scalar_def rbind_Inr_iff split: option.split_asm if_split_asm)
  then show ?thesis
    by (elim disjE exE conjE) (simp_all add: string_value_valid number_value_wf)
qed

definition wf_at :: "nat \<Rightarrow> json \<Rightarrow> bool" where
  "wf_at d v \<longleftrightarrow> wf_json v \<and> d + json_depth v \<le> max_json_nesting_depth"

definition wf_object_at :: "nat \<Rightarrow> json_object \<Rightarrow> bool" where
  "wf_object_at d obj \<longleftrightarrow> wf_members obj \<and> distinct (object_keys obj)
     \<and> d + members_depth obj \<le> max_json_nesting_depth"

definition wf_array_at :: "nat \<Rightarrow> json list \<Rightarrow> bool" where
  "wf_array_at d vs \<longleftrightarrow> wf_elements vs \<and> d + elements_depth vs \<le> max_json_nesting_depth"

lemma wf_object_at_insert:
  assumes "wf_object_at d obj" "wf_at d v" "utf8_valid k" "fst (object_insert k v obj) = None"
  shows "wf_object_at d (snd (object_insert k v obj))"
proof -
  from assms(4) have fresh: "k \<notin> set (object_keys obj)"
    by (auto simp: fst_object_insert map_of_eq_None_iff object_keys_def)
  with assms show ?thesis
    by (auto simp: wf_object_at_def wf_at_def object_insert_fresh wf_members_append
        members_depth_append object_keys_def)
qed

lemma parse_wf:
  "parse_json d s = Inr (v, r) \<Longrightarrow> d \<le> max_json_nesting_depth \<Longrightarrow> wf_at d v"
  "members_loop d obj s = Inr (v, r) \<Longrightarrow> wf_object_at d obj \<Longrightarrow>
   \<exists>obj'. v = JObject obj' \<and> wf_object_at d obj'"
  "elements_loop d vs s = Inr (v, r) \<Longrightarrow> wf_array_at d vs \<Longrightarrow>
   \<exists>vs'. v = JArray vs' \<and> wf_array_at d vs'"
proof (induction d s and d obj s and d vs s arbitrary: v r and v r and v r
    rule: parse_json_members_loop_elements_loop.induct)
  case (1 d s0)
  show ?case
  proof (cases "ws s0")
    case Nil
    with "1.prems" show ?thesis by (simp add: parse_json.simps [of d s0])
  next
    case (Cons c s)
    consider (obj) "c = CHR ''{''" | (arr) "c \<noteq> CHR ''{''" "c = CHR ''[''"
      | (other) "c \<noteq> CHR ''{''" "c \<noteq> CHR ''[''" by blast
    then show ?thesis
    proof cases
      case obj
      with "1.prems" Cons have d: "\<not> max_json_nesting_depth \<le> d"
        by (simp add: parse_json.simps [of d s0] split: if_splits)
      show ?thesis
      proof (cases "fst (consume (CHR ''}'') (ws s))")
        case True
        with "1.prems" Cons obj d show ?thesis
          by (auto simp: parse_json.simps [of d s0] wf_at_def object_keys_def)
      next
        case False
        with "1.prems" Cons obj d have l: "length (ws s) < length s0"
          "members_loop (Suc d) [] (ws s) = Inr (v, r)"
          by (simp_all add: parse_json.simps [of d s0] split: if_splits)
        moreover have "wf_object_at (Suc d) []" using d by (simp add: wf_object_at_def object_keys_def)
        ultimately obtain obj' where "v = JObject obj'" "wf_object_at (Suc d) obj'"
          using "1.IH"(1) [OF Cons obj d False] by blast
        then show ?thesis by (simp add: wf_object_at_def wf_at_def)
      qed
    next
      case arr
      with "1.prems" Cons have d: "\<not> max_json_nesting_depth \<le> d"
        by (simp add: parse_json.simps [of d s0] split: if_splits)
      show ?thesis
      proof (cases "fst (consume (CHR '']'') (ws s))")
        case True
        with "1.prems" Cons arr d show ?thesis
          by (auto simp: parse_json.simps [of d s0] wf_at_def)
      next
        case False
        with "1.prems" Cons arr d have l: "length (ws s) < length s0"
          "elements_loop (Suc d) [] (ws s) = Inr (v, r)"
          by (simp_all add: parse_json.simps [of d s0] split: if_splits)
        moreover have "wf_array_at (Suc d) []" using d by (simp add: wf_array_at_def)
        ultimately obtain vs' where "v = JArray vs'" "wf_array_at (Suc d) vs'"
          using "1.IH"(2) [OF Cons arr d False] by blast
        then show ?thesis by (simp add: wf_array_at_def wf_at_def)
      qed
    next
      case other
      with "1.prems" Cons have "parse_scalar (c # s) = Inr (v, r)"
        by (simp add: parse_json.simps [of d s0])
      from parse_scalar_wf [OF this] "1.prems" show ?thesis by (simp add: wf_at_def)
    qed
  qed
next
  case (2 d obj s)
  from "2.prems"(1) obtain key r1 r2 w r3 where steps:
      "string_value (ws s) = Inr (key, r1)" "take_byte (CHR '':'') (ws r1) = Inr r2"
      "length r2 < length s" "parse_json d r2 = Inr (w, r3)"
      "fst (object_insert key w obj) = None"
    by (auto simp: members_loop.simps [of d obj s] split: sum.splits prod.splits if_splits)
  have "d \<le> max_json_nesting_depth" using "2.prems"(2) by (simp add: wf_object_at_def)
  with "2.IH"(1) [OF steps(1) refl steps(2)] steps have w: "wf_at d w" by blast
  have obj': "wf_object_at d (snd (object_insert key w obj))"
    by (rule wf_object_at_insert) (use "2.prems" w steps string_value_valid in auto)
  show ?case
  proof (cases "fst (consume (CHR ''}'') (ws r3))")
    case True
    with "2.prems" steps obj' show ?thesis by (auto simp: members_loop.simps [of d obj s])
  next
    case False
    with "2.prems" steps obtain r4 where r4: "take_byte (CHR '','') (ws r3) = Inr r4"
      "length r4 < length s" "members_loop d (snd (object_insert key w obj)) r4 = Inr (v, r)"
      by (auto simp: members_loop.simps [of d obj s] split: sum.splits if_splits)
    show ?thesis
      using "2.IH"(2) [OF steps(1) refl steps(2) _ steps(4) refl _ False r4(1,2,3) obj'] steps(3,5)
      by simp
  qed
next
  case (3 d vs s)
  from "3.prems" obtain w r1 where w: "parse_json d s = Inr (w, r1)"
    by (auto simp: elements_loop.simps [of d vs s] split: sum.splits prod.splits)
  have "d \<le> max_json_nesting_depth" using "3.prems"(2) by (simp add: wf_array_at_def)
  with "3.IH"(1) [OF w] have "wf_at d w" by blast
  with "3.prems" have vs': "wf_array_at d (vs @ [w])"
    by (simp add: wf_array_at_def wf_at_def wf_elements_append elements_depth_append max_def)
  show ?case
  proof (cases "fst (consume (CHR '']'') (ws r1))")
    case True
    with "3.prems" w vs' show ?thesis by (auto simp: elements_loop.simps [of d vs s])
  next
    case False
    with "3.prems" w obtain r2 where r2: "take_byte (CHR '','') (ws r1) = Inr r2"
      "length r2 < length s" "elements_loop d (vs @ [w]) r2 = Inr (v, r)"
      by (auto simp: elements_loop.simps [of d vs s] split: sum.splits if_splits)
    from "3.IH"(2) [OF w refl False r2 vs'] show ?thesis .
  qed
qed

lemma parse_value_wf: "parse_value s ctxt = Inr v \<Longrightarrow> wf_at 0 v"
  by (auto simp: parse_value_def rbind_Inr_iff split: if_splits dest: parse_wf(1))

lemma parse_value_render: "wf_at 0 v \<Longrightarrow> parse_value (render_compact v) ctxt = Inr v"
  using parse_render(1) [of v 0 "[]"]
  by (simp add: parse_value_def render_compact_def wf_at_def ws_def)


section \<open>Canonical objects\<close>

text \<open>
  \<open>json_of_cjson\<close> reads a canonical value as a JSON value: the inverse of
  \<open>canonical_from_json\<close> on values whose numbers are written in decimal.
\<close>

fun json_of_cjson :: "cjson \<Rightarrow> json"
and json_of_cmembers :: "(string \<times> cjson) list \<Rightarrow> json_object"
and json_of_celements :: "cjson list \<Rightarrow> json list" where
  "json_of_cjson (CObject obj) = JObject (json_of_cmembers obj)"
| "json_of_cjson (CArray vs) = JArray (json_of_celements vs)"
| "json_of_cjson (CString s) = JString s"
| "json_of_cjson (CUnsigned raw) = JNumber (of_nat (read_digits raw))"
| "json_of_cjson (CBool b) = JBool b"
| "json_of_cjson CNull = JNull"
| "json_of_cmembers [] = []"
| "json_of_cmembers ((k, v) # kvs) = (k, json_of_cjson v) # json_of_cmembers kvs"
| "json_of_celements [] = []"
| "json_of_celements (v # vs) = json_of_cjson v # json_of_celements vs"

definition canonical_number :: "string \<Rightarrow> bool" where
  "canonical_number raw \<longleftrightarrow> read_digits raw < 2 ^ 128 \<and> show_nat (read_digits raw) = raw"

fun wf_cjson :: "cjson \<Rightarrow> bool"
and wf_cmembers :: "(string \<times> cjson) list \<Rightarrow> bool"
and wf_celements :: "cjson list \<Rightarrow> bool" where
  "wf_cjson (CObject obj) = (wf_cmembers obj \<and> distinct (object_keys obj))"
| "wf_cjson (CArray vs) = wf_celements vs"
| "wf_cjson (CString s) = utf8_valid s"
| "wf_cjson (CUnsigned raw) = canonical_number raw"
| "wf_cjson (CBool b) = True"
| "wf_cjson CNull = True"
| "wf_cmembers [] = True"
| "wf_cmembers ((k, v) # kvs) = (utf8_valid k \<and> wf_cjson v \<and> wf_cmembers kvs)"
| "wf_celements [] = True"
| "wf_celements (v # vs) = (wf_cjson v \<and> wf_celements vs)"

lemma keys_json_of_cmembers [simp]: "object_keys (json_of_cmembers obj) = object_keys obj"
  by (induction obj) (auto simp: object_keys_def)

lemma json_of_cmembers_Nil [simp]: "json_of_cmembers obj = [] \<longleftrightarrow> obj = []"
  by (cases obj rule: json_of_cmembers.cases) auto

lemma json_of_celements_Nil [simp]: "json_of_celements vs = [] \<longleftrightarrow> vs = []"
  by (cases vs) auto

lemma canonical_number_unat:
  assumes "canonical_number raw"
  shows "show_nat (unat (of_nat (read_digits raw) :: u128)) = raw"
proof -
  have "unat (of_nat (read_digits raw) :: u128) = read_digits raw"
    using assms by (intro unat_of_nat_small) (simp add: canonical_number_def)
  with assms show ?thesis by (simp add: canonical_number_def)
qed

lemma canonical_of_json_of_cjson:
  "wf_cjson c \<Longrightarrow> canonical_from_json ctxt (json_of_cjson c) = Inr c"
  "wf_cmembers obj \<Longrightarrow> canonical_members ctxt (json_of_cmembers obj) = Inr obj"
  "wf_celements vs \<Longrightarrow> canonical_elements ctxt (json_of_celements vs) = Inr vs"
  by (induction c and obj and vs rule: json_of_cjson_json_of_cmembers_json_of_celements.induct)
    (auto simp: canonical_number_unat)

lemma render_json_of_cjson:
  "wf_cjson c \<Longrightarrow> render_json (json_of_cjson c) = render_cjson c"
  "wf_cmembers obj \<Longrightarrow> render_members (json_of_cmembers obj) = render_cmembers obj"
  "wf_celements vs \<Longrightarrow> render_elements (json_of_celements vs) = render_celements vs"
  by (induction c and obj and vs rule: json_of_cjson_json_of_cmembers_json_of_celements.induct)
    (auto simp: canonical_number_unat)

lemma wf_json_of_cjson:
  "wf_cjson c \<Longrightarrow> wf_json (json_of_cjson c)"
  "wf_cmembers obj \<Longrightarrow> wf_members (json_of_cmembers obj)"
  "wf_celements vs \<Longrightarrow> wf_elements (json_of_celements vs)"
  by (induction c and obj and vs rule: json_of_cjson_json_of_cmembers_json_of_celements.induct) auto

definition cjson_depth :: "cjson \<Rightarrow> nat" where
  "cjson_depth c = json_depth (json_of_cjson c)"

lemma parse_canonical_render:
  assumes "wf_cjson (CObject obj)" "cjson_depth (CObject obj) \<le> max_json_nesting_depth"
  shows "parse_canonical_object (render_canonical_object obj) (object_keys obj) ctxt = Inr obj"
proof -
  have "render_canonical_object obj = render_compact (JObject (json_of_cmembers obj))"
    using assms(1) by (simp add: render_canonical_object_def render_compact_def render_json_of_cjson(2))
  moreover have "wf_at 0 (JObject (json_of_cmembers obj))"
    using assms by (simp add: wf_at_def cjson_depth_def wf_json_of_cjson(2))
  ultimately have "parse_value (render_canonical_object obj) ctxt = Inr (JObject (json_of_cmembers obj))"
    by (simp only: parse_value_render)
  with assms(1) show ?thesis
    by (simp add: parse_canonical_object_def canonical_of_json_of_cjson(2))
qed

lemma foldl_digits_mono: "n \<le> foldl (\<lambda>n c. 10 * n + digit_value c) n xs"
proof (induction xs arbitrary: n)
  case (Cons c xs)
  from Cons [of "10 * n + digit_value c"] show ?case by simp
qed simp

lemma canonical_digits_correct:
  assumes "list_all is_ascii_digit bs" "foldl (\<lambda>n c. 10 * n + digit_value c) (unat v) bs < 2 ^ 128"
  shows "canonical_digits ctxt key v bs =
    Inr (of_nat (foldl (\<lambda>n c. 10 * n + digit_value c) (unat v) bs))"
  using assms
proof (induction bs arbitrary: v)
  case Nil
  then show ?case by simp
next
  case (Cons b bs)
  let ?n = "10 * unat v + digit_value b"
  from foldl_digits_mono [of ?n bs] Cons.prems(2) have lt: "?n < 2 ^ 128" by simp
  have b: "byte b - 48 = digit_value b" "48 \<le> byte b" "digit_value b \<le> 9"
    using Cons.prems(1) by (auto simp: digit_value_def is_ascii_digit_def)
  have mul: "checked_mul v 10 = Some (v * 10)" "unat (v * 10) = 10 * unat v"
    using lt by (auto simp: checked_mul_def unat_mul_exact mult.commute)
  have d: "unat (of_nat (digit_value b) :: u128) = digit_value b"
    using b by (intro unat_of_nat_small) simp
  obtain w where w: "checked_add (v * 10) (of_nat (digit_value b)) = Some w" "unat w = ?n"
    using lt mul d by (simp add: checked_add_def unat_add_exact)
  show ?case
    using Cons.IH [of w] Cons.prems w mul b by simp
qed

lemma canonical_u128_render:
  assumes "n < 2 ^ 128"
  shows "parse_canonical_u128 (show_nat n) ctxt key = Inr (of_nat n)"
proof -
  obtain c cs where sn: "show_nat n = c # cs" and c: "c = CHR ''0'' \<longrightarrow> n = 0"
    using show_nat_head by blast
  have "list_all is_ascii_digit (show_nat n)"
    using show_nat_digits by (auto simp: list_all_iff)
  moreover have "foldl (\<lambda>n c. 10 * n + digit_value c) (unat (0 :: u128)) (show_nat n) = n"
    using read_show_nat [of n] by (simp add: read_digits_def)
  ultimately have "canonical_digits ctxt key 0 (show_nat n) = Inr (of_nat n)"
    using assms by (simp add: canonical_digits_correct)
  moreover have "\<not> (1 < length (show_nat n) \<and> starts_with ''0'' (show_nat n))"
    using sn c by (auto simp: starts_with_iff)
  ultimately show ?thesis by (simp add: parse_canonical_u128_def)
qed

end
