(* ===== verification/Json_Templates.thy ===== *)
theory Json_Templates
  imports Json_Soundness
begin

text \<open>
  The hand-written JSON templates of the storage codecs: a \<open>format!\<close> string with the keys in a
  fixed order and every string passed through \<open>escape_string_content\<close>. \<open>template\<close> is the text
  of such an object for the two layouts the codecs use (one line, and one member per line);
  \<open>parse_template\<close> shows that the strict parser reads back the members.
\<close>

section \<open>Escaped contents\<close>

lemma cont_bits_eq: "128 \<le> byte b \<Longrightarrow> byte b \<le> 191 \<Longrightarrow> cont_bits b = byte b - 128"
proof -
  assume b: "128 \<le> byte b" "byte b \<le> 191"
  define y where "y = byte b - 128"
  have "byte b = y + 2 * 64" "y < 64" using b by (simp_all add: y_def)
  then have "byte b mod 64 = y" by (simp only: mod_mult_self1) simp
  with b show ?thesis by (simp add: cont_bits_def y_def)
qed

lemma code_point_two:
  assumes "utf8_width s = 2" "s = a # b # r" "is_control (code_point [a, b])"
  shows "utf8_encode (code_point [a, b]) = [a, b] \<and> code_point [a, b] < 65536
    \<and> char_from_u32 (code_point [a, b]) = Some (code_point [a, b])"
proof -
  from assms have a: "194 \<le> byte a" "byte a < 224" and b: "128 \<le> byte b" "byte b \<le> 191"
    by (auto simp: utf8_width_def lead_width_def well_formed_tail_def continuation_def Let_def
        split: if_splits)
  define x y where "x = byte a - 192" and "y = byte b - 128"
  have xy: "byte a = 192 + x" "byte b = 128 + y" "2 \<le> x" "x < 32" "y < 64"
    using a b by (auto simp: x_def y_def)
  have "(x + 6 * 32) mod 32 = x" using xy by (simp only: mod_mult_self1) simp
  then have "byte a mod 32 = x" using xy by (simp add: add.commute)
  then have cp: "code_point [a, b] = x * 64 + y"
    using b by (simp add: cont_bits_eq y_def)
  have lt: "x * 64 + y < 160" using assms(3) xy unfolding cp by (auto simp: is_control_def)
  with xy have "x = 2" by simp
  then have "utf8_encode (x * 64 + y) = [char_of (192 + x), char_of (128 + y)]"
    using lt xy by (simp add: utf8_encode_def)
  moreover have "char_of (192 + x) = a" by (metis char_of_char xy(1))
  moreover have "char_of (128 + y) = b" by (metis char_of_char xy(2))
  ultimately show ?thesis using lt by (simp only: cp) (simp add: char_from_u32_def)
qed

lemma code_point_wide:
  assumes "2 < utf8_width s"
  shows "\<not> is_control (code_point (take (utf8_width s) s))"
proof (cases s)
  case Nil
  with assms show ?thesis by simp
next
  case (Cons a r)
  let ?w = "lead_width a"
  from assms Cons have w: "utf8_width s = ?w" and t: "length (take (?w - 1) r) = ?w - 1"
    and tail: "well_formed_tail a (take (?w - 1) r)"
    by (simp_all add: utf8_width_def Let_def split: if_splits)
  from assms w consider "?w = 3" "224 \<le> byte a" "byte a < 240"
    | "?w = 4" "240 \<le> byte a" "byte a < 245"
    by (auto simp: lead_width_def split: if_splits)
  then show ?thesis
  proof cases
    case 1
    with t obtain b c where r: "take 2 r = [b, c]"
      by (cases r; cases "tl r") auto
    have b: "128 \<le> byte b" "byte b \<le> 191" "byte a = 224 \<longrightarrow> 160 \<le> byte b"
      using tail 1 r by (auto simp: well_formed_tail_def continuation_def)
    have "2048 \<le> byte a mod 16 * 4096 + cont_bits b * 64"
    proof (cases "byte a = 224")
      case True
      with b have "32 \<le> cont_bits b"
        by (simp add: cont_bits_eq)
      then show ?thesis by simp
    next
      case False
      then have "1 \<le> byte a - 224" "byte a mod 16 = byte a - 224" using 1
        by (auto simp: mod_nat_eqI)
      then have "1 \<le> byte a mod 16" by simp
      then show ?thesis by simp
    qed
    moreover have "take ?w s = [a, b, c]" using 1 Cons r by (simp add: eval_nat_numeral)
    ultimately show ?thesis using w by (simp add: is_control_def)
  next
    case 2
    with t obtain b c d where r: "take 3 r = [b, c, d]"
      by (cases r; cases "tl r"; cases "tl (tl r)") auto
    have b: "128 \<le> byte b" "byte b \<le> 191" "byte a = 240 \<longrightarrow> 144 \<le> byte b"
      using tail 2 r by (auto simp: well_formed_tail_def continuation_def)
    have "2048 \<le> byte a mod 8 * 262144 + cont_bits b * 4096"
    proof (cases "byte a = 240")
      case True
      with b have "16 \<le> cont_bits b"
        by (simp add: cont_bits_eq)
      then show ?thesis by simp
    next
      case False
      then have "1 \<le> byte a - 240" "byte a mod 8 = byte a - 240" using 2
        by (auto simp: mod_nat_eqI)
      then have "1 \<le> byte a mod 8" by simp
      then show ?thesis by simp
    qed
    moreover have "take ?w s = [a, b, c, d]" using 2 Cons r by (simp add: eval_nat_numeral)
    ultimately show ?thesis using w by (simp add: is_control_def)
  qed
qed


lemma utf8_width_cases:
  assumes "0 < utf8_width v"
  obtains (ascii) c where "take (utf8_width v) v = [c]" "byte c < 128"
    | (two) a b r where "v = a # b # r" "utf8_width v = 2"
    | (wide) "2 < utf8_width v"
proof -
  from assms obtain c r where v: "v = c # r" by (cases v) simp_all
  show ?thesis
  proof (cases "byte c < 128")
    case True
    then show ?thesis using ascii v by (simp add: utf8_width_ascii)
  next
    case False
    with assms v have "2 \<le> utf8_width v"
      by (auto simp: utf8_width_def lead_width_def Let_def split: if_splits)
    then consider "utf8_width v = 2" | "2 < utf8_width v" by linarith
    then show ?thesis
    proof cases
      case 1
      with utf8_width_le [of v] v obtain b r' where "r = b # r'" by (cases r) auto
      with 1 v two show ?thesis by blast
    qed (rule wide)
  qed
qed

lemma utf8_width_high:
  "0 < utf8_width v \<Longrightarrow> utf8_width v \<noteq> 1 \<Longrightarrow> v = c # r \<Longrightarrow> 128 \<le> byte c"
  by (metis utf8_width_ascii not_le)

lemma string_body_slice:
  assumes w: "1 < utf8_width v"
  shows "string_body out (take (utf8_width v) v @ s) = string_body (out @ take (utf8_width v) v) s"
proof -
  from w obtain c r where v: "v = c # r" by (cases v) simp_all
  have c: "128 \<le> byte c" by (rule utf8_width_high [of v]) (use w v in auto)
  have tk: "take (utf8_width v) v = c # take (utf8_width v - 1) r"
    using w v by (cases "utf8_width v") auto
  have "utf8_width (take (utf8_width v) v) = length (take (utf8_width v) v)"
    using utf8_width_take_same [of v] utf8_width_le [of v] by simp
  then have "utf8_width (c # take (utf8_width v - 1) r) = length (c # take (utf8_width v - 1) r)"
    by (simp only: tk)
  from string_char_prefix [OF this c] have "string_char c (take (utf8_width v - 1) r @ s) =
      Inr (take (utf8_width v) v, s)" by (simp add: tk)
  moreover have "c \<noteq> quote" using c by auto
  ultimately show ?thesis by (simp only: tk append_Cons string_body_step) simp
qed

lemma string_body_escaped_slice:
  assumes w: "0 < utf8_width v"
  shows "string_body out (escape_content_char (take (utf8_width v) v) @ s) =
    string_body (out @ take (utf8_width v) v) s"
  using w
proof (cases rule: utf8_width_cases)
  case (ascii c)
  have "string_body out (escape_content_char [c] @ s) = string_body (out @ [c]) s"
  proof (cases "c \<in> {quote, backslash, CHR 0x0A, CHR 0x0D, CHR 0x09}")
    case True
    then have "\<exists>e. escape_content_char [c] = [backslash, e] \<and> simple_escape e = Some c"
      by (elim insertE emptyE; simp only:; simp add: escape_content_char_def simple_escape_def)
    then show ?thesis by (auto simp: string_body_escape)
  next
    case special: False
    show ?thesis
    proof (cases "is_control (byte c)")
      case True
      from special True ascii have "escape_content_char [c] = backslash # CHR ''u'' # show_hex4 (byte c)"
        by (simp add: escape_content_char_def)
      moreover have "string_char backslash (CHR ''u'' # show_hex4 (byte c) @ s) = Inr ([c], s)"
        using ascii by (simp add: string_char_def simple_escape_def unicode_escape_low utf8_encode_def)
      ultimately show ?thesis by (simp add: string_body_step)
    next
      case False
      with special ascii have "escape_content_char [c] = [c]" by (simp add: escape_content_char_def)
      moreover have "string_char c s = Inr ([c], s)"
        using special False ascii by (simp add: string_char_def is_control_def)
      ultimately show ?thesis using special by (simp add: string_body_step)
    qed
  qed
  with ascii show ?thesis by simp
next
  case (two a b r)
  show ?thesis
  proof (cases "is_control (code_point [a, b])")
    case True
    from code_point_two [OF two(2,1) True]
    have "string_char backslash (CHR ''u'' # show_hex4 (code_point [a, b]) @ s) = Inr ([a, b], s)"
      using True by (auto simp: string_char_def simple_escape_def unicode_escape_def hex4_show_hex4 is_control_def)
    with True two show ?thesis by (simp add: escape_content_char_def string_body_step)
  next
    case False
    with two have "escape_content_char (take (utf8_width v) v) = take (utf8_width v) v"
      by (simp add: escape_content_char_def)
    with two show ?thesis using string_body_slice [of v out s] by simp
  qed
next
  case wide
  then have len: "length (take (utf8_width v) v) \<noteq> 1" using utf8_width_le [of v] by simp
  have "\<And>c. take (utf8_width v) v \<noteq> [c]" using len by (metis length_Cons list.size(3) One_nat_def)
  with wide have "escape_content_char (take (utf8_width v) v) = take (utf8_width v) v"
    by (simp add: escape_content_char_def code_point_wide)
  with wide show ?thesis using string_body_slice by simp
qed

lemma string_body_escaped:
  "utf8_valid v \<Longrightarrow> string_body out (escape_string_content v @ quote # s) = Inr (out @ v, s)"
proof (induction v arbitrary: out rule: utf8_valid.induct)
  case (1 v)
  show ?case
  proof (cases "v = []")
    case True
    then show ?thesis by (simp add: escape_string_content_def string_body_step)
  next
    case False
    with "1.prems" have w: "0 < utf8_width v" and valid: "utf8_valid (drop (utf8_width v) v)"
      by (simp_all add: utf8_valid_step)
    have "escape_string_content v =
        escape_content_char (take (utf8_width v) v) @ escape_string_content (drop (utf8_width v) v)"
      using False w by (simp add: escape_string_content_def char_slices.simps [of v] Let_def max_def)
    with "1.IH" [OF False _ valid] w show ?thesis
      by (simp add: string_body_escaped_slice)
  qed
qed

section \<open>Templates\<close>

definition quoted :: "string \<Rightarrow> string" where
  "quoted s = quote # s @ [quote]"

text \<open>The layout of a template: before each key, after each colon, and before the closing brace.\<close>

type_synonym layout = "string \<times> string \<times> string"

definition compact_layout :: layout where
  "compact_layout = ([], [], [])"

definition line_layout :: layout where
  "line_layout = (CHR 0x0A # ''  '', '' '', [CHR 0x0A])"

fun template_members :: "layout \<Rightarrow> (string \<times> string) list \<Rightarrow> string" where
  "template_members (pre, mid, post) [] = post"
| "template_members (pre, mid, post) ((k, raw) # kvs) =
     pre @ quoted k @ '':'' @ mid @ raw @
     (if kvs = [] then post else '','' @ template_members (pre, mid, post) kvs)"

definition template :: "layout \<Rightarrow> (string \<times> string) list \<Rightarrow> string" where
  "template lay kvs = ''{'' @ template_members lay kvs @ ''}''"

definition json_blank :: "string \<Rightarrow> bool" where
  "json_blank s \<longleftrightarrow> list_all is_json_ws s"

fun blank_layout :: "layout \<Rightarrow> bool" where
  "blank_layout (pre, mid, post) \<longleftrightarrow> json_blank pre \<and> json_blank mid \<and> json_blank post"

text \<open>\<open>reads d raw v\<close>: the text of a member value, read as \<open>v\<close> whatever delimits it.\<close>

definition reads :: "nat \<Rightarrow> string \<Rightarrow> json \<Rightarrow> bool" where
  "reads d raw v \<longleftrightarrow> (\<forall>t. delimited t \<longrightarrow> parse_json d (raw @ t) = Inr (v, t))"

lemma blank_layouts [simp]: "blank_layout compact_layout" "blank_layout line_layout"
  by (simp_all add: compact_layout_def line_layout_def json_blank_def is_json_ws_def)

lemma ws_blank: "json_blank s \<Longrightarrow> ws (s @ t) = ws t"
  by (induction s) (auto simp: json_blank_def ws_def)

lemma delimited_blank: "json_blank s \<Longrightarrow> delimited t \<Longrightarrow> delimited (s @ t)"
  by (cases s) (auto simp: json_blank_def delimited_def is_json_ws_def is_ascii_digit_def)

lemma parse_json_ws_eq: "ws u = ws u' \<Longrightarrow> parse_json d u = parse_json d u'"
proof -
  assume eq: "ws u = ws u'"
  have len: "length (ws s) < length w" if "ws w = c # s" for s w c
    using ws_ConsD [OF that] length_ws [of s] by simp
  show ?thesis
  proof (cases "ws u'")
    case Nil
    with eq show ?thesis by (simp add: parse_json.simps [of d u] parse_json.simps [of d u'])
  next
    case (Cons c s)
    with eq len [of u c s] len [of u' c s] show ?thesis
      by (simp add: parse_json.simps [of d u] parse_json.simps [of d u'])
  qed
qed

lemma parse_json_blank: "json_blank s \<Longrightarrow> parse_json d (s @ t) = parse_json d t"
  by (rule parse_json_ws_eq) (simp add: ws_blank)

lemma ws_quoted [simp]: "ws (quoted k @ t) = quoted k @ t"
  by (simp add: quoted_def ws_def is_json_ws_def)

definition plain_key :: "string \<Rightarrow> bool" where
  "plain_key k \<longleftrightarrow> utf8_valid k \<and> render_string k = quoted k"

lemma string_value_plain: "plain_key k \<Longrightarrow> string_value (quoted k @ t) = Inr (k, t)"
  by (metis plain_key_def string_value_render)

lemma string_value_escaped:
  "utf8_valid v \<Longrightarrow> string_value (quoted (escape_string_content v) @ t) = Inr (v, t)"
  by (simp add: string_value_def quoted_def string_body_escaped)

lemma ws_colon: "ws ('':'' @ t) = '':'' @ t" "ws ('','' @ t) = '','' @ t" "ws (''}'' @ t) = ''}'' @ t"
  by (simp_all add: ws_def is_json_ws_def)

definition member_reads :: "nat \<Rightarrow> (string \<times> string) \<Rightarrow> (string \<times> json) \<Rightarrow> bool" where
  "member_reads d m kv \<longleftrightarrow> fst m = fst kv \<and> plain_key (fst m) \<and> reads d (snd m) (snd kv)"

lemma members_template:
  assumes lay: "blank_layout (pre, mid, post)"
  shows "list_all2 (member_reads d) ms kvs \<Longrightarrow> ms \<noteq> [] \<Longrightarrow>
    distinct (map fst obj @ map fst kvs) \<Longrightarrow>
    members_loop d obj (template_members (pre, mid, post) ms @ ''}'' @ t) =
      Inr (JObject (obj @ kvs), t)"
proof (induction ms arbitrary: kvs obj)
  case (Cons m ms)
  obtain k raw where m: "m = (k, raw)" by (cases m)
  from Cons.prems(1) m obtain v kvs' where kvs: "kvs = (k, v) # kvs'"
    and k: "plain_key k" and raw: "reads d raw v" and rest: "list_all2 (member_reads d) ms kvs'"
    by (cases kvs) (auto simp: member_reads_def [of d "(_, _)"])
  define tl where "tl = (if ms = [] then post @ ''}'' @ t
    else '','' @ template_members (pre, mid, post) ms @ ''}'' @ t)"
  have body: "template_members (pre, mid, post) (m # ms) @ ''}'' @ t =
      pre @ quoted k @ '':'' @ mid @ raw @ tl"
    by (simp add: m tl_def)
  from lay have blank: "json_blank pre" "json_blank mid" "json_blank post" by simp_all
  have "delimited tl" using delimited_blank [OF blank(3), of "''}'' @ t"]
    by (simp add: tl_def)
  with raw have raw': "parse_json d (mid @ raw @ tl) = Inr (v, tl)"
    by (simp add: parse_json_blank [OF blank(2)] reads_def)
  have fresh: "k \<notin> set (object_keys obj)"
    using Cons.prems(3) by (auto simp: kvs object_keys_def)
  have head: "members_loop d obj (template_members (pre, mid, post) (m # ms) @ ''}'' @ t) =
      (if fst (consume (CHR ''}'') (ws tl))
       then Inr (JObject (obj @ [(k, v)]), snd (consume (CHR ''}'') (ws tl)))
       else rbind (take_byte (CHR '','') (ws tl)) (members_loop d (obj @ [(k, v)])))"
    unfolding body members_loop_step [of d obj]
    using ws_colon(1) [of "mid @ raw @ tl"] raw'
    by (simp add: ws_blank [OF blank(1)] string_value_plain [OF k] object_insert_fresh [OF fresh])
  show ?case
  proof (cases "ms = []")
    case True
    then have "ws tl = CHR ''}'' # t" using ws_colon(3) [of t] by (simp add: tl_def ws_blank [OF blank(3)])
    with head True rest show ?thesis by (simp add: kvs)
  next
    case False
    then have tl: "ws tl = CHR '','' # template_members (pre, mid, post) ms @ ''}'' @ t"
      using ws_colon(2) [of "template_members (pre, mid, post) ms @ ''}'' @ t"] by (simp add: tl_def)
    have "members_loop d (obj @ [(k, v)]) (template_members (pre, mid, post) ms @ ''}'' @ t) =
        Inr (JObject ((obj @ [(k, v)]) @ kvs'), t)"
      by (rule Cons.IH [OF rest False]) (use Cons.prems(3) in \<open>auto simp: kvs\<close>)
    with head tl show ?thesis by (simp add: kvs fst_consume)
  qed
qed simp

lemma parse_json_object_open:
  assumes "d < max_json_nesting_depth" "\<not> fst (consume (CHR ''}'') (ws b))"
  shows "parse_json d (CHR ''{'' # b) = members_loop (Suc d) [] (ws b)"
  using assms length_ws [of b]
  by (simp add: parse_json.simps [of d "CHR ''{'' # b"] ws_non_ws is_json_ws_def less_Suc_eq_le)

text \<open>The strict parser reads a template back as the object of its members.\<close>

lemma parse_json_template:
  assumes "blank_layout lay" "list_all2 (member_reads (Suc d)) ms kvs" "ms \<noteq> []"
    and "distinct (map fst kvs)" "d < max_json_nesting_depth"
  shows "parse_json d (template lay ms @ t) = Inr (JObject kvs, t)"
proof -
  obtain pre mid post where lay: "lay = (pre, mid, post)" by (cases lay)
  obtain k raw ms' where ms: "ms = (k, raw) # ms'" using assms(3) by (cases ms) auto
  let ?b = "template_members lay ms @ ''}'' @ t"
  have pre: "json_blank pre" using assms(1) lay by simp
  have "ws ?b = ws (quoted k @ '':'' @ mid @ raw @
      (if ms' = [] then post else '','' @ template_members lay ms') @ ''}'' @ t)"
    by (simp add: lay ms ws_blank [OF pre])
  then obtain u where u: "ws ?b = quote # u" by (simp only: ws_quoted) (simp add: quoted_def)
  have "members_loop (Suc d) [] ?b = Inr (JObject kvs, t)"
    using members_template [of pre mid post "Suc d" ms kvs "[]" t] assms lay by simp
  moreover have "members_loop (Suc d) [] (ws ?b) = members_loop (Suc d) [] ?b"
    by (simp only: members_loop_step [of "Suc d" "[]"]) (simp add: ws_def dropWhile_idem)
  ultimately show ?thesis
    using parse_json_object_open [OF assms(5), of ?b] u by (simp add: template_def fst_consume)
qed

lemma parse_value_template:
  assumes "blank_layout lay" "list_all2 (member_reads 1) ms kvs" "ms \<noteq> []"
    and "distinct (map fst kvs)" "json_blank t"
  shows "parse_value (template lay ms @ t) ctxt = Inr (JObject kvs)"
  using parse_json_template [where d = 0 and lay = lay and ms = ms and kvs = kvs and t = t] assms ws_blank [OF assms(5), of "[]"]
  by (simp add: parse_value_def max_json_nesting_depth_def ws_def)

section \<open>Member values\<close>

lemma reads_quoted:
  "string_value (quoted x @ t) = Inr (v, t) \<Longrightarrow> parse_json d (quoted x @ t) = Inr (JString v, t)"
  by (subst parse_json.simps) (simp add: parse_scalar_def ws_non_ws quoted_def is_json_ws_def)

lemma reads_escaped: "utf8_valid v \<Longrightarrow> reads d (quoted (escape_string_content v)) (JString v)"
  by (simp add: reads_def reads_quoted string_value_escaped)

lemma reads_plain: "plain_key v \<Longrightarrow> reads d (quoted v) (JString v)"
  by (simp add: reads_def reads_quoted string_value_plain)

lemma reads_render:
  "wf_json v \<Longrightarrow> d + json_depth v \<le> max_json_nesting_depth \<Longrightarrow> reads d (render_json v) v"
  unfolding reads_def by (intro allI impI parse_render)

lemma reads_number: "reads d (show_nat (unat n)) (JNumber n)" for n :: u128
  using number_value_append [OF number_value_show_nat [of n]]
  by (auto simp: reads_def parse_scalar_number)

lemma reads_literals:
  "reads d ''true'' (JBool True)" "reads d ''false'' (JBool False)" "reads d ''null'' JNull"
  using parse_json_literals [of d] by (simp_all add: reads_def)

lemma reads_template:
  assumes "blank_layout lay" "list_all2 (member_reads (Suc d)) ms kvs" "ms \<noteq> []"
    and "distinct (map fst kvs)" "d < max_json_nesting_depth"
  shows "reads d (template lay ms) (JObject kvs)"
  using parse_json_template [OF assms] by (simp add: reads_def)

lemma member_reads_iff [simp]:
  "member_reads d (k, raw) (k', v) \<longleftrightarrow> k = k' \<and> plain_key k \<and> reads d raw v"
  by (simp add: member_reads_def)

definition plain_char :: "char \<Rightarrow> bool" where
  "plain_char c \<longleftrightarrow> 32 \<le> byte c \<and> byte c < 128 \<and> c \<noteq> quote \<and> c \<noteq> backslash"

lemma utf8_valid_ascii: "list_all (\<lambda>c. byte c < 128) s \<Longrightarrow> utf8_valid s"
proof (induction s)
  case Nil
  then show ?case by (simp add: utf8_valid.simps)
next
  case (Cons c s)
  then show ?case by (simp add: utf8_valid.simps [of "c # s"] utf8_width_ascii)
qed

lemma plain_key_chars: "list_all plain_char k \<Longrightarrow> plain_key k"
proof -
  assume k: "list_all plain_char k"
  then have "concat (map render_char k) = k"
    by (induction k) (auto simp: render_char_def plain_char_def)
  moreover from k have "list_all (\<lambda>c. byte c < 128) k"
    by (auto simp: list_all_iff plain_char_def)
  ultimately show ?thesis
    by (simp add: plain_key_def render_string_def quoted_def utf8_valid_ascii)
qed

section \<open>Members of accepted objects\<close>

lemma wf_members_get: "wf_members obj \<Longrightarrow> object_get k obj = Some v \<Longrightarrow> wf_json v"
  by (induction obj) (auto simp: object_get_def split: if_splits)

lemma json_string_valid: "wf_members obj \<Longrightarrow> json_string obj k ctxt = Inr v \<Longrightarrow> utf8_valid v"
  by (auto simp: json_string_def split: option.splits json.splits dest: wf_members_get)

lemma parse_object_value: "parse_object s keys ctxt = Inr obj \<Longrightarrow> parse_value s ctxt = Inr (JObject obj)"
  by (cases "parse_value s ctxt") (auto simp: parse_object_def split: json.splits option.splits)

lemma parse_object_wf: "parse_object s keys ctxt = Inr obj \<Longrightarrow> wf_members obj"
  by (auto simp: wf_at_def dest!: parse_object_value parse_value_wf)

end
