(* ===== verification/Json_Properties.thy ===== *)
theory Json_Properties
  imports Json_Templates
begin

text \<open>The properties of \<open>foundation/serialization\<close>, with their witnesses.\<close>

section \<open>Unsigned integers\<close>

lemma canonical_digits_sound:
  "canonical_digits ctxt key v bs = Inr n \<Longrightarrow>
     list_all is_ascii_digit bs \<and> unat n = foldl (\<lambda>n c. 10 * n + digit_value c) (unat v) bs"
proof (induction bs arbitrary: v)
  case (Cons b bs)
  from Cons.prems obtain w1 w where d: "48 \<le> byte b" "byte b - 48 \<le> 9"
    and w: "checked_mul v 10 = Some w1" "checked_add w1 (of_nat (byte b - 48)) = Some w"
    and rest: "canonical_digits ctxt key w bs = Inr n"
    by (auto split: if_splits option.splits bind_splits)
  have "unat w1 = 10 * unat v"
    using w(1) by (auto simp: checked_mul_def unat_mul_exact split: if_splits)
  moreover have "unat (of_nat (byte b - 48) :: u128) = byte b - 48"
    using d by (intro unat_of_nat_small) simp
  ultimately have "unat w = 10 * unat v + digit_value b"
    using w(2) by (simp add: checked_add_Some_iff digit_value_def)
  with Cons.IH [OF rest] d show ?case by (simp add: is_ascii_digit_def)
qed simp

lemma foldl_digits_head: "0 < n \<Longrightarrow> 0 < foldl (\<lambda>n c. 10 * n + digit_value c) n xs"
  using foldl_digits_mono [of n xs] by simp

lemma show_read_digits:
  "list_all is_ascii_digit s \<Longrightarrow> s \<noteq> [] \<Longrightarrow> hd s \<noteq> CHR ''0'' \<or> length s = 1 \<Longrightarrow>
     show_nat (read_digits s) = s"
proof (induction s rule: rev_induct)
  case (snoc c s)
  have c: "digit_value c < 10" "digit_char (digit_value c) = c"
    using snoc.prems(1) by (auto simp: digit_value_def is_ascii_digit_def digit_char_def)
  show ?case
  proof (cases s)
    case Nil
    with c show ?thesis by (simp add: read_digits_def show_nat.simps [of "digit_value c"])
  next
    case (Cons a t)
    with snoc.prems have a: "a \<noteq> CHR ''0''" "is_ascii_digit a" by auto
    then have "byte a \<noteq> byte (CHR ''0'')" using of_char_eq_iff by blast
    with a have "0 < digit_value a" by (auto simp: digit_value_def is_ascii_digit_def)
    then have pos: "0 < read_digits s"
      using foldl_digits_head [of "digit_value a" t] Cons by (simp add: read_digits_def)
    have "show_nat (read_digits s) = s" using snoc Cons by auto
    with c pos show ?thesis
      by (simp add: read_digits_snoc show_nat.simps [of "10 * read_digits s + digit_value c"])
  qed
qed simp

text \<open>
  C13 The canonical integer parser accepts exactly the decimal numerals the renderer writes: no
  sign, no leading zero, no other spelling, and nothing above \<open>u128::MAX\<close> (an overflow of the
  checked arithmetic is an error, never a wrapped value).
\<close>

theorem parse_canonical_u128_exact:
  "parse_canonical_u128 raw ctxt key = Inr n \<longleftrightarrow> raw = show_nat (unat n)"
proof
  assume "parse_canonical_u128 raw ctxt key = Inr n"
  then have raw: "raw \<noteq> []" "\<not> (1 < length raw \<and> starts_with ''0'' raw)"
    and digits: "canonical_digits ctxt key 0 raw = Inr n"
    by (auto simp: parse_canonical_u128_def split: if_splits)
  from canonical_digits_sound [OF digits]
  have "list_all is_ascii_digit raw" "unat n = read_digits raw" by (simp_all add: read_digits_def)
  moreover have "hd raw \<noteq> CHR ''0'' \<or> length raw = 1"
    using raw by (cases raw) (auto simp: starts_with_iff)
  ultimately show "raw = show_nat (unat n)" using raw(1) by (simp add: show_read_digits)
next
  assume "raw = show_nat (unat n)"
  moreover have "unat n < 2 ^ 128" using unsigned_less [of n, where 'a = nat] by simp
  ultimately show "parse_canonical_u128 raw ctxt key = Inr n"
    by (simp only: canonical_u128_render) simp
qed

section \<open>Strict JSON\<close>

text \<open>
  C12 What the strict parser accepts, the compact renderer writes in a form the parser reads back
  as the same value: rendering loses nothing, for every input the parser takes, at every nesting
  depth it allows, escapes, surrogate pairs and large numbers included.
\<close>

theorem json_reparse:
  assumes "parse_value input ctxt = Inr v"
  shows "parse_value (render_compact v) ctxt' = Inr v"
  using assms by (intro parse_value_render parse_value_wf)

lemma reads_spaced_array: "reads d '' [ true]'' (JArray [JBool True])" if "d < 64" for d
proof -
  have "parse_json d ('' [ true]'' @ t) = Inr (JArray [JBool True], t)" for t
  proof -
    have "parse_json d ('' '' @ CHR ''['' # '' true]'' @ t) = parse_json d (CHR ''['' # '' true]'' @ t)"
      by (rule parse_json_blank) (simp add: json_blank_def is_json_ws_def)
    moreover have "parse_json d (CHR ''['' # '' true]'' @ t) = elements_loop (Suc d) [] (''true]'' @ t)"
      using that by (simp add: parse_json.simps [of d "CHR ''['' # _"] ws_def is_json_ws_def fst_consume
          max_json_nesting_depth_def)
    moreover have "elements_loop (Suc d) [] (''true]'' @ t) = Inr (JArray [JBool True], t)"
      using parse_json_literals(1) [of "Suc d" "'']'' @ t"]
      by (simp add: elements_loop_step ws_def is_json_ws_def fst_consume)
    ultimately show ?thesis by simp
  qed
  then show ?thesis by (simp add: reads_def)
qed

lemma json_reparse_witness:
  "parse_value (render_compact (JObject [(''k'', JArray [JBool True])])) [] =
     Inr (JObject [(''k'', JArray [JBool True])])"
proof -
  have "member_reads 1 (''k'', '' [ true]'') (''k'', JArray [JBool True])"
    using reads_spaced_array by (simp add: plain_key_chars plain_char_def)
  then have "parse_value (template line_layout [(''k'', '' [ true]'')] @ []) [] =
      Inr (JObject [(''k'', JArray [JBool True])])"
    by (intro parse_value_template) (simp_all add: json_blank_def)
  then show ?thesis by (rule json_reparse)
qed

text \<open>
  Every accepted document is well formed: its strings are UTF-8, no object has two members
  with one key, a number that is not a \<open>u128\<close> is kept as its lexeme, and containers nest at most
  \<open>MAX_JSON_NESTING_DEPTH\<close> deep.
\<close>

theorem accepted_well_formed:
  assumes "parse_value input ctxt = Inr v"
  shows "wf_json v \<and> json_depth v \<le> max_json_nesting_depth"
  using parse_value_wf [OF assms] by (simp add: wf_at_def)

lemma accepted_well_formed_witness: "wf_json (JArray [JBool True]) \<and> json_depth (JArray [JBool True]) \<le> max_json_nesting_depth"
proof -
  have "parse_json 0 ('' [ true]'' @ []) = Inr (JArray [JBool True], [])"
    using reads_spaced_array [of 0] unfolding reads_def by simp
  then have "parse_value '' [ true]'' [] = Inr (JArray [JBool True])"
    by (simp add: parse_value_def ws_def)
  then show ?thesis by (rule accepted_well_formed)
qed

text \<open>
  The canonical form round trips: every canonical object with decimal numerals, distinct keys
  and allowed depth is rendered to a text that the canonical parser accepts, with the same keys
  in the same order, as the same object.
\<close>

theorem canonical_roundtrip:
  assumes "wf_cjson (CObject obj)" "cjson_depth (CObject obj) \<le> max_json_nesting_depth"
  shows "parse_canonical_object (render_canonical_object obj) (object_keys obj) ctxt = Inr obj"
  using assms by (rule parse_canonical_render)

lemmas canonical_values = object_keys_def canonical_number_def read_digits_def digit_value_def
  digit_char_def show_nat.simps all_ascii_valid all_ascii_def cjson_depth_def max_json_nesting_depth_def
  char_of_eq_iff

lemma canonical_roundtrip_witness:
  "parse_canonical_object (render_canonical_object [(''n'', CUnsigned ''12''), (''s'', CString ''a'')])
     (object_keys [(''n'', CUnsigned ''12''), (''s'', CString ''a'')]) [] =
   Inr [(''n'', CUnsigned ''12''), (''s'', CString ''a'')]"
  by (rule canonical_roundtrip) (simp_all add: canonical_values)

lemma canonical_keys: "canonical_members ctxt obj = Inr es \<Longrightarrow> object_keys es = object_keys obj"
  by (induction obj arbitrary: es) (auto simp: rbind_Inr_iff object_keys_def)

text \<open>
  A canonical object has one text: two inputs accepted with one object are the same bytes, so
  a hash of the text is a hash of the value.
\<close>

theorem canonical_text_unique:
  assumes "parse_canonical_object s keys ctxt = Inr obj" "parse_canonical_object s' keys' ctxt' = Inr obj"
  shows "s = s' \<and> keys = keys'"
proof -
  have "render_canonical_object obj = t \<and> object_keys obj = ks"
    if accepted: "parse_canonical_object t ks c = Inr obj" for t ks c
  proof -
    from accepted obtain v where "parse_value t c = Inr v"
      by (auto simp: parse_canonical_object_def rbind_Inr_iff)
    with accepted canonical_keys show ?thesis
      by (cases v) (auto simp: parse_canonical_object_def rbind_Inr_iff split: if_splits)
  qed
  with assms show ?thesis by metis
qed

lemma canonical_text_unique_witness:
  "render_canonical_object [(''n'', CUnsigned ''12'')] = render_canonical_object [(''n'', CUnsigned ''12'')]
     \<and> object_keys [(''n'', CUnsigned ''12'')] = [''n'']"
proof -
  have "parse_canonical_object (render_canonical_object [(''n'', CUnsigned ''12'')])
      (object_keys [(''n'', CUnsigned ''12'')]) [] = Inr [(''n'', CUnsigned ''12'')]"
    by (rule parse_canonical_render) (simp_all add: canonical_values)
  then have "parse_canonical_object (render_canonical_object [(''n'', CUnsigned ''12'')])
      [''n''] [] = Inr [(''n'', CUnsigned ''12'')]" by (simp add: object_keys_def)
  from canonical_text_unique [OF this this] show ?thesis by (simp add: object_keys_def)
qed

text \<open>
  The two ways the code writes a string into JSON, \<open>escape_string_content\<close> between quotes (the
  hand-written templates) and \<open>render_string\<close>, are read back as the same string, whatever
  characters it has and whatever follows.
\<close>

theorem escape_render_agree:
  assumes "utf8_valid s"
  shows "string_value (quoted (escape_string_content s) @ t) = Inr (s, t)
    \<and> string_value (render_string s @ t) = Inr (s, t)"
  using assms by (simp add: string_value_escaped string_value_render)

lemma escape_render_agree_witness:
  "string_value (quoted (escape_string_content [CHR 0xC2, CHR 0x85, CHR 0x0A]) @ '','') =
     Inr ([CHR 0xC2, CHR 0x85, CHR 0x0A], '','')
   \<and> string_value (render_string [CHR 0xC2, CHR 0x85, CHR 0x0A] @ '','') =
     Inr ([CHR 0xC2, CHR 0x85, CHR 0x0A], '','')"
  by (rule escape_render_agree) code_simp

end
