(* ===== verification/Ledger_Codec.thy ===== *)
theory Ledger_Codec
  imports Json_Templates
begin

text \<open>
  \<open>runtime_core/workflow/storage_compat/ledger.rs\<close> and \<open>foundation/integrity.rs\<close>: the
  ledger's data types, the JSON line of an event and the hash that chains it to its
  predecessor. The SHA-256 of the \<open>sha2\<close> crate is the parameter \<open>sha\<close>, which maps bytes to
  the 32 bytes of the digest.
\<close>

section \<open>Data\<close>

record runtime_identity =
  ri_project_id :: string
  ri_session_id :: string
  ri_project_root :: string

record ledger_event =
  event_id :: string
  ts_ms :: u128
  event_type :: string
  project_id :: string
  session_id :: string
  summary :: string
  details :: string

record parsed_event = ledger_event +
  previous_event_hash :: "string option"
  event_hash :: "string option"

record workflow_checkpoint =
  wc_revision :: u64
  wc_artifact_hash :: string
  wc_previous_hash :: string

record ledger_binding =
  lb_event_count :: u64
  lb_event_id :: "string option"
  lb_event_hash :: string

section \<open>Hashes (integrity.rs)\<close>

type_synonym hasher = "string \<Rightarrow> string"

definition bytes_to_hex :: "string \<Rightarrow> string" where
  "bytes_to_hex bytes = concat (map (\<lambda>b. [hex_char (byte b div 16), hex_char (byte b mod 16)]) bytes)"

definition sha256_bytes :: "hasher \<Rightarrow> string \<Rightarrow> string" where
  "sha256_bytes sha bytes = bytes_to_hex (sha bytes)"

definition is_valid_sha256 :: "string \<Rightarrow> bool" where
  "is_valid_sha256 value \<longleftrightarrow> length value = 64 \<and> list_all is_ascii_hexdigit value"

text \<open>What the code relies on: a digest is 32 bytes.\<close>

definition digest32 :: "hasher \<Rightarrow> bool" where
  "digest32 sha \<longleftrightarrow> (\<forall>s. length (sha s) = 32)"

lemma hex_char_hexdigit: "n < 16 \<Longrightarrow> is_ascii_hexdigit (hex_char n) \<and> plain_char (hex_char n)"
proof -
  assume n: "n < 16"
  then have b: "byte (hex_char n) = (if n < 10 then 48 + n else 87 + n)" by (simp add: hex_char_def)
  then have "hex_char n \<noteq> quote" "hex_char n \<noteq> backslash"
    using n by (auto split: if_splits)
  with b n show ?thesis
    by (auto simp: is_ascii_hexdigit_def is_ascii_digit_def plain_char_def)
qed

lemma byte_div16: "byte b div 16 < 16"
  using nat_of_char_less_256 [of b] by (simp add: less_mult_imp_div_less)

lemma bytes_to_hex_plain:
  "list_all is_ascii_hexdigit (bytes_to_hex bs)" "list_all plain_char (bytes_to_hex bs)"
  "length (bytes_to_hex bs) = 2 * length bs"
  by (induction bs) (auto simp: bytes_to_hex_def hex_char_hexdigit byte_div16)

lemma hex_char_inj: "m < 16 \<Longrightarrow> n < 16 \<Longrightarrow> hex_char m = hex_char n \<longleftrightarrow> m = n"
  by (metis hex_digit_value_hex_char option.inject)

lemma bytes_to_hex_inj: "bytes_to_hex as = bytes_to_hex bs \<longleftrightarrow> as = bs"
proof (induction as arbitrary: bs)
  case Nil
  show ?case by (cases bs) (auto simp: bytes_to_hex_def)
next
  case (Cons a as)
  show ?case
  proof (cases bs)
    case Nil
    then show ?thesis by (auto simp: bytes_to_hex_def)
  next
    case (Cons b bs')
    have "a = b" if "byte a div 16 = byte b div 16" "byte a mod 16 = byte b mod 16"
      using that by (metis div_mod_decomp of_char_eq_iff)
    with Cons Cons.IH [of bs'] show ?thesis
      by (auto simp: bytes_to_hex_def hex_char_inj byte_div16)
  qed
qed

lemma sha256_bytes_valid: "digest32 sha \<Longrightarrow> is_valid_sha256 (sha256_bytes sha s)"
  by (simp add: is_valid_sha256_def sha256_bytes_def bytes_to_hex_plain digest32_def)

lemma sha256_bytes_plain: "plain_key (sha256_bytes sha s)"
  by (simp add: plain_key_chars bytes_to_hex_plain sha256_bytes_def)

section \<open>The event line (ledger.rs)\<close>

definition ledger_context :: string where
  "ledger_context = ''runtime ledger line''"

definition ledger_keys :: "string list" where
  "ledger_keys = [''schema_version'', ''event_id'', ''ts_ms'', ''event_type'', ''project_id'',
     ''session_id'', ''summary'', ''details'', ''previous_event_hash'', ''event_hash'']"

definition parse_event_line_strict :: "string \<Rightarrow> parsed_event result" where
  "parse_event_line_strict line =
     rbind (parse_object line ledger_keys ledger_context) (\<lambda>obj.
     rbind (json_number obj ''schema_version'' ledger_context) (\<lambda>schema.
       if \<not> (schema = 1 \<or> schema = 2)
       then Inl (blocked_error ''runtime ledger schema version mismatch'' [])
       else rbind
         (if schema = 2 then
            rbind (json_string obj ''previous_event_hash'' ledger_context) (\<lambda>p.
            rbind (json_string obj ''event_hash'' ledger_context) (\<lambda>h. Inr (Some p, Some h)))
          else if object_contains_key ''previous_event_hash'' obj
             \<or> object_contains_key ''event_hash'' obj
          then Inl (blocked_error ''chain field in legacy ledger'' [])
          else Inr (None, None)) (\<lambda>(p, h).
       rbind (json_string obj ''event_id'' ledger_context) (\<lambda>eid.
       rbind (json_number_u128 obj ''ts_ms'' ledger_context) (\<lambda>ts.
       rbind (json_string obj ''event_type'' ledger_context) (\<lambda>et.
       rbind (json_string obj ''project_id'' ledger_context) (\<lambda>pid.
       rbind (json_string obj ''session_id'' ledger_context) (\<lambda>sid.
       rbind (json_string obj ''summary'' ledger_context) (\<lambda>sm.
       rbind (json_string obj ''details'' ledger_context) (\<lambda>dt.
         Inr \<lparr>event_id = eid, ts_ms = ts, event_type = et, project_id = pid, session_id = sid,
              summary = sm, details = dt, previous_event_hash = p, event_hash = h\<rparr>))))))))))"

abbreviation escaped :: "string \<Rightarrow> string" where
  "escaped s \<equiv> quoted (escape_string_content s)"

text \<open>The members of \<open>event_chain_payload\<close>'s format string; the previous hash is not escaped.\<close>

definition event_members :: "ledger_event \<Rightarrow> string \<Rightarrow> (string \<times> string) list" where
  "event_members event previous =
     [(''schema_version'', ''2''),
      (''event_id'', escaped (event_id event)),
      (''ts_ms'', show_nat (unat (ts_ms event))),
      (''event_type'', escaped (event_type event)),
      (''project_id'', escaped (project_id event)),
      (''session_id'', escaped (session_id event)),
      (''summary'', escaped (summary event)),
      (''details'', escaped (details event)),
      (''previous_event_hash'', quoted previous)]"

definition event_chain_payload :: "ledger_event \<Rightarrow> string \<Rightarrow> string" where
  "event_chain_payload event previous = template compact_layout (event_members event previous)"

definition trim_start_char :: "char \<Rightarrow> string \<Rightarrow> string" where
  "trim_start_char c s = dropWhile (\<lambda>x. x = c) s"

definition trim_end_char :: "char \<Rightarrow> string \<Rightarrow> string" where
  "trim_end_char c s = rev (dropWhile (\<lambda>x. x = c) (rev s))"

definition canonical_event_line :: "hasher \<Rightarrow> ledger_event \<Rightarrow> string \<Rightarrow> string \<times> string" where
  "canonical_event_line sha event previous =
     (let payload = event_chain_payload event previous;
          hash = sha256_bytes sha payload;
          line = ''{'' @ trim_end_char (CHR ''}'') (trim_start_char (CHR ''{'') payload) @
                 '','' @ quoted ''event_hash'' @ '':'' @ quoted hash @ ''}''
      in (line, hash))"

definition planned_event_hash :: "hasher \<Rightarrow> ledger_event \<Rightarrow> string \<Rightarrow> string" where
  "planned_event_hash sha event previous = sha256_bytes sha (event_chain_payload event previous)"

definition event_physical_hash :: "hasher \<Rightarrow> parsed_event \<Rightarrow> string \<Rightarrow> string" where
  "event_physical_hash sha event previous =
     (let synthetic = \<lparr>event_id = event_id event, ts_ms = ts_ms event, event_type = event_type event,
            project_id = project_id event, session_id = session_id event,
            summary = summary event, details = details event\<rparr>
      in sha256_bytes sha (event_chain_payload synthetic previous))"

definition to_log_line :: "ledger_event \<Rightarrow> string" where
  "to_log_line event =
     join '' '' [show_nat (unat (ts_ms event)), event_type event, session_id event, summary event]"

section \<open>Reading an event line back\<close>

definition valid_event :: "ledger_event \<Rightarrow> bool" where
  "valid_event event \<longleftrightarrow> utf8_valid (event_id event) \<and> utf8_valid (event_type event)
     \<and> utf8_valid (project_id event) \<and> utf8_valid (session_id event)
     \<and> utf8_valid (summary event) \<and> utf8_valid (details event)"

definition parsed_of :: "ledger_event \<Rightarrow> string option \<Rightarrow> string option \<Rightarrow> parsed_event" where
  "parsed_of event p h = \<lparr>event_id = event_id event, ts_ms = ts_ms event,
     event_type = event_type event, project_id = project_id event, session_id = session_id event,
     summary = summary event, details = details event,
     previous_event_hash = p, event_hash = h\<rparr>"

definition event_values :: "ledger_event \<Rightarrow> string \<Rightarrow> json_object" where
  "event_values event previous =
     [(''schema_version'', JNumber 2), (''event_id'', JString (event_id event)),
      (''ts_ms'', JNumber (ts_ms event)), (''event_type'', JString (event_type event)),
      (''project_id'', JString (project_id event)), (''session_id'', JString (session_id event)),
      (''summary'', JString (summary event)), (''details'', JString (details event)),
      (''previous_event_hash'', JString previous)]"

lemma ledger_keys_plain:
  "list_all plain_key ledger_keys" "plain_key ''event_count''" "plain_key ''last_event_hash''"
  by (simp_all add: ledger_keys_def plain_key_chars plain_char_def)

lemma reads_two: "reads d ''2'' (JNumber 2)"
proof -
  have "show_nat (unat (2 :: u128)) = ''2''" by code_simp
  then show ?thesis using reads_number [of d 2] by simp
qed

lemma event_members_read:
  assumes "valid_event event" "plain_key previous"
  shows "list_all2 (member_reads (Suc 0)) (event_members event previous) (event_values event previous)"
  using assms ledger_keys_plain
  by (simp add: event_members_def event_values_def valid_event_def ledger_keys_def
      reads_escaped reads_plain reads_number reads_two)

lemma event_values_distinct:
  "distinct (map fst (event_values event previous @ [(''event_hash'', v)]))"
  by (simp add: event_values_def)

lemma parse_event_chain_payload:
  assumes "valid_event event" "plain_key previous"
  shows "parse_value (event_chain_payload event previous) ctxt = Inr (JObject (event_values event previous))"
  using parse_value_template [of compact_layout "event_members event previous"
      "event_values event previous" "[]" ctxt] event_members_read [OF assms]
    event_values_distinct [of event previous JNull]
  by (simp add: event_chain_payload_def event_members_def json_blank_def)

text \<open>The payload determines the event and the predecessor's hash.\<close>

lemma event_chain_payload_inj:
  assumes "valid_event e" "plain_key p" "valid_event e'" "plain_key p'"
    and "event_chain_payload e p = event_chain_payload e' p'"
  shows "parsed_of e = parsed_of e' \<and> p = p'"
proof -
  have "event_values e p = event_values e' p'"
    using parse_event_chain_payload [OF assms(1,2), of "[]"]
      parse_event_chain_payload [OF assms(3,4), of "[]"] assms(5) by simp
  then show ?thesis by (simp add: event_values_def parsed_of_def fun_eq_iff)
qed

lemma template_members_snoc:
  "ms \<noteq> [] \<Longrightarrow> template_members (pre, mid, []) (ms @ [(k, raw)]) =
     template_members (pre, mid, []) ms @ '','' @ pre @ quoted k @ '':'' @ mid @ raw"
  by (induction ms) auto

lemma event_members_ends:
  obtains m where "template_members ([], [], []) (event_members event previous) = quote # m @ [quote]"
proof -
  have "\<exists>m. template_members ([], [], []) (event_members event previous) = quote # m @ [quote]"
    by (simp add: event_members_def quoted_def)
  with that show ?thesis by blast
qed

lemma canonical_event_line_template:
  "canonical_event_line sha event previous =
     (template compact_layout
        (event_members event previous @
         [(''event_hash'', quoted (planned_event_hash sha event previous))]),
      planned_event_hash sha event previous)"
proof -
  obtain m where m: "template_members ([], [], []) (event_members event previous) = quote # m @ [quote]"
    by (rule event_members_ends)
  then have payload: "event_chain_payload event previous = CHR ''{'' # quote # m @ [quote, CHR ''}'']"
    by (simp add: event_chain_payload_def template_def compact_layout_def)
  have "trim_end_char (CHR ''}'') (trim_start_char (CHR ''{'') (event_chain_payload event previous))
      = quote # m @ [quote]"
    by (simp add: payload trim_start_char_def trim_end_char_def)
  moreover have "event_members event previous \<noteq> []" by (simp add: event_members_def)
  ultimately show ?thesis
    by (simp add: canonical_event_line_def Let_def planned_event_hash_def template_def
        compact_layout_def template_members_snoc m)
qed

lemma canonical_line_value:
  assumes "valid_event event" "plain_key previous"
  shows "parse_value (fst (canonical_event_line sha event previous)) ctxt =
    Inr (JObject (event_values event previous @
      [(''event_hash'', JString (planned_event_hash sha event previous))]))"
proof -
  let ?h = "planned_event_hash sha event previous"
  have "list_all2 (member_reads (Suc 0)) (event_members event previous @ [(''event_hash'', quoted ?h)])
      (event_values event previous @ [(''event_hash'', JString ?h)])"
    using event_members_read [OF assms] ledger_keys_plain(1) sha256_bytes_plain
    by (intro list_all2_appendI) (simp_all add: planned_event_hash_def reads_plain ledger_keys_def)
  from parse_value_template [OF _ this [folded One_nat_def], of compact_layout "[]" ctxt]
    event_values_distinct
  show ?thesis by (simp add: canonical_event_line_template json_blank_def)
qed

lemma parse_json_canonical:
  assumes "valid_event event" "plain_key previous"
  shows "\<exists>kvs. parse_json 0 (fst (canonical_event_line sha event previous) @ t) = Inr (JObject kvs, t)"
proof -
  let ?h = "planned_event_hash sha event previous"
  have "list_all2 (member_reads (Suc 0)) (event_members event previous @ [(''event_hash'', quoted ?h)])
      (event_values event previous @ [(''event_hash'', JString ?h)])"
    using event_members_read [OF assms] ledger_keys_plain(1) sha256_bytes_plain
    by (intro list_all2_appendI) (simp_all add: planned_event_hash_def reads_plain ledger_keys_def)
  from parse_json_template [OF blank_layouts(1) this _ event_values_distinct]
  show ?thesis by (simp add: canonical_event_line_template max_json_nesting_depth_def)
qed

text \<open>The line written for an event is read back as the event with its two hashes.\<close>

lemma parse_canonical_line:
  assumes "valid_event event" "plain_key previous"
  shows "parse_event_line_strict (fst (canonical_event_line sha event previous)) =
    Inr (parsed_of event (Some previous) (Some (planned_event_hash sha event previous)))"
  unfolding parse_event_line_strict_def parse_object_def canonical_line_value [OF assms]
  by (simp add: event_values_def object_keys_def ledger_keys_def json_string_def json_number_def
      json_number_u128_def object_get_def u64_try_from_def parsed_of_def)

lemma parse_event_line_fields:
  assumes "parse_event_line_strict line = Inr p"
  shows "utf8_valid (event_id p) \<and> utf8_valid (event_type p) \<and> utf8_valid (project_id p)
    \<and> utf8_valid (session_id p) \<and> utf8_valid (summary p) \<and> utf8_valid (details p)
    \<and> (previous_event_hash p = None \<longleftrightarrow> event_hash p = None)"
  using assms
  by (auto simp: parse_event_line_strict_def rbind_Inr_iff split: if_splits
      dest!: parse_object_wf intro: json_string_valid)

text \<open>The part of an installed event the code compares: \<open>event_physical_hash\<close>'s \<open>synthetic\<close>.\<close>

definition event_of :: "parsed_event \<Rightarrow> ledger_event" where
  "event_of event = \<lparr>event_id = event_id event, ts_ms = ts_ms event, event_type = event_type event,
     project_id = project_id event, session_id = session_id event,
     summary = summary event, details = details event\<rparr>"

lemma event_of_parsed_of [simp]: "event_of (parsed_of e p h) = e"
  by (simp add: event_of_def parsed_of_def)

lemma parsed_of_event_of: "parsed_of (event_of e) (previous_event_hash e) (event_hash e) = e"
  by (simp add: event_of_def parsed_of_def)

lemma parsed_of_sel [simp]:
  "previous_event_hash (parsed_of e p h) = p" "event_hash (parsed_of e p h) = h"
  "event_id (parsed_of e p h) = event_id e"
  by (simp_all add: parsed_of_def)

lemma event_physical_hash_eq: "event_physical_hash sha p = planned_event_hash sha (event_of p)"
  by (simp add: event_physical_hash_def planned_event_hash_def event_of_def Let_def fun_eq_iff)

lemma parse_event_line_valid: "parse_event_line_strict line = Inr p \<Longrightarrow> valid_event (event_of p)"
  using parse_event_line_fields [of line p] by (simp add: valid_event_def event_of_def)

end
