(* ===== verification/Ledger_Store.thy ===== *)
theory Ledger_Store
  imports Ledger_Codec
begin

text \<open>
  \<open>app/workflow_adapter/ledger/storage\<close> (\<open>chain.rs\<close>, \<open>head.rs\<close>, \<open>repository.rs\<close>,
  \<open>write.rs\<close>) and \<open>ledger/append.rs\<close>: the runtime ledger, a JSONL file of chained events, and
  its head file, which holds the number of events and the last hash.

  The state is the bytes of the two files (\<open>None\<close>: the file does not exist) and the outcomes
  of the writes to come. For the line, \<open>Io_error 0\<close> is an open that fails and \<open>Io_error (Suc n)\<close>
  a write that fails after \<open>n\<close> bytes (a file that did not exist exists from then on), so that a
  crash or a torn write at any point of an append is a state of the model. A replaced file is
  installed by a rename: it is replaced wholly (\<open>Io_error n\<close> with \<open>n > 0\<close>: the rename
  happened and the sync of the directory failed) or not at all; the temporary file that a failure
  before the rename leaves has a name of its own (process and time), which no reader opens.
\<close>

section \<open>State\<close>

datatype io_outcome = Io_ok | Io_error nat

record ledger_fs =
  ledger_body :: "string option"
  head_body :: "string option"
  io_outcomes :: "io_outcome list"

definition next_outcome :: "ledger_fs \<Rightarrow> io_outcome" where
  "next_outcome fs = (case io_outcomes fs of [] \<Rightarrow> Io_ok | o' # _ \<Rightarrow> o')"

text \<open>
  \<open>diagnostics.rs\<close>: the error alone. The source also records the corruption as a validation gap,
  a file of its own beside the ledger that is not part of this state, and appends a line to the
  message when that fails.
\<close>

definition ledger_corrupt :: "nat \<Rightarrow> string \<Rightarrow> app_error" where
  "ledger_corrupt line reason = blocked_error ''runtime ledger corrupt'' [reason, show_nat line]"

definition append_line :: "string \<Rightarrow> (ledger_fs, unit) effect" where
  "append_line line fs =
     (let old = (case ledger_body fs of None \<Rightarrow> [] | Some b \<Rightarrow> b);
          fs' = fs\<lparr>io_outcomes := tl (io_outcomes fs)\<rparr>
      in case next_outcome fs of
           Io_ok \<Rightarrow> (Inr (), fs'\<lparr>ledger_body := Some (old @ line @ [LF])\<rparr>)
         | Io_error 0 \<Rightarrow> (Inl (runtime_error ''ledger append failed'' []), fs')
         | Io_error (Suc n) \<Rightarrow>
             (Inl (runtime_error ''ledger append failed'' []),
              fs'\<lparr>ledger_body := Some (old @ take n (line @ [LF]))\<rparr>))"

section \<open>The head file (head.rs)\<close>

definition head_text :: "usize \<Rightarrow> string \<Rightarrow> string" where
  "head_text count hash =
     template compact_layout
       [(''schema_version'', ''1''), (''event_count'', show_nat (unat count)),
        (''last_event_hash'', quoted hash)] @ [LF]"

definition write_ledger_head :: "usize \<Rightarrow> string \<Rightarrow> (ledger_fs, unit) effect" where
  "write_ledger_head count hash fs =
     (let fs' = fs\<lparr>io_outcomes := tl (io_outcomes fs)\<rparr>
      in case next_outcome fs of
           Io_ok \<Rightarrow> (Inr (), fs'\<lparr>head_body := Some (head_text count hash)\<rparr>)
         | Io_error n \<Rightarrow>
             (Inl (runtime_error ''atomic replace failed'' []),
              if n = 0 then fs' else fs'\<lparr>head_body := Some (head_text count hash)\<rparr>))"

definition chained_count :: "parsed_event list \<Rightarrow> nat" where
  "chained_count events = length (filter (\<lambda>e. event_hash e \<noteq> None) events)"

definition head_context :: string where
  "head_context = ''ledger head''"

definition head_keys :: "string list" where
  "head_keys = [''schema_version'', ''event_count'', ''last_event_hash'']"

definition last_previous :: "parsed_event list \<Rightarrow> string option" where
  "last_previous events = (if events = [] then None else previous_event_hash (last events))"

definition validate_ledger_head ::
  "hasher \<Rightarrow> parsed_event list \<Rightarrow> string option \<Rightarrow> string \<Rightarrow> bool \<Rightarrow> (ledger_fs, unit) effect" where
  "validate_ledger_head sha events last_hash legacy_prefix allow_repair fs =
     (let count = length events in
      case head_body fs of
        None \<Rightarrow>
          (case last_hash of
             Some h \<Rightarrow>
               if allow_repair \<and> chained_count events = 1
               then write_ledger_head (of_nat count) h fs
               else (Inl (ledger_corrupt count ''chained ledger head missing''), fs)
           | None \<Rightarrow> (Inr (), fs))
      | Some body \<Rightarrow>
          if \<not> utf8_valid body then (Inl (blocked_error ''ledger head read failed'' []), fs)
          else case parse_object body head_keys head_context of Inl e \<Rightarrow> (Inl e, fs) | Inr obj \<Rightarrow>
            (let expected_hash = (case last_hash of Some h \<Rightarrow> h
                                  | None \<Rightarrow> if legacy_prefix = [] then ''root'' else ''legacy'') in
             case json_number obj ''schema_version'' head_context of Inl e \<Rightarrow> (Inl e, fs) | Inr schema \<Rightarrow>
             case json_number obj ''event_count'' head_context of Inl e \<Rightarrow> (Inl e, fs) | Inr head_count \<Rightarrow>
             case json_string obj ''last_event_hash'' head_context of Inl e \<Rightarrow> (Inl e, fs) | Inr head_hash \<Rightarrow>
             if schema = 1 \<and> head_count = of_nat count \<and> head_hash = expected_hash then (Inr (), fs)
             else if schema = 1 \<and> allow_repair \<and> checked_add head_count 1 = Some (of_nat count)
               \<and> (last_previous events = Some head_hash
                  \<or> chained_count events = 1 \<and> head_hash = ''legacy''
                    \<and> last_previous events =
                        (if legacy_prefix \<noteq> [] then Some (''legacy:'' @ sha256_bytes sha legacy_prefix)
                         else None))
             then write_ledger_head (of_nat count) expected_hash fs
             else (Inl (ledger_corrupt count ''ledger truncation/head mismatch''), fs)))"

section \<open>The chain (chain.rs)\<close>

definition expected_previous :: "hasher \<Rightarrow> string \<Rightarrow> string option \<Rightarrow> string" where
  "expected_previous sha legacy_prefix previous_hash =
     (case previous_hash of
        Some h \<Rightarrow> h
      | None \<Rightarrow> if legacy_prefix = [] then ''root''
                else ''legacy:'' @ sha256_bytes sha legacy_prefix)"

text \<open>The loop over \<open>contents.lines()\<close>: events so far, legacy prefix, previous hash.\<close>

fun chain_loop ::
  "hasher \<Rightarrow> nat \<Rightarrow> parsed_event list \<Rightarrow> string \<Rightarrow> string option \<Rightarrow> string list \<Rightarrow>
   (parsed_event list \<times> string \<times> string option) result" where
  "chain_loop sha index events legacy_prefix previous_hash [] =
     Inr (events, legacy_prefix, previous_hash)"
| "chain_loop sha index events legacy_prefix previous_hash (line # lines) =
     (if trim line = [] then Inl (ledger_corrupt (index + 1) ''empty JSONL record'')
      else case parse_event_line_strict line of
        Inl _ \<Rightarrow> Inl (ledger_corrupt (index + 1) ''malformed JSONL record'')
      | Inr event \<Rightarrow>
          (case (previous_event_hash event, event_hash event) of
             (Some previous, Some hash) \<Rightarrow>
               if previous \<noteq> expected_previous sha legacy_prefix previous_hash
                  \<or> hash \<noteq> event_physical_hash sha event previous
               then Inl (ledger_corrupt (index + 1) ''physical hash chain mismatch'')
               else chain_loop sha (index + 1) (events @ [event]) legacy_prefix (Some hash) lines
           | (None, None) \<Rightarrow>
               if previous_hash = None
               then chain_loop sha (index + 1) (events @ [event]) (legacy_prefix @ line @ [LF]) None lines
               else Inl (ledger_corrupt (index + 1) ''legacy event after chained suffix'')
           | _ \<Rightarrow> Inl (ledger_corrupt (index + 1) ''legacy event after chained suffix'')))"

definition validate_ledger_contents_inner ::
  "hasher \<Rightarrow> string \<Rightarrow> bool \<Rightarrow> (ledger_fs, parsed_event list) effect" where
  "validate_ledger_contents_inner sha contents allow_head_repair =
     (case chain_loop sha 0 [] [] None (str_lines contents) of
        Inl e \<Rightarrow> sthrow e
      | Inr (events, legacy_prefix, previous_hash) \<Rightarrow>
          sthen (validate_ledger_head sha events previous_hash legacy_prefix allow_head_repair)
            (sreturn events))"

definition validate_ledger_contents :: "hasher \<Rightarrow> string \<Rightarrow> (ledger_fs, parsed_event list) effect" where
  "validate_ledger_contents sha contents = validate_ledger_contents_inner sha contents False"

definition validate_ledger_contents_with_head_repair ::
  "hasher \<Rightarrow> string \<Rightarrow> (ledger_fs, parsed_event list) effect" where
  "validate_ledger_contents_with_head_repair sha contents =
     validate_ledger_contents_inner sha contents True"

section \<open>Reading and appending (repository.rs, write.rs)\<close>

definition read_runtime_events_unlocked :: "hasher \<Rightarrow> (ledger_fs, parsed_event list) effect" where
  "read_runtime_events_unlocked sha fs =
     (case ledger_body fs of
        None \<Rightarrow>
          if head_body fs \<noteq> None then (Inl (ledger_corrupt 0 ''orphan head without ledger''), fs)
          else (Inr [], fs)
      | Some contents \<Rightarrow>
          if \<not> utf8_valid contents then (Inl (runtime_error ''runtime ledger read failed'' []), fs)
          else validate_ledger_contents_with_head_repair sha contents fs)"

definition append_chained_event :: "hasher \<Rightarrow> ledger_event \<Rightarrow> (ledger_fs, unit) effect" where
  "append_chained_event sha event fs =
     (let contents = (case ledger_body fs of None \<Rightarrow> [] | Some b \<Rightarrow> b) in
      if \<not> utf8_valid contents then (Inl (runtime_error ''ledger append reread failed'' []), fs)
      else sbind (validate_ledger_contents sha contents) (\<lambda>existing.
        let previous = (case (if existing = [] then None else event_hash (last existing)) of
              Some h \<Rightarrow> h
            | None \<Rightarrow> if contents = [] then ''root''
                      else ''legacy:'' @ sha256_bytes sha contents);
            (line, event_hash) = canonical_event_line sha event previous
        in sthen (append_line line) (write_ledger_head (of_nat (length existing) + 1) event_hash)) fs)"

section \<open>The text of an event line\<close>

lemma char_slices_bytes:
  "x \<in> set (char_slices s) \<Longrightarrow> (\<exists>c. x = [c]) \<or> (\<forall>c\<in>set x. 128 \<le> byte c)"
proof (induction s rule: char_slices.induct)
  case (1 s)
  show ?case
  proof (cases "s = []")
    case True
    with "1.prems" show ?thesis by simp
  next
    case False
    then obtain c r where s: "s = c # r" by (cases s) auto
    let ?w = "max 1 (utf8_width s)"
    from "1.prems" False consider "x = take ?w s" | "x \<in> set (char_slices (drop ?w s))"
      by (auto simp: char_slices.simps [of s] Let_def)
    then show ?thesis
    proof cases
      case 1
      show ?thesis
      proof (cases "utf8_width s \<le> 1")
        case True
        with 1 s show ?thesis by (simp add: max_def)
      next
        case wide: False
        then have c: "128 \<le> byte c" using utf8_width_high [of s c r] s by auto
        have "x = c # take (utf8_width s - 1) r" using 1 wide s by (cases "utf8_width s") (auto simp: max_def)
        with c utf8_width_tail [of c r] wide s show ?thesis by auto
      qed
    next
      case 2
      with "1.IH" [OF False refl] show ?thesis by simp
    qed
  qed
qed

lemma hex_char_plain: "plain_char (hex_char (n mod 16))"
  by (simp add: hex_char_hexdigit)

lemma escape_content_char_bytes:
  "x \<in> set (char_slices s) \<Longrightarrow> c \<in> set (escape_content_char x) \<Longrightarrow> 32 \<le> byte c"
  using char_slices_bytes [of x s] hex_char_plain
  by (auto simp: escape_content_char_def show_hex4_def plain_char_def is_control_def
      split: if_splits)

lemma escape_content_bytes: "c \<in> set (escape_string_content s) \<Longrightarrow> 32 \<le> byte c"
  by (auto simp: escape_string_content_def intro: escape_content_char_bytes)

lemma utf8_valid_show_hex4: "utf8_valid (show_hex4 n)"
  using hex_char_plain by (auto simp: show_hex4_def plain_char_def intro!: utf8_valid_ascii)

lemma utf8_valid_escape_char: "utf8_valid x \<Longrightarrow> utf8_valid (escape_content_char x)"
  by (simp add: escape_content_char_def utf8_valid_ascii_Cons utf8_valid_show_hex4)

lemma utf8_valid_slices: "utf8_valid s \<Longrightarrow> x \<in> set (char_slices s) \<Longrightarrow> utf8_valid x"
proof (induction s rule: utf8_valid.induct)
  case (1 s)
  show ?case
  proof (cases "s = []")
    case False
    with "1.prems" have w: "0 < utf8_width s" and v: "utf8_valid (drop (utf8_width s) s)"
      by (simp_all add: utf8_valid_step)
    from "1.prems"(2) False w consider "x = take (utf8_width s) s"
      | "x \<in> set (char_slices (drop (utf8_width s) s))"
      by (auto simp: char_slices.simps [of s] Let_def max_def split: if_splits)
    then show ?thesis
    proof cases
      case 1
      have "x \<noteq> []" "utf8_width x = utf8_width s" "length x = utf8_width s"
        using 1 w False utf8_width_take_same [of s] utf8_width_le [of s] by auto
      then show ?thesis using w by (simp add: utf8_valid_step)
    next
      case 2
      with "1.IH" [OF False _ v] w show ?thesis by simp
    qed
  qed (use "1.prems" in simp)
qed

lemma utf8_valid_concat: "(\<And>x. x \<in> set xs \<Longrightarrow> utf8_valid x) \<Longrightarrow> utf8_valid (concat xs)"
  by (induction xs) (auto intro: utf8_valid_append)

lemma utf8_valid_escape: "utf8_valid s \<Longrightarrow> utf8_valid (escape_string_content s)"
  unfolding escape_string_content_def
  by (rule utf8_valid_concat) (auto intro: utf8_valid_escape_char utf8_valid_slices)

lemma utf8_valid_quoted: "utf8_valid s \<Longrightarrow> utf8_valid (quoted s)"
  by (simp add: quoted_def utf8_valid_ascii_Cons utf8_valid_append utf8_valid_ascii)

lemma utf8_valid_show_nat: "utf8_valid (show_nat n)"
  by (rule utf8_valid_ascii) (auto simp: list_all_iff is_ascii_digit_def dest!: show_nat_digits)

lemma template_chars:
  assumes "list_all (\<lambda>(k, raw). list_all P k \<and> list_all P raw) ms"
    and "list_all P [quote, CHR '':'', CHR '','', CHR ''{'', CHR ''}'']"
  shows "list_all P (template compact_layout ms)"
proof -
  have "list_all P (template_members ([], [], []) ms)"
    using assms by (induction ms) (auto simp: quoted_def)
  with assms(2) show ?thesis by (simp add: template_def compact_layout_def)
qed

lemma utf8_valid_template:
  assumes "list_all (\<lambda>(k, raw). utf8_valid k \<and> utf8_valid raw) ms"
  shows "utf8_valid (template compact_layout ms)"
proof -
  have "utf8_valid (template_members ([], [], []) ms)"
    using assms by (induction ms)
      (auto simp: utf8_valid_ascii_Cons intro!: utf8_valid_append utf8_valid_quoted)
  then show ?thesis
    by (simp add: template_def compact_layout_def utf8_valid_ascii_Cons utf8_valid_append utf8_valid_ascii)
qed

lemma trim_not_empty: "byte c < 128 \<Longrightarrow> \<not> is_whitespace (byte c) \<Longrightarrow> trim (c # s) \<noteq> []"
proof -
  assume c: "byte c < 128" "\<not> is_whitespace (byte c)"
  have "[c] \<in> set (dropWhile P (xs @ [[c]]))" if "\<not> P [c]" for P and xs :: "string list"
    using that by (induction xs) auto
  then have "[c] \<in> set (trim_slices (\<lambda>x. is_whitespace (code_point x)) (char_slices (c # s)))"
    using c by (simp add: trim_slices_def char_slices_ascii)
  then show ?thesis by (auto simp: trim_def trim_matches_def)
qed

lemma canonical_line_shape:
  assumes "valid_event event" "plain_key previous" "list_all plain_char previous"
    and "line = fst (canonical_event_line sha event previous)"
  shows "utf8_valid line" "LF \<notin> set line" "last line = CHR ''}''" "trim line \<noteq> []"
proof -
  let ?ms = "event_members event previous @
    [(''event_hash'', quoted (planned_event_hash sha event previous))]"
  have line: "line = template compact_layout ?ms"
    by (simp add: assms(4) canonical_event_line_template)
  have hash: "list_all plain_char (planned_event_hash sha event previous)"
    by (simp add: planned_event_hash_def sha256_bytes_def bytes_to_hex_plain)
  have plain: "utf8_valid s" "list_all (\<lambda>c. 32 \<le> byte c) s" if "list_all plain_char s" for s
    using that by (rule utf8_valid_ascii [OF list.pred_mono_strong], simp add: plain_char_def)
      (rule list.pred_mono_strong [OF that], simp add: plain_char_def)
  show "utf8_valid line" unfolding line
    by (rule utf8_valid_template)
      (use assms(1) in \<open>simp add: event_members_def valid_event_def utf8_valid_ascii_Cons
          utf8_valid_show_nat utf8_valid_quoted utf8_valid_escape plain [OF hash] plain [OF assms(3)]\<close>)
  have esc: "list_all (\<lambda>c. 32 \<le> byte c) (escape_string_content x)"
    "list_all (\<lambda>c. 32 \<le> byte c) (show_nat n)" for x n
    by (auto simp: list_all_iff is_ascii_digit_def dest: escape_content_bytes show_nat_digits)
  have "list_all (\<lambda>c. 32 \<le> byte c) line" unfolding line
    by (rule template_chars)
      (simp_all add: event_members_def quoted_def esc plain [OF hash] plain [OF assms(3)])
  then show "LF \<notin> set line" by (auto simp: list_all_iff)
  show "last line = CHR ''}''" by (simp add: line template_def)
  show "trim line \<noteq> []" by (simp add: line template_def trim_not_empty is_whitespace_def)
qed

section \<open>The chain invariant\<close>

lemma chain_loop_append:
  "chain_loop sha i evs lg pv (xs @ ys) =
     rbind (chain_loop sha i evs lg pv xs) (\<lambda>(evs', lg', pv'). chain_loop sha (i + length xs) evs' lg' pv' ys)"
proof (induction xs arbitrary: i evs lg pv)
  case (Cons x xs)
  show ?case
  proof (cases "parse_event_line_strict x")
    case (Inr e)
    then show ?thesis
      by (cases "previous_event_hash e"; cases "event_hash e") (simp_all add: Cons.IH)
  qed simp
qed simp

definition chain_state :: "parsed_event list \<Rightarrow> string option \<Rightarrow> bool" where
  "chain_state evs pv \<longleftrightarrow>
     (case pv of
        None \<Rightarrow> chained_count evs = 0
      | Some h \<Rightarrow> evs \<noteq> [] \<and> event_hash (last evs) = Some h \<and> list_all plain_char h)"

lemma physical_hash_plain: "list_all plain_char (event_physical_hash sha e p)"
  by (simp add: event_physical_hash_def Let_def sha256_bytes_def bytes_to_hex_plain)

lemma chain_loop_state:
  "chain_loop sha i evs lg pv xs = Inr (evs', lg', pv') \<Longrightarrow> chain_state evs pv \<Longrightarrow>
     chain_state evs' pv' \<and> length evs' = length evs + length xs"
proof (induction xs arbitrary: i evs lg pv)
  case (Cons x xs)
  from Cons.prems(1) obtain e where e: "parse_event_line_strict x = Inr e"
    by (auto split: if_splits sum.splits)
  show ?case
  proof (cases "event_hash e")
    case None
    with Cons.prems(1) e have "pv = None" and step:
      "chain_loop sha (i + 1) (evs @ [e]) (lg @ x @ [LF]) None xs = Inr (evs', lg', pv')"
      by (auto split: if_splits option.splits)
    moreover have "chain_state (evs @ [e]) None"
      using Cons.prems(2) None \<open>pv = None\<close> by (simp add: chain_state_def chained_count_def)
    ultimately show ?thesis using Cons.IH [OF step] by simp
  next
    case (Some h)
    with Cons.prems(1) e have step: "chain_loop sha (i + 1) (evs @ [e]) lg (Some h) xs = Inr (evs', lg', pv')"
      and "list_all plain_char h"
      by (auto simp: physical_hash_plain split: if_splits option.splits)
    then have "chain_state (evs @ [e]) (Some h)" using Some by (simp add: chain_state_def)
    with Cons.IH [OF step] show ?thesis by simp
  qed
qed simp

lemma plain_chars_key: "list_all plain_char k \<Longrightarrow> plain_key k"
  by (rule plain_key_chars)

lemma expected_previous_plain:
  "chain_state evs pv \<Longrightarrow> list_all plain_char (expected_previous sha lg pv)"
  by (auto simp: expected_previous_def chain_state_def sha256_bytes_def bytes_to_hex_plain
      plain_char_def split: option.splits)

lemma reads_one: "reads d ''1'' (JNumber 1)"
proof -
  have "show_nat (unat (1 :: u128)) = ''1''" by code_simp
  then show ?thesis using reads_number [of d 1] by simp
qed

lemma unat_widen: "unat (ucast n :: u128) = unat n" for n :: u64
proof -
  have "unat n < 2 ^ 128"
    using unsigned_less [of n, where 'a = nat] by (rule less_le_trans) simp
  then show ?thesis by (simp add: unsigned_ucast_eq take_bit_nat_eq_self)
qed

lemma reads_count: "reads d (show_nat (unat n)) (JNumber (ucast n))" for n :: usize
  using reads_number [of d "ucast n"] by (simp add: unat_widen)

lemma parse_head_text:
  assumes "list_all plain_char h"
  shows "parse_object (head_text count h) head_keys head_context =
    Inr [(''schema_version'', JNumber 1), (''event_count'', JNumber (ucast count)),
         (''last_event_hash'', JString h)]"
proof -
  have "json_blank [LF]" by (simp add: json_blank_def is_json_ws_def)
  from parse_value_template [OF blank_layouts(1) _ _ _ this, where ctxt = head_context
      and kvs = "[(''schema_version'', JNumber 1), (''event_count'', JNumber (ucast count)),
         (''last_event_hash'', JString h)]"
      and ms = "[(''schema_version'', ''1''), (''event_count'', show_nat (unat count)),
        (''last_event_hash'', quoted h)]"]
  have "parse_value (head_text count h) head_context =
      Inr (JObject [(''schema_version'', JNumber 1), (''event_count'', JNumber (ucast count)),
         (''last_event_hash'', JString h)])"
    using reads_one reads_count reads_plain [OF plain_chars_key [OF assms]] ledger_keys_plain
    by (simp add: head_text_def ledger_keys_def)
  then show ?thesis by (simp add: parse_object_def object_keys_def head_keys_def)
qed

lemma head_text_valid: "list_all plain_char h \<Longrightarrow> utf8_valid (head_text count h)"
proof -
  assume "list_all plain_char h"
  then have "utf8_valid h" by (rule utf8_valid_ascii [OF list.pred_mono_strong]) (simp add: plain_char_def)
  then have "utf8_valid (template compact_layout [(''schema_version'', ''1''),
      (''event_count'', show_nat (unat count)), (''last_event_hash'', quoted h)])"
    by (intro utf8_valid_template)
      (simp add: utf8_valid_ascii_Cons utf8_valid_show_nat utf8_valid_quoted)
  then show ?thesis by (simp add: head_text_def utf8_valid_append utf8_valid_ascii_Cons)
qed

lemma head_accessors:
  assumes "list_all plain_char h"
    and "parse_object (head_text count h) head_keys head_context = Inr obj"
  shows "json_number obj ''schema_version'' head_context = Inr 1"
    "json_number obj ''event_count'' head_context = Inr count"
    "json_string obj ''last_event_hash'' head_context = Inr h"
  using assms(2) unsigned_less [of count, where 'a = nat]
  by (auto simp: parse_head_text [OF assms(1)] json_number_def json_string_def object_get_def
      u64_try_from_def unat_widen)

lemma validate_head_cases:
  assumes "list_all plain_char h" "head_body fs = Some (head_text count h)"
  shows "validate_ledger_head sha events last_hash lg rep fs =
    (let n = length events;
         expected = (case last_hash of Some h \<Rightarrow> h | None \<Rightarrow> if lg = [] then ''root'' else ''legacy'')
     in if count = of_nat n \<and> h = expected then (Inr (), fs)
        else if rep \<and> checked_add count 1 = Some (of_nat n)
          \<and> (last_previous events = Some h \<or> chained_count events = 1 \<and> h = ''legacy'' \<and>
              last_previous events =
                (if lg \<noteq> [] then Some (''legacy:'' @ sha256_bytes sha lg) else None))
        then write_ledger_head (of_nat n) expected fs
        else (Inl (ledger_corrupt n ''ledger truncation/head mismatch''), fs))"
proof -
  obtain obj where obj: "parse_object (head_text count h) head_keys head_context = Inr obj"
    using parse_head_text [OF assms(1)] by blast
  show ?thesis
    by (simp add: validate_ledger_head_def assms(2) head_text_valid [OF assms(1)] obj
        head_accessors [OF assms(1) obj] Let_def) auto
qed

section \<open>A consistent ledger\<close>

definition body_of :: "ledger_fs \<Rightarrow> string" where
  "body_of fs = (case ledger_body fs of None \<Rightarrow> [] | Some b \<Rightarrow> b)"

lemma body_of_update [simp]:
  "body_of (fs\<lparr>ledger_body := Some b\<rparr>) = b" "body_of (fs\<lparr>head_body := h\<rparr>) = body_of fs"
  "body_of (fs\<lparr>io_outcomes := os\<rparr>) = body_of fs"
  by (simp_all add: body_of_def)

text \<open>The ledger holds exactly \<open>evs\<close> and the head agrees.\<close>

definition ledger_sync :: "hasher \<Rightarrow> ledger_fs \<Rightarrow> parsed_event list \<Rightarrow> bool" where
  "ledger_sync sha fs evs \<longleftrightarrow> utf8_valid (body_of fs) \<and>
     (case chain_loop sha 0 [] [] None (str_lines (body_of fs)) of
        Inl _ \<Rightarrow> False
      | Inr (evs', _, pv) \<Rightarrow> evs' = evs \<and>
          head_body fs = (case pv of None \<Rightarrow> None | Some h \<Rightarrow> Some (head_text (of_nat (length evs)) h)) \<and>
          (pv = None \<longrightarrow> evs = []))"

text \<open>... and its last record is complete.\<close>

definition ledger_ok :: "hasher \<Rightarrow> ledger_fs \<Rightarrow> parsed_event list \<Rightarrow> bool" where
  "ledger_ok sha fs evs \<longleftrightarrow> ledger_sync sha fs evs \<and> ends_line (body_of fs)"

lemma ledger_ok_sync: "ledger_ok sha fs evs \<Longrightarrow> ledger_sync sha fs evs"
  by (simp add: ledger_ok_def)

definition ledger_previous_hash :: "parsed_event list \<Rightarrow> string result" where
  "ledger_previous_hash events =
     (if events = [] then Inr ''root''
      else ok_or (blocked_error ''planned ledger predecessor hash missing'' [])
             (event_hash (last events)))"

lemma ledger_syncE:
  assumes "ledger_sync sha fs evs"
  obtains lg pv where "chain_loop sha 0 [] [] None (str_lines (body_of fs)) = Inr (evs, lg, pv)"
    "chain_state evs pv" "length evs = length (str_lines (body_of fs))"
    "head_body fs = (case pv of None \<Rightarrow> None | Some h \<Rightarrow> Some (head_text (of_nat (length evs)) h))"
    "pv = None \<Longrightarrow> evs = []" "utf8_valid (body_of fs)"
proof -
  from assms obtain lg pv where loop: "chain_loop sha 0 [] [] None (str_lines (body_of fs)) = Inr (evs, lg, pv)"
    and rest: "head_body fs = (case pv of None \<Rightarrow> None | Some h \<Rightarrow> Some (head_text (of_nat (length evs)) h))"
      "pv = None \<longrightarrow> evs = []"
    by (auto simp: ledger_sync_def split: sum.splits)
  from chain_loop_state [OF loop] have "chain_state evs pv \<and> length evs = length (str_lines (body_of fs))"
    by (simp add: chain_state_def chained_count_def)
  with that loop rest assms show ?thesis by (simp add: ledger_sync_def)
qed

lemma ledger_okE:
  assumes "ledger_ok sha fs evs"
  obtains lg pv where "chain_loop sha 0 [] [] None (str_lines (body_of fs)) = Inr (evs, lg, pv)"
    "chain_state evs pv" "length evs = length (str_lines (body_of fs))"
    "head_body fs = (case pv of None \<Rightarrow> None | Some h \<Rightarrow> Some (head_text (of_nat (length evs)) h))"
    "pv = None \<Longrightarrow> evs = []" "utf8_valid (body_of fs)" "ends_line (body_of fs)"
  using assms by (auto simp: ledger_ok_def elim: ledger_syncE)

lemma str_lines_empty: "str_lines s = [] \<longleftrightarrow> s = []"
proof
  have ne: "lines_from (c # cur) s \<noteq> []" for c cur s
    by (induction s arbitrary: cur) auto
  assume "str_lines s = []"
  then show "s = []" using ne by (cases s) (auto simp: str_lines_def split: if_splits)
qed (simp add: str_lines_def)

lemma validate_ok:
  assumes "ledger_sync sha fs evs"
  shows "validate_ledger_contents_inner sha (body_of fs) rep fs = (Inr evs, fs)"
proof -
  from ledger_syncE [OF assms] obtain lg pv
    where loop: "chain_loop sha 0 [] [] None (str_lines (body_of fs)) = Inr (evs, lg, pv)"
    and st: "chain_state evs pv"
    and head: "head_body fs = (case pv of None \<Rightarrow> None | Some h \<Rightarrow> Some (head_text (of_nat (length evs)) h))"
    by metis
  have "validate_ledger_head sha evs pv lg rep fs = (Inr (), fs)"
  proof (cases pv)
    case None
    with head show ?thesis by (simp add: validate_ledger_head_def Let_def)
  next
    case (Some h)
    with st head show ?thesis 
      by (simp add: validate_head_cases [of h fs "of_nat (length evs)"] chain_state_def Let_def)
  qed
  with loop show ?thesis
    by (simp add: validate_ledger_contents_inner_def sthen_def sbind_eqs sreturn_def)
qed

lemma read_sync: "ledger_sync sha fs evs \<Longrightarrow> read_runtime_events_unlocked sha fs = (Inr evs, fs)"
proof (cases "ledger_body fs")
  case None
  moreover assume "ledger_sync sha fs evs"
  ultimately show ?thesis
    by (simp add: read_runtime_events_unlocked_def ledger_sync_def body_of_def str_lines_def)
next
  case (Some b)
  moreover assume ok: "ledger_sync sha fs evs"
  moreover from ok Some have "utf8_valid b" by (simp add: ledger_sync_def body_of_def)
  ultimately show ?thesis using validate_ok [OF ok, of True]
    by (simp add: read_runtime_events_unlocked_def validate_ledger_contents_with_head_repair_def
        body_of_def)
qed

lemma read_ok: "ledger_ok sha fs evs \<Longrightarrow> read_runtime_events_unlocked sha fs = (Inr evs, fs)"
  by (simp add: ledger_ok_def read_sync)

lemma ledger_sync_previous:
  assumes "ledger_sync sha fs evs" "chain_loop sha 0 [] [] None (str_lines (body_of fs)) = Inr (evs, lg, pv)"
  shows "ledger_previous_hash evs = Inr (expected_previous sha lg pv)"
    "list_all plain_char (expected_previous sha lg pv)"
proof -
  from assms have st: "chain_state evs pv" by (auto elim: ledger_syncE)
  then show "list_all plain_char (expected_previous sha lg pv)" by (rule expected_previous_plain)
  show "ledger_previous_hash evs = Inr (expected_previous sha lg pv)"
  proof (cases pv)
    case None
    with assms have "evs = []" by (auto elim: ledger_syncE)
    with assms have "str_lines (body_of fs) = []" by (auto elim: ledger_syncE)
    with assms(2) None have "lg = []" by simp
    with None \<open>evs = []\<close> show ?thesis by (simp add: ledger_previous_hash_def expected_previous_def)
  next
    case (Some h)
    with st show ?thesis by (simp add: ledger_previous_hash_def chain_state_def expected_previous_def)
  qed
qed

lemmas ledger_ok_previous = ledger_sync_previous [OF ledger_ok_sync]

text \<open>The loop on the body with one more canonical line.\<close>

lemma chain_loop_canonical:
  assumes "valid_event ev" "chain_state evs pv" "p = expected_previous sha lg pv"
  shows "chain_loop sha i evs lg pv [fst (canonical_event_line sha ev p)] =
    Inr (evs @ [parsed_of ev (Some p) (Some (planned_event_hash sha ev p))], lg,
         Some (planned_event_hash sha ev p))"
proof -
  have p: "list_all plain_char p" using expected_previous_plain [OF assms(2)] assms(3) by simp
  note key = plain_chars_key [OF p]
  note shape = canonical_line_shape [OF assms(1) key p refl, of sha]
  have "event_physical_hash sha (parsed_of ev (Some p) (Some h)) p = planned_event_hash sha ev p" for h
    by (simp add: event_physical_hash_eq)
  with shape(4) parse_canonical_line [OF assms(1) key, of sha] show ?thesis
    by (simp add: assms(3) [symmetric])
qed

lemma str_lines_canonical:
  assumes "valid_event ev" "list_all plain_char p" "ends_line body"
  shows "str_lines (body @ fst (canonical_event_line sha ev p) @ [LF]) =
    str_lines body @ [fst (canonical_event_line sha ev p)]"
  using canonical_line_shape [OF assms(1) plain_chars_key [OF assms(2)] assms(2) refl, of sha]
  by (simp add: str_lines_append [OF assms(3)] str_lines_line)

section \<open>Appending\<close>

text \<open>The state after the line is written, and after the head is replaced too.\<close>

definition with_line :: "hasher \<Rightarrow> ledger_event \<Rightarrow> string \<Rightarrow> ledger_fs \<Rightarrow> ledger_fs" where
  "with_line sha ev p fs =
     fs\<lparr>ledger_body := Some (body_of fs @ fst (canonical_event_line sha ev p) @ [LF])\<rparr>"

definition with_head :: "hasher \<Rightarrow> ledger_event \<Rightarrow> string \<Rightarrow> nat \<Rightarrow> ledger_fs \<Rightarrow> ledger_fs" where
  "with_head sha ev p n fs = fs\<lparr>head_body := Some (head_text (of_nat n + 1) (planned_event_hash sha ev p))\<rparr>"

definition installed_event :: "hasher \<Rightarrow> ledger_event \<Rightarrow> string \<Rightarrow> parsed_event" where
  "installed_event sha ev p = parsed_of ev (Some p) (Some (planned_event_hash sha ev p))"

lemma append_unfold:
  assumes "ledger_sync sha fs evs" "ledger_previous_hash evs = Inr p"
  shows "append_chained_event sha ev fs =
    sthen (append_line (fst (canonical_event_line sha ev p)))
      (write_ledger_head (of_nat (length evs) + 1) (planned_event_hash sha ev p)) fs"
proof -
  from assms(1) obtain lg pv where loop: "chain_loop sha 0 [] [] None (str_lines (body_of fs)) = Inr (evs, lg, pv)"
    and st: "chain_state evs pv" and len: "length evs = length (str_lines (body_of fs))"
    and pv: "pv = None \<Longrightarrow> evs = []" and utf: "utf8_valid (body_of fs)" by (rule ledger_syncE) blast
  have "(case (if evs = [] then None else event_hash (last evs)) of Some h \<Rightarrow> h
      | None \<Rightarrow> if body_of fs = [] then ''root'' else ''legacy:'' @ sha256_bytes sha (body_of fs)) = p"
  proof (cases pv)
    case None
    with pv have "evs = []" by simp
    with len have "body_of fs = []" by (simp add: str_lines_empty)
    with \<open>evs = []\<close> assms(2) show ?thesis by (simp add: ledger_previous_hash_def)
  next
    case (Some h)
    with st assms(2) show ?thesis by (simp add: chain_state_def ledger_previous_hash_def)
  qed
  with utf validate_ok [OF assms(1), of False] show ?thesis
    by (simp add: append_chained_event_def validate_ledger_contents_def body_of_def [symmetric]
        sbind_eqs canonical_event_line_template)
qed

lemma previous_plain:
  "ledger_ok sha fs evs \<Longrightarrow> ledger_previous_hash evs = Inr p \<Longrightarrow> list_all plain_char p"
  by (metis ledger_okE ledger_ok_previous sum.inject(2))

lemma with_line_loop:
  assumes "ledger_ok sha fs evs" "ledger_previous_hash evs = Inr p" "valid_event ev"
  shows "\<exists>lg. chain_loop sha 0 [] [] None (str_lines (body_of (with_line sha ev p fs))) =
      Inr (evs @ [installed_event sha ev p], lg, Some (planned_event_hash sha ev p))"
    and "utf8_valid (body_of (with_line sha ev p fs))" "ends_line (body_of (with_line sha ev p fs))"
proof -
  from assms(1) obtain lg pv where loop: "chain_loop sha 0 [] [] None (str_lines (body_of fs)) = Inr (evs, lg, pv)"
    and st: "chain_state evs pv" and utf: "utf8_valid (body_of fs)" and line: "ends_line (body_of fs)"
    by (rule ledger_okE) blast
  from ledger_ok_previous [OF assms(1) loop] assms(2)
  have p: "p = expected_previous sha lg pv" and plain: "list_all plain_char p" by simp_all
  have "chain_loop sha 0 [] [] None (str_lines (body_of (with_line sha ev p fs))) =
      Inr (evs @ [installed_event sha ev p], lg, Some (planned_event_hash sha ev p))"
    using chain_loop_canonical [OF assms(3) st p]
    by (simp add: with_line_def
        str_lines_canonical [OF assms(3) plain line] chain_loop_append loop installed_event_def)
  then show "\<exists>lg. chain_loop sha 0 [] [] None (str_lines (body_of (with_line sha ev p fs))) =
      Inr (evs @ [installed_event sha ev p], lg, Some (planned_event_hash sha ev p))" by blast
  have "utf8_valid (fst (canonical_event_line sha ev p))"
    by (rule canonical_line_shape [OF assms(3) plain_chars_key [OF plain] plain refl])
  then show "utf8_valid (body_of (with_line sha ev p fs))"
    using utf by (simp add: with_line_def utf8_valid_append
        utf8_valid_ascii_Cons)
  show "ends_line (body_of (with_line sha ev p fs))"
    by (simp add: with_line_def ends_line_def)
qed

lemma with_head_ok:
  assumes "ledger_ok sha fs evs" "ledger_previous_hash evs = Inr p" "valid_event ev"
  shows "ledger_ok sha (with_head sha ev p (length evs) (with_line sha ev p fs))
    (evs @ [installed_event sha ev p])"
  using with_line_loop [OF assms]
  by (auto simp: ledger_ok_def ledger_sync_def with_head_def add.commute)

lemma outcomes_irrelevant [simp]:
  "ledger_ok sha (fs\<lparr>io_outcomes := os\<rparr>) evs = ledger_ok sha fs evs"
  by (simp add: ledger_ok_def ledger_sync_def split: sum.splits)

section \<open>Crash recovery\<close>

definition no_faults :: "ledger_fs \<Rightarrow> ledger_fs" where
  "no_faults fs = fs\<lparr>io_outcomes := []\<rparr>"

lemma write_head_no_faults:
  "io_outcomes fs = [] \<Longrightarrow>
     write_ledger_head count h fs = (Inr (), fs\<lparr>head_body := Some (head_text count h)\<rparr>)"
  by (cases fs) (simp add: write_ledger_head_def next_outcome_def Let_def)

lemma checked_successor: "Suc n < 2 ^ 64 \<Longrightarrow> checked_add (of_nat n :: u64) 1 = Some (of_nat (Suc n))"
  by (simp add: checked_add_Some_iff unat_of_nat_small del: of_nat_Suc)

text \<open>A crash between the line and the head is repaired by the next read.\<close>

lemma read_repairs:
  assumes ok: "ledger_ok sha fs evs" and p: "ledger_previous_hash evs = Inr p"
    and ev: "valid_event ev" and bound: "Suc (length evs) < 2 ^ 64" and io: "io_outcomes fs = []"
    and b: "str_lines b = str_lines (body_of (with_line sha ev p fs))" "utf8_valid b"
  shows "read_runtime_events_unlocked sha (fs\<lparr>ledger_body := Some b\<rparr>) =
    (Inr (evs @ [installed_event sha ev p]),
     with_head sha ev p (length evs) (fs\<lparr>ledger_body := Some b\<rparr>))"
proof -
  let ?fs = "fs\<lparr>ledger_body := Some b\<rparr>" and ?e = "installed_event sha ev p"
  let ?h = "planned_event_hash sha ev p"
  from ok obtain lg0 pv where st: "chain_state evs pv" and pv: "pv = None \<Longrightarrow> evs = []"
    and loop0: "chain_loop sha 0 [] [] None (str_lines (body_of fs)) = Inr (evs, lg0, pv)"
    and head: "head_body fs = (case pv of None \<Rightarrow> None | Some h \<Rightarrow> Some (head_text (of_nat (length evs)) h))"
    by (rule ledger_okE) blast
  from with_line_loop [OF ok p ev] obtain lg
    where loop: "chain_loop sha 0 [] [] None (str_lines (body_of ?fs)) = Inr (evs @ [?e], lg, Some ?h)"
    using b(1) by auto
  have utf: "utf8_valid (body_of ?fs)" and body: "ledger_body ?fs = Some (body_of ?fs)"
    and io': "io_outcomes ?fs = []" and head': "head_body ?fs = head_body fs"
    using io b(2) by simp_all
  have "validate_ledger_head sha (evs @ [?e]) (Some ?h) lg True ?fs =
      write_ledger_head (of_nat (Suc (length evs))) ?h ?fs"
  proof (cases pv)
    case None
    with pv head head' show ?thesis
      by (simp add: validate_ledger_head_def chained_count_def installed_event_def)
  next
    case (Some h)
    with st have "list_all plain_char h" "evs \<noteq> []" "event_hash (last evs) = Some h"
      by (simp_all add: chain_state_def)
    then have hp: "h = p" using p by (simp add: ledger_previous_hash_def)
    have "list_all plain_char p" using \<open>list_all plain_char h\<close> hp by simp
    moreover have "last_previous (evs @ [?e]) = Some p"
      by (simp add: last_previous_def installed_event_def)
    moreover have "(of_nat (length evs) :: usize) \<noteq> of_nat (Suc (length evs))" by simp
    moreover have "head_body ?fs = Some (head_text (of_nat (length evs)) p)"
      using head head' Some hp by simp
    ultimately show ?thesis
      using checked_successor [OF bound]
      by (simp add: validate_head_cases [of p ?fs "of_nat (length evs)"] del: of_nat_Suc)
  qed
  then have "validate_ledger_contents_inner sha (body_of ?fs) True ?fs =
      (Inr (evs @ [?e]), with_head sha ev p (length evs) ?fs)"
    using loop write_head_no_faults [OF io']
    by (simp add: validate_ledger_contents_inner_def sthen_def sbind_eqs sreturn_def with_head_def
        add.commute)
  with body utf show ?thesis
    by (simp add: read_runtime_events_unlocked_def validate_ledger_contents_with_head_repair_def)
qed

lemma read_repairs_head:
  assumes "ledger_ok sha fs evs" "ledger_previous_hash evs = Inr p" "valid_event ev"
    and "Suc (length evs) < 2 ^ 64" "io_outcomes fs = []"
  shows "read_runtime_events_unlocked sha (with_line sha ev p fs) =
    (Inr (evs @ [installed_event sha ev p]),
     with_head sha ev p (length evs) (with_line sha ev p fs))"
  using read_repairs [OF assms refl with_line_loop(2) [OF assms(1,2,3)]] by (simp add: with_line_def)

text \<open>The state a torn write leaves: the whole record, without its line feed.\<close>

definition with_record :: "hasher \<Rightarrow> ledger_event \<Rightarrow> string \<Rightarrow> ledger_fs \<Rightarrow> ledger_fs" where
  "with_record sha ev p fs =
     fs\<lparr>ledger_body := Some (body_of fs @ fst (canonical_event_line sha ev p))\<rparr>"

text \<open>The first \<open>k\<close> bytes of the record.\<close>

definition with_torn :: "hasher \<Rightarrow> ledger_event \<Rightarrow> string \<Rightarrow> nat \<Rightarrow> ledger_fs \<Rightarrow> ledger_fs" where
  "with_torn sha ev p k fs =
     fs\<lparr>ledger_body := Some (body_of fs @ take k (fst (canonical_event_line sha ev p)))\<rparr>"

lemma no_faults_with [simp]:
  "no_faults (with_line sha ev p fs) = with_line sha ev p (no_faults fs)"
  "no_faults (with_head sha ev p n fs) = with_head sha ev p n (no_faults fs)"
  "ledger_ok sha (no_faults fs) evs = ledger_ok sha fs evs" "io_outcomes (no_faults fs) = []"
  by (simp_all add: no_faults_def with_line_def with_head_def)

text \<open>The write of a record of \<open>n\<close> bytes stops strictly inside it.\<close>

definition torn_write :: "io_outcome \<Rightarrow> nat \<Rightarrow> bool" where
  "torn_write o' n \<longleftrightarrow> (case o' of Io_ok \<Rightarrow> False | Io_error k \<Rightarrow> 1 < k \<and> k < Suc n)"

lemma append_states:
  assumes "ledger_ok sha fs evs" "ledger_previous_hash evs = Inr p"
    and "append_chained_event sha ev fs = (r, fs')"
  obtains (kept) "ledger_ok sha (no_faults fs') evs" "\<not> is_ok r"
        "\<not> torn_write (next_outcome fs) (length (fst (canonical_event_line sha ev p)))"
    | (torn) k where "next_outcome fs = Io_error (Suc k)" "0 < k"
        "k < length (fst (canonical_event_line sha ev p))"
        "no_faults fs' = with_torn sha ev p k (no_faults fs)" "\<not> is_ok r"
    | (unended) "next_outcome fs = Io_error (Suc (length (fst (canonical_event_line sha ev p))))"
        "no_faults fs' = with_record sha ev p (no_faults fs)" "\<not> is_ok r"
    | (line) "no_faults fs' = with_line sha ev p (no_faults fs)" "\<not> is_ok r"
        "\<not> torn_write (next_outcome fs) (length (fst (canonical_event_line sha ev p)))"
    | (both) "no_faults fs' = with_head sha ev p (length evs) (with_line sha ev p (no_faults fs))"
        "\<not> torn_write (next_outcome fs) (length (fst (canonical_event_line sha ev p)))"
proof -
  let ?line = "fst (canonical_event_line sha ev p)"
  define fs1 where "fs1 = fs\<lparr>io_outcomes := tl (io_outcomes fs)\<rparr>"
  have run: "(r, fs') = sthen (append_line ?line)
      (write_ledger_head (of_nat (length evs) + 1) (planned_event_hash sha ev p)) fs"
    using append_unfold [OF ledger_ok_sync [OF assms(1)] assms(2)] assms(3) by simp
  have nf: "no_faults fs1 = no_faults fs" by (simp add: fs1_def no_faults_def)
  have body: "body_of fs1 = body_of fs" by (simp add: fs1_def)
  have old: "(case ledger_body fs of None \<Rightarrow> [] | Some b \<Rightarrow> b) = body_of fs" by (simp add: body_of_def)
  show ?thesis
  proof (cases "next_outcome fs")
    case Io_ok
    let ?fs2 = "with_line sha ev p fs1"
    have "append_line ?line fs = (Inr (), ?fs2)"
      by (simp add: append_line_def Io_ok Let_def old with_line_def fs1_def)
    then have w: "(r, fs') = write_ledger_head (of_nat (length evs) + 1) (planned_event_hash sha ev p) ?fs2"
      using run by (simp add: sthen_def sbind_eqs)
    have safe: "\<not> torn_write (next_outcome fs) (length ?line)" by (simp add: Io_ok torn_write_def)
    have nf2: "no_faults (?fs2\<lparr>io_outcomes := os\<rparr>) = with_line sha ev p (no_faults fs)" for os
      using nf by (simp add: no_faults_def with_line_def body fs1_def)
    show ?thesis
    proof (cases "next_outcome ?fs2")
      case Io_ok
      with w have "fs' = with_head sha ev p (length evs) (?fs2\<lparr>io_outcomes := tl (io_outcomes ?fs2)\<rparr>)"
        by (simp add: write_ledger_head_def Let_def with_head_def)
      with nf2 both [OF _ safe] show ?thesis by simp
    next
      case (Io_error n)
      with w have "fs' = (if n = 0 then ?fs2\<lparr>io_outcomes := tl (io_outcomes ?fs2)\<rparr>
          else with_head sha ev p (length evs) (?fs2\<lparr>io_outcomes := tl (io_outcomes ?fs2)\<rparr>))" "\<not> is_ok r"
        by (simp_all add: write_ledger_head_def Let_def with_head_def)
      with nf2 line [OF _ _ safe] both [OF _ safe] show ?thesis by (cases "n = 0") simp_all
    qed
  next
    case (Io_error n)
    have fail: "\<not> is_ok r" and fs': "fs' = (case n of 0 \<Rightarrow> fs1 
        | Suc k \<Rightarrow> fs1\<lparr>ledger_body := Some (body_of fs @ take k (?line @ [LF]))\<rparr>)"
      using run Io_error
      by (cases n; simp add: sthen_def sbind_def append_line_def Let_def old fs1_def)+
    have ok: "ledger_ok sha (no_faults fs1) evs" using assms(1) nf by simp
    consider "n = 0" | "n = Suc 0" | k where "n = Suc k" "0 < k" "k < length ?line"
      | "n = Suc (length ?line)" | k where "n = Suc k" "length ?line < k"
      by (metis less_linear not0_implies_Suc zero_less_Suc gr0I)
    then show ?thesis
    proof cases
      case 1
      show ?thesis by (rule kept) (use fs' fail ok 1 Io_error in \<open>simp_all add: torn_write_def\<close>)
    next
      case 2
      have "ledger_ok sha (no_faults fs') evs"
        using assms(1) fs' 2
        by (simp add: ledger_ok_def ledger_sync_def no_faults_def fs1_def split: sum.splits prod.splits)
      then show ?thesis by (rule kept) (use fail 2 Io_error in \<open>simp_all add: torn_write_def\<close>)
    next
      case (3 k)
      show ?thesis
        by (rule torn [of k]) (use 3 fs' fail Io_error nf in \<open>simp_all add: with_torn_def no_faults_def fs1_def\<close>)
    next
      case 4
      show ?thesis
        by (rule unended) (use 4 fs' fail Io_error nf in \<open>simp_all add: with_record_def no_faults_def fs1_def\<close>)
    next
      case (5 k)
      show ?thesis
        by (rule line) (use 5 fs' fail nf Io_error in \<open>simp_all add: with_line_def no_faults_def fs1_def torn_write_def\<close>)
    qed
  qed
qed

section \<open>Tamper evidence\<close>

text \<open>What an accepted chain is: every event names its predecessor's hash and carries its own.\<close>

fun chained_from :: "hasher \<Rightarrow> string \<Rightarrow> parsed_event list \<Rightarrow> bool" where
  "chained_from sha p [] \<longleftrightarrow> True"
| "chained_from sha p (e # es) \<longleftrightarrow> previous_event_hash e = Some p \<and>
     event_hash e = Some (planned_event_hash sha (event_of e) p) \<and> valid_event (event_of e) \<and>
     chained_from sha (planned_event_hash sha (event_of e) p) es"

fun chain_end :: "hasher \<Rightarrow> string \<Rightarrow> parsed_event list \<Rightarrow> string" where
  "chain_end sha p [] = p"
| "chain_end sha p (e # es) = chain_end sha (planned_event_hash sha (event_of e) p) es"

fun chain_payloads :: "hasher \<Rightarrow> string \<Rightarrow> parsed_event list \<Rightarrow> string list" where
  "chain_payloads sha p [] = []"
| "chain_payloads sha p (e # es) =
     event_chain_payload (event_of e) p # chain_payloads sha (planned_event_hash sha (event_of e) p) es"

lemma chained_from_snoc:
  "chained_from sha p (es @ [e]) \<longleftrightarrow> chained_from sha p es \<and>
     previous_event_hash e = Some (chain_end sha p es) \<and> valid_event (event_of e) \<and>
     event_hash e = Some (planned_event_hash sha (event_of e) (chain_end sha p es))"
  by (induction es arbitrary: p) auto

lemma chain_end_snoc:
  "chain_end sha p (es @ [e]) = planned_event_hash sha (event_of e) (chain_end sha p es)"
  by (induction es arbitrary: p) auto

lemma chain_payloads_snoc:
  "chain_payloads sha p (es @ [e]) =
     chain_payloads sha p es @ [event_chain_payload (event_of e) (chain_end sha p es)]"
  by (induction es arbitrary: p) auto

definition anchor :: "hasher \<Rightarrow> string \<Rightarrow> string" where
  "anchor sha lg = expected_previous sha lg None"

definition chained_part :: "parsed_event list \<Rightarrow> parsed_event list" where
  "chained_part evs = filter (\<lambda>e. event_hash e \<noteq> None) evs"

definition chain_inv :: "hasher \<Rightarrow> parsed_event list \<Rightarrow> string \<Rightarrow> string option \<Rightarrow> bool" where
  "chain_inv sha evs lg pv \<longleftrightarrow> chained_from sha (anchor sha lg) (chained_part evs)
     \<and> pv = (if chained_part evs = [] then None
             else Some (chain_end sha (anchor sha lg) (chained_part evs)))
     \<and> (chained_part evs \<noteq> [] \<longrightarrow> last evs = last (chained_part evs))
     \<and> list_all (\<lambda>e. previous_event_hash e = None \<longleftrightarrow> event_hash e = None) evs"

lemma expected_previous_chain:
  "chain_inv sha evs lg pv \<Longrightarrow>
     expected_previous sha lg pv = chain_end sha (anchor sha lg) (chained_part evs)"
  by (auto simp: chain_inv_def expected_previous_def anchor_def)

text \<open>The loop accepts exactly such chains.\<close>

lemma chain_loop_inv:
  "chain_loop sha i evs lg pv xs = Inr (evs', lg', pv') \<Longrightarrow> chain_inv sha evs lg pv \<Longrightarrow>
     chain_inv sha evs' lg' pv'"
proof (induction xs arbitrary: i evs lg pv)
  case (Cons x xs)
  from Cons.prems(1) obtain e where e: "parse_event_line_strict x = Inr e"
    by (auto split: if_splits sum.splits)
  show ?case
  proof (cases "event_hash e")
    case None
    with Cons.prems(1) e have "pv = None" and step:
      "chain_loop sha (i + 1) (evs @ [e]) (lg @ x @ [LF]) None xs = Inr (evs', lg', pv')"
      and "previous_event_hash e = None"
      by (auto split: if_splits option.splits)
    moreover have "chain_inv sha (evs @ [e]) (lg @ x @ [LF]) None"
      using Cons.prems(2) None \<open>pv = None\<close> \<open>previous_event_hash e = None\<close>
      by (auto simp: chain_inv_def chained_part_def split: if_splits)
    ultimately show ?thesis using Cons.IH by blast
  next
    case (Some h)
    with Cons.prems(1) e obtain p where p: "previous_event_hash e = Some p"
      "p = expected_previous sha lg pv" "h = event_physical_hash sha e p"
      and step: "chain_loop sha (i + 1) (evs @ [e]) lg (Some h) xs = Inr (evs', lg', pv')"
      by (auto split: if_splits option.splits)
    have "chained_part (evs @ [e]) = chained_part evs @ [e]" using Some by (simp add: chained_part_def)
    then have "chain_inv sha (evs @ [e]) lg (Some h)"
      using p Some Cons.prems(2) expected_previous_chain [OF Cons.prems(2)] parse_event_line_valid [OF e]
      by (simp add: chain_inv_def chained_from_snoc chain_end_snoc event_physical_hash_eq)
    with Cons.IH step show ?thesis by blast
  qed
qed simp

lemma planned_hash_hex: "list_all is_ascii_hexdigit (planned_event_hash sha e p)"
  by (simp add: planned_event_hash_def sha256_bytes_def bytes_to_hex_plain)

lemma anchor_not_hex: "\<not> list_all is_ascii_hexdigit (anchor sha lg)"
  by (simp add: anchor_def expected_previous_def is_ascii_hexdigit_def is_ascii_digit_def)

lemma chain_end_plain: "list_all plain_char p \<Longrightarrow> list_all plain_char (chain_end sha p es)"
  by (induction es arbitrary: p)
    (auto simp: planned_event_hash_def sha256_bytes_def bytes_to_hex_plain)

lemma anchor_plain: "list_all plain_char (anchor sha lg)"
  by (auto simp: anchor_def expected_previous_def sha256_bytes_def bytes_to_hex_plain plain_char_def)

lemma chain_end_anchor:
  "chain_end sha (anchor sha lg) es = anchor sha lg' \<Longrightarrow> es = []"
  by (cases es rule: rev_cases) (auto simp: chain_end_snoc, metis anchor_not_hex planned_hash_hex)

lemma parsed_event_eqI:
  "event_of e = event_of e' \<Longrightarrow> previous_event_hash e = previous_event_hash e' \<Longrightarrow>
     event_hash e = event_hash e' \<Longrightarrow> e = e'"
  by (metis parsed_of_event_of)

lemma parsed_of_inj: "parsed_of e = parsed_of e' \<Longrightarrow> e = e'"
  by (metis event_of_parsed_of)

text \<open>Two chains with one end are the same chain, unless two different texts collide.\<close>

lemma chain_end_inj:
  assumes "chained_from sha (anchor sha lg) cs" "chained_from sha (anchor sha lg') ds"
    and "chain_end sha (anchor sha lg) cs = chain_end sha (anchor sha lg') ds"
    and "inj_on sha (set (chain_payloads sha (anchor sha lg) cs) \<union> set (chain_payloads sha (anchor sha lg') ds))"
  shows "cs = ds \<and> anchor sha lg = anchor sha lg'"
  using assms
proof (induction cs arbitrary: ds rule: rev_induct)
  case Nil
  then show ?case using chain_end_anchor [of sha lg' ds lg] by auto
next
  case (snoc c cs)
  show ?case
  proof (cases ds rule: rev_cases)
    case Nil
    with snoc.prems(3) chain_end_anchor [of sha lg "cs @ [c]" lg'] show ?thesis by simp
  next
    case (snoc ds' d)
    let ?p = "chain_end sha (anchor sha lg) cs" and ?q = "chain_end sha (anchor sha lg') ds'"
    let ?x = "event_chain_payload (event_of c) ?p" and ?y = "event_chain_payload (event_of d) ?q"
    have "sha ?x = sha ?y" using snoc.prems(3) snoc
      by (simp add: chain_end_snoc planned_event_hash_def sha256_bytes_def bytes_to_hex_inj)
    then have xy: "?x = ?y"
      by (rule inj_onD [OF snoc.prems(4)]) (simp_all add: snoc chain_payloads_snoc)
    have keys: "plain_key ?p" "plain_key ?q"
      by (rule plain_chars_key, rule chain_end_plain, rule anchor_plain)+
    from snoc.prems(1,2) snoc have valid: "valid_event (event_of c)" "valid_event (event_of d)"
      and sel: "previous_event_hash c = Some ?p" "previous_event_hash d = Some ?q"
        "event_hash c = Some (planned_event_hash sha (event_of c) ?p)"
        "event_hash d = Some (planned_event_hash sha (event_of d) ?q)"
      and pre: "chained_from sha (anchor sha lg) cs" "chained_from sha (anchor sha lg') ds'"
      by (simp_all add: chained_from_snoc)
    from event_chain_payload_inj [OF valid(1) keys(1) valid(2) keys(2) xy]
    have eq: "event_of c = event_of d" "?p = ?q" by (auto dest: parsed_of_inj)
    have "cs = ds' \<and> anchor sha lg = anchor sha lg'"
      by (rule snoc.IH [OF pre eq(2)])
        (rule inj_on_subset [OF snoc.prems(4)], auto simp: snoc chain_payloads_snoc)
    moreover have "c = d" using eq sel by (intro parsed_event_eqI) simp_all
    ultimately show ?thesis using snoc by simp
  qed
qed

definition ledger_payloads :: "parsed_event list \<Rightarrow> string list" where
  "ledger_payloads evs =
     map (\<lambda>e. event_chain_payload (event_of e) (the (previous_event_hash e))) (chained_part evs)"

lemma chain_payloads_eq:
  "chained_from sha p es \<Longrightarrow>
     chain_payloads sha p es = map (\<lambda>e. event_chain_payload (event_of e) (the (previous_event_hash e))) es"
  by (induction es arbitrary: p) auto

lemma chain_inv_hash:
  assumes "chain_inv sha evs lg (Some h)"
  shows "chained_from sha (anchor sha lg) (chained_part evs)"
    "h = chain_end sha (anchor sha lg) (chained_part evs)" "chained_part evs \<noteq> []"
    "list_all is_ascii_hexdigit h"
  using assms planned_hash_hex
  by (cases "chained_part evs" rule: rev_cases; auto simp: chain_inv_def chain_end_snoc)+

lemma chain_inv_start: "chain_inv sha [] [] None"
  by (simp add: chain_inv_def chained_part_def)

lemma hex_not_word: "list_all is_ascii_hexdigit h \<Longrightarrow> h \<noteq> ''root'' \<and> h \<noteq> ''legacy''"
  by (auto simp: is_ascii_hexdigit_def is_ascii_digit_def)

text \<open>The legacy events are those of the lines the legacy text is made of.\<close>

definition legacy_part :: "parsed_event list \<Rightarrow> parsed_event list" where
  "legacy_part evs = filter (\<lambda>e. event_hash e = None) evs"

definition legacy_inv :: "parsed_event list \<Rightarrow> string \<Rightarrow> string option \<Rightarrow> bool" where
  "legacy_inv evs lg pv \<longleftrightarrow> evs = legacy_part evs @ chained_part evs
     \<and> (pv = None \<longrightarrow> chained_part evs = [])
     \<and> (\<exists>ls. lg = concat (map (\<lambda>l. l @ [LF]) ls) \<and> list_all (\<lambda>l. LF \<notin> set l) ls
          \<and> map parse_event_line_strict ls = map Inr (legacy_part evs))"

lemma lines_from_no_LF: "LF \<notin> set cur \<Longrightarrow> \<forall>l\<in>set (lines_from cur s). LF \<notin> set l"
proof (induction s arbitrary: cur)
  case (Cons c s)
  have "LF \<notin> set (strip_cr cur)" using Cons.prems by (auto simp: strip_cr_def dest: in_set_butlastD)
  with Cons.IH [of "[]"] Cons.IH [of "cur @ [c]"] Cons.prems show ?case by simp
qed simp

lemma chain_loop_legacy:
  "chain_loop sha i evs lg pv xs = Inr (evs', lg', pv') \<Longrightarrow> legacy_inv evs lg pv \<Longrightarrow>
     list_all (\<lambda>l. LF \<notin> set l) xs \<Longrightarrow> legacy_inv evs' lg' pv'"
proof (induction xs arbitrary: i evs lg pv)
  case (Cons x xs)
  from Cons.prems(1) obtain e where e: "parse_event_line_strict x = Inr e"
    by (auto split: if_splits sum.splits)
  from Cons.prems(2) obtain ls where ls: "lg = concat (map (\<lambda>l. l @ [LF]) ls)" "list_all (\<lambda>l. LF \<notin> set l) ls"
      "map parse_event_line_strict ls = map Inr (legacy_part evs)"
    and split: "evs = legacy_part evs @ chained_part evs" and none: "pv = None \<longrightarrow> chained_part evs = []"
    by (auto simp: legacy_inv_def)
  show ?case
  proof (cases "event_hash e")
    case None
    with Cons.prems(1) e have pv: "pv = None" and step:
      "chain_loop sha (i + 1) (evs @ [e]) (lg @ x @ [LF]) None xs = Inr (evs', lg', pv')"
      by (auto split: if_splits option.splits)
    have parts: "legacy_part (evs @ [e]) = legacy_part evs @ [e]" "chained_part (evs @ [e]) = []"
      using None pv none by (simp_all add: legacy_part_def chained_part_def)
    have "legacy_inv (evs @ [e]) (lg @ x @ [LF]) None"
      unfolding legacy_inv_def parts
      using split none pv e ls Cons.prems(3)
      by (auto intro!: exI [of _ "ls @ [x]"])
    with Cons.IH [OF step] Cons.prems(3) show ?thesis by simp
  next
    case (Some h)
    with Cons.prems(1) e have step: "chain_loop sha (i + 1) (evs @ [e]) lg (Some h) xs = Inr (evs', lg', pv')"
      by (auto split: if_splits option.splits)
    have parts: "legacy_part (evs @ [e]) = legacy_part evs" "chained_part (evs @ [e]) = chained_part evs @ [e]"
      using Some by (simp_all add: legacy_part_def chained_part_def)
    have "legacy_inv (evs @ [e]) lg (Some h)"
      unfolding legacy_inv_def parts using split ls by auto
    with Cons.IH [OF step] Cons.prems(3) show ?thesis by simp
  qed
qed simp

lemma legacy_inv_start: "legacy_inv [] [] None"
  by (auto simp: legacy_inv_def legacy_part_def chained_part_def intro!: exI [of _ "[]"])

lemma until_LF_eq:
  "l @ LF # a = k @ LF # b \<Longrightarrow> LF \<notin> set l \<Longrightarrow> LF \<notin> set k \<Longrightarrow> l = k \<and> a = b"
proof (induction l arbitrary: k)
  case Nil
  then show ?case by (cases k) auto
next
  case (Cons x l)
  then show ?case by (cases k) auto
qed

lemma lf_lines_inj:
  "concat (map (\<lambda>l. l @ [LF]) ls) = concat (map (\<lambda>l. l @ [LF]) ks) \<Longrightarrow>
     list_all (\<lambda>l. LF \<notin> set l) ls \<Longrightarrow> list_all (\<lambda>l. LF \<notin> set l) ks \<Longrightarrow> ls = ks"
proof (induction ls arbitrary: ks)
  case Nil
  then show ?case by (cases ks) auto
next
  case (Cons l ls)
  then obtain k ks' where ks: "ks = k # ks'" by (cases ks) auto
  from Cons.prems ks have eq: "l @ LF # concat (map (\<lambda>l. l @ [LF]) ls) = k @ LF # concat (map (\<lambda>l. l @ [LF]) ks')"
    and no: "LF \<notin> set l" "LF \<notin> set k" by simp_all
  from no eq have "l = k \<and> concat (map (\<lambda>l. l @ [LF]) ls) = concat (map (\<lambda>l. l @ [LF]) ks')"
    by (blast dest: until_LF_eq)
  with Cons ks show ?case by simp
qed

lemma legacy_same:
  assumes "legacy_inv evs lg pv" "legacy_inv evs' lg pv'"
  shows "legacy_part evs = legacy_part evs'"
proof -
  from assms obtain ls ks where "concat (map (\<lambda>l. l @ [LF]) ls) = concat (map (\<lambda>l. l @ [LF]) ks)"
    "list_all (\<lambda>l. LF \<notin> set l) ls" "list_all (\<lambda>l. LF \<notin> set l) ks"
    and eq: "map parse_event_line_strict ls = map Inr (legacy_part evs)"
      "map parse_event_line_strict ks = map Inr (legacy_part evs')"
    by (auto simp: legacy_inv_def)
  then have "ls = ks" by (blast intro: lf_lines_inj)
  with eq have "map (Inr :: parsed_event \<Rightarrow> parsed_event result) (legacy_part evs) = map Inr (legacy_part evs')"
    by simp
  then show ?thesis by (simp add: inj_map_eq_map inj_def)
qed

text \<open>The texts whose hashes a ledger file rests on: its legacy text, if any, and its payloads.\<close>

definition hashed_texts :: "hasher \<Rightarrow> string \<Rightarrow> string list" where
  "hashed_texts sha body =
     (case chain_loop sha 0 [] [] None (str_lines body) of
        Inl _ \<Rightarrow> []
      | Inr (evs, lg, _) \<Rightarrow> (if lg = [] then [] else [lg]) @ ledger_payloads evs)"

lemma anchor_inj:
  assumes "anchor sha lg = anchor sha lg'" "inj_on sha ({lg, lg'} - {[]})"
  shows "lg = lg'"
proof (cases "lg = [] \<or> lg' = []")
  case True
  with assms(1) show ?thesis by (auto simp: anchor_def expected_previous_def split: if_splits)
next
  case False
  with assms(1) have "sha lg = sha lg'"
    by (simp add: anchor_def expected_previous_def sha256_bytes_def bytes_to_hex_inj)
  with assms(2) False show ?thesis by (auto dest: inj_onD)
qed

text \<open>
  With a head file for the last hash in place, an accepted ledger is the ledger the head was
  written for, or that ledger and one event chained to its last; and the head has the count of
  the former.
\<close>

lemma accepted_under_head:
  assumes plain: "list_all plain_char h" "list_all is_ascii_hexdigit h"
    and head: "head_body fs = Some (head_text n h)" and body: "ledger_body fs = Some body"
    and read: "read_runtime_events_unlocked sha fs = (Inr evs', fs')"
  obtains lg pv where "chain_loop sha 0 [] [] None (str_lines body) = Inr (evs', lg, pv)"
      "pv = Some h" "n = of_nat (length evs')"
    | lg pv where "chain_loop sha 0 [] [] None (str_lines body) = Inr (evs', lg, pv)"
      "last_previous evs' = Some h" "n + 1 = of_nat (length evs')"
proof -
  from read body obtain lg' pv' where loop': "chain_loop sha 0 [] [] None (str_lines body) = Inr (evs', lg', pv')"
    and check: "fst (validate_ledger_head sha evs' pv' lg' True fs) = Inr ()"
    by (auto simp: read_runtime_events_unlocked_def validate_ledger_contents_with_head_repair_def
        validate_ledger_contents_inner_def sthen_def sbind_Inr_iff sthrow_def sreturn_def
        split: if_splits sum.splits prod.splits)
  have succ: "n + 1 = of_nat (length evs')" if "checked_add n 1 = Some (of_nat (length evs'))"
    using that by (simp add: checked_add_def split: if_splits)
  from check validate_head_cases [OF plain(1) head, of sha evs' pv' lg' True] hex_not_word [OF plain(2)]
  consider "pv' = Some h" "n = of_nat (length evs')"
    | "last_previous evs' = Some h" "n + 1 = of_nat (length evs')"
    using succ by (auto simp: Let_def split: if_splits option.splits)
  with loop' that show ?thesis by metis
qed

lemma str_lines_no_LF: "list_all (\<lambda>l. LF \<notin> set l) (str_lines s)"
  using lines_from_no_LF [of "[]" s] by (simp add: list_all_iff str_lines_def)

lemma chain_loop_invs:
  assumes "chain_loop sha 0 [] [] None (str_lines s) = Inr (evs, lg, pv)"
  shows "chain_inv sha evs lg pv" "legacy_inv evs lg pv"
  using chain_loop_inv [OF assms chain_inv_start] chain_loop_legacy [OF assms legacy_inv_start str_lines_no_LF] .

lemma same_chain_end:
  assumes "chain_loop sha 0 [] [] None (str_lines a) = Inr (evs, lg, Some h)"
    and "chain_loop sha 0 [] [] None (str_lines b) = Inr (evs', lg', pv')"
    and "chained_part evs' = cs @ ds" "h = chain_end sha (anchor sha lg') cs"
    and "inj_on sha (set (hashed_texts sha a) \<union> set (hashed_texts sha b))"
  shows "legacy_part evs @ cs = evs \<and> legacy_part evs' = legacy_part evs"
proof -
  note i = chain_loop_invs [OF assms(1)] and i' = chain_loop_invs [OF assms(2)]
  from chain_inv_hash [OF i(1)]
  have c: "chained_from sha (anchor sha lg) (chained_part evs)"
    and h: "h = chain_end sha (anchor sha lg) (chained_part evs)" by blast+
  have pre: "chained_from sha p cs" if "chained_from sha p (cs @ ds)" for p ds
    using that by (induction cs arbitrary: p) auto
  have c'': "chained_from sha (anchor sha lg') (chained_part evs')" using i'(1) by (simp add: chain_inv_def)
  then have c': "chained_from sha (anchor sha lg') cs" using assms(3) pre by simp
  have inj: "inj_on sha (({lg, lg'} - {[]}) \<union> set (ledger_payloads evs) \<union> set (ledger_payloads evs'))"
    using assms(5) unfolding hashed_texts_def assms(1,2)
    by (rule inj_on_subset) auto
  have "inj_on sha (set (chain_payloads sha (anchor sha lg) (chained_part evs)) \<union>
      set (chain_payloads sha (anchor sha lg') cs))"
    by (rule inj_on_subset [OF inj])
      (auto simp: chain_payloads_eq [OF c] chain_payloads_eq [OF c'] ledger_payloads_def assms(3))
  from chain_end_inj [OF c c' _ this] h assms(4)
  have cs: "chained_part evs = cs" and an: "anchor sha lg = anchor sha lg'" by auto
  have "lg = lg'" by (rule anchor_inj [OF an]) (rule inj_on_subset [OF inj], auto)
  with legacy_same [OF i(2)] i'(2) have leg: "legacy_part evs = legacy_part evs'" by blast
  with i(2) cs show ?thesis by (metis legacy_inv_def)
qed

lemma tamper_evident_read:
  assumes ok: "ledger_ok sha fs evs" and h: "evs \<noteq> []" "event_hash (last evs) = Some h"
    and read: "read_runtime_events_unlocked sha
      (fs\<lparr>ledger_body := Some body, head_body := Some (head_text n h)\<rparr>) = (Inr evs', fs')"
    and coll: "inj_on sha (set (hashed_texts sha (body_of fs)) \<union> set (hashed_texts sha body))"
  shows "n = of_nat (length evs) \<and> (evs' = evs \<or> (\<exists>e. evs' = evs @ [e] \<and> previous_event_hash e = Some h))"
proof -
  let ?fs = "fs\<lparr>ledger_body := Some body, head_body := Some (head_text n h)\<rparr>"
  from ok obtain lg pv where loop0: "chain_loop sha 0 [] [] None (str_lines (body_of fs)) = Inr (evs, lg, pv)"
    and st0: "chain_state evs pv" and none: "pv = None \<Longrightarrow> evs = []"
    by (rule ledger_okE) blast
  from st0 none h have pv: "pv = Some h" by (cases pv) (simp_all add: chain_state_def)
  note loop = loop0 [unfolded pv] and st = st0 [unfolded pv]
  have hex: "list_all is_ascii_hexdigit h" and plain: "list_all plain_char h"
    using chain_inv_hash [OF chain_loop_invs(1) [OF loop]] st by (simp_all add: chain_state_def)
  have "head_body ?fs = Some (head_text n h)" "ledger_body ?fs = Some body" by simp_all
  from accepted_under_head [OF plain hex this read] show ?thesis
  proof cases
    case (1 lg' pv')
    note i' = chain_loop_invs [OF 1(1)]
    have "h = chain_end sha (anchor sha lg') (chained_part evs')"
      using i'(1) 1(2) chain_inv_hash by blast
    from same_chain_end [OF loop 1(1) _ this coll, of "[]"]
    have "legacy_part evs @ chained_part evs' = evs \<and> legacy_part evs' = legacy_part evs" by simp
    with i'(2) have "evs' = evs" by (metis legacy_inv_def)
    with 1 show ?thesis by simp
  next
    case (2 lg' pv')
    note i' = chain_loop_invs [OF 2(1)]
    from 2(2) have e: "evs' \<noteq> []" "previous_event_hash (last evs') = Some h"
      by (auto simp: last_previous_def split: if_splits)
    have "last evs' \<in> set evs'" using e by simp
    with i'(1) have "previous_event_hash (last evs') = None \<longleftrightarrow> event_hash (last evs') = None"
      by (simp add: chain_inv_def list_all_iff)
    with e have "last evs' \<in> set (chained_part evs')" by (simp add: chained_part_def)
    then obtain cs e' where cs: "chained_part evs' = cs @ [e']"
      by (cases "chained_part evs'" rule: rev_cases) auto
    with i'(1) have last: "last evs' = e'" and "previous_event_hash e' = Some (chain_end sha (anchor sha lg') cs)"
      by (simp_all add: chain_inv_def chained_from_snoc)
    with e have "h = chain_end sha (anchor sha lg') cs" by simp
    from same_chain_end [OF loop 2(1) cs this coll]
    have "legacy_part evs @ cs = evs \<and> legacy_part evs' = legacy_part evs" .
    with i'(2) cs have evs': "evs' = evs @ [e']" by (metis append.assoc legacy_inv_def)
    with 2(3) have "n = of_nat (length evs)" by simp
    with evs' e last show ?thesis by auto
  qed
qed

end
