(* ===== verification/Event_Sequence.thy ===== *)
theory Event_Sequence
  imports Ledger_Codec
begin

text \<open>
  \<open>application/transaction_coordinator/event_sequence.rs\<close>: the plan of a transaction and the
  coordinator that lets its events through in order, and \<open>event_log\<close>, the interface between a
  log that appends planned entries and a transaction that writes a plan of them: an entry that
  fits is appended, an entry that is already installed is acknowledged again.
\<close>

section \<open>The coordinator\<close>

record planned_event =
  pe_event :: ledger_event
  pe_ordinal :: u64
  pe_previous_event_hash :: string
  pe_event_hash :: string

record transaction_coordinator =
  tc_planned :: "planned_event list"
  tc_next_index :: usize

definition coordinator_new :: "planned_event list \<Rightarrow> transaction_coordinator" where
  "coordinator_new planned = \<lparr>tc_planned = planned, tc_next_index = 0\<rparr>"

definition sink_order_error :: "usize \<Rightarrow> usize \<Rightarrow> app_error" where
  "sink_order_error expected requested =
     blocked_error ''transaction event sink order mismatch''
       [show_nat (unat expected), show_nat (unat requested)]"

definition validate_next ::
  "transaction_coordinator \<Rightarrow> usize \<Rightarrow> ledger_event \<Rightarrow> planned_event result" where
  "validate_next tc index event =
     (if index \<noteq> tc_next_index tc then Inl (sink_order_error (tc_next_index tc) index)
      else if \<not> unat index < length (tc_planned tc)
      then Inl (blocked_error ''transaction event sink index out of range'' [])
      else let planned = tc_planned tc ! unat index in
        if pe_event planned \<noteq> event
        then Inl (blocked_error ''transaction event sink semantic event binding mismatch'' [])
        else Inr planned)"

definition record_appended ::
  "usize \<Rightarrow> transaction_coordinator \<Rightarrow> unit result \<times> transaction_coordinator" where
  "record_appended index tc =
     (if index \<noteq> tc_next_index tc then (Inl (sink_order_error (tc_next_index tc) index), tc)
      else case checked_add (tc_next_index tc) 1 of
        None \<Rightarrow> (Inl (blocked_error ''transaction event sink index overflow'' []), tc)
      | Some n \<Rightarrow> (Inr (), tc\<lparr>tc_next_index := n\<rparr>))"

definition coordinator_finish :: "transaction_coordinator \<Rightarrow> unit result" where
  "coordinator_finish tc =
     (if unat (tc_next_index tc) \<noteq> length (tc_planned tc)
      then Inl (blocked_error ''transaction event sink incomplete''
             [show_nat (unat (tc_next_index tc)), show_nat (length (tc_planned tc))])
      else Inr ())"

section \<open>The interface of an append-only log\<close>

text \<open>Several appends in sequence; the first error stops them.\<close>

fun append_all :: "('p \<Rightarrow> ('s, 'r) effect) \<Rightarrow> 'p list \<Rightarrow> ('s, 'r list) effect" where
  "append_all put [] = sreturn []"
| "append_all put (p # ps) =
     sbind (put p) (\<lambda>r. sbind (append_all put ps) (\<lambda>rs. sreturn (r # rs)))"

locale event_log =
  fixes put :: "'p \<Rightarrow> ('s, 'r) effect"
    and holds :: "'s \<Rightarrow> 'e list \<Rightarrow> bool"
    and entry :: "'p \<Rightarrow> 'e"
    and fits :: "'e list \<Rightarrow> 'p \<Rightarrow> bool"
    and receipt :: "'p \<Rightarrow> 'r"
  assumes append_new:
      "holds s es \<Longrightarrow> fits es p \<Longrightarrow>
         \<exists>s'. put p s = (Inr (receipt p), s') \<and> holds s' (es @ [entry p])"
    and append_again:
      "holds s es \<Longrightarrow> i < length es \<Longrightarrow> es ! i = entry p \<Longrightarrow> fits (take i es) p \<Longrightarrow>
         \<exists>s'. put p s = (Inr (receipt p), s') \<and> holds s' es"
begin

fun fits_all :: "'e list \<Rightarrow> 'p list \<Rightarrow> bool" where
  "fits_all es [] \<longleftrightarrow> True"
| "fits_all es (p # ps) \<longleftrightarrow> fits es p \<and> fits_all (es @ [entry p]) ps"

lemma fits_all_append: "fits_all es (ps @ qs) \<longleftrightarrow> fits_all es ps \<and> fits_all (es @ map entry ps) qs"
  by (induction ps arbitrary: es) auto

lemma append_all_new:
  "holds s es \<Longrightarrow> fits_all es ps \<Longrightarrow>
     \<exists>s'. append_all put ps s = (Inr (map receipt ps), s') \<and> holds s' (es @ map entry ps)"
proof (induction ps arbitrary: s es)
  case (Cons p ps)
  from append_new [OF Cons.prems(1)] Cons.prems(2) obtain s1
    where s1: "put p s = (Inr (receipt p), s1)" "holds s1 (es @ [entry p])" by auto
  from Cons.IH [OF s1(2)] Cons.prems(2) obtain s2
    where "append_all put ps s1 = (Inr (map receipt ps), s2)"
      "holds s2 ((es @ [entry p]) @ map entry ps)" by auto
  with s1 show ?case by (simp add: sbind_eqs sreturn_def)
qed (simp add: sreturn_def)

lemma append_all_again:
  "holds s (es @ map entry ps @ rest) \<Longrightarrow> fits_all es ps \<Longrightarrow>
     \<exists>s'. append_all put ps s = (Inr (map receipt ps), s') \<and> holds s' (es @ map entry ps @ rest)"
proof (induction ps arbitrary: es s)
  case (Cons p ps)
  have "\<exists>s'. put p s = (Inr (receipt p), s') \<and> holds s' (es @ map entry (p # ps) @ rest)"
    by (rule append_again [OF Cons.prems(1), of "length es"])
      (use Cons.prems(2) in \<open>simp_all add: nth_append\<close>)
  then obtain s1 where s1: "put p s = (Inr (receipt p), s1)"
    "holds s1 ((es @ [entry p]) @ map entry ps @ rest)" by auto
  from Cons.IH [OF s1(2)] Cons.prems(2) obtain s2
    where "append_all put ps s1 = (Inr (map receipt ps), s2)"
      "holds s2 ((es @ [entry p]) @ map entry ps @ rest)" by auto
  with s1(1) show ?case by (simp add: sbind_eqs sreturn_def)
qed (simp add: sreturn_def)

lemma append_all_append:
  "append_all put (ps @ qs) s =
     sbind (append_all put ps) (\<lambda>rs. sbind (append_all put qs) (\<lambda>qs'. sreturn (rs @ qs'))) s"
proof (induction ps arbitrary: s)
  case (Cons p ps)
  show ?case
    by (cases "put p s"; cases "fst (put p s)")
      (simp_all add: sbind_def Cons.IH sreturn_def split: prod.splits sum.splits)
qed (simp add: sbind_def sreturn_def split: prod.splits sum.splits)

text \<open>A plan written up to any point is completed by writing it again from the start.\<close>

lemma append_all_resumes:
  assumes "holds s (es @ map entry (take k ps))" "fits_all es ps"
  shows "\<exists>s'. append_all put ps s = (Inr (map receipt ps), s') \<and> holds s' (es @ map entry ps)"
proof -
  have fits: "fits_all es (take k ps)" "fits_all (es @ map entry (take k ps)) (drop k ps)"
    using assms(2) fits_all_append [of es "take k ps" "drop k ps"] by simp_all
  from append_all_again [of s es "take k ps" "[]"] assms(1) fits(1) obtain s1
    where s1: "append_all put (take k ps) s = (Inr (map receipt (take k ps)), s1)"
      "holds s1 (es @ map entry (take k ps))" by auto
  moreover from append_all_new [OF s1(2) fits(2)] obtain s'
    where "append_all put (drop k ps) s1 = (Inr (map receipt (drop k ps)), s')"
      "holds s' ((es @ map entry (take k ps)) @ map entry (drop k ps))" by blast
  ultimately have "append_all put (take k ps @ drop k ps) s =
      (Inr (map receipt (take k ps) @ map receipt (drop k ps)), s') \<and>
      holds s' (es @ map entry (take k ps) @ map entry (drop k ps))"
    by (simp only: append_all_append) (simp add: sbind_eqs sreturn_def)
  then show ?thesis by (metis append_take_drop_id map_append)
qed

end

end
