(* ===== verification/Ledger_Writer.thy ===== *)
theory Ledger_Writer
  imports Ledger_Store Event_Sequence
begin

text \<open>
  \<open>app/workflow_adapter/ledger/writer.rs\<close>: planning the events of a transaction against the
  ledger, appending a planned event (or acknowledging it when it is installed already), and the
  event sink that appends a plan in order. The writer lease, which excludes other processes for
  the lifetime of the guard, is not modelled: the operations are those of one guard.
\<close>

section \<open>Comparisons\<close>

definition same_semantic_payload :: "parsed_event \<Rightarrow> ledger_event \<Rightarrow> bool" where
  "same_semantic_payload existing event \<longleftrightarrow>
     ts_ms existing = ts_ms event \<and> event_type existing = event_type event
     \<and> project_id existing = project_id event \<and> session_id existing = session_id event
     \<and> summary existing = summary event \<and> details existing = details event"

definition same_semantic_event :: "parsed_event \<Rightarrow> ledger_event \<Rightarrow> bool" where
  "same_semantic_event existing event \<longleftrightarrow>
     event_id existing = event_id event \<and> same_semantic_payload existing event"

definition u64_of_len :: "nat \<Rightarrow> u64 option" where
  "u64_of_len n = (if n < 2 ^ 64 then Some (of_nat n) else None)"

text \<open>\<open>iter().enumerate().find(..)\<close>\<close>

fun find_index :: "('a \<Rightarrow> bool) \<Rightarrow> 'a list \<Rightarrow> (nat \<times> 'a) option" where
  "find_index P [] = None"
| "find_index P (x # xs) =
     (if P x then Some (0, x) else map_option (\<lambda>(i, y). (Suc i, y)) (find_index P xs))"

section \<open>Planning\<close>

fun plan_loop ::
  "hasher \<Rightarrow> parsed_event list \<Rightarrow> u64 \<Rightarrow> nat \<Rightarrow> string list \<Rightarrow> string \<Rightarrow> ledger_event list \<Rightarrow>
   planned_event list result" where
  "plan_loop sha before base index seen previous [] = Inr []"
| "plan_loop sha before base index seen previous (event # events) =
     (if event_id event \<in> set seen
      then Inl (blocked_error ''planned ledger duplicate event id'' [])
      else if list_ex (\<lambda>existing. event_id existing = event_id event) before
      then Inl (blocked_error ''planned ledger event already present'' [event_id event])
      else if list_ex (\<lambda>existing. same_semantic_payload existing event) before
      then Inl (blocked_error ''planned ledger semantic payload already present'' [event_id event])
      else
        rbind (ok_or (blocked_error ''ledger ordinal overflow'' []) (u64_of_len (index + 1))) (\<lambda>offset.
        rbind (ok_or (blocked_error ''ledger ordinal overflow'' []) (checked_add base offset)) (\<lambda>ordinal.
          let hash = planned_event_hash sha event previous in
          rbind (plan_loop sha before base (index + 1) (event_id event # seen) hash events) (\<lambda>rest.
            Inr (\<lparr>pe_event = event, pe_ordinal = ordinal, pe_previous_event_hash = previous,
                  pe_event_hash = hash\<rparr> # rest)))))"

definition plan_events ::
  "hasher \<Rightarrow> ledger_event list \<Rightarrow> (ledger_fs, planned_event list) effect" where
  "plan_events sha events =
     sbind (read_runtime_events_unlocked sha) (\<lambda>before s.
       (rbind (ok_or (blocked_error ''ledger event count overflow'' []) (u64_of_len (length before))) (\<lambda>base.
        rbind (ledger_previous_hash before) (\<lambda>previous.
          plan_loop sha before base 0 [] previous events)), s))"

section \<open>Appending a planned event\<close>

record appended_event =
  ae_ordinal :: u64
  ae_event_hash :: string

definition append_runtime_planned ::
  "hasher \<Rightarrow> planned_event \<Rightarrow> (ledger_fs, appended_event) effect" where
  "append_runtime_planned sha planned =
     sbind (read_runtime_events_unlocked sha) (\<lambda>before.
       case find_index (\<lambda>existing. event_id existing = event_id (pe_event planned)) before of
         Some (index, existing) \<Rightarrow>
           (\<lambda>s. (rbind (ok_or (blocked_error ''ledger ordinal overflow'' []) (u64_of_len (index + 1))) (\<lambda>ordinal.
              if \<not> same_semantic_event existing (pe_event planned) \<or> ordinal \<noteq> pe_ordinal planned
                 \<or> previous_event_hash existing \<noteq> Some (pe_previous_event_hash planned)
                 \<or> event_hash existing \<noteq> Some (pe_event_hash planned)
              then Inl (blocked_error ''planned ledger installed event binding conflict'' [])
              else Inr \<lparr>ae_ordinal = ordinal, ae_event_hash = pe_event_hash planned\<rparr>), s))
       | None \<Rightarrow>
           sbind (\<lambda>s. (rbind (ok_or (blocked_error ''ledger ordinal overflow'' [])
                          (u64_of_len (length before + 1))) (\<lambda>ordinal.
                   if ordinal \<noteq> pe_ordinal planned
                   then Inl (blocked_error ''planned ledger predecessor/ordinal changed'' [])
                   else rbind (ledger_previous_hash before) (\<lambda>previous.
                     if previous \<noteq> pe_previous_event_hash planned
                     then Inl (blocked_error ''planned ledger predecessor/ordinal changed'' [])
                     else Inr ())), s)) (\<lambda>_.
           sthen (append_chained_event sha (pe_event planned))
           (sbind (read_runtime_events_unlocked sha) (\<lambda>after s.
             (rbind (ok_or (blocked_error ''planned ledger append reread missing'' [])
                (if length before < length after then Some (after ! length before) else None)) (\<lambda>installed.
              if \<not> same_semantic_event installed (pe_event planned)
                 \<or> previous_event_hash installed \<noteq> Some (pe_previous_event_hash planned)
                 \<or> event_hash installed \<noteq> Some (pe_event_hash planned)
              then Inl (blocked_error ''planned ledger append binding mismatch'' [])
              else Inr \<lparr>ae_ordinal = pe_ordinal planned, ae_event_hash = pe_event_hash planned\<rparr>),
              s)))))"

section \<open>The event sink\<close>

record event_sink =
  es_ledger :: ledger_fs
  es_coordinator :: transaction_coordinator

definition append_planned_under_guard ::
  "hasher \<Rightarrow> usize \<Rightarrow> ledger_event \<Rightarrow> (event_sink, appended_event) effect" where
  "append_planned_under_guard sha index event sink =
     (case validate_next (es_coordinator sink) index event of
        Inl e \<Rightarrow> (Inl e, sink)
      | Inr planned \<Rightarrow>
          (case append_runtime_planned sha planned (es_ledger sink) of
             (Inl e, fs) \<Rightarrow> (Inl e, sink\<lparr>es_ledger := fs\<rparr>)
           | (Inr appended, fs) \<Rightarrow>
               (case record_appended index (es_coordinator sink) of
                  (Inl e, tc) \<Rightarrow> (Inl e, sink\<lparr>es_ledger := fs, es_coordinator := tc\<rparr>)
                | (Inr _, tc) \<Rightarrow> (Inr appended, sink\<lparr>es_ledger := fs, es_coordinator := tc\<rparr>))))"

definition sink_finish :: "event_sink \<Rightarrow> unit result" where
  "sink_finish sink = coordinator_finish (es_coordinator sink)"

definition guard_binding :: "hasher \<Rightarrow> (ledger_fs, ledger_binding) effect" where
  "guard_binding sha =
     sbind (read_runtime_events_unlocked sha) (\<lambda>events s.
       (if events = [] then Inr \<lparr>lb_event_count = 0, lb_event_id = None, lb_event_hash = ''root''\<rparr>
        else rbind (ok_or (blocked_error ''ledger event count overflow'' []) (u64_of_len (length events))) (\<lambda>n.
             rbind (ok_or (blocked_error ''ledger head hash missing'' []) (event_hash (last events))) (\<lambda>h.
               Inr \<lparr>lb_event_count = n, lb_event_id = Some (event_id (last events)),
                    lb_event_hash = h\<rparr>)), s))"

section \<open>Lemmas\<close>

lemma find_index_Some:
  "i < length xs \<Longrightarrow> P (xs ! i) \<Longrightarrow> (\<And>j. j < i \<Longrightarrow> \<not> P (xs ! j)) \<Longrightarrow>
     find_index P xs = Some (i, xs ! i)"
proof (induction xs arbitrary: i)
  case (Cons x xs)
  show ?case
  proof (cases i)
    case 0
    with Cons.prems show ?thesis by simp
  next
    case (Suc j)
    from Cons.prems(3) [of 0] Suc have "\<not> P x" by simp
    moreover have "\<not> P (xs ! m)" if "m < j" for m using Cons.prems(3) [of "Suc m"] Suc that by simp
    then have "find_index P xs = Some (j, xs ! j)"
      by (intro Cons.IH) (use Cons.prems(1,2) Suc in simp_all)
    ultimately show ?thesis using Suc by simp
  qed
qed simp

lemma find_index_None: "find_index P xs = None \<longleftrightarrow> (\<forall>x\<in>set xs. \<not> P x)"
  by (induction xs) auto

definition installed_of :: "planned_event \<Rightarrow> parsed_event" where
  "installed_of planned = parsed_of (pe_event planned) (Some (pe_previous_event_hash planned))
     (Some (pe_event_hash planned))"

definition receipt_of :: "planned_event \<Rightarrow> appended_event" where
  "receipt_of planned = \<lparr>ae_ordinal = pe_ordinal planned, ae_event_hash = pe_event_hash planned\<rparr>"

text \<open>A planned event fits a ledger that holds exactly \<open>evs\<close>.\<close>

definition planned_fits :: "hasher \<Rightarrow> parsed_event list \<Rightarrow> planned_event \<Rightarrow> bool" where
  "planned_fits sha evs planned \<longleftrightarrow> valid_event (pe_event planned)
     \<and> Suc (length evs) < 2 ^ 64
     \<and> pe_ordinal planned = of_nat (Suc (length evs))
     \<and> ledger_previous_hash evs = Inr (pe_previous_event_hash planned)
     \<and> pe_event_hash planned = planned_event_hash sha (pe_event planned) (pe_previous_event_hash planned)
     \<and> list_all (\<lambda>e. event_id e \<noteq> event_id (pe_event planned)) evs"

definition ledger_holds :: "hasher \<Rightarrow> ledger_fs \<Rightarrow> parsed_event list \<Rightarrow> bool" where
  "ledger_holds sha fs evs \<longleftrightarrow> ledger_ok sha fs evs \<and> io_outcomes fs = []"

lemma same_semantic_installed [simp]: "same_semantic_event (parsed_of e p h) e"
  by (simp add: same_semantic_event_def same_semantic_payload_def parsed_of_def)

lemma append_chained_no_faults:
  assumes "ledger_holds sha fs evs" "ledger_previous_hash evs = Inr p"
  shows "append_chained_event sha ev fs = (Inr (), with_head sha ev p (length evs) (with_line sha ev p fs))"
proof -
  have io: "io_outcomes fs = []" and ok: "ledger_ok sha fs evs" using assms(1) by (auto simp: ledger_holds_def)
  have line: "append_line (fst (canonical_event_line sha ev p)) fs = (Inr (), with_line sha ev p fs)"
    using io by (cases fs) (simp add: append_line_def next_outcome_def with_line_def body_of_def Let_def)
  have "io_outcomes (with_line sha ev p fs) = []" using io by (simp add: with_line_def)
  from write_head_no_faults [OF this] show ?thesis
    by (simp add: append_unfold [OF ledger_ok_sync [OF ok] assms(2)] sthen_def sbind_eqs line with_head_def)
qed

lemma append_planned_new:
  assumes holds: "ledger_holds sha fs evs" and fits: "planned_fits sha evs pl"
  shows "\<exists>fs'. append_runtime_planned sha pl fs = (Inr (receipt_of pl), fs') \<and>
    ledger_holds sha fs' (evs @ [installed_of pl])"
proof -
  let ?p = "pe_previous_event_hash pl" and ?ev = "pe_event pl"
  let ?fs = "with_head sha ?ev ?p (length evs) (with_line sha ?ev ?p fs)"
  have ok: "ledger_ok sha fs evs" and io: "io_outcomes fs = []" using holds by (simp_all add: ledger_holds_def)
  from fits have p: "ledger_previous_hash evs = Inr ?p" and ev: "valid_event ?ev"
    and h: "pe_event_hash pl = planned_event_hash sha ?ev ?p"
    and fresh: "find_index (\<lambda>e. event_id e = event_id ?ev) evs = None"
    and ord: "u64_of_len (length evs + 1) = Some (pe_ordinal pl)"
    by (simp_all add: planned_fits_def find_index_None list_all_iff u64_of_len_def)
  have inst: "installed_event sha ?ev ?p = installed_of pl"
    by (simp add: installed_event_def installed_of_def h)
  have ok': "ledger_ok sha ?fs (evs @ [installed_of pl])"
    using with_head_ok [OF ok p ev] inst by simp
  have "append_runtime_planned sha pl fs = (Inr (receipt_of pl), ?fs)"
    using read_ok [OF ok] append_chained_no_faults [OF holds p] read_ok [OF ok'] fresh ord p
    by (simp add: append_runtime_planned_def sbind_eqs sthen_def receipt_of_def)
      (simp add: installed_of_def)
  moreover have "io_outcomes ?fs = []" using io by (simp add: with_head_def with_line_def)
  ultimately show ?thesis using ok' by (auto simp: ledger_holds_def)
qed

lemma append_planned_installed:
  assumes holds: "ledger_holds sha fs evs" and i: "i < length evs" "evs ! i = installed_of pl"
    and fits: "planned_fits sha (take i evs) pl"
  shows "append_runtime_planned sha pl fs = (Inr (receipt_of pl), fs)"
proof -
  have fresh: "event_id (evs ! j) \<noteq> event_id (pe_event pl)" if "j < i" for j
    using fits i that by (auto simp: planned_fits_def list_all_length)
  have "find_index (\<lambda>e. event_id e = event_id (pe_event pl)) evs = Some (i, evs ! i)"
    by (rule find_index_Some) (use i fresh in \<open>simp_all add: installed_of_def\<close>)
  moreover have "u64_of_len (i + 1) = Some (pe_ordinal pl)"
    using fits i by (simp add: planned_fits_def u64_of_len_def min_def split: if_splits)
  ultimately show ?thesis
    using i read_ok [of sha fs evs] holds
    by (simp add: append_runtime_planned_def sbind_eqs ledger_holds_def receipt_of_def)
      (simp add: installed_of_def)
qed

text \<open>
  A readable ledger: reading it, which repairs a head left behind by an interrupted append,
  returns \<open>evs\<close> and leaves a consistent ledger.
\<close>

definition ledger_readable :: "hasher \<Rightarrow> ledger_fs \<Rightarrow> parsed_event list \<Rightarrow> bool" where
  "ledger_readable sha fs evs \<longleftrightarrow>
     (case read_runtime_events_unlocked sha fs of
        (Inl _, _) \<Rightarrow> False
      | (Inr evs', fs') \<Rightarrow> evs' = evs \<and> ledger_holds sha fs' evs)"

lemma ledger_readableE:
  assumes "ledger_readable sha fs evs"
  obtains fs' where "read_runtime_events_unlocked sha fs = (Inr evs, fs')" "ledger_holds sha fs' evs"
  using assms by (auto simp: ledger_readable_def split: prod.splits sum.splits)

lemma holds_readable: "ledger_holds sha fs evs \<Longrightarrow> ledger_readable sha fs evs"
  by (auto simp: ledger_readable_def ledger_holds_def read_ok)

lemma append_runtime_readable:
  assumes "read_runtime_events_unlocked sha fs = (Inr evs, fs')" "ledger_holds sha fs' evs"
  shows "append_runtime_planned sha pl fs = append_runtime_planned sha pl fs'"
proof -
  have "read_runtime_events_unlocked sha fs' = (Inr evs, fs')"
    using assms(2) read_ok by (simp add: ledger_holds_def)
  then show ?thesis using assms(1) by (simp add: append_runtime_planned_def sbind_eqs)
qed

interpretation ledger: event_log "append_runtime_planned sha" "ledger_readable sha" installed_of
  "planned_fits sha" receipt_of for sha
proof
  fix fs evs pl
  assume "ledger_readable sha fs evs" and fits: "planned_fits sha evs pl"
  then obtain fs' where fs': "read_runtime_events_unlocked sha fs = (Inr evs, fs')" "ledger_holds sha fs' evs"
    by (auto elim: ledger_readableE)
  from append_planned_new [OF fs'(2) fits]
  show "\<exists>s'. append_runtime_planned sha pl fs = (Inr (receipt_of pl), s') \<and>
      ledger_readable sha s' (evs @ [installed_of pl])"
    by (auto simp: append_runtime_readable [OF fs'] intro: holds_readable)
next
  fix fs evs i pl
  assume "ledger_readable sha fs evs" and i: "i < length evs" "evs ! i = installed_of pl"
    and fits: "planned_fits sha (take i evs) pl"
  then obtain fs' where fs': "read_runtime_events_unlocked sha fs = (Inr evs, fs')" "ledger_holds sha fs' evs"
    by (auto elim: ledger_readableE)
  from append_planned_installed [OF fs'(2) i fits]
  show "\<exists>s'. append_runtime_planned sha pl fs = (Inr (receipt_of pl), s') \<and> ledger_readable sha s' evs"
    using fs'(2) by (auto simp: append_runtime_readable [OF fs'] intro: holds_readable)
qed

section \<open>Plans fit\<close>

lemma plan_loop_fits:
  "plan_loop sha before base idx seen prev events = Inr plan \<Longrightarrow> list_all valid_event events \<Longrightarrow>
   base = of_nat (length before) \<Longrightarrow> length before < 2 ^ 64 \<Longrightarrow> idx = length old \<Longrightarrow>
   set seen = event_id ` set old \<Longrightarrow> ledger_previous_hash (before @ old) = Inr prev \<Longrightarrow>
   ledger.fits_all sha (before @ old) plan \<and> map pe_event plan = events"
proof (induction events arbitrary: idx seen prev old plan)
  case (Cons ev events)
  from Cons.prems(1) obtain offset ordinal rest where
    seen: "event_id ev \<notin> set seen" "\<forall>e\<in>set before. event_id e \<noteq> event_id ev"
    and offset: "u64_of_len (idx + 1) = Some offset" and ord: "checked_add base offset = Some ordinal"
    and rest: "plan_loop sha before base (idx + 1) (event_id ev # seen) (planned_event_hash sha ev prev) events
      = Inr rest"
    and plan: "plan = \<lparr>pe_event = ev, pe_ordinal = ordinal, pe_previous_event_hash = prev,
        pe_event_hash = planned_event_hash sha ev prev\<rparr> # rest"
    by (auto simp: rbind_Inr_iff ok_or_Inr_iff Let_def list_ex_iff split: if_splits)
  let ?pl = "\<lparr>pe_event = ev, pe_ordinal = ordinal, pe_previous_event_hash = prev,
        pe_event_hash = planned_event_hash sha ev prev\<rparr>"
  have "unat offset = Suc idx" using offset by (auto simp: u64_of_len_def unat_of_nat_small split: if_splits simp del: of_nat_Suc)
  with ord Cons.prems(3,4) have uo: "unat ordinal = length before + Suc idx"
    by (simp add: checked_add_Some_iff unat_of_nat_small)
  then have bound: "length before + Suc idx < 2 ^ 64" using unsigned_less [of ordinal, where 'a = nat] by simp
  have "ordinal = of_nat (length before + Suc idx)"
    by (rule word_unat_eq_iff [THEN iffD2])
      (use uo bound in \<open>simp add: unat_of_nat_small del: of_nat_add of_nat_Suc\<close>)
  moreover have "list_all (\<lambda>e. event_id e \<noteq> event_id ev) (before @ old)"
    using seen Cons.prems(6) by (force simp: list_all_iff)
  ultimately have fits: "planned_fits sha (before @ old) ?pl"
    using Cons.prems(2,5,7) bound by (simp add: planned_fits_def)
  have "ledger.fits_all sha (before @ (old @ [installed_of ?pl])) rest \<and> map pe_event rest = events"
    by (rule Cons.IH [OF rest])
      (use Cons.prems in \<open>auto simp: installed_of_def ledger_previous_hash_def\<close>)
  with fits show ?case by (simp add: plan)
qed simp

lemma plan_events_fits:
  assumes "ledger_holds sha fs evs" "list_all valid_event events"
    and "plan_events sha events fs = (Inr plan, fs')"
  shows "fs' = fs \<and> ledger.fits_all sha evs plan \<and> map pe_event plan = events"
proof -
  have "read_runtime_events_unlocked sha fs = (Inr evs, fs)"
    using assms(1) read_ok by (simp add: ledger_holds_def)
  with assms(3) have "fs' = fs" and
    "rbind (ok_or (blocked_error ''ledger event count overflow'' []) (u64_of_len (length evs))) (\<lambda>base.
       rbind (ledger_previous_hash evs) (\<lambda>previous. plan_loop sha evs base 0 [] previous events)) = Inr plan"
    by (simp_all add: plan_events_def sbind_def)
  then obtain base prev where "fs' = fs" and base: "u64_of_len (length evs) = Some base"
    and "ledger_previous_hash evs = Inr prev" "plan_loop sha evs base 0 [] prev events = Inr plan"
    by (elim rbind_Inr_iff [THEN iffD1, elim_format] exE conjE) (simp add: ok_or_Inr_iff)
  have len: "length evs < 2 ^ 64" "base = of_nat (length evs)"
    using base by (simp_all only: u64_of_len_def split: if_splits) simp_all
  have "ledger.fits_all sha (evs @ []) plan \<and> map pe_event plan = events"
    by (rule plan_loop_fits [OF _ assms(2) len(2,1), of sha 0 "[]" prev]) (use \<open>plan_loop sha evs base 0 [] prev events = Inr plan\<close> \<open>ledger_previous_hash evs = Inr prev\<close> in simp_all)
  with \<open>fs' = fs\<close> show ?thesis by simp
qed

end
