(* ===== verification/Json_Torn.thy ===== *)
theory Json_Torn
  imports Json_Soundness
begin

text \<open>
  The parser never looks back: what it has read stays read when more text follows. A text that is
  cut short is therefore told from the whole one, which is what the readers of files written by
  an interrupted process rely on.
\<close>

section \<open>Strings and literals\<close>

lemma literal_append: "literal e s = Inr r \<Longrightarrow> literal e (s @ t) = Inr (r @ t)"
  by (simp add: literal_Inr_iff)

lemma take_byte_append: "take_byte b s = Inr r \<Longrightarrow> take_byte b (s @ t) = Inr (r @ t)"
  by (simp add: take_byte_Inr_iff)

lemma hex_loop_append: "hex_loop n acc s = Inr (v, r) \<Longrightarrow> hex_loop n acc (s @ t) = Inr (v, r @ t)"
  by (induction n acc s rule: hex_loop.induct) (auto split: option.splits)

lemma hex4_append: "hex4 s = Inr (v, r) \<Longrightarrow> hex4 (s @ t) = Inr (v, r @ t)"
  by (simp add: hex4_def hex_loop_append)

lemma unicode_escape_append:
  assumes "unicode_escape s = Inr (ch, r)"
  shows "unicode_escape (s @ t) = Inr (ch, r @ t)"
proof -
  from assms obtain code r1 where c: "hex4 s = Inr (code, r1)"
    by (auto simp: unicode_escape_def rbind_Inr_iff)
  show ?thesis
  proof (cases "55296 \<le> code \<and> code \<le> 56319")
    case True
    with assms c obtain r2 r3 low r4 where steps: "take_byte backslash r1 = Inr r2" "take_byte (CHR ''u'') r2 = Inr r3"
      "hex4 r3 = Inr (low, r4)"
      by (auto simp: unicode_escape_def rbind_Inr_iff)
    with assms True c show ?thesis
      by (simp add: unicode_escape_def hex4_append [OF c] take_byte_append [OF steps(1)]
          take_byte_append [OF steps(2)] hex4_append [OF steps(3)] split: if_splits option.splits)
  next
    case False
    with assms c show ?thesis
      by (auto simp: unicode_escape_def hex4_append [OF c] split: if_splits option.splits)
  qed
qed

lemma string_char_append:
  assumes "string_char c s = Inr (x, r)"
  shows "string_char c (s @ t) = Inr (x, r @ t)"
proof (cases "c = backslash")
  case True
  with assms obtain e s' where s: "s = e # s'" by (auto simp: string_char_def split: list.splits)
  with True assms show ?thesis
    by (auto simp: string_char_def rbind_Inr_iff unicode_escape_append split: option.splits if_splits)
next
  case False
  show ?thesis
  proof (cases "byte c < 128")
    case True
    with False assms show ?thesis by (auto simp: string_char_def split: if_splits)
  next
    case high: False
    with False assms obtain w where w: "lead_byte_width c = Some w" "w \<le> length (c # s)"
      by (auto simp: string_char_def split: if_splits option.splits)
    then have "take w ((c # s) @ t) = take w (c # s)" "drop w ((c # s) @ t) = drop w (c # s) @ t"
      by (simp_all only: take_append drop_append) simp_all
    with False high assms w show ?thesis by (auto simp: string_char_def split: if_splits)
  qed
qed

lemma string_body_append: "string_body out s = Inr (v, r) \<Longrightarrow> string_body out (s @ t) = Inr (v, r @ t)"
proof (induction out s rule: string_body.induct)
  case (2 out c s)
  show ?case
  proof (cases "c = quote")
    case True
    with 2 show ?thesis by (simp add: string_body_step)
  next
    case False
    with "2.prems" obtain x r1 where x: "string_char c s = Inr (x, r1)" "string_body (out @ x) r1 = Inr (v, r)"
      by (auto simp: string_body_step rbind_Inr_iff)
    from "2.IH" [OF False x(1) refl string_char_shorter [OF x(1)] x(2)] False string_char_append [OF x(1), of t]
    show ?thesis by (simp add: string_body_step)
  qed
qed simp

lemma string_value_append: "string_value s = Inr (v, r) \<Longrightarrow> string_value (s @ t) = Inr (v, r @ t)"
  by (auto simp: string_value_def rbind_Inr_iff dest: take_byte_append [where t = t] string_body_append [where t = t])

section \<open>Numbers\<close>

text \<open>A number ends where something other than a number follows.\<close>

lemma digits_off_more: "digits_off s \<noteq> [] \<Longrightarrow> digits_off (s @ t) = digits_off s @ t"
  by (induction s) (auto simp: digits_off_def)

lemma number_int_part_more: "number_int_part s = Inr r \<Longrightarrow> r \<noteq> [] \<Longrightarrow> number_int_part (s @ t) = Inr (r @ t)"
  using digits_off_more [of s t]
  by (cases s) (auto simp: number_int_part_def peek_append split: if_splits option.splits)

lemma number_fraction_more: "number_fraction s = Inr r \<Longrightarrow> r \<noteq> [] \<Longrightarrow> number_fraction (s @ t) = Inr (r @ t)"
  by (cases s) (auto simp: number_fraction_def consume_def digits_off_more split: if_splits)

lemma number_exponent_more:
  assumes r: "number_exponent s = Inr r" "r \<noteq> []"
  shows "number_exponent (s @ t) = Inr (r @ t)"
proof (cases s)
  case Nil
  with r show ?thesis by (auto simp: number_exponent_def)
next
  case (Cons c l)
  show ?thesis
  proof (cases "c = CHR ''e'' \<or> c = CHR ''E''")
    case True
    define l' where "l' = (if peek l = Some (CHR ''+'') \<or> peek l = Some (CHR ''-'') then tl l else l)"
    from r Cons True have l': "length (digits_off l') \<noteq> length l'" "r = digits_off l'"
      by (auto simp: number_exponent_def Let_def l'_def split: if_splits)
    then have "l \<noteq> []" by (auto simp: l'_def digits_off_def)
    then have "(if peek (l @ t) = Some (CHR ''+'') \<or> peek (l @ t) = Some (CHR ''-'')
       then tl (l @ t) else l @ t) = l' @ t"
      by (simp add: peek_append l'_def)
    with Cons True l' r(2) show ?thesis
      by (simp add: number_exponent_def Let_def digits_off_more)
  next
    case False
    with r Cons have "r = c # l" by (simp add: number_exponent_def)
    with Cons False show ?thesis by (simp add: number_exponent_def)
  qed
qed

lemma number_value_more:
  assumes v: "number_value s = Inr (v, r)" and r: "r \<noteq> []"
  shows "number_value (s @ t) = Inr (v, r @ t)"
proof -
  from v obtain r1 r2 where steps: "number_int_part (snd (consume (CHR ''-'') s)) = Inr r1"
    "number_fraction r1 = Inr r2" "number_exponent r2 = Inr r"
    by (auto simp: number_value_def rbind_Inr_iff Let_def split: if_splits)
  then have "s \<noteq> []" by (auto simp: consume_def number_int_part_def)
  then have "snd (consume (CHR ''-'') (s @ t)) = snd (consume (CHR ''-'') s) @ t"
    by (simp add: consume_def peek_append)
  moreover have r2: "r2 \<noteq> []" using number_exponent_shorter [OF steps(3)] r by auto
  moreover have "r1 \<noteq> []" using number_fraction_shorter [OF steps(2)] r2 by auto
  moreover have "length r \<le> length s" using number_value_shorter [OF v] by simp
  ultimately show ?thesis
    using v steps r
    by (auto simp: number_value_def number_int_part_more number_fraction_more number_exponent_more Let_def)
qed

lemma number_value_followed:
  "number_value s = Inr (v, r) \<Longrightarrow> r \<noteq> [] \<or> delimited t \<Longrightarrow> number_value (s @ t) = Inr (v, r @ t)"
  using number_value_more number_value_append by blast

lemma parse_scalar_append:
  assumes "parse_scalar s = Inr (v, r)" "r \<noteq> [] \<or> delimited t"
  shows "parse_scalar (s @ t) = Inr (v, r @ t)"
proof (cases s)
  case Nil
  with assms show ?thesis by (simp add: parse_scalar_def)
next
  case (Cons c l)
  consider "c = quote" | "c = CHR ''t''" | "c = CHR ''f''" | "c = CHR ''n''"
    | "c \<notin> {quote, CHR ''t'', CHR ''f'', CHR ''n''}" by blast
  then show ?thesis
  proof cases
    case 1
    with assms(1) Cons have "\<exists>u. string_value s = Inr (u, r) \<and> v = JString u" by (auto simp: parse_scalar_def rbind_Inr_iff)
    then show ?thesis using Cons 1 string_value_append [of s _ r t] by (auto simp: parse_scalar_def)
  next
    case 5
    with assms(1) Cons have "number_value s = Inr (v, r)" "c = CHR ''-'' \<or> is_ascii_digit c"
      by (auto simp: parse_scalar_def split: if_splits)
    with 5 Cons number_value_followed [OF this(1) assms(2)] show ?thesis by (auto simp: parse_scalar_def)
  qed (use assms(1) Cons in \<open>auto simp: parse_scalar_def rbind_Inr_iff literal_Inr_iff\<close>)
qed

section \<open>Values\<close>

lemma ws_append: "ws s \<noteq> [] \<Longrightarrow> ws (s @ t) = ws s @ t"
  by (simp add: ws_def dropWhile_append) (metis dropWhile_eq_Nil_conv)

lemma consume_append: "s \<noteq> [] \<Longrightarrow> consume b (s @ t) = (fst (consume b s), snd (consume b s) @ t)"
  by (cases s) (auto simp: consume_def)

lemma take_byte_ws_append: "take_byte b (ws s) = Inr r \<Longrightarrow> take_byte b (ws (s @ t)) = Inr (r @ t)"
  by (cases "ws s") (auto simp: take_byte_Inr_iff ws_append)

lemma string_value_ws_append: "string_value (ws s) = Inr (v, r) \<Longrightarrow> string_value (ws (s @ t)) = Inr (v, r @ t)"
  using string_value_append [of "ws s" v r t] by (cases "ws s") (simp_all add: ws_append string_value_def rbind_def take_byte_def consume_def)

text \<open>Whatever closes a container or separates its parts is not part of a number before it.\<close>

lemma ws_not_Nil: "ws s \<noteq> [] \<Longrightarrow> s \<noteq> []"
  by (auto simp: ws_def)

lemma parse_json_container:
  assumes "ws s = c # s'"
  shows "c = CHR ''{'' \<Longrightarrow> parse_json d s =
      (if max_json_nesting_depth \<le> d then Inl (json_error ''nesting depth budget exceeded'')
       else if fst (consume (CHR ''}'') (ws s')) then Inr (JObject [], snd (consume (CHR ''}'') (ws s')))
       else members_loop (Suc d) [] (ws s'))"
    "c = CHR ''['' \<Longrightarrow> parse_json d s =
      (if max_json_nesting_depth \<le> d then Inl (json_error ''nesting depth budget exceeded'')
       else if fst (consume (CHR '']'') (ws s')) then Inr (JArray [], snd (consume (CHR '']'') (ws s')))
       else elements_loop (Suc d) [] (ws s'))"
    "c \<noteq> CHR ''{'' \<Longrightarrow> c \<noteq> CHR ''['' \<Longrightarrow> parse_json d s = parse_scalar (c # s')"
proof -
  have "length (ws s') < length s" using ws_ConsD [OF assms] length_ws [of s'] by simp
  then show "c = CHR ''{'' \<Longrightarrow> parse_json d s =
      (if max_json_nesting_depth \<le> d then Inl (json_error ''nesting depth budget exceeded'')
       else if fst (consume (CHR ''}'') (ws s')) then Inr (JObject [], snd (consume (CHR ''}'') (ws s')))
       else members_loop (Suc d) [] (ws s'))"
    "c = CHR ''['' \<Longrightarrow> parse_json d s =
      (if max_json_nesting_depth \<le> d then Inl (json_error ''nesting depth budget exceeded'')
       else if fst (consume (CHR '']'') (ws s')) then Inr (JArray [], snd (consume (CHR '']'') (ws s')))
       else elements_loop (Suc d) [] (ws s'))"
    "c \<noteq> CHR ''{'' \<Longrightarrow> c \<noteq> CHR ''['' \<Longrightarrow> parse_json d s = parse_scalar (c # s')"
    by (simp_all add: parse_json.simps [of d s] assms)
qed

lemma loops_Nil: "members_loop d obj [] \<noteq> Inr x" "elements_loop d vs [] \<noteq> Inr x"
  using parse_shorter(2) [of d obj "[]" "fst x" "snd x"] parse_shorter(3) [of d vs "[]" "fst x" "snd x"] by auto

lemma parse_json_nonblank: "parse_json d s = Inr x \<Longrightarrow> ws s \<noteq> []"
  by (auto simp: parse_json.simps [of d s])

lemma parse_append:
  "parse_json d s = Inr (v, r) \<Longrightarrow> r \<noteq> [] \<or> delimited t \<Longrightarrow> parse_json d (s @ t) = Inr (v, r @ t)"
  "members_loop d obj s = Inr (v, r) \<Longrightarrow> members_loop d obj (s @ t) = Inr (v, r @ t)"
  "elements_loop d vs s = Inr (v, r) \<Longrightarrow> elements_loop d vs (s @ t) = Inr (v, r @ t)"
proof (induction d s and d obj s and d vs s arbitrary: v r and v r and v r
    rule: parse_json_members_loop_elements_loop.induct)
  case (1 d s0)
  show ?case
  proof (cases "ws s0")
    case Nil
    with "1.prems" parse_json_nonblank show ?thesis by blast
  next
    case (Cons c s)
    then have more: "ws (s0 @ t) = c # (s @ t)" by (simp add: ws_append)
    note len = ws_ConsD [OF Cons]
    from length_ws [of s] len have len': "length (ws s) < length s0" by simp
    consider (obj) "c = CHR ''{''" | (arr) "c = CHR ''[''" | (other) "c \<noteq> CHR ''{''" "c \<noteq> CHR ''[''" by blast
    then show ?thesis
    proof cases
      case obj
      note eqs = parse_json_container(1) [OF Cons obj, of d] parse_json_container(1) [OF more obj, of d]
      have ne: "ws s \<noteq> []" using "1.prems"(1) eqs(1) loops_Nil(1)
        by (auto simp: consume_def split: if_splits)
      show ?thesis
      proof (cases "fst (consume (CHR ''}'') (ws s))")
        case True
        with "1.prems"(1) eqs ne show ?thesis by (simp add: ws_append consume_append split: if_splits)
      next
        case False
        with "1.prems"(1) eqs(1) have "\<not> max_json_nesting_depth \<le> d" "members_loop (Suc d) [] (ws s) = Inr (v, r)"
          by (simp_all split: if_splits)
        with "1.IH"(1) [OF Cons obj _ False len'] eqs(2) False ne show ?thesis by (simp add: ws_append consume_append)
      qed
    next
      case arr
      note eqs = parse_json_container(2) [OF Cons arr, of d] parse_json_container(2) [OF more arr, of d]
      from arr have nobj: "c \<noteq> CHR ''{''" by simp
      have ne: "ws s \<noteq> []" using "1.prems"(1) eqs(1) loops_Nil(2)
        by (auto simp: consume_def split: if_splits)
      show ?thesis
      proof (cases "fst (consume (CHR '']'') (ws s))")
        case True
        with "1.prems"(1) eqs ne show ?thesis by (simp add: ws_append consume_append split: if_splits)
      next
        case False
        with "1.prems"(1) eqs(1) have "\<not> max_json_nesting_depth \<le> d" "elements_loop (Suc d) [] (ws s) = Inr (v, r)"
          by (simp_all split: if_splits)
        with "1.IH"(2) [OF Cons nobj arr _ False len'] eqs(2) False ne show ?thesis by (simp add: ws_append consume_append)
      qed
    next
      case other
      with "1.prems" Cons more parse_scalar_append [of "c # s" v r t] show ?thesis
        by (simp add: parse_json_container(3))
    qed
  qed
next
  case (2 d obj s)
  from "2.prems" obtain key r1 r2 w r3 where steps:
      "string_value (ws s) = Inr (key, r1)" "take_byte (CHR '':'') (ws r1) = Inr r2"
      "length r2 < length s" "parse_json d r2 = Inr (w, r3)" "fst (object_insert key w obj) = None"
    and rest: "fst (consume (CHR ''}'') (ws r3)) \<and> v = JObject (snd (object_insert key w obj)) \<and> r = snd (consume (CHR ''}'') (ws r3))
      \<or> \<not> fst (consume (CHR ''}'') (ws r3)) \<and> (\<exists>r4. take_byte (CHR '','') (ws r3) = Inr r4 \<and> length r4 < length s
          \<and> members_loop d (snd (object_insert key w obj)) r4 = Inr (v, r))"
    by (auto simp: members_loop.simps [of d obj s] split: sum.splits prod.splits if_splits)
  have ne: "ws r3 \<noteq> []" using rest by (auto simp: consume_def peek_def take_byte_Inr_iff)
  from "2.IH"(1) [OF steps(1) refl steps(2)] steps(3,4) ws_not_Nil [OF ne]
  have val: "parse_json d (r2 @ t) = Inr (w, r3 @ t)" by auto
  note front = string_value_ws_append [OF steps(1), of t] take_byte_ws_append [OF steps(2), of t] val
  from rest show ?case
  proof (elim disjE conjE exE)
    assume "fst (consume (CHR ''}'') (ws r3))" "v = JObject (snd (object_insert key w obj))"
      "r = snd (consume (CHR ''}'') (ws r3))"
    with front steps(5) ne show ?thesis by (simp add: members_loop_step [of d obj "s @ t"] ws_append consume_append)
  next
    fix r4
    assume nf: "\<not> fst (consume (CHR ''}'') (ws r3))" and r4: "take_byte (CHR '','') (ws r3) = Inr r4"
      "length r4 < length s" "members_loop d (snd (object_insert key w obj)) r4 = Inr (v, r)"
    from "2.IH"(2) [OF steps(1) refl steps(2) _ steps(4) refl _ nf r4(1,2,3)] steps(3,5)
    have "members_loop d (snd (object_insert key w obj)) (r4 @ t) = Inr (v, r @ t)" by simp
    with front steps(5) ne nf take_byte_ws_append [OF r4(1), of t] show ?thesis
      by (simp add: members_loop_step [of d obj "s @ t"] ws_append consume_append)
  qed
next
  case (3 d vs s)
  from "3.prems" obtain w r1 where w: "parse_json d s = Inr (w, r1)"
    and rest: "fst (consume (CHR '']'') (ws r1)) \<and> v = JArray (vs @ [w]) \<and> r = snd (consume (CHR '']'') (ws r1))
      \<or> \<not> fst (consume (CHR '']'') (ws r1)) \<and> (\<exists>r2. take_byte (CHR '','') (ws r1) = Inr r2 \<and> length r2 < length s
          \<and> elements_loop d (vs @ [w]) r2 = Inr (v, r))"
    by (auto simp: elements_loop.simps [of d vs s] split: sum.splits prod.splits if_splits)
  have ne: "ws r1 \<noteq> []" using rest by (auto simp: consume_def peek_def take_byte_Inr_iff)
  from "3.IH"(1) [OF w] ws_not_Nil [OF ne] have val: "parse_json d (s @ t) = Inr (w, r1 @ t)" by blast
  from rest show ?case
  proof (elim disjE conjE exE)
    assume "fst (consume (CHR '']'') (ws r1))" "v = JArray (vs @ [w])" "r = snd (consume (CHR '']'') (ws r1))"
    with val ne show ?thesis by (simp add: elements_loop_step [of d vs "s @ t"] ws_append consume_append)
  next
    fix r2
    assume nf: "\<not> fst (consume (CHR '']'') (ws r1))" and r2: "take_byte (CHR '','') (ws r1) = Inr r2"
      "length r2 < length s" "elements_loop d (vs @ [w]) r2 = Inr (v, r)"
    from "3.IH"(2) [OF w refl nf r2] have "elements_loop d (vs @ [w]) (r2 @ t) = Inr (v, r @ t)" .
    with val ne nf take_byte_ws_append [OF r2(1), of t] show ?thesis
      by (simp add: elements_loop_step [of d vs "s @ t"] ws_append consume_append)
  qed
qed

section \<open>A text that is cut short\<close>

lemma parse_append_object:
  assumes "parse_json d (CHR ''{'' # s) = Inr (v, r)"
  shows "parse_json d (CHR ''{'' # s @ t) = Inr (v, r @ t)"
proof -
  have start: "ws (CHR ''{'' # x) = CHR ''{'' # x" for x by (simp add: ws_def is_json_ws_def)
  note eqs = parse_json_container(1) [OF start refl, of d]
  have ne: "ws s \<noteq> []" using assms loops_Nil(1) by (auto simp: eqs consume_def split: if_splits)
  show ?thesis
  proof (cases "fst (consume (CHR ''}'') (ws s))")
    case True
    with assms ne show ?thesis by (simp add: eqs ws_append consume_append split: if_splits)
  next
    case False
    with assms ne parse_append(2) [of "Suc d" "[]" "ws s" v r t] show ?thesis
      by (simp add: eqs ws_append consume_append split: if_splits)
  qed
qed

text \<open>No proper prefix of an accepted object from brace to brace is accepted.\<close>

theorem torn_object_refused:
  assumes "parse_value (p @ t) c = Inr v" "hd (p @ t) = CHR ''{''" "t \<noteq> []" "last t = CHR ''}''"
  shows "\<exists>e. parse_value p c' = Inl e"
proof (rule ccontr)
  assume "\<not> ?thesis"
  then obtain w where "parse_value p c' = Inr w" by (cases "parse_value p c'") auto
  then obtain r where p: "parse_json 0 p = Inr (w, r)" and r: "ws r = []"
    by (auto simp: parse_value_def rbind_Inr_iff split: prod.splits if_splits)
  from parse_json_nonblank [OF p] have "p \<noteq> []" by (auto simp: ws_def)
  with assms(2) obtain p' where p': "p = CHR ''{'' # p'" by (cases p) auto
  with p parse_append_object [of 0 p' w r t] have "parse_json 0 (p @ t) = Inr (w, r @ t)" by simp
  with assms(1) have "ws (r @ t) = []" by (auto simp: parse_value_def split: if_splits)
  then have "is_json_ws (last t)" using assms(3) by (simp add: ws_def)
  with assms(4) show False by (simp add: is_json_ws_def)
qed

end
