(* ===== verification/Ledger_Properties.thy ===== *)
theory Ledger_Properties
  imports Ledger_Writer Json_Torn
begin

text \<open>The properties of the runtime ledger and its writer, with their witnesses.\<close>

section \<open>A torn record separator\<close>

lemma line_prefix_head:
  "\<exists>r. fst (canonical_event_line sha ev p) = CHR ''{'' # r"
  by (simp add: canonical_event_line_def Let_def)

lemma parse_two_records:
  assumes "valid_event ev" "list_all plain_char p"
  shows "\<exists>e. parse_event_line_strict (fst (canonical_event_line sha ev p) @ fst (canonical_event_line sha ev' p')) = Inl e"
proof -
  let ?line = "fst (canonical_event_line sha ev p)" and ?line' = "fst (canonical_event_line sha ev' p')"
  obtain kvs where "parse_json 0 (?line @ ?line') = Inr (JObject kvs, ?line')"
    using parse_json_canonical [OF assms(1) plain_chars_key [OF assms(2)]] by blast
  moreover obtain r where "?line' = CHR ''{'' # r" using line_prefix_head by blast
  ultimately have "parse_value (?line @ ?line') ledger_context =
      Inl (json_blocked ledger_context ''trailing garbage'')"
    by (simp add: parse_value_def ws_def is_json_ws_def)
  then show ?thesis by (simp add: parse_event_line_strict_def parse_object_def)
qed

lemma str_lines_record:
  assumes "valid_event ev" "list_all plain_char p" "ends_line body"
  shows "str_lines (body @ fst (canonical_event_line sha ev p)) =
    str_lines (body @ fst (canonical_event_line sha ev p) @ [LF])"
proof -
  have "LF \<notin> set (fst (canonical_event_line sha ev p))"
    by (rule canonical_line_shape [OF assms(1) plain_chars_key [OF assms(2)] assms(2) refl])
  moreover have "fst (canonical_event_line sha ev p) \<noteq> []" using line_prefix_head [of sha ev p] by auto
  ultimately have "str_lines (fst (canonical_event_line sha ev p)) = [fst (canonical_event_line sha ev p)]"
    by (simp add: str_lines_def lines_from_last)
  then show ?thesis
    by (simp add: str_lines_append [OF assms(3)] str_lines_canonical [OF assms(1,2), of "[]", simplified]
        ends_line_def str_lines_def [of "[]"])
qed

lemma unended_sync:
  assumes ok: "ledger_ok sha fs evs" and p: "ledger_previous_hash evs = Inr p" and ev: "valid_event ev"
  shows "ledger_sync sha (with_head sha ev p (length evs) (with_record sha ev p fs))
    (evs @ [installed_event sha ev p])"
proof -
  let ?fs = "with_head sha ev p (length evs) (with_record sha ev p fs)"
  have plain: "list_all plain_char p" by (rule previous_plain [OF ok p])
  have ends: "ends_line (body_of fs)" and utf: "utf8_valid (body_of fs)"
    using ok by (auto simp: ledger_ok_def ledger_sync_def)
  have body: "body_of ?fs = body_of fs @ fst (canonical_event_line sha ev p)"
    by (simp add: with_head_def with_record_def)
  have "str_lines (body_of ?fs) = str_lines (body_of (with_line sha ev p fs))"
    using str_lines_record [OF ev plain ends] by (simp add: body) (simp add: with_line_def)
  moreover have "utf8_valid (fst (canonical_event_line sha ev p))"
    by (rule canonical_line_shape [OF ev plain_chars_key [OF plain] plain refl])
  then have "utf8_valid (body_of ?fs)" using utf by (simp add: body utf8_valid_append)
  ultimately show ?thesis
    using with_line_loop(1) [OF ok p ev]
    by (auto simp: ledger_sync_def) (auto simp: with_head_def add.commute)
qed

lemma torn_separator_states:
  assumes ok: "ledger_ok sha fs evs" and p: "ledger_previous_hash evs = Inr p"
    and ev: "valid_event ev" "valid_event ev'" and bound: "Suc (length evs) < 2 ^ 64"
    and io: "io_outcomes fs = []"
  defines "fs2 \<equiv> with_head sha ev p (length evs) (with_record sha ev p fs)"
  shows "read_runtime_events_unlocked sha (with_record sha ev p fs) =
      (Inr (evs @ [installed_event sha ev p]), fs2)"
    and "\<exists>fs3 e. append_chained_event sha ev' fs2 = (Inr (), fs3) \<and>
      fst (read_runtime_events_unlocked sha fs3) = Inl e"
proof -
  let ?h = "planned_event_hash sha ev p" and ?line = "fst (canonical_event_line sha ev p)"
  let ?line' = "fst (canonical_event_line sha ev' ?h)"
  have plain: "list_all plain_char p" by (rule previous_plain [OF ok p])
  have hash: "list_all plain_char ?h"
    by (simp add: planned_event_hash_def sha256_bytes_def bytes_to_hex_plain)
  have ends: "ends_line (body_of fs)" and utf: "utf8_valid (body_of fs)"
    using ok by (auto simp: ledger_ok_def ledger_sync_def)
  have lines: "str_lines (body_of fs @ ?line) = str_lines (body_of (with_line sha ev p fs))"
    using str_lines_record [OF ev(1) plain ends] by (simp add: with_line_def)
  have uline: "utf8_valid ?line" "utf8_valid ?line'"
    by (rule canonical_line_shape [OF ev(1) plain_chars_key [OF plain] plain refl],
        rule canonical_line_shape [OF ev(2) plain_chars_key [OF hash] hash refl])
  have utf1: "utf8_valid (body_of fs @ ?line)" using utf uline by (simp add: utf8_valid_append)
  show "read_runtime_events_unlocked sha (with_record sha ev p fs) =
      (Inr (evs @ [installed_event sha ev p]), fs2)"
    using read_repairs [OF ok p ev(1) bound io lines utf1] by (simp add: with_record_def fs2_def)
  have body2: "body_of fs2 = body_of fs @ ?line" by (simp add: fs2_def with_head_def with_record_def)
  have sync: "ledger_sync sha fs2 (evs @ [installed_event sha ev p])"
    unfolding fs2_def by (rule unended_sync [OF ok p ev(1)])
  have prev: "ledger_previous_hash (evs @ [installed_event sha ev p]) = Inr ?h"
    by (simp add: ledger_previous_hash_def installed_event_def)
  have io2: "io_outcomes fs2 = []" using io by (simp add: fs2_def with_head_def with_record_def)
  let ?n = "Suc (length evs)"
  let ?fs3 = "with_head sha ev' ?h ?n (with_line sha ev' ?h fs2)"
  have append: "append_chained_event sha ev' fs2 = (Inr (), ?fs3)"
  proof -
    have "append_line ?line' fs2 = (Inr (), with_line sha ev' ?h fs2)"
      using io2 by (cases fs2) (simp add: append_line_def next_outcome_def with_line_def body_of_def Let_def)
    moreover have "io_outcomes (with_line sha ev' ?h fs2) = []" using io2 by (simp add: with_line_def)
    from write_head_no_faults [OF this]
    have "write_ledger_head (of_nat ?n + 1) (planned_event_hash sha ev' ?h) (with_line sha ev' ?h fs2) =
        (Inr (), ?fs3)" by (simp add: with_head_def)
    ultimately show ?thesis by (simp add: append_unfold [OF sync prev] sthen_def sbind_eqs)
  qed
  have body3: "body_of ?fs3 = body_of fs @ (?line @ ?line') @ [LF]" "ledger_body ?fs3 = Some (body_of ?fs3)"
    by (simp_all add: with_head_def with_line_def body2)
  have "LF \<notin> set (?line @ ?line')" "last (?line @ ?line') = CHR ''}''"
    using canonical_line_shape [OF ev(1) plain_chars_key [OF plain] plain refl, of sha]
      canonical_line_shape [OF ev(2) plain_chars_key [OF hash] hash refl, of sha]
      line_prefix_head [of sha ev' ?h] by auto
  then have lines3: "str_lines (body_of ?fs3) = str_lines (body_of fs) @ [?line @ ?line']"
    using str_lines_line [of "?line @ ?line'"]
    unfolding body3(1) str_lines_append [OF ends] by simp
  from ok obtain lg pv where loop: "chain_loop sha 0 [] [] None (str_lines (body_of fs)) = Inr (evs, lg, pv)"
    by (rule ledger_okE) blast
  obtain e where "parse_event_line_strict (?line @ ?line') = Inl e"
    using parse_two_records [OF ev(1) plain] by blast
  moreover have "trim (?line @ ?line') \<noteq> []"
    using line_prefix_head [of sha ev p] by (auto simp: trim_not_empty is_whitespace_def)
  ultimately obtain e' where "chain_loop sha 0 [] [] None (str_lines (body_of ?fs3)) = Inl e'"
    by (simp add: lines3 chain_loop_append loop)
  moreover have "utf8_valid (body_of ?fs3)"
    using utf uline by (simp add: body3 utf8_valid_append utf8_valid_ascii_Cons)
  ultimately have "fst (read_runtime_events_unlocked sha ?fs3) = Inl e'"
    by (simp add: read_runtime_events_unlocked_def body3(2) validate_ledger_contents_with_head_repair_def
        validate_ledger_contents_inner_def sthrow_def)
  with append show "\<exists>fs3 e. append_chained_event sha ev' fs2 = (Inr (), fs3) \<and>
      fst (read_runtime_events_unlocked sha fs3) = Inl e" by blast
qed

section \<open>A record cut short\<close>

lemma torn_record_refused:
  assumes "valid_event ev" "list_all plain_char p" "k < length (fst (canonical_event_line sha ev p))"
  shows "\<exists>e. parse_event_line_strict (take k (fst (canonical_event_line sha ev p))) = Inl e"
proof -
  let ?line = "fst (canonical_event_line sha ev p)"
  note key = plain_chars_key [OF assms(2)]
  from parse_canonical_line [OF assms(1) key, of sha] obtain obj where "parse_value ?line ledger_context = Inr obj"
    by (auto simp: parse_event_line_strict_def parse_object_def rbind_Inr_iff)
  then have "parse_value (take k ?line @ drop k ?line) ledger_context = Inr obj" by simp
  moreover have "hd (take k ?line @ drop k ?line) = CHR ''{''"
    using line_prefix_head [of sha ev p] by auto
  moreover have "drop k ?line \<noteq> []" using assms(3) by simp
  moreover have "last (drop k ?line) = CHR ''}''"
    using canonical_line_shape(3) [OF assms(1) key assms(2) refl, of sha] assms(3) by simp
  ultimately obtain e where "parse_value (take k ?line) ledger_context = Inl e"
    using torn_object_refused by metis
  then show ?thesis by (simp add: parse_event_line_strict_def parse_object_def)
qed

lemma torn_append_refused:
  assumes ok: "ledger_ok sha fs evs" and p: "ledger_previous_hash evs = Inr p" and ev: "valid_event ev"
    and k: "0 < k" "k < length (fst (canonical_event_line sha ev p))"
  shows "\<exists>e. read_runtime_events_unlocked sha (with_torn sha ev p k fs) = (Inl e, with_torn sha ev p k fs)"
proof -
  let ?line = "fst (canonical_event_line sha ev p)" and ?fs = "with_torn sha ev p k fs"
  from ok obtain lg pv where loop: "chain_loop sha 0 [] [] None (str_lines (body_of fs)) = Inr (evs, lg, pv)"
    and line: "ends_line (body_of fs)"
    by (rule ledger_okE) blast
  have plain: "list_all plain_char p" by (rule previous_plain [OF ok p])
  have "LF \<notin> set (take k ?line)"
    using canonical_line_shape(2) [OF ev plain_chars_key [OF plain] plain refl, of sha]
    by (auto dest: in_set_takeD)
  then have "str_lines (take k ?line) = [take k ?line]"
    using k by (auto simp: str_lines_def lines_from_last)
  then have lines: "str_lines (body_of fs @ take k ?line) = str_lines (body_of fs) @ [take k ?line]"
    by (simp add: str_lines_append [OF line])
  obtain e where "parse_event_line_strict (take k ?line) = Inl e"
    using torn_record_refused [OF ev plain k(2)] by blast
  then obtain e' where "chain_loop sha 0 [] [] None (str_lines (body_of fs @ take k ?line)) = Inl e'"
    by (cases "trim (take k ?line) = []") (simp_all add: lines chain_loop_append loop)
  then have "validate_ledger_contents_inner sha (body_of fs @ take k ?line) True ?fs = (Inl e', ?fs)"
    by (simp add: validate_ledger_contents_inner_def sthrow_def)
  then show ?thesis
    by (simp add: read_runtime_events_unlocked_def validate_ledger_contents_with_head_repair_def with_torn_def)
qed

text \<open>What the next read returns after an append, whatever the outcomes of its two writes.\<close>

lemma append_atomic_read:
  assumes ok: "ledger_ok sha fs evs" and ev: "valid_event ev" and bound: "Suc (length evs) < 2 ^ 64"
    and p: "ledger_previous_hash evs = Inr p"
    and run: "append_chained_event sha ev fs = (r, fs')"
    and n: "n = length (fst (canonical_event_line sha ev p))"
  shows "if torn_write (next_outcome fs) n
    then \<not> is_ok r \<and> (\<exists>e. read_runtime_events_unlocked sha (no_faults fs') = (Inl e, no_faults fs'))
    else \<exists>fs''. \<exists>evs' \<in> {evs, evs @ [installed_event sha ev p]}.
      read_runtime_events_unlocked sha (no_faults fs') = (Inr evs', fs'') \<and> ledger_sync sha fs'' evs'
      \<and> (ledger_ok sha fs'' evs' \<or> next_outcome fs = Io_error (Suc n))
      \<and> (is_ok r \<longrightarrow> evs' = evs @ [installed_event sha ev p])"
proof -
  have ok': "ledger_ok sha (no_faults fs) evs" using ok by simp
  note new = with_head_ok [OF ok' p ev]
  have whole: "ledger_ok sha fs'' evs' \<Longrightarrow> ledger_sync sha fs'' evs'" for fs'' evs'
    by (rule ledger_ok_sync)
  from ok p run show ?thesis
  proof (cases rule: append_states)
    case kept
    with read_ok [OF kept(1)] whole [OF kept(1)] show ?thesis by (auto simp: n)
  next
    case (torn k)
    then show ?thesis using torn_append_refused [OF ok' p ev torn(2,3)] by (auto simp: n torn_write_def)
  next
    case unended
    have "\<not> torn_write (next_outcome fs) n" by (simp add: unended(1) torn_write_def n)
    moreover have "io_outcomes (no_faults fs) = []" by simp
    with torn_separator_states(1) [OF ok' p ev ev bound] unended_sync [OF ok' p ev]
    have "read_runtime_events_unlocked sha (no_faults fs') = (Inr (evs @ [installed_event sha ev p]),
          with_head sha ev p (length evs) (no_faults fs'))"
      "ledger_sync sha (with_head sha ev p (length evs) (no_faults fs')) (evs @ [installed_event sha ev p])"
      by (simp_all add: unended(2))
    ultimately show ?thesis using unended(1,3) n by auto
  next
    case line
    with read_repairs_head [OF ok' p ev bound] new whole [OF new] show ?thesis by (auto simp: n)
  next
    case both
    with new read_ok [OF new] whole [OF new] show ?thesis by (auto simp: n)
  qed
qed

section \<open>Witness data\<close>

definition wit_sha :: hasher where
  "wit_sha s = replicate 32 (CHR ''a'')"

definition wit_event :: "string \<Rightarrow> ledger_event" where
  "wit_event eid = \<lparr>event_id = eid, ts_ms = 1, event_type = ''workflow.test'', project_id = ''p'',
     session_id = ''s'', summary = ''m'', details = ''d''\<rparr>"

definition wit_fs :: ledger_fs where
  "wit_fs = \<lparr>ledger_body = None, head_body = None, io_outcomes = []\<rparr>"

lemma wit_valid: "all_ascii eid \<Longrightarrow> valid_event (wit_event eid)"
  by (simp add: valid_event_def wit_event_def all_ascii_valid) (simp add: all_ascii_def all_ascii_valid)

lemma wit_ok: "ledger_ok sha (wit_fs\<lparr>io_outcomes := os\<rparr>) []"
  by (simp add: ledger_ok_def ledger_sync_def ends_line_def str_lines_def) (simp add: wit_fs_def body_of_def)

lemma wit_previous: "ledger_previous_hash [] = Inr ''root''"
  by (simp add: ledger_previous_hash_def)

lemma wit_root: "plain_key ''root''"
  by (rule plain_key_chars) (simp add: plain_char_def)

lemma wit_digest: "digest32 wit_sha"
  by (simp add: digest32_def wit_sha_def)

section \<open>The codec\<close>

text \<open>
  C14 The line the ledger writes for an event, with every string escaped, is read back as that
  event with the predecessor's hash and the hash of its payload, for every hash function.
\<close>

theorem event_line_roundtrip:
  assumes "valid_event event" "plain_key previous"
  shows "parse_event_line_strict (fst (canonical_event_line sha event previous)) =
    Inr (parsed_of event (Some previous) (Some (planned_event_hash sha event previous)))"
  using assms by (rule parse_canonical_line)

lemma event_line_roundtrip_witness:
  "parse_event_line_strict (fst (canonical_event_line wit_sha (wit_event ''e1'') ''root'')) =
    Inr (parsed_of (wit_event ''e1'') (Some ''root'')
      (Some (planned_event_hash wit_sha (wit_event ''e1'') ''root'')))"
  by (rule event_line_roundtrip [OF wit_valid wit_root]) (simp add: all_ascii_def)

section \<open>The files\<close>

text \<open>
  C1 Appending is atomic under crashes, at any outcome of its two writes. When the write of the
  record stopped strictly inside it, the append reports an error and the next read is refused
  and changes nothing. After any other outcome the next read returns the events of before or
  those and the new one, with the head repaired to agree with them, and the file ends with a
  complete line unless the line feed alone was lost; an append that reported success is never
  lost.
\<close>

theorem append_atomic:
  assumes "ledger_ok sha fs evs" "valid_event ev" "Suc (length evs) < 2 ^ 64"
    and "ledger_previous_hash evs = Inr p"
    and "append_chained_event sha ev fs = (r, fs')"
    and "n = length (fst (canonical_event_line sha ev p))"
  shows "if torn_write (next_outcome fs) n
    then \<not> is_ok r \<and> (\<exists>e. read_runtime_events_unlocked sha (no_faults fs') = (Inl e, no_faults fs'))
    else \<exists>fs''. \<exists>evs' \<in> {evs, evs @ [installed_event sha ev p]}.
      read_runtime_events_unlocked sha (no_faults fs') = (Inr evs', fs'') \<and> ledger_sync sha fs'' evs'
      \<and> (ledger_ok sha fs'' evs' \<or> next_outcome fs = Io_error (Suc n))
      \<and> (is_ok r \<longrightarrow> evs' = evs @ [installed_event sha ev p])"
  using assms by (rule append_atomic_read)

lemma append_atomic_witness:
  "\<exists>r fs' n. append_chained_event wit_sha (wit_event ''e1'') (wit_fs\<lparr>io_outcomes := [Io_ok, Io_error 0]\<rparr>) = (r, fs')
   \<and> (if torn_write (next_outcome (wit_fs\<lparr>io_outcomes := [Io_ok, Io_error 0]\<rparr>)) n
    then \<not> is_ok r \<and> (\<exists>e. read_runtime_events_unlocked wit_sha (no_faults fs') = (Inl e, no_faults fs'))
    else \<exists>fs''. \<exists>evs' \<in> {[], [] @ [installed_event wit_sha (wit_event ''e1'') ''root'']}.
      read_runtime_events_unlocked wit_sha (no_faults fs') = (Inr evs', fs'') \<and> ledger_sync wit_sha fs'' evs'
      \<and> (ledger_ok wit_sha fs'' evs' \<or> next_outcome (wit_fs\<lparr>io_outcomes := [Io_ok, Io_error 0]\<rparr>) = Io_error (Suc n))
      \<and> (is_ok r \<longrightarrow> evs' = [] @ [installed_event wit_sha (wit_event ''e1'') ''root'']))"
proof -
  obtain r fs' where run: "append_chained_event wit_sha (wit_event ''e1'')
      (wit_fs\<lparr>io_outcomes := [Io_ok, Io_error 0]\<rparr>) = (r, fs')" by fastforce
  have "valid_event (wit_event ''e1'')" by (rule wit_valid) (simp add: all_ascii_def)
  from append_atomic [OF wit_ok this _ wit_previous run refl] run show ?thesis by (intro exI conjI) simp_all
qed

text \<open>
  C2 The ledger is tamper evident. Take a consistent ledger with a head; whatever bytes replace
  the ledger file, and whatever count is written beside the last hash in the head, if the reader
  accepts the pair, then the count is that of the ledger and the events returned are exactly its
  events, the legacy ones before the chain included, or those and one event that names the last
  hash as its predecessor (the append that the reader repairs), unless two different texts among
  the legacy texts and payloads of the two files have one hash.
\<close>

theorem ledger_tamper_evident:
  assumes "ledger_ok sha fs evs" "evs \<noteq> []" "event_hash (last evs) = Some h"
    and "read_runtime_events_unlocked sha
      (fs\<lparr>ledger_body := Some body, head_body := Some (head_text n h)\<rparr>) = (Inr evs', fs')"
    and "inj_on sha (set (hashed_texts sha (body_of fs)) \<union> set (hashed_texts sha body))"
  shows "n = of_nat (length evs) \<and> (evs' = evs \<or> (\<exists>e. evs' = evs @ [e] \<and> previous_event_hash e = Some h))"
  using assms by (rule tamper_evident_read)

definition wit_fs1 :: ledger_fs where
  "wit_fs1 = with_head wit_sha (wit_event ''e1'') ''root'' 0 (with_line wit_sha (wit_event ''e1'') ''root'' wit_fs)"

abbreviation wit_installed :: parsed_event where
  "wit_installed \<equiv> installed_event wit_sha (wit_event ''e1'') ''root''"

lemma wit_fs_same: "wit_fs\<lparr>io_outcomes := []\<rparr> = wit_fs"
  by (simp add: wit_fs_def)

lemma wit_ok1: "ledger_ok wit_sha wit_fs1 [wit_installed]"
  using with_head_ok [OF wit_ok [of wit_sha "[]"] wit_previous wit_valid [of "''e1''"]]
  by (simp add: wit_fs1_def wit_fs_same all_ascii_def)

lemma ledger_tamper_evident_witness:
  "(1 :: usize) = of_nat (length [wit_installed]) \<and> ([wit_installed] = [wit_installed]
   \<or> (\<exists>e. [wit_installed] = [wit_installed] @ [e]
      \<and> previous_event_hash e = Some (planned_event_hash wit_sha (wit_event ''e1'') ''root'')))"
proof (rule ledger_tamper_evident [OF wit_ok1])
  let ?h = "planned_event_hash wit_sha (wit_event ''e1'') ''root''"
  have "ledger_body wit_fs1 = Some (body_of wit_fs1)" "head_body wit_fs1 = Some (head_text 1 ?h)"
    by (simp_all add: wit_fs1_def with_head_def with_line_def)
  then have "wit_fs1\<lparr>ledger_body := Some (body_of wit_fs1), head_body := Some (head_text 1 ?h)\<rparr> = wit_fs1"
    by (cases wit_fs1) simp
  then show "read_runtime_events_unlocked wit_sha
      (wit_fs1\<lparr>ledger_body := Some (body_of wit_fs1), head_body := Some (head_text 1 ?h)\<rparr>) =
      (Inr [wit_installed], wit_fs1)"
    using read_ok [OF wit_ok1] by simp
  from wit_ok1 obtain lg pv
    where loop: "chain_loop wit_sha 0 [] [] None (str_lines (body_of wit_fs1)) = Inr ([wit_installed], lg, pv)"
    by (rule ledger_okE) blast
  moreover from chain_loop_invs(2) [OF loop] have "lg = []"
    by (simp add: legacy_inv_def legacy_part_def installed_event_def)
  ultimately show "inj_on wit_sha (set (hashed_texts wit_sha (body_of wit_fs1)) \<union>
      set (hashed_texts wit_sha (body_of wit_fs1)))"
    by (simp add: hashed_texts_def ledger_payloads_def chained_part_def installed_event_def)
qed (simp_all add: installed_event_def)

text \<open>
  A record whose line feed alone was lost is taken for complete: the next read accepts it and
  repairs the head, the next append reports success and writes its record on the same line, and
  from then on the ledger cannot be read.
\<close>

theorem torn_separator_breaks_ledger:
  assumes "ledger_ok sha fs evs" "ledger_previous_hash evs = Inr p"
    and "valid_event ev" "valid_event ev'" "Suc (length evs) < 2 ^ 64"
    and "io_outcomes fs = [Io_error (Suc (length (fst (canonical_event_line sha ev p))))]"
  shows "\<exists>fs2 fs3 e.
    read_runtime_events_unlocked sha (snd (append_chained_event sha ev fs)) =
      (Inr (evs @ [installed_event sha ev p]), fs2)
    \<and> append_chained_event sha ev' fs2 = (Inr (), fs3)
    \<and> fst (read_runtime_events_unlocked sha fs3) = Inl e"
proof -
  let ?line = "fst (canonical_event_line sha ev p)"
  have "0 < length ?line" using line_prefix_head [of sha ev p] by auto
  then have "snd (append_chained_event sha ev fs) = with_record sha ev p (no_faults fs)"
    using assms(6)
    by (simp add: append_unfold [OF ledger_ok_sync [OF assms(1)] assms(2)] sthen_def sbind_def
        append_line_def next_outcome_def Let_def with_record_def no_faults_def body_of_def)
  moreover have "ledger_ok sha (no_faults fs) evs" using assms(1) by simp
  ultimately show ?thesis
    using torn_separator_states [of sha "no_faults fs" evs p ev ev'] assms(2-5) by auto
qed

lemma torn_separator_breaks_ledger_witness:
  "\<exists>fs2 fs3 e.
    read_runtime_events_unlocked wit_sha (snd (append_chained_event wit_sha (wit_event ''e1'')
      (wit_fs\<lparr>io_outcomes := [Io_error (Suc (length (fst (canonical_event_line wit_sha (wit_event ''e1'') ''root''))))]\<rparr>))) =
      (Inr ([] @ [wit_installed]), fs2)
    \<and> append_chained_event wit_sha (wit_event ''e2'') fs2 = (Inr (), fs3)
    \<and> fst (read_runtime_events_unlocked wit_sha fs3) = Inl e"
  by (rule torn_separator_breaks_ledger [OF wit_ok wit_previous wit_valid wit_valid])
    (simp_all add: all_ascii_def)

section \<open>The writer\<close>

text \<open>
  C3 A planned transaction is resumable: when its plan has been written to the ledger up to any
  event, with the head of the last append missing or not, writing the whole plan again from the
  start acknowledges what is there, appends the rest and reports the ordinals and hashes planned.
\<close>

theorem planned_transaction_resumes:
  assumes "ledger_holds sha fs evs" "list_all valid_event events"
    and "plan_events sha events fs = (Inr plan, fs')"
    and "ledger_readable sha fs1 (evs @ map installed_of (take k plan))"
  shows "\<exists>fs2. append_all (append_runtime_planned sha) plan fs1 = (Inr (map receipt_of plan), fs2)
    \<and> ledger_readable sha fs2 (evs @ map installed_of plan) \<and> map pe_event plan = events"
  using ledger.append_all_resumes [OF assms(4)] plan_events_fits [OF assms(1-3)] by simp

abbreviation wit_plan :: "planned_event list" where
  "wit_plan \<equiv> [\<lparr>pe_event = wit_event ''e1'', pe_ordinal = 1, pe_previous_event_hash = ''root'',
     pe_event_hash = planned_event_hash wit_sha (wit_event ''e1'') ''root''\<rparr>]"

lemma wit_holds: "ledger_holds wit_sha wit_fs []"
  using wit_ok [of wit_sha "[]"] by (simp add: ledger_holds_def wit_fs_same) (simp add: wit_fs_def)

lemma wit_planned: "plan_events wit_sha [wit_event ''e1''] wit_fs = (Inr wit_plan, wit_fs)"
  by (simp add: plan_events_def sbind_def read_runtime_events_unlocked_def wit_fs_def u64_of_len_def
      ledger_previous_hash_def checked_add_def Let_def)

lemma wit_interrupted:
  "ledger_readable wit_sha (with_line wit_sha (wit_event ''e1'') ''root'' wit_fs)
    ([] @ map installed_of (take 1 wit_plan))"
proof -
  have "read_runtime_events_unlocked wit_sha (with_line wit_sha (wit_event ''e1'') ''root'' wit_fs) =
      (Inr [wit_installed], wit_fs1)"
    using read_repairs_head [of wit_sha wit_fs "[]" "''root''" "wit_event ''e1''"] wit_ok [of wit_sha "[]"]
    by (simp add: wit_fs_same wit_previous wit_valid all_ascii_def wit_fs1_def) (simp add: wit_fs_def)
  moreover have "ledger_holds wit_sha wit_fs1 [wit_installed]"
    using wit_ok1 by (simp add: ledger_holds_def wit_fs1_def with_head_def with_line_def) (simp add: wit_fs_def)
  ultimately show ?thesis
    by (simp add: ledger_readable_def installed_of_def installed_event_def)
qed

lemma planned_transaction_resumes_witness:
  "\<exists>fs2. append_all (append_runtime_planned wit_sha) wit_plan
      (with_line wit_sha (wit_event ''e1'') ''root'' wit_fs) = (Inr (map receipt_of wit_plan), fs2)
    \<and> ledger_readable wit_sha fs2 ([] @ map installed_of wit_plan)
    \<and> map pe_event wit_plan = [wit_event ''e1'']"
  by (rule planned_transaction_resumes [OF wit_holds _ wit_planned wit_interrupted])
    (simp add: wit_valid all_ascii_def)

end
