(* ===== verification/Transactions.thy ===== *)
theory Transactions
  imports Event_Sequence
begin

text \<open>
  \<open>application/transaction_coordinator\<close>: the order in which each workflow transaction calls its
  persistence port. A port is the record of its methods, effects on an arbitrary state, as the
  trait of \<open>contracts.rs\<close> has them; the executors are the functions of \<open>approval.rs\<close>,
  \<open>verification.rs\<close>, \<open>terminal_action.rs\<close> and \<open>state_transition.rs\<close>, a chain of \<open>?\<close>.
\<close>

datatype transaction_execution = Commit | Recovery

section \<open>Approval (approval.rs)\<close>

datatype approval_fault =
  T1 | T2 | T3BeforePointer | T3 | T4 | T5 | T6 | T7 | T8BeforePointer | T8 | T9 | T10

datatype approval_revision = First | Second

record 's approval_port =
  ap_fault :: "approval_fault \<Rightarrow> ('s, unit) effect"
  ap_append_event :: "nat \<Rightarrow> ('s, unit) effect"
  ap_install_snapshot :: "approval_revision \<Rightarrow> ('s, unit) effect"
  ap_install_pointer :: "approval_revision \<Rightarrow> ('s, unit) effect"
  ap_install_source :: "('s, unit) effect"
  ap_install_transcript :: "('s, unit) effect"
  ap_install_current :: "('s, unit) effect"
  ap_finish_events :: "('s, unit) effect"
  ap_converge :: "('s, unit) effect"
  ap_projection_repair_required :: "app_error \<Rightarrow> 's \<Rightarrow> app_error \<times> 's"
  ap_remove_projection_lag :: "('s, unit) effect"
  ap_validate_cleanup_authority :: "('s, unit) effect"
  ap_remove_journal :: "('s, unit) effect"

definition approval_fault_str :: "approval_fault \<Rightarrow> string" where
  "approval_fault_str p = (case p of
     T1 \<Rightarrow> ''T1'' | T2 \<Rightarrow> ''T2'' | T3BeforePointer \<Rightarrow> ''T3-before-pointer'' | T3 \<Rightarrow> ''T3''
   | T4 \<Rightarrow> ''T4'' | T5 \<Rightarrow> ''T5'' | T6 \<Rightarrow> ''T6'' | T7 \<Rightarrow> ''T7''
   | T8BeforePointer \<Rightarrow> ''T8-before-pointer'' | T8 \<Rightarrow> ''T8'' | T9 \<Rightarrow> ''T9'' | T10 \<Rightarrow> ''T10'')"

text \<open>\<open>if let Err(error) = port.converge() { return Err(port.projection_repair_required(error)) }\<close>\<close>

definition converge_or_repair :: "'s approval_port \<Rightarrow> ('s, unit) effect" where
  "converge_or_repair port s =
     (case ap_converge port s of
        (Inr u, s') \<Rightarrow> (Inr (), s')
      | (Inl e, s') \<Rightarrow> (case ap_projection_repair_required port e s' of (e', s'') \<Rightarrow> (Inl e', s'')))"

text \<open>\<open>for index in from..to { port.append_event(index)?; }\<close>\<close>

definition append_range :: "(nat \<Rightarrow> ('s, unit) effect) \<Rightarrow> nat \<Rightarrow> nat \<Rightarrow> ('s, unit) effect" where
  "append_range append_event from_index to_index = seq_all (map append_event [from_index..<to_index])"

definition execute_approval_transaction ::
  "'s approval_port \<Rightarrow> transaction_execution \<Rightarrow> ('s, unit) effect" where
  "execute_approval_transaction port execution =
     (let commit = (execution = Commit) in
      sthen (swhen commit (ap_fault port T1))
     (sthen (ap_append_event port 0)
     (sthen (swhen commit (ap_fault port T2))
     (sthen (ap_install_snapshot port First)
     (sthen (ap_append_event port 1)
     (sthen (swhen commit (ap_fault port T3BeforePointer))
     (sthen (ap_install_pointer port First)
     (sthen (swhen commit (ap_fault port T3))
     (sthen (append_range (ap_append_event port) 2 5)
     (sthen (swhen commit (ap_fault port T4))
     (sthen (ap_install_source port)
     (sthen (swhen commit (ap_fault port T5))
     (sthen (append_range (ap_append_event port) 5 8)
     (sthen (swhen commit (ap_fault port T6))
     (sthen (ap_install_transcript port)
     (sthen (ap_append_event port 8)
     (sthen (swhen commit (ap_fault port T7))
     (sthen (ap_install_snapshot port Second)
     (sthen (ap_append_event port 9)
     (sthen (swhen commit (ap_fault port T8BeforePointer))
     (sthen (ap_install_pointer port Second)
     (sthen (swhen commit (ap_fault port T8))
     (sthen (ap_install_current port)
     (sthen (swhen commit (ap_fault port T9))
     (sthen (ap_finish_events port)
     (sthen (converge_or_repair port)
     (sthen (swhen commit (ap_fault port T10))
     (sthen (ap_remove_projection_lag port)
     (sthen (ap_validate_cleanup_authority port)
            (swhen commit (ap_remove_journal port)))))))))))))))))))))))))))))))"

section \<open>Verification (verification.rs)\<close>

datatype verification_fault = V1 | V2 | V3BeforePointer | V3 | V4 | V5 | V6

record 's verification_port =
  vp_fault :: "verification_fault \<Rightarrow> ('s, unit) effect"
  vp_append_event :: "nat \<Rightarrow> ('s, unit) effect"
  vp_install_snapshot :: "('s, unit) effect"
  vp_install_pointer :: "('s, unit) effect"
  vp_install_current :: "('s, unit) effect"
  vp_finish_events :: "('s, unit) effect"
  vp_converge :: "('s, unit) effect"
  vp_remove_journal :: "('s, unit) effect"

definition verification_fault_str :: "verification_fault \<Rightarrow> string" where
  "verification_fault_str p = (case p of
     V1 \<Rightarrow> ''V1'' | V2 \<Rightarrow> ''V2'' | V3BeforePointer \<Rightarrow> ''V3-before-pointer'' | V3 \<Rightarrow> ''V3''
   | V4 \<Rightarrow> ''V4'' | V5 \<Rightarrow> ''V5'' | V6 \<Rightarrow> ''V6'')"

definition execute_verification_transaction ::
  "'s verification_port \<Rightarrow> transaction_execution \<Rightarrow> ('s, unit) effect" where
  "execute_verification_transaction port execution =
     (let commit = (execution = Commit) in
      sthen (swhen commit (vp_fault port V1))
     (sthen (vp_append_event port 0)
     (sthen (swhen commit (vp_fault port V2))
     (sthen (vp_install_snapshot port)
     (sthen (vp_append_event port 1)
     (sthen (swhen commit (vp_fault port V3BeforePointer))
     (sthen (vp_install_pointer port)
     (sthen (swhen commit (vp_fault port V3))
     (sthen (vp_append_event port 2)
     (sthen (swhen commit (vp_fault port V4))
     (sthen (vp_install_current port)
     (sthen (swhen commit (vp_fault port V5))
     (sthen (vp_finish_events port)
     (sthen (vp_converge port)
            (swhen commit (sthen (vp_fault port V6) (vp_remove_journal port)))))))))))))))))"

section \<open>Terminal action (terminal\_action.rs)\<close>

datatype terminal_fault =
  TfJournal | TfIntent | TfSource | TfSnapshot | TfPointer | TfLedger | TfCurrent | TfProjection

record 's terminal_port =
  tp_fault :: "terminal_fault \<Rightarrow> ('s, unit) effect"
  tp_append_event :: "nat \<Rightarrow> ('s, unit) effect"
  tp_install_source :: "('s, unit) effect"
  tp_install_snapshot :: "('s, unit) effect"
  tp_install_pointer :: "('s, unit) effect"
  tp_finish_events :: "('s, unit) effect"
  tp_install_current :: "('s, unit) effect"
  tp_converge :: "('s, unit) effect"
  tp_remove_journal :: "('s, unit) effect"

definition terminal_fault_str :: "terminal_fault \<Rightarrow> string" where
  "terminal_fault_str p = (case p of
     TfJournal \<Rightarrow> ''A1-after-journal'' | TfIntent \<Rightarrow> ''A2-after-intent''
   | TfSource \<Rightarrow> ''A3-after-source'' | TfSnapshot \<Rightarrow> ''A4-after-snapshot''
   | TfPointer \<Rightarrow> ''A5-after-pointer'' | TfLedger \<Rightarrow> ''A6-after-ledger''
   | TfCurrent \<Rightarrow> ''A7-after-current'' | TfProjection \<Rightarrow> ''A8-after-projection'')"

definition execute_terminal_action_transaction ::
  "'s terminal_port \<Rightarrow> transaction_execution \<Rightarrow> ('s, unit) effect" where
  "execute_terminal_action_transaction port execution =
     (let commit = (execution = Commit) in
      sthen (swhen commit (tp_fault port TfJournal))
     (sthen (tp_append_event port 0)
     (sthen (swhen commit (tp_fault port TfIntent))
     (sthen (tp_install_source port)
     (sthen (swhen commit (tp_fault port TfSource))
     (sthen (tp_install_snapshot port)
     (sthen (tp_append_event port 1)
     (sthen (swhen commit (tp_fault port TfSnapshot))
     (sthen (tp_install_pointer port)
     (sthen (swhen commit (tp_fault port TfPointer))
     (sthen (tp_append_event port 2)
     (sthen (tp_finish_events port)
     (sthen (swhen commit (tp_fault port TfLedger))
     (sthen (tp_install_current port)
     (sthen (swhen commit (tp_fault port TfCurrent))
     (sthen (tp_converge port)
            (swhen commit (sthen (tp_fault port TfProjection) (tp_remove_journal port)))))))))))))))))))"

section \<open>State transition and reconcile (state\_transition.rs)\<close>

datatype state_fault =
    SfJournal | SfCheckpointTransaction | SfCheckpointSnapshot | SfArtifacts | SfLedger
  | SfCheckpointLedger | SfCheckpointPointer | SfCurrent | SfProjection

record 's state_port =
  sp_fault :: "state_fault \<Rightarrow> ('s, unit) effect"
  sp_install_snapshot :: "('s, unit) effect"
  sp_append_event :: "('s, unit) effect"
  sp_install_pointer :: "('s, unit) effect"
  sp_finish_events :: "('s, unit) effect"
  sp_install_current :: "('s, unit) effect"
  sp_converge :: "('s, unit) effect"
  sp_remove_journal :: "('s, unit) effect"

definition execute_state_transition :: "'s state_port \<Rightarrow> bool \<Rightarrow> ('s, unit) effect" where
  "execute_state_transition port checkpoint =
      sthen (sp_fault port SfJournal)
     (sthen (swhen checkpoint (sp_fault port SfCheckpointTransaction))
     (sthen (sp_install_snapshot port)
     (sthen (swhen checkpoint (sp_fault port SfCheckpointSnapshot))
     (sthen (sp_fault port SfArtifacts)
     (sthen (sp_append_event port)
     (sthen (sp_fault port SfLedger)
     (sthen (swhen checkpoint (sp_fault port SfCheckpointLedger))
     (sthen (sp_install_pointer port)
     (sthen (swhen checkpoint (sp_fault port SfCheckpointPointer))
     (sthen (sp_finish_events port)
     (sthen (sp_install_current port)
     (sthen (sp_fault port SfCurrent)
     (sthen (sp_converge port)
     (sthen (sp_fault port SfProjection)
            (sp_remove_journal port)))))))))))))))"

record 's reconcile_port =
  rp_fault :: "state_fault \<Rightarrow> ('s, unit) effect"
  rp_install_backup :: "('s, unit) effect"
  rp_append_event :: "('s, unit) effect"
  rp_finish_events :: "('s, unit) effect"
  rp_install_current :: "('s, unit) effect"
  rp_converge :: "('s, unit) effect"
  rp_remove_journal :: "('s, unit) effect"

definition execute_reconcile_transaction :: "'s reconcile_port \<Rightarrow> ('s, unit) effect" where
  "execute_reconcile_transaction port =
      sthen (rp_fault port SfJournal)
     (sthen (rp_install_backup port)
     (sthen (rp_fault port SfArtifacts)
     (sthen (rp_append_event port)
     (sthen (rp_fault port SfLedger)
     (sthen (rp_finish_events port)
     (sthen (rp_install_current port)
     (sthen (rp_fault port SfCurrent)
     (sthen (rp_converge port)
     (sthen (rp_fault port SfProjection)
            (rp_remove_journal port))))))))))"

section \<open>Ranges of events\<close>

lemma append_range_three:
  "append_range f 2 5 = sthen (f 2) (sthen (f 3) (f 4))"
  "append_range f 5 8 = sthen (f 5) (sthen (f 6) (f 7))"
  by (simp_all add: append_range_def upt_rec)

end
