(* ===== verification/Effect_Hoare.thy ===== *)
theory Effect_Hoare
  imports Basics
begin

text \<open>
  Triples over stateful operations that may stop: from a state with \<open>P\<close>, a result \<open>x\<close> comes with a
  state of \<open>Q x\<close>, and an error with a state of \<open>E\<close>. The error condition is the state a stopped
  program leaves behind.
\<close>

definition hoare :: "('s \<Rightarrow> bool) \<Rightarrow> ('s, 'a) effect \<Rightarrow> ('a \<Rightarrow> 's \<Rightarrow> bool) \<Rightarrow> ('s \<Rightarrow> bool) \<Rightarrow> bool" where
  "hoare P m Q E \<longleftrightarrow>
     (\<forall>s. P s \<longrightarrow> (case m s of (Inr x, s') \<Rightarrow> Q x s' | (Inl _, s') \<Rightarrow> E s'))"

lemma hoareI: "(\<And>s. P s \<Longrightarrow> case m s of (Inr x, s') \<Rightarrow> Q x s' | (Inl _, s') \<Rightarrow> E s') \<Longrightarrow> hoare P m Q E"
  by (simp add: hoare_def)

lemma hoareD:
  assumes "hoare P m Q E" "P s"
  shows "m s = (Inr x, s') \<Longrightarrow> Q x s'" "m s = (Inl e, s') \<Longrightarrow> E s'"
  using assms(1) [unfolded hoare_def, rule_format, OF assms(2)] by simp_all

text \<open>What a triple says of one run.\<close>

lemma hoare_snd: "hoare P m Q E \<Longrightarrow> (\<And>x s. Q x s \<Longrightarrow> I s) \<Longrightarrow> (\<And>s. E s \<Longrightarrow> I s) \<Longrightarrow> P s \<Longrightarrow> I (snd (m s))"
  unfolding hoare_def by (drule spec [where x = s]) (auto split: prod.splits sum.splits)

lemma hoare_stops: "hoare P m (\<lambda>_ _. False) E \<Longrightarrow> P s \<Longrightarrow> \<exists>e s'. m s = (Inl e, s') \<and> E s'"
  unfolding hoare_def by (drule spec [where x = s]) (auto split: prod.splits sum.splits)

lemma hoare_returns: "hoare P m Q (\<lambda>_. False) \<Longrightarrow> P s \<Longrightarrow> \<exists>x s'. m s = (Inr x, s') \<and> Q x s'"
  unfolding hoare_def by (drule spec [where x = s]) (auto split: prod.splits sum.splits)

lemma hoare_pre: "hoare P m Q E \<Longrightarrow> (\<And>s. P' s \<Longrightarrow> P s) \<Longrightarrow> hoare P' m Q E"
  by (simp add: hoare_def)

lemma hoare_post:
  "hoare P m Q E \<Longrightarrow> (\<And>x s. Q x s \<Longrightarrow> Q' x s) \<Longrightarrow> (\<And>s. E s \<Longrightarrow> E' s) \<Longrightarrow> hoare P m Q' E'"
  by (fastforce simp: hoare_def split: prod.splits sum.splits)

lemma hoare_return: "hoare (Q x) (sreturn x) Q E"
  by (simp add: hoare_def sreturn_def)

lemma hoare_throw: "hoare E (sthrow e) Q E"
  by (simp add: hoare_def sthrow_def)

lemma hoare_bind:
  "hoare P m R E \<Longrightarrow> (\<And>x. hoare (R x) (f x) Q E) \<Longrightarrow> hoare P (sbind m f) Q E"
  by (fastforce simp: hoare_def sbind_def split: prod.splits sum.splits)

lemma hoare_then: "hoare P m (\<lambda>_. R) E \<Longrightarrow> hoare R k Q E \<Longrightarrow> hoare P (sthen m k) Q E"
  unfolding sthen_def by (rule hoare_bind)

lemma hoare_when:
  "(b \<Longrightarrow> hoare P m (\<lambda>_. R) E) \<Longrightarrow> (\<And>s. \<not> b \<Longrightarrow> P s \<Longrightarrow> R s) \<Longrightarrow> hoare P (swhen b m) (\<lambda>_. R) E"
  by (cases b) (auto simp: hoare_def sreturn_def)

lemma hoare_if: "(b \<Longrightarrow> hoare P m Q E) \<Longrightarrow> (\<not> b \<Longrightarrow> hoare P n Q E) \<Longrightarrow> hoare P (if b then m else n) Q E"
  by simp

text \<open>A choice that looks at the state.\<close>

lemma hoare_state_if:
  "hoare (\<lambda>s. P s \<and> b s) m Q E \<Longrightarrow> hoare (\<lambda>s. P s \<and> \<not> b s) n Q E \<Longrightarrow>
   hoare P (\<lambda>s. (if b s then m else n) s) Q E"
  by (simp add: hoare_def)

lemma hoare_conj: "hoare P m Q E \<Longrightarrow> hoare P m Q' E' \<Longrightarrow> hoare P m (\<lambda>x s. Q x s \<and> Q' x s) (\<lambda>s. E s \<and> E' s)"
  by (fastforce simp: hoare_def split: prod.splits sum.splits)

text \<open>A frame that every step keeps.\<close>

lemma hoare_frame:
  "hoare P m Q E \<Longrightarrow> hoare S m (\<lambda>_. S) S \<Longrightarrow> hoare (\<lambda>s. P s \<and> S s) m (\<lambda>x s. Q x s \<and> S s) (\<lambda>s. E s \<and> S s)"
  by (fastforce simp: hoare_def split: prod.splits sum.splits)

lemma hoare_false: "hoare (\<lambda>_. False) m Q E"
  by (simp add: hoare_def)

lemma hoare_fact: "(b \<Longrightarrow> hoare P m Q E) \<Longrightarrow> hoare (\<lambda>s. b \<and> P s) m Q E"
  by (cases b) (auto simp: hoare_def)

end
