(* ===== verification/Transaction_Properties.thy ===== *)
theory Transaction_Properties
  imports Transactions Ledger_Properties Effect_Hoare
begin

text \<open>
  The transaction executors over the event sink of the ledger: whichever of their other calls
  fails, the ledger holds a prefix of the planned events, which a later run goes on from, and a
  run that returns leaves all of them.
\<close>

section \<open>The event sink\<close>

definition sink_append :: "hasher \<Rightarrow> planned_event list \<Rightarrow> nat \<Rightarrow> (event_sink, unit) effect" where
  "sink_append sha plan i =
     sbind (append_planned_under_guard sha (of_nat i) (pe_event (plan ! i))) (\<lambda>_. sreturn ())"

lemma fits_all_nth:
  "ledger.fits_all sha es plan \<Longrightarrow> k < length plan \<Longrightarrow>
     planned_fits sha (es @ map installed_of (take k plan)) (plan ! k)"
proof -
  assume "ledger.fits_all sha es plan" "k < length plan"
  then have "ledger.fits_all sha es (take k plan @ plan ! k # drop (Suc k) plan)"
    using id_take_nth_drop [of k plan] by metis
  then show ?thesis by (simp add: ledger.fits_all_append)
qed

lemma sink_append_step:
  assumes "ledger.fits_all sha es plan" "length plan < 2 ^ 64" "k < length plan" "k \<le> m" "m \<le> length plan"
    and "ledger_readable sha fs (es @ map installed_of (take m plan))"
  shows "\<exists>fs'. sink_append sha plan k
      \<lparr>es_ledger = fs, es_coordinator = \<lparr>tc_planned = plan, tc_next_index = of_nat k\<rparr>\<rparr> =
        (Inr (), \<lparr>es_ledger = fs', es_coordinator = \<lparr>tc_planned = plan, tc_next_index = of_nat (Suc k)\<rparr>\<rparr>)
    \<and> ledger_readable sha fs' (es @ map installed_of (take (max m (Suc k)) plan))"
proof -
  have fits: "planned_fits sha (es @ map installed_of (take k plan)) (plan ! k)"
    by (rule fits_all_nth [OF assms(1,3)])
  have "\<exists>fs'. append_runtime_planned sha (plan ! k) fs = (Inr (receipt_of (plan ! k)), fs') \<and>
      ledger_readable sha fs' (es @ map installed_of (take (max m (Suc k)) plan))"
  proof (cases "k = m")
    case True
    from ledger.append_new [OF assms(6), of "plan ! k"] fits True assms(3)
    show ?thesis by (simp add: take_Suc_conv_app_nth)
  next
    case False
    let ?es = "es @ map installed_of (take m plan)"
    have "length es + k < length ?es" "?es ! (length es + k) = installed_of (plan ! k)"
      "take (length es + k) ?es = es @ map installed_of (take k plan)"
      using False assms(3,4,5) by (simp_all add: nth_append take_map)
    with ledger.append_again [OF assms(6), of "length es + k" "plan ! k"] fits
    have "\<exists>fs'. append_runtime_planned sha (plan ! k) fs = (Inr (receipt_of (plan ! k)), fs') \<and>
        ledger_readable sha fs' ?es" by simp
    moreover have "max m (Suc k) = m" using False assms(4) by simp
    ultimately show ?thesis by simp
  qed
  then obtain fs' where fs': "append_runtime_planned sha (plan ! k) fs = (Inr (receipt_of (plan ! k)), fs')"
    "ledger_readable sha fs' (es @ map installed_of (take (max m (Suc k)) plan))" by blast
  have k: "unat (of_nat k :: usize) = k" using assms(2,3) by (intro unat_of_nat_small) simp
  have "checked_add (of_nat k :: usize) 1 = Some (of_nat (Suc k))"
    by (rule checked_successor) (use assms(2,3) in simp)
  with k fs' assms(3) show ?thesis
    by (simp add: sink_append_def append_planned_under_guard_def validate_next_def record_appended_def
        sbind_def sreturn_def Let_def)
qed

text \<open>What a call of the executor leaves of the sink, and of the ledger under it.\<close>

type_synonym 'r sinked = "event_sink \<times> 'r"

definition on_sink :: "(event_sink, 'a) effect \<Rightarrow> ('r sinked, 'a) effect" where
  "on_sink run s = (let (r, sink) = run (fst s) in (r, (sink, snd s)))"

definition finish_sink :: "(event_sink, unit) effect" where
  "finish_sink sink = (sink_finish sink, sink)"

definition keeps_sink :: "('r sinked, 'a) effect \<Rightarrow> bool" where
  "keeps_sink m \<longleftrightarrow> (\<forall>s. fst (snd (m s)) = fst s)"

definition succeeds :: "('s, 'a) effect \<Rightarrow> bool" where
  "succeeds m \<longleftrightarrow> (\<forall>s. is_ok (fst (m s)))"

definition sink_at ::
  "hasher \<Rightarrow> parsed_event list \<Rightarrow> planned_event list \<Rightarrow> nat \<Rightarrow> nat \<Rightarrow> 'r sinked \<Rightarrow> bool" where
  "sink_at sha es plan m i s \<longleftrightarrow>
     es_coordinator (fst s) = \<lparr>tc_planned = plan, tc_next_index = of_nat i\<rparr>
     \<and> ledger_readable sha (es_ledger (fst s)) (es @ map installed_of (take (max m i) plan))"

definition sink_stopped ::
  "hasher \<Rightarrow> parsed_event list \<Rightarrow> planned_event list \<Rightarrow> nat \<Rightarrow> 'r sinked \<Rightarrow> bool" where
  "sink_stopped sha es plan m s \<longleftrightarrow>
     (\<exists>k. m \<le> k \<and> k \<le> length plan \<and> ledger_readable sha (es_ledger (fst s)) (es @ map installed_of (take k plan)))"

lemma sink_at_stopped: "sink_at sha es plan m i s \<Longrightarrow> i \<le> length plan \<Longrightarrow> m \<le> length plan \<Longrightarrow> sink_stopped sha es plan m s"
  by (auto simp: sink_at_def sink_stopped_def intro!: exI [of _ "max m i"])

lemma hoare_append:
  assumes "ledger.fits_all sha es plan" "length plan < 2 ^ 64" "i < length plan" "m \<le> length plan"
  shows "hoare (sink_at sha es plan m i) (on_sink (sink_append sha plan i)) (\<lambda>_. sink_at sha es plan m (Suc i)) E"
proof (rule hoareI)
  fix s :: "'a sinked"
  assume s: "sink_at sha es plan m i s"
  then have sink: "fst s = \<lparr>es_ledger = es_ledger (fst s), es_coordinator = \<lparr>tc_planned = plan, tc_next_index = of_nat i\<rparr>\<rparr>"
    by (cases "fst s") (simp add: sink_at_def)
  from s have "ledger_readable sha (es_ledger (fst s)) (es @ map installed_of (take (max m i) plan))"
    by (simp add: sink_at_def)
  from sink_append_step [OF assms(1-3) _ _ this] assms(3,4) obtain fs' where
    "sink_append sha plan i (fst s) =
        (Inr (), \<lparr>es_ledger = fs', es_coordinator = \<lparr>tc_planned = plan, tc_next_index = of_nat (Suc i)\<rparr>\<rparr>)"
    "ledger_readable sha fs' (es @ map installed_of (take (max (max m i) (Suc i)) plan))"
    by (metis sink max.bounded_iff max.cobounded2 less_imp_le_nat)
  moreover have "max (max m i) (Suc i) = max m (Suc i)" by simp
  ultimately show "case on_sink (sink_append sha plan i) s of (Inr x, s') \<Rightarrow> sink_at sha es plan m (Suc i) s' | (Inl _, s') \<Rightarrow> E s'"
    by (simp add: on_sink_def sink_at_def del: of_nat_Suc)
qed

lemma hoare_finish:
  assumes "length plan < 2 ^ 64"
  shows "hoare (sink_at sha es plan m (length plan)) (on_sink finish_sink) (\<lambda>_. sink_at sha es plan m (length plan)) E"
  using assms
  by (auto simp: hoare_def on_sink_def finish_sink_def sink_finish_def coordinator_finish_def sink_at_def unat_of_nat_small)

lemma hoare_kept:
  assumes "keeps_sink m" "i \<le> length plan" "k \<le> length plan"
  shows "hoare (sink_at sha es plan k i) m (\<lambda>_. sink_at sha es plan k i) (sink_stopped sha es plan k)"
proof (rule hoareI)
  fix s :: "event_sink \<times> 'a"
  assume s: "sink_at sha es plan k i s"
  obtain r s' where run: "m s = (r, s')" by (cases "m s") blast
  have "fst s' = fst s" using assms(1) run by (metis keeps_sink_def snd_conv)
  with s have "sink_at sha es plan k i s'" by (simp add: sink_at_def)
  with sink_at_stopped [OF this assms(2,3)] run
  show "case m s of (Inr x, s') \<Rightarrow> sink_at sha es plan k i s' | (Inl _, s') \<Rightarrow> sink_stopped sha es plan k s'"
    by (simp split: sum.split)
qed

lemma hoare_kept_ok:
  assumes "keeps_sink m" "succeeds m"
  shows "hoare (sink_at sha es plan k i) m (\<lambda>_. sink_at sha es plan k i) (\<lambda>_. False)"
proof (rule hoareI)
  fix s :: "event_sink \<times> 'a"
  assume s: "sink_at sha es plan k i s"
  obtain r s' where run: "m s = (r, s')" by (cases "m s") blast
  have "fst s' = fst s" "is_ok r" using assms run by (metis keeps_sink_def snd_conv, metis succeeds_def fst_conv)
  with s run show "case m s of (Inr x, s') \<Rightarrow> sink_at sha es plan k i s' | (Inl _, s') \<Rightarrow> False"
    by (auto simp: sink_at_def is_ok_def split: sum.split)
qed

section \<open>Approval\<close>

text \<open>The calls of the port besides the events.\<close>

definition approval_calls :: "'s approval_port \<Rightarrow> ('s, unit) effect set" where
  "approval_calls port = range (ap_fault port) \<union> range (ap_install_snapshot port) \<union> range (ap_install_pointer port)
     \<union> {ap_install_source port, ap_install_transcript port, ap_install_current port, converge_or_repair port,
        ap_remove_projection_lag port, ap_validate_cleanup_authority port, ap_remove_journal port}"

text \<open>The port appends to the sink and finishes it; its other calls leave the sink alone.\<close>

definition approval_over_sink :: "hasher \<Rightarrow> planned_event list \<Rightarrow> 'r sinked approval_port \<Rightarrow> bool" where
  "approval_over_sink sha plan port \<longleftrightarrow> (\<forall>i. ap_append_event port i = on_sink (sink_append sha plan i))
     \<and> ap_finish_events port = on_sink finish_sink \<and> (\<forall>m\<in>approval_calls port. keeps_sink m)"

lemma hoare_approval:
  assumes fits: "ledger.fits_all sha es plan" and plan: "length plan = 10" "m \<le> 10"
    and port: "approval_over_sink sha plan port"
    and others: "\<And>c i. c \<in> approval_calls port \<Longrightarrow> i \<le> 10 \<Longrightarrow>
      hoare (sink_at sha es plan m i) c (\<lambda>_. sink_at sha es plan m i) E"
  shows "hoare (sink_at sha es plan m 0) (execute_approval_transaction port execution) (\<lambda>_. sink_at sha es plan m 10) E"
proof -
  have app: "hoare (sink_at sha es plan m k) (ap_append_event port i) (\<lambda>_. sink_at sha es plan m (i + 1)) E"
    if "k = i" "i < 10" for i k
    using port hoare_append [OF fits, of i m E] that plan by (simp add: approval_over_sink_def)
  have fin: "hoare (sink_at sha es plan m k) (ap_finish_events port) (\<lambda>_. sink_at sha es plan m 10) E" if "k = 10" for k
    using port hoare_finish [of plan sha es m E] plan that by (simp add: approval_over_sink_def)
  have under: "hoare (sink_at sha es plan m k) (swhen b c) (\<lambda>_. sink_at sha es plan m k) E"
    if "c \<in> approval_calls port" "k \<le> 10" for b c k
    by (rule hoare_when) (use others [OF that] in simp_all)
  show ?thesis
    unfolding execute_approval_transaction_def append_range_three sthen_assoc Let_def
    by (rule hoare_then | (rule app, simp, simp) | (rule fin, simp)
        | (rule under, simp add: approval_calls_def, simp) | (rule others, simp add: approval_calls_def, simp))+
qed

text \<open>
  C20 The events of an approval are written once and in order, wherever the approval stops. Take the plan of
  its ten events, a ledger that holds any prefix of the plan, and a port whose event calls are those of a fresh
  sink and whose other calls (installing the source, snapshots, pointers, current state, transcript, converging,
  cleaning up, the fault points) may do anything else, and fail. After a run of the executor, to commit or to
  recover, in which no write of the ledger itself fails, the ledger holds a prefix of the plan that is no
  shorter, and all of it when the run returned; and when no other call fails, the run returns.
\<close>

theorem approval_events_once:
  assumes "ledger_holds sha fs0 es" "list_all valid_event events" "length events = 10"
    and "plan_events sha events fs0 = (Inr plan, fs0')" "m \<le> 10"
    and "ledger_readable sha fs (es @ map installed_of (take m plan))"
    and "approval_over_sink sha plan port"
    and "execute_approval_transaction port execution (\<lparr>es_ledger = fs, es_coordinator = coordinator_new plan\<rparr>, s) = (r, (sink, s'))"
  shows "(\<exists>k. m \<le> k \<and> k \<le> 10 \<and> ledger_readable sha (es_ledger sink) (es @ map installed_of (take k plan))
        \<and> (r = Inr () \<longrightarrow> k = 10))
    \<and> ((\<forall>c\<in>approval_calls port. succeeds c) \<longrightarrow> r = Inr ())"
proof -
  from plan_events_fits [OF assms(1,2,4)] assms(3) have fits: "ledger.fits_all sha es plan" and plan: "length plan = 10"
    by (auto dest: arg_cong [where f = length])
  have start: "sink_at sha es plan m 0 (\<lparr>es_ledger = fs, es_coordinator = coordinator_new plan\<rparr>, s)"
    using assms(6) by (simp add: sink_at_def coordinator_new_def)
  have keeps: "keeps_sink c" if "c \<in> approval_calls port" for c
    using assms(7) that by (simp add: approval_over_sink_def)
  have stopped: "hoare (sink_at sha es plan m 0) (execute_approval_transaction port execution)
      (\<lambda>_. sink_at sha es plan m 10) (sink_stopped sha es plan m)"
    by (rule hoare_approval [OF fits plan assms(5,7)]) (rule hoare_kept [OF keeps], simp_all add: plan assms(5))
  have one: "\<exists>k. m \<le> k \<and> k \<le> 10 \<and> ledger_readable sha (es_ledger sink) (es @ map installed_of (take k plan))
        \<and> (r = Inr () \<longrightarrow> k = 10)"
    using hoareD [OF stopped start] assms(5,8) plan
    by (cases r) (auto simp: sink_at_def sink_stopped_def max_def intro!: exI [of _ "10 :: nat"] split: if_splits)
  moreover have "r = Inr ()" if "\<forall>c\<in>approval_calls port. succeeds c"
  proof -
    have "hoare (sink_at sha es plan m 0) (execute_approval_transaction port execution) (\<lambda>_. sink_at sha es plan m 10) (\<lambda>_. False)"
      by (rule hoare_approval [OF fits plan assms(5,7)]) (rule hoare_kept_ok [OF keeps], use that in simp_all)
    from hoare_returns [OF this start] assms(8) show ?thesis by auto
  qed
  ultimately show ?thesis by blast
qed

text \<open>A plan exists for fresh, distinct events on an empty ledger.\<close>

lemma plan_loop_fresh:
  "distinct (map event_id events) \<Longrightarrow> set (map event_id events) \<inter> set seen = {} \<Longrightarrow>
     Suc (index + length events) < 2 ^ 64 \<Longrightarrow> \<exists>plan. plan_loop sha [] 0 index seen previous events = Inr plan"
proof (induction events arbitrary: index seen previous)
  case (Cons e events)
  let ?hash = "planned_event_hash sha e previous"
  have "u64_of_len (index + 1) = Some (of_nat (index + 1))" "checked_add (0 :: u64) (of_nat (index + 1)) = Some (of_nat (index + 1))"
    using Cons.prems(3) by (simp_all add: u64_of_len_def checked_add_def unat_of_nat_small del: of_nat_Suc)
  moreover obtain plan where "plan_loop sha [] 0 (index + 1) (event_id e # seen) ?hash events = Inr plan"
    using Cons.IH [of "event_id e # seen" "index + 1" ?hash] Cons.prems by auto
  ultimately show ?case using Cons.prems(2) by (simp add: Let_def del: of_nat_Suc)
qed simp

lemma plan_events_fresh:
  assumes "distinct (map event_id events)" "Suc (length events) < 2 ^ 64"
  obtains plan where "plan_events wit_sha events wit_fs = (Inr plan, wit_fs)"
proof -
  from plan_loop_fresh [OF assms(1), of "[]" 0 wit_sha "''root''"] assms(2) obtain plan where
    "plan_loop wit_sha [] 0 0 [] ''root'' events = Inr plan" by auto
  then have "plan_events wit_sha events wit_fs = (Inr plan, wit_fs)"
    by (simp add: plan_events_def sbind_def read_runtime_events_unlocked_def wit_fs_def u64_of_len_def ledger_previous_hash_def)
  then show thesis by (rule that)
qed

definition wit_ten :: "ledger_event list" where
  "wit_ten = map wit_event [''e0'', ''e1'', ''e2'', ''e3'', ''e4'', ''e5'', ''e6'', ''e7'', ''e8'', ''e9'']"

lemma wit_ten_facts: "list_all valid_event wit_ten" "length wit_ten = 10" "distinct (map event_id wit_ten)"
proof -
  have "event_id (wit_event i) = i" for i by (simp add: wit_event_def)
  then show "distinct (map event_id wit_ten)" by (simp add: wit_ten_def)
  have "all_ascii [c, d]" if "byte c < 128" "byte d < 128" for c d using that by (simp add: all_ascii_def)
  then show "list_all valid_event wit_ten" by (simp add: wit_ten_def wit_valid)
qed (simp add: wit_ten_def)

text \<open>A port over the sink whose source installation fails when \<open>bad\<close>.\<close>

definition wit_approval_port :: "planned_event list \<Rightarrow> bool \<Rightarrow> nat sinked approval_port" where
  "wit_approval_port plan bad =
     \<lparr>ap_fault = \<lambda>_. sreturn (), ap_append_event = \<lambda>i. on_sink (sink_append wit_sha plan i),
      ap_install_snapshot = \<lambda>_. sreturn (), ap_install_pointer = \<lambda>_. sreturn (),
      ap_install_source = (if bad then sthrow (blocked_error ''fault'' []) else sreturn ()),
      ap_install_transcript = sreturn (), ap_install_current = sreturn (),
      ap_finish_events = on_sink finish_sink, ap_converge = sreturn (),
      ap_projection_repair_required = \<lambda>e s. (e, s), ap_remove_projection_lag = sreturn (),
      ap_validate_cleanup_authority = sreturn (), ap_remove_journal = sreturn ()\<rparr>"

lemma wit_approval_calls:
  "c \<in> approval_calls (wit_approval_port plan bad) \<Longrightarrow> keeps_sink c \<and> (\<not> bad \<longrightarrow> succeeds c)"
  by (auto simp: approval_calls_def wit_approval_port_def converge_or_repair_def [abs_def] keeps_sink_def succeeds_def
      sreturn_def sthrow_def)

lemma wit_approval_over_sink: "approval_over_sink wit_sha plan (wit_approval_port plan bad)"
  using wit_approval_calls by (simp add: approval_over_sink_def) (simp add: wit_approval_port_def)

lemma approval_events_once_witness:
  "\<exists>plan r sink n. plan_events wit_sha wit_ten wit_fs = (Inr plan, wit_fs)
   \<and> execute_approval_transaction (wit_approval_port plan False) Recovery
       (\<lparr>es_ledger = wit_fs, es_coordinator = coordinator_new plan\<rparr>, 0) = (r, (sink, n))
   \<and> r = Inr () \<and> ledger_readable wit_sha (es_ledger sink) (map installed_of plan)"
proof -
  obtain plan where plan: "plan_events wit_sha wit_ten wit_fs = (Inr plan, wit_fs)"
    using plan_events_fresh [OF wit_ten_facts(3)] wit_ten_facts(2) by auto
  obtain r sink n where run: "execute_approval_transaction (wit_approval_port plan False) Recovery
       (\<lparr>es_ledger = wit_fs, es_coordinator = coordinator_new plan\<rparr>, 0) = (r, (sink, n))"
    by (metis surj_pair)
  have start: "ledger_readable wit_sha wit_fs ([] @ map installed_of (take 0 plan))" using wit_holds holds_readable by simp
  have len: "length plan = 10"
    using plan_events_fits [OF wit_holds wit_ten_facts(1) plan] wit_ten_facts(2) by (auto dest: arg_cong [where f = length])
  note one = approval_events_once [OF wit_holds wit_ten_facts(1,2) plan _ start wit_approval_over_sink run, OF zero_le]
  have ok: "r = Inr ()" using conjunct2 [OF one] wit_approval_calls by blast
  with conjunct1 [OF one] obtain k where "k = 10" "ledger_readable wit_sha (es_ledger sink) ([] @ map installed_of (take k plan))" by blast
  with len have "ledger_readable wit_sha (es_ledger sink) (map installed_of plan)" by simp
  with plan run ok show ?thesis by blast
qed

section \<open>An approved verification and a terminal action\<close>

definition verification_calls :: "'s verification_port \<Rightarrow> ('s, unit) effect set" where
  "verification_calls port = range (vp_fault port) \<union> {vp_install_snapshot port, vp_install_pointer port,
     vp_install_current port, vp_converge port, vp_remove_journal port}"

definition verification_over_sink :: "hasher \<Rightarrow> planned_event list \<Rightarrow> 'r sinked verification_port \<Rightarrow> bool" where
  "verification_over_sink sha plan port \<longleftrightarrow> (\<forall>i. vp_append_event port i = on_sink (sink_append sha plan i))
     \<and> vp_finish_events port = on_sink finish_sink \<and> (\<forall>m\<in>verification_calls port. keeps_sink m)"

definition terminal_calls :: "'s terminal_port \<Rightarrow> ('s, unit) effect set" where
  "terminal_calls port = range (tp_fault port) \<union> {tp_install_source port, tp_install_snapshot port,
     tp_install_pointer port, tp_install_current port, tp_converge port, tp_remove_journal port}"

definition terminal_over_sink :: "hasher \<Rightarrow> planned_event list \<Rightarrow> 'r sinked terminal_port \<Rightarrow> bool" where
  "terminal_over_sink sha plan port \<longleftrightarrow> (\<forall>i. tp_append_event port i = on_sink (sink_append sha plan i))
     \<and> tp_finish_events port = on_sink finish_sink \<and> (\<forall>m\<in>terminal_calls port. keeps_sink m)"

lemma hoare_three:
  assumes fits: "ledger.fits_all sha es plan" and plan: "length plan = 3" "m \<le> 3"
  shows "verification_over_sink sha plan vp \<Longrightarrow>
      (\<And>c i. c \<in> verification_calls vp \<Longrightarrow> i \<le> 3 \<Longrightarrow> hoare (sink_at sha es plan m i) c (\<lambda>_. sink_at sha es plan m i) E) \<Longrightarrow>
      hoare (sink_at sha es plan m 0) (execute_verification_transaction vp execution) (\<lambda>_. sink_at sha es plan m 3) E"
    and "terminal_over_sink sha plan tp \<Longrightarrow>
      (\<And>c i. c \<in> terminal_calls tp \<Longrightarrow> i \<le> 3 \<Longrightarrow> hoare (sink_at sha es plan m i) c (\<lambda>_. sink_at sha es plan m i) E) \<Longrightarrow>
      hoare (sink_at sha es plan m 0) (execute_terminal_action_transaction tp execution) (\<lambda>_. sink_at sha es plan m 3) E"
proof -
  have app: "hoare (sink_at sha es plan m k) (on_sink (sink_append sha plan i)) (\<lambda>_. sink_at sha es plan m (i + 1)) E"
    if "k = i" "i < 3" for i k
    using hoare_append [OF fits, of i m E] that plan by simp
  have fin: "hoare (sink_at sha es plan m k) (on_sink finish_sink) (\<lambda>_. sink_at sha es plan m 3) E" if "k = 3" for k
    using hoare_finish [of plan sha es m E] plan that by simp
  note steps = app fin
  show "hoare (sink_at sha es plan m 0) (execute_verification_transaction vp execution) (\<lambda>_. sink_at sha es plan m 3) E"
    if vp: "verification_over_sink sha plan vp"
      and others: "\<And>c i. c \<in> verification_calls vp \<Longrightarrow> i \<le> 3 \<Longrightarrow> hoare (sink_at sha es plan m i) c (\<lambda>_. sink_at sha es plan m i) E"
  proof -
    have calls: "vp_append_event vp i = on_sink (sink_append sha plan i)" "vp_finish_events vp = on_sink finish_sink" for i
      using vp by (simp_all add: verification_over_sink_def)
    have under: "hoare (sink_at sha es plan m k) (swhen b c) (\<lambda>_. sink_at sha es plan m k) E"
      if "c \<in> verification_calls vp" "k \<le> 3" for b c k
      by (rule hoare_when) (use others [OF that] in simp_all)
    have two: "hoare (sink_at sha es plan m k) (swhen b (sthen c c')) (\<lambda>_. sink_at sha es plan m k) E"
      if "c \<in> verification_calls vp" "c' \<in> verification_calls vp" "k \<le> 3" for b c c' k
      by (rule hoare_when) (use hoare_then [OF others [OF that(1,3)] others [OF that(2,3)]] in simp_all)
    show ?thesis
      unfolding execute_verification_transaction_def sthen_assoc Let_def calls
      by (rule hoare_then | (rule app, simp, simp) | (rule fin, simp)
          | (rule two, simp add: verification_calls_def, simp add: verification_calls_def, simp)
          | (rule under, simp add: verification_calls_def, simp) | (rule others, simp add: verification_calls_def, simp))+
  qed
  show "hoare (sink_at sha es plan m 0) (execute_terminal_action_transaction tp execution) (\<lambda>_. sink_at sha es plan m 3) E"
    if tp: "terminal_over_sink sha plan tp"
      and others: "\<And>c i. c \<in> terminal_calls tp \<Longrightarrow> i \<le> 3 \<Longrightarrow> hoare (sink_at sha es plan m i) c (\<lambda>_. sink_at sha es plan m i) E"
  proof -
    have calls: "tp_append_event tp i = on_sink (sink_append sha plan i)" "tp_finish_events tp = on_sink finish_sink" for i
      using tp by (simp_all add: terminal_over_sink_def)
    have under: "hoare (sink_at sha es plan m k) (swhen b c) (\<lambda>_. sink_at sha es plan m k) E"
      if "c \<in> terminal_calls tp" "k \<le> 3" for b c k
      by (rule hoare_when) (use others [OF that] in simp_all)
    have two: "hoare (sink_at sha es plan m k) (swhen b (sthen c c')) (\<lambda>_. sink_at sha es plan m k) E"
      if "c \<in> terminal_calls tp" "c' \<in> terminal_calls tp" "k \<le> 3" for b c c' k
      by (rule hoare_when) (use hoare_then [OF others [OF that(1,3)] others [OF that(2,3)]] in simp_all)
    show ?thesis
      unfolding execute_terminal_action_transaction_def sthen_assoc Let_def calls
      by (rule hoare_then | (rule app, simp, simp) | (rule fin, simp)
          | (rule two, simp add: terminal_calls_def, simp add: terminal_calls_def, simp)
          | (rule under, simp add: terminal_calls_def, simp) | (rule others, simp add: terminal_calls_def, simp))+
  qed
qed

text \<open>
  C21 The three events of an approved verification, and those of a terminal action, are written once and in
  order, wherever the transaction stops: as for an approval, with any other calls of the port, which leave the
  sink alone, a run of either executor over a ledger that holds a prefix of its plan, whose own writes do not
  fail, leaves a prefix that is no shorter, and the whole plan when it returned; it returns when no other call
  fails.
\<close>

theorem three_events_once:
  assumes "ledger_holds sha fs0 es" "list_all valid_event events" "length events = 3"
    and "plan_events sha events fs0 = (Inr plan, fs0')" "m \<le> 3"
    and "ledger_readable sha fs (es @ map installed_of (take m plan))"
    and "verification_over_sink sha plan vp \<and> run = execute_verification_transaction vp execution
        \<and> calls = verification_calls vp
      \<or> terminal_over_sink sha plan tp \<and> run = execute_terminal_action_transaction tp execution
        \<and> calls = terminal_calls tp"
    and "run (\<lparr>es_ledger = fs, es_coordinator = coordinator_new plan\<rparr>, s) = (r, (sink, s'))"
  shows "(\<exists>k. m \<le> k \<and> k \<le> 3 \<and> ledger_readable sha (es_ledger sink) (es @ map installed_of (take k plan))
        \<and> (r = Inr () \<longrightarrow> k = 3))
    \<and> ((\<forall>c\<in>calls. succeeds c) \<longrightarrow> r = Inr ())"
proof -
  from plan_events_fits [OF assms(1,2,4)] assms(3) have fits: "ledger.fits_all sha es plan" and plan: "length plan = 3"
    by (auto dest: arg_cong [where f = length])
  have start: "sink_at sha es plan m 0 (\<lparr>es_ledger = fs, es_coordinator = coordinator_new plan\<rparr>, s)"
    using assms(6) by (simp add: sink_at_def coordinator_new_def)
  have keeps: "keeps_sink c" if "c \<in> calls" for c
    using assms(7) that by (auto simp: verification_over_sink_def terminal_over_sink_def)
  note steps = hoare_three [OF fits plan assms(5)]
  have run: "hoare (sink_at sha es plan m 0) run (\<lambda>_. sink_at sha es plan m 3) E"
    if "\<And>c i. c \<in> calls \<Longrightarrow> i \<le> 3 \<Longrightarrow> hoare (sink_at sha es plan m i) c (\<lambda>_. sink_at sha es plan m i) E" for E
    using assms(7) steps(1) [of vp E execution] steps(2) [of tp E execution] that by blast
  have stopped: "hoare (sink_at sha es plan m 0) run (\<lambda>_. sink_at sha es plan m 3) (sink_stopped sha es plan m)"
    by (rule run) (rule hoare_kept [OF keeps], simp_all add: plan assms(5))
  have "\<exists>k. m \<le> k \<and> k \<le> 3 \<and> ledger_readable sha (es_ledger sink) (es @ map installed_of (take k plan))
        \<and> (r = Inr () \<longrightarrow> k = 3)"
    using hoareD [OF stopped start] assms(5,8) plan
    by (cases r) (auto simp: sink_at_def sink_stopped_def max_def intro!: exI [of _ "3 :: nat"] split: if_splits)
  moreover have "r = Inr ()" if "\<forall>c\<in>calls. succeeds c"
  proof -
    have "hoare (sink_at sha es plan m 0) run (\<lambda>_. sink_at sha es plan m 3) (\<lambda>_. False)"
      by (rule run) (rule hoare_kept_ok [OF keeps], use that in simp_all)
    from hoare_returns [OF this start] assms(8) show ?thesis by auto
  qed
  ultimately show ?thesis by blast
qed

definition wit_verification_port :: "planned_event list \<Rightarrow> nat sinked verification_port" where
  "wit_verification_port plan =
     \<lparr>vp_fault = \<lambda>_. sreturn (), vp_append_event = \<lambda>i. on_sink (sink_append wit_sha plan i),
      vp_install_snapshot = sreturn (), vp_install_pointer = sreturn (), vp_install_current = sreturn (),
      vp_finish_events = on_sink finish_sink, vp_converge = sthrow (blocked_error ''fault'' []),
      vp_remove_journal = sreturn ()\<rparr>"

lemma wit_verification_over_sink: "verification_over_sink wit_sha plan (wit_verification_port plan)"
  by (auto simp: verification_over_sink_def verification_calls_def wit_verification_port_def keeps_sink_def
      sreturn_def sthrow_def)

lemma three_events_once_witness:
  "\<exists>plan r sink n k. plan_events wit_sha (take 3 wit_ten) wit_fs = (Inr plan, wit_fs)
   \<and> execute_verification_transaction (wit_verification_port plan) Commit
       (\<lparr>es_ledger = wit_fs, es_coordinator = coordinator_new plan\<rparr>, 0) = (r, (sink, n))
   \<and> k \<le> 3 \<and> ledger_readable wit_sha (es_ledger sink) (map installed_of (take k plan))"
proof -
  have three: "list_all valid_event (take 3 wit_ten)" "length (take 3 wit_ten) = 3" "distinct (map event_id (take 3 wit_ten))"
    using wit_ten_facts by (auto simp: list_all_iff distinct_map dest: in_set_takeD)
      (metis distinct_map distinct_take take_map)+
  obtain plan where plan: "plan_events wit_sha (take 3 wit_ten) wit_fs = (Inr plan, wit_fs)"
    using plan_events_fresh [OF three(3)] three(2) by auto
  obtain r sink n where run: "execute_verification_transaction (wit_verification_port plan) Commit
       (\<lparr>es_ledger = wit_fs, es_coordinator = coordinator_new plan\<rparr>, 0) = (r, (sink, n))"
    by (metis surj_pair)
  have start: "ledger_readable wit_sha wit_fs ([] @ map installed_of (take 0 plan))" using wit_holds holds_readable by simp
  from three_events_once [where run = "execute_verification_transaction (wit_verification_port plan) Commit"
      and vp = "wit_verification_port plan" and execution = Commit
      and calls = "verification_calls (wit_verification_port plan)", OF wit_holds three(1,2) plan _ start _ run]
    wit_verification_over_sink
  obtain k where "k \<le> 3" "ledger_readable wit_sha (es_ledger sink) (map installed_of (take k plan))" by fastforce
  with plan run show ?thesis by blast
qed

end
