(* ===== verification/Text_Slices.thy ===== *)
theory Text_Slices
  imports Json_Soundness
begin

text \<open>
  The characters of a valid string: \<open>char_slices\<close> cuts it into whole characters, and any run of
  them is itself a string with exactly those characters, so that trimming and filtering act on
  characters.
\<close>

definition whole_chars :: "string list \<Rightarrow> bool" where
  "whole_chars xs \<longleftrightarrow> list_all (\<lambda>x. x \<noteq> [] \<and> utf8_width x = length x) xs"

lemma whole_chars_simps [simp]:
  "whole_chars []" "whole_chars (x # xs) \<longleftrightarrow> x \<noteq> [] \<and> utf8_width x = length x \<and> whole_chars xs"
  "whole_chars (xs @ ys) \<longleftrightarrow> whole_chars xs \<and> whole_chars ys" "whole_chars (rev xs) = whole_chars xs"
  by (auto simp: whole_chars_def)

lemma char_slices_concat: "whole_chars xs \<Longrightarrow> char_slices (concat xs) = xs"
proof (induction xs)
  case (Cons x xs)
  then have w: "utf8_width (x @ concat xs) = length x" "0 < length x"
    by (simp_all add: utf8_width_append)
  then have m: "max 1 (utf8_width (x @ concat xs)) = length x"
    by (simp only: max_absorb2 Suc_leI One_nat_def)
  have "x @ concat xs \<noteq> []" using w by simp
  then have "char_slices (x @ concat xs) = x # char_slices (concat xs)"
    unfolding char_slices.simps [of "x @ concat xs"] Let_def m by simp
  with Cons show ?case by simp
qed simp

lemma whole_chars_slices: "utf8_valid s \<Longrightarrow> whole_chars (char_slices s)"
proof (induction s rule: utf8_valid.induct)
  case (1 s)
  show ?case
  proof (cases "s = []")
    case False
    with "1.prems" have w: "0 < utf8_width s" and v: "utf8_valid (drop (utf8_width s) s)"
      by (simp_all add: utf8_valid_step)
    from "1.IH" [OF False _ v] w have "whole_chars (char_slices (drop (utf8_width s) s))" by simp
    moreover have "take (utf8_width s) s \<noteq> []" using w False by simp
    moreover have "utf8_width (take (utf8_width s) s) = length (take (utf8_width s) s)"
      using utf8_width_take_same [of s] utf8_width_le [of s] by simp
    ultimately show ?thesis using False w by (simp add: char_slices.simps [of s] Let_def max_def)
  qed simp
qed

lemma whole_chars_dropWhile: "whole_chars xs \<Longrightarrow> whole_chars (dropWhile P xs)"
  by (induction xs) auto

lemma char_slices_trim:
  assumes "utf8_valid s"
  shows "char_slices (trim_matches P s) = trim_slices (\<lambda>x. P (code_point x)) (char_slices s)"
proof -
  have "whole_chars (trim_slices (\<lambda>x. P (code_point x)) (char_slices s))"
    using whole_chars_slices [OF assms] by (simp add: trim_slices_def whole_chars_dropWhile)
  then show ?thesis by (simp add: trim_matches_def char_slices_concat)
qed

lemma trim_slices_infix: "\<exists>a b. xs = a @ trim_slices P xs @ b"
proof -
  have "xs = takeWhile P xs @ dropWhile P xs" by simp
  moreover have "dropWhile P xs =
      rev (dropWhile P (rev (dropWhile P xs))) @ rev (takeWhile P (rev (dropWhile P xs)))"
    by (metis rev_append rev_rev_ident takeWhile_dropWhile_id)
  ultimately show ?thesis unfolding trim_slices_def by metis
qed

lemma trim_slices_ends:
  assumes "trim_slices P xs \<noteq> []"
  shows "\<not> P (hd (trim_slices P xs)) \<and> \<not> P (last (trim_slices P xs))"
proof -
  define d where "d = dropWhile P xs"
  define e where "e = dropWhile P (rev d)"
  have t: "trim_slices P xs = rev e" by (simp only: trim_slices_def d_def e_def)
  with assms have e: "e \<noteq> []" by simp
  then have last: "\<not> P (hd e)" unfolding e_def by (rule hd_dropWhile)
  obtain zs where "rev d = zs @ e" unfolding e_def by (metis takeWhile_dropWhile_id)
  then have d: "d = rev e @ rev zs" by (metis rev_append rev_rev_ident)
  then have hd: "hd (rev e) = hd d" "d \<noteq> []" using e by (simp_all add: hd_append)
  have "\<not> P (hd d)" using hd(2) unfolding d_def by (rule hd_dropWhile)
  with last e hd show ?thesis by (simp only: t last_rev) simp
qed

text \<open>\<open>chars().count()\<close> and the characters of a trimmed string.\<close>

lemma trim_matches_chars:
  assumes "utf8_valid s"
  shows "length (chars (trim_matches P s)) \<le> length (chars s)"
    and "set (chars (trim_matches P s)) \<subseteq> set (chars s)"
    and "chars (trim_matches P s) \<noteq> [] \<Longrightarrow>
      \<not> P (hd (chars (trim_matches P s))) \<and> \<not> P (last (chars (trim_matches P s)))"
proof -
  let ?t = "trim_slices (\<lambda>x. P (code_point x)) (char_slices s)"
  from trim_slices_infix [of "char_slices s" "\<lambda>x. P (code_point x)"]
  obtain a b where "char_slices s = a @ ?t @ b" by blast
  then have "length ?t \<le> length (char_slices s)" "set ?t \<subseteq> set (char_slices s)"
    by (metis length_append le_add1 le_add2 le_trans add.assoc, metis Un_upper1 Un_upper2 set_append subset_trans)
  then show "length (chars (trim_matches P s)) \<le> length (chars s)"
    "set (chars (trim_matches P s)) \<subseteq> set (chars s)"
    by (auto simp: chars_def char_slices_trim [OF assms])
  show "chars (trim_matches P s) \<noteq> [] \<Longrightarrow>
      \<not> P (hd (chars (trim_matches P s))) \<and> \<not> P (last (chars (trim_matches P s)))"
    using trim_slices_ends [of "\<lambda>x. P (code_point x)" "char_slices s"]
    by (simp add: chars_def char_slices_trim [OF assms] hd_map last_map)
qed

lemma chars_empty: "chars s = [] \<longleftrightarrow> s = []"
proof -
  have "char_slices s = [] \<longleftrightarrow> s = []" by (metis char_slices_Nil concat_char_slices concat.simps(1))
  then show ?thesis by (simp add: chars_def)
qed

lemma trim_ascii:
  assumes "all_ascii s" "s \<noteq> []" "\<not> is_whitespace (byte (hd s))" "\<not> is_whitespace (byte (last s))"
  shows "trim s = s"
proof -
  have ascii: "byte c < 128" if "c \<in> set s" for c using assms(1) that by (simp add: all_ascii_def list_all_iff)
  have slices: "char_slices s = map (\<lambda>c. [c]) s" by (rule char_slices_all_ascii [OF assms(1)])
  have stop: "dropWhile (\<lambda>x. is_whitespace (code_point x)) (map (\<lambda>c. [c]) t) = map (\<lambda>c. [c]) t"
    if "t \<noteq> []" "\<not> is_whitespace (byte (hd t))" "set t \<subseteq> set s" for t
    using that ascii by (cases t) auto
  have "trim_slices (\<lambda>x. is_whitespace (code_point x)) (char_slices s) = map (\<lambda>c. [c]) s"
    using stop [of s] stop [of "rev s"] assms by (simp add: trim_slices_def slices rev_map hd_rev)
  then show ?thesis by (simp add: trim_def trim_matches_def)
qed

end
