(* ===== verification/Agent_Turn.thy ===== *)
theory Agent_Turn
  imports Text_Slices Json_Templates "HOL-Library.List_Lexorder" "HOL-Library.Char_ord"
begin

text \<open>
  \<open>runtime_core/agent.rs\<close>: the decision of one model turn. A candidate text of the model is read
  as a strict JSON object and turned into an answer, an advertised tool call with bounded input,
  or a mutation proposal; \<open>BoundedAgentLoop\<close> bounds the turns and the tool calls of one request.
\<close>

section \<open>Tools\<close>

definition max_tool_input_chars :: nat where "max_tool_input_chars = 512"
definition max_follow_up_model_turns :: u8 where "max_follow_up_model_turns = 3"
definition max_tool_calls :: u8 where "max_tool_calls = 3"

definition decision_context :: string where "decision_context = ''agent turn decision''"
definition local_decision_context :: string where
  "local_decision_context = ''local agent turn decision''"

datatype agent_tool_id =
  WebSearch | WebOpen | WebFind | ReadFile | ListDirectory | SearchRepository | RunReadOnlyCommand

fun tool_id_str :: "agent_tool_id \<Rightarrow> string" where
  "tool_id_str WebSearch = ''web_search''"
| "tool_id_str WebOpen = ''web_open''"
| "tool_id_str WebFind = ''web_find''"
| "tool_id_str ReadFile = ''read_file''"
| "tool_id_str ListDirectory = ''list_directory''"
| "tool_id_str SearchRepository = ''search_repository''"
| "tool_id_str RunReadOnlyCommand = ''run_read_only_command''"

definition tool_id_from_decision :: "string \<Rightarrow> agent_tool_id option" where
  "tool_id_from_decision value =
     (if value = ''web_search'' then Some WebSearch
      else if value = ''web_open'' then Some WebOpen
      else if value = ''web_find'' then Some WebFind
      else if value = ''read_file'' then Some ReadFile
      else if value = ''list_directory'' then Some ListDirectory
      else if value = ''search_repository'' then Some SearchRepository
      else if value = ''run_read_only_command'' then Some RunReadOnlyCommand
      else None)"

text \<open>\<open>sort_unstable_by_key\<close> orders the ids by name; equal names are equal ids.\<close>

definition registry_new :: "agent_tool_id list \<Rightarrow> agent_tool_id list" where
  "registry_new advertised = remdups_adj (sort_key tool_id_str advertised)"

definition local_default :: "agent_tool_id list" where
  "local_default = registry_new [ReadFile, ListDirectory, SearchRepository, RunReadOnlyCommand]"

definition advertises :: "agent_tool_id list \<Rightarrow> agent_tool_id \<Rightarrow> bool" where
  "advertises registry tool = (tool \<in> set registry)"

section \<open>Observations\<close>

datatype observation_status =
    StatusOk | StatusNotFound | StatusDenied | StatusToolError | StatusTruncated | StatusMalformed
  | StatusUnknownOrStale | StatusCancelled | StatusTimeout

fun observation_status_str :: "observation_status \<Rightarrow> string" where
  "observation_status_str StatusOk = ''ok''"
| "observation_status_str StatusNotFound = ''not_found''"
| "observation_status_str StatusDenied = ''denied''"
| "observation_status_str StatusToolError = ''tool_error''"
| "observation_status_str StatusTruncated = ''truncated''"
| "observation_status_str StatusMalformed = ''malformed''"
| "observation_status_str StatusUnknownOrStale = ''unknown_or_stale''"
| "observation_status_str StatusCancelled = ''cancelled''"
| "observation_status_str StatusTimeout = ''timeout''"

datatype observation_reason =
    ReasonCompleted | ReasonNotFound | ReasonPolicyDenied | ReasonExecutionFailed
  | ReasonOutputTruncated | ReasonInvalidArguments | ReasonUnknownOrStaleTool
  | ReasonRequestCancelled | ReasonToolTimedOut | ReasonObservationBudgetExceeded

fun observation_reason_str :: "observation_reason \<Rightarrow> string" where
  "observation_reason_str ReasonCompleted = ''completed''"
| "observation_reason_str ReasonNotFound = ''not_found''"
| "observation_reason_str ReasonPolicyDenied = ''policy_denied''"
| "observation_reason_str ReasonExecutionFailed = ''execution_failed''"
| "observation_reason_str ReasonOutputTruncated = ''output_truncated''"
| "observation_reason_str ReasonInvalidArguments = ''invalid_arguments''"
| "observation_reason_str ReasonUnknownOrStaleTool = ''unknown_or_stale_tool''"
| "observation_reason_str ReasonRequestCancelled = ''request_cancelled''"
| "observation_reason_str ReasonToolTimedOut = ''tool_timed_out''"
| "observation_reason_str ReasonObservationBudgetExceeded = ''observation_budget_exceeded''"

record observation_truncation =
  ot_truncated :: bool
  ot_original_bytes :: usize
  ot_returned_bytes :: usize

record tool_observation =
  to_tool_id :: "agent_tool_id option"
  to_status :: observation_status
  to_reason :: observation_reason
  to_content :: string
  to_truncation :: observation_truncation

definition tool_observation_new ::
  "agent_tool_id option \<Rightarrow> observation_status \<Rightarrow> observation_reason \<Rightarrow> string \<Rightarrow> tool_observation" where
  "tool_observation_new tool status reason content =
     \<lparr>to_tool_id = tool, to_status = status, to_reason = reason, to_content = content,
      to_truncation = \<lparr>ot_truncated = False, ot_original_bytes = of_nat (length content),
        ot_returned_bytes = of_nat (length content)\<rparr>\<rparr>"

section \<open>The local decision\<close>

record local_tool_call =
  ltc_id :: agent_tool_id
  ltc_input :: string

datatype local_decision = LdAnswer | LdTool local_tool_call | LdProposeMutation string

datatype local_decision_error_kind = LdMalformed | LdUnknownOrStale

record local_decision_error =
  lde_kind :: local_decision_error_kind
  lde_tool_id :: "agent_tool_id option"
  lde_message :: message

datatype local_parse_failure =
    LpfMalformed message
  | LpfUnknownOrStale "agent_tool_id option" message

definition protocol_whitespace :: "nat \<Rightarrow> bool" where
  "protocol_whitespace c \<longleftrightarrow> c = 32 \<or> c = 10 \<or> c = 13 \<or> c = 9"

definition trim_protocol_whitespace :: "string \<Rightarrow> string" where
  "trim_protocol_whitespace value = trim_matches protocol_whitespace value"

definition normalized_key :: "local_tool_call \<Rightarrow> string" where
  "normalized_key call = tool_id_str (ltc_id call) @ [LF] @ trim_protocol_whitespace (ltc_input call)"

definition malformed_local_decision :: "string \<Rightarrow> local_parse_failure" where
  "malformed_local_decision reason = LpfMalformed (Msg ''local decision'' [local_decision_context, reason])"

definition ensure_bounded :: "string \<Rightarrow> nat \<Rightarrow> string \<Rightarrow> unit result" where
  "ensure_bounded value max_chars field =
     (if max_chars < length (chars value) \<or> list_ex is_control (chars value)
      then Inl (blocked_error ''agent turn decision: out of bounds'' [field])
      else Inr ())"

definition ensure_visible_answer :: "string \<Rightarrow> unit result" where
  "ensure_visible_answer value =
     (if list_ex (\<lambda>c. is_control c \<and> \<not> (c = 10 \<or> c = 13 \<or> c = 9)) (chars value)
      then Inl (blocked_error ''agent turn decision: invisible answer'' [])
      else Inr ())"

definition decision_keys :: "string list" where
  "decision_keys = [''decision'', ''input'', ''answer'']"

definition parse_local_turn_decision_inner ::
  "string \<Rightarrow> agent_tool_id list \<Rightarrow> local_parse_failure + local_decision" where
  "parse_local_turn_decision_inner candidate registry =
     rbind (map_err (\<lambda>_. malformed_local_decision ''object'')
       (parse_object (trim candidate) decision_keys local_decision_context)) (\<lambda>obj.
     rbind (map_err (\<lambda>_. malformed_local_decision ''decision'')
       (json_string obj ''decision'' local_decision_context)) (\<lambda>decision.
     rbind (map_err (\<lambda>_. malformed_local_decision ''input'')
       (json_string obj ''input'' local_decision_context)) (\<lambda>input.
     rbind (map_err (\<lambda>_. malformed_local_decision ''answer'')
       (json_string obj ''answer'' local_decision_context)) (\<lambda>answer.
     rbind (map_err (\<lambda>_. malformed_local_decision ''input out of range'')
       (ensure_bounded input max_tool_input_chars ''input'')) (\<lambda>_.
     rbind (map_err (\<lambda>_. malformed_local_decision ''answer not visible'')
       (ensure_visible_answer answer)) (\<lambda>_.
       if decision = ''answer'' \<and> input = [] \<and> answer = [] then Inr LdAnswer
       else if decision = ''propose_mutation'' \<and> trim_protocol_whitespace input \<noteq> [] \<and> answer = []
       then Inr (LdProposeMutation (trim_protocol_whitespace input))
       else if decision = ''answer'' \<or> decision = ''propose_mutation''
       then Inl (LpfMalformed (Msg ''decision field combination'' [local_decision_context]))
       else case tool_id_from_decision decision of
         None \<Rightarrow> Inl (LpfUnknownOrStale None (Msg ''unknown tool id'' [decision]))
       | Some tool \<Rightarrow>
           if \<not> advertises registry tool
           then Inl (LpfUnknownOrStale (Some tool) (Msg ''unadvertised tool id'' [tool_id_str tool]))
           else if trim_protocol_whitespace input = [] \<or> answer \<noteq> []
           then Inl (LpfMalformed (Msg ''tool decision field combination'' [local_decision_context]))
           else Inr (LdTool \<lparr>ltc_id = tool, ltc_input = trim_protocol_whitespace input\<rparr>)))))))"

definition parse_local_turn_decision ::
  "string \<Rightarrow> agent_tool_id list \<Rightarrow> local_decision_error + local_decision" where
  "parse_local_turn_decision candidate registry =
     map_err (\<lambda>error. case error of
         LpfMalformed message \<Rightarrow> \<lparr>lde_kind = LdMalformed, lde_tool_id = None, lde_message = message\<rparr>
       | LpfUnknownOrStale tool message \<Rightarrow>
           \<lparr>lde_kind = LdUnknownOrStale, lde_tool_id = tool, lde_message = message\<rparr>)
       (parse_local_turn_decision_inner candidate registry)"

section \<open>The turn decision\<close>

datatype agent_tool_name = Search | Open | Find

record agent_tool_call =
  atc_name :: agent_tool_name
  atc_input :: string

datatype agent_turn_decision = AtAnswer string | AtTool agent_tool_call | AtContinueLocal

definition tool_decision :: "agent_tool_name \<Rightarrow> string \<Rightarrow> agent_turn_decision result" where
  "tool_decision name input0 =
     (let input = trim input0 in
      if input = [] then Inl (blocked_error ''agent turn decision: empty tool input'' [])
      else Inr (AtTool \<lparr>atc_name = name, atc_input = input\<rparr>))"

definition parse_turn_decision :: "string \<Rightarrow> bool \<Rightarrow> agent_turn_decision result" where
  "parse_turn_decision candidate allow_direct_answer =
     rbind (parse_object (trim candidate) decision_keys decision_context) (\<lambda>obj.
     rbind (json_string obj ''decision'' decision_context) (\<lambda>decision.
     rbind (json_string obj ''input'' decision_context) (\<lambda>input.
     rbind (json_string obj ''answer'' decision_context) (\<lambda>answer.
     rbind (ensure_bounded input max_tool_input_chars ''input'') (\<lambda>_.
     rbind (ensure_visible_answer answer) (\<lambda>_.
       if decision = ''answer'' \<and> allow_direct_answer \<and> trim answer \<noteq> [] then Inr (AtAnswer answer)
       else if decision = ''answer'' \<or> decision = ''local_task'' then Inr AtContinueLocal
       else if decision = ''web_search'' then tool_decision Search input
       else if decision = ''web_open'' then tool_decision Open input
       else if decision = ''web_find'' then tool_decision Find input
       else Inl (blocked_error ''agent turn decision: unsupported decision'' [decision])))))))"

section \<open>The bounded loop\<close>

datatype agent_loop_stop = FollowUpTurnBudget | RepeatedToolCall | ToolCallBudget

record bounded_agent_loop =
  bal_follow_up_model_turns :: u8
  bal_tool_calls :: u8
  bal_admitted_tool_calls :: "agent_tool_call list"

definition bounded_agent_loop_default :: bounded_agent_loop where
  "bounded_agent_loop_default =
     \<lparr>bal_follow_up_model_turns = 0, bal_tool_calls = 0, bal_admitted_tool_calls = []\<rparr>"

definition begin_follow_up_model_turn ::
  "bounded_agent_loop \<Rightarrow> (agent_loop_stop + unit) \<times> bounded_agent_loop" where
  "begin_follow_up_model_turn l =
     (if max_follow_up_model_turns \<le> bal_follow_up_model_turns l then (Inl FollowUpTurnBudget, l)
      else (Inr (), l\<lparr>bal_follow_up_model_turns := bal_follow_up_model_turns l + 1\<rparr>))"

definition admit_tool_call ::
  "agent_tool_call \<Rightarrow> bounded_agent_loop \<Rightarrow> (agent_loop_stop + unit) \<times> bounded_agent_loop" where
  "admit_tool_call tool_call l =
     (if list_ex (\<lambda>admitted. admitted = tool_call) (bal_admitted_tool_calls l)
      then (Inl RepeatedToolCall, l)
      else if max_tool_calls \<le> bal_tool_calls l then (Inl ToolCallBudget, l)
      else (Inr (), l\<lparr>bal_tool_calls := bal_tool_calls l + 1,
              bal_admitted_tool_calls := bal_admitted_tool_calls l @ [tool_call]\<rparr>))"

end
