(* ===== verification/Agent_Properties.thy ===== *)
theory Agent_Properties
  imports Agent_Turn
begin

text \<open>The properties of the model-turn decisions and of the bounded loop, with their witnesses.\<close>

section \<open>Tool calls\<close>

lemma ensure_bounded_iff:
  "ensure_bounded v n f = Inr u \<longleftrightarrow> length (chars v) \<le> n \<and> \<not> list_ex is_control (chars v)"
  by (auto simp: ensure_bounded_def)

lemma trimmed_bounded:
  assumes "utf8_valid v" "ensure_bounded v n f = Inr u" "trim_matches P v \<noteq> []"
  shows "length (chars (trim_matches P v)) \<le> n \<and> \<not> list_ex is_control (chars (trim_matches P v))
    \<and> \<not> P (hd (chars (trim_matches P v))) \<and> \<not> P (last (chars (trim_matches P v)))"
  using assms trim_matches_chars [OF assms(1), of P] chars_empty [of "trim_matches P v"]
  by (auto simp: ensure_bounded_iff list_ex_iff)

text \<open>
  C22 A local tool call the parser returns was advertised to the model in this request, and its
  input is the model's input trimmed: not empty, at most 512 characters, without control
  characters (so on one line), neither starting nor ending in protocol white space.
\<close>

theorem local_tool_call_admissible:
  assumes "parse_local_turn_decision candidate registry = Inr (LdTool call)"
  shows "advertises registry (ltc_id call) \<and> ltc_input call \<noteq> []
    \<and> length (chars (ltc_input call)) \<le> max_tool_input_chars
    \<and> \<not> list_ex is_control (chars (ltc_input call))
    \<and> \<not> protocol_whitespace (hd (chars (ltc_input call)))
    \<and> \<not> protocol_whitespace (last (chars (ltc_input call)))"
proof -
  from assms obtain obj decision input answer u where
    obj: "parse_object (trim candidate) decision_keys local_decision_context = Inr obj"
    and input: "json_string obj ''input'' local_decision_context = Inr input"
    and bounded: "ensure_bounded input max_tool_input_chars ''input'' = Inr u"
    and call: "tool_id_from_decision decision = Some (ltc_id call)" "advertises registry (ltc_id call)"
      "ltc_input call = trim_protocol_whitespace input" "ltc_input call \<noteq> []"
    by (auto simp: parse_local_turn_decision_def parse_local_turn_decision_inner_def rbind_Inr_iff
        map_err_Inr_iff split: if_splits option.splits)
  have "utf8_valid input" using json_string_valid [OF parse_object_wf [OF obj] input] .
  from trimmed_bounded [OF this bounded, of protocol_whitespace] call show ?thesis
    by (simp add: trim_protocol_whitespace_def)
qed

definition wit_candidate :: "string \<Rightarrow> string \<Rightarrow> string" where
  "wit_candidate decision input = template compact_layout
     [(''decision'', quoted decision), (''input'', quoted input), (''answer'', quoted [])]"

lemma wit_candidate_object:
  assumes "plain_key decision" "plain_key input"
  shows "parse_object (wit_candidate decision input) decision_keys ctxt =
    Inr [(''decision'', JString decision), (''input'', JString input), (''answer'', JString [])]"
proof -
  have keys: "plain_key ''decision''" "plain_key ''input''" "plain_key ''answer''" "plain_key []"
    by (simp_all add: plain_key_chars plain_char_def)
  have "parse_value (wit_candidate decision input @ []) ctxt =
      Inr (JObject [(''decision'', JString decision), (''input'', JString input), (''answer'', JString [])])"
    unfolding wit_candidate_def
    by (rule parse_value_template) (simp_all add: keys reads_plain assms json_blank_def)
  then show ?thesis by (simp add: parse_object_def object_keys_def decision_keys_def)
qed

lemma wit_candidate_trim:
  assumes "all_ascii decision" "all_ascii input"
  shows "trim (wit_candidate decision input) = wit_candidate decision input"
  by (rule trim_ascii)
    (use assms in \<open>simp_all add: wit_candidate_def template_def compact_layout_def quoted_def all_ascii_def
      is_whitespace_def\<close>)

lemma wit_tool_call:
  "parse_local_turn_decision (wit_candidate ''read_file'' ''a.rs'') local_default =
     Inr (LdTool \<lparr>ltc_id = ReadFile, ltc_input = ''a.rs''\<rparr>)"
proof -
  have "ensure_bounded ''a.rs'' max_tool_input_chars ''input'' = Inr ()"
    "ensure_visible_answer [] = Inr ()" "trim_protocol_whitespace ''a.rs'' = ''a.rs''"
    "advertises local_default ReadFile" by code_simp+
  moreover have "plain_key ''read_file''" "plain_key ''a.rs''"
    by (simp_all add: plain_key_chars plain_char_def)
  ultimately show ?thesis
    by (simp add: parse_local_turn_decision_def parse_local_turn_decision_inner_def wit_candidate_trim
        all_ascii_def wit_candidate_object json_string_def object_get_def tool_id_from_decision_def)
qed

lemma local_tool_call_admissible_witness:
  "advertises local_default (ltc_id \<lparr>ltc_id = ReadFile, ltc_input = ''a.rs''\<rparr>)
    \<and> ltc_input \<lparr>ltc_id = ReadFile, ltc_input = ''a.rs''\<rparr> \<noteq> []
    \<and> length (chars (ltc_input \<lparr>ltc_id = ReadFile, ltc_input = ''a.rs''\<rparr>)) \<le> max_tool_input_chars
    \<and> \<not> list_ex is_control (chars (ltc_input \<lparr>ltc_id = ReadFile, ltc_input = ''a.rs''\<rparr>))
    \<and> \<not> protocol_whitespace (hd (chars (ltc_input \<lparr>ltc_id = ReadFile, ltc_input = ''a.rs''\<rparr>)))
    \<and> \<not> protocol_whitespace (last (chars (ltc_input \<lparr>ltc_id = ReadFile, ltc_input = ''a.rs''\<rparr>)))"
  by (rule local_tool_call_admissible [OF wit_tool_call])

text \<open>
  The turn parser answers directly only when that is allowed and the answer is visible and not
  blank, and a tool call it returns has a trimmed input that is not empty, at most 512
  characters and without control characters; everything else continues in the runtime or is an
  error.
\<close>

theorem turn_decision_bounded:
  assumes "parse_turn_decision candidate allow = Inr decision"
  shows "case decision of
      AtAnswer answer \<Rightarrow> allow \<and> trim answer \<noteq> [] \<and> ensure_visible_answer answer = Inr ()
    | AtTool call \<Rightarrow> atc_input call \<noteq> [] \<and> length (chars (atc_input call)) \<le> max_tool_input_chars
        \<and> \<not> list_ex is_control (chars (atc_input call))
    | AtContinueLocal \<Rightarrow> True"
proof -
  from assms obtain obj input answer where
    obj: "parse_object (trim candidate) decision_keys decision_context = Inr obj"
    and input: "json_string obj ''input'' decision_context = Inr input"
    and bounded: "ensure_bounded input max_tool_input_chars ''input'' = Inr ()"
    and visible: "ensure_visible_answer answer = Inr ()"
    and result: "decision = AtContinueLocal \<or> (allow \<and> trim answer \<noteq> [] \<and> decision = AtAnswer answer)
      \<or> (\<exists>name. tool_decision name input = Inr decision)"
    by (auto simp: parse_turn_decision_def rbind_Inr_iff split: if_splits)
  have valid: "utf8_valid input" using json_string_valid [OF parse_object_wf [OF obj] input] .
  from result show ?thesis
  proof (elim disjE exE)
    fix name assume "tool_decision name input = Inr decision"
    then have "trim input \<noteq> []" "decision = AtTool \<lparr>atc_name = name, atc_input = trim input\<rparr>"
      by (auto simp: tool_decision_def Let_def split: if_splits)
    with trimmed_bounded [OF valid bounded, of is_whitespace] show ?thesis by (simp add: trim_def)
  qed (use visible in auto)
qed

lemma turn_decision_bounded_witness:
  "atc_input \<lparr>atc_name = Search, atc_input = ''rust''\<rparr> \<noteq> []
    \<and> length (chars (atc_input \<lparr>atc_name = Search, atc_input = ''rust''\<rparr>)) \<le> max_tool_input_chars
    \<and> \<not> list_ex is_control (chars (atc_input \<lparr>atc_name = Search, atc_input = ''rust''\<rparr>))"
proof -
  have "ensure_bounded ''rust'' max_tool_input_chars ''input'' = Inr ()"
    "ensure_visible_answer [] = Inr ()" "trim ''rust'' = ''rust''" by code_simp+
  moreover have "trim (wit_candidate ''web_search'' ''rust'') = wit_candidate ''web_search'' ''rust''"
    by (rule wit_candidate_trim) (simp_all add: all_ascii_def)
  moreover have "plain_key ''web_search''" "plain_key ''rust''"
    by (simp_all add: plain_key_chars plain_char_def)
  ultimately have "parse_turn_decision (wit_candidate ''web_search'' ''rust'') True =
      Inr (AtTool \<lparr>atc_name = Search, atc_input = ''rust''\<rparr>)"
    by (simp add: parse_turn_decision_def wit_candidate_object json_string_def object_get_def
        tool_decision_def)
  from turn_decision_bounded [OF this] show ?thesis by simp
qed

section \<open>The registry\<close>

lemma sorted_remdups_adj_distinct:
  "sorted (map tool_id_str xs) \<Longrightarrow> distinct (map tool_id_str (remdups_adj xs)) \<and> sorted (map tool_id_str (remdups_adj xs))"
proof (induction xs rule: remdups_adj.induct)
  case (3 x y xs)
  have inj: "tool_id_str a = tool_id_str b \<Longrightarrow> a = b" for a b
    by (cases a; cases b) simp_all
  show ?case
  proof (cases "x = y")
    case True
    with 3 show ?thesis by simp
  next
    case False
    then have "tool_id_str x \<noteq> tool_id_str y" using inj by blast
    moreover from "3.prems" have le: "\<forall>z\<in>set (y # xs). tool_id_str x \<le> tool_id_str z \<and> tool_id_str y \<le> tool_id_str z"
      by auto
    ultimately have "tool_id_str x < tool_id_str y" by (simp add: less_le)
    with le have "\<forall>z\<in>set (y # xs). tool_id_str x < tool_id_str z" by auto
    with 3 False show ?thesis by (auto simp: less_imp_le)
  qed
qed simp_all

text \<open>
  A registry snapshot holds exactly the tools it was made from, each once, in the order of
  their names, whatever order and repetitions they came in.
\<close>

theorem registry_new_canonical:
  "set (registry_new tools) = set tools \<and> distinct (registry_new tools)
   \<and> sorted (map tool_id_str (registry_new tools))"
proof -
  have "sorted (map tool_id_str (sort_key tool_id_str tools))" by simp
  from sorted_remdups_adj_distinct [OF this] show ?thesis
    by (simp add: registry_new_def distinct_map)
qed

section \<open>The bounded loop\<close>

inductive loop_step :: "bounded_agent_loop \<Rightarrow> bounded_agent_loop \<Rightarrow> bool" where
  follow_up: "loop_step l (snd (begin_follow_up_model_turn l))"
| admit: "loop_step l (snd (admit_tool_call call l))"

inductive_cases loop_stepE: "loop_step l l'"

definition loop_inv :: "bounded_agent_loop \<Rightarrow> bool" where
  "loop_inv l \<longleftrightarrow> unat (bal_tool_calls l) = length (bal_admitted_tool_calls l)
     \<and> length (bal_admitted_tool_calls l) \<le> 3 \<and> distinct (bal_admitted_tool_calls l)
     \<and> unat (bal_follow_up_model_turns l) \<le> 3"

lemma u8_below: "\<not> 3 \<le> n \<Longrightarrow> unat (n + 1) = Suc (unat n) \<and> unat n < 3" for n :: u8
  by (simp add: word_le_nat_alt unat_add_exact)

lemma loop_inv_step: "loop_step l l' \<Longrightarrow> loop_inv l \<Longrightarrow> loop_inv l'"
proof (elim loop_stepE)
  assume "loop_inv l" "l' = snd (begin_follow_up_model_turn l)"
  then show "loop_inv l'"
    using u8_below [of "bal_follow_up_model_turns l"]
    by (auto simp: begin_follow_up_model_turn_def loop_inv_def max_follow_up_model_turns_def)
next
  fix call assume "loop_inv l" "l' = snd (admit_tool_call call l)"
  then show "loop_inv l'"
    using u8_below [of "bal_tool_calls l"]
    by (auto simp: admit_tool_call_def loop_inv_def max_tool_calls_def list_ex_iff)
qed

text \<open>
  C23 Whatever turns and calls a request asks for, in any order, its loop admits at most three
  tool calls, all different, and at most three follow-up turns; the counters never wrap and
  always count what was admitted.
\<close>

theorem agent_loop_bounded:
  assumes "loop_step\<^sup>*\<^sup>* bounded_agent_loop_default l"
  shows "length (bal_admitted_tool_calls l) \<le> 3 \<and> distinct (bal_admitted_tool_calls l)
    \<and> unat (bal_tool_calls l) = length (bal_admitted_tool_calls l)
    \<and> unat (bal_follow_up_model_turns l) \<le> 3"
proof -
  from assms have "loop_inv l"
  proof (induction rule: rtranclp_induct)
    case base
    show ?case by (simp add: loop_inv_def bounded_agent_loop_default_def)
  next
    case (step l l')
    then show ?case using loop_inv_step by blast
  qed
  then show ?thesis by (simp add: loop_inv_def)
qed

lemma agent_loop_bounded_witness:
  "length (bal_admitted_tool_calls (snd (admit_tool_call \<lparr>atc_name = Find, atc_input = ''x''\<rparr> bounded_agent_loop_default))) \<le> 3
    \<and> distinct (bal_admitted_tool_calls (snd (admit_tool_call \<lparr>atc_name = Find, atc_input = ''x''\<rparr> bounded_agent_loop_default)))
    \<and> unat (bal_tool_calls (snd (admit_tool_call \<lparr>atc_name = Find, atc_input = ''x''\<rparr> bounded_agent_loop_default))) =
      length (bal_admitted_tool_calls (snd (admit_tool_call \<lparr>atc_name = Find, atc_input = ''x''\<rparr> bounded_agent_loop_default)))
    \<and> unat (bal_follow_up_model_turns (snd (admit_tool_call \<lparr>atc_name = Find, atc_input = ''x''\<rparr> bounded_agent_loop_default))) \<le> 3"
  by (rule agent_loop_bounded) (rule r_into_rtranclp, rule loop_step.admit)

end
