(* ===== verification/Policy.thy ===== *)
theory Policy
  imports Text_Slices
begin

text \<open>
  \<open>runtime_core/policy/decision\<close>: the classification of paths and commands. A Unix path is its
  string; \<open>path_components\<close> is the iterator \<open>Path::components\<close>. The file system (canonical
  paths) is the port record \<open>path_port\<close>, as in the trait \<open>PathPolicyPort\<close>.
\<close>

section \<open>Decisions (types.rs)\<close>

datatype decision = Allow | Ask | Deny

datatype rule_source = SourceUser | SourceProject | SourceLocal | SourceSession | SourcePolicy

datatype action_kind =
  KindReadFile | KindWriteFile | KindRunCommand | KindApplyPatch | KindNetworkDownload | KindPluginCapability

datatype action_status =
  ActionCreate | ActionUpdate | ActionNoop | ActionUserModified | ActionBlocked

record policy_decision =
  pd_decision :: decision
  pd_action_kind :: action_kind
  pd_rule_source :: rule_source
  pd_command_class :: string
  pd_reason :: message
  pd_approval_prompt :: message

definition policy_decision_new ::
  "decision \<Rightarrow> action_kind \<Rightarrow> string \<Rightarrow> string \<Rightarrow> string \<Rightarrow> policy_decision" where
  "policy_decision_new decision kind command_class reason approval_prompt =
     \<lparr>pd_decision = decision, pd_action_kind = kind, pd_rule_source = SourcePolicy,
      pd_command_class = command_class, pd_reason = Msg reason [],
      pd_approval_prompt = Msg approval_prompt []\<rparr>"

definition policy_label :: "policy_decision \<Rightarrow> string" where
  "policy_label d = (case pd_decision d of Allow \<Rightarrow> ''allow'' | Ask \<Rightarrow> ''ask'' | Deny \<Rightarrow> ''deny'')"

record parsed_command =
  pc_display :: string
  pc_argv :: "string list"

datatype path_mode = PathRead | PathWrite

section \<open>Paths (path\_policy.rs)\<close>

datatype path_component = RootDir | CurDir | ParentDir | NormalComp string

text \<open>
  \<open>Path::components\<close> on Unix: repeated separators and \<open>.\<close> are dropped, except a leading \<open>.\<close>.
\<close>

definition path_parts :: "string \<Rightarrow> string list" where
  "path_parts p = split_on (\<lambda>c. c = CHR ''/'') p"

definition component_of :: "string \<Rightarrow> path_component" where
  "component_of part = (if part = ''..'' then ParentDir else NormalComp part)"

definition is_absolute :: "string \<Rightarrow> bool" where
  "is_absolute p = starts_with ''/'' p"

definition path_components :: "string \<Rightarrow> path_component list" where
  "path_components p =
     (let parts = path_parts p;
          rest = map component_of (filter (\<lambda>x. x \<noteq> [] \<and> x \<noteq> ''.'') parts)
      in if is_absolute p then RootDir # rest
         else if parts \<noteq> [] \<and> hd parts = ''.'' then CurDir # rest
         else rest)"

definition path_join :: "string \<Rightarrow> string \<Rightarrow> string" where
  "path_join base p =
     (if is_absolute p then p
      else if base = [] \<or> ends_with ''/'' base then base @ p
      else base @ ''/'' @ p)"

definition path_starts_with :: "string \<Rightarrow> string \<Rightarrow> bool" where
  "path_starts_with p base =
     (take (length (path_components base)) (path_components p) = path_components base)"

record path_port =
  pp_canonical_project_root :: "string result"
  pp_normalize_existing_or_parent :: "string \<Rightarrow> string result"

definition action_for_mode :: "path_mode \<Rightarrow> action_kind" where
  "action_for_mode mode = (case mode of PathRead \<Rightarrow> KindReadFile | PathWrite \<Rightarrow> KindWriteFile)"

definition contains_any :: "string \<Rightarrow> string list \<Rightarrow> bool" where
  "contains_any value needles = list_ex (\<lambda>needle. contains_str needle value) needles"

definition excluded_needles :: "string list" where
  "excluded_needles = [''/.git/'', ''/node_modules/'', ''/target/'', ''/dist/'', ''/build/'',
     ''.env'', ''id_rsa'', ''.gguf'', ''.safetensors'', ''.bin'']"

definition is_excluded_path :: "string \<Rightarrow> bool" where
  "is_excluded_path path = contains_any (to_ascii_lowercase path) excluded_needles"

definition classify_path :: "path_port \<Rightarrow> path_mode \<Rightarrow> string \<Rightarrow> policy_decision result" where
  "classify_path port mode raw_path =
     (if trim raw_path = [] then Inl (usage_error ''path required'' [])
      else if list_ex (\<lambda>c. c = ParentDir) (path_components raw_path)
      then Inr (policy_decision_new Deny (action_for_mode mode) ''path-traversal'' ''parent component'' ''block'')
      else
        rbind (pp_canonical_project_root port) (\<lambda>project_root.
        let candidate = (if is_absolute raw_path then raw_path else path_join project_root raw_path) in
        rbind (pp_normalize_existing_or_parent port candidate) (\<lambda>normalized.
          if \<not> path_starts_with normalized project_root
          then Inr (policy_decision_new Deny (action_for_mode mode) ''outside-project'' ''outside boundary'' ''block'')
          else if is_excluded_path normalized
          then Inr (policy_decision_new Deny (action_for_mode mode) ''excluded-path'' ''excluded by default'' ''block'')
          else case mode of
            PathRead \<Rightarrow> Inr (policy_decision_new Allow KindReadFile ''project-read'' ''project read'' ''none'')
          | PathWrite \<Rightarrow> Inr (policy_decision_new Ask KindWriteFile ''project-write'' ''diff and approval'' ''approval''))))"

section \<open>Exact argv (command.rs)\<close>

definition argv_metacharacters :: "char list" where
  "argv_metacharacters =
     [CHR '';'', CHR ''|'', CHR ''&'', CHR ''<'', CHR ''>'', CHR 0x60, CHR ''$'', CHR 0x0A, CHR 0x0D,
      CHR 0x22, CHR 0x27, CHR ''('', CHR '')'']"

definition is_shell_metacharacter :: "char \<Rightarrow> bool" where
  "is_shell_metacharacter c = (c \<in> set argv_metacharacters)"

text \<open>The metacharacters are ASCII, so the scan over characters is a scan over bytes.\<close>

definition parse_exact_argv :: "string \<Rightarrow> parsed_command result" where
  "parse_exact_argv command =
     (let trimmed = trim command in
      if trimmed = [] then Inl (usage_error ''command required'' [])
      else if list_ex is_shell_metacharacter trimmed
      then Inl (blocked_error ''command: shell metacharacter'' [])
      else let argv = split_ascii_whitespace trimmed in
        if (case argv of [] \<Rightarrow> False | arg # _ \<Rightarrow> list_ex (\<lambda>c. c = CHR ''/'' \<or> c = CHR 0x5C) arg)
        then Inl (blocked_error ''command: path-like executable'' [])
        else Inr \<lparr>pc_display = join '' '' argv, pc_argv = argv\<rparr>)"

definition cargo_forbidden :: "string \<Rightarrow> bool" where
  "cargo_forbidden arg \<longleftrightarrow> arg \<in> {''--manifest-path'', ''--package'', ''-p''}
     \<or> starts_with ''--manifest-path='' arg \<or> starts_with ''--package='' arg"

definition cargo_takes_value :: "string \<Rightarrow> bool" where
  "cargo_takes_value arg \<longleftrightarrow> arg \<in> {''--bin'', ''--test'', ''--example'', ''--features''}"

definition cargo_allowed :: "string \<Rightarrow> bool" where
  "cargo_allowed arg \<longleftrightarrow> arg \<in> {''--locked'', ''--all-targets'', ''--tests'', ''--bins'', ''--lib'',
     ''--examples'', ''--release'', ''--check'', ''--no-default-features'', ''--bin'', ''--test'',
     ''--example'', ''--features''}"

definition safe_identifier :: "string \<Rightarrow> bool" where
  "safe_identifier value \<longleftrightarrow> value \<noteq> [] \<and>
     list_all (\<lambda>c. is_ascii_alphanumeric c \<or> c \<in> {CHR ''_'', CHR ''-'', CHR ''.'', CHR '',''}) value"

text \<open>The \<open>while index < argv.len()\<close> loop, on the arguments still to be read.\<close>

fun cargo_args :: "string list \<Rightarrow> unit result" where
  "cargo_args [] = Inr ()"
| "cargo_args (arg # args) =
     (if cargo_forbidden arg then Inl (blocked_error ''patch verification: external manifest/package'' [])
      else if \<not> cargo_allowed arg then Inl (blocked_error ''patch verification: cargo argument'' [arg])
      else if cargo_takes_value arg then
        (case args of
           [] \<Rightarrow> Inl (blocked_error ''patch verification: missing value'' [])
         | value # rest \<Rightarrow>
             if \<not> safe_identifier value then Inl (blocked_error ''patch verification: unsafe value'' [])
             else cargo_args rest)
      else cargo_args args)"

definition validate_patch_verification_argv :: "string list \<Rightarrow> unit result" where
  "validate_patch_verification_argv argv =
     (if argv = [''pwd''] then Inr ()
      else case argv of
        first # subcommand # args \<Rightarrow>
          if first \<noteq> ''cargo'' then Inl (blocked_error ''patch verification: pwd or cargo only'' [])
          else if \<not> subcommand \<in> {''test'', ''check'', ''fmt'', ''clippy''}
          then Inl (blocked_error ''patch verification: cargo subcommand'' [])
          else if subcommand = ''fmt'' then
            (if argv \<noteq> [''cargo'', ''fmt'', ''--'', ''--check'']
             then Inl (blocked_error ''patch verification: cargo fmt form'' []) else Inr ())
          else cargo_args args
      | _ \<Rightarrow> Inl (blocked_error ''patch verification: pwd or cargo only'' []))"

definition parse_patch_verification :: "string \<Rightarrow> parsed_command result" where
  "parse_patch_verification command =
     rbind (parse_exact_argv command) (\<lambda>parsed.
     rbind (validate_patch_verification_argv (pc_argv parsed)) (\<lambda>_. Inr parsed))"

definition is_general_read_only :: "string list \<Rightarrow> bool" where
  "is_general_read_only argv \<longleftrightarrow>
     (case argv of [one] \<Rightarrow> one \<in> {''pwd'', ''ls'', ''git''} | _ \<Rightarrow> False)
     \<or> (case argv of
          [one, two] \<Rightarrow> one = ''git'' \<and> two \<in> {''status'', ''diff''}
             \<or> one = ''cargo'' \<and> two \<in> {''test'', ''check'', ''clippy''}
        | _ \<Rightarrow> False)
     \<or> (case argv of [] \<Rightarrow> False | one # _ \<Rightarrow> one \<in> {''rg'', ''head'', ''tail'', ''wc''})"

definition denied_commands :: "string list" where
  "denied_commands = [''rm'', ''sh'', ''bash'', ''zsh'', ''python'', ''python3'', ''mkfs'', ''dd'']"

definition classify_argv :: "string list \<Rightarrow> policy_decision" where
  "classify_argv argv =
     (let first = hd argv in
      if first \<in> set denied_commands
         \<or> (case argv of a # b # _ \<Rightarrow> a = ''git'' \<and> (b = ''reset'' \<and> ''--hard'' \<in> set argv \<or> b = ''checkout'')
            | _ \<Rightarrow> False)
      then policy_decision_new Deny KindRunCommand ''destructive-or-interpreter'' ''destructive'' ''block''
      else if first \<in> {''curl'', ''wget''}
         \<or> (case argv of a # b # _ \<Rightarrow> a = ''git'' \<and> b = ''clone'' \<or> a = ''cargo'' \<and> b = ''add'' | _ \<Rightarrow> False)
      then policy_decision_new Ask KindNetworkDownload ''network-or-dependency'' ''network'' ''approval''
      else if is_general_read_only argv \<or> is_ok (validate_patch_verification_argv argv)
      then policy_decision_new Allow KindRunCommand ''read-only-or-verification'' ''read only'' ''none''
      else policy_decision_new Ask KindRunCommand ''unknown-side-effect'' ''unknown'' ''approval'')"

definition classify_command :: "string \<Rightarrow> policy_decision result" where
  "classify_command command =
     rbind (parse_exact_argv command) (\<lambda>parsed. Inr (classify_argv (pc_argv parsed)))"

section \<open>The local agent's commands (command/local.rs)\<close>

definition valid_relative_token :: "string \<Rightarrow> bool" where
  "valid_relative_token value \<longleftrightarrow> value \<noteq> [] \<and> \<not> starts_with ''-'' value \<and> \<not> starts_with ''/'' value
     \<and> \<not> starts_with [CHR 0x5C] value \<and> CHR 0x5C \<notin> set value
     \<and> (value = ''.'' \<or> \<not> list_ex (\<lambda>part. part = [] \<or> part = ''.'' \<or> part = ''..'') (path_parts value))"

definition validate_rg_search :: "string list \<Rightarrow> bool" where
  "validate_rg_search rest0 =
     (let rest = (case rest0 of flag # r \<Rightarrow> if flag = ''-i'' then r else rest0 | [] \<Rightarrow> rest0) in
      case rest of
        flag # separator # needle # paths \<Rightarrow>
          flag = ''-F'' \<and> separator = ''--'' \<and> needle \<noteq> [] \<and> list_all valid_relative_token paths
      | _ \<Rightarrow> False)"

text \<open>\<open>str::parse::<u16>\<close>: an optional plus sign and decimal digits, below 65536.\<close>

definition parse_u16 :: "string \<Rightarrow> nat option" where
  "parse_u16 s =
     (let digits = (if starts_with ''+'' s then tl s else s) in
      if digits = [] \<or> \<not> list_all is_ascii_digit digits \<or> \<not> read_digits digits < 65536 then None
      else Some (read_digits digits))"

definition valid_line_count :: "string \<Rightarrow> bool" where
  "valid_line_count number =
     (case parse_u16 number of None \<Rightarrow> False | Some n \<Rightarrow> 1 \<le> n \<and> n \<le> 200)"

text \<open>The arms of the match in \<open>validate_local_read_only_argv\<close>, tried in order.\<close>

definition local_argv_valid :: "string list \<Rightarrow> bool" where
  "local_argv_valid argv =
     (if length argv = 1 then argv ! 0 \<in> {''pwd'', ''ls''}
      else if 2 \<le> length argv \<and> argv ! 0 = ''git'' \<and> argv ! 1 = ''status'' then
        (let options = drop 2 argv in
         options = [] \<or> options = [''--short''] \<or> options = [''--branch'']
         \<or> options = [''--short'', ''--branch''] \<or> options = [''--branch'', ''--short''])
      else if 3 \<le> length argv \<and> argv ! 0 = ''git'' \<and> argv ! 1 = ''diff''
         \<and> argv ! 2 \<in> {''--stat'', ''--name-only''} then
        (let rest = drop 3 argv in
         rest = [] \<or> hd rest = ''--'' \<and> 1 < length rest \<and> list_all valid_relative_token (tl rest))
      else if argv = [''rg'', ''--files''] then True
      else if length argv = 4 \<and> argv ! 0 = ''rg'' \<and> argv ! 1 = ''--files'' \<and> argv ! 2 = ''--''
      then valid_relative_token (argv ! 3)
      else if 2 \<le> length argv \<and> argv ! 0 = ''rg'' \<and> argv ! 1 = ''-n'' then validate_rg_search (drop 2 argv)
      else if length argv = 5 \<and> argv ! 0 \<in> {''head'', ''tail''} \<and> argv ! 1 = ''-n'' \<and> argv ! 3 = ''--''
      then valid_line_count (argv ! 2) \<and> valid_relative_token (argv ! 4)
      else if 3 \<le> length argv \<and> argv ! 0 = ''wc'' \<and> argv ! 1 = ''-l'' \<and> argv ! 2 = ''--''
      then drop 3 argv \<noteq> [] \<and> list_all valid_relative_token (drop 3 argv)
      else False)"

definition validate_local_read_only_argv :: "string list \<Rightarrow> unit result" where
  "validate_local_read_only_argv argv =
     (if local_argv_valid argv then Inr ()
      else Inl (blocked_error ''local read-only command: grammar'' []))"

definition local_argv_value :: "json \<Rightarrow> string result" where
  "local_argv_value v =
     (case v of
        JString value \<Rightarrow>
          if value \<noteq> [] \<and> CHR 0x00 \<notin> set value \<and> \<not> list_ex is_shell_metacharacter value
          then Inr value else Inl (blocked_error ''local read-only command: argv value'' [])
      | _ \<Rightarrow> Inl (blocked_error ''local read-only command: argv value'' []))"

definition parse_local_read_only_command :: "string \<Rightarrow> parsed_command result" where
  "parse_local_read_only_command input =
     rbind (parse_value (trim input) ''local command argv'') (\<lambda>v.
       case v of
         JArray values \<Rightarrow>
           rbind (traverse local_argv_value values) (\<lambda>argv.
           rbind (validate_local_read_only_argv argv) (\<lambda>_.
             Inr \<lparr>pc_display = join '' '' argv, pc_argv = argv\<rparr>))
       | _ \<Rightarrow> Inl (blocked_error ''local read-only command: not an array'' []))"

end
