(* ===== verification/Policy_Properties.thy ===== *)
theory Policy_Properties
  imports Policy Redaction Json_Properties
begin

text \<open>
  What the policy promises: the commands of the local agent stay inside the project, a command
  run without approval is a read or a cargo check, a path in the project is the only one that
  is not denied, and redaction leaves no secret word. Three theorems show where it does not
  reach: values that look like options, a plus sign in a line count, and split assignments.
\<close>

section \<open>Helper lemmas\<close>

lemma path_components_no_parent:
  assumes "value = ''.'' \<or> ''..'' \<notin> set (path_parts value)"
  shows "ParentDir \<notin> set (path_components value)"
  using assms by (auto simp: path_components_def Let_def component_of_def path_parts_def split: if_splits)

lemma valid_relative_token_inside:
  assumes "valid_relative_token v"
  shows "ParentDir \<notin> set (path_components v)" "\<not> is_absolute v"
  using assms path_components_no_parent [of v]
  by (auto simp: valid_relative_token_def list_ex_iff is_absolute_def)

definition inside_token :: "string \<Rightarrow> bool" where
  "inside_token a \<longleftrightarrow> ParentDir \<notin> set (path_components a) \<and> \<not> is_absolute a"

lemma inside_token_relative: "valid_relative_token v \<Longrightarrow> inside_token v"
  by (simp add: inside_token_def valid_relative_token_inside)

lemma inside_token_plain: "CHR ''/'' \<notin> set a \<Longrightarrow> a \<noteq> ''..'' \<Longrightarrow> inside_token a"
proof -
  assume a: "CHR ''/'' \<notin> set a" "a \<noteq> ''..''"
  then have "path_parts a = [a]" by (auto simp: path_parts_def intro!: split_on_clean)
  then have "ParentDir \<notin> set (path_components a)" using a(2) by (intro path_components_no_parent) simp
  moreover have "\<not> is_absolute a" using a(1) by (auto simp: is_absolute_def starts_with_iff)
  ultimately show ?thesis by (simp add: inside_token_def)
qed

lemma inside_token_words:
  "list_all inside_token [''pwd'', ''ls'', ''git'', ''status'', ''--short'', ''--branch'', ''diff'', ''--stat'',
     ''--name-only'', ''--'', ''rg'', ''--files'', ''-n'', ''-i'', ''-F'', ''head'', ''tail'', ''wc'', ''-l'']"
  by (simp add: inside_token_plain)

lemma valid_line_count_inside: "valid_line_count n \<Longrightarrow> inside_token n"
proof (rule inside_token_plain)
  assume "valid_line_count n"
  then have d: "list_all is_ascii_digit (if starts_with ''+'' n then tl n else n)"
    "(if starts_with ''+'' n then tl n else n) \<noteq> []"
    by (auto simp: valid_line_count_def parse_u16_def Let_def split: option.splits if_splits)
  have slash: "\<not> is_ascii_digit (CHR ''/'')" "\<not> is_ascii_digit (CHR ''.'')" by (simp_all add: is_ascii_digit_def)
  show "CHR ''/'' \<notin> set n" using d slash by (cases n) (auto simp: list_all_iff starts_with_iff split: if_splits)
  show "n \<noteq> ''..''" using d slash by (auto simp: starts_with_iff)
qed

lemma two_first: "2 \<le> length xs \<Longrightarrow> xs = xs ! 0 # xs ! 1 # drop 2 xs"
  by (cases xs; cases "tl xs") auto

lemma three_first: "3 \<le> length xs \<Longrightarrow> xs = xs ! 0 # xs ! 1 # xs ! 2 # drop 3 xs"
  by (cases xs; cases "tl xs"; cases "tl (tl xs)") (auto simp: numeral_3_eq_3)

lemma inside_tokens: "list_all valid_relative_token us \<Longrightarrow> list_all inside_token us"
  by (auto simp: list_all_iff inside_token_relative)

text \<open>The command forms of \<open>local.rs\<close>, the search form apart.\<close>

lemma local_forms:
  assumes "local_argv_valid argv" "\<not> (2 \<le> length argv \<and> argv ! 0 = ''rg'' \<and> argv ! 1 = ''-n'')"
  shows "list_all inside_token argv
    \<and> hd argv \<in> {''pwd'', ''ls'', ''git'', ''rg'', ''head'', ''tail'', ''wc''}"
proof -
  note words = inside_token_words [simplified]
  consider (one) x where "argv = [x]" | (more) a b r where "argv = a # b # r"
    using assms(1) by (cases argv; cases "tl argv") (auto simp: local_argv_valid_def)
  then show ?thesis
  proof cases
    case one
    with assms(1) words show ?thesis by (auto simp: local_argv_valid_def)
  next
    case more
    have t: "list_all inside_token (drop n r)" if "list_all valid_relative_token (drop n r)" for n
      using that by (rule inside_tokens)
    from more assms(2) have ng: "\<not> (a = ''rg'' \<and> b = ''-n'')" by simp
    consider (status) "a = ''git''" "b = ''status''" | (diff) "a = ''git''" "b = ''diff''"
      | (files) "a = ''rg''" "b = ''--files''" | (lines) "a \<in> {''head'', ''tail''}" "b = ''-n''"
      | (count) "a = ''wc''" "b = ''-l''"
      using assms(1) ng by (auto simp: more local_argv_valid_def Let_def split: if_splits)
    then show ?thesis
    proof cases
      case status
      with assms(1) words show ?thesis by (auto simp: more local_argv_valid_def Let_def)
    next
      case diff
      with assms(1) have "r \<noteq> []" "hd r \<in> {''--stat'', ''--name-only''}"
        "tl r = [] \<or> hd (tl r) = ''--'' \<and> list_all valid_relative_token (tl (tl r))"
        by (cases r; auto simp: more local_argv_valid_def Let_def numeral_3_eq_3 split: if_splits)+
      with words show ?thesis by (cases r; cases "tl r") (auto simp: more diff inside_tokens)
    next
      case files
      with assms(1) words show ?thesis
        by (cases r; cases "tl r") (auto simp: more local_argv_valid_def inside_token_relative length_Suc_conv
            eval_nat_numeral split: if_splits)
    next
      case lines
      with assms(1) words show ?thesis
        by (auto simp: more local_argv_valid_def inside_token_relative valid_line_count_inside length_Suc_conv
            eval_nat_numeral split: if_splits)
    next
      case count
      with assms(1) words show ?thesis
        by (cases r) (auto simp: more local_argv_valid_def inside_tokens numeral_3_eq_3 split: if_splits)
    qed
  qed
qed

lemma search_form:
  assumes "local_argv_valid (''rg'' # ''-n'' # r)"
  shows "\<exists>pre needle paths. ''rg'' # ''-n'' # r = pre @ needle # paths
    \<and> pre \<in> {[''rg'', ''-n'', ''-F'', ''--''], [''rg'', ''-n'', ''-i'', ''-F'', ''--'']}
    \<and> list_all valid_relative_token paths"
proof -
  from assms have "validate_rg_search r" by (auto simp: local_argv_valid_def eval_nat_numeral length_Suc_conv split: if_splits)
  then consider (plain) needle paths where "r = ''-F'' # ''--'' # needle # paths" "list_all valid_relative_token paths"
    | (folded) needle paths where "r = ''-i'' # ''-F'' # ''--'' # needle # paths" "list_all valid_relative_token paths"
    by (cases "hd r = ''-i''") (auto simp: validate_rg_search_def Let_def split: list.splits if_splits)
  then show ?thesis
  proof cases
    case plain
    then show ?thesis by (intro exI [of _ "[''rg'', ''-n'', ''-F'', ''--'']"] exI [of _ needle] exI [of _ paths]) simp
  next
    case folded
    then show ?thesis
      by (intro exI [of _ "[''rg'', ''-n'', ''-i'', ''-F'', ''--'']"] exI [of _ needle] exI [of _ paths]) simp
  qed
qed

definition outside_token :: "string \<Rightarrow> bool" where
  "outside_token a \<longleftrightarrow> ParentDir \<in> set (path_components a) \<or> is_absolute a"

lemma outside_token_iff: "outside_token a \<longleftrightarrow> \<not> inside_token a"
  by (auto simp: outside_token_def inside_token_def)

lemma local_argv_outside:
  assumes "local_argv_valid argv" "i < length argv" "outside_token (argv ! i)"
  shows "argv ! 0 = ''rg'' \<and> 3 \<le> i \<and> argv ! (i - 1) = ''--'' \<and> argv ! (i - 2) = ''-F''"
proof (cases "2 \<le> length argv \<and> argv ! 0 = ''rg'' \<and> argv ! 1 = ''-n''")
  case False
  with local_forms [OF assms(1)] have "inside_token (argv ! i)" using assms(2) by (simp add: list_all_length)
  with assms(3) show ?thesis by (simp add: outside_token_iff)
next
  case True
  then obtain r where argv: "argv = ''rg'' # ''-n'' # r" using two_first by metis
  from search_form [of r] assms(1) obtain pre needle paths where f: "argv = pre @ needle # paths"
    "pre \<in> {[''rg'', ''-n'', ''-F'', ''--''], [''rg'', ''-n'', ''-i'', ''-F'', ''--'']}"
    "list_all inside_token paths" by (auto simp: argv dest: inside_tokens)
  have "i = length pre"
  proof (rule ccontr)
    assume "i \<noteq> length pre"
    then consider "i < length pre" | "length pre < i" by linarith
    then have "inside_token (argv ! i)"
    proof cases
      case 1
      have "list_all inside_token pre" using f(2) inside_token_words by auto
      with 1 show ?thesis by (simp add: f(1) nth_append list_all_length)
    next
      case 2
      then have "argv ! i = paths ! (i - length pre - 1)" "i - length pre - 1 < length paths"
        using assms(2) by (auto simp: f(1) nth_append nth_Cons')
      with f(3) show ?thesis by (simp add: list_all_length)
    qed
    with assms(3) show False by (simp add: outside_token_iff)
  qed
  with f show ?thesis by (auto simp: nth_append eval_nat_numeral)
qed

definition clean_argument :: "string \<Rightarrow> bool" where
  "clean_argument a \<longleftrightarrow> a \<noteq> [] \<and> CHR 0x00 \<notin> set a \<and> \<not> list_ex is_shell_metacharacter a"

lemma local_argv_value_clean: "local_argv_value v = Inr a \<Longrightarrow> clean_argument a"
  by (auto simp: local_argv_value_def clean_argument_def split: json.splits if_splits)

lemma parse_local_unfold:
  assumes "parse_local_read_only_command input = Inr p"
  shows "local_argv_valid (pc_argv p) \<and> list_all clean_argument (pc_argv p)
    \<and> pc_display p = join '' '' (pc_argv p)"
proof -
  from assms obtain v where "parse_value (trim input) ''local command argv'' = Inr v"
    by (auto simp: parse_local_read_only_command_def rbind_Inr_iff)
  with assms obtain vs argv where "traverse local_argv_value vs = Inr argv"
    "validate_local_read_only_argv argv = Inr ()" "p = \<lparr>pc_display = join '' '' argv, pc_argv = argv\<rparr>"
    by (cases v) (auto simp: parse_local_read_only_command_def rbind_Inr_iff)
  then show ?thesis
    by (auto simp: traverse_Inr_iff validate_local_read_only_argv_def list_all2_conv_all_nth list_all_length
        local_argv_value_clean split: if_splits)
qed

section \<open>Commands of the local agent\<close>

text \<open>The JSON text of an argv of plain strings, for the witnesses.\<close>

definition argv_text :: "string list \<Rightarrow> string" where
  "argv_text argv = render_compact (JArray (map JString argv))"

lemma render_plain: "list_all plain_char w \<Longrightarrow> render_string w = quoted w"
  using plain_key_chars by (simp add: plain_key_def)

lemma join_Cons: "join d (w # us) = w @ (if us = [] then [] else d @ join d us)"
  by (cases us) simp_all

lemma render_plain_elements:
  "list_all (list_all plain_char) argv \<Longrightarrow> render_elements (map JString argv) = join '','' (map quoted argv)"
  by (induction argv) (simp_all add: render_plain join_Cons)

lemma plain_argv_parses:
  assumes "list_all (list_all plain_char) argv"
  shows "parse_value (argv_text argv) ctxt = Inr (JArray (map JString argv))" "trim (argv_text argv) = argv_text argv"
proof -
  have u: "list_all utf8_valid argv"
    using assms plain_key_chars by (auto simp: list_all_iff plain_key_def)
  then have "wf_elements (map JString argv)" by (induction argv) simp_all
  moreover have "json_depth (JArray (map JString argv)) \<le> 1" by (induction argv) simp_all
  ultimately show "parse_value (argv_text argv) ctxt = Inr (JArray (map JString argv))"
    by (simp add: argv_text_def parse_value_render wf_at_def max_json_nesting_depth_def)
  have "all_ascii (join '','' (map quoted argv))" using assms
    by (induction argv) (auto simp: join_Cons all_ascii_def quoted_def list_all_iff plain_char_def)
  then show "trim (argv_text argv) = argv_text argv"
    using assms by (intro trim_ascii)
      (simp_all add: argv_text_def render_compact_def render_plain_elements all_ascii_def is_whitespace_def)
qed

lemma plain_argv_command:
  assumes "list_all (list_all plain_char) argv" "list_all clean_argument argv"
  shows "parse_local_read_only_command (argv_text argv) =
    (if local_argv_valid argv then Inr \<lparr>pc_display = join '' '' argv, pc_argv = argv\<rparr>
     else Inl (blocked_error ''local read-only command: grammar'' []))"
proof -
  have "traverse local_argv_value (map JString argv) = Inr argv"
    using assms(2) by (auto simp: traverse_Inr_iff list_all2_conv_all_nth list_all_length local_argv_value_def clean_argument_def)
  then show ?thesis
    using plain_argv_parses [OF assms(1)]
    by (simp add: parse_local_read_only_command_def validate_local_read_only_argv_def)
qed

text \<open>
  C16 A command the local agent may run starts one of seven read-only programs, none of its
  arguments is empty or holds a shell metacharacter or NUL, and no argument is an absolute path
  or climbs out of the project, except the text that \<open>rg -F --\<close> searches for literally.
\<close>

theorem local_command_confined:
  assumes "parse_local_read_only_command input = Inr p"
  shows "hd (pc_argv p) \<in> {''pwd'', ''ls'', ''git'', ''rg'', ''head'', ''tail'', ''wc''}
    \<and> list_all clean_argument (pc_argv p)
    \<and> (\<forall>i<length (pc_argv p). outside_token (pc_argv p ! i) \<longrightarrow>
         pc_argv p ! 0 = ''rg'' \<and> 3 \<le> i \<and> pc_argv p ! (i - 1) = ''--'' \<and> pc_argv p ! (i - 2) = ''-F'')"
proof -
  from parse_local_unfold [OF assms] have v: "local_argv_valid (pc_argv p)" "list_all clean_argument (pc_argv p)"
    by simp_all
  have "hd (pc_argv p) \<in> {''pwd'', ''ls'', ''git'', ''rg'', ''head'', ''tail'', ''wc''}"
  proof (cases "2 \<le> length (pc_argv p) \<and> pc_argv p ! 0 = ''rg'' \<and> pc_argv p ! 1 = ''-n''")
    case True
    then have "hd (pc_argv p) = ''rg''" by (metis two_first list.sel(1))
    then show ?thesis by simp
  qed (use local_forms [OF v(1)] in blast)
  with v(2) local_argv_outside [OF v(1)] show ?thesis by blast
qed

lemma wit_search: "parse_local_read_only_command (argv_text [''rg'', ''-n'', ''-F'', ''--'', ''/etc'', ''src'']) =
    Inr \<lparr>pc_display = ''rg -n -F -- /etc src'', pc_argv = [''rg'', ''-n'', ''-F'', ''--'', ''/etc'', ''src'']\<rparr>"
  by (subst plain_argv_command)
    (simp_all add: plain_char_def clean_argument_def is_shell_metacharacter_def argv_metacharacters_def
      local_argv_valid_def validate_rg_search_def valid_relative_token_def starts_with_def path_parts_def)

lemma local_command_confined_witness:
  "hd [''rg'', ''-n'', ''-F'', ''--'', ''/etc'', ''src''] \<in> {''pwd'', ''ls'', ''git'', ''rg'', ''head'', ''tail'', ''wc''}
   \<and> outside_token ''/etc'' \<and> clean_argument ''/etc''"
  using local_command_confined [OF wit_search]
  by (simp add: outside_token_def is_absolute_def starts_with_def)

text \<open>
  A finding: \<open>str::parse::<u16>\<close> accepts a plus sign, so the bound of 200 lines lets
  \<open>tail -n +1\<close> through, which prints the whole file.
\<close>

lemma tail_plus_prints_all: "local_argv_valid [''tail'', ''-n'', ''+1'', ''--'', ''a'']"
proof -
  have "valid_line_count ''+1''"
    by (simp add: valid_line_count_def parse_u16_def starts_with_def is_ascii_digit_def read_digits_def
        digit_value_def)
  then show ?thesis by (simp add: local_argv_valid_def valid_relative_token_def starts_with_def path_parts_def)
qed

section \<open>Exact commands\<close>

lemma split_on_subset: "w \<in> set (split_on P s) \<Longrightarrow> set w \<subseteq> set s"
proof (induction s arbitrary: w)
  case (Cons c s)
  then show ?case by (cases "split_on P s") (auto split: if_splits, blast+)
qed simp

lemma parse_exact_argv_unfold:
  assumes "parse_exact_argv command = Inr p"
  shows "pc_argv p = split_ascii_whitespace (trim command)
    \<and> list_all (\<lambda>a. a \<noteq> [] \<and> \<not> list_ex is_shell_metacharacter a) (pc_argv p)"
proof -
  from assms have p: "pc_argv p = split_ascii_whitespace (trim command)"
    "\<not> list_ex is_shell_metacharacter (trim command)"
    by (auto simp: parse_exact_argv_def Let_def split: if_splits)
  have "a \<noteq> [] \<and> \<not> list_ex is_shell_metacharacter a" if "a \<in> set (pc_argv p)" for a
  proof -
    from that have "a \<in> set (split_on is_ascii_whitespace (trim command))" "a \<noteq> []"
      by (simp_all add: p(1) split_ascii_whitespace_def)
    with split_on_subset [OF this(1)] p(2) show ?thesis by (auto simp: list_ex_iff)
  qed
  with p(1) show ?thesis by (simp add: list_all_iff)
qed

lemma cargo_args_positions:
  "cargo_args args = Inr () \<Longrightarrow> i < length args \<Longrightarrow> cargo_allowed (args ! i) \<and> \<not> cargo_forbidden (args ! i)
     \<or> 0 < i \<and> cargo_takes_value (args ! (i - 1)) \<and> safe_identifier (args ! i)"
proof (induction args arbitrary: i rule: cargo_args.induct)
  case (2 arg args)
  show ?case
  proof (cases i)
    case (Suc j)
    show ?thesis
    proof (cases "cargo_takes_value arg")
      case True
      with "2.prems"(1) obtain v r where r: "args = v # r" "safe_identifier v" "cargo_args r = Inr ()"
        by (auto split: if_splits list.splits)
      from "2.prems"(1) have ok: "\<not> cargo_forbidden arg" "cargo_allowed arg" by (auto split: if_splits)
      show ?thesis
      proof (cases j)
        case 0
        with Suc r True show ?thesis by simp
      next
        case (Suc k)
        have "k < length r" using "2.prems"(2) r \<open>i = Suc j\<close> Suc by simp
        from "2.IH"(1) [OF ok(1) _ True r(1) _ r(3) this] ok r Suc \<open>i = Suc j\<close>
        show ?thesis by (cases k) auto
      qed
    next
      case False
      with "2.prems" have "cargo_args args = Inr ()" "j < length args" "\<not> cargo_forbidden arg" "cargo_allowed arg"
        using Suc by (auto split: if_splits)
      with "2.IH"(2) [of j] False Suc show ?thesis by (cases j) auto
    qed
  qed (use "2.prems" in \<open>auto split: if_splits\<close>)
qed simp

text \<open>
  C17 A command that runs without approval is split at white space into non-empty arguments
  without shell metacharacters, and is a fixed status command, a file reading program, or a
  cargo check whose arguments are allowed flags and the values of those that take one.
\<close>

theorem command_allowed_shape:
  assumes "classify_command command = Inr d" "pd_decision d = Allow"
  shows "\<exists>argv. argv = split_ascii_whitespace (trim command)
    \<and> list_all (\<lambda>a. a \<noteq> [] \<and> \<not> list_ex is_shell_metacharacter a) argv
    \<and> hd argv \<notin> set denied_commands
    \<and> (argv \<in> {[''pwd''], [''ls''], [''git''], [''git'', ''status''], [''git'', ''diff''],
           [''cargo'', ''fmt'', ''--'', ''--check'']}
       \<or> hd argv \<in> {''rg'', ''head'', ''tail'', ''wc''}
       \<or> (\<exists>sub args. argv = ''cargo'' # sub # args \<and> sub \<in> {''test'', ''check'', ''clippy''}
            \<and> (\<forall>i<length args. cargo_allowed (args ! i) \<and> \<not> cargo_forbidden (args ! i)
                 \<or> 0 < i \<and> cargo_takes_value (args ! (i - 1)) \<and> safe_identifier (args ! i))))"
proof -
  from assms(1) obtain p where p: "parse_exact_argv command = Inr p" "d = classify_argv (pc_argv p)"
    by (auto simp: classify_command_def rbind_Inr_iff)
  define argv where "argv = pc_argv p"
  from assms(2) p(2) have den: "hd argv \<notin> set denied_commands"
    and ok: "is_general_read_only argv \<or> validate_patch_verification_argv argv = Inr ()"
    by (auto simp: classify_argv_def Let_def policy_decision_new_def argv_def is_ok_iff split: if_splits)
  from ok have "argv \<in> {[''pwd''], [''ls''], [''git''], [''git'', ''status''], [''git'', ''diff''],
           [''cargo'', ''fmt'', ''--'', ''--check'']}
       \<or> hd argv \<in> {''rg'', ''head'', ''tail'', ''wc''}
       \<or> (\<exists>sub args. argv = ''cargo'' # sub # args \<and> sub \<in> {''test'', ''check'', ''clippy''} \<and> cargo_args args = Inr ())"
  proof
    assume "is_general_read_only argv"
    then show ?thesis by (cases argv; cases "tl argv"; cases "tl (tl argv)") (auto simp: is_general_read_only_def)
  next
    assume "validate_patch_verification_argv argv = Inr ()"
    then show ?thesis
      by (cases argv; cases "tl argv") (auto simp: validate_patch_verification_argv_def split: if_splits)
  qed
  with den parse_exact_argv_unfold [OF p(1)] cargo_args_positions show ?thesis
    unfolding argv_def by (intro exI [of _ "pc_argv p"]) blast
qed

lemma command_allowed_shape_witness:
  "list_all (\<lambda>a. a \<noteq> [] \<and> \<not> list_ex is_shell_metacharacter a) (split_ascii_whitespace (trim ''cargo test --lib''))"
proof -
  have "classify_command ''cargo test --lib'' =
      Inr (policy_decision_new Allow KindRunCommand ''read-only-or-verification'' ''read only'' ''none'')"
    by (simp add: classify_command_def parse_exact_argv_def trim_ascii all_ascii_def is_whitespace_def
        is_shell_metacharacter_def argv_metacharacters_def split_ascii_whitespace_def is_ascii_whitespace_def
        classify_argv_def denied_commands_def is_general_read_only_def validate_patch_verification_argv_def
        cargo_forbidden_def cargo_allowed_def cargo_takes_value_def starts_with_def)
  from command_allowed_shape [OF this] show ?thesis by (auto simp: policy_decision_new_def)
qed

text \<open>
  The general classification allows \<open>rg\<close> with any arguments, so also the option that names a
  program to run on every file.
\<close>

lemma rg_preprocessor_allowed:
  "pd_decision (classify_argv [''rg'', ''--pre'', ''sh'', ''x'', ''a'']) = Allow"
  by (simp add: classify_argv_def denied_commands_def is_general_read_only_def policy_decision_new_def)

text \<open>
  A finding: the value of \<open>--bin\<close>, \<open>--test\<close> or \<open>--example\<close> may itself be an option, and cargo
  reads it as one. So \<open>cargo clippy --bin --fix\<close>, which rewrites sources, needs no approval,
  and \<open>cargo test --bin -pother\<close> selects another package although \<open>-p\<close> is refused.
\<close>

lemma cargo_value_may_be_option:
  "validate_patch_verification_argv [''cargo'', ''clippy'', ''--bin'', ''--fix''] = Inr ()"
  "validate_patch_verification_argv [''cargo'', ''test'', ''--bin'', ''-pother''] = Inr ()"
  by (simp_all add: validate_patch_verification_argv_def cargo_forbidden_def cargo_allowed_def
      cargo_takes_value_def starts_with_def safe_identifier_def is_ascii_alphanumeric_def
      is_ascii_lowercase_def is_ascii_digit_def is_ascii_uppercase_def)

section \<open>Paths\<close>

text \<open>
  C18 A path that is not denied has no parent component, and its resolved target lies under the
  resolved project root, component by component, outside the excluded names; a read is then
  allowed and a write is only asked for.
\<close>

theorem classify_path_bounded:
  assumes "classify_path port mode raw = Inr d" "pd_decision d \<noteq> Deny"
  shows "\<exists>root target rest. pp_canonical_project_root port = Inr root
    \<and> pp_normalize_existing_or_parent port (if is_absolute raw then raw else path_join root raw) = Inr target
    \<and> path_components target = path_components root @ rest
    \<and> \<not> is_excluded_path target \<and> ParentDir \<notin> set (path_components raw)
    \<and> pd_decision d = (case mode of PathRead \<Rightarrow> Allow | PathWrite \<Rightarrow> Ask)
    \<and> pd_action_kind d = action_for_mode mode"
proof -
  from assms obtain root target where r: "pp_canonical_project_root port = Inr root"
    "pp_normalize_existing_or_parent port (if is_absolute raw then raw else path_join root raw) = Inr target"
    "path_starts_with target root" "\<not> is_excluded_path target" "ParentDir \<notin> set (path_components raw)"
    "pd_decision d = (case mode of PathRead \<Rightarrow> Allow | PathWrite \<Rightarrow> Ask)" "pd_action_kind d = action_for_mode mode"
    by (cases mode; cases "is_absolute raw") (auto simp: classify_path_def rbind_Inr_iff Let_def list_ex_iff policy_decision_new_def
        action_for_mode_def split: if_splits)
  then have "path_components target = path_components root @ drop (length (path_components root)) (path_components target)"
    unfolding path_starts_with_def by (metis append_take_drop_id)
  with r show ?thesis by blast
qed

definition wit_paths :: path_port where
  "wit_paths = \<lparr>pp_canonical_project_root = Inr ''/p'', pp_normalize_existing_or_parent = Inr\<rparr>"

lemma wit_path: "classify_path wit_paths PathWrite ''src'' =
    Inr (policy_decision_new Ask KindWriteFile ''project-write'' ''diff and approval'' ''approval'')"
  by (simp add: classify_path_def wit_paths_def trim_ascii all_ascii_def is_whitespace_def path_components_def
      path_parts_def is_absolute_def starts_with_def component_of_def path_join_def ends_with_def
      path_starts_with_def is_excluded_path_def contains_any_def excluded_needles_def to_ascii_lowercase_def
      is_ascii_uppercase_def)

lemma classify_path_bounded_witness:
  "\<exists>rest. path_components ''/p/src'' = path_components ''/p'' @ rest"
  using classify_path_bounded [OF wit_path]
  by (auto simp: policy_decision_new_def wit_paths_def is_absolute_def starts_with_def path_join_def ends_with_def)

text \<open>A finding: the needles end in a slash, so the directory \<open>.git\<close> itself is not excluded.\<close>

lemma excluded_directory_itself: "\<not> is_excluded_path ''/p/.git'' \<and> is_excluded_path ''/p/.git/config''"
  by (simp add: is_excluded_path_def contains_any_def excluded_needles_def to_ascii_lowercase_def
      is_ascii_uppercase_def starts_with_def)

section \<open>Redaction\<close>

text \<open>
  C19 Redaction leaves no word that is secret on its own or the word \<open>bearer\<close>, and redacting a
  redacted text changes nothing.
\<close>

theorem redact_text_stable:
  assumes "utf8_valid v"
  shows "redact_text (redact_text v) = redact_text v
    \<and> (\<forall>w\<in>set (split_whitespace (redact_text v)).
         w = redacted_mark \<or> \<not> contains_sensitive_text w \<and> \<not> eq_ignore_ascii_case w ''bearer'')"
proof -
  let ?ps = "redact_parts None (split_whitespace v)"
  have h: "list_all harmless ?ps" by (rule redact_parts_harmless)
  have "redact_text (redact_text v) = join '' '' (redact_parts None ?ps)"
    by (simp add: redact_text_def [of "redact_text v"] split_redact_text [OF assms])
  also have "\<dots> = redact_text v" using h by (simp add: redact_parts_idem redact_text_def)
  finally show ?thesis using h by (auto simp: split_redact_text [OF assms] list_all_iff harmless_def)
qed

lemma redact_text_stable_witness: "redact_text (redact_text ''Bearer abc'') = redact_text ''Bearer abc''"
  using redact_text_stable [of "''Bearer abc''"] by (simp add: all_ascii_valid all_ascii_def)

lemma split_words_ascii:
  "all_ascii a \<Longrightarrow> list_all (\<lambda>c. \<not> is_whitespace (byte c)) a \<Longrightarrow> all_ascii b \<Longrightarrow> list_all (\<lambda>c. \<not> is_whitespace (byte c)) b
   \<Longrightarrow> a \<noteq> [] \<Longrightarrow> b \<noteq> [] \<Longrightarrow> split_whitespace (a @ '' '' @ b) = [a, b]"
  using split_whitespace_join [of "[a, b]"] by (simp add: word_text_ascii)

text \<open>
  A finding: the detection sees an assignment over white space, but redaction looks at one word
  at a time, so a value that does not touch its key is kept.
\<close>

lemma split_assignment_not_redacted:
  "contains_sensitive_text ''token: abc'' \<and> redact_text ''token: abc'' = ''token: abc''"
proof -
  have "split_whitespace (''token:'' @ '' '' @ ''abc'') = [''token:'', ''abc'']"
    by (rule split_words_ascii) (simp_all add: all_ascii_def is_whitespace_def)
  then have "redact_text ''token: abc'' = join '' '' (redact_parts None [''token:'', ''abc''])"
    by (simp add: redact_text_def)
  moreover have "\<not> contains_sensitive_text ''token:''" "\<not> contains_sensitive_text ''abc''"
    "contains_sensitive_text ''token: abc''"
    by (simp_all add: contains_sensitive_text_def sensitive_keys_def contains_sensitive_assignment_def
        contains_bounded_prefix_def match_indices_def starts_with_def assignment_follows_def trim_start_def
        to_ascii_lowercase_def is_ascii_uppercase_def bounded_before_def char_slices_ascii is_whitespace_def
        split_whitespace_def space_slice_def is_ascii_alphanumeric_def is_ascii_digit_def
        is_ascii_lowercase_def aws_key_part_def)
  moreover have "\<not> eq_ignore_ascii_case ''token:'' ''bearer''" "\<not> eq_ignore_ascii_case ''abc'' ''bearer''"
    by (simp_all add: eq_ignore_ascii_case_def to_ascii_lowercase_def is_ascii_uppercase_def)
  ultimately show ?thesis by simp
qed

end
