(* ===== verification/Workflow_Record.thy ===== *)
theory Workflow_Record
  imports Ledger_Codec
begin

text \<open>
  \<open>workflow/storage_compat/record.rs\<close> and its codec: the workflow record, the payload its
  artifact hash is taken of, its JSON snapshot in three schema versions, and the pointer file
  that names the committed revision. The records are written as lists of named texts, in the
  order of the format strings.
\<close>

section \<open>The record (record.rs)\<close>

record workflow_record =
  wr_workflow_id :: string
  wr_revision :: u64
  wr_previous_hash :: string
  wr_artifact_hash :: string
  wr_project_id :: string
  wr_session_id :: string
  wr_phase :: string
  wr_request_hash :: string
  wr_workflow_kind :: string
  wr_active_skill_id :: string
  wr_skill_invocation :: string
  wr_skill_state :: string
  wr_skill_completed_hooks :: string
  wr_skill_evidence :: string
  wr_skill_stop_criteria :: string
  wr_action_id :: string
  wr_action_kind :: string
  wr_action_status :: string
  wr_result_summary :: string
  wr_source_path :: string
  wr_source_hash :: string
  wr_find_text :: string
  wr_replace_text :: string
  wr_proposal_id :: string
  wr_proposal_hash :: string
  wr_approval_credential_hash :: string
  wr_before_hash :: string
  wr_after_hash :: string
  wr_verification_plan :: string
  wr_approval_state :: string
  wr_verification_credential_hash :: string
  wr_verification_approval_state :: string
  wr_evidence_id :: string
  wr_evidence_hash :: string
  wr_failure_reason :: string

definition workflow_record_new :: "hasher \<Rightarrow> u128 \<Rightarrow> runtime_identity \<Rightarrow> string \<Rightarrow> workflow_record" where
  "workflow_record_new sha now_ms identity request =
     (let nonce = ri_session_id identity @ [LF] @ request @ [LF] @ show_nat (unat now_ms);
          workflow_id = ''workflow-'' @ take 20 (sha256_bytes sha nonce)
      in
     \<lparr>wr_workflow_id = workflow_id, wr_revision = 0, wr_previous_hash = ''none'',
      wr_artifact_hash = [], wr_project_id = ri_project_id identity,
      wr_session_id = ri_session_id identity, wr_phase = ''model-pending'',
      wr_request_hash = sha256_bytes sha request, wr_workflow_kind = ''agent-run'',
      wr_active_skill_id = [], wr_skill_invocation = [], wr_skill_state = [],
      wr_skill_completed_hooks = [], wr_skill_evidence = [], wr_skill_stop_criteria = [],
      wr_action_id = ''action-'' @ take 20 (sha256_bytes sha (workflow_id @ [LF] @ ''action'')),
      wr_action_kind = ''unclassified'', wr_action_status = ''runtime-candidate'',
      wr_result_summary = [], wr_source_path = [], wr_source_hash = [], wr_find_text = [],
      wr_replace_text = [], wr_proposal_id = [], wr_proposal_hash = [],
      wr_approval_credential_hash = [], wr_before_hash = [], wr_after_hash = [],
      wr_verification_plan = [], wr_approval_state = ''not-requested'',
      wr_verification_credential_hash = [], wr_verification_approval_state = ''not-issued'',
      wr_evidence_id = [], wr_evidence_hash = [], wr_failure_reason = []\<rparr>)"

definition is_terminal :: "workflow_record \<Rightarrow> bool" where
  "is_terminal r = (wr_phase r \<in> {''complete'', ''failed'', ''cancelled''})"

section \<open>Versions (versions.rs)\<close>

definition workflow_v3_keys :: "string list" where
  "workflow_v3_keys =
    [''schema_version'', ''artifact_version'', ''workflow_id'', ''revision'', ''previous_hash'',
     ''artifact_hash'', ''project_id'', ''session_id'', ''phase'', ''request_hash'',
     ''workflow_kind'', ''action_id'', ''action_kind'', ''action_status'', ''result_summary'',
     ''source_path'', ''source_hash'', ''find_text'', ''replace_text'', ''proposal_id'',
     ''proposal_hash'', ''approval_credential_hash'', ''before_hash'', ''after_hash'',
     ''verification_plan'', ''approval_state'', ''verification_credential_hash'',
     ''verification_approval_state'', ''evidence_id'', ''evidence_hash'', ''failure_reason'']"

definition workflow_v4_keys :: "string list" where
  "workflow_v4_keys =
    [''schema_version'', ''artifact_version'', ''workflow_id'', ''revision'', ''previous_hash'',
     ''artifact_hash'', ''project_id'', ''session_id'', ''phase'', ''request_hash'',
     ''workflow_kind'', ''active_skill_id'', ''skill_invocation'', ''skill_state'',
     ''skill_completed_hooks'', ''skill_evidence'', ''skill_stop_criteria'', ''action_id'',
     ''action_kind'', ''action_status'', ''result_summary'', ''source_path'', ''source_hash'',
     ''find_text'', ''replace_text'', ''proposal_id'', ''proposal_hash'',
     ''approval_credential_hash'', ''before_hash'', ''after_hash'', ''verification_plan'',
     ''approval_state'', ''verification_credential_hash'', ''verification_approval_state'',
     ''evidence_id'', ''evidence_hash'', ''failure_reason'']"

definition workflow_v2_keys :: "string list" where
  "workflow_v2_keys =
    [''schema_version'', ''artifact_version'', ''workflow_id'', ''revision'', ''previous_hash'',
     ''artifact_hash'', ''project_id'', ''session_id'', ''phase'', ''request_hash'',
     ''workflow_kind'', ''action_id'', ''action_kind'', ''action_status'', ''result_summary'',
     ''source_path'', ''source_hash'', ''find_text'', ''replace_text'', ''proposal_id'',
     ''proposal_hash'', ''approval_credential_hash'', ''before_hash'', ''after_hash'',
     ''verification_plan'', ''approval_state'', ''evidence_id'', ''evidence_hash'',
     ''failure_reason'']"

section \<open>Payloads and rendering (payload.rs, render.rs)\<close>

definition owner_texts :: "workflow_record \<Rightarrow> (string \<times> string) list" where
  "owner_texts r =
    [(''project_id'', wr_project_id r), (''session_id'', wr_session_id r), (''phase'', wr_phase r),
     (''request_hash'', wr_request_hash r), (''workflow_kind'', wr_workflow_kind r)]"

definition skill_texts :: "workflow_record \<Rightarrow> (string \<times> string) list" where
  "skill_texts r =
    [(''active_skill_id'', wr_active_skill_id r), (''skill_invocation'', wr_skill_invocation r),
     (''skill_state'', wr_skill_state r), (''skill_completed_hooks'', wr_skill_completed_hooks r),
     (''skill_evidence'', wr_skill_evidence r), (''skill_stop_criteria'', wr_skill_stop_criteria r)]"

definition action_texts :: "workflow_record \<Rightarrow> (string \<times> string) list" where
  "action_texts r =
    [(''action_id'', wr_action_id r), (''action_kind'', wr_action_kind r),
     (''action_status'', wr_action_status r), (''result_summary'', wr_result_summary r),
     (''source_path'', wr_source_path r), (''source_hash'', wr_source_hash r),
     (''find_text'', wr_find_text r), (''replace_text'', wr_replace_text r),
     (''proposal_id'', wr_proposal_id r), (''proposal_hash'', wr_proposal_hash r),
     (''approval_credential_hash'', wr_approval_credential_hash r),
     (''before_hash'', wr_before_hash r), (''after_hash'', wr_after_hash r),
     (''verification_plan'', wr_verification_plan r), (''approval_state'', wr_approval_state r)]"

definition verification_texts :: "workflow_record \<Rightarrow> (string \<times> string) list" where
  "verification_texts r =
    [(''verification_credential_hash'', wr_verification_credential_hash r),
     (''verification_approval_state'', wr_verification_approval_state r)]"

definition evidence_texts :: "workflow_record \<Rightarrow> (string \<times> string) list" where
  "evidence_texts r =
    [(''evidence_id'', wr_evidence_id r), (''evidence_hash'', wr_evidence_hash r),
     (''failure_reason'', wr_failure_reason r)]"

definition field_lines :: "(string \<times> string) list \<Rightarrow> string" where
  "field_lines kvs = concat (map (\<lambda>(k, v). k @ ''='' @ v @ [LF]) kvs)"

definition payload_head :: "string \<Rightarrow> workflow_record \<Rightarrow> (string \<times> string) list" where
  "payload_head version r =
     [(''schema_version'', version), (''workflow_id'', wr_workflow_id r),
      (''revision'', show_nat (unat (wr_revision r))), (''previous_hash'', wr_previous_hash r)]"

definition payload :: "workflow_record \<Rightarrow> string" where
  "payload r = field_lines (payload_head ''4'' r @ owner_texts r @ skill_texts r @ action_texts r
     @ verification_texts r @ evidence_texts r)"

definition payload_v2 :: "workflow_record \<Rightarrow> string" where
  "payload_v2 r = field_lines (payload_head ''2'' r @ owner_texts r @ action_texts r @ evidence_texts r)"

definition payload_v3 :: "workflow_record \<Rightarrow> string" where
  "payload_v3 r = field_lines (payload_head ''3'' r @ owner_texts r @ action_texts r
     @ verification_texts r @ evidence_texts r)"

definition escaped_member :: "string \<times> string \<Rightarrow> string \<times> string" where
  "escaped_member m = (fst m, quoted (escape_string_content (snd m)))"

definition record_members :: "workflow_record \<Rightarrow> (string \<times> string) list" where
  "record_members r =
     [(''schema_version'', ''4''), (''artifact_version'', quoted ''workflow-v4''),
      escaped_member (''workflow_id'', wr_workflow_id r),
      (''revision'', show_nat (unat (wr_revision r))),
      escaped_member (''previous_hash'', wr_previous_hash r),
      escaped_member (''artifact_hash'', wr_artifact_hash r)]
     @ map escaped_member (owner_texts r @ skill_texts r @ action_texts r @ verification_texts r
         @ evidence_texts r)"

definition render :: "workflow_record \<Rightarrow> string" where
  "render r = template line_layout (record_members r) @ [LF]"

section \<open>Snapshots (snapshot.rs)\<close>

text \<open>\<open>corrupt\<close> is the caller's error for a path; the path is also the parser's context.\<close>

definition version_keys :: "u64 \<Rightarrow> (string list \<times> string) option" where
  "version_keys schema =
     (if schema = 2 then Some (workflow_v2_keys, ''workflow-v2'')
      else if schema = 3 then Some (workflow_v3_keys, ''workflow-v3'')
      else if schema = 4 then Some (workflow_v4_keys, ''workflow-v4'')
      else None)"

definition or_corrupt :: "(string \<Rightarrow> app_error) \<Rightarrow> string \<Rightarrow> 'a result \<Rightarrow> 'a result" where
  "or_corrupt corrupt path r = map_err (\<lambda>_. corrupt path) r"

lemma or_corrupt_simps [simp]:
  "or_corrupt corrupt path (Inl e) = Inl (corrupt path)" "or_corrupt corrupt path (Inr v) = Inr v"
  by (simp_all add: or_corrupt_def)

lemma or_corrupt_Inr_iff: "or_corrupt corrupt path r = Inr v \<longleftrightarrow> r = Inr v"
  by (cases r) simp_all

definition snapshot_schema :: "(string \<Rightarrow> app_error) \<Rightarrow> string \<Rightarrow> string \<Rightarrow> u64 result" where
  "snapshot_schema corrupt path body =
     rbind (or_corrupt corrupt path (parse_object body workflow_v4_keys path)) (\<lambda>obj.
     rbind (or_corrupt corrupt path (json_number obj ''schema_version'' path)) (\<lambda>schema.
       case version_keys schema of
         None \<Rightarrow> Inl (corrupt path)
       | Some (keys, artifact_version) \<Rightarrow>
           if length obj \<noteq> length keys \<or> list_ex (\<lambda>key. \<not> object_contains_key key obj) keys
           then Inl (corrupt path)
           else rbind (or_corrupt corrupt path (json_string obj ''artifact_version'' path)) (\<lambda>v.
             if v \<noteq> artifact_version then Inl (corrupt path) else Inr schema)))"

text \<open>
  The record of the texts read: a text that the schema does not have is empty, or
  \<open>not-issued\<close>. Every failing \<open>text(key)?\<close> is the same error, so the texts are read in one
  traversal.
\<close>

definition text_keys :: "u64 \<Rightarrow> string list" where
  "text_keys schema =
     filter (\<lambda>k. k \<notin> {''schema_version'', ''artifact_version'', ''revision''})
       (case version_keys schema of None \<Rightarrow> [] | Some (keys, _) \<Rightarrow> keys)"

definition record_of_texts :: "u64 \<Rightarrow> u64 \<Rightarrow> (string \<Rightarrow> string) \<Rightarrow> workflow_record" where
  "record_of_texts schema revision f =
     \<lparr>wr_workflow_id = f ''workflow_id'', wr_revision = revision,
      wr_previous_hash = f ''previous_hash'', wr_artifact_hash = f ''artifact_hash'',
      wr_project_id = f ''project_id'', wr_session_id = f ''session_id'', wr_phase = f ''phase'',
      wr_request_hash = f ''request_hash'', wr_workflow_kind = f ''workflow_kind'',
      wr_active_skill_id = (if schema = 4 then f ''active_skill_id'' else []),
      wr_skill_invocation = (if schema = 4 then f ''skill_invocation'' else []),
      wr_skill_state = (if schema = 4 then f ''skill_state'' else []),
      wr_skill_completed_hooks = (if schema = 4 then f ''skill_completed_hooks'' else []),
      wr_skill_evidence = (if schema = 4 then f ''skill_evidence'' else []),
      wr_skill_stop_criteria = (if schema = 4 then f ''skill_stop_criteria'' else []),
      wr_action_id = f ''action_id'', wr_action_kind = f ''action_kind'',
      wr_action_status = f ''action_status'', wr_result_summary = f ''result_summary'',
      wr_source_path = f ''source_path'', wr_source_hash = f ''source_hash'',
      wr_find_text = f ''find_text'', wr_replace_text = f ''replace_text'',
      wr_proposal_id = f ''proposal_id'', wr_proposal_hash = f ''proposal_hash'',
      wr_approval_credential_hash = f ''approval_credential_hash'',
      wr_before_hash = f ''before_hash'', wr_after_hash = f ''after_hash'',
      wr_verification_plan = f ''verification_plan'', wr_approval_state = f ''approval_state'',
      wr_verification_credential_hash = (if 3 \<le> schema then f ''verification_credential_hash'' else []),
      wr_verification_approval_state = (if 3 \<le> schema then f ''verification_approval_state'' else ''not-issued''),
      wr_evidence_id = f ''evidence_id'', wr_evidence_hash = f ''evidence_hash'',
      wr_failure_reason = f ''failure_reason''\<rparr>"

definition map_legacy_approval_state :: "workflow_record \<Rightarrow> workflow_record" where
  "map_legacy_approval_state r =
     (if wr_phase r = ''verification-started'' \<and> wr_proposal_id r \<noteq> []
      then r\<lparr>wr_approval_state := ''applied'', wr_verification_approval_state := ''approved''\<rparr>
      else if wr_phase r \<in> {''verified'', ''complete''} \<and> wr_proposal_id r \<noteq> [] \<and> wr_evidence_id r \<noteq> []
         \<and> wr_source_path r \<noteq> [] \<and> wr_after_hash r \<noteq> []
      then r\<lparr>wr_approval_state := ''applied'', wr_verification_approval_state := ''approved''\<rparr>
      else if wr_phase r = ''failed'' \<and> wr_proposal_id r \<noteq> [] \<and> wr_evidence_id r \<noteq> []
      then r\<lparr>wr_approval_state := ''applied'', wr_verification_approval_state := ''approved''\<rparr>
      else if wr_phase r = ''cancelled'' \<and> wr_proposal_id r \<noteq> []
      then r\<lparr>wr_verification_approval_state := ''cancelled''\<rparr>
      else r)"

definition payload_for :: "u64 \<Rightarrow> workflow_record \<Rightarrow> string" where
  "payload_for schema r = (if schema = 2 then payload_v2 r else if schema = 3 then payload_v3 r else payload r)"

definition parse_snapshot ::
  "hasher \<Rightarrow> (string \<Rightarrow> app_error) \<Rightarrow> string \<Rightarrow> string \<Rightarrow> workflow_record result" where
  "parse_snapshot sha corrupt path body =
     rbind (snapshot_schema corrupt path body) (\<lambda>schema.
       case version_keys schema of
         None \<Rightarrow> Inl (corrupt path)
       | Some (keys, _) \<Rightarrow>
           rbind (or_corrupt corrupt path (parse_object body keys path)) (\<lambda>obj.
           rbind (or_corrupt corrupt path (json_number obj ''revision'' path)) (\<lambda>revision.
           rbind (or_corrupt corrupt path (traverse (\<lambda>k. json_string obj k path) (text_keys schema))) (\<lambda>texts.
             let field = (\<lambda>k. case map_of (zip (text_keys schema) texts) k of None \<Rightarrow> [] | Some v \<Rightarrow> v);
                 r = record_of_texts schema revision field
             in if wr_artifact_hash r \<noteq> sha256_bytes sha (payload_for schema r) then Inl (corrupt path)
                else Inr (if schema = 2 then map_legacy_approval_state r else r)))))"

section \<open>Pointers (pointer.rs)\<close>

record workflow_pointer =
  wp_schema_version :: u64
  wp_workflow_id :: string
  wp_committed_revision :: u64
  wp_artifact_hash :: string

definition pointer_version :: "u64 \<Rightarrow> string option" where
  "pointer_version schema =
     (if schema = 2 then Some ''workflow-commit-v2''
      else if schema = 3 then Some ''workflow-commit-v3''
      else if schema = 4 then Some ''workflow-commit-v4'' else None)"

text \<open>The artifact hash is written without escaping.\<close>

definition render_pointer :: "workflow_record \<Rightarrow> u64 \<Rightarrow> string result" where
  "render_pointer r schema =
     (case pointer_version schema of
        None \<Rightarrow> Inl (blocked_error ''workflow pointer schema'' [])
      | Some artifact_version \<Rightarrow> Inr (template line_layout
          [(''schema_version'', show_nat (unat schema)), (''artifact_version'', quoted artifact_version),
           escaped_member (''workflow_id'', wr_workflow_id r),
           (''committed_revision'', show_nat (unat (wr_revision r))),
           (''artifact_hash'', quoted (wr_artifact_hash r))] @ [LF]))"

definition pointer_keys :: "string list" where
  "pointer_keys = [''schema_version'', ''artifact_version'', ''workflow_id'', ''committed_revision'', ''artifact_hash'']"

definition parse_pointer ::
  "(string \<Rightarrow> app_error) \<Rightarrow> string \<Rightarrow> string \<Rightarrow> workflow_pointer result" where
  "parse_pointer corrupt path body =
     rbind (or_corrupt corrupt path (parse_object body pointer_keys path)) (\<lambda>obj.
      if length obj \<noteq> length pointer_keys \<or> list_ex (\<lambda>key. \<not> object_contains_key key obj) pointer_keys
      then Inl (corrupt path)
      else
        rbind (or_corrupt corrupt path (json_number obj ''schema_version'' path)) (\<lambda>schema.
        rbind (or_corrupt corrupt path (json_string obj ''artifact_version'' path)) (\<lambda>artifact_version.
        case pointer_version schema of
          None \<Rightarrow> Inl (corrupt path)
        | Some expected \<Rightarrow>
            if artifact_version \<noteq> expected then Inl (corrupt path)
            else
              rbind (or_corrupt corrupt path (json_string obj ''workflow_id'' path)) (\<lambda>workflow_id.
              rbind (or_corrupt corrupt path (json_number obj ''committed_revision'' path)) (\<lambda>revision.
              rbind (or_corrupt corrupt path (json_string obj ''artifact_hash'' path)) (\<lambda>hash.
                Inr \<lparr>wp_schema_version = schema, wp_workflow_id = workflow_id,
                     wp_committed_revision = revision, wp_artifact_hash = hash\<rparr>))))))"

end
