(* ===== verification/Workflow_Domain.thy ===== *)
theory Workflow_Domain
  imports Workflow_Record
begin

text \<open>
  \<open>workflow/domain\<close>: the kinds of prepared members and intents (\<open>transition.rs\<close>), the current
  state snapshot, and the checks of \<open>snapshot/\<close> that tie it to the ledger, the workflow pointer
  and the session before any authority is given.
\<close>

section \<open>Prepared members and intents (transition.rs)\<close>

datatype prepared_member_kind =
  ToolOutput | TranscriptV2 | WorkflowSnapshot | WorkflowPointer | CurrentImage | ProjectionLag

definition member_kind_str :: "prepared_member_kind \<Rightarrow> string" where
  "member_kind_str k = (case k of
     ToolOutput \<Rightarrow> ''tool_output'' | TranscriptV2 \<Rightarrow> ''transcript_v2''
   | WorkflowSnapshot \<Rightarrow> ''workflow_snapshot'' | WorkflowPointer \<Rightarrow> ''workflow_pointer''
   | CurrentImage \<Rightarrow> ''current_image'' | ProjectionLag \<Rightarrow> ''projection_lag'')"

definition member_kind_rank :: "prepared_member_kind \<Rightarrow> u8" where
  "member_kind_rank k = (case k of
     ToolOutput \<Rightarrow> 3 | TranscriptV2 \<Rightarrow> 4 | WorkflowSnapshot \<Rightarrow> 5
   | WorkflowPointer \<Rightarrow> 6 | CurrentImage \<Rightarrow> 7 | ProjectionLag \<Rightarrow> 8)"

definition member_kind_parse :: "string \<Rightarrow> prepared_member_kind result" where
  "member_kind_parse v =
     (if v = ''tool_output'' then Inr ToolOutput
      else if v = ''transcript_v2'' then Inr TranscriptV2
      else if v = ''workflow_snapshot'' then Inr WorkflowSnapshot
      else if v = ''workflow_pointer'' then Inr WorkflowPointer
      else if v = ''current_image'' then Inr CurrentImage
      else if v = ''projection_lag'' then Inr ProjectionLag
      else Inl (blocked_error ''prepared member kind'' []))"

datatype current_state_intent =
    Bootstrap | CheckpointWorkflow | RecoverWorkflow | RepairWorkflowPointer | ClearTerminalWorkflow
  | Reconcile | ApprovePatch | ApproveVerification | Resume | Cancel | StartSession | SelectSession
  | RecordEvent

definition intent_str :: "current_state_intent \<Rightarrow> string" where
  "intent_str i = (case i of
     Bootstrap \<Rightarrow> ''bootstrap'' | CheckpointWorkflow \<Rightarrow> ''checkpoint-workflow''
   | RecoverWorkflow \<Rightarrow> ''recover-workflow'' | RepairWorkflowPointer \<Rightarrow> ''repair-workflow-pointer''
   | ClearTerminalWorkflow \<Rightarrow> ''clear-terminal-workflow'' | Reconcile \<Rightarrow> ''reconcile''
   | ApprovePatch \<Rightarrow> ''approve-patch'' | ApproveVerification \<Rightarrow> ''approve-verification''
   | Resume \<Rightarrow> ''resume'' | Cancel \<Rightarrow> ''cancel'' | StartSession \<Rightarrow> ''start-session''
   | SelectSession \<Rightarrow> ''select-session'' | RecordEvent \<Rightarrow> ''record-event'')"

definition state_transition_intent_kinds :: "string list" where
  "state_transition_intent_kinds =
     [''bootstrap'', ''checkpoint-workflow'', ''repair-workflow-pointer'', ''clear-terminal-workflow'',
      ''reconcile'', ''resume'', ''cancel'', ''start-session'', ''select-session'', ''record-event'']"

definition terminal_action_intent_kinds :: "string list" where
  "terminal_action_intent_kinds = [''deny-patch'', ''deny-verification'', ''cancel-workflow'']"

definition is_state_transition_intent_kind :: "string \<Rightarrow> bool" where
  "is_state_transition_intent_kind v = (v \<in> set state_transition_intent_kinds)"

definition is_terminal_action_intent_kind :: "string \<Rightarrow> bool" where
  "is_terminal_action_intent_kind v = (v \<in> set terminal_action_intent_kinds)"

section \<open>The current state (snapshot/types.rs)\<close>

record current_workflow_binding =
  cb_workflow_id :: string
  cb_revision :: u64
  cb_artifact_hash :: string

record current_state_snapshot =
  cs_schema_version :: u64
  cs_revision :: u64
  cs_previous_artifact_hash :: string
  cs_project_id :: string
  cs_project_root :: string
  cs_session_id :: string
  cs_active_workflow :: "current_workflow_binding option"
  cs_parent_session_id :: "string option"
  cs_branch_from_event_id :: "string option"
  cs_compaction_boundary :: "string option"
  cs_resume_source :: "string option"
  cs_ledger_binding :: ledger_binding
  cs_artifact_hash :: string
  cs_legacy_canonical_hash :: "string option"

record current_state_lease_view =
  lv_revision :: u64
  lv_artifact_hash :: string

section \<open>Leases (snapshot/lease.rs)\<close>

definition validate_snapshot_identity :: "current_state_snapshot \<Rightarrow> runtime_identity \<Rightarrow> unit result" where
  "validate_snapshot_identity snapshot identity =
     (if cs_project_id snapshot = ri_project_id identity \<and> cs_session_id snapshot = ri_session_id identity
      then Inr () else Inl (blocked_error ''selection identity binding'' []))"

definition validate_current_lease ::
  "current_state_snapshot \<Rightarrow> ledger_binding \<Rightarrow> workflow_record option \<Rightarrow> current_state_lease_view result" where
  "validate_current_lease snapshot current_ledger active_workflow =
     (if cs_ledger_binding snapshot \<noteq> current_ledger
      then Inl (blocked_error ''lease: selection.stale-ledger-binding'' [])
      else
        let bound = (case (cs_active_workflow snapshot, active_workflow) of
            (Some binding, Some workflow) \<Rightarrow>
              cb_workflow_id binding = wr_workflow_id workflow \<and> cb_revision binding = wr_revision workflow
              \<and> cb_artifact_hash binding = wr_artifact_hash workflow
          | (None, None) \<Rightarrow> True
          | _ \<Rightarrow> False)
        in if \<not> bound then Inl (blocked_error ''lease: selection.stale-workflow-binding'' [])
           else Inr \<lparr>lv_revision = cs_revision snapshot, lv_artifact_hash = cs_artifact_hash snapshot\<rparr>)"

section \<open>Session resume (snapshot/session.rs)\<close>

definition validate_session_resume_target ::
  "string \<Rightarrow> bool \<Rightarrow> bool \<Rightarrow> workflow_record option \<Rightarrow> string option result" where
  "validate_session_resume_target session canonical_session projected_session active_workflow =
     (if \<not> canonical_session then Inl (blocked_error ''session resume: canonical'' [session])
      else if \<not> projected_session then Inl (blocked_error ''session resume: projection'' [session])
      else case active_workflow of
          Some workflow \<Rightarrow>
            if wr_session_id workflow \<noteq> session
            then Inl (blocked_error ''session resume: other owner''
                   [session, wr_workflow_id workflow, wr_session_id workflow])
            else Inr (Some (wr_workflow_id workflow))
        | None \<Rightarrow> Inr None)"

section \<open>Read-only views (snapshot/tui\_read.rs)\<close>

definition validated_tui_identity ::
  "current_state_snapshot \<Rightarrow> runtime_identity \<Rightarrow> runtime_identity result" where
  "validated_tui_identity snapshot fresh =
     (if cs_project_id snapshot \<noteq> ri_project_id fresh \<or> cs_project_root snapshot \<noteq> ri_project_root fresh
      then Inl (blocked_error ''TUI project binding'' [])
      else Inr \<lparr>ri_project_id = cs_project_id snapshot, ri_session_id = cs_session_id snapshot,
                ri_project_root = cs_project_root snapshot\<rparr>)"

text \<open>\<open>usize\<close> and \<open>u64\<close> have one width, so \<open>usize::try_from\<close> does not fail.\<close>

definition validate_ledger_ancestor ::
  "ledger_binding \<Rightarrow> ledger_binding \<Rightarrow> parsed_event list \<Rightarrow> unit result" where
  "validate_ledger_ancestor current tail_binding tail_events =
     (if current = tail_binding \<or> lb_event_count current = 0 \<and> lb_event_hash current = ''root'' then Inr ()
      else if lb_event_count current > lb_event_count tail_binding \<or> lb_event_id current = None
      then Inl (blocked_error ''TUI ledger binding: not an ancestor'' [])
      else
        let first_ordinal = saturating_add
              (saturating_sub (lb_event_count tail_binding) (of_nat (length tail_events))) 1
        in case checked_sub (lb_event_count current) first_ordinal of
            None \<Rightarrow> Inl (blocked_error ''TUI ledger ancestor: outside the tail'' [])
          | Some index \<Rightarrow>
              if \<not> unat index < length tail_events
              then Inl (blocked_error ''TUI ledger ancestor: ordinal'' [])
              else let event = tail_events ! unat index in
                if lb_event_id current \<noteq> Some (event_id event) \<or> event_hash event \<noteq> Some (lb_event_hash current)
                then Inl (blocked_error ''TUI ledger ancestor: id or hash'' []) else Inr ())"

definition validate_selection_ledger_suffix ::
  "ledger_binding \<Rightarrow> ledger_binding \<Rightarrow> parsed_event list \<Rightarrow> unit result" where
  "validate_selection_ledger_suffix current tail_binding events =
     rbind (validate_ledger_ancestor current tail_binding events) (\<lambda>_.
       if list_all (\<lambda>event. event_type event = ''transcript.recorded'')
            (drop (unat (lb_event_count current)) events)
       then Inr () else Inl (blocked_error ''lease: selection.stale-ledger-binding'' []))"

definition validate_read_only_pointer :: "current_workflow_binding \<Rightarrow> workflow_pointer \<Rightarrow> unit result" where
  "validate_read_only_pointer binding pointer =
     (if wp_workflow_id pointer \<noteq> cb_workflow_id binding \<or> wp_committed_revision pointer \<noteq> cb_revision binding
         \<or> wp_artifact_hash pointer \<noteq> cb_artifact_hash binding \<or> wp_committed_revision pointer = 0
      then Inl (blocked_error ''TUI workflow pointer binding'' []) else Inr ())"

definition detail_value :: "string \<Rightarrow> string \<Rightarrow> string option" where
  "detail_value detail_text key =
     (case find (\<lambda>part. case split_once (CHR ''='') part of None \<Rightarrow> False | Some (candidate, _) \<Rightarrow> candidate = key)
             (split_ascii_whitespace detail_text) of
        None \<Rightarrow> None
      | Some part \<Rightarrow> map_option snd (split_once (CHR ''='') part))"

definition checkpoint_event ::
  "current_workflow_binding \<Rightarrow> runtime_identity \<Rightarrow> workflow_record \<Rightarrow> parsed_event \<Rightarrow> bool" where
  "checkpoint_event binding identity workflow event \<longleftrightarrow>
     event_type event = ''workflow.checkpoint'' \<and> project_id event = ri_project_id identity
     \<and> detail_value (details event) ''workflow_id'' = Some (cb_workflow_id binding)
     \<and> detail_value (details event) ''revision'' = Some (show_nat (unat (cb_revision binding)))
     \<and> detail_value (details event) ''artifact_hash'' = Some (cb_artifact_hash binding)
     \<and> detail_value (details event) ''previous_hash'' = Some (wr_previous_hash workflow)"

definition validate_read_only_workflow ::
  "current_workflow_binding \<Rightarrow> runtime_identity \<Rightarrow> workflow_record \<Rightarrow> parsed_event list \<Rightarrow> unit result" where
  "validate_read_only_workflow binding identity workflow ledger_events =
     (if wr_workflow_id workflow \<noteq> cb_workflow_id binding \<or> wr_revision workflow \<noteq> cb_revision binding
         \<or> wr_artifact_hash workflow \<noteq> cb_artifact_hash binding \<or> wr_project_id workflow \<noteq> ri_project_id identity
         \<or> wr_session_id workflow \<noteq> ri_session_id identity
      then Inl (blocked_error ''TUI workflow snapshot owner'' [])
      else case find (checkpoint_event binding identity workflow) (rev ledger_events) of
          None \<Rightarrow> Inl (blocked_error ''TUI workflow checkpoint'' [])
        | Some _ \<Rightarrow> Inr ())"

end
