(* ===== verification/Workflow_Recovery.thy ===== *)
theory Workflow_Recovery
  imports Workflow_Domain
begin

text \<open>
  \<open>workflow/application/recovery\<close> and \<open>projection_barrier.rs\<close>: what recovery does with a pending
  workflow transaction and a prepared state, over ports given as records of effects.
\<close>

section \<open>Ports (recovery/contracts.rs)\<close>

record pending_transaction =
  pt_schema_version :: u64
  pt_record :: workflow_record
  pt_body :: string

datatype recovery_artifact = ArtifactTransaction | ArtifactPointer

record 's recovery_port =
  wp_load_transaction :: "string \<Rightarrow> ('s, pending_transaction option) effect"
  wp_load_pointer :: "string \<Rightarrow> ('s, workflow_pointer option) effect"
  wp_checkpoints :: "string \<Rightarrow> ('s, workflow_checkpoint list) effect"
  wp_validate_chain :: "string \<Rightarrow> u64 \<Rightarrow> u64 \<Rightarrow> ('s, workflow_record) effect"
  wp_validate_chain_with :: "string \<Rightarrow> u64 \<Rightarrow> u64 \<Rightarrow> workflow_checkpoint list \<Rightarrow> ('s, workflow_record) effect"
  wp_current_identity :: "('s, runtime_identity) effect"
  wp_checkpoint_exists :: "string \<Rightarrow> u64 \<Rightarrow> string \<Rightarrow> ('s, bool) effect"
  wp_install_snapshot :: "workflow_record \<Rightarrow> string \<Rightarrow> ('s, unit) effect"
  wp_install_pointer :: "workflow_record \<Rightarrow> u64 \<Rightarrow> ('s, unit) effect"
  wp_remove_transaction :: "string \<Rightarrow> ('s, unit) effect"
  wp_corrupt :: "string \<Rightarrow> recovery_artifact \<Rightarrow> app_error"

record 's prepared_state_port =
  ps_install_reconcile_backup :: "('s, unit) effect"
  ps_install_workflow_snapshot :: "('s, unit) effect"
  ps_append_event :: "('s, unit) effect"
  ps_install_workflow_pointer :: "('s, unit) effect"
  ps_finish_events :: "('s, unit) effect"
  ps_validate_ledger_binding :: "('s, unit) effect"
  ps_install_current_state :: "('s, unit) effect"
  ps_converge_projections :: "('s, unit) effect"

section \<open>Validation (recovery/validation.rs)\<close>

datatype recovery_disposition = AlreadyCommitted | Prepared

text \<open>
  The two arms of \<open>if let Some(pointer)\<close>. The slice of the checkpoints and the index behind it
  are guarded by the length check before them.
\<close>

definition validate_against_pointer ::
  "'s recovery_port \<Rightarrow> string \<Rightarrow> pending_transaction \<Rightarrow> workflow_pointer \<Rightarrow> ('s, unit) effect" where
  "validate_against_pointer port workflow_id t pointer =
     (let r = pt_record t; corrupt = sthrow (wp_corrupt port workflow_id ArtifactTransaction) in
      if checked_add (wp_committed_revision pointer) 1 \<noteq> Some (wr_revision r)
         \<or> wr_previous_hash r \<noteq> wp_artifact_hash pointer
         \<or> \<not> wp_schema_version pointer \<le> pt_schema_version t
      then corrupt
      else sbind (wp_checkpoints port workflow_id) (\<lambda>checkpoints.
        if of_nat (length checkpoints) \<noteq> wp_committed_revision pointer
           \<and> of_nat (length checkpoints) \<noteq> wr_revision r
        then corrupt
        else sbind (wp_validate_chain_with port workflow_id (wp_committed_revision pointer)
                (wp_schema_version pointer) (take (unat (wp_committed_revision pointer)) checkpoints)) (\<lambda>committed.
          if wr_artifact_hash committed \<noteq> wp_artifact_hash pointer
             \<or> wr_project_id committed \<noteq> wr_project_id r \<or> wr_session_id committed \<noteq> wr_session_id r
             \<or> wr_action_id committed \<noteq> wr_action_id r
          then corrupt
          else if of_nat (length checkpoints) = wr_revision r then
            let pending = checkpoints ! (unat (wr_revision r) - 1) in
            if wc_revision pending \<noteq> wr_revision r \<or> wc_artifact_hash pending \<noteq> wr_artifact_hash r
               \<or> wc_previous_hash pending \<noteq> wr_previous_hash r
            then corrupt else sreturn ()
          else sreturn ())))"

definition validate_first_revision ::
  "'s recovery_port \<Rightarrow> string \<Rightarrow> pending_transaction \<Rightarrow> ('s, unit) effect" where
  "validate_first_revision port workflow_id t =
     (let r = pt_record t; corrupt = sthrow (wp_corrupt port workflow_id ArtifactTransaction) in
      sbind (wp_checkpoints port workflow_id) (\<lambda>checkpoints.
        if wr_revision r \<noteq> 1 \<or> wr_previous_hash r \<noteq> ''none'' \<or> 1 < length checkpoints
           \<or> (case checkpoints of
                [] \<Rightarrow> False
              | c # _ \<Rightarrow> wc_revision c \<noteq> wr_revision r \<or> wc_artifact_hash c \<noteq> wr_artifact_hash r
                  \<or> wc_previous_hash c \<noteq> wr_previous_hash r)
        then corrupt
        else sbind (wp_current_identity port) (\<lambda>identity.
          if wr_project_id r \<noteq> ri_project_id identity then corrupt else sreturn ())))"

definition require_checkpoint ::
  "'s recovery_port \<Rightarrow> string \<Rightarrow> pending_transaction \<Rightarrow> ('s, recovery_disposition) effect" where
  "require_checkpoint port workflow_id t =
     sbind (wp_checkpoint_exists port workflow_id (wr_revision (pt_record t)) (wr_artifact_hash (pt_record t)))
       (\<lambda>exists. if exists then sreturn Prepared
          else sthrow (blocked_error ''legacy workflow transaction recovery: no prepared event'' []))"

definition validate_pending_transaction ::
  "'s recovery_port \<Rightarrow> string \<Rightarrow> pending_transaction \<Rightarrow> ('s, recovery_disposition) effect" where
  "validate_pending_transaction port workflow_id t =
     (let r = pt_record t; corrupt = (\<lambda>artifact. sthrow (wp_corrupt port workflow_id artifact)) in
      if wr_workflow_id r \<noteq> workflow_id then corrupt ArtifactTransaction
      else sbind (wp_load_pointer port workflow_id) (\<lambda>loaded.
        case loaded of
          Some pointer \<Rightarrow>
            if wp_workflow_id pointer \<noteq> workflow_id then corrupt ArtifactPointer
            else if wp_committed_revision pointer = wr_revision r \<and> wp_artifact_hash pointer = wr_artifact_hash r
            then if wp_schema_version pointer \<noteq> pt_schema_version t then corrupt ArtifactTransaction
              else sbind (wp_validate_chain port workflow_id (wp_committed_revision pointer)
                     (wp_schema_version pointer)) (\<lambda>_. sreturn AlreadyCommitted)
            else sthen (validate_against_pointer port workflow_id t pointer)
                   (require_checkpoint port workflow_id t)
        | None \<Rightarrow> sthen (validate_first_revision port workflow_id t) (require_checkpoint port workflow_id t)))"

section \<open>Recovery (recovery/transaction.rs, recovery/projection.rs)\<close>

definition recover_workflow_transaction :: "'s recovery_port \<Rightarrow> string \<Rightarrow> ('s, unit) effect" where
  "recover_workflow_transaction port workflow_id =
     sbind (wp_load_transaction port workflow_id) (\<lambda>loaded.
       case loaded of
         None \<Rightarrow> sreturn ()
       | Some t \<Rightarrow>
           sbind (validate_pending_transaction port workflow_id t) (\<lambda>disposition.
             case disposition of
               AlreadyCommitted \<Rightarrow> wp_remove_transaction port workflow_id
             | Prepared \<Rightarrow>
                 sthen (wp_install_snapshot port (pt_record t) (pt_body t))
                (sthen (wp_install_pointer port (pt_record t) (pt_schema_version t))
                       (wp_remove_transaction port workflow_id))))"

definition recover_prepared_state_transition :: "'s prepared_state_port \<Rightarrow> ('s, unit) effect" where
  "recover_prepared_state_transition port =
      sthen (ps_install_reconcile_backup port)
     (sthen (ps_install_workflow_snapshot port)
     (sthen (ps_append_event port)
     (sthen (ps_install_workflow_pointer port)
     (sthen (ps_finish_events port)
     (sthen (ps_validate_ledger_binding port)
     (sthen (ps_install_current_state port)
            (ps_converge_projections port)))))))"

section \<open>The projection barrier (projection\_barrier.rs)\<close>

record 's barrier_port =
  bp_lag_exists :: "'s \<Rightarrow> bool"
  bp_lag_temp_exists :: "'s \<Rightarrow> bool"
  bp_target_is_converged :: "('s, bool) effect"
  bp_install_lag :: "('s, string) effect"
  bp_repair_required :: "string \<Rightarrow> app_error"
  bp_resume_recovery :: "('s, unit) effect"

definition recover_through_projection_barrier :: "'s barrier_port \<Rightarrow> ('s, unit) effect" where
  "recover_through_projection_barrier port s =
     (let barrier = sbind (bp_install_lag port) (\<lambda>lag. sthrow (bp_repair_required port lag)) in
      if bp_lag_exists port s then bp_resume_recovery port s
      else if bp_lag_temp_exists port s then barrier s
      else sbind (bp_target_is_converged port) (\<lambda>converged.
             if \<not> converged then barrier else bp_resume_recovery port) s)"

end
