(* ===== verification/Workflow_Properties.thy ===== *)
theory Workflow_Properties
  imports Workflow_Record Ledger_Store
begin

text \<open>
  What a workflow snapshot and its hash say of the record: the rendered record is read back, the
  hash binds records whose texts are single lines, and does not bind records with line feeds.
\<close>

section \<open>Payloads\<close>

lemma field_lines_Cons: "field_lines ((k, v) # kvs) = k @ ''='' @ v @ LF # field_lines kvs"
  by (simp add: field_lines_def)

lemma line_split: "LF \<notin> set v \<Longrightarrow> LF \<notin> set v' \<Longrightarrow> v @ LF # s = v' @ LF # s' \<longleftrightarrow> v = v' \<and> s = s'"
proof
  assume n: "LF \<notin> set v" "LF \<notin> set v'" and eq: "v @ LF # s = v' @ LF # s'"
  have "Some (v, s) = Some (v', s')"
    unfolding split_once_append [OF n(1), of s, symmetric] split_once_append [OF n(2), of s', symmetric] eq ..
  then show "v = v' \<and> s = s'" by simp
qed simp

lemma field_lines_inj:
  "map fst kvs = map fst kvs' \<Longrightarrow> list_all (\<lambda>m. LF \<notin> set (snd m)) kvs \<Longrightarrow>
   list_all (\<lambda>m. LF \<notin> set (snd m)) kvs' \<Longrightarrow> field_lines kvs = field_lines kvs' \<Longrightarrow> kvs = kvs'"
proof (induction kvs arbitrary: kvs')
  case (Cons m kvs)
  then obtain m' r where kvs': "kvs' = m' # r" by (cases kvs') auto
  obtain k v k' v' where m: "m = (k, v)" "m' = (k', v')" by (cases m; cases m')
  from Cons.prems have "k' = k" by (simp add: kvs' m)
  with Cons.prems have "v @ LF # field_lines kvs = v' @ LF # field_lines r" "LF \<notin> set v" "LF \<notin> set v'"
    by (simp_all add: kvs' m field_lines_Cons)
  then have "v = v'" "field_lines kvs = field_lines r" using line_split by blast+
  with Cons.IH [of r] Cons.prems show ?case by (simp add: kvs' m)
qed simp

definition record_texts :: "workflow_record \<Rightarrow> (string \<times> string) list" where
  "record_texts r = [(''workflow_id'', wr_workflow_id r), (''previous_hash'', wr_previous_hash r),
     (''artifact_hash'', wr_artifact_hash r)] @ owner_texts r @ skill_texts r @ action_texts r
     @ verification_texts r @ evidence_texts r"

lemmas texts_defs = owner_texts_def skill_texts_def action_texts_def verification_texts_def evidence_texts_def

definition single_line_record :: "workflow_record \<Rightarrow> bool" where
  "single_line_record r = list_all (\<lambda>m. LF \<notin> set (snd m)) (record_texts r)"

lemma LF_show_nat: "LF \<notin> set (show_nat n)"
  using show_nat_digits [of LF n] by (auto simp: is_ascii_digit_def)

lemma payload_binds:
  assumes "single_line_record r" "single_line_record r'" "payload r = payload r'"
    and "wr_artifact_hash r = wr_artifact_hash r'"
  shows "r = r'"
proof -
  let ?kvs = "\<lambda>r. payload_head ''4'' r @ owner_texts r @ skill_texts r @ action_texts r
     @ verification_texts r @ evidence_texts r"
  have clean: "list_all (\<lambda>m. LF \<notin> set (snd m)) (?kvs r)" if "single_line_record r" for r
    using that by (simp add: single_line_record_def record_texts_def payload_head_def LF_show_nat)
  have "?kvs r = ?kvs r'"
    by (rule field_lines_inj [OF _ clean [OF assms(1)] clean [OF assms(2)]])
      (use assms(3) in \<open>simp_all add: payload_def payload_head_def texts_defs\<close>)
  with assms(4) show ?thesis
    by (intro workflow_record.equality)
      (simp_all add: payload_head_def texts_defs show_nat_inj word_unat_eq_iff)
qed

section \<open>Snapshots\<close>

definition text_value :: "string \<times> string \<Rightarrow> string \<times> json" where
  "text_value m = (fst m, JString (snd m))"

definition record_values :: "workflow_record \<Rightarrow> (string \<times> json) list" where
  "record_values r =
     [(''schema_version'', JNumber 4), (''artifact_version'', JString ''workflow-v4''),
      (''workflow_id'', JString (wr_workflow_id r)), (''revision'', JNumber (ucast (wr_revision r))),
      (''previous_hash'', JString (wr_previous_hash r)), (''artifact_hash'', JString (wr_artifact_hash r))]
     @ map text_value (owner_texts r @ skill_texts r @ action_texts r @ verification_texts r @ evidence_texts r)"

lemma record_values_keys: "map fst (record_values r) = workflow_v4_keys"
  by (simp add: record_values_def texts_defs text_value_def workflow_v4_keys_def)

lemma workflow_keys_distinct: "distinct workflow_v4_keys"
  unfolding workflow_v4_keys_def by code_simp

lemma workflow_keys_plain: "list_all plain_key workflow_v4_keys"
proof -
  have "list_all (list_all plain_char) workflow_v4_keys"
    by (simp add: workflow_v4_keys_def plain_char_def)
  then show ?thesis by (simp add: list_all_iff plain_key_chars)
qed

definition valid_record :: "workflow_record \<Rightarrow> bool" where
  "valid_record r = list_all (\<lambda>m. utf8_valid (snd m)) (record_texts r)"

lemma reads_four: "reads d ''4'' (JNumber 4)"
proof -
  have "show_nat (unat (4 :: u128)) = ''4''" by code_simp
  then show ?thesis using reads_number [of d 4] by simp
qed

lemma fst_text_value [simp]: "fst (text_value m) = fst m" "fst \<circ> text_value = fst"
  by (simp_all add: text_value_def fun_eq_iff)

lemma record_members_read:
  assumes "valid_record r"
  shows "list_all2 (member_reads 1) (record_members r) (record_values r)"
proof -
  have read: "member_reads 1 (escaped_member m) (text_value m)" if "utf8_valid (snd m)" "plain_key (fst m)" for m
    using that reads_escaped by (simp add: escaped_member_def text_value_def)
  have keys: "list_all plain_key (map fst (record_values r))"
    using workflow_keys_plain by (simp add: record_values_keys)
  have texts: "list_all (\<lambda>m. utf8_valid (snd m)) (owner_texts r @ skill_texts r @ action_texts r
      @ verification_texts r @ evidence_texts r)"
    and head: "utf8_valid (wr_workflow_id r)" "utf8_valid (wr_previous_hash r)" "utf8_valid (wr_artifact_hash r)"
    using assms by (simp_all add: valid_record_def record_texts_def)
  have "list_all2 (member_reads 1) (map escaped_member ms) (map text_value ms)"
    if "list_all (\<lambda>m. utf8_valid (snd m)) ms" "list_all plain_key (map fst ms)" for ms
    using that read by (simp add: list_all2_conv_all_nth list_all_length)
  moreover have "list_all plain_key (map fst (owner_texts r @ skill_texts r @ action_texts r
      @ verification_texts r @ evidence_texts r))"
    using keys by (simp add: record_values_def)
  ultimately have tail: "list_all2 (member_reads 1)
      (map escaped_member (owner_texts r @ skill_texts r @ action_texts r @ verification_texts r @ evidence_texts r))
      (map text_value (owner_texts r @ skill_texts r @ action_texts r @ verification_texts r @ evidence_texts r))"
    using texts by blast
  have version: "plain_key ''workflow-v4''" by (simp add: plain_key_chars plain_char_def)
  have "list_all plain_key [''schema_version'', ''artifact_version'', ''workflow_id'', ''revision'',
      ''previous_hash'', ''artifact_hash'']"
    using keys by (simp add: record_values_def)
  with tail reads_four reads_count reads_escaped head reads_plain [OF version] show ?thesis
    unfolding record_members_def record_values_def
    by (intro list_all2_appendI) (simp_all add: escaped_member_def)
qed

lemma parse_rendered:
  assumes "valid_record r"
  shows "parse_object (render r) workflow_v4_keys path = Inr (record_values r)"
proof -
  have "json_blank [LF]" by (simp add: json_blank_def is_json_ws_def)
  from parse_value_template [OF blank_layouts(2) record_members_read [OF assms] _ _ this]
  have "parse_value (render r) path = Inr (JObject (record_values r))"
    using workflow_keys_distinct by (simp add: render_def record_members_def record_values_keys)
  moreover have "find (\<lambda>k. k \<notin> set workflow_v4_keys) (object_keys (record_values r)) = None"
    by (simp add: object_keys_def record_values_keys find_None_iff)
  ultimately show ?thesis by (simp add: parse_object_def)
qed

lemma record_value_get: "(k, v) \<in> set (record_values r) \<Longrightarrow> object_get k (record_values r) = Some v"
  using workflow_keys_distinct by (simp add: object_get_map_of record_values_keys)

lemma text_value_mem: "(k, v) \<in> set t \<Longrightarrow> (k, JString v) \<in> set (map text_value t)"
  by (force simp: text_value_def)

lemma text_value_mem_head:
  assumes "(k, v) \<in> set ([(a, x), (b, y), (c, z)] @ t)"
  shows "(k, JString v) \<in> set ([p, q, (a, JString x), s, (b, JString y), (c, JString z)] @ map text_value t)"
  using assms text_value_mem [of k v t] by auto

lemma record_texts_values: "(k, v) \<in> set (record_texts r) \<Longrightarrow> (k, JString v) \<in> set (record_values r)"
  unfolding record_texts_def record_values_def by (rule text_value_mem_head)

lemma text_keys_four: "text_keys 4 = map fst (record_texts r)"
  unfolding text_keys_def version_keys_def workflow_v4_keys_def record_texts_def texts_defs
  by code_simp

lemma record_of_own_texts: "record_of_texts 4 (wr_revision r)
    (\<lambda>k. case map_of (record_texts r) k of None \<Rightarrow> [] | Some v \<Rightarrow> v) = r"
  by (simp add: record_of_texts_def record_texts_def texts_defs)

lemma narrow_revision: "u64_try_from (ucast n) = Some n" for n :: u64
  using unsigned_less [of n, where 'a = nat] by (simp add: u64_try_from_def unat_widen)

lemma snapshot_schema_rendered:
  assumes "valid_record r"
  shows "snapshot_schema corrupt path (render r) = Inr 4"
proof -
  have "json_number (record_values r) ''schema_version'' path = Inr 4"
    "json_string (record_values r) ''artifact_version'' path = Inr ''workflow-v4''"
    using record_value_get [of "''schema_version''" "JNumber 4" r]
      record_value_get [of "''artifact_version''" "JString ''workflow-v4''" r]
    by (simp_all add: json_number_def json_string_def record_values_def u64_try_from_def)
  moreover have "length (record_values r) = length workflow_v4_keys"
    "\<not> list_ex (\<lambda>key. \<not> object_contains_key key (record_values r)) workflow_v4_keys"
    using record_values_keys [of r] by (metis length_map, auto simp: list_ex_iff object_contains_key_iff object_keys_def)
  ultimately show ?thesis
    using parse_rendered [OF assms] by (simp add: snapshot_schema_def version_keys_def)
qed

lemma snapshot_parsed:
  assumes "valid_record r"
  shows "parse_snapshot sha corrupt path (render r) =
    (if wr_artifact_hash r = sha256_bytes sha (payload r) then Inr r else Inl (corrupt path))"
proof -
  have "json_number (record_values r) ''revision'' path = Inr (wr_revision r)"
    using record_value_get [of "''revision''" "JNumber (ucast (wr_revision r))" r]
    by (simp add: json_number_def record_values_def narrow_revision)
  moreover have "traverse (\<lambda>k. json_string (record_values r) k path) (map fst (record_texts r)) =
      Inr (map snd (record_texts r))"
  proof -
    have "json_string (record_values r) k path = Inr v" if "(k, v) \<in> set (record_texts r)" for k v
      using record_value_get [OF record_texts_values [OF that]] by (simp add: json_string_def)
    then show ?thesis by (simp add: traverse_Inr_iff list_all2_conv_all_nth)
  qed
  ultimately show ?thesis
    using parse_rendered [OF assms] snapshot_schema_rendered [OF assms] record_of_own_texts [of r]
    by (simp add: parse_snapshot_def version_keys_def text_keys_four [of r] zip_map_fst_snd payload_for_def Let_def)
qed

text \<open>
  C24 A workflow record is durable: its rendered snapshot is read back as the record, provided
  its artifact hash is the hash of its payload, and under no other hash.
\<close>

theorem workflow_snapshot_roundtrip:
  assumes "valid_record r"
  shows "parse_snapshot sha corrupt path (render r) =
    (if wr_artifact_hash r = sha256_bytes sha (payload r) then Inr r else Inl (corrupt path))"
  using assms by (rule snapshot_parsed)

definition wit_identity :: runtime_identity where
  "wit_identity = \<lparr>ri_project_id = ''p'', ri_session_id = ''s'', ri_project_root = ''/p''\<rparr>"

definition wit_record :: workflow_record where
  "wit_record = workflow_record_new (\<lambda>_. [CHR 0x07]) 0 wit_identity ''fix''"

lemma sha256_bytes_utf8: "utf8_valid (sha256_bytes sha s)"
  using sha256_bytes_plain by (simp add: plain_key_def)

lemma const_hash: "sha256_bytes (\<lambda>_. [CHR 0x07]) s = ''07''"
proof -
  have "bytes_to_hex [CHR 0x07] = ''07''" by code_simp
  then show ?thesis by (simp add: sha256_bytes_def)
qed

lemma wit_record_valid: "valid_record wit_record"
proof -
  show ?thesis
    by (simp add: valid_record_def record_texts_def texts_defs wit_record_def workflow_record_new_def Let_def const_hash
        wit_identity_def utf8_valid_ascii)
qed

lemma workflow_snapshot_roundtrip_witness:
  "parse_snapshot (\<lambda>_. [CHR 0x07]) (\<lambda>p. blocked_error p []) ''w'' (render wit_record) = Inl (blocked_error ''w'' [])"
proof -
  have "wr_artifact_hash wit_record \<noteq> sha256_bytes (\<lambda>_. [CHR 0x07]) (payload wit_record)"
    by (simp add: wit_record_def workflow_record_new_def Let_def sha256_bytes_def bytes_to_hex_def)
  with workflow_snapshot_roundtrip [OF wit_record_valid] show ?thesis by simp
qed

section \<open>What the hash binds\<close>

lemma parse_snapshot_hash:
  assumes "parse_snapshot sha corrupt path body = Inr r" "snapshot_schema corrupt path body = Inr 4"
  shows "wr_artifact_hash r = sha256_bytes sha (payload r)"
  using assms by (auto simp: parse_snapshot_def rbind_Inr_iff or_corrupt_Inr_iff Let_def version_keys_def
      payload_for_def split: if_splits)

text \<open>
  Between records whose texts are single lines the artifact hash decides: two current-schema
  snapshots with one hash are the same record, unless their payloads are a collision of the hash.
\<close>

theorem workflow_hash_binds:
  assumes "parse_snapshot sha corrupt path body = Inr r" "snapshot_schema corrupt path body = Inr 4"
    and "parse_snapshot sha corrupt path' body' = Inr r'" "snapshot_schema corrupt path' body' = Inr 4"
    and "single_line_record r" "single_line_record r'" "wr_artifact_hash r = wr_artifact_hash r'"
  shows "r = r' \<or> payload r \<noteq> payload r' \<and> sha256_bytes sha (payload r) = sha256_bytes sha (payload r')"
  using parse_snapshot_hash [OF assms(1,2)] parse_snapshot_hash [OF assms(3,4)]
    payload_binds [OF assms(5,6) _ assms(7)] assms(7) by metis

definition sealed :: "hasher \<Rightarrow> workflow_record \<Rightarrow> workflow_record" where
  "sealed sha r = r\<lparr>wr_artifact_hash := sha256_bytes sha (payload r)\<rparr>"

lemma payload_sealed [simp]: "payload (sealed sha r) = payload r"
  by (simp add: sealed_def payload_def payload_head_def texts_defs)

lemma valid_sealed: "valid_record r \<Longrightarrow> valid_record (sealed sha r)"
  by (simp add: valid_record_def record_texts_def texts_defs sealed_def sha256_bytes_utf8)

lemma sealed_hash [simp]: "wr_artifact_hash (sealed sha r) = sha256_bytes sha (payload r)"
  by (simp add: sealed_def)

lemma parse_sealed: "valid_record r \<Longrightarrow> parse_snapshot sha corrupt path (render (sealed sha r)) = Inr (sealed sha r)"
  by (simp add: snapshot_parsed valid_sealed)

lemma workflow_hash_binds_witness:
  "sealed (\<lambda>_. [CHR 0x07]) wit_record = sealed (\<lambda>_. [CHR 0x07]) wit_record \<or>
   payload wit_record \<noteq> payload wit_record \<and> [] = [CHR 0x07]"
proof -
  let ?sha = "\<lambda>_. [CHR 0x07]" let ?c = "\<lambda>p. blocked_error p []" let ?r = "sealed ?sha wit_record"
  have line: "single_line_record ?r"
    by (simp add: single_line_record_def record_texts_def texts_defs sealed_def wit_record_def
        workflow_record_new_def Let_def const_hash wit_identity_def)
  note p = parse_sealed [OF wit_record_valid, of ?sha ?c "''w''"]
    and s = snapshot_schema_rendered [OF valid_sealed [OF wit_record_valid], of ?c "''w''" ?sha]
  from workflow_hash_binds [OF p s p s line line refl] show ?thesis by simp
qed

text \<open>
  A text with a line feed can pass for the next field: the find and replace texts of a record
  may be shifted across their boundary, and both snapshots are accepted under one hash, whatever
  the hash function. The replacement a workflow was approved for is not bound by its hash.
\<close>

theorem find_replace_shift:
  fixes sha :: hasher
  assumes "valid_record r" "utf8_valid a" "utf8_valid b" "utf8_valid c"
  defines "r1 \<equiv> sealed sha (r\<lparr>wr_find_text := a @ LF # ''replace_text='' @ b, wr_replace_text := c\<rparr>)"
    and "r2 \<equiv> sealed sha (r\<lparr>wr_find_text := a, wr_replace_text := b @ LF # ''replace_text='' @ c\<rparr>)"
  shows "parse_snapshot sha corrupt path (render r1) = Inr r1 \<and> parse_snapshot sha corrupt path (render r2) = Inr r2
    \<and> wr_artifact_hash r1 = wr_artifact_hash r2 \<and> wr_find_text r1 \<noteq> wr_find_text r2"
proof -
  have mid: "utf8_valid (x @ LF # ''replace_text='' @ y)" if "utf8_valid x" "utf8_valid y" for x y
    using utf8_valid_append [OF that(1)] utf8_valid_append [of "LF # ''replace_text=''" y] that(2)
    by (simp add: utf8_valid_ascii)
  have "valid_record (r\<lparr>wr_find_text := a @ LF # ''replace_text='' @ b, wr_replace_text := c\<rparr>)"
    "valid_record (r\<lparr>wr_find_text := a, wr_replace_text := b @ LF # ''replace_text='' @ c\<rparr>)"
    using assms(1-4) mid [of a b] mid [of b c] by (simp_all add: valid_record_def record_texts_def texts_defs)
  from this [THEN parse_sealed, of sha corrupt path] show ?thesis
    by (simp add: r1_def r2_def payload_def payload_head_def texts_defs field_lines_def)
      (simp add: sealed_def)
qed

lemma find_replace_shift_witness:
  "wr_artifact_hash (sealed (\<lambda>_. [CHR 0x07]) (wit_record\<lparr>wr_find_text := ''a'' @ LF # ''replace_text='' @ ''b'', wr_replace_text := ''c''\<rparr>))
   = wr_artifact_hash (sealed (\<lambda>_. [CHR 0x07]) (wit_record\<lparr>wr_find_text := ''a'', wr_replace_text := ''b'' @ LF # ''replace_text='' @ ''c''\<rparr>))"
  using find_replace_shift [OF wit_record_valid, of "''a''" "''b''" "''c''" "\<lambda>_. [CHR 0x07]"]
  by (simp add: utf8_valid_ascii)

end
