(* ===== verification/Recovery_Properties.thy ===== *)
theory Recovery_Properties
  imports Workflow_Recovery Workflow_Properties
begin

text \<open>
  Recovery changes nothing before the evidence is complete, and a current state accepted against
  a tail of the ledger is bound to an event of the ledger.
\<close>

section \<open>Reads\<close>

definition read_only :: "('s, 'a) effect \<Rightarrow> bool" where
  "read_only m \<longleftrightarrow> (\<forall>s. snd (m s) = s)"

lemma sbind_read_only:
  "read_only m \<Longrightarrow> sbind m f s = (case fst (m s) of Inl e \<Rightarrow> (Inl e, s) | Inr x \<Rightarrow> f x s)"
  by (cases "m s") (auto simp: sbind_def read_only_def dest: spec [of _ s] split: sum.splits)

lemma read_only_sbind: "read_only m \<Longrightarrow> (\<And>x. read_only (f x)) \<Longrightarrow> read_only (sbind m f)"
  by (auto simp: read_only_def [of "sbind m f"] sbind_read_only split: sum.splits) (simp add: read_only_def)

lemma read_only_simple [simp]: "read_only (sreturn x)" "read_only (sthrow e)"
  by (simp_all add: read_only_def sreturn_def sthrow_def)

lemma read_only_sthen: "read_only m \<Longrightarrow> read_only k \<Longrightarrow> read_only (sthen m k)"
  by (simp add: sthen_def read_only_sbind)

text \<open>The methods of the recovery port that read.\<close>

definition reads_only :: "'s recovery_port \<Rightarrow> bool" where
  "reads_only port \<longleftrightarrow>
     (\<forall>w. read_only (wp_load_transaction port w)) \<and> (\<forall>w. read_only (wp_load_pointer port w))
   \<and> (\<forall>w. read_only (wp_checkpoints port w)) \<and> (\<forall>w n v. read_only (wp_validate_chain port w n v))
   \<and> (\<forall>w n v cs. read_only (wp_validate_chain_with port w n v cs)) \<and> read_only (wp_current_identity port)
   \<and> (\<forall>w n h. read_only (wp_checkpoint_exists port w n h))"

lemma validate_reads_only:
  assumes "reads_only port"
  shows "read_only (validate_against_pointer port w t p)" "read_only (validate_first_revision port w t)"
    "read_only (require_checkpoint port w t)"
  using assms by (auto simp: reads_only_def validate_against_pointer_def validate_first_revision_def
      require_checkpoint_def Let_def intro!: read_only_sbind)

lemma validate_pending_reads_only:
  assumes "reads_only port"
  shows "read_only (validate_pending_transaction port w t)"
  using assms validate_reads_only [OF assms]
  by (auto simp: reads_only_def validate_pending_transaction_def Let_def split: option.splits
      intro!: read_only_sbind read_only_sthen)

section \<open>Evidence\<close>

definition follows_pointer :: "workflow_pointer \<Rightarrow> pending_transaction \<Rightarrow> bool" where
  "follows_pointer p t \<longleftrightarrow>
     unat (wr_revision (pt_record t)) = unat (wp_committed_revision p) + 1
     \<and> wr_previous_hash (pt_record t) = wp_artifact_hash p \<and> wp_schema_version p \<le> pt_schema_version t"

text \<open>A checkpoint of the ledger names a revision.\<close>

definition names_revision :: "workflow_checkpoint \<Rightarrow> workflow_record \<Rightarrow> bool" where
  "names_revision c r \<longleftrightarrow> wc_revision c = wr_revision r \<and> wc_artifact_hash c = wr_artifact_hash r
     \<and> wc_previous_hash c = wr_previous_hash r"

text \<open>The pointer names the revision already, and the chain that ends in it was validated.\<close>

definition committed_evidence ::
  "'s recovery_port \<Rightarrow> string \<Rightarrow> 's \<Rightarrow> pending_transaction \<Rightarrow> workflow_pointer \<Rightarrow> bool" where
  "committed_evidence port w s t p \<longleftrightarrow> wp_committed_revision p = wr_revision (pt_record t)
     \<and> wp_artifact_hash p = wr_artifact_hash (pt_record t) \<and> wp_schema_version p = pt_schema_version t
     \<and> is_ok (fst (wp_validate_chain port w (wp_committed_revision p) (wp_schema_version p) s))"

text \<open>
  The revision follows the committed one: the chain of the committed checkpoints was validated and
  ends in the revision the pointer names, of the same project, session and action; the ledger has
  those checkpoints, or one more, which names the revision.
\<close>

definition successor_evidence ::
  "'s recovery_port \<Rightarrow> string \<Rightarrow> 's \<Rightarrow> pending_transaction \<Rightarrow> workflow_pointer \<Rightarrow> bool" where
  "successor_evidence port w s t p \<longleftrightarrow> follows_pointer p t \<and>
     (\<exists>cs c. fst (wp_checkpoints port w s) = Inr cs
       \<and> fst (wp_validate_chain_with port w (wp_committed_revision p) (wp_schema_version p)
            (take (unat (wp_committed_revision p)) cs) s) = Inr c
       \<and> wr_artifact_hash c = wp_artifact_hash p \<and> wr_project_id c = wr_project_id (pt_record t)
       \<and> wr_session_id c = wr_session_id (pt_record t) \<and> wr_action_id c = wr_action_id (pt_record t)
       \<and> (of_nat (length cs) = wp_committed_revision p
          \<or> of_nat (length cs) = wr_revision (pt_record t)
            \<and> names_revision (cs ! (unat (wr_revision (pt_record t)) - 1)) (pt_record t)))"

text \<open>The first revision, of the current project: the ledger has no checkpoint of the workflow but its own.\<close>

definition first_evidence :: "'s recovery_port \<Rightarrow> string \<Rightarrow> 's \<Rightarrow> pending_transaction \<Rightarrow> bool" where
  "first_evidence port w s t \<longleftrightarrow> wr_revision (pt_record t) = 1 \<and> wr_previous_hash (pt_record t) = ''none''
     \<and> (\<exists>cs identity. fst (wp_checkpoints port w s) = Inr cs
        \<and> (cs = [] \<or> (\<exists>c. cs = [c] \<and> names_revision c (pt_record t)))
        \<and> fst (wp_current_identity port s) = Inr identity \<and> wr_project_id (pt_record t) = ri_project_id identity)"

definition recovery_evidence ::
  "'s recovery_port \<Rightarrow> string \<Rightarrow> 's \<Rightarrow> pending_transaction \<Rightarrow> recovery_disposition \<Rightarrow> bool" where
  "recovery_evidence port w s t d \<longleftrightarrow> wr_workflow_id (pt_record t) = w \<and>
     (case d of
        AlreadyCommitted \<Rightarrow> (\<exists>p. fst (wp_load_pointer port w s) = Inr (Some p) \<and> wp_workflow_id p = w
          \<and> committed_evidence port w s t p)
      | Prepared \<Rightarrow>
          fst (wp_checkpoint_exists port w (wr_revision (pt_record t)) (wr_artifact_hash (pt_record t)) s) = Inr True
          \<and> (fst (wp_load_pointer port w s) = Inr None \<and> first_evidence port w s t
             \<or> (\<exists>p. fst (wp_load_pointer port w s) = Inr (Some p) \<and> wp_workflow_id p = w
                  \<and> successor_evidence port w s t p)))"

lemma validate_against_pointer_follows:
  assumes port: "reads_only port" and ok: "fst (validate_against_pointer port w t p s) = Inr u"
  shows "successor_evidence port w s t p"
proof -
  from port have reads: "read_only (wp_checkpoints port w)" "read_only (wp_validate_chain_with port w n v cs)" for n v cs
    by (simp_all add: reads_only_def)
  from ok have follows: "follows_pointer p t"
    by (auto simp: validate_against_pointer_def Let_def follows_pointer_def checked_add_Some_iff sthrow_def
        split: if_splits)
  from ok obtain cs where cs: "fst (wp_checkpoints port w s) = Inr cs"
    by (auto simp: validate_against_pointer_def Let_def sthrow_def sbind_read_only [OF reads(1)] split: if_splits sum.splits)
  let ?chain = "wp_validate_chain_with port w (wp_committed_revision p) (wp_schema_version p)
      (take (unat (wp_committed_revision p)) cs)"
  from ok cs obtain c where c: "fst (?chain s) = Inr c"
    by (auto simp: validate_against_pointer_def Let_def sthrow_def sbind_read_only [OF reads(1)] sbind_read_only [OF reads(2)]
        split: if_splits sum.splits)
  from ok cs c follows show ?thesis
    unfolding successor_evidence_def
    by (intro conjI exI [of _ cs] exI [of _ c])
      (auto simp: validate_against_pointer_def Let_def sthrow_def sbind_read_only [OF reads(1)] sbind_read_only [OF reads(2)]
        names_revision_def split: if_splits)
qed

lemma validate_first_revision_fresh:
  assumes port: "reads_only port" and ok: "fst (validate_first_revision port w t s) = Inr u"
  shows "first_evidence port w s t"
proof -
  from port have reads: "read_only (wp_checkpoints port w)" "read_only (wp_current_identity port)"
    by (simp_all add: reads_only_def)
  from ok obtain cs where cs: "fst (wp_checkpoints port w s) = Inr cs"
    by (auto simp: validate_first_revision_def Let_def sbind_read_only [OF reads(1)] split: sum.splits)
  from ok cs obtain identity where identity: "fst (wp_current_identity port s) = Inr identity"
    by (auto simp: validate_first_revision_def Let_def sthrow_def sbind_read_only [OF reads(1)] sbind_read_only [OF reads(2)]
        split: if_splits sum.splits)
  have "cs = [] \<or> (\<exists>c. cs = [c] \<and> names_revision c (pt_record t))"
    using ok cs identity
    by (cases cs) (auto simp: validate_first_revision_def Let_def sthrow_def sbind_read_only [OF reads(1)]
        names_revision_def split: if_splits)
  with ok cs identity show ?thesis
    by (auto simp: first_evidence_def validate_first_revision_def Let_def sthrow_def sbind_read_only [OF reads(1)]
        sbind_read_only [OF reads(2)] split: if_splits)
qed

lemma require_checkpoint_exists:
  assumes "reads_only port" "fst (require_checkpoint port w t s) = Inr d"
  shows "d = Prepared \<and>
    fst (wp_checkpoint_exists port w (wr_revision (pt_record t)) (wr_artifact_hash (pt_record t)) s) = Inr True"
  using assms by (auto simp: require_checkpoint_def reads_only_def sbind_read_only sthrow_def sreturn_def
      split: sum.splits if_splits)

lemma sthen_read_only_Inr:
  "read_only m \<Longrightarrow> fst (sthen m k s) = Inr x \<Longrightarrow> (\<exists>u. fst (m s) = Inr u) \<and> fst (k s) = Inr x"
  by (auto simp: sthen_def sbind_read_only split: sum.splits)

lemma validate_pending_evidence:
  assumes port: "reads_only port" and ok: "fst (validate_pending_transaction port w t s) = Inr d"
  shows "recovery_evidence port w s t d"
proof -
  from port have ptr: "read_only (wp_load_pointer port w)" by (simp add: reads_only_def)
  from ok have id: "wr_workflow_id (pt_record t) = w"
    by (auto simp: validate_pending_transaction_def Let_def sthrow_def split: if_splits)
  from ok obtain loaded where loaded: "fst (wp_load_pointer port w s) = Inr loaded"
    by (auto simp: validate_pending_transaction_def Let_def id sbind_read_only [OF ptr] split: sum.splits)
  show ?thesis
  proof (cases loaded)
    case None
    with ok loaded have "fst (sthen (validate_first_revision port w t) (require_checkpoint port w t) s) = Inr d"
      by (simp add: validate_pending_transaction_def Let_def id sbind_read_only [OF ptr])
    from sthen_read_only_Inr [OF validate_reads_only(2) [OF port] this] loaded None id
    show ?thesis using validate_first_revision_fresh [OF port] require_checkpoint_exists [OF port]
      by (fastforce simp: recovery_evidence_def)
  next
    case (Some p)
    show ?thesis
    proof (cases "wp_committed_revision p = wr_revision (pt_record t) \<and> wp_artifact_hash p = wr_artifact_hash (pt_record t)")
      case True
      with ok loaded Some port show ?thesis
        by (auto simp: validate_pending_transaction_def Let_def id sbind_read_only [OF ptr] reads_only_def
            sbind_read_only [of "wp_validate_chain _ _ _ _"] sthrow_def sreturn_def recovery_evidence_def
            committed_evidence_def
            split: if_splits sum.splits)
    next
      case False
      with ok loaded Some have w: "wp_workflow_id p = w"
        and v: "fst (sthen (validate_against_pointer port w t p) (require_checkpoint port w t) s) = Inr d"
        by (auto simp: validate_pending_transaction_def Let_def id sbind_read_only [OF ptr] sthrow_def split: if_splits)
      from sthen_read_only_Inr [OF validate_reads_only(1) [OF port] v] loaded Some id w
      show ?thesis using validate_against_pointer_follows [OF port] require_checkpoint_exists [OF port]
        by (fastforce simp: recovery_evidence_def)
    qed
  qed
qed

text \<open>
  C25 Recovery of a pending workflow transaction writes nothing before its evidence is complete. When
  it changed the state, the transaction is the workflow's own and one of these was established on the
  state before: the pointer already names the revision, with its schema, and its chain is valid; or
  the ledger has the checkpoint of the revision, which is the successor of the committed one (same
  project, session and action, its chain of checkpoints valid and ending in the hash the pointer
  names, a checkpoint past it only its own), or the first revision of the current project with no
  checkpoint but its own. The hypothesis on the port is that its loads and validations only read.
\<close>

theorem recovery_evidence_first:
  assumes "reads_only port" "snd (recover_workflow_transaction port w s) \<noteq> s"
  shows "\<exists>t d. fst (wp_load_transaction port w s) = Inr (Some t) \<and> recovery_evidence port w s t d"
proof -
  from assms(1) have load: "read_only (wp_load_transaction port w)" by (simp add: reads_only_def)
  from assms(2) obtain t where t: "fst (wp_load_transaction port w s) = Inr (Some t)"
    by (auto simp: recover_workflow_transaction_def sbind_read_only [OF load] sreturn_def
        split: sum.splits option.splits)
  with assms(2) obtain d where "fst (validate_pending_transaction port w t s) = Inr d"
    by (auto simp: recover_workflow_transaction_def sbind_read_only [OF load]
        sbind_read_only [OF validate_pending_reads_only [OF assms(1)]] split: sum.splits)
  from validate_pending_evidence [OF assms(1) this] t show ?thesis by blast
qed

definition wit_pending :: pending_transaction where
  "wit_pending = \<lparr>pt_schema_version = 4,
     pt_record = wit_record\<lparr>wr_workflow_id := ''w'', wr_revision := 1\<rparr>, pt_body = ''body''\<rparr>"

definition wit_recovery :: "nat recovery_port" where
  "wit_recovery = \<lparr>wp_load_transaction = (\<lambda>_. sreturn (Some wit_pending)), wp_load_pointer = (\<lambda>_. sreturn None),
     wp_checkpoints = (\<lambda>_. sreturn []), wp_validate_chain = (\<lambda>_ _ _. sreturn wit_record),
     wp_validate_chain_with = (\<lambda>_ _ _ _. sreturn wit_record),
     wp_current_identity = sreturn wit_identity, wp_checkpoint_exists = (\<lambda>_ _ _. sreturn True),
     wp_install_snapshot = (\<lambda>_ _ n. (Inr (), Suc n)), wp_install_pointer = (\<lambda>_ _ n. (Inr (), Suc n)),
     wp_remove_transaction = (\<lambda>_ n. (Inr (), Suc n)), wp_corrupt = (\<lambda>w _. blocked_error w [])\<rparr>"

lemma wit_recovery_runs: "recover_workflow_transaction wit_recovery ''w'' 0 = (Inr (), 3)"
  by (simp add: recover_workflow_transaction_def validate_pending_transaction_def validate_first_revision_def
      require_checkpoint_def wit_recovery_def wit_pending_def wit_record_def workflow_record_new_def Let_def
      wit_identity_def sthen_def sbind_def sreturn_def)

lemma recovery_evidence_first_witness:
  "\<exists>t d. fst (wp_load_transaction wit_recovery ''w'' 0) = Inr (Some t) \<and> recovery_evidence wit_recovery ''w'' 0 t d"
proof (rule recovery_evidence_first)
  show "reads_only wit_recovery" by (simp add: reads_only_def wit_recovery_def)
qed (simp add: wit_recovery_runs)

section \<open>Bindings of the current state\<close>

text \<open>
  C26 A current state accepted against a tail of the ledger that is not at its head names, by
  ordinal, id and hash, one of the events of the tail; the ordinals are computed in 64-bit
  arithmetic that saturates and never wraps.
\<close>

theorem ledger_ancestor_bound:
  assumes "validate_ledger_ancestor current tail_binding (drop k evs) = Inr ()"
    and "k \<le> length evs" "Suc (length evs) < 2 ^ 64" "unat (lb_event_count tail_binding) = length evs"
    and "current \<noteq> tail_binding" "lb_event_count current \<noteq> 0 \<or> lb_event_hash current \<noteq> ''root''"
  shows "k < unat (lb_event_count current) \<and> unat (lb_event_count current) \<le> length evs
    \<and> lb_event_id current = Some (event_id (evs ! (unat (lb_event_count current) - 1)))
    \<and> event_hash (evs ! (unat (lb_event_count current) - 1)) = Some (lb_event_hash current)"
proof -
  let ?c = "lb_event_count current" and ?t = "lb_event_count tail_binding"
  define n where "n = length (drop k evs)"
  let ?first = "saturating_add (saturating_sub ?t (of_nat n)) 1"
  have len: "unat (of_nat n :: u64) = length evs - k"
    using assms(3) by (subst unat_of_nat_small) (simp_all add: n_def)
  have first: "unat ?first = Suc k"
    using assms(2-4) by (simp add: unat_saturating_add unat_saturating_sub len)
  from assms(1,5,6) obtain index where index: "checked_sub ?c ?first = Some index" "?c \<le> ?t"
    "unat index < length (drop k evs)"
    "lb_event_id current = Some (event_id (drop k evs ! unat index))"
    "event_hash (drop k evs ! unat index) = Some (lb_event_hash current)"
    unfolding n_def by (auto simp: validate_ledger_ancestor_def Let_def not_less split: if_splits option.splits)
  from index(1) have le: "?first \<le> ?c" and i: "index = ?c - ?first"
    by (auto simp: checked_sub_def split: if_splits)
  have u: "unat index = unat ?c - Suc k" using le i first by (simp add: unat_sub)
  have k: "k < unat ?c" using le first by (simp add: word_le_nat_alt)
  have "unat ?c \<le> length evs" using index(2) assms(4) by (simp add: word_le_nat_alt)
  moreover have "drop k evs ! unat index = evs ! (unat ?c - 1)"
    using u k assms(2) by (simp add: nth_drop)
  ultimately show ?thesis using index k by simp
qed

definition wit_ledger :: "parsed_event list" where
  "wit_ledger = [
     \<lparr>event_id = ''e1'', ts_ms = 0, event_type = ''session.new'', project_id = ''p'', session_id = ''s'',
      summary = [], details = [], previous_event_hash = Some ''root'', event_hash = Some ''h1''\<rparr>,
     \<lparr>event_id = ''e2'', ts_ms = 0, event_type = ''transcript.recorded'', project_id = ''p'', session_id = ''s'',
      summary = [], details = [], previous_event_hash = Some ''h1'', event_hash = Some ''h2''\<rparr>]"

definition wit_head :: ledger_binding where
  "wit_head = \<lparr>lb_event_count = 2, lb_event_id = Some ''e2'', lb_event_hash = ''h2''\<rparr>"

definition wit_current :: ledger_binding where
  "wit_current = \<lparr>lb_event_count = 1, lb_event_id = Some ''e1'', lb_event_hash = ''h1''\<rparr>"

lemma wit_ancestor: "validate_ledger_ancestor wit_current wit_head (drop 0 wit_ledger) = Inr ()"
  by (simp add: validate_ledger_ancestor_def wit_current_def wit_head_def wit_ledger_def Let_def
      saturating_add_def saturating_sub_def checked_sub_def)

lemma ledger_ancestor_bound_witness:
  "event_hash (wit_ledger ! (unat (lb_event_count wit_current) - 1)) = Some (lb_event_hash wit_current)"
  using ledger_ancestor_bound [OF wit_ancestor]
  by (simp add: wit_head_def wit_current_def wit_ledger_def)

text \<open>
  A selection made on a current state older than the ledger's head is accepted only when
  every later event is a transcript record.
\<close>

theorem selection_suffix_transcripts:
  assumes "validate_selection_ledger_suffix current tail_binding evs = Inr ()"
    and "unat (lb_event_count current) \<le> i" "i < length evs"
  shows "event_type (evs ! i) = ''transcript.recorded''"
proof -
  from assms(1) have "list_all (\<lambda>event. event_type event = ''transcript.recorded'')
      (drop (unat (lb_event_count current)) evs)"
    by (auto simp: validate_selection_ledger_suffix_def rbind_Inr_iff split: if_splits)
  then have "event_type (drop (unat (lb_event_count current)) evs ! (i - unat (lb_event_count current)))
      = ''transcript.recorded''"
    using assms(2,3) unfolding list_all_length by (auto simp del: nth_drop)
  then show ?thesis using assms(2,3) by (subst (asm) nth_drop) simp_all
qed

lemma selection_suffix_transcripts_witness: "event_type (wit_ledger ! 1) = ''transcript.recorded''"
proof (rule selection_suffix_transcripts)
  show "validate_selection_ledger_suffix wit_current wit_head wit_ledger = Inr ()"
    using wit_ancestor by (simp add: validate_selection_ledger_suffix_def)
      (simp add: wit_current_def wit_ledger_def)
qed (simp_all add: wit_current_def wit_ledger_def)

end
