(* ===== verification/Transcript_Codec.thy ===== *)
theory Transcript_Codec
  imports Policy Ledger_Codec
begin

text \<open>
  \<open>workflow/storage_compat/transcript\<close>: transcript records in two schema versions, their
  validation, their texts and the artifact payload that is hashed.
\<close>

section \<open>Types and schema (types.rs, schema.rs)\<close>

record transcript_source_pointer =
  tsp_stable_ref :: string
  tsp_path :: string
  tsp_source_hash :: string

record tool_output_binding =
  tob_id :: string
  tob_path :: string
  tob_hash :: string

record transcript_record =
  tr_schema_version :: u64
  tr_record_id :: string
  tr_project_id :: string
  tr_session_id :: string
  tr_workflow_id :: string
  tr_kind :: string
  tr_causal_id :: string
  tr_content :: string
  tr_content_hash :: string
  tr_source_pointers :: "transcript_source_pointer list"
  tr_recorded_at_ms :: u128
  tr_tool_output :: "tool_output_binding option"
  tr_artifact_hash :: string

definition max_transcript_content_bytes :: nat where "max_transcript_content_bytes = 64 * 1024"

definition transcript_v1_keys :: "string list" where
  "transcript_v1_keys = [''schema_version'', ''record_id'', ''project_id'', ''session_id'', ''workflow_id'',
     ''kind'', ''causal_id'', ''content'', ''content_hash'', ''source_pointers'', ''recorded_at_ms'',
     ''artifact_hash'']"

definition transcript_v2_keys :: "string list" where
  "transcript_v2_keys = [''schema_version'', ''record_id'', ''project_id'', ''session_id'', ''workflow_id'',
     ''kind'', ''causal_id'', ''content'', ''content_hash'', ''source_pointers'', ''recorded_at_ms'',
     ''tool_output_artifact'', ''artifact_hash'']"

definition tool_binding_keys :: "string list" where
  "tool_binding_keys = [''id'', ''path'', ''hash'']"

section \<open>Validation (validation.rs)\<close>

definition validate_kind :: "string \<Rightarrow> unit result" where
  "validate_kind kind =
     (if kind \<in> {''user'', ''model'', ''tool'', ''evidence''} then Inr ()
      else Inl (blocked_error ''transcript kind'' [kind]))"

definition id_byte :: "char \<Rightarrow> bool" where
  "id_byte c \<longleftrightarrow> is_ascii_alphanumeric c \<or> c \<in> {CHR ''-'', CHR ''_'', CHR ''.'', CHR '':''}"

definition valid_id :: "string \<Rightarrow> bool" where
  "valid_id v \<longleftrightarrow> v \<noteq> [] \<and> length v \<le> 160 \<and> v \<notin> {''.'', ''..''} \<and> list_all id_byte v"

definition validate_id :: "string \<Rightarrow> string \<Rightarrow> unit result" where
  "validate_id label v = (if valid_id v then Inr () else Inl (blocked_error ''transcript id'' [label]))"

definition lower_hex :: "char \<Rightarrow> bool" where
  "lower_hex c \<longleftrightarrow> is_ascii_digit c \<or> 97 \<le> byte c \<and> byte c \<le> 102"

definition valid_sha256 :: "string \<Rightarrow> bool" where
  "valid_sha256 v \<longleftrightarrow> length v = 64 \<and> list_all lower_hex v"

definition validate_source_pointer :: "transcript_source_pointer \<Rightarrow> unit result" where
  "validate_source_pointer p =
     (if tsp_stable_ref p = [] \<or> 4096 < length (tsp_stable_ref p) \<or> CR \<in> set (tsp_stable_ref p)
         \<or> LF \<in> set (tsp_stable_ref p) \<or> tsp_path p = [] \<or> 4096 < length (tsp_path p)
         \<or> CR \<in> set (tsp_path p) \<or> LF \<in> set (tsp_path p)
         \<or> list_ex (\<lambda>c. c = ParentDir \<or> c = RootDir) (path_components (tsp_path p))
         \<or> \<not> valid_sha256 (tsp_source_hash p)
      then Inl (blocked_error ''transcript source pointer'' []) else Inr ())"

definition validate_sha256 :: "string \<Rightarrow> string \<Rightarrow> unit result" where
  "validate_sha256 label v = (if valid_sha256 v then Inr () else Inl (blocked_error ''transcript hash'' [label]))"

definition tool_output_artifact_relative_path :: "string \<Rightarrow> string \<Rightarrow> string \<Rightarrow> string \<Rightarrow> string" where
  "tool_output_artifact_relative_path project session workflow artifact =
     ''state/tool-output/'' @ project @ ''/'' @ session @ ''/'' @ workflow @ ''/'' @ artifact @ ''.json''"

definition validate_tool_binding_shape :: "transcript_record \<Rightarrow> unit result" where
  "validate_tool_binding_shape r =
     (if tr_schema_version r = 1 then
        (case tr_tool_output r of None \<Rightarrow> Inr ()
         | Some _ \<Rightarrow> Inl (blocked_error ''TranscriptRecord v1: tool binding'' []))
      else if tr_schema_version r = 2 then
        (if tr_kind r = ''tool'' then
          (case tr_tool_output r of
             None \<Rightarrow> Inl (blocked_error ''TranscriptRecord v2: missing tool binding'' [])
           | Some binding \<Rightarrow>
               rbind (validate_id ''tool artifact id'' (tob_id binding)) (\<lambda>_.
               rbind (validate_sha256 ''tool artifact hash'' (tob_hash binding)) (\<lambda>_.
                 if tob_path binding \<noteq> tool_output_artifact_relative_path (tr_project_id r)
                      (tr_session_id r) (tr_workflow_id r) (tob_id binding)
                 then Inl (blocked_error ''TranscriptRecord v2: tool artifact path'' []) else Inr ())))
         else case tr_tool_output r of None \<Rightarrow> Inr ()
           | Some _ \<Rightarrow> Inl (blocked_error ''TranscriptRecord v2: non-tool binding'' []))
      else Inl (blocked_error ''transcript schema version'' []))"

section \<open>Rendering (encode.rs)\<close>

definition quoted_escape :: "string \<Rightarrow> string" where
  "quoted_escape s = quoted (escape_string_content s)"

definition render_source_pointer :: "transcript_source_pointer \<Rightarrow> string" where
  "render_source_pointer p = template compact_layout
     [(''stable_ref'', quoted_escape (tsp_stable_ref p)), (''path'', quoted_escape (tsp_path p)),
      (''source_hash'', quoted_escape (tsp_source_hash p))]"

definition render_source_pointers :: "transcript_source_pointer list \<Rightarrow> string" where
  "render_source_pointers ps = ''['' @ join '','' (map render_source_pointer ps) @ '']''"

definition render_tool_binding :: "tool_output_binding option \<Rightarrow> string" where
  "render_tool_binding b =
     (case b of None \<Rightarrow> ''null''
      | Some binding \<Rightarrow> template compact_layout
          [(''id'', quoted_escape (tob_id binding)), (''path'', quoted_escape (tob_path binding)),
           (''hash'', quoted (tob_hash binding))])"

definition body_members :: "string \<Rightarrow> transcript_record \<Rightarrow> (string \<times> string) list" where
  "body_members version r =
     [(''schema_version'', version), (''record_id'', quoted_escape (tr_record_id r)),
      (''project_id'', quoted_escape (tr_project_id r)), (''session_id'', quoted_escape (tr_session_id r)),
      (''workflow_id'', quoted_escape (tr_workflow_id r)), (''kind'', quoted_escape (tr_kind r)),
      (''causal_id'', quoted_escape (tr_causal_id r)), (''content'', quoted_escape (tr_content r)),
      (''content_hash'', quoted (tr_content_hash r)),
      (''source_pointers'', render_source_pointers (tr_source_pointers r)),
      (''recorded_at_ms'', show_nat (unat (tr_recorded_at_ms r)))]"

definition artifact_payload :: "transcript_record \<Rightarrow> string" where
  "artifact_payload r =
     (if tr_schema_version r = 1 then template compact_layout (body_members ''1'' r)
      else if tr_schema_version r = 2 then template compact_layout
        (body_members ''2'' r @ [(''tool_output_artifact'', render_tool_binding (tr_tool_output r))])
      else [])"

definition transcript_members :: "transcript_record \<Rightarrow> (string \<times> string) list" where
  "transcript_members r =
     (if tr_schema_version r = 1
      then body_members ''1'' r @ [(''artifact_hash'', quoted (tr_artifact_hash r))]
      else body_members ''2'' r @ [(''tool_output_artifact'', render_tool_binding (tr_tool_output r)),
             (''artifact_hash'', quoted (tr_artifact_hash r))])"

definition transcript_to_json :: "transcript_record \<Rightarrow> string" where
  "transcript_to_json r =
     (if tr_schema_version r = 1 then template line_layout (transcript_members r) @ [LF]
      else if tr_schema_version r = 2 then template compact_layout (transcript_members r)
      else [])"

section \<open>Parsing (decode.rs)\<close>

definition parse_source_pointer :: "json \<Rightarrow> transcript_source_pointer result" where
  "parse_source_pointer v =
     (case v of
        JObject obj \<Rightarrow>
          if list_ex (\<lambda>k. k \<notin> {''stable_ref'', ''path'', ''source_hash''}) (object_keys obj)
          then Inl (blocked_error ''transcript source pointer key'' [])
          else
            rbind (json_string obj ''stable_ref'' ''transcript pointer'') (\<lambda>stable_ref.
            rbind (json_string obj ''path'' ''transcript pointer'') (\<lambda>path.
            rbind (json_string obj ''source_hash'' ''transcript pointer'') (\<lambda>source_hash.
              Inr \<lparr>tsp_stable_ref = stable_ref, tsp_path = path, tsp_source_hash = source_hash\<rparr>)))
      | _ \<Rightarrow> Inl (blocked_error ''transcript source pointer type'' []))"

definition parse_source_pointers :: "json option \<Rightarrow> transcript_source_pointer list result" where
  "parse_source_pointers v =
     (case v of Some (JArray vs) \<Rightarrow> traverse parse_source_pointer vs
      | _ \<Rightarrow> Inl (blocked_error ''transcript source_pointers type'' []))"

definition parse_v1 :: "string \<Rightarrow> transcript_record result" where
  "parse_v1 body =
     rbind (parse_object body transcript_v1_keys ''transcript v1'') (\<lambda>obj.
     rbind (json_number obj ''schema_version'' ''transcript v1'') (\<lambda>schema.
     if schema \<noteq> 1 then Inl (blocked_error ''transcript v1 schema'' [])
     else
       rbind (json_string obj ''record_id'' ''transcript v1'') (\<lambda>record_id.
       rbind (json_string obj ''project_id'' ''transcript v1'') (\<lambda>project.
       rbind (json_string obj ''session_id'' ''transcript v1'') (\<lambda>session.
       rbind (json_string obj ''workflow_id'' ''transcript v1'') (\<lambda>workflow_id.
       rbind (json_string obj ''kind'' ''transcript v1'') (\<lambda>kind.
       rbind (json_string obj ''causal_id'' ''transcript v1'') (\<lambda>causal_id.
       rbind (json_string obj ''content'' ''transcript v1'') (\<lambda>content.
       rbind (json_string obj ''content_hash'' ''transcript v1'') (\<lambda>content_hash.
       rbind (parse_source_pointers (object_get ''source_pointers'' obj)) (\<lambda>pointers.
       rbind (json_number_u128 obj ''recorded_at_ms'' ''transcript v1'') (\<lambda>recorded.
       rbind (json_string obj ''artifact_hash'' ''transcript v1'') (\<lambda>artifact_hash.
         Inr \<lparr>tr_schema_version = 1, tr_record_id = record_id, tr_project_id = project,
              tr_session_id = session, tr_workflow_id = workflow_id, tr_kind = kind,
              tr_causal_id = causal_id, tr_content = content, tr_content_hash = content_hash,
              tr_source_pointers = pointers, tr_recorded_at_ms = recorded, tr_tool_output = None,
              tr_artifact_hash = artifact_hash\<rparr>)))))))))))))"

text \<open>The closures \<open>string\<close> of the canonical parsers, with the error of each.\<close>

definition canonical_text :: "string \<Rightarrow> (string \<times> cjson) list \<Rightarrow> string \<Rightarrow> string result" where
  "canonical_text what obj key =
     (case object_get key obj of Some (CString v) \<Rightarrow> Inr v | _ \<Rightarrow> Inl (blocked_error what [key]))"

definition parse_canonical_pointer :: "cjson \<Rightarrow> transcript_source_pointer result" where
  "parse_canonical_pointer v =
     (case v of
        CObject obj \<Rightarrow>
          if object_keys obj \<noteq> [''stable_ref'', ''path'', ''source_hash'']
          then Inl (blocked_error ''TranscriptRecord v2 source pointer key'' [])
          else
            rbind (canonical_text ''TranscriptRecord v2 source pointer field'' obj ''stable_ref'') (\<lambda>stable_ref.
            rbind (canonical_text ''TranscriptRecord v2 source pointer field'' obj ''path'') (\<lambda>path.
            rbind (canonical_text ''TranscriptRecord v2 source pointer field'' obj ''source_hash'') (\<lambda>source_hash.
              Inr \<lparr>tsp_stable_ref = stable_ref, tsp_path = path, tsp_source_hash = source_hash\<rparr>)))
      | _ \<Rightarrow> Inl (blocked_error ''TranscriptRecord v2 source pointer type'' []))"

definition parse_canonical_source_pointers :: "cjson option \<Rightarrow> transcript_source_pointer list result" where
  "parse_canonical_source_pointers v =
     (case v of Some (CArray vs) \<Rightarrow> traverse parse_canonical_pointer vs
      | _ \<Rightarrow> Inl (blocked_error ''TranscriptRecord v2 source_pointers type'' []))"

definition parse_tool_binding :: "cjson option \<Rightarrow> tool_output_binding option result" where
  "parse_tool_binding v =
     (case v of
        Some CNull \<Rightarrow> Inr None
      | Some (CObject obj) \<Rightarrow>
          if object_keys obj \<noteq> tool_binding_keys
          then Inl (blocked_error ''TranscriptRecord v2 tool binding key'' [])
          else
            rbind (canonical_text ''TranscriptRecord v2 tool binding field'' obj ''id'') (\<lambda>i.
            rbind (canonical_text ''TranscriptRecord v2 tool binding field'' obj ''path'') (\<lambda>path.
            rbind (canonical_text ''TranscriptRecord v2 tool binding field'' obj ''hash'') (\<lambda>hash.
              Inr (Some \<lparr>tob_id = i, tob_path = path, tob_hash = hash\<rparr>))))
      | _ \<Rightarrow> Inl (blocked_error ''TranscriptRecord v2 tool_output_artifact type'' []))"

definition parse_v2 :: "string \<Rightarrow> transcript_record result" where
  "parse_v2 body =
     (let text = canonical_text ''TranscriptRecord v2 field type'' in
      rbind (parse_canonical_object body transcript_v2_keys ''TranscriptRecord v2'') (\<lambda>obj.
      rbind (canonical_u64 obj ''schema_version'' ''TranscriptRecord v2'') (\<lambda>schema.
      if schema \<noteq> 2 then Inl (blocked_error ''TranscriptRecord v2 schema'' [])
      else
        rbind (text obj ''record_id'') (\<lambda>record_id.
        rbind (text obj ''project_id'') (\<lambda>project.
        rbind (text obj ''session_id'') (\<lambda>session.
        rbind (text obj ''workflow_id'') (\<lambda>workflow_id.
        rbind (text obj ''kind'') (\<lambda>kind.
        rbind (text obj ''causal_id'') (\<lambda>causal_id.
        rbind (text obj ''content'') (\<lambda>content.
        rbind (text obj ''content_hash'') (\<lambda>content_hash.
        rbind (parse_canonical_source_pointers (object_get ''source_pointers'' obj)) (\<lambda>pointers.
        rbind (canonical_u128 obj ''recorded_at_ms'' ''TranscriptRecord v2'') (\<lambda>recorded.
        rbind (parse_tool_binding (object_get ''tool_output_artifact'' obj)) (\<lambda>binding.
        rbind (text obj ''artifact_hash'') (\<lambda>artifact_hash.
          Inr \<lparr>tr_schema_version = 2, tr_record_id = record_id, tr_project_id = project,
               tr_session_id = session, tr_workflow_id = workflow_id, tr_kind = kind,
               tr_causal_id = causal_id, tr_content = content, tr_content_hash = content_hash,
               tr_source_pointers = pointers, tr_recorded_at_ms = recorded, tr_tool_output = binding,
               tr_artifact_hash = artifact_hash\<rparr>)))))))))))))))"

definition check_record :: "hasher \<Rightarrow> transcript_record \<Rightarrow> transcript_record result" where
  "check_record sha r =
     rbind (validate_kind (tr_kind r)) (\<lambda>_.
     rbind (validate_id ''project id'' (tr_project_id r)) (\<lambda>_.
     rbind (validate_id ''record id'' (tr_record_id r)) (\<lambda>_.
     rbind (validate_id ''workflow id'' (tr_workflow_id r)) (\<lambda>_.
     rbind (validate_id ''session id'' (tr_session_id r)) (\<lambda>_.
     rbind (validate_id ''causal id'' (tr_causal_id r)) (\<lambda>_.
     if trim (tr_content r) = [] \<or> max_transcript_content_bytes < length (tr_content r)
     then Inl (blocked_error ''transcript content boundary'' [tr_record_id r])
     else
       rbind (traverse validate_source_pointer (tr_source_pointers r)) (\<lambda>_.
       rbind (validate_tool_binding_shape r) (\<lambda>_.
       if tr_content_hash r \<noteq> sha256_bytes sha (tr_content r)
       then Inl (blocked_error ''transcript content hash'' [tr_record_id r])
       else if tr_artifact_hash r \<noteq> sha256_bytes sha (artifact_payload r)
       then Inl (blocked_error ''transcript artifact hash'' [tr_record_id r])
       else Inr (r\<lparr>tr_artifact_hash := sha256_bytes sha (artifact_payload r)\<rparr>)))))))))"

definition parse_record :: "hasher \<Rightarrow> string \<Rightarrow> transcript_record result" where
  "parse_record sha body =
     rbind (parse_object body transcript_v2_keys ''transcript artifact version'') (\<lambda>probe.
     rbind (json_number probe ''schema_version'' ''transcript artifact version'') (\<lambda>schema.
     rbind (if schema = 1 then parse_v1 body else if schema = 2 then parse_v2 body
            else Inl (blocked_error ''transcript schema version'' [])) (check_record sha)))"

definition canonical_install_bytes ::
  "hasher \<Rightarrow> transcript_record \<Rightarrow> string option \<Rightarrow> string option result" where
  "canonical_install_bytes sha r existing =
     (let bytes = transcript_to_json r in
      if 128 * 1024 < length bytes then Inl (blocked_error ''TranscriptRecord v2 byte limit'' [])
      else rbind (parse_record sha bytes) (\<lambda>parsed.
        if parsed \<noteq> r then Inl (blocked_error ''TranscriptRecord codec round trip'' [])
        else case existing of
            Some old \<Rightarrow> if old = bytes then Inr None
              else Inl (blocked_error ''TranscriptRecord immutable conflict'' [])
          | None \<Rightarrow> Inr (Some bytes)))"

end
