(* ===== verification/Transcript_Domain.thy ===== *)
theory Transcript_Domain
  imports Transcript_Codec
begin

text \<open>
  \<open>workflow/domain/transcript.rs\<close> and the event of \<open>app/workflow_adapter/transcript/ledger_projection.rs\<close>:
  how a ledger event names a transcript record, and the records of a session.
\<close>

section \<open>Details\<close>

text \<open>The loop of \<open>parse_event_details\<close>, with the pairs it has pushed.\<close>

fun detail_pairs :: "(string \<times> string) list \<Rightarrow> string list \<Rightarrow> (string \<times> string) list result" where
  "detail_pairs pairs [] = Inr pairs"
| "detail_pairs pairs (part # parts) =
     rbind (ok_or (blocked_error ''transcript event detail token'' []) (split_once (CHR ''='') part)) (\<lambda>(key, v).
       if key = [] \<or> v = [] \<or> list_ex (\<lambda>(stored, _). stored = key) pairs
       then Inl (blocked_error ''transcript event detail key/value'' [])
       else detail_pairs (pairs @ [(key, v)]) parts)"

definition parse_event_details :: "string \<Rightarrow> (string \<times> string) list result" where
  "parse_event_details d =
     (if d = [] \<or> trim d \<noteq> d \<or> contains_str ''  '' d \<or> LF \<in> set d \<or> CR \<in> set d \<or> CHR 0x09 \<in> set d
      then Inl (blocked_error ''transcript event details spacing'' [])
      else detail_pairs [] (split_on (\<lambda>c. c = CHR '' '') d))"

definition detail_from_pairs :: "(string \<times> string) list \<Rightarrow> string \<Rightarrow> string option" where
  "detail_from_pairs pairs key = map_option snd (find (\<lambda>(stored, _). stored = key) pairs)"

definition event_detail_keys :: "u64 \<Rightarrow> string list option" where
  "event_detail_keys schema =
     (if schema = 1 then Some [''record_id'', ''workflow_id'', ''kind'', ''artifact_pointer'', ''artifact_hash'', ''content_hash'']
      else if schema = 2 then Some [''record_id'', ''workflow_id'', ''kind'', ''artifact_pointer'', ''artifact_hash'',
        ''content_hash'', ''tool_output_artifact_id'', ''tool_output_artifact_path'', ''tool_output_artifact_hash'']
      else None)"

definition validate_event_detail_keys :: "(string \<times> string) list \<Rightarrow> u64 \<Rightarrow> unit result" where
  "validate_event_detail_keys pairs schema =
     (case event_detail_keys schema of
        None \<Rightarrow> Inl (blocked_error ''transcript event schema'' [])
      | Some expected \<Rightarrow>
          if map fst pairs \<noteq> expected then Inl (blocked_error ''transcript event detail key/order'' []) else Inr ())"

definition validate_event_details_for_schema :: "string \<Rightarrow> u64 \<Rightarrow> unit result" where
  "validate_event_details_for_schema d schema =
     rbind (parse_event_details d) (\<lambda>pairs. validate_event_detail_keys pairs schema)"

section \<open>Bindings\<close>

record transcript_event_binding =
  teb_project_id :: string
  teb_session_id :: string
  teb_details :: "(string \<times> string) list"

definition transcript_pointer :: "string \<Rightarrow> string \<Rightarrow> string \<Rightarrow> string" where
  "transcript_pointer project session record_id =
     ''state/transcripts/'' @ project @ ''/'' @ session @ ''/'' @ record_id @ ''.json''"

definition parse_event_binding ::
  "string \<Rightarrow> string \<Rightarrow> string \<Rightarrow> string \<Rightarrow> transcript_event_binding result" where
  "parse_event_binding project session ty d =
     (if ty \<noteq> ''transcript.recorded'' then Inl (blocked_error ''transcript event type'' [])
      else
        rbind (validate_id ''project id'' project) (\<lambda>_.
        rbind (validate_id ''session id'' session) (\<lambda>_.
        rbind (parse_event_details d) (\<lambda>pairs.
        rbind (ok_or (blocked_error ''transcript event field: record_id'' []) (detail_from_pairs pairs ''record_id'')) (\<lambda>record_id.
        rbind (validate_id ''record id'' record_id) (\<lambda>_.
          if detail_from_pairs pairs ''artifact_pointer'' \<noteq> Some (transcript_pointer project session record_id)
          then Inl (blocked_error ''transcript event artifact pointer'' [record_id])
          else Inr \<lparr>teb_project_id = project, teb_session_id = session, teb_details = pairs\<rparr>))))))"

definition teb_detail :: "transcript_event_binding \<Rightarrow> string \<Rightarrow> string option" where
  "teb_detail b key = detail_from_pairs (teb_details b) key"

definition tool_texts :: "transcript_record \<Rightarrow> string \<times> string \<times> string" where
  "tool_texts r = (case tr_tool_output r of None \<Rightarrow> (''none'', ''none'', ''none'')
     | Some b \<Rightarrow> (tob_id b, tob_path b, tob_hash b))"

text \<open>
  \<open>record_id()\<close> panics on a binding without the detail; that is the branch \<open>panic\<close>, which no
  binding made by \<open>parse_event_binding\<close> reaches.
\<close>

definition validate_record :: "transcript_event_binding \<Rightarrow> transcript_record \<Rightarrow> unit result" where
  "validate_record b r =
     rbind (validate_event_detail_keys (teb_details b) (tr_schema_version r)) (\<lambda>_.
     case teb_detail b ''record_id'' of
       None \<Rightarrow> Inl (runtime_error ''panic: record_id'' [])
     | Some record_id \<Rightarrow>
         if tr_record_id r \<noteq> record_id \<or> tr_project_id r \<noteq> teb_project_id b \<or> tr_session_id r \<noteq> teb_session_id b
            \<or> teb_detail b ''workflow_id'' \<noteq> Some (tr_workflow_id r) \<or> teb_detail b ''kind'' \<noteq> Some (tr_kind r)
            \<or> teb_detail b ''content_hash'' \<noteq> Some (tr_content_hash r)
            \<or> teb_detail b ''artifact_hash'' \<noteq> Some (tr_artifact_hash r)
         then Inl (blocked_error ''transcript event binding'' [record_id])
         else if tr_schema_version r = 2 \<and>
            (teb_detail b ''tool_output_artifact_id'' \<noteq> Some (fst (tool_texts r))
             \<or> teb_detail b ''tool_output_artifact_path'' \<noteq> Some (fst (snd (tool_texts r)))
             \<or> teb_detail b ''tool_output_artifact_hash'' \<noteq> Some (snd (snd (tool_texts r))))
         then Inl (blocked_error ''transcript event tool binding'' [record_id])
         else Inr ())"

definition validate_event_identity :: "parsed_event \<Rightarrow> ledger_event \<Rightarrow> string \<Rightarrow> unit result" where
  "validate_event_identity event expected record_id =
     (if event_id event \<noteq> event_id expected \<or> ts_ms event \<noteq> ts_ms expected \<or> summary event \<noteq> summary expected
      then Inl (blocked_error ''transcript event identity'' [record_id]) else Inr ())"

section \<open>Records of a session\<close>

text \<open>The loop of \<open>collect_session_records\<close>; \<open>seen\<close> is its ordered set of record ids.\<close>

fun collect_loop ::
  "string \<Rightarrow> string \<Rightarrow> (parsed_event \<Rightarrow> ('s, transcript_record) effect) \<Rightarrow> transcript_record list \<Rightarrow> string set
   \<Rightarrow> parsed_event list \<Rightarrow> ('s, transcript_record list) effect" where
  "collect_loop project session load records seen [] = sreturn records"
| "collect_loop project session load records seen (event # events) =
     (if project_id event \<noteq> project \<or> session_id event \<noteq> session \<or> event_type event \<noteq> ''transcript.recorded''
      then collect_loop project session load records seen events
      else sbind (load event) (\<lambda>r.
        if tr_record_id r \<in> seen
        then sthrow (blocked_error ''transcript replay: duplicate record'' [tr_record_id r])
        else collect_loop project session load (records @ [r]) (insert (tr_record_id r) seen) events))"

definition collect_session_records ::
  "string \<Rightarrow> string \<Rightarrow> parsed_event list \<Rightarrow> (parsed_event \<Rightarrow> ('s, transcript_record) effect)
   \<Rightarrow> ('s, transcript_record list) effect" where
  "collect_session_records project session events load = collect_loop project session load [] {} events"

section \<open>The ledger event of a record (ledger\_projection.rs)\<close>

definition record_details :: "transcript_record \<Rightarrow> (string \<times> string) list" where
  "record_details r =
     [(''record_id'', tr_record_id r), (''workflow_id'', tr_workflow_id r), (''kind'', tr_kind r),
      (''artifact_pointer'', transcript_pointer (tr_project_id r) (tr_session_id r) (tr_record_id r)),
      (''artifact_hash'', tr_artifact_hash r), (''content_hash'', tr_content_hash r)]
     @ (if tr_schema_version r = 2 then
          [(''tool_output_artifact_id'', fst (tool_texts r)),
           (''tool_output_artifact_path'', fst (snd (tool_texts r))),
           (''tool_output_artifact_hash'', snd (snd (tool_texts r)))] else [])"

definition detail_text :: "(string \<times> string) list \<Rightarrow> string" where
  "detail_text pairs = join '' '' (map (\<lambda>(key, v). key @ ''='' @ v) pairs)"

definition transcript_ledger_event :: "hasher \<Rightarrow> transcript_record \<Rightarrow> ledger_event result" where
  "transcript_ledger_event sha r =
     rbind (validate_tool_binding_shape r) (\<lambda>_.
     if tr_schema_version r \<notin> {1, 2} then Inl (blocked_error ''transcript schema version'' [])
     else
       rbind (validate_event_details_for_schema (detail_text (record_details r)) (tr_schema_version r)) (\<lambda>_.
         let pointer_hash = sha256_bytes sha (render_source_pointers (tr_source_pointers r));
             (tool_id, tool_path, tool_hash) = (case tr_tool_output r of None \<Rightarrow> ([], [], [])
               | Some b \<Rightarrow> (tob_id b, tob_path b, tob_hash b));
             digest_input = join [CHR 0x00]
               [''rpotato.transcript-recorded-event-v1'', tr_project_id r, tr_session_id r, tr_workflow_id r,
                tr_record_id r, tr_kind r, tr_causal_id r, tr_content_hash r, pointer_hash, tool_id, tool_path,
                tool_hash, show_nat (unat (tr_recorded_at_ms r)), tr_artifact_hash r]
         in Inr \<lparr>event_id = ''event-transcript-'' @ sha256_bytes sha digest_input, ts_ms = tr_recorded_at_ms r,
                 event_type = ''transcript.recorded'', project_id = tr_project_id r, session_id = tr_session_id r,
                 summary = tr_kind r @ '' transcript record persisted'', details = detail_text (record_details r)\<rparr>))"

end
