(* ===== verification/Json_Arrays.thy ===== *)
theory Json_Arrays
  imports Json_Templates Policy
begin

text \<open>
  JSON arrays written by joining member texts, and strings the two string writers agree on.
\<close>

definition value_start :: "string \<Rightarrow> bool" where
  "value_start s \<longleftrightarrow> (case s of [] \<Rightarrow> False | c # _ \<Rightarrow> \<not> is_json_ws c \<and> c \<noteq> CHR '']'' \<and> c \<noteq> CHR ''}'')"

lemma join_Cons_step: "join d (w # us) = w @ (if us = [] then [] else d @ join d us)"
  by (cases us) simp_all

lemma elements_template:
  "list_all2 (reads d) raws vs \<Longrightarrow> raws \<noteq> [] \<Longrightarrow>
   elements_loop d acc (join '','' raws @ '']'' @ t) = Inr (JArray (acc @ vs), t)"
proof (induction raws arbitrary: vs acc)
  case (Cons raw raws)
  then obtain v vs' where vs: "vs = v # vs'" and raw: "reads d raw v" and rest: "list_all2 (reads d) raws vs'"
    by (cases vs) auto
  define tl where "tl = (if raws = [] then '']'' @ t else '','' @ join '','' raws @ '']'' @ t)"
  have body: "join '','' (raw # raws) @ '']'' @ t = raw @ tl" by (simp add: join_Cons_step tl_def)
  have "delimited tl" by (simp add: tl_def)
  with raw have v: "parse_json d (raw @ tl) = Inr (v, tl)" by (simp add: reads_def)
  have start: "ws tl = tl" by (simp add: tl_def ws_def is_json_ws_def)
  show ?case
  proof (cases "raws = []")
    case True
    with rest v start show ?thesis unfolding body elements_loop_step [of d acc]
      by (simp add: vs tl_def fst_consume)
  next
    case False
    then have "elements_loop d (acc @ [v]) (join '','' raws @ '']'' @ t) = Inr (JArray ((acc @ [v]) @ vs'), t)"
      by (rule Cons.IH [OF rest])
    with False v start show ?thesis unfolding body elements_loop_step [of d acc]
      by (simp add: vs tl_def fst_consume)
  qed
qed simp

lemma parse_json_array_open:
  assumes "d < max_json_nesting_depth" "\<not> fst (consume (CHR '']'') (ws b))"
  shows "parse_json d (CHR ''['' # b) = elements_loop (Suc d) [] (ws b)"
  using assms length_ws [of b]
  by (simp add: parse_json.simps [of d "CHR ''['' # b"] ws_non_ws is_json_ws_def less_Suc_eq_le)

lemma reads_array:
  assumes "list_all2 (reads (Suc d)) raws vs" "list_all value_start raws" "d < max_json_nesting_depth"
  shows "reads d (''['' @ join '','' raws @ '']'') (JArray vs)"
proof -
  have "parse_json d (''['' @ join '','' raws @ '']'' @ t) = Inr (JArray vs, t)" for t
  proof (cases raws)
    case Nil
    with assms(1,3) show ?thesis
      by (simp add: parse_json.simps [of d "CHR ''['' # _"] ws_def is_json_ws_def fst_consume)
  next
    case (Cons raw more)
    then obtain c u where raw: "raw = c # u" "\<not> is_json_ws c" "c \<noteq> CHR '']''"
      using assms(2) by (auto simp: value_start_def split: list.splits)
    let ?b = "join '','' raws @ '']'' @ t"
    have b: "?b = c # (u @ (if more = [] then [] else '','' @ join '','' more) @ '']'' @ t)"
      by (simp add: Cons raw join_Cons_step)
    have ws: "ws ?b = ?b" unfolding b by (simp add: ws_non_ws raw)
    have open_b: "\<not> fst (consume (CHR '']'') ?b)" unfolding b by (simp add: fst_consume raw)
    have "parse_json d (CHR ''['' # ?b) = elements_loop (Suc d) [] ?b"
      using parse_json_array_open [OF assms(3), of ?b] ws open_b by simp
    then show ?thesis using elements_template [OF assms(1), of "[]" t] Cons by simp
  qed
  then show ?thesis by (simp add: reads_def)
qed

lemma value_start_texts:
  "value_start (quoted s)" "value_start (template lay ms)" "value_start ''null''"
  by (simp_all add: value_start_def quoted_def template_def is_json_ws_def)

text \<open>A text both writers escape in the same way.\<close>

definition plain_text :: "string \<Rightarrow> bool" where
  "plain_text s \<longleftrightarrow> utf8_valid s \<and> quoted (escape_string_content s) = render_string s"

lemma plain_text_valid: "plain_text s \<Longrightarrow> utf8_valid s"
  by (simp add: plain_text_def)

lemma plain_text_chars: "list_all plain_char s \<Longrightarrow> CHR 0x7F \<notin> set s \<Longrightarrow> plain_text s"
proof -
  assume s: "list_all plain_char s" and del: "CHR 0x7F \<notin> set s"
  then have ascii: "all_ascii s" by (auto simp: all_ascii_def list_all_iff plain_char_def)
  have "escape_content_char [c] = [c]" if "c \<in> set s" for c
  proof -
    from that s have c: "plain_char c" by (simp add: list_all_iff)
    moreover have "byte c \<noteq> 127"
    proof
      assume "byte c = 127"
      then have "c = char_of (127 :: nat)" using char_of_eq_iff [of "127 :: nat" c] by simp
      also have "\<dots> = CHR 0x7F" by code_simp
      finally show False using that del by simp
    qed
    ultimately show ?thesis
      by (auto simp: plain_char_def escape_content_char_def is_control_def)
  qed
  then have "escape_string_content s = s"
    by (simp add: escape_string_content_def char_slices_all_ascii [OF ascii] comp_def concat_map_singleton cong: map_cong)
  with plain_key_chars [OF s] show ?thesis by (simp add: plain_text_def plain_key_def)
qed

text \<open>The text of a template is the canonical text of its values, member by member.\<close>

definition same_member :: "string \<times> string \<Rightarrow> string \<times> cjson \<Rightarrow> bool" where
  "same_member m kv \<longleftrightarrow> fst m = fst kv \<and> plain_key (fst m) \<and> snd m = render_cjson (snd kv)"

lemma template_members_render:
  "list_all2 same_member ms es \<Longrightarrow> template_members compact_layout ms = render_cmembers es"
proof (induction ms arbitrary: es)
  case (Cons m ms)
  then obtain kv es' where es: "es = kv # es'" "same_member m kv" "list_all2 same_member ms es'"
    by (cases es) auto
  then have "es' = [] \<longleftrightarrow> ms = []" by (auto dest: list_all2_lengthD)
  with es Cons.IH [OF es(3)] show ?case
    by (cases m; cases kv) (auto simp: same_member_def compact_layout_def plain_key_def)
qed (simp add: compact_layout_def)

lemma template_render: "list_all2 same_member ms es \<Longrightarrow> template compact_layout ms = render_cjson (CObject es)"
  by (simp add: template_def template_members_render)

lemma render_celements_join: "render_celements vs = join '','' (map render_cjson vs)"
  by (induction vs) (simp_all add: join_Cons_step)

end
