(* ===== verification/Transcript_Properties.thy ===== *)
theory Transcript_Properties
  imports Transcript_Domain Json_Arrays Workflow_Properties
begin

text \<open>
  What an accepted transcript record guarantees, how its texts are read, its ledger event, and the
  contents for which the two writers of the code disagree.
\<close>

section \<open>Accepted records\<close>

lemma check_record_Inr:
  assumes "check_record sha r = Inr r'"
  shows "r' = r \<and> tr_content_hash r = sha256_bytes sha (tr_content r)
    \<and> tr_artifact_hash r = sha256_bytes sha (artifact_payload r)
    \<and> list_all valid_id [tr_project_id r, tr_record_id r, tr_workflow_id r, tr_session_id r, tr_causal_id r]
    \<and> tr_kind r \<in> {''user'', ''model'', ''tool'', ''evidence''}
    \<and> trim (tr_content r) \<noteq> [] \<and> length (tr_content r) \<le> max_transcript_content_bytes
    \<and> list_all (\<lambda>p. validate_source_pointer p = Inr ()) (tr_source_pointers r)
    \<and> validate_tool_binding_shape r = Inr ()"
proof -
  have tr: "list_all (\<lambda>p. validate_source_pointer p = Inr ()) ps" if "traverse validate_source_pointer ps = Inr us" for ps us
    using that by (auto simp: traverse_Inr_iff list_all2_conv_all_nth list_all_length)
  show ?thesis using assms tr
    by (auto simp: check_record_def rbind_Inr_iff validate_kind_def validate_id_def split: if_splits)
qed

lemma tool_binding_shape:
  assumes "validate_tool_binding_shape r = Inr ()"
  shows "tr_schema_version r \<in> {1, 2} \<and> (tr_tool_output r \<noteq> None \<longleftrightarrow> tr_schema_version r = 2 \<and> tr_kind r = ''tool'')
    \<and> (\<forall>b. tr_tool_output r = Some b \<longrightarrow> valid_id (tob_id b) \<and> valid_sha256 (tob_hash b)
         \<and> tob_path b = tool_output_artifact_relative_path (tr_project_id r) (tr_session_id r) (tr_workflow_id r) (tob_id b))"
  using assms by (auto simp: validate_tool_binding_shape_def rbind_Inr_iff validate_id_def validate_sha256_def
      split: if_splits option.splits)

lemma source_pointer_inside:
  "validate_source_pointer p = Inr () \<Longrightarrow>
   ParentDir \<notin> set (path_components (tsp_path p)) \<and> RootDir \<notin> set (path_components (tsp_path p))"
  by (auto simp: validate_source_pointer_def list_ex_iff split: if_splits)

lemma parse_record_check:
  "parse_record sha body = Inr r \<Longrightarrow> \<exists>r0. check_record sha r0 = Inr r"
  by (auto simp: parse_record_def rbind_Inr_iff)

text \<open>
  C27 An accepted transcript record is sealed and bounded: its hashes are those of its content
  and of all its other fields, its content is not blank and at most 64 KiB, its source pointers
  stay inside the project, and it has a tool output exactly when it is a tool record of the
  second schema, at the one path that its ids determine.
\<close>

theorem transcript_accepted:
  assumes "parse_record sha body = Inr r"
  shows "tr_content_hash r = sha256_bytes sha (tr_content r)
    \<and> tr_artifact_hash r = sha256_bytes sha (artifact_payload r)
    \<and> trim (tr_content r) \<noteq> [] \<and> length (tr_content r) \<le> 65536
    \<and> (\<forall>p\<in>set (tr_source_pointers r). ParentDir \<notin> set (path_components (tsp_path p))
         \<and> RootDir \<notin> set (path_components (tsp_path p)))
    \<and> (tr_tool_output r \<noteq> None \<longleftrightarrow> tr_schema_version r = 2 \<and> tr_kind r = ''tool'')
    \<and> (\<forall>b. tr_tool_output r = Some b \<longrightarrow> tob_path b = tool_output_artifact_relative_path (tr_project_id r)
         (tr_session_id r) (tr_workflow_id r) (tob_id b))"
proof -
  from parse_record_check [OF assms] obtain r0 where "check_record sha r0 = Inr r" by blast
  from check_record_Inr [OF this] tool_binding_shape [of r0] source_pointer_inside show ?thesis
    by (auto simp: max_transcript_content_bytes_def list_all_iff)
qed

section \<open>Values of a record\<close>

definition pointer_values :: "transcript_source_pointer \<Rightarrow> json_object" where
  "pointer_values p = [(''stable_ref'', JString (tsp_stable_ref p)), (''path'', JString (tsp_path p)),
     (''source_hash'', JString (tsp_source_hash p))]"

definition tool_value :: "tool_output_binding option \<Rightarrow> json" where
  "tool_value b = (case b of None \<Rightarrow> JNull
     | Some t \<Rightarrow> JObject [(''id'', JString (tob_id t)), (''path'', JString (tob_path t)), (''hash'', JString (tob_hash t))])"

definition body_values :: "u128 \<Rightarrow> transcript_record \<Rightarrow> json_object" where
  "body_values version r =
     [(''schema_version'', JNumber version), (''record_id'', JString (tr_record_id r)),
      (''project_id'', JString (tr_project_id r)), (''session_id'', JString (tr_session_id r)),
      (''workflow_id'', JString (tr_workflow_id r)), (''kind'', JString (tr_kind r)),
      (''causal_id'', JString (tr_causal_id r)), (''content'', JString (tr_content r)),
      (''content_hash'', JString (tr_content_hash r)),
      (''source_pointers'', JArray (map (\<lambda>p. JObject (pointer_values p)) (tr_source_pointers r))),
      (''recorded_at_ms'', JNumber (tr_recorded_at_ms r))]"

definition transcript_values :: "transcript_record \<Rightarrow> json_object" where
  "transcript_values r =
     (if tr_schema_version r = 1 then body_values 1 r @ [(''artifact_hash'', JString (tr_artifact_hash r))]
      else body_values 2 r @ [(''tool_output_artifact'', tool_value (tr_tool_output r)),
             (''artifact_hash'', JString (tr_artifact_hash r))])"

definition valid_pointer_texts :: "transcript_source_pointer \<Rightarrow> bool" where
  "valid_pointer_texts p \<longleftrightarrow> utf8_valid (tsp_stable_ref p) \<and> utf8_valid (tsp_path p) \<and> utf8_valid (tsp_source_hash p)"

text \<open>The strings of a record as Rust has them; the hashes are written without escaping.\<close>

definition transcript_texts :: "transcript_record \<Rightarrow> bool" where
  "transcript_texts r \<longleftrightarrow>
     list_all utf8_valid [tr_record_id r, tr_project_id r, tr_session_id r, tr_workflow_id r, tr_kind r,
       tr_causal_id r, tr_content r]
     \<and> list_all plain_key [tr_content_hash r, tr_artifact_hash r]
     \<and> list_all valid_pointer_texts (tr_source_pointers r)
     \<and> (case tr_tool_output r of None \<Rightarrow> True
        | Some b \<Rightarrow> utf8_valid (tob_id b) \<and> utf8_valid (tob_path b) \<and> plain_key (tob_hash b))"

lemma transcript_keys_plain: "list_all plain_key transcript_v1_keys" "list_all plain_key transcript_v2_keys"
  "list_all plain_key [''stable_ref'', ''path'', ''source_hash'']" "list_all plain_key tool_binding_keys"
proof -
  have "list_all (list_all plain_char) transcript_v1_keys" "list_all (list_all plain_char) transcript_v2_keys"
    "list_all (list_all plain_char) [''stable_ref'', ''path'', ''source_hash'']"
    "list_all (list_all plain_char) tool_binding_keys"
    by (simp_all add: transcript_v1_keys_def transcript_v2_keys_def tool_binding_keys_def plain_char_def)
  then show "list_all plain_key transcript_v1_keys" "list_all plain_key transcript_v2_keys"
    "list_all plain_key [''stable_ref'', ''path'', ''source_hash'']" "list_all plain_key tool_binding_keys"
    by (simp_all only: list_all_iff) (blast intro: plain_key_chars)+
qed

lemma transcript_keys_distinct: "distinct transcript_v1_keys" "distinct transcript_v2_keys"
  by (simp_all add: transcript_v1_keys_def transcript_v2_keys_def)

lemma reads_pointer:
  assumes "valid_pointer_texts p" "d < max_json_nesting_depth"
  shows "reads d (render_source_pointer p) (JObject (pointer_values p))"
  unfolding render_source_pointer_def
  by (rule reads_template)
    (use assms transcript_keys_plain(3) reads_escaped in
      \<open>simp_all add: pointer_values_def valid_pointer_texts_def quoted_escape_def\<close>)

lemma reads_pointers:
  assumes "list_all valid_pointer_texts ps" "Suc d < max_json_nesting_depth"
  shows "reads d (render_source_pointers ps) (JArray (map (\<lambda>p. JObject (pointer_values p)) ps))"
  unfolding render_source_pointers_def
  by (rule reads_array)
    (use assms reads_pointer in \<open>auto simp: list_all2_conv_all_nth list_all_length value_start_texts render_source_pointer_def\<close>)

lemma reads_tool:
  assumes "case b of None \<Rightarrow> True | Some t \<Rightarrow> utf8_valid (tob_id t) \<and> utf8_valid (tob_path t) \<and> plain_key (tob_hash t)"
    and "d < max_json_nesting_depth"
  shows "reads d (render_tool_binding b) (tool_value b)"
proof (cases b)
  case (Some t)
  have "reads d (template compact_layout [(''id'', quoted_escape (tob_id t)), (''path'', quoted_escape (tob_path t)),
      (''hash'', quoted (tob_hash t))])
    (JObject [(''id'', JString (tob_id t)), (''path'', JString (tob_path t)), (''hash'', JString (tob_hash t))])"
    by (rule reads_template)
      (use assms Some transcript_keys_plain(4) reads_escaped reads_plain in \<open>simp_all add: quoted_escape_def tool_binding_keys_def\<close>)
  then show ?thesis by (simp add: Some render_tool_binding_def tool_value_def)
qed (simp add: render_tool_binding_def tool_value_def reads_literals)

section \<open>Round trips\<close>

lemma transcript_values_keys:
  "tr_schema_version r = 1 \<Longrightarrow> map fst (transcript_values r) = transcript_v1_keys"
  "tr_schema_version r = 2 \<Longrightarrow> map fst (transcript_values r) = transcript_v2_keys"
  by (simp_all add: transcript_values_def body_values_def transcript_v1_keys_def transcript_v2_keys_def)

lemma reads_two_fields: "reads d ''2'' (JNumber 2)"
proof -
  have "show_nat (unat (2 :: u128)) = ''2''" by code_simp
  then show ?thesis using reads_number [of d 2] by simp
qed

lemma transcript_members_read:
  assumes "transcript_texts r" "tr_schema_version r \<in> {1, 2}"
  shows "list_all2 (member_reads 1) (transcript_members r) (transcript_values r)"
proof -
  from assms(1) have s: "utf8_valid (tr_record_id r)" "utf8_valid (tr_project_id r)" "utf8_valid (tr_session_id r)"
    "utf8_valid (tr_workflow_id r)" "utf8_valid (tr_kind r)" "utf8_valid (tr_causal_id r)" "utf8_valid (tr_content r)"
    and h: "plain_key (tr_content_hash r)" "plain_key (tr_artifact_hash r)"
    and p: "list_all valid_pointer_texts (tr_source_pointers r)"
    and b: "case tr_tool_output r of None \<Rightarrow> True
        | Some b \<Rightarrow> utf8_valid (tob_id b) \<and> utf8_valid (tob_path b) \<and> plain_key (tob_hash b)"
    by (simp_all add: transcript_texts_def)
  note keys = transcript_keys_plain(2) [unfolded transcript_v2_keys_def, simplified]
  note pointers = reads_pointers [OF p, of "Suc 0"] and tool = reads_tool [OF b, of "Suc 0"]
  show ?thesis
    using assms(2) s h keys pointers tool reads_escaped reads_plain reads_one reads_two_fields reads_number
    by (auto simp: transcript_members_def transcript_values_def body_members_def body_values_def quoted_escape_def
        max_json_nesting_depth_def)
qed

lemma parse_transcript_value:
  assumes "transcript_texts r" "tr_schema_version r \<in> {1, 2}"
  shows "parse_value (transcript_to_json r) ctxt = Inr (JObject (transcript_values r))"
proof -
  have blank: "json_blank [LF]" "json_blank []" by (simp_all add: json_blank_def is_json_ws_def)
  have ms: "transcript_members r \<noteq> []" by (simp add: transcript_members_def body_members_def)
  have d: "distinct (map fst (transcript_values r))"
    using assms(2) transcript_values_keys [of r] transcript_keys_distinct by auto
  note read = parse_value_template [OF _ transcript_members_read [OF assms] ms d]
  show ?thesis
    using assms(2) read [OF blank_layouts(2) blank(1)] read [OF blank_layouts(1) blank(2)]
    by (auto simp: transcript_to_json_def)
qed

lemma find_keys_none: "set ks \<subseteq> set allowed \<Longrightarrow> find (\<lambda>k. k \<notin> set allowed) ks = None"
  by (auto simp: find_None_iff)

lemma parse_transcript_object:
  assumes "transcript_texts r" "tr_schema_version r \<in> {1, 2}"
  shows "parse_object (transcript_to_json r) transcript_v2_keys ctxt = Inr (transcript_values r)"
    "tr_schema_version r = 1 \<Longrightarrow> parse_object (transcript_to_json r) transcript_v1_keys ctxt = Inr (transcript_values r)"
proof -
  have sub: "set transcript_v1_keys \<subseteq> set transcript_v2_keys"
    by (simp add: transcript_v1_keys_def transcript_v2_keys_def)
  show "parse_object (transcript_to_json r) transcript_v2_keys ctxt = Inr (transcript_values r)"
    using assms(2) sub transcript_values_keys [of r]
    by (auto simp: parse_object_def parse_transcript_value [OF assms] object_keys_def find_keys_none)
  show "parse_object (transcript_to_json r) transcript_v1_keys ctxt = Inr (transcript_values r)"
    if "tr_schema_version r = 1"
    using transcript_values_keys(1) [OF that]
    by (simp add: parse_object_def parse_transcript_value [OF assms] object_keys_def find_keys_none)
qed

lemma parse_pointer_values: "parse_source_pointer (JObject (pointer_values p)) = Inr p"
  by (simp add: parse_source_pointer_def pointer_values_def object_keys_def json_string_def object_get_map_of)

lemma parse_pointers_values:
  "parse_source_pointers (Some (JArray (map (\<lambda>p. JObject (pointer_values p)) ps))) = Inr ps"
proof -
  have "traverse parse_source_pointer (map (\<lambda>p. JObject (pointer_values p)) ps) = Inr ps"
    by (induction ps) (simp_all add: parse_pointer_values)
  then show ?thesis by (simp add: parse_source_pointers_def)
qed

lemma parse_v1_values:
  assumes "transcript_texts r" "tr_schema_version r = 1" "tr_tool_output r = None"
  shows "parse_v1 (transcript_to_json r) = Inr r"
proof -
  have obj: "parse_object (transcript_to_json r) transcript_v1_keys ''transcript v1'' = Inr (transcript_values r)"
    using assms by (intro parse_transcript_object(2)) simp_all
  show ?thesis
    unfolding parse_v1_def obj using assms(2,3) parse_pointers_values
    by (simp add: transcript_values_def body_values_def json_string_def json_number_def json_number_u128_def
        object_get_map_of u64_try_from_def)
qed

definition canonical_pointer :: "transcript_source_pointer \<Rightarrow> cjson" where
  "canonical_pointer p = CObject [(''stable_ref'', CString (tsp_stable_ref p)), (''path'', CString (tsp_path p)),
     (''source_hash'', CString (tsp_source_hash p))]"

definition canonical_tool :: "tool_output_binding option \<Rightarrow> cjson" where
  "canonical_tool b = (case b of None \<Rightarrow> CNull
     | Some t \<Rightarrow> CObject [(''id'', CString (tob_id t)), (''path'', CString (tob_path t)), (''hash'', CString (tob_hash t))])"

definition canonical_transcript :: "transcript_record \<Rightarrow> (string \<times> cjson) list" where
  "canonical_transcript r =
     [(''schema_version'', CUnsigned ''2''), (''record_id'', CString (tr_record_id r)),
      (''project_id'', CString (tr_project_id r)), (''session_id'', CString (tr_session_id r)),
      (''workflow_id'', CString (tr_workflow_id r)), (''kind'', CString (tr_kind r)),
      (''causal_id'', CString (tr_causal_id r)), (''content'', CString (tr_content r)),
      (''content_hash'', CString (tr_content_hash r)),
      (''source_pointers'', CArray (map canonical_pointer (tr_source_pointers r))),
      (''recorded_at_ms'', CUnsigned (show_nat (unat (tr_recorded_at_ms r)))),
      (''tool_output_artifact'', canonical_tool (tr_tool_output r)),
      (''artifact_hash'', CString (tr_artifact_hash r))]"

lemma canonical_members_transcript:
  assumes "tr_schema_version r = 2"
  shows "canonical_members ctxt (transcript_values r) = Inr (canonical_transcript r)"
proof -
  have ptr: "canonical_elements ctxt (map (\<lambda>p. JObject (pointer_values p)) ps) = Inr (map canonical_pointer ps)" for ps
    by (induction ps) (simp_all add: pointer_values_def canonical_pointer_def)
  have two: "show_nat (unat (2 :: u128)) = ''2''" by code_simp
  have tool: "canonical_from_json ctxt (tool_value b) = Inr (canonical_tool b)" for b
    by (cases b) (simp_all add: tool_value_def canonical_tool_def)
  show ?thesis
    using assms two by (simp add: transcript_values_def body_values_def canonical_transcript_def ptr tool)
qed

definition plain_pointer :: "transcript_source_pointer \<Rightarrow> bool" where
  "plain_pointer p \<longleftrightarrow> list_all plain_text [tsp_stable_ref p, tsp_path p, tsp_source_hash p]"

text \<open>A record whose strings the two writers escape alike.\<close>

definition plain_record :: "transcript_record \<Rightarrow> bool" where
  "plain_record r \<longleftrightarrow>
     list_all plain_text [tr_record_id r, tr_project_id r, tr_session_id r, tr_workflow_id r, tr_kind r,
       tr_causal_id r, tr_content r]
     \<and> list_all plain_key [tr_content_hash r, tr_artifact_hash r]
     \<and> list_all plain_pointer (tr_source_pointers r)
     \<and> (case tr_tool_output r of None \<Rightarrow> True
        | Some b \<Rightarrow> plain_text (tob_id b) \<and> plain_text (tob_path b) \<and> plain_key (tob_hash b))"

lemma plain_record_texts: "plain_record r \<Longrightarrow> transcript_texts r"
  by (auto simp: plain_record_def transcript_texts_def plain_text_valid valid_pointer_texts_def plain_pointer_def
      list_all_iff split: option.splits)

lemma same_string: "plain_text s \<Longrightarrow> quoted_escape s = render_string s" "plain_key s \<Longrightarrow> quoted s = render_string s"
  by (simp_all add: plain_text_def quoted_escape_def plain_key_def)

lemma render_pointers_same:
  assumes "list_all plain_pointer ps"
  shows "render_source_pointers ps = render_cjson (CArray (map canonical_pointer ps))"
proof -
  have one: "render_source_pointer p = render_cjson (canonical_pointer p)" if "plain_pointer p" for p
    unfolding render_source_pointer_def canonical_pointer_def
    by (rule template_render) (use that transcript_keys_plain(3) in \<open>simp_all add: same_member_def plain_pointer_def same_string\<close>)
  have "map render_source_pointer ps = map render_cjson (map canonical_pointer ps)"
    using assms one by (simp add: list_all_iff)
  then have "join '','' (map render_source_pointer ps) = join '','' (map render_cjson (map canonical_pointer ps))"
    by (rule arg_cong)
  then show ?thesis by (simp only: render_source_pointers_def render_celements_join render_cjson.simps)
qed

lemma render_tool_same:
  assumes "case b of None \<Rightarrow> True | Some t \<Rightarrow> plain_text (tob_id t) \<and> plain_text (tob_path t) \<and> plain_key (tob_hash t)"
  shows "render_tool_binding b = render_cjson (canonical_tool b)"
proof (cases b)
  case (Some t)
  have "template compact_layout [(''id'', quoted_escape (tob_id t)), (''path'', quoted_escape (tob_path t)),
      (''hash'', quoted (tob_hash t))] = render_cjson (canonical_tool b)"
    unfolding canonical_tool_def Some option.case
    by (rule template_render)
      (use assms Some transcript_keys_plain(4) in \<open>simp_all add: same_member_def same_string tool_binding_keys_def\<close>)
  then show ?thesis by (simp add: Some render_tool_binding_def)
qed (simp add: render_tool_binding_def canonical_tool_def)

lemma transcript_canonical_text:
  assumes "plain_record r" "tr_schema_version r = 2"
  shows "transcript_to_json r = render_canonical_object (canonical_transcript r)"
proof -
  have "list_all2 same_member (transcript_members r) (canonical_transcript r)"
    using assms render_pointers_same [of "tr_source_pointers r"] render_tool_same [of "tr_tool_output r"]
      transcript_keys_plain(2) [unfolded transcript_v2_keys_def, simplified]
    by (simp add: transcript_members_def body_members_def canonical_transcript_def same_member_def plain_record_def
        same_string)
  from template_render [OF this] assms(2) show ?thesis
    by (simp add: transcript_to_json_def render_canonical_object_def)
qed

lemma canonical_transcript_get:
  "map fst (canonical_transcript r) = transcript_v2_keys"
  by (simp add: canonical_transcript_def transcript_v2_keys_def)

lemma parse_canonical_pointers_values:
  "parse_canonical_source_pointers (Some (CArray (map canonical_pointer ps))) = Inr ps"
proof -
  have "traverse parse_canonical_pointer (map canonical_pointer ps) = Inr ps"
    by (induction ps) (simp_all add: parse_canonical_pointer_def canonical_pointer_def object_keys_def
        canonical_text_def object_get_map_of)
  then show ?thesis by (simp add: parse_canonical_source_pointers_def)
qed

lemma parse_tool_values: "parse_tool_binding (Some (canonical_tool b)) = Inr b"
  by (cases b) (simp_all add: parse_tool_binding_def canonical_tool_def object_keys_def tool_binding_keys_def
      canonical_text_def object_get_map_of)

lemma parse_v2_values:
  assumes "plain_record r" "tr_schema_version r = 2"
  shows "parse_v2 (transcript_to_json r) = Inr r"
proof -
  have "object_keys (transcript_values r) = transcript_v2_keys"
    using transcript_values_keys(2) [OF assms(2)] by (simp add: object_keys_def)
  then have obj: "parse_canonical_object (transcript_to_json r) transcript_v2_keys ''TranscriptRecord v2''
      = Inr (canonical_transcript r)"
    using parse_transcript_value [OF plain_record_texts [OF assms(1)]] assms(2)
      canonical_members_transcript [OF assms(2)] transcript_canonical_text [OF assms]
    by (simp add: parse_canonical_object_def)
  have num: "parse_canonical_u128 (show_nat (unat n)) c k = Inr n" for n :: u128 and c k
    using canonical_u128_render [of "unat n"] unsigned_less [of n, where 'a = nat] by simp
  have "show_nat (unat (2 :: u128)) = ''2''" by code_simp
  with num [of 2] have two: "parse_canonical_u128 ''2'' c k = Inr 2" for c k by simp
  show ?thesis
    unfolding parse_v2_def obj Let_def
    using assms(2) parse_canonical_pointers_values parse_tool_values num two
    by (simp add: canonical_transcript_def canonical_text_def canonical_u64_def canonical_u128_def
        object_get_map_of u64_try_from_def)
qed

definition wit_transcript :: transcript_record where
  "wit_transcript = (let r = \<lparr>tr_schema_version = 2, tr_record_id = ''r'', tr_project_id = ''p'', tr_session_id = ''s'',
     tr_workflow_id = ''w'', tr_kind = ''user'', tr_causal_id = ''c'', tr_content = ''hi'', tr_content_hash = ''07'',
     tr_source_pointers = [], tr_recorded_at_ms = 7, tr_tool_output = None, tr_artifact_hash = ''07''\<rparr> in r)"

lemma plain_hash: "plain_key ''07''"
  using const_hash sha256_bytes_plain by metis

lemma wit_transcript_ok: "check_record (\<lambda>_. [CHR 0x07]) wit_transcript = Inr wit_transcript" "plain_record wit_transcript"
proof -
  have "trim ''hi'' = ''hi''" by (rule trim_ascii) (simp_all add: all_ascii_def is_whitespace_def)
  then show "check_record (\<lambda>_. [CHR 0x07]) wit_transcript = Inr wit_transcript"
    by (simp add: check_record_def wit_transcript_def validate_kind_def validate_id_def valid_id_def id_byte_def
        is_ascii_alphanumeric_def is_ascii_lowercase_def max_transcript_content_bytes_def
        validate_tool_binding_shape_def const_hash)
  have "plain_text s" if "s \<in> {''r'', ''p'', ''s'', ''w'', ''user'', ''c'', ''hi''}" for s
    using that by (intro plain_text_chars) (auto simp: plain_char_def)
  then show "plain_record wit_transcript"
    using plain_hash by (simp add: plain_record_def wit_transcript_def)
qed

lemma parse_wit_transcript:
  "parse_record (\<lambda>_. [CHR 0x07]) (transcript_to_json wit_transcript) = Inr wit_transcript"
proof -
  have two: "tr_schema_version wit_transcript = 2" by (simp add: wit_transcript_def)
  have "json_number (transcript_values wit_transcript) ''schema_version'' c = Inr 2" for c
    using two by (simp add: transcript_values_def body_values_def json_number_def object_get_map_of u64_try_from_def)
  with two parse_v2_values [OF wit_transcript_ok(2) two] plain_record_texts [OF wit_transcript_ok(2)] wit_transcript_ok(1)
    parse_transcript_object(1) [of wit_transcript] show ?thesis by (simp add: parse_record_def)
qed

lemma transcript_accepted_witness: "tr_content_hash wit_transcript = sha256_bytes (\<lambda>_. [CHR 0x07]) (tr_content wit_transcript)"
  using transcript_accepted [OF parse_wit_transcript] by blast

section \<open>Where the writers disagree\<close>

lemma template_members_around:
  "\<exists>p q. \<forall>x. template_members compact_layout (pre @ (k, x) # post) = p @ x @ q"
proof (induction pre)
  case Nil
  have "template_members compact_layout ([] @ (k, x) # post) = (quoted k @ '':'') @ x @
      (if post = [] then [] else '','' @ template_members compact_layout post)" for x
    by (simp add: compact_layout_def)
  then show ?case by blast
next
  case (Cons m pre)
  then obtain p q where "\<forall>x. template_members compact_layout (pre @ (k, x) # post) = p @ x @ q" by blast
  then have "template_members compact_layout ((m # pre) @ (k, x) # post) =
      (quoted (fst m) @ '':'' @ snd m @ '','' @ p) @ x @ q" for x
    by (cases m) (simp add: compact_layout_def)
  then show ?case by blast
qed

lemma template_around: "\<exists>p q. \<forall>x. template compact_layout (pre @ (k, x) # post) = p @ x @ q"
proof -
  obtain p q where "\<forall>x. template_members compact_layout (pre @ (k, x) # post) = p @ x @ q"
    using template_members_around by blast
  then have "\<forall>x. template compact_layout (pre @ (k, x) # post) = (''{'' @ p) @ x @ q @ ''}''"
    by (simp add: template_def)
  then show ?thesis by blast
qed

text \<open>
  The second schema writes its content with one escaping and accepts only the other: when the
  two differ on the content (on a backspace, a form feed, DEL or a C1 control), the record that
  was just written is refused as not canonical, so it can never be installed.
\<close>

theorem control_content_refused:
  assumes "tr_schema_version r = 2" "plain_record (r\<lparr>tr_content := ''x''\<rparr>)" "utf8_valid (tr_content r)"
    and "quoted_escape (tr_content r) \<noteq> render_string (tr_content r)"
  shows "parse_record sha (transcript_to_json r) =
    Inl (json_blocked ''TranscriptRecord v2'' ''input is not canonical JSON'')"
proof -
  have texts: "transcript_texts r"
    using plain_record_texts [OF assms(2)] assms(3) by (simp add: transcript_texts_def)
  let ?pre = "[(''schema_version'', ''2''), (''record_id'', quoted_escape (tr_record_id r)),
      (''project_id'', quoted_escape (tr_project_id r)), (''session_id'', quoted_escape (tr_session_id r)),
      (''workflow_id'', quoted_escape (tr_workflow_id r)), (''kind'', quoted_escape (tr_kind r)),
      (''causal_id'', quoted_escape (tr_causal_id r))]"
  let ?post = "[(''content_hash'', quoted (tr_content_hash r)),
      (''source_pointers'', render_source_pointers (tr_source_pointers r)),
      (''recorded_at_ms'', show_nat (unat (tr_recorded_at_ms r))),
      (''tool_output_artifact'', render_tool_binding (tr_tool_output r)),
      (''artifact_hash'', quoted (tr_artifact_hash r))]"
  let ?members = "\<lambda>x. ?pre @ (''content'', x) # ?post"
  have json: "transcript_to_json r = template compact_layout (?members (quoted_escape (tr_content r)))"
    using assms(1) by (simp add: transcript_to_json_def transcript_members_def body_members_def)
  have "list_all2 same_member (?members (render_string (tr_content r))) (canonical_transcript r)"
    using assms(1,2) render_pointers_same [of "tr_source_pointers r"] render_tool_same [of "tr_tool_output r"]
      transcript_keys_plain(2) [unfolded transcript_v2_keys_def, simplified]
    by (simp add: canonical_transcript_def same_member_def plain_record_def same_string)
  from template_render [OF this]
  have canon: "render_canonical_object (canonical_transcript r) =
      template compact_layout (?members (render_string (tr_content r)))"
    by (simp add: render_canonical_object_def)
  obtain p q where around: "\<And>x. template compact_layout (?members x) = p @ x @ q"
    using template_around by meson
  have differ: "render_canonical_object (canonical_transcript r) \<noteq> transcript_to_json r"
    using assms(4) unfolding json canon around by simp
  have "object_keys (transcript_values r) = transcript_v2_keys"
    using transcript_values_keys(2) [OF assms(1)] by (simp add: object_keys_def)
  then have "parse_canonical_object (transcript_to_json r) transcript_v2_keys ''TranscriptRecord v2'' =
      Inl (json_blocked ''TranscriptRecord v2'' ''input is not canonical JSON'')"
    using parse_transcript_value [OF texts] assms(1) canonical_members_transcript [OF assms(1)] differ
    by (simp add: parse_canonical_object_def)
  moreover have "json_number (transcript_values r) ''schema_version'' c = Inr 2" for c
    using assms(1) by (simp add: transcript_values_def body_values_def json_number_def object_get_map_of u64_try_from_def)
  ultimately show ?thesis
    using parse_transcript_object(1) [OF texts] assms(1) by (simp add: parse_record_def parse_v2_def)
qed

definition wit_backspace :: transcript_record where
  "wit_backspace = wit_transcript\<lparr>tr_content := [CHR ''a'', CHR 0x08]\<rparr>"

lemma control_content_refused_witness:
  "parse_record (\<lambda>_. [CHR 0x07]) (transcript_to_json wit_backspace) =
    Inl (json_blocked ''TranscriptRecord v2'' ''input is not canonical JSON'')"
proof (rule control_content_refused)
  have "plain_text ''x''" by (rule plain_text_chars) (simp_all add: plain_char_def)
  then show "plain_record (wit_backspace\<lparr>tr_content := ''x''\<rparr>)"
    using wit_transcript_ok(2) by (simp add: wit_backspace_def plain_record_def)
  show "quoted_escape (tr_content wit_backspace) \<noteq> render_string (tr_content wit_backspace)"
    by (simp add: wit_backspace_def quoted_escape_def quoted_def escape_string_content_def char_slices_ascii
        escape_content_char_def is_control_def render_string_def render_char_def show_hex4_def hex_char_def)
  show "utf8_valid (tr_content wit_backspace)" by (simp add: wit_backspace_def utf8_valid_ascii)
qed (simp add: wit_backspace_def wit_transcript_def)

section \<open>Ledger events\<close>

definition pair_text :: "string \<times> string \<Rightarrow> string" where
  "pair_text m = fst m @ ''='' @ snd m"

lemma detail_text_pairs: "detail_text pairs = join '' '' (map pair_text pairs)"
proof -
  have "(\<lambda>(key, v). key @ ''='' @ v) = pair_text" by (auto simp: pair_text_def)
  then show ?thesis by (simp add: detail_text_def)
qed

lemma detail_pairs_Inr:
  "detail_pairs pairs parts = Inr ps \<Longrightarrow> distinct (map fst pairs) \<Longrightarrow>
   \<exists>more. ps = pairs @ more \<and> parts = map pair_text more \<and> distinct (map fst ps)"
proof (induction pairs parts rule: detail_pairs.induct)
  case (2 pairs part parts)
  from 2(2) obtain key v where kv: "split_once (CHR ''='') part = Some (key, v)"
    "\<not> list_ex (\<lambda>(stored, _). stored = key) pairs" "detail_pairs (pairs @ [(key, v)]) parts = Inr ps"
    by (auto simp: rbind_Inr_iff ok_or_Inr_iff split: if_splits)
  from kv(2) 2(3) have d: "distinct (map fst (pairs @ [(key, v)]))" by (force simp: list_ex_iff)
  from 2(2) kv have "\<not> (key = [] \<or> v = [] \<or> list_ex (\<lambda>(stored, _). stored = key) pairs)"
    by (auto split: if_splits)
  from 2(1) [OF this kv(3) d] obtain more where
    "ps = (pairs @ [(key, v)]) @ more" "parts = map pair_text more" "distinct (map fst ps)" by blast
  moreover have "part = pair_text (key, v)" using split_once_Some [OF kv(1)] by (simp add: pair_text_def)
  ultimately show ?case by (intro exI [of _ "(key, v) # more"]) simp
qed simp

lemma parse_event_details_text:
  assumes "parse_event_details d = Inr ps"
  shows "d = detail_text ps \<and> distinct (map fst ps)"
proof -
  from assms have "detail_pairs [] (split_on (\<lambda>c. c = CHR '' '') d) = Inr ps"
    by (simp add: parse_event_details_def split: if_splits)
  from detail_pairs_Inr [OF this] have "split_on (\<lambda>c. c = CHR '' '') d = map pair_text ps" "distinct (map fst ps)"
    by simp_all
  with join_split_on [of "CHR '' ''" d] show ?thesis by (simp add: detail_text_pairs)
qed

lemma detail_from_pairs_map_of: "detail_from_pairs pairs key = map_of pairs key"
  by (induction pairs) (auto simp: detail_from_pairs_def)

lemma pairs_determined:
  assumes "map fst ps = map fst qs" "distinct (map fst ps)" "\<And>k v. (k, v) \<in> set qs \<Longrightarrow> map_of ps k = Some v"
  shows "ps = qs"
proof (rule nth_equalityI)
  show len: "length ps = length qs" using assms(1) by (metis length_map)
  fix i assume i: "i < length ps"
  then have k: "fst (ps ! i) = fst (qs ! i)" using assms(1) len by (metis nth_map)
  have "map_of ps (fst (ps ! i)) = Some (snd (ps ! i))" using assms(2) i by (simp add: nth_mem)
  moreover have "map_of ps (fst (qs ! i)) = Some (snd (qs ! i))"
    using i len by (intro assms(3)) simp
  ultimately show "ps ! i = qs ! i" using k by (simp add: prod_eq_iff)
qed

text \<open>
  The ledger event binds its transcript record exactly: an event whose details are accepted
  and validated for a record is the one event text of that record, field by field and in one
  order, in the record's own project and session.
\<close>

theorem event_binding_exact:
  assumes "parse_event_binding project session ty d = Inr b" "validate_record b r = Inr ()"
  shows "ty = ''transcript.recorded'' \<and> project = tr_project_id r \<and> session = tr_session_id r
    \<and> d = detail_text (record_details r)"
proof -
  from assms(1) obtain record_id where p: "ty = ''transcript.recorded''" "parse_event_details d = Inr (teb_details b)"
    "teb_project_id b = project" "teb_session_id b = session"
    "detail_from_pairs (teb_details b) ''record_id'' = Some record_id"
    "detail_from_pairs (teb_details b) ''artifact_pointer'' = Some (transcript_pointer project session record_id)"
    by (auto simp: parse_event_binding_def rbind_Inr_iff ok_or_Inr_iff split: if_splits)
  from assms(2) p have v: "validate_event_detail_keys (teb_details b) (tr_schema_version r) = Inr ()"
    "record_id = tr_record_id r" "project = tr_project_id r" "session = tr_session_id r"
    and f: "teb_detail b ''workflow_id'' = Some (tr_workflow_id r)" "teb_detail b ''kind'' = Some (tr_kind r)"
    "teb_detail b ''content_hash'' = Some (tr_content_hash r)" "teb_detail b ''artifact_hash'' = Some (tr_artifact_hash r)"
    and tools: "tr_schema_version r = 2 \<longrightarrow> teb_detail b ''tool_output_artifact_id'' = Some (fst (tool_texts r))
      \<and> teb_detail b ''tool_output_artifact_path'' = Some (fst (snd (tool_texts r)))
      \<and> teb_detail b ''tool_output_artifact_hash'' = Some (snd (snd (tool_texts r)))"
    by (auto simp: validate_record_def rbind_Inr_iff teb_detail_def split: if_splits option.splits)
  from v(1) have schema: "tr_schema_version r = 1 \<or> tr_schema_version r = 2"
    by (auto simp: validate_event_detail_keys_def event_detail_keys_def split: if_splits)
  have keys: "map fst (teb_details b) = map fst (record_details r)"
    using v(1) schema by (auto simp: validate_event_detail_keys_def event_detail_keys_def record_details_def split: if_splits)
  have "teb_details b = record_details r"
  proof (rule pairs_determined [OF keys])
    show "distinct (map fst (teb_details b))" using parse_event_details_text [OF p(2)] by simp
    show "map_of (teb_details b) k = Some v" if "(k, v) \<in> set (record_details r)" for k v
      using that p(5,6) v f tools schema
      by (auto simp: record_details_def teb_detail_def detail_from_pairs_map_of split: if_splits)
  qed
  with p(1) v parse_event_details_text [OF p(2)] show ?thesis by simp
qed

lemma id_byte_no_space: "valid_id v \<Longrightarrow> CHR '' '' \<notin> set v"
  by (auto simp: valid_id_def list_all_iff id_byte_def is_ascii_alphanumeric_def is_ascii_digit_def
      is_ascii_lowercase_def is_ascii_uppercase_def dest!: bspec)

lemma sha256_no_space: "valid_sha256 v \<Longrightarrow> CHR '' '' \<notin> set v"
  by (auto simp: valid_sha256_def list_all_iff lower_hex_def is_ascii_digit_def dest!: bspec)

lemma sha256_bytes_no_space: "CHR '' '' \<notin> set (sha256_bytes sha s)"
proof -
  have "list_all is_ascii_hexdigit (sha256_bytes sha s)"
    by (simp add: sha256_bytes_def bytes_to_hex_plain)
  then show ?thesis
    by (auto simp: list_all_iff is_ascii_hexdigit_def is_ascii_digit_def dest!: bspec)
qed

lemma record_details_no_space:
  assumes "check_record sha r = Inr r" "m \<in> set (record_details r)"
  shows "CHR '' '' \<notin> set (pair_text m)"
proof -
  from check_record_Inr [OF assms(1)] have ids: "CHR '' '' \<notin> set (tr_project_id r)" "CHR '' '' \<notin> set (tr_record_id r)"
    "CHR '' '' \<notin> set (tr_workflow_id r)" "CHR '' '' \<notin> set (tr_session_id r)"
    and kind: "CHR '' '' \<notin> set (tr_kind r)"
    and hash: "CHR '' '' \<notin> set (tr_content_hash r)" "CHR '' '' \<notin> set (tr_artifact_hash r)"
    and shape: "validate_tool_binding_shape r = Inr ()"
    by (auto simp: id_byte_no_space sha256_bytes_no_space)
  have tools: "CHR '' '' \<notin> set (fst (tool_texts r))" "CHR '' '' \<notin> set (fst (snd (tool_texts r)))"
    "CHR '' '' \<notin> set (snd (snd (tool_texts r)))"
    using tool_binding_shape [OF shape] ids
    by (auto simp: tool_texts_def tool_output_artifact_relative_path_def id_byte_no_space sha256_no_space
        split: option.splits)
  show ?thesis using assms(2) ids kind hash tools
    by (auto simp: record_details_def pair_text_def transcript_pointer_def split: if_splits)
qed

lemma pair_text_keys: "map fst ps = map fst qs \<Longrightarrow> map pair_text ps = map pair_text qs \<Longrightarrow> ps = qs"
proof (induction ps arbitrary: qs)
  case (Cons p ps)
  then obtain q qs' where "qs = q # qs'" by (cases qs) auto
  with Cons show ?case by (auto simp: pair_text_def prod_eq_iff)
qed simp

lemma own_details_parse:
  assumes "check_record sha r = Inr r" "parse_event_details (detail_text (record_details r)) = Inr ps"
    and "map fst ps = map fst (record_details r)"
  shows "ps = record_details r"
proof (rule pair_text_keys [OF assms(3)])
  have split: "split_on (\<lambda>c. c = CHR '' '') (join '' '' (map pair_text qs)) = map pair_text qs"
    if "qs \<noteq> []" "\<forall>m\<in>set qs. CHR '' '' \<notin> set (pair_text m)" for qs
    by (rule split_on_join) (use that in auto)
  have own: "split_on (\<lambda>c. c = CHR '' '') (detail_text (record_details r)) = map pair_text (record_details r)"
    unfolding detail_text_pairs
    by (rule split) (use record_details_no_space [OF assms(1)] in \<open>auto simp: record_details_def\<close>)
  from assms(2) have "detail_pairs [] (split_on (\<lambda>c. c = CHR '' '') (detail_text (record_details r))) = Inr ps"
    by (simp add: parse_event_details_def split: if_splits)
  from detail_pairs_Inr [OF this] own show "map pair_text ps = map pair_text (record_details r)" by simp
qed

text \<open>
  C29 The event the ledger gets for a checked record is accepted for it: its details parse to a
  binding that validates the record.
\<close>

theorem transcript_event_accepted:
  assumes "check_record sha r = Inr r" "transcript_ledger_event sha r = Inr e"
  shows "\<exists>b. parse_event_binding (project_id e) (session_id e) (event_type e) (details e) = Inr b
    \<and> validate_record b r = Inr () \<and> ts_ms e = tr_recorded_at_ms r"
proof -
  from assms(2) have e: "project_id e = tr_project_id r" "session_id e = tr_session_id r"
    "event_type e = ''transcript.recorded''" "details e = detail_text (record_details r)" "ts_ms e = tr_recorded_at_ms r"
    and schema: "tr_schema_version r = 1 \<or> tr_schema_version r = 2"
    and v: "validate_event_details_for_schema (detail_text (record_details r)) (tr_schema_version r) = Inr ()"
    by (auto simp: transcript_ledger_event_def rbind_Inr_iff Let_def split: if_splits prod.splits)
  from v obtain ps where ps: "parse_event_details (detail_text (record_details r)) = Inr ps"
    "validate_event_detail_keys ps (tr_schema_version r) = Inr ()"
    by (auto simp: validate_event_details_for_schema_def rbind_Inr_iff)
  from ps(2) schema have "map fst ps = map fst (record_details r)"
    by (auto simp: validate_event_detail_keys_def event_detail_keys_def record_details_def split: if_splits)
  from own_details_parse [OF assms(1) ps(1) this] have own: "ps = record_details r" .
  let ?b = "\<lparr>teb_project_id = tr_project_id r, teb_session_id = tr_session_id r, teb_details = record_details r\<rparr>"
  have get: "detail_from_pairs (record_details r) k = Some v" if "(k, v) \<in> set (record_details r)" for k v
    using that parse_event_details_text [OF ps(1)] by (simp add: detail_from_pairs_map_of own)
  have "valid_id (tr_project_id r)" "valid_id (tr_session_id r)" "valid_id (tr_record_id r)"
    using check_record_Inr [OF assms(1)] by simp_all
  moreover have "detail_from_pairs (record_details r) ''record_id'' = Some (tr_record_id r)"
    "detail_from_pairs (record_details r) ''artifact_pointer'' =
      Some (transcript_pointer (tr_project_id r) (tr_session_id r) (tr_record_id r))"
    by (rule get, simp add: record_details_def)+
  ultimately have "parse_event_binding (project_id e) (session_id e) (event_type e) (details e) = Inr ?b"
    using ps(1) by (simp add: parse_event_binding_def e own validate_id_def)
  moreover have "validate_record ?b r = Inr ()"
  proof -
    have d: "teb_detail ?b k = Some v" if "(k, v) \<in> set (record_details r)" for k v
      using get [OF that] by (simp add: teb_detail_def)
    have base: "teb_detail ?b ''record_id'' = Some (tr_record_id r)" "teb_detail ?b ''workflow_id'' = Some (tr_workflow_id r)"
      "teb_detail ?b ''kind'' = Some (tr_kind r)" "teb_detail ?b ''content_hash'' = Some (tr_content_hash r)"
      "teb_detail ?b ''artifact_hash'' = Some (tr_artifact_hash r)"
      by (rule d, simp add: record_details_def)+
    have tools: "teb_detail ?b ''tool_output_artifact_id'' = Some (fst (tool_texts r))"
      "teb_detail ?b ''tool_output_artifact_path'' = Some (fst (snd (tool_texts r)))"
      "teb_detail ?b ''tool_output_artifact_hash'' = Some (snd (snd (tool_texts r)))" if "tr_schema_version r = 2"
      by (rule d, simp add: record_details_def that)+
    have "validate_event_detail_keys (teb_details ?b) (tr_schema_version r) = Inr ()" using ps(2) own by simp
    with base tools show ?thesis by (simp add: validate_record_def)
  qed
  ultimately show ?thesis using e(5) by blast
qed

lemma detail_pairs_texts:
  "list_all (\<lambda>m. fst m \<noteq> [] \<and> snd m \<noteq> [] \<and> CHR ''='' \<notin> set (fst m)) kvs \<Longrightarrow> distinct (map fst (pairs @ kvs)) \<Longrightarrow>
   detail_pairs pairs (map pair_text kvs) = Inr (pairs @ kvs)"
proof (induction kvs arbitrary: pairs)
  case (Cons m kvs)
  obtain k v where m: "m = (k, v)" by (cases m)
  from Cons.prems have "split_once (CHR ''='') (pair_text m) = Some (k, v)"
    using split_once_append [of "CHR ''=''" k v] by (simp add: m pair_text_def)
  moreover from Cons.prems have "\<not> list_ex (\<lambda>(stored, _). stored = k) pairs"
    by (force simp: m list_ex_iff)
  ultimately show ?case using Cons.IH [of "pairs @ [(k, v)]"] Cons.prems by (simp add: m)
qed simp

definition wit_details :: string where
  "wit_details = ''record_id=r workflow_id=w kind=user artifact_pointer=state/transcripts/p/s/r.json artifact_hash=07 content_hash=07 tool_output_artifact_id=none tool_output_artifact_path=none tool_output_artifact_hash=none''"

lemma wit_details_eq: "detail_text (record_details wit_transcript) = wit_details"
  by (simp add: detail_text_def record_details_def wit_transcript_def transcript_pointer_def tool_texts_def wit_details_def)

lemma wit_details_parse: "parse_event_details wit_details = Inr (record_details wit_transcript)"
proof -
  have trim: "trim wit_details = wit_details"
    by (rule trim_ascii) (simp_all add: wit_details_def all_ascii_def is_whitespace_def)
  have spaces: "\<not> contains_str ''  '' wit_details" "LF \<notin> set wit_details" "CR \<notin> set wit_details"
    "CHR 0x09 \<notin> set wit_details" "wit_details \<noteq> []"
    by (simp_all add: wit_details_def starts_with_def)
  have "split_on (\<lambda>c. c = CHR '' '') wit_details = map pair_text (record_details wit_transcript)"
    by (simp add: wit_details_def pair_text_def record_details_def wit_transcript_def transcript_pointer_def tool_texts_def)
  moreover have "detail_pairs [] (map pair_text (record_details wit_transcript)) = Inr ([] @ record_details wit_transcript)"
    by (rule detail_pairs_texts)
      (simp_all add: record_details_def wit_transcript_def transcript_pointer_def tool_texts_def)
  ultimately show ?thesis using trim spaces by (simp add: parse_event_details_def)
qed

lemma wit_event: "\<exists>e. transcript_ledger_event (\<lambda>_. [CHR 0x07]) wit_transcript = Inr e"
proof -
  have keys: "validate_event_detail_keys (record_details wit_transcript) 2 = Inr ()"
    by (simp add: validate_event_detail_keys_def event_detail_keys_def record_details_def wit_transcript_def)
  have "tr_schema_version wit_transcript = 2" "tr_tool_output wit_transcript = None"
    "validate_tool_binding_shape wit_transcript = Inr ()"
    by (simp_all add: wit_transcript_def validate_tool_binding_shape_def)
  then show ?thesis using keys
    by (simp add: transcript_ledger_event_def validate_event_details_for_schema_def wit_details_eq wit_details_parse Let_def)
qed

lemma transcript_event_accepted_witness:
  "\<exists>e b. parse_event_binding (project_id e) (session_id e) (event_type (e :: ledger_event)) (details e) = Inr b
    \<and> validate_record b wit_transcript = Inr ()"
  using wit_event transcript_event_accepted [OF wit_transcript_ok(1)] by blast

lemma event_binding_exact_witness: "wit_details = detail_text (record_details wit_transcript)"
proof -
  let ?b = "\<lparr>teb_project_id = ''p'', teb_session_id = ''s'', teb_details = record_details wit_transcript\<rparr>"
  have get: "map_of (record_details wit_transcript) ''record_id'' = Some ''r''"
    "map_of (record_details wit_transcript) ''artifact_pointer'' = Some (transcript_pointer ''p'' ''s'' ''r'')"
    by (simp_all add: record_details_def wit_transcript_def)
  have "parse_event_binding ''p'' ''s'' ''transcript.recorded'' wit_details = Inr ?b"
    by (simp add: parse_event_binding_def wit_details_parse detail_from_pairs_map_of get validate_id_def valid_id_def
        id_byte_def is_ascii_alphanumeric_def is_ascii_lowercase_def)
  moreover have "validate_record ?b wit_transcript = Inr ()"
    by (simp add: validate_record_def validate_event_detail_keys_def event_detail_keys_def teb_detail_def
        detail_from_pairs_map_of record_details_def wit_transcript_def tool_texts_def)
  ultimately show ?thesis using event_binding_exact by blast
qed

section \<open>Records of a session\<close>

lemma collect_loop_invariant:
  "collect_loop project session load records seen events s = (Inr rs, s') \<Longrightarrow>
   distinct (map tr_record_id records) \<Longrightarrow> seen = set (map tr_record_id records) \<Longrightarrow>
   \<exists>more. rs = records @ more \<and> distinct (map tr_record_id rs)
     \<and> length more = length (filter (\<lambda>e. project_id e = project \<and> session_id e = session
          \<and> event_type e = ''transcript.recorded'') events)"
proof (induction events arbitrary: records seen s)
  case (Cons e events)
  show ?case
  proof (cases "project_id e = project \<and> session_id e = session \<and> event_type e = ''transcript.recorded''")
    case True
    with Cons.prems(1) obtain r t where r: "tr_record_id r \<notin> seen"
      "collect_loop project session load (records @ [r]) (insert (tr_record_id r) seen) events t = (Inr rs, s')"
      by (auto simp: sbind_Inr_iff sthrow_def split: if_splits)
    have "distinct (map tr_record_id (records @ [r]))" using Cons.prems(2,3) r(1) by simp
    moreover have "insert (tr_record_id r) seen = set (map tr_record_id (records @ [r]))" using Cons.prems(3) by simp
    ultimately obtain more where "rs = (records @ [r]) @ more" "distinct (map tr_record_id rs)"
      "length more = length (filter (\<lambda>e. project_id e = project \<and> session_id e = session
          \<and> event_type e = ''transcript.recorded'') events)"
      using Cons.IH [OF r(2)] by blast
    with True show ?thesis by (intro exI [of _ "r # more"]) simp
  next
    case False
    with Cons.prems(1) have "collect_loop project session load records seen events s = (Inr rs, s')" by auto
    from Cons.IH [OF this Cons.prems(2,3)] False show ?thesis by auto
  qed
qed (simp add: sreturn_def)

text \<open>
  C30 Replaying a session loads one record for each of its transcript events, no record twice,
  and skips every event of another session, project or type.
\<close>

theorem session_records_once:
  assumes "collect_session_records project session events load s = (Inr rs, s')"
  shows "distinct (map tr_record_id rs) \<and>
    length rs = length (filter (\<lambda>e. project_id e = project \<and> session_id e = session
          \<and> event_type e = ''transcript.recorded'') events)"
  using collect_loop_invariant [OF assms [unfolded collect_session_records_def]] by auto

lemma session_records_once_witness: "length [wit_transcript] = 1 \<and> distinct (map tr_record_id [wit_transcript])"
proof -
  let ?e = "\<lparr>event_id = ''e'', ts_ms = 0, event_type = ''transcript.recorded'', project_id = ''p'', session_id = ''s'',
    summary = [], details = [], previous_event_hash = None, event_hash = None\<rparr>"
  have "collect_session_records ''p'' ''s'' [?e] (\<lambda>_. sreturn wit_transcript) () = (Inr [wit_transcript], ())"
    by (simp add: collect_session_records_def sreturn_def)
  from session_records_once [OF this] show ?thesis by simp
qed

end
