(* ===== verification/Compaction.thy ===== *)
theory Compaction
  imports Text
begin

text \<open>
  \<open>runtime_core/knowledge/compaction\<close>: token estimates and bounded truncation
  (\<open>token_budget.rs\<close>), the choice of the recent exchanges that survive a compaction
  (\<open>recent_tail.rs\<close>) and the compaction plan (\<open>policy.rs\<close>). Counts and budgets are natural
  numbers: every count is bounded by the bytes in memory, and where the code saturates at
  \<open>usize::MAX\<close> the bound is written out.
\<close>

section \<open>Token estimates (token\_budget.rs)\<close>

definition usize_max :: nat where "usize_max = 2 ^ 64 - 1"

definition sat_add :: "nat \<Rightarrow> nat \<Rightarrow> nat" where "sat_add a b = min (a + b) usize_max"
definition sat_mul :: "nat \<Rightarrow> nat \<Rightarrow> nat" where "sat_mul a b = min (a * b) usize_max"

definition div_ceil :: "nat \<Rightarrow> nat \<Rightarrow> nat" where "div_ceil a b = (a + b - 1) div b"

definition estimate_tokens :: "string \<Rightarrow> nat" where
  "estimate_tokens s =
     (if s = [] then 0
      else max (max (div_ceil (length (chars s)) 3) (div_ceil (length s) 4)) 1)"

datatype token_truncation = TruncateHead | TruncateTail

text \<open>\<open>char_indices()\<close>: each character with its byte offset.\<close>

fun indices_from :: "nat \<Rightarrow> string list \<Rightarrow> (nat \<times> string) list" where
  "indices_from i [] = []"
| "indices_from i (c # cs) = (i, c) # indices_from (i + length c) cs"

definition char_indices :: "string \<Rightarrow> (nat \<times> string) list" where
  "char_indices s = indices_from 0 (char_slices s)"

definition head_end :: "nat \<Rightarrow> nat \<Rightarrow> (nat \<times> string) list \<Rightarrow> nat" where
  "head_end max_chars max_bytes cs =
     (let kept = takeWhile (\<lambda>(index, c). sat_add index (length c) \<le> max_bytes) (take max_chars cs)
      in if kept = [] then 0 else fst (last kept) + length (snd (last kept)))"

fun tail_start :: "nat \<Rightarrow> nat \<Rightarrow> nat \<Rightarrow> nat \<Rightarrow> nat \<Rightarrow> (nat \<times> string) list \<Rightarrow> nat" where
  "tail_start max_chars max_bytes count bytes start [] = start"
| "tail_start max_chars max_bytes count bytes start ((index, c) # cs) =
     (if count = max_chars \<or> max_bytes < sat_add bytes (length c) then start
      else tail_start max_chars max_bytes (count + 1) (bytes + length c) index cs)"

definition bounded_chars_and_bytes_raw :: "string \<Rightarrow> nat \<Rightarrow> nat \<Rightarrow> token_truncation \<Rightarrow> string" where
  "bounded_chars_and_bytes_raw s max_chars max_bytes kind =
     (case kind of
        TruncateHead \<Rightarrow> take (head_end max_chars max_bytes (char_indices s)) s
      | TruncateTail \<Rightarrow>
          drop (tail_start max_chars max_bytes 0 0 (length s) (rev (char_indices s))) s)"

definition bounded_chars_and_bytes :: "string \<Rightarrow> nat \<Rightarrow> token_truncation \<Rightarrow> string" where
  "bounded_chars_and_bytes s max_tokens kind =
     bounded_chars_and_bytes_raw s (sat_mul max_tokens 3) (sat_mul max_tokens 4) kind"

definition compacted_marker :: string where
  "compacted_marker = LF # ''[compacted]'' @ [LF]"

definition truncate_to_token_budget :: "string \<Rightarrow> nat \<Rightarrow> token_truncation \<Rightarrow> string" where
  "truncate_to_token_budget s max_tokens kind =
     (if max_tokens = 0 then []
      else if estimate_tokens s \<le> max_tokens then s
      else if max_tokens \<le> estimate_tokens compacted_marker
      then bounded_chars_and_bytes compacted_marker max_tokens TruncateHead
      else
        let max_chars = sat_mul max_tokens 3 - length (chars compacted_marker);
            max_bytes = sat_mul max_tokens 4 - length compacted_marker;
            bounded = bounded_chars_and_bytes_raw s max_chars max_bytes kind
        in case kind of
             TruncateHead \<Rightarrow> bounded @ compacted_marker
           | TruncateTail \<Rightarrow> compacted_marker @ bounded)"

definition truncate_head_to_tokens :: "string \<Rightarrow> nat \<Rightarrow> string" where
  "truncate_head_to_tokens s max_tokens = truncate_to_token_budget s max_tokens TruncateHead"

definition truncate_tail_to_estimated_tokens :: "string \<Rightarrow> nat \<Rightarrow> string" where
  "truncate_tail_to_estimated_tokens s max_tokens = truncate_to_token_budget s max_tokens TruncateTail"

definition truncate_head_and_tail_to_tokens :: "string \<Rightarrow> nat \<Rightarrow> string" where
  "truncate_head_and_tail_to_tokens s max_tokens =
     (if max_tokens = 0 then []
      else if estimate_tokens s \<le> max_tokens then s
      else if max_tokens \<le> estimate_tokens compacted_marker
      then bounded_chars_and_bytes compacted_marker max_tokens TruncateHead
      else
        let available_chars = sat_mul max_tokens 3 - length (chars compacted_marker);
            available_bytes = sat_mul max_tokens 4 - length compacted_marker;
            head_chars = div_ceil available_chars 2;
            tail_chars = available_chars - head_chars;
            head_bytes = div_ceil available_bytes 2;
            tail_bytes = available_bytes - head_bytes
        in bounded_chars_and_bytes_raw s head_chars head_bytes TruncateHead @ compacted_marker
           @ bounded_chars_and_bytes_raw s tail_chars tail_bytes TruncateTail)"

section \<open>Records and policy (policy.rs)\<close>

datatype compaction_mode = Automatic | Manual

record compaction_policy =
  cp_context_limit_tokens :: nat
  cp_auto_trigger_tokens :: nat
  cp_post_compact_target_tokens :: nat
  cp_recent_tail_budget_tokens :: nat
  cp_recent_exchange_limit :: nat
  cp_summary_output_budget_tokens :: nat

record compaction_record =
  cr_record_id :: string
  cr_kind :: string
  cr_content :: string

record compaction_plan =
  pl_should_compact :: bool
  pl_estimated_tokens_before :: nat
  pl_source_record_count :: nat
  pl_boundary_record_id :: "string option"
  pl_summary_source :: "compaction_record list"
  pl_recent_records :: "compaction_record list"
  pl_source_records_dropped :: nat

definition max_recent_records :: nat where "max_recent_records = 64"
definition record_overhead_tokens :: nat where "record_overhead_tokens = 8"
definition max_tool_summary_tokens :: nat where "max_tool_summary_tokens = 256"
definition max_summary_record_tokens :: nat where "max_summary_record_tokens = 1200"

definition record_token_cost :: "compaction_record \<Rightarrow> nat" where
  "record_token_cost r =
     record_overhead_tokens + estimate_tokens (cr_kind r) + estimate_tokens (cr_content r)"

definition percent :: "nat \<Rightarrow> nat \<Rightarrow> nat" where "percent v p = sat_mul v p div 100"

definition clamp :: "nat \<Rightarrow> nat \<Rightarrow> nat \<Rightarrow> nat" where "clamp low high v = min (max v low) high"

definition for_context_limit :: "nat \<Rightarrow> compaction_policy" where
  "for_context_limit requested =
     (let context_limit = max requested 1;
          target = max (percent context_limit 40) 1;
          tail = min (clamp 512 16384 (percent context_limit 25)) target
      in \<lparr>cp_context_limit_tokens = context_limit,
          cp_auto_trigger_tokens = max (percent context_limit 75) 1,
          cp_post_compact_target_tokens = target,
          cp_recent_tail_budget_tokens = tail,
          cp_recent_exchange_limit = clamp 2 8 (context_limit div 16384),
          cp_summary_output_budget_tokens =
            min (clamp 192 768 (percent context_limit 10)) (max (target - tail) 1)\<rparr>)"

definition is_tool_like :: "string \<Rightarrow> bool" where
  "is_tool_like kind \<longleftrightarrow> kind = ''tool'' \<or> kind = ''evidence''"

definition bounded_summary_record :: "nat \<Rightarrow> compaction_record \<Rightarrow> compaction_record" where
  "bounded_summary_record remaining r =
     (let budget = min (if is_tool_like (cr_kind r) then max_tool_summary_tokens
                        else max_summary_record_tokens) (remaining - record_overhead_tokens)
      in r\<lparr>cr_content :=
        (if is_tool_like (cr_kind r)
         then ''[untrusted '' @ cr_kind r @ '' data, compacted]'' @ [LF]
                @ truncate_head_and_tail_to_tokens (cr_content r) budget
         else truncate_head_and_tail_to_tokens (cr_content r) budget)\<rparr>)"

text \<open>The loop runs over the records from the newest; \<open>selected\<close> grows at its front.\<close>

fun summary_loop :: "nat \<Rightarrow> compaction_record list \<Rightarrow> compaction_record list \<Rightarrow> compaction_record list" where
  "summary_loop remaining selected [] = selected"
| "summary_loop remaining selected (r # rs) =
     (if remaining \<le> record_overhead_tokens then selected
      else
        let bounded = bounded_summary_record remaining r; cost = record_token_cost bounded
        in if cr_content bounded = [] \<or> remaining < cost then summary_loop remaining selected rs
           else summary_loop (remaining - cost) (bounded # selected) rs)"

definition bounded_summary_source :: "compaction_record list \<Rightarrow> nat \<Rightarrow> compaction_record list \<times> nat" where
  "bounded_summary_source records budget =
     (let selected = summary_loop budget [] (rev records)
      in (selected, length records - length selected))"

section \<open>The recent tail (recent\_tail.rs)\<close>

record exchange_range =
  er_start :: nat
  er_end :: nat

record recent_tail =
  rt_source_end :: nat
  rt_records :: "compaction_record list"

fun ranges_between :: "nat \<Rightarrow> nat list \<Rightarrow> exchange_range list" where
  "ranges_between n [] = []"
| "ranges_between n [start] = [\<lparr>er_start = start, er_end = n\<rparr>]"
| "ranges_between n (start # start' # starts) =
     \<lparr>er_start = start, er_end = start'\<rparr> # ranges_between n (start' # starts)"

definition exchange_ranges :: "compaction_record list \<Rightarrow> exchange_range list" where
  "exchange_ranges records =
     ranges_between (length records)
       (filter (\<lambda>index. cr_kind (records ! index) = ''user'') [0..<length records])"

definition range_records :: "compaction_record list \<Rightarrow> exchange_range \<Rightarrow> compaction_record list" where
  "range_records records e = take (er_end e - er_start e) (drop (er_start e) records)"

definition total_cost :: "compaction_record list \<Rightarrow> nat" where
  "total_cost records = sum_list (map record_token_cost records)"

record tail_selection =
  ts_start :: nat
  ts_cost :: nat
  ts_records :: nat
  ts_exchanges :: nat

fun select_loop :: "compaction_record list \<Rightarrow> nat \<Rightarrow> nat \<Rightarrow> tail_selection \<Rightarrow> exchange_range list \<Rightarrow> tail_selection" where
  "select_loop records budget max_exchanges st [] = st"
| "select_loop records budget max_exchanges st (e # es) =
     (if ts_exchanges st = max_exchanges then st
      else
        let cost = total_cost (range_records records e);
            exceeds_budget = budget < sat_add (ts_cost st) cost;
            exceeds_record_limit =
              max_recent_records < sat_add (ts_records st) (length (range_records records e))
        in if 0 < ts_exchanges st \<and> (exceeds_budget \<or> exceeds_record_limit) then st
           else select_loop records budget max_exchanges
             \<lparr>ts_start = er_start e, ts_cost = sat_add (ts_cost st) cost,
              ts_records = sat_add (ts_records st) (length (range_records records e)),
              ts_exchanges = ts_exchanges st + 1\<rparr> es)"

fun fill_indices :: "nat \<Rightarrow> nat set \<Rightarrow> nat list \<Rightarrow> nat set" where
  "fill_indices limit selected [] = selected"
| "fill_indices limit selected (index # indices) =
     (if card selected = limit then selected
      else fill_indices limit (insert index selected) indices)"

definition model_position :: "compaction_record list \<Rightarrow> nat option" where
  "model_position records =
     find (\<lambda>index. cr_kind (records ! index) = ''model'') (rev [0..<length records])"

definition essential_indices :: "compaction_record list \<Rightarrow> nat \<Rightarrow> nat set" where
  "essential_indices records limit =
     fill_indices limit
       (case model_position records of None \<Rightarrow> {0} | Some index \<Rightarrow> {0, index})
       (rev [1..<length records])"

definition essential_exchange_records :: "compaction_record list \<Rightarrow> nat \<Rightarrow> compaction_record list" where
  "essential_exchange_records records limit =
     (if length records \<le> limit then records
      else map (\<lambda>index. records ! index) (sorted_list_of_set (essential_indices records limit)))"

definition fixed_record_cost :: "compaction_record list \<Rightarrow> nat" where
  "fixed_record_cost records =
     sum_list (map (\<lambda>r. record_overhead_tokens + estimate_tokens (cr_kind r)) records)"

fun shrink_limit :: "compaction_record list \<Rightarrow> nat \<Rightarrow> nat \<Rightarrow> nat" where
  "shrink_limit records budget limit =
     (if budget < fixed_record_cost (essential_exchange_records records limit) \<and> 2 < limit
      then shrink_limit records budget (limit - 1) else limit)"

declare shrink_limit.simps [simp del]

definition bounded_single_exchange :: "compaction_record list \<Rightarrow> nat \<Rightarrow> compaction_record list" where
  "bounded_single_exchange records budget =
     (let limit = shrink_limit records budget (min (length records) max_recent_records);
          bounded = essential_exchange_records records limit
      in if budget < fixed_record_cost bounded then []
         else if total_cost records \<le> budget \<and> length records \<le> max_recent_records then bounded
         else
           let per_record = (budget - fixed_record_cost bounded) div max (length bounded) 1
           in map (\<lambda>r. r\<lparr>cr_content := truncate_tail_to_estimated_tokens (cr_content r) per_record\<rparr>) bounded)"

definition select_recent_tail :: "compaction_record list \<Rightarrow> nat \<Rightarrow> nat \<Rightarrow> recent_tail" where
  "select_recent_tail records budget max_exchanges =
     (let st = select_loop records budget max_exchanges
        \<lparr>ts_start = length records, ts_cost = 0, ts_records = 0, ts_exchanges = 0\<rparr>
        (rev (exchange_ranges records))
      in if ts_exchanges st = 0 then \<lparr>rt_source_end = length records, rt_records = []\<rparr>
         else
           let selected = drop (ts_start st) records;
               bounded = (if max_recent_records < length selected \<or> budget < ts_cost st
                          then bounded_single_exchange selected budget else selected)
           in \<lparr>rt_source_end = (if bounded = [] then length records else ts_start st),
               rt_records = bounded\<rparr>)"

section \<open>The plan (policy.rs)\<close>

definition summary_budget :: "compaction_policy \<Rightarrow> compaction_record list \<Rightarrow> nat" where
  "summary_budget policy recent =
     max (cp_context_limit_tokens policy - cp_summary_output_budget_tokens policy - total_cost recent) 1"

definition plan_with_observed_tokens ::
  "compaction_policy \<Rightarrow> compaction_mode \<Rightarrow> compaction_record list \<Rightarrow> nat option \<Rightarrow> compaction_plan" where
  "plan_with_observed_tokens policy kind records observed =
     (let before = max (total_cost records) (case observed of None \<Rightarrow> 0 | Some n \<Rightarrow> n);
          recent = select_recent_tail records (cp_recent_tail_budget_tokens policy)
            (cp_recent_exchange_limit policy);
          source = take (rt_source_end recent) records;
          should_compact = (source \<noteq> [] \<and> (kind = Manual \<or> cp_auto_trigger_tokens policy \<le> before));
          (summary_source, dropped) =
            (if should_compact
             then bounded_summary_source source (summary_budget policy (rt_records recent))
             else ([], 0))
      in \<lparr>pl_should_compact = should_compact,
          pl_estimated_tokens_before = before,
          pl_source_record_count = length source,
          pl_boundary_record_id = (if source = [] then None else Some (cr_record_id (last source))),
          pl_summary_source = summary_source,
          pl_recent_records = rt_records recent,
          pl_source_records_dropped = dropped\<rparr>)"

end
