(* ===== verification/Compaction_Properties.thy ===== *)
theory Compaction_Properties
  imports Compaction Text_Slices "HOL-Library.Sublist"
begin

text \<open>
  The bounds of a compaction plan and what of the conversation it keeps.
\<close>

section \<open>Truncation\<close>

lemma div_ceil_le: "0 < b \<Longrightarrow> a \<le> b * n \<Longrightarrow> div_ceil a b \<le> n"
proof -
  assume "0 < b" "a \<le> b * n"
  then have "a + b - 1 < b * Suc n" by simp
  with \<open>0 < b\<close> have "(a + b - 1) div b < Suc n" by (simp add: less_mult_imp_div_less mult.commute)
  then show ?thesis by (simp add: div_ceil_def)
qed

lemma estimate_le:
  "length (chars s) \<le> 3 * n \<Longrightarrow> length s \<le> 4 * n \<Longrightarrow> 0 < n \<Longrightarrow> estimate_tokens s \<le> n"
  by (simp add: estimate_tokens_def div_ceil_le)

lemma estimate_empty [simp]: "estimate_tokens [] = 0"
  by (simp add: estimate_tokens_def)

lemma take_indices: "take j (indices_from i xs) = indices_from i (take j xs)"
  by (induction xs arbitrary: i j) (auto simp: take_Cons split: nat.splits)

lemma takeWhile_indices: "\<exists>j\<le>length xs. takeWhile P (indices_from i xs) = indices_from i (take j xs)"
proof (induction xs arbitrary: i)
  case (Cons x xs)
  show ?case
  proof (cases "P (i, x)")
    case True
    from Cons obtain j where "j \<le> length xs"
      "takeWhile P (indices_from (i + length x) xs) = indices_from (i + length x) (take j xs)" by blast
    with True show ?thesis by (intro exI [of _ "Suc j"]) simp
  qed (simp add: exI [of _ 0])
qed simp

lemma last_indices:
  "xs \<noteq> [] \<Longrightarrow> fst (last (indices_from i xs)) + length (snd (last (indices_from i xs))) = i + length (concat xs)"
proof (induction xs arbitrary: i)
  case (Cons x xs)
  then show ?case by (cases xs) auto
qed simp

lemma indices_Nil: "indices_from i xs = [] \<longleftrightarrow> xs = []"
  by (cases xs) simp_all

lemma sat_add_le: "b < usize_max \<Longrightarrow> sat_add x y \<le> b \<longleftrightarrow> x + y \<le> b"
  by (auto simp: sat_add_def min_def)

lemma head_end_spec:
  assumes "b < usize_max"
  shows "\<exists>j\<le>m. head_end m b (indices_from 0 xs) = length (concat (take j xs)) \<and> length (concat (take j xs)) \<le> b"
proof -
  let ?P = "\<lambda>(index, c). sat_add index (length c) \<le> b"
  obtain j where j: "j \<le> length (take m xs)"
    and kept: "takeWhile ?P (take m (indices_from 0 xs)) = indices_from 0 (take j (take m xs))"
    using takeWhile_indices [of "take m xs" ?P 0] by (auto simp: take_indices)
  define ys where "ys = take j xs"
  have "take j (take m xs) = ys" using j by (simp add: ys_def min_absorb1)
  with kept have kept: "takeWhile ?P (take m (indices_from 0 xs)) = indices_from 0 ys" by simp
  have m: "j \<le> m" using j by simp
  show ?thesis
  proof (cases "ys = []")
    case True
    with m kept show ?thesis by (intro exI [of _ j]) (simp add: head_end_def ys_def [symmetric])
  next
    case False
    have "last (takeWhile ?P (take m (indices_from 0 xs))) \<in> set (takeWhile ?P (take m (indices_from 0 xs)))"
      using False kept by (simp add: indices_Nil)
    then have "?P (last (takeWhile ?P (take m (indices_from 0 xs))))" by (rule conjunct2 [OF set_takeWhileD])
    then have "?P (last (indices_from 0 ys))" by (simp only: kept)
    with last_indices [OF False, of 0] have "length (concat ys) \<le> b"
      by (simp add: sat_add_le [OF assms] case_prod_beta)
    with False m kept last_indices [OF False, of 0] show ?thesis
      by (intro exI [of _ j]) (simp add: head_end_def ys_def [symmetric] indices_Nil)
  qed
qed

lemma indices_snoc: "indices_from i (xs @ [x]) = indices_from i xs @ [(i + length (concat xs), x)]"
  by (induction xs arbitrary: i) simp_all

lemma tail_start_spec:
  assumes "b < usize_max"
  shows "count \<le> m \<Longrightarrow> bytes \<le> b \<Longrightarrow>
    \<exists>j\<le>length xs. tail_start m b count bytes (length (concat xs)) (rev (indices_from 0 xs)) = length (concat (take j xs))
      \<and> count + length (drop j xs) \<le> m \<and> bytes + length (concat (drop j xs)) \<le> b"
proof (induction xs arbitrary: count bytes rule: rev_induct)
  case (snoc x xs)
  show ?case
  proof (cases "count = m \<or> b < sat_add bytes (length x)")
    case True
    with snoc.prems show ?thesis by (intro exI [of _ "Suc (length xs)"]) (auto simp: indices_snoc)
  next
    case False
    then have "bytes + length x \<le> b" using sat_add_le [OF assms] by (simp add: not_less)
    with False snoc.prems snoc.IH [of "count + 1" "bytes + length x"] obtain j where "j \<le> length xs"
      "tail_start m b (count + 1) (bytes + length x) (length (concat xs)) (rev (indices_from 0 xs)) = length (concat (take j xs))"
      "count + 1 + length (drop j xs) \<le> m" "bytes + length x + length (concat (drop j xs)) \<le> b" by auto
    with False show ?thesis by (intro exI [of _ j]) (simp add: indices_snoc)
  qed
qed (simp add: exI [of _ 0])

text \<open>A bounded copy is a run of whole characters within both limits.\<close>

lemma raw_spec:
  assumes "utf8_valid s" "b < usize_max"
  shows "\<exists>ys. bounded_chars_and_bytes_raw s m b kind = concat ys \<and> whole_chars ys \<and> length ys \<le> m
    \<and> length (concat ys) \<le> b"
proof -
  define xs where "xs = char_slices s"
  have s: "s = concat xs" by (simp add: xs_def)
  have whole: "whole_chars xs" using whole_chars_slices [OF assms(1)] by (simp add: xs_def)
  have part: "whole_chars (take j xs)" "whole_chars (drop j xs)" for j
    using whole whole_chars_simps(3) [of "take j xs" "drop j xs"] by simp_all
  have split: "take (length (concat (take j xs))) s = concat (take j xs)"
    "drop (length (concat (take j xs))) s = concat (drop j xs)" for j
    using concat_append [of "take j xs" "drop j xs"] by (simp_all add: s)
  show ?thesis
  proof (cases kind)
    case TruncateHead
    from head_end_spec [OF assms(2), of m xs] obtain j where "j \<le> m"
      "head_end m b (indices_from 0 xs) = length (concat (take j xs))" "length (concat (take j xs)) \<le> b" by blast
    with TruncateHead part(1) [of j] split(1) [of j] show ?thesis
      by (intro exI [of _ "take j xs"]) (simp add: bounded_chars_and_bytes_raw_def char_indices_def xs_def [symmetric])
  next
    case TruncateTail
    from tail_start_spec [OF assms(2), of 0 m 0 xs] obtain j where
      "tail_start m b 0 0 (length (concat xs)) (rev (indices_from 0 xs)) = length (concat (take j xs))"
      "length (drop j xs) \<le> m" "length (concat (drop j xs)) \<le> b" by auto
    with TruncateTail part(2) [of j] split(2) [of j] show ?thesis
      by (intro exI [of _ "drop j xs"])
        (simp add: bounded_chars_and_bytes_raw_def char_indices_def xs_def [symmetric] s [symmetric])
  qed
qed

lemma chars_whole: "whole_chars ys \<Longrightarrow> length (chars (concat ys)) = length ys"
  by (simp add: chars_def char_slices_concat)

lemma marker_slices: "char_slices compacted_marker = map (\<lambda>c. [c]) compacted_marker"
  by (rule char_slices_all_ascii) (simp add: compacted_marker_def all_ascii_def)

lemma marker_size: "length (chars compacted_marker) = 13" "length compacted_marker = 13"
  "utf8_valid compacted_marker" "estimate_tokens compacted_marker = 5"
proof -
  show n: "length (chars compacted_marker) = 13" "length compacted_marker = 13"
    by (simp_all add: chars_def marker_slices) (simp_all add: compacted_marker_def)
  then show "estimate_tokens compacted_marker = 5"
    by (auto simp: estimate_tokens_def div_ceil_def)
  show "utf8_valid compacted_marker"
    by (rule all_ascii_valid) (simp add: compacted_marker_def all_ascii_def)
qed

lemma whole_marker: "concat (char_slices compacted_marker) = compacted_marker" "whole_chars (char_slices compacted_marker)"
  "length (char_slices compacted_marker) = 13"
  using marker_size whole_chars_slices by (simp_all add: chars_def)

text \<open>A text put together from whole runs has the sum of their characters.\<close>

lemma estimate_whole:
  assumes "whole_chars ys" "length ys \<le> 3 * n" "length (concat ys) \<le> 4 * n" "0 < n"
  shows "estimate_tokens (concat ys) \<le> n"
  using assms by (intro estimate_le) (simp_all add: chars_whole)

lemma marker_bounded:
  assumes "0 < n" "n \<le> 5"
  shows "estimate_tokens (bounded_chars_and_bytes compacted_marker n kind) \<le> n"
proof -
  have b: "sat_mul n 4 < usize_max" using assms(2) by (simp add: sat_mul_def usize_max_def)
  from raw_spec [OF marker_size(3) b, of "sat_mul n 3" kind] obtain ys where
    "bounded_chars_and_bytes compacted_marker n kind = concat ys" "whole_chars ys"
    "length ys \<le> sat_mul n 3" "length (concat ys) \<le> sat_mul n 4"
    by (auto simp: bounded_chars_and_bytes_def)
  with estimate_whole [of ys n] assms(1) show ?thesis by (simp add: sat_mul_def)
qed

lemma budget_small: "sat_mul n k - 13 < usize_max" "13 \<le> 3 * n \<Longrightarrow> sat_mul n k - 13 + 13 \<le> k * n \<or> k < 3"
proof -
  show "sat_mul n k - 13 < usize_max" by (auto simp: sat_mul_def usize_max_def min_def)
  show "sat_mul n k - 13 + 13 \<le> k * n \<or> k < 3" if "13 \<le> 3 * n"
  proof (cases "k < 3")
    case False
    then have "3 * n \<le> k * n" by simp
    with that have "13 \<le> k * n" by linarith
    then show ?thesis by (simp add: sat_mul_def usize_max_def mult.commute)
  qed simp
qed

lemma truncate_budget:
  assumes "utf8_valid s"
  shows "estimate_tokens (truncate_to_token_budget s n kind) \<le> n"
proof -
  consider "n = 0" | "estimate_tokens s \<le> n" | "0 < n" "n \<le> 5" "n < estimate_tokens s" | "5 < n" "n < estimate_tokens s"
    by linarith
  then show ?thesis
  proof cases
    case 4
    from raw_spec [OF assms budget_small(1) [of n 4], of "sat_mul n 3 - 13" kind] obtain ys where ys:
      "bounded_chars_and_bytes_raw s (sat_mul n 3 - 13) (sat_mul n 4 - 13) kind = concat ys" "whole_chars ys"
      "length ys \<le> sat_mul n 3 - 13" "length (concat ys) \<le> sat_mul n 4 - 13" by blast
    have "sat_mul n 3 - 13 + 13 \<le> 3 * n" "sat_mul n 4 - 13 + 13 \<le> 4 * n"
      using 4 budget_small(2) [of n 3] budget_small(2) [of n 4] by simp_all
    then have "estimate_tokens (concat (ys @ char_slices compacted_marker)) \<le> n"
      "estimate_tokens (concat (char_slices compacted_marker @ ys)) \<le> n"
      using ys(2-4) whole_marker(2,3) marker_size(2) 4(1) by - (rule estimate_whole; simp)+
    with 4 ys(1) show ?thesis
      by (cases kind) (simp_all add: truncate_to_token_budget_def marker_size whole_marker(1))
  qed (simp_all add: truncate_to_token_budget_def marker_bounded marker_size)
qed

lemma truncate_head_tail_budget:
  assumes "utf8_valid s"
  shows "estimate_tokens (truncate_head_and_tail_to_tokens s n) \<le> n"
proof -
  consider "n = 0" | "estimate_tokens s \<le> n" | "0 < n" "n \<le> 5" "n < estimate_tokens s" | "5 < n" "n < estimate_tokens s"
    by linarith
  then show ?thesis
  proof cases
    case 4
    define cs where "cs = sat_mul n 3 - 13"
    define bs where "bs = sat_mul n 4 - 13"
    have half: "div_ceil x 2 \<le> x" for x by (rule div_ceil_le) simp_all
    have small: "div_ceil bs 2 < usize_max" "bs - div_ceil bs 2 < usize_max"
      using half [of bs] budget_small(1) [of n 4] by (simp_all add: bs_def)
    from raw_spec [OF assms small(1), of "div_ceil cs 2" TruncateHead] obtain ys where ys:
      "bounded_chars_and_bytes_raw s (div_ceil cs 2) (div_ceil bs 2) TruncateHead = concat ys" "whole_chars ys"
      "length ys \<le> div_ceil cs 2" "length (concat ys) \<le> div_ceil bs 2" by blast
    from raw_spec [OF assms small(2), of "cs - div_ceil cs 2" TruncateTail] obtain zs where zs:
      "bounded_chars_and_bytes_raw s (cs - div_ceil cs 2) (bs - div_ceil bs 2) TruncateTail = concat zs" "whole_chars zs"
      "length zs \<le> cs - div_ceil cs 2" "length (concat zs) \<le> bs - div_ceil bs 2" by blast
    have "cs + 13 \<le> 3 * n" "bs + 13 \<le> 4 * n"
      using 4 budget_small(2) [of n 3] budget_small(2) [of n 4] by (simp_all add: cs_def bs_def)
    then have "estimate_tokens (concat (ys @ char_slices compacted_marker @ zs)) \<le> n"
      using ys(2-4) zs(2-4) whole_marker(2,3) marker_size(2) 4(1) half [of cs] half [of bs]
      by (intro estimate_whole) simp_all
    with 4 ys(1) zs(1) show ?thesis
      by (simp add: truncate_head_and_tail_to_tokens_def Let_def marker_size whole_marker(1)
          cs_def [symmetric] bs_def [symmetric])
  qed (simp_all add: truncate_head_and_tail_to_tokens_def marker_bounded marker_size)
qed

section \<open>The selected exchanges\<close>

lemma total_cost_append [simp]: "total_cost (xs @ ys) = total_cost xs + total_cost ys"
  and total_cost_Nil [simp]: "total_cost [] = 0"
  and total_cost_Cons [simp]: "total_cost (x # xs) = record_token_cost x + total_cost xs"
  by (simp_all add: total_cost_def)

text \<open>Going back through the ranges from \<open>n\<close>, each ends where the one after it starts.\<close>

fun chained :: "nat \<Rightarrow> exchange_range list \<Rightarrow> nat \<Rightarrow> bool" where
  "chained n [] m \<longleftrightarrow> m = n"
| "chained n (e # es) m \<longleftrightarrow> er_end e = n \<and> er_start e \<le> n \<and> chained (er_start e) es m"

lemma chained_snoc: "chained n (es @ [e]) m \<longleftrightarrow> chained n es (er_end e) \<and> er_start e \<le> er_end e \<and> er_start e = m"
  by (induction es arbitrary: n) auto

lemma chained_ranges:
  "sorted (start # starts) \<Longrightarrow> list_all (\<lambda>i. i \<le> n) (start # starts) \<Longrightarrow>
   chained n (rev (ranges_between n (start # starts))) start"
  by (induction n "start # starts" arbitrary: start starts rule: ranges_between.induct)
    (auto simp: chained_snoc)

lemma ranges_starts: "er_start ` set (ranges_between n starts) = set starts"
  by (induction n starts rule: ranges_between.induct) auto

definition user_index :: "compaction_record list \<Rightarrow> nat \<Rightarrow> bool" where
  "user_index records i \<longleftrightarrow> i < length records \<and> cr_kind (records ! i) = ''user''"

lemma exchange_chain:
  "\<exists>m. chained (length records) (rev (exchange_ranges records)) m"
  "e \<in> set (rev (exchange_ranges records)) \<Longrightarrow> user_index records (er_start e)"
proof -
  let ?starts = "filter (\<lambda>index. cr_kind (records ! index) = ''user'') [0..<length records]"
  have "sorted ?starts" "list_all (\<lambda>i. i \<le> length records) ?starts"
    by (simp_all add: sorted_wrt_filter list_all_iff)
  then show "\<exists>m. chained (length records) (rev (exchange_ranges records)) m"
    using chained_ranges [of _ _ "length records"] by (cases ?starts) (auto simp: exchange_ranges_def)
  show "user_index records (er_start e)" if "e \<in> set (rev (exchange_ranges records))"
  proof -
    have "er_start e \<in> set ?starts"
      using that ranges_starts [of "length records" ?starts] by (auto simp: exchange_ranges_def)
    then show ?thesis by (simp add: user_index_def)
  qed
qed

definition selection_ok :: "compaction_record list \<Rightarrow> tail_selection \<Rightarrow> bool" where
  "selection_ok records st \<longleftrightarrow> ts_cost st = min (total_cost (drop (ts_start st) records)) usize_max
     \<and> ts_start st \<le> length records
     \<and> (if ts_exchanges st = 0 then ts_start st = length records else user_index records (ts_start st))"

lemma select_loop_ok:
  "selection_ok records st \<Longrightarrow> chained (ts_start st) es m \<Longrightarrow> (\<And>e. e \<in> set es \<Longrightarrow> user_index records (er_start e)) \<Longrightarrow>
   selection_ok records (select_loop records budget limit st es)"
proof (induction records budget limit st es rule: select_loop.induct)
  case (2 records budget limit st e es)
  let ?cost = "total_cost (range_records records e)"
  let ?st = "\<lparr>ts_start = er_start e, ts_cost = sat_add (ts_cost st) ?cost,
      ts_records = sat_add (ts_records st) (length (range_records records e)), ts_exchanges = ts_exchanges st + 1\<rparr>"
  have "drop (er_start e) records = range_records records e @ drop (er_end e) records"
    using "2.prems"(2) append_take_drop_id [of "er_end e - er_start e" "drop (er_start e) records"]
    by (simp add: range_records_def)
  then have "total_cost (drop (er_start e) records) = ?cost + total_cost (drop (er_end e) records)" by simp
  then have ok: "selection_ok records ?st" using "2.prems"
    by (auto simp: selection_ok_def sat_add_def user_index_def min_def)
  show ?case
  proof (cases "ts_exchanges st = limit \<or> 0 < ts_exchanges st \<and>
      (budget < sat_add (ts_cost st) ?cost \<or>
       max_recent_records < sat_add (ts_records st) (length (range_records records e)))")
    case True
    with "2.prems"(1) show ?thesis by (auto simp: Let_def)
  next
    case False
    then have "selection_ok records (select_loop records budget limit ?st es)"
      using "2.prems" ok by (intro "2.IH") (auto simp: Let_def)
    with False show ?thesis by (auto simp: Let_def)
  qed
qed simp

lemma select_tail_ok:
  "selection_ok records (select_loop records budget limit
     \<lparr>ts_start = length records, ts_cost = 0, ts_records = 0, ts_exchanges = 0\<rparr> (rev (exchange_ranges records)))"
proof -
  from exchange_chain(1) obtain m where "chained (length records) (rev (exchange_ranges records)) m" by blast
  then show ?thesis using exchange_chain(2)
    by (intro select_loop_ok [where m = m]) (auto simp: selection_ok_def)
qed

section \<open>A single exchange that is too large\<close>

lemma card_fill:
  "finite s \<Longrightarrow> card s \<le> limit \<Longrightarrow> card (fill_indices limit s is) \<le> limit"
  by (induction limit s "is" rule: fill_indices.induct) (auto simp: card_insert_if)

lemma finite_fill: "finite s \<Longrightarrow> finite (fill_indices limit s is)"
  by (induction limit s "is" rule: fill_indices.induct) auto

lemma fill_between: "s \<subseteq> fill_indices limit s is \<and> fill_indices limit s is \<subseteq> s \<union> set is"
  by (induction limit s "is" rule: fill_indices.induct) auto

lemma model_position_Some:
  "model_position records = Some i \<longleftrightarrow> i < length records \<and> cr_kind (records ! i) = ''model''
     \<and> (\<forall>j. i < j \<and> j < length records \<longrightarrow> cr_kind (records ! j) \<noteq> ''model'')"
  (is "?l \<longleftrightarrow> ?r")
proof -
  have fin: "find P (rev [0..<n]) = Some i \<longleftrightarrow> i < n \<and> P i \<and> (\<forall>j. i < j \<and> j < n \<longrightarrow> \<not> P j)" for P n
    by (induction n) (auto simp: less_Suc_eq)
  show ?thesis by (simp add: model_position_def fin)
qed

lemma essential_indices_ok:
  assumes "records \<noteq> []"
  shows "finite (essential_indices records limit)" "essential_indices records limit \<subseteq> {..<length records}"
    "0 \<in> essential_indices records limit" "model_position records = Some i \<Longrightarrow> i \<in> essential_indices records limit"
    "2 \<le> limit \<Longrightarrow> card (essential_indices records limit) \<le> limit"
proof -
  define s where "s = (case model_position records of None \<Rightarrow> {0} | Some index \<Rightarrow> {0, index})"
  have e: "essential_indices records limit = fill_indices limit s (rev [1..<length records])"
    by (simp add: essential_indices_def s_def)
  have card: "card s \<le> 2" by (auto simp: s_def card_insert_if split: option.splits)
  have fin: "finite s" by (simp add: s_def split: option.splits)
  have sub: "s \<subseteq> {..<length records}" "0 \<in> s"
    using assms model_position_Some [of records] by (auto simp: s_def split: option.splits)
  note between = fill_between [of s limit "rev [1..<length records]"]
  show "finite (essential_indices records limit)" using finite_fill [OF fin] by (simp add: e)
  show "essential_indices records limit \<subseteq> {..<length records}" using between sub by (auto simp: e)
  show "0 \<in> essential_indices records limit" using between sub by (auto simp: e)
  show "2 \<le> limit \<Longrightarrow> card (essential_indices records limit) \<le> limit" using card_fill [OF fin] card by (simp add: e)
  show "model_position records = Some i \<Longrightarrow> i \<in> essential_indices records limit"
    using between by (auto simp: e s_def)
qed

lemma sorted_list_filter: "finite s \<Longrightarrow> s \<subseteq> {..<n} \<Longrightarrow> sorted_list_of_set s = filter (\<lambda>i. i \<in> s) [0..<n]"
  by (rule sorted_distinct_set_unique) (auto simp: sorted_wrt_filter)

lemma essential_records_ok:
  assumes "records \<noteq> []"
  shows "subseq (essential_exchange_records records limit) records"
    "essential_exchange_records records limit \<noteq> []" "hd (essential_exchange_records records limit) = hd records"
    "model_position records = Some i \<Longrightarrow> records ! i \<in> set (essential_exchange_records records limit)"
    "2 \<le> limit \<Longrightarrow> length (essential_exchange_records records limit) \<le> limit"
proof -
  note ok = essential_indices_ok [OF assms, where limit = limit]
  let ?s = "essential_indices records limit"
  have list: "sorted_list_of_set ?s = filter (\<lambda>i. i \<in> ?s) [0..<length records]"
    by (rule sorted_list_filter [OF ok(1,2)])
  have "map (\<lambda>i. records ! i) (filter P [0..<length records]) = nths records {i. P i}" for P
  proof (induction records rule: rev_induct)
    case (snoc x xs)
    have "map (\<lambda>i. (xs @ [x]) ! i) (filter P [0..<length xs]) = map (\<lambda>i. xs ! i) (filter P [0..<length xs])"
      by (simp add: nth_append)
    with snoc show ?case by (simp add: nths_append nths_singleton)
  qed simp
  then have nths: "map (\<lambda>i. records ! i) (sorted_list_of_set ?s) = nths records ?s" by (simp add: list)
  show "subseq (essential_exchange_records records limit) records"
  proof -
    have "subseq (nths records ?s) records" by (auto simp: subseq_conv_nths)
    then show ?thesis by (simp add: essential_exchange_records_def nths)
  qed
  obtain l where n: "length records = Suc l" using assms by (cases records) auto
  have "[0..<length records] = 0 # [1..<length records]" by (simp add: n upt_rec)
  with list ok(3) have cons: "\<exists>is. sorted_list_of_set ?s = 0 # is" by simp
  then show "essential_exchange_records records limit \<noteq> []" "hd (essential_exchange_records records limit) = hd records"
    using assms by (auto simp: essential_exchange_records_def hd_conv_nth)
  show "records ! i \<in> set (essential_exchange_records records limit)" if "model_position records = Some i"
    using ok(1) ok(4) [OF that] that model_position_Some [of records i] by (auto simp: essential_exchange_records_def)
  show "length (essential_exchange_records records limit) \<le> limit" if "2 \<le> limit"
    using ok(5) [OF that] by (simp add: essential_exchange_records_def)
qed

lemma shrink_limit_range:
  "limit = shrink_limit records budget n \<Longrightarrow> limit \<le> n \<and> (2 \<le> n \<longrightarrow> 2 \<le> limit) \<and> (n \<le> 2 \<longrightarrow> limit = n)
     \<and> (fixed_record_cost (essential_exchange_records records n) \<le> budget \<longrightarrow> limit = n)"
proof (induction records budget n arbitrary: limit rule: shrink_limit.induct)
  case (1 records budget n)
  show ?case
  proof (cases "budget < fixed_record_cost (essential_exchange_records records n) \<and> 2 < n")
    case True
    with "1.prems" have "limit = shrink_limit records budget (n - 1)" by (simp add: shrink_limit.simps [of records budget n])
    with "1.IH" [OF True this] True show ?thesis by auto
  next
    case False
    with "1.prems" show ?thesis by (simp add: shrink_limit.simps [of records budget n])
  qed
qed

lemma fixed_le_total: "fixed_record_cost records \<le> total_cost records"
  by (induction records) (auto simp: fixed_record_cost_def record_token_cost_def)

text \<open>What names a record, whatever is cut from its content.\<close>

definition ident :: "compaction_record \<Rightarrow> string \<times> string" where
  "ident r = (cr_record_id r, cr_kind r)"

lemma truncated_cost:
  assumes "list_all (\<lambda>r. utf8_valid (cr_content r)) records"
  shows "total_cost (map (\<lambda>r. r\<lparr>cr_content := truncate_tail_to_estimated_tokens (cr_content r) n\<rparr>) records)
    \<le> fixed_record_cost records + length records * n"
  using assms
proof (induction records)
  case (Cons r records)
  then have "estimate_tokens (truncate_tail_to_estimated_tokens (cr_content r) n) \<le> n"
    by (simp add: truncate_tail_to_estimated_tokens_def truncate_budget)
  with Cons show ?case by (simp add: record_token_cost_def fixed_record_cost_def)
qed (simp add: fixed_record_cost_def)

lemma subseq_all: "subseq xs ys \<Longrightarrow> list_all P ys \<Longrightarrow> list_all P xs"
  by (auto simp: list_all_iff subseq_conv_nths dest: in_set_nthsD)

lemma ident_content [simp]: "ident (r\<lparr>cr_content := v\<rparr>) = ident r"
  by (simp add: ident_def)

lemma single_exchange_ok:
  assumes "records \<noteq> []" "bounded_single_exchange records budget = out"
  shows "length out \<le> max_recent_records"
    "list_all (\<lambda>r. utf8_valid (cr_content r)) records \<Longrightarrow> total_cost out \<le> budget"
    "subseq (map ident out) (map ident records)"
    "out \<noteq> [] \<Longrightarrow> ident (hd out) = ident (hd records)"
    "out \<noteq> [] \<Longrightarrow> model_position records = Some i \<Longrightarrow> ident (records ! i) \<in> set (map ident out)"
proof -
  define limit where "limit = shrink_limit records budget (min (length records) max_recent_records)"
  define kept where "kept = essential_exchange_records records limit"
  define per where "per = (budget - fixed_record_cost kept) div max (length kept) 1"
  note limit = shrink_limit_range [OF limit_def]
  note ok = essential_records_ok [OF assms(1), where limit = limit, folded kept_def]
  have out: "out = (if budget < fixed_record_cost kept then []
     else if total_cost records \<le> budget \<and> length records \<le> max_recent_records then kept
     else map (\<lambda>r. r\<lparr>cr_content := truncate_tail_to_estimated_tokens (cr_content r) per\<rparr>) kept)"
    unfolding assms(2) [symmetric] bounded_single_exchange_def Let_def limit_def kept_def per_def by (rule refl)
  have idents: "out = [] \<or> map ident out = map ident kept" by (simp add: out comp_def)
  show "length out \<le> max_recent_records"
  proof (cases "2 \<le> limit")
    case True
    with ok(5) limit idents show ?thesis by (auto dest: map_eq_imp_length_eq)
  next
    case False
    then have "length kept \<le> 1" using limit assms(1)
      by (cases records; cases "tl records") (auto simp: kept_def essential_exchange_records_def max_recent_records_def)
    with idents show ?thesis by (auto simp: max_recent_records_def dest: map_eq_imp_length_eq)
  qed
  show "subseq (map ident out) (map ident records)" using ok(1) idents by (auto intro: subseq_map)
  show "ident (hd out) = ident (hd records)" if "out \<noteq> []"
    using that idents ok(2,3) by (metis hd_map list.map_disc_iff)
  show "ident (records ! i) \<in> set (map ident out)" if "out \<noteq> []" "model_position records = Some i"
    using that idents ok(4) [OF that(2)] by auto
  assume valid: "list_all (\<lambda>r. utf8_valid (cr_content r)) records"
  show "total_cost out \<le> budget"
  proof (cases "total_cost records \<le> budget \<and> length records \<le> max_recent_records")
    case True
    then have "limit = length records"
      using limit fixed_le_total [of records] by (simp add: essential_exchange_records_def min_def)
    then have "kept = records" by (simp add: kept_def essential_exchange_records_def)
    with True show ?thesis by (simp add: out)
  next
    case False
    have "length kept * per \<le> budget - fixed_record_cost kept"
      unfolding per_def using div_times_less_eq_dividend [of "budget - fixed_record_cost kept" "max (length kept) 1"]
      by (cases kept) (simp_all add: mult.commute)
    with False truncated_cost [OF subseq_all [OF ok(1) valid], of per] show ?thesis by (auto simp: out)
  qed
qed

section \<open>Bounds of a plan\<close>

lemma select_recent_tail_ok:
  assumes "select_recent_tail records budget limit = tail" "budget < usize_max"
  shows "rt_source_end tail \<le> length records" "length (rt_records tail) \<le> max_recent_records"
    "list_all (\<lambda>r. utf8_valid (cr_content r)) records \<Longrightarrow> total_cost (rt_records tail) \<le> budget"
    "subseq (map ident (rt_records tail)) (map ident (drop (rt_source_end tail) records))"
    "rt_records tail \<noteq> [] \<Longrightarrow> user_index records (rt_source_end tail)
       \<and> ident (hd (rt_records tail)) = ident (records ! rt_source_end tail)"
    "rt_records tail \<noteq> [] \<Longrightarrow> model_position records = Some i \<Longrightarrow> rt_source_end tail \<le> i \<Longrightarrow>
       ident (records ! i) \<in> set (map ident (rt_records tail))"
proof -
  define st where "st = select_loop records budget limit
     \<lparr>ts_start = length records, ts_cost = 0, ts_records = 0, ts_exchanges = 0\<rparr> (rev (exchange_ranges records))"
  define selected where "selected = drop (ts_start st) records"
  define out where "out = (if max_recent_records < length selected \<or> budget < ts_cost st
                          then bounded_single_exchange selected budget else selected)"
  have st: "selection_ok records st" unfolding st_def by (rule select_tail_ok)
  have "(rt_source_end tail = length records \<and> rt_records tail = [])
    \<or> 0 < ts_exchanges st \<and> out \<noteq> [] \<and> rt_source_end tail = ts_start st \<and> rt_records tail = out"
    unfolding assms(1) [symmetric] select_recent_tail_def Let_def st_def [symmetric] selected_def [symmetric]
      out_def [symmetric] by simp
  then consider "rt_source_end tail = length records" "rt_records tail = []"
    | "0 < ts_exchanges st" "out \<noteq> []" "rt_source_end tail = ts_start st" "rt_records tail = out"
    by (elim disjE conjE) simp_all
  then have "rt_source_end tail \<le> length records \<and> length (rt_records tail) \<le> max_recent_records
    \<and> (list_all (\<lambda>r. utf8_valid (cr_content r)) records \<longrightarrow> total_cost (rt_records tail) \<le> budget)
    \<and> subseq (map ident (rt_records tail)) (map ident (drop (rt_source_end tail) records))
    \<and> (rt_records tail \<noteq> [] \<longrightarrow> user_index records (rt_source_end tail)
       \<and> ident (hd (rt_records tail)) = ident (records ! rt_source_end tail))
    \<and> (rt_records tail \<noteq> [] \<and> model_position records = Some i \<and> rt_source_end tail \<le> i \<longrightarrow>
       ident (records ! i) \<in> set (map ident (rt_records tail)))"
  proof cases
    case 2
    with st have user: "user_index records (ts_start st)"
      and cost: "ts_cost st = min (total_cost selected) usize_max" by (simp_all add: selection_ok_def selected_def)
    then have sel: "selected \<noteq> []" "hd selected = records ! ts_start st"
      by (simp_all add: selected_def user_index_def hd_drop_conv_nth)
    have later: "i - ts_start st < length selected \<and> selected ! (i - ts_start st) = records ! i
        \<and> model_position selected = Some (i - ts_start st)"
      if "model_position records = Some i" "ts_start st \<le> i"
    proof -
      have nth: "selected ! j = records ! (ts_start st + j)" if "j < length selected" for j
        using that by (simp add: selected_def)
      have "cr_kind (selected ! j) \<noteq> ''model''" if "i - ts_start st < j" "j < length selected" for j
      proof -
        have "i < ts_start st + j" "ts_start st + j < length records"
          using that \<open>ts_start st \<le> i\<close> by (simp_all add: selected_def)
        then show ?thesis
          using nth [OF that(2)] \<open>model_position records = Some i\<close> model_position_Some [of records i] by simp
      qed
      with that model_position_Some [of records i] show ?thesis
        by (auto simp: model_position_Some nth selected_def)
    qed
    have valid: "list_all (\<lambda>r. utf8_valid (cr_content r)) selected"
      if "list_all (\<lambda>r. utf8_valid (cr_content r)) records"
      using that by (auto simp: selected_def list_all_iff dest: in_set_dropD)
    show ?thesis
    proof (cases "max_recent_records < length selected \<or> budget < ts_cost st")
      case True
      then have "bounded_single_exchange selected budget = out" by (simp add: out_def)
      note single = single_exchange_ok [OF sel(1) this]
      show ?thesis unfolding 2(3,4) using user single(1-4) single(5) [of "i - ts_start st"] valid later sel 2(2)
        by (auto simp: user_index_def selected_def)
    next
      case False
      then have out: "out = selected" "length selected \<le> max_recent_records" "total_cost selected \<le> budget"
        using cost assms(2) by (auto simp: out_def min_def split: if_splits)
      have mem: "records ! i \<in> set selected" if "model_position records = Some i" "ts_start st \<le> i"
        using later [OF that] nth_mem [of "i - ts_start st" selected] by simp
      from out user sel mem show ?thesis unfolding 2(3,4)
        by (auto simp: user_index_def selected_def [symmetric])
    qed
  qed (simp_all)
  then show "rt_source_end tail \<le> length records" "length (rt_records tail) \<le> max_recent_records"
    "list_all (\<lambda>r. utf8_valid (cr_content r)) records \<Longrightarrow> total_cost (rt_records tail) \<le> budget"
    "subseq (map ident (rt_records tail)) (map ident (drop (rt_source_end tail) records))"
    "rt_records tail \<noteq> [] \<Longrightarrow> user_index records (rt_source_end tail)
       \<and> ident (hd (rt_records tail)) = ident (records ! rt_source_end tail)"
    "rt_records tail \<noteq> [] \<Longrightarrow> model_position records = Some i \<Longrightarrow> rt_source_end tail \<le> i \<Longrightarrow>
       ident (records ! i) \<in> set (map ident (rt_records tail))" by simp_all
qed

lemma summary_loop_ok:
  "total_cost (summary_loop remaining selected rs) \<le> remaining + total_cost selected
   \<and> (remaining \<le> record_overhead_tokens \<longrightarrow> summary_loop remaining selected rs = selected)
   \<and> (\<exists>ys. map ident (summary_loop remaining selected rs) = ys @ map ident selected \<and> subseq ys (rev (map ident rs)))"
proof (induction remaining selected rs rule: summary_loop.induct)
  case (2 remaining selected r rs)
  let ?b = "bounded_summary_record remaining r"
  have b: "ident ?b = ident r" by (simp add: bounded_summary_record_def Let_def)
  consider "remaining \<le> record_overhead_tokens"
    | "record_overhead_tokens < remaining" "cr_content ?b = [] \<or> remaining < record_token_cost ?b"
    | "record_overhead_tokens < remaining" "cr_content ?b \<noteq> []" "record_token_cost ?b \<le> remaining" by linarith
  then show ?case
  proof cases
    case 2
    then have step: "summary_loop remaining selected (r # rs) = summary_loop remaining selected rs"
      by (simp add: Let_def)
    from "2.IH"(1) [OF _ refl refl] 2 obtain ys where "subseq ys (rev (map ident rs))"
      "map ident (summary_loop remaining selected rs) = ys @ map ident selected"
      "total_cost (summary_loop remaining selected rs) \<le> remaining + total_cost selected" by auto
    with 2(1) show ?thesis unfolding step by (auto intro!: exI [of _ ys] list_emb_prefix)
  next
    case 3
    let ?next = "summary_loop (remaining - record_token_cost ?b) (?b # selected) rs"
    from 3 have step: "summary_loop remaining selected (r # rs) = ?next" by (simp add: Let_def)
    from "2.IH"(2) [OF _ refl refl] 3 obtain ys where "subseq ys (rev (map ident rs))"
      "map ident ?next = ys @ map ident (?b # selected)"
      "total_cost ?next \<le> remaining - record_token_cost ?b + total_cost (?b # selected)" by auto
    with 3 b show ?thesis unfolding step by (auto intro!: exI [of _ "ys @ [ident r]"] list_emb_append_mono)
  qed (auto intro: exI [of _ "[]"])
qed simp

lemma bounded_summary_ok:
  "bounded_summary_source records budget = (out, dropped) \<Longrightarrow>
   total_cost out \<le> budget \<and> (budget \<le> record_overhead_tokens \<longrightarrow> out = [])
   \<and> subseq (map ident out) (map ident records) \<and> dropped + length out = length records"
proof -
  assume out: "bounded_summary_source records budget = (out, dropped)"
  from summary_loop_ok [of budget "[]" "rev records"]
  have "subseq (map ident (summary_loop budget [] (rev records))) (map ident records)" by (auto simp: rev_map)
  moreover from this have "length (summary_loop budget [] (rev records)) \<le> length records"
    by (auto dest: list_emb_length)
  ultimately show ?thesis using out summary_loop_ok [of budget "[]" "rev records"]
    by (auto simp: bounded_summary_source_def Let_def)
qed

lemma policy_bounds:
  assumes "policy = for_context_limit limit"
  shows "cp_recent_tail_budget_tokens policy < usize_max"
    "cp_recent_tail_budget_tokens policy + cp_summary_output_budget_tokens policy \<le> max (cp_context_limit_tokens policy) 2"
    "cp_context_limit_tokens policy = max limit 1"
proof -
  define n where "n = max limit 1"
  define target where "target = max (percent n 40) 1"
  define tail where "tail = min (clamp 512 16384 (percent n 25)) target"
  define out where "out = min (clamp 192 768 (percent n 10)) (max (target - tail) 1)"
  have policy: "cp_context_limit_tokens policy = n" "cp_recent_tail_budget_tokens policy = tail"
    "cp_summary_output_budget_tokens policy = out"
    unfolding assms for_context_limit_def Let_def n_def [symmetric] target_def [symmetric] tail_def [symmetric]
      out_def [symmetric] by (simp_all only: compaction_policy.simps)
  have "percent n 40 \<le> n * 40 div 100" by (simp add: percent_def sat_mul_def div_le_mono)
  then have target: "target + 1 \<le> n \<or> n = 1 \<and> target = 1" by (auto simp: target_def n_def)
  have tail: "tail \<le> target" "tail \<le> 16384" by (simp_all add: tail_def clamp_def)
  have out: "out \<le> max (target - tail) 1" by (simp add: out_def)
  show "cp_recent_tail_budget_tokens policy < usize_max" using tail(2) by (simp add: policy usize_max_def)
  show "cp_context_limit_tokens policy = max limit 1" by (simp add: policy n_def)
  show "cp_recent_tail_budget_tokens policy + cp_summary_output_budget_tokens policy \<le> max (cp_context_limit_tokens policy) 2"
    using target tail out by (auto simp: policy max_def split: if_splits)
qed

text \<open>
  C31 A compaction plan fits the window of the model: whatever the records and the context limit,
  the recent records that survive number at most 64 and cost at most the tail budget, and together
  with the bounded summary source and the room for the summary they fit the context limit. Every
  record of the source is either in the summary source or counted as dropped.
\<close>

theorem compaction_plan_bounded:
  assumes "list_all (\<lambda>r. utf8_valid (cr_content r)) records"
    and "plan_with_observed_tokens (for_context_limit limit) kind records observed = plan"
  shows "length (pl_recent_records plan) \<le> 64
    \<and> total_cost (pl_recent_records plan) \<le> cp_recent_tail_budget_tokens (for_context_limit limit)
    \<and> total_cost (pl_summary_source plan) + total_cost (pl_recent_records plan)
        + cp_summary_output_budget_tokens (for_context_limit limit) \<le> max limit 2
    \<and> (pl_should_compact plan \<longrightarrow>
        pl_source_records_dropped plan + length (pl_summary_source plan) = pl_source_record_count plan)"
proof -
  let ?p = "for_context_limit limit"
  note policy = policy_bounds [OF refl, of limit]
  define recent where "recent = select_recent_tail records (cp_recent_tail_budget_tokens ?p) (cp_recent_exchange_limit ?p)"
  note tail = select_recent_tail_ok [OF recent_def [symmetric] policy(1)]
  let ?source = "take (rt_source_end recent) records"
  obtain summary dropped where s: "bounded_summary_source ?source (summary_budget ?p (rt_records recent)) = (summary, dropped)"
    by (cases "bounded_summary_source ?source (summary_budget ?p (rt_records recent))")
  have plan: "pl_recent_records plan = rt_records recent"
    "pl_source_record_count plan = length ?source"
    "pl_should_compact plan \<Longrightarrow> pl_summary_source plan = summary \<and> pl_source_records_dropped plan = dropped"
    "\<not> pl_should_compact plan \<Longrightarrow> pl_summary_source plan = []"
    unfolding assms(2) [symmetric] plan_with_observed_tokens_def Let_def recent_def [symmetric] s by auto
  have "total_cost summary + total_cost (rt_records recent) + cp_summary_output_budget_tokens ?p \<le> max limit 2"
    using bounded_summary_ok [OF s] tail(3) [OF assms(1)] policy
    by (cases "summary_budget ?p (rt_records recent) \<le> record_overhead_tokens")
      (auto simp: summary_budget_def record_overhead_tokens_def)
  then show ?thesis using plan tail(2) tail(3) [OF assms(1)] bounded_summary_ok [OF s] policy
    by (cases "pl_should_compact plan") (auto simp: max_recent_records_def)
qed

definition wit_compaction :: "compaction_record list" where
  "wit_compaction =
     [\<lparr>cr_record_id = ''r0'', cr_kind = ''user'', cr_content = ''old''\<rparr>,
      \<lparr>cr_record_id = ''r1'', cr_kind = ''user'', cr_content = ''q''\<rparr>,
      \<lparr>cr_record_id = ''r2'', cr_kind = ''model'', cr_content = ''a''\<rparr>]"

lemma wit_compaction_valid: "list_all (\<lambda>r. utf8_valid (cr_content r)) wit_compaction"
  by (simp add: wit_compaction_def utf8_valid_ascii_Cons)

lemma compaction_plan_bounded_witness:
  "total_cost (pl_recent_records (plan_with_observed_tokens (for_context_limit 4096) Manual wit_compaction None))
    \<le> cp_recent_tail_budget_tokens (for_context_limit 4096)"
  using compaction_plan_bounded [OF wit_compaction_valid refl] by blast

section \<open>What a plan keeps\<close>

text \<open>
  C32 A compaction plan cuts the conversation at the start of an exchange: the records it names as
  the source are those before the boundary, in order; the records it keeps, if any, are a
  subsequence of those from the boundary on that starts with the user record there and contains the
  last model answer, their contents possibly cut; the summary source is a subsequence of the source.
\<close>

theorem compaction_keeps_exchange:
  assumes "plan_with_observed_tokens (for_context_limit limit) kind records observed = plan"
    and "n = pl_source_record_count plan"
  shows "subseq (map ident (pl_recent_records plan)) (map ident (drop n records))
    \<and> subseq (map ident (pl_summary_source plan)) (map ident (take n records))
    \<and> (pl_recent_records plan \<noteq> [] \<longrightarrow> n < length records \<and> cr_kind (records ! n) = ''user''
        \<and> ident (hd (pl_recent_records plan)) = ident (records ! n)
        \<and> (\<forall>i. model_position records = Some i \<and> n \<le> i \<longrightarrow>
             ident (records ! i) \<in> set (map ident (pl_recent_records plan))))
    \<and> pl_boundary_record_id plan = (if n = 0 then None else Some (cr_record_id (records ! (n - 1))))"
proof -
  let ?p = "for_context_limit limit"
  define recent where "recent = select_recent_tail records (cp_recent_tail_budget_tokens ?p) (cp_recent_exchange_limit ?p)"
  note tail = select_recent_tail_ok [OF recent_def [symmetric] policy_bounds(1) [OF refl]]
  let ?source = "take (rt_source_end recent) records"
  obtain summary dropped where s: "bounded_summary_source ?source (summary_budget ?p (rt_records recent)) = (summary, dropped)"
    by (cases "bounded_summary_source ?source (summary_budget ?p (rt_records recent))")
  have plan: "pl_recent_records plan = rt_records recent" "pl_source_record_count plan = rt_source_end recent"
    "pl_summary_source plan = summary \<or> pl_summary_source plan = []"
    "pl_boundary_record_id plan = (if ?source = [] then None else Some (cr_record_id (last ?source)))"
    unfolding assms(1) [symmetric] plan_with_observed_tokens_def Let_def recent_def [symmetric] s
    using tail(1) by (auto simp: recent_def)
  have n: "n = rt_source_end recent" using assms(2) plan(2) by simp
  have "last ?source = records ! (n - 1)" if "?source \<noteq> []"
    using that tail(1) by (auto simp: n last_conv_nth min_def)
  moreover have "?source = [] \<longleftrightarrow> n = 0" using tail(1) by (auto simp: n)
  ultimately have b: "pl_boundary_record_id plan = (if n = 0 then None else Some (cr_record_id (records ! (n - 1))))"
    using plan(4) by (cases "?source = []") simp_all
  have summary: "subseq (map ident (pl_summary_source plan)) (map ident (take n records))"
    using bounded_summary_ok [OF s] plan(3) by (auto simp: n)
  show ?thesis
    using tail(4) tail(5) tail(6) b summary unfolding plan(1) n [symmetric] by (auto simp: user_index_def)
qed

lemma compaction_keeps_exchange_witness:
  "subseq (map ident (pl_recent_records (plan_with_observed_tokens (for_context_limit 4096) Manual wit_compaction None)))
     (map ident (drop (pl_source_record_count
        (plan_with_observed_tokens (for_context_limit 4096) Manual wit_compaction None)) wit_compaction))"
  using compaction_keeps_exchange [OF refl refl] by blast

text \<open>
  A record that has to be cut to what remains of the summary budget never fits: the cut is to
  \<open>remaining - 8\<close> tokens, but the cost adds the tokens of the record's kind. The record is skipped
  and an older, shorter one may take its place, so the summary source need not be a suffix of the
  source.
\<close>

definition long_record :: compaction_record where
  "long_record = \<lparr>cr_record_id = ''new'', cr_kind = ''user'', cr_content = ''xxxxxxxxxxxxxxxxxxxx''\<rparr>"

definition short_record :: compaction_record where
  "short_record = \<lparr>cr_record_id = ''old'', cr_kind = ''user'', cr_content = ''short''\<rparr>"

lemma estimate_ascii: "all_ascii s \<Longrightarrow> estimate_tokens s = (if s = [] then 0 else max (div_ceil (length s) 3) 1)"
  by (auto simp: estimate_tokens_def chars_def char_slices_all_ascii div_ceil_def)

lemma long_record_cut: "truncate_head_and_tail_to_tokens (cr_content long_record) 6 = ''xxx'' @ compacted_marker @ ''xx''"
proof -
  have slices: "char_slices (cr_content long_record) = map (\<lambda>c. [c]) (cr_content long_record)"
    by (rule char_slices_all_ascii) (simp add: long_record_def all_ascii_def)
  have "estimate_tokens (cr_content long_record) = 7"
    using estimate_ascii [of "cr_content long_record"] by (simp add: long_record_def all_ascii_def div_ceil_def)
  moreover have "bounded_chars_and_bytes_raw (cr_content long_record) 3 6 TruncateHead = ''xxx''"
    unfolding bounded_chars_and_bytes_raw_def char_indices_def slices
    by (simp add: long_record_def head_end_def sat_add_def usize_max_def)
  moreover have "bounded_chars_and_bytes_raw (cr_content long_record) 2 5 TruncateTail = ''xx''"
    unfolding bounded_chars_and_bytes_raw_def char_indices_def slices
    by (simp add: long_record_def sat_add_def usize_max_def)
  ultimately show ?thesis
    by (simp add: truncate_head_and_tail_to_tokens_def Let_def marker_size sat_mul_def usize_max_def div_ceil_def)
qed

lemma cut_record_never_fits:
  "fst (bounded_summary_source [short_record, long_record] 14) = [short_record]"
proof -
  have cut: "bounded_summary_record 14 long_record = long_record\<lparr>cr_content := ''xxx'' @ compacted_marker @ ''xx''\<rparr>"
    using long_record_cut by (simp add: bounded_summary_record_def Let_def record_overhead_tokens_def
        max_summary_record_tokens_def is_tool_like_def long_record_def)
  have user: "estimate_tokens ''user'' = 2" using estimate_ascii [of "''user''"] by (simp add: all_ascii_def div_ceil_def)
  have "estimate_tokens (''xxx'' @ compacted_marker @ ''xx'') = 6"
    using estimate_ascii [of "''xxx'' @ compacted_marker @ ''xx''"]
    by (simp add: all_ascii_def div_ceil_def compacted_marker_def)
  moreover have "cr_kind long_record = ''user''" by (simp add: long_record_def)
  ultimately have "14 < record_token_cost (bounded_summary_record 14 long_record)"
    unfolding cut using user by (simp add: record_token_cost_def record_overhead_tokens_def)
  moreover have short: "estimate_tokens ''short'' = 2" using estimate_ascii [of "''short''"] by (simp add: all_ascii_def div_ceil_def)
  then have "bounded_summary_record 14 short_record = short_record"
    by (simp add: bounded_summary_record_def Let_def record_overhead_tokens_def max_summary_record_tokens_def
        is_tool_like_def short_record_def truncate_head_and_tail_to_tokens_def)
  moreover have "record_token_cost short_record = 12"
    using user short by (simp add: record_token_cost_def record_overhead_tokens_def short_record_def)
  ultimately show ?thesis
    by (simp add: bounded_summary_source_def Let_def record_overhead_tokens_def short_record_def)
qed

end
