(* ===== verification/Artifact_Properties.thy ===== *)
theory Artifact_Properties
  imports Compaction_Session Compaction_Properties Transcript_Properties
begin

text \<open>
  The stored artifacts of compactions: their round trip, the chain that a session accepts, and the
  rationale that a compaction cannot store.
\<close>

section \<open>The chain of a session\<close>

text \<open>
  A chain of artifacts from the current one to the first compaction of the session: each names the
  next by its path and its hash, and the boundaries move back.
\<close>

fun chain_ok :: "(string \<Rightarrow> compaction_artifact result) \<Rightarrow> transcript_record list \<Rightarrow> compaction_artifact list \<Rightarrow> bool" where
  "chain_ok load records [] \<longleftrightarrow> False"
| "chain_ok load records [a] \<longleftrightarrow>
     ca_previous_artifact_path a = ''none'' \<and> is_ok (boundary_index records (ca_boundary_record_id a))"
| "chain_ok load records (a # b # as) \<longleftrightarrow>
     ca_previous_artifact_path a \<noteq> ''none'' \<and> load (ca_previous_artifact_path a) = Inr b
     \<and> ca_artifact_hash b = ca_previous_artifact_hash a
     \<and> (\<exists>i j. boundary_index records (ca_boundary_record_id a) = Inr i
          \<and> boundary_index records (ca_boundary_record_id b) = Inr j \<and> j < i)
     \<and> chain_ok load records (b # as)"

lemma chain_ok_boundary: "chain_ok load records (a # as) \<Longrightarrow> is_ok (boundary_index records (ca_boundary_record_id a))"
  by (cases as) (auto simp: is_ok_iff)

definition visited_later :: "(string \<Rightarrow> compaction_artifact result) \<Rightarrow> transcript_record list \<Rightarrow> string set \<Rightarrow> nat \<Rightarrow> bool" where
  "visited_later load records visited i \<longleftrightarrow>
     (\<forall>q\<in>visited. \<exists>a j. load q = Inr a \<and> boundary_index records (ca_boundary_record_id a) = Inr j \<and> i \<le> j)"

lemma visited_later_insert:
  "visited_later load records visited i \<Longrightarrow> load q = Inr a \<Longrightarrow>
   boundary_index records (ca_boundary_record_id a) = Inr j \<Longrightarrow> j < i \<Longrightarrow>
   visited_later load records (insert q visited) j"
  by (fastforce simp: visited_later_def)

lemma if_Inl_iff: "(if c then Inl e else r) = Inr x \<longleftrightarrow> \<not> c \<and> r = Inr x"
  by simp

lemma chain_from_iff:
  "boundary_index records (ca_boundary_record_id child) = Inr i \<Longrightarrow> visited_later load records visited i \<Longrightarrow>
   chain_from load records n visited child i = Inr () \<longleftrightarrow>
     (\<exists>as. chain_ok load records (child # as) \<and> length as < n)"
proof (induction n arbitrary: visited child i)
  case (Suc n)
  let ?p = "ca_previous_artifact_path child"
  show ?case
  proof (cases "?p = ''none''")
    case True
    then have "chain_ok load records [child]" using Suc.prems(1) by simp
    with True show ?thesis by (auto intro: exI [of _ "[]"])
  next
    case False
    have split: "(\<exists>as. chain_ok load records (child # as) \<and> length as < Suc n) \<longleftrightarrow>
      (\<exists>b j. load ?p = Inr b \<and> ca_artifact_hash b = ca_previous_artifact_hash child
        \<and> boundary_index records (ca_boundary_record_id b) = Inr j \<and> j < i
        \<and> (\<exists>as. chain_ok load records (b # as) \<and> length as < n))" (is "?l \<longleftrightarrow> ?r")
    proof
      assume ?l
      then obtain as where as: "chain_ok load records (child # as)" "length as < Suc n" by blast
      with False obtain b bs where "as = b # bs" by (cases as) auto
      with as Suc.prems(1) show ?r by auto
    next
      assume ?r
      then obtain b j as where "load ?p = Inr b" "ca_artifact_hash b = ca_previous_artifact_hash child"
        "boundary_index records (ca_boundary_record_id b) = Inr j" "j < i" "chain_ok load records (b # as)" "length as < n"
        by blast
      with False Suc.prems(1) have "chain_ok load records (child # b # as) \<and> length (b # as) < Suc n" by simp
      then show ?l by blast
    qed
    have cycle: "\<not> (load ?p = Inr b \<and> boundary_index records (ca_boundary_record_id b) = Inr j \<and> j < i)"
      if "?p \<in> visited" for b j
      using that Suc.prems(2) by (auto simp: visited_later_def)
    have step: "chain_from load records n (insert ?p visited) b j = Inr () \<longleftrightarrow>
        (\<exists>as. chain_ok load records (b # as) \<and> length as < n)"
      if "load ?p = Inr b" "boundary_index records (ca_boundary_record_id b) = Inr j" "j < i" for b j
      by (rule Suc.IH [OF that(2) visited_later_insert [OF Suc.prems(2) that]])
    have "chain_from load records (Suc n) visited child i = Inr () \<longleftrightarrow>
      ?p \<notin> visited \<and> (\<exists>b j. load ?p = Inr b \<and> ca_artifact_hash b = ca_previous_artifact_hash child
        \<and> boundary_index records (ca_boundary_record_id b) = Inr j \<and> j < i
        \<and> chain_from load records n (insert ?p visited) b j = Inr ())"
      using False by (simp add: rbind_Inr_iff if_Inl_iff not_le)
    with cycle step show ?thesis unfolding split by blast
  qed
qed simp

lemma load_pointer_ids:
  "load_artifact_pointer sha identity files session p = Inr a \<Longrightarrow>
   ca_project_id a = ri_project_id identity \<and> ca_session_id a = session \<and> relative_artifact_path a = p"
  by (auto simp: load_artifact_pointer_def rbind_Inr_iff split: if_splits)

text \<open>
  C33 The current artifact of a session is exactly one that heads a chain of at most 64 artifacts:
  the loader returns it if and only if the boundary pointer names it and the artifacts it leads to,
  each found under the path and the hash the one after it recorded, go back through strictly earlier
  boundaries of the transcript to a first one. A session with a longer chain, however sound, has no
  current artifact.
\<close>

theorem current_artifact_chain:
  "load_current_artifact_from_records sha identity files (Inr (Some p)) session records = Inr (Some head) \<longleftrightarrow>
   load_artifact_pointer sha identity files session p = Inr head
   \<and> (\<exists>as. chain_ok (load_artifact_pointer sha identity files session) records (head # as) \<and> length as < 64)"
proof -
  let ?load = "load_artifact_pointer sha identity files session"
  have "validate_artifact_chain ?load p head records = Inr () \<longleftrightarrow>
      (\<exists>as. chain_ok ?load records (head # as) \<and> length as < 64)" if "?load p = Inr head"
  proof (cases "boundary_index records (ca_boundary_record_id head)")
    case (Inl e)
    then have "\<not> chain_ok ?load records (head # as)" for as using chain_ok_boundary [of ?load records head as] by auto
    with Inl show ?thesis by (simp add: validate_artifact_chain_def)
  next
    case (Inr i)
    with that have "visited_later ?load records {p} i" by (simp add: visited_later_def)
    from chain_from_iff [OF Inr this, of max_chain_depth] Inr show ?thesis
      by (simp add: validate_artifact_chain_def max_chain_depth_def)
  qed
  then show ?thesis
    by (auto simp: load_current_artifact_from_records_def rbind_Inr_iff)
qed

lemma chain_ok_unique: "chain_ok load records (a # as) \<Longrightarrow> chain_ok load records (a # bs) \<Longrightarrow> as = bs"
proof (induction as arbitrary: a bs)
  case Nil
  then show ?case by (cases bs) auto
next
  case (Cons b as)
  then show ?case by (cases bs) auto
qed

text \<open>
  A session whose 65th compaction has been committed can be neither resumed nor compacted again,
  although every artifact of its chain is sound.
\<close>

lemma deep_chain_blocks_session:
  assumes "load_artifact_pointer sha identity files session p = Inr head"
    and "chain_ok (load_artifact_pointer sha identity files session) records (head # as)" "length (head # as) = 65"
  shows "\<not> is_ok (load_current_artifact_from_records sha identity files (Inr (Some p)) session records)"
proof
  assume "is_ok (load_current_artifact_from_records sha identity files (Inr (Some p)) session records)"
  then obtain a where a: "load_current_artifact_from_records sha identity files (Inr (Some p)) session records = Inr a"
    by (auto simp: is_ok_iff)
  from this assms(1) have "a = Some head" by (auto simp: load_current_artifact_from_records_def rbind_Inr_iff)
  with a have "load_current_artifact_from_records sha identity files (Inr (Some p)) session records = Inr (Some head)"
    by simp
  then have "validate_artifact_chain (load_artifact_pointer sha identity files session) p head records = Inr ()"
    by (auto simp: load_current_artifact_from_records_def rbind_Inr_iff)
  then obtain i where i: "boundary_index records (ca_boundary_record_id head) = Inr i"
    "chain_from (load_artifact_pointer sha identity files session) records 64 {p} head i = Inr ()"
    by (auto simp: validate_artifact_chain_def rbind_Inr_iff max_chain_depth_def)
  with assms(1) obtain bs where "chain_ok (load_artifact_pointer sha identity files session) records (head # bs)" "length bs < 64"
    using chain_from_iff [OF i(1), of "load_artifact_pointer sha identity files session" "{p}" 64]
    by (auto simp: visited_later_def)
  with chain_ok_unique [OF assms(2)] assms(3) show False by auto
qed

section \<open>The text of an artifact\<close>

definition canonical_strings :: "string list \<Rightarrow> cjson" where
  "canonical_strings values = CArray (map CString values)"

definition canonical_checkpoint :: "compaction_checkpoint \<Rightarrow> (string \<times> cjson) list" where
  "canonical_checkpoint c =
     [(''current_task'', CString (ck_current_task c)), (''constraints'', canonical_strings (ck_constraints c)),
      (''decisions'', canonical_strings (ck_decisions c)), (''files'', canonical_strings (ck_files c)),
      (''verification'', canonical_strings (ck_verification c)), (''errors'', canonical_strings (ck_errors c)),
      (''remaining_work'', canonical_strings (ck_remaining_work c)),
      (''artifact_refs'', canonical_strings (ck_artifact_refs c)),
      (''unknowns'', canonical_strings (ck_unknowns c)), (''rationale'', CString (ck_rationale c))]"

definition canonical_artifact :: "compaction_artifact \<Rightarrow> (string \<times> cjson) list" where
  "canonical_artifact a =
     [(''schema_version'', CUnsigned ''1''), (''artifact_id'', CString (ca_artifact_id a)),
      (''project_id'', CString (ca_project_id a)), (''session_id'', CString (ca_session_id a)),
      (''boundary_record_id'', CString (ca_boundary_record_id a)),
      (''previous_artifact_path'', CString (ca_previous_artifact_path a)),
      (''previous_artifact_hash'', CString (ca_previous_artifact_hash a)),
      (''post_compact_target_tokens'', CUnsigned (show_nat (unat (ca_post_compact_target_tokens a)))),
      (''source_record_count'', CUnsigned (show_nat (unat (ca_source_record_count a)))),
      (''source_records_dropped'', CUnsigned (show_nat (unat (ca_source_records_dropped a)))),
      (''recent_record_ids'', canonical_strings (ca_recent_record_ids a)),
      (''checkpoint'', CObject (canonical_checkpoint (ca_checkpoint a))),
      (''summary_model_id'', CString (ca_summary_model_id a)),
      (''created_at_ms'', CUnsigned (show_nat (unat (ca_created_at_ms a)))),
      (''artifact_hash'', CString (ca_artifact_hash a))]"

text \<open>An artifact whose strings the two writers escape alike.\<close>

definition plain_checkpoint :: "compaction_checkpoint \<Rightarrow> bool" where
  "plain_checkpoint c \<longleftrightarrow> plain_text (ck_current_task c) \<and> plain_text (ck_rationale c)
     \<and> list_all (list_all plain_text) [ck_constraints c, ck_decisions c, ck_files c, ck_verification c,
          ck_errors c, ck_remaining_work c, ck_artifact_refs c, ck_unknowns c]"

definition plain_artifact :: "compaction_artifact \<Rightarrow> bool" where
  "plain_artifact a \<longleftrightarrow>
     list_all plain_text [ca_artifact_id a, ca_project_id a, ca_session_id a, ca_boundary_record_id a,
       ca_previous_artifact_path a, ca_previous_artifact_hash a, ca_summary_model_id a]
     \<and> list_all plain_text (ca_recent_record_ids a) \<and> plain_checkpoint (ca_checkpoint a)
     \<and> plain_key (ca_artifact_hash a)"

lemma artifact_keys_plain: "list_all plain_key artifact_keys" "list_all plain_key checkpoint_keys"
proof -
  have "list_all (list_all plain_char) artifact_keys" "list_all (list_all plain_char) checkpoint_keys"
    by (simp_all add: artifact_keys_def checkpoint_keys_def plain_char_def)
  then show "list_all plain_key artifact_keys" "list_all plain_key checkpoint_keys"
    by (simp_all only: list_all_iff) (blast intro: plain_key_chars)+
qed

lemmas artifact_keys_each = artifact_keys_plain [unfolded artifact_keys_def checkpoint_keys_def, simplified]

lemma render_strings_same: "list_all plain_text vs \<Longrightarrow> render_string_array vs = render_cjson (canonical_strings vs)"
proof -
  assume "list_all plain_text vs"
  then have "map quoted_escape vs = map render_cjson (map CString vs)"
    by (simp add: same_string list_all_iff)
  then have "join '','' (map quoted_escape vs) = join '','' (map render_cjson (map CString vs))" by (rule arg_cong)
  then show ?thesis by (simp only: render_string_array_def canonical_strings_def render_celements_join render_cjson.simps)
qed

lemma render_checkpoint_same: "plain_checkpoint c \<Longrightarrow> render_checkpoint c = render_cjson (CObject (canonical_checkpoint c))"
  unfolding render_checkpoint_def canonical_checkpoint_def
  by (rule template_render)
    (use artifact_keys_each(2) in \<open>simp add: same_member_def plain_checkpoint_def same_string render_strings_same\<close>)

text \<open>Sealing replaces the closing brace of the payload by the hash member.\<close>

lemma template_members_last:
  "v \<noteq> [] \<Longrightarrow> last (template_members compact_layout (ms @ [(k, v)])) = last v
     \<and> template_members compact_layout (ms @ [(k, v)]) \<noteq> []"
  by (induction ms) (auto simp: compact_layout_def)

lemma seal_template:
  assumes "v \<noteq> []" "last v \<noteq> CHR ''}''"
  shows "trim_end_char (CHR ''}'') (template compact_layout (ms @ [(k, v)])) @ '','' @ quoted h @ '':'' @ w @ ''}''
    = template compact_layout (ms @ [(k, v), (h, w)])"
proof -
  let ?b = "template_members compact_layout (ms @ [(k, v)])"
  obtain u c where b: "?b = u @ [c]" and c: "c \<noteq> CHR ''}''"
    using template_members_last [OF assms(1), of ms k] assms(2) by (metis append_butlast_last_id)
  have "trim_end_char (CHR ''}'') (template compact_layout (ms @ [(k, v)])) = ''{'' @ ?b"
    using c by (simp add: template_def trim_end_char_def b)
  moreover have "template_members compact_layout ((ms @ [(k, v)]) @ [(h, w)]) = ?b @ '','' @ quoted h @ '':'' @ w"
    unfolding compact_layout_def by (subst template_members_snoc) simp_all
  ultimately show ?thesis by (simp add: template_def)
qed

lemma show_one: "show_nat (unat compaction_schema_version) = ''1''"
  unfolding compaction_schema_version_def by code_simp

lemma last_show_nat: "last (show_nat n) \<noteq> CHR ''}''"
proof -
  have "is_ascii_digit (last (show_nat n))" by (rule show_nat_digits [of _ n]) simp
  then show ?thesis by (auto simp: is_ascii_digit_def)
qed

lemma render_artifact_template:
  "render_artifact a = template compact_layout (payload_members a @ [(''artifact_hash'', quoted (ca_artifact_hash a))])"
proof -
  have p: "payload_members a = butlast (payload_members a) @ [(''created_at_ms'', show_nat (unat (ca_created_at_ms a)))]"
    by (simp add: payload_members_def)
  have "render_artifact a = template compact_layout (butlast (payload_members a)
      @ [(''created_at_ms'', show_nat (unat (ca_created_at_ms a))), (''artifact_hash'', quoted (ca_artifact_hash a))])"
    unfolding render_artifact_def render_artifact_payload_def
    by (subst p) (rule seal_template, simp, rule last_show_nat)
  then show ?thesis by (subst p) simp
qed

lemma render_artifact_canonical: "plain_artifact a \<Longrightarrow> render_artifact a = render_canonical_object (canonical_artifact a)"
proof -
  assume "plain_artifact a"
  then have "list_all2 same_member (payload_members a @ [(''artifact_hash'', quoted (ca_artifact_hash a))]) (canonical_artifact a)"
    using artifact_keys_each(1)
    by (simp add: payload_members_def canonical_artifact_def same_member_def plain_artifact_def same_string
        render_strings_same render_checkpoint_same show_one)
  from template_render [OF this] show ?thesis by (simp add: render_artifact_template render_canonical_object_def)
qed

lemma canonical_number_show: "n < 2 ^ 128 \<Longrightarrow> canonical_number (show_nat n)"
  by (simp add: canonical_number_def)

lemma wf_canonical_strings: "list_all plain_text vs \<Longrightarrow> wf_cjson (canonical_strings vs)"
  by (induction vs) (simp_all add: canonical_strings_def plain_text_valid)

lemma depth_strings: "cjson_depth (canonical_strings vs) \<le> 1"
proof -
  have "elements_depth (json_of_celements (map CString vs)) = 0" by (induction vs) simp_all
  then show ?thesis by (simp add: canonical_strings_def cjson_depth_def)
qed

lemma members_depth_le:
  "members_depth (json_of_cmembers obj) \<le> n \<longleftrightarrow> list_all (\<lambda>(k, v). json_depth (json_of_cjson v) \<le> n) obj"
  by (induction obj) auto

lemma wf_canonical_artifact:
  assumes "plain_artifact a"
  shows "wf_cjson (CObject (canonical_artifact a))" "cjson_depth (CObject (canonical_artifact a)) \<le> max_json_nesting_depth"
    "object_keys (canonical_artifact a) = artifact_keys"
proof -
  let ?c = "ca_checkpoint a"
  have keys: "map fst (canonical_checkpoint c) = checkpoint_keys" "object_keys (canonical_artifact a) = artifact_keys" for c
    by (simp_all add: canonical_checkpoint_def checkpoint_keys_def canonical_artifact_def artifact_keys_def object_keys_def)
  then show "object_keys (canonical_artifact a) = artifact_keys" by simp
  have d: "distinct checkpoint_keys" "distinct artifact_keys" by (simp_all add: checkpoint_keys_def artifact_keys_def)
  have k: "list_all utf8_valid checkpoint_keys" "list_all utf8_valid artifact_keys"
    using artifact_keys_plain by (auto simp: list_all_iff plain_key_def)
  have "wf_cmembers (canonical_checkpoint ?c)"
    using assms k(1) wf_canonical_strings
    by (simp add: canonical_checkpoint_def plain_artifact_def plain_checkpoint_def plain_text_valid checkpoint_keys_def)
  then have c: "wf_cjson (CObject (canonical_checkpoint ?c))" using keys(1) d(1) by (simp add: object_keys_def)
  have n64: "show_nat (unat (n :: u64)) \<in> {r. canonical_number r}" for n
    using unsigned_less [of n, where 'a = nat] by (simp add: canonical_number_show)
  have n128: "canonical_number (show_nat (unat (n :: u128)))" for n
    using unsigned_less [of n, where 'a = nat] by (simp add: canonical_number_show)
  have one: "canonical_number ''1''" using n64 [of compaction_schema_version] unfolding show_one by simp
  have "wf_cmembers (canonical_artifact a)"
    using assms k(2) c wf_canonical_strings n64 n128 one
    by (simp add: canonical_artifact_def plain_artifact_def plain_text_valid artifact_keys_def plain_key_def del: wf_cjson.simps(1))
  then show "wf_cjson (CObject (canonical_artifact a))" using d(2) keys(2) by simp
  have depth: "json_depth (json_of_cjson (canonical_strings vs)) \<le> 1" for vs
    using depth_strings [of vs] by (simp add: cjson_depth_def)
  have inner: "members_depth (json_of_cmembers (canonical_checkpoint ?c)) \<le> 1"
    unfolding members_depth_le using depth by (simp add: canonical_checkpoint_def)
  have "members_depth (json_of_cmembers (canonical_artifact a)) \<le> 2"
    unfolding members_depth_le using depth [of "ca_recent_record_ids a"] inner
    by (simp add: canonical_artifact_def)
  then show "cjson_depth (CObject (canonical_artifact a)) \<le> max_json_nesting_depth"
    by (simp add: cjson_depth_def max_json_nesting_depth_def)
qed

lemma canonical_strings_read: "object_get k obj = Some (canonical_strings vs) \<Longrightarrow> canonical_string_array obj k ctxt = Inr vs"
proof -
  assume "object_get k obj = Some (canonical_strings vs)"
  moreover have "traverse (\<lambda>v. case v of CString s \<Rightarrow> Inr s | _ \<Rightarrow> Inl (blocked_error ''array item type'' [ctxt, k]))
      (map CString vs) = Inr vs" by (induction vs) simp_all
  ultimately show ?thesis by (simp add: canonical_string_array_def canonical_strings_def)
qed

lemma parse_checkpoint_canonical:
  "object_get ''checkpoint'' obj = Some (CObject (canonical_checkpoint c)) \<Longrightarrow> parse_checkpoint obj ctxt = Inr c"
proof -
  assume obj: "object_get ''checkpoint'' obj = Some (CObject (canonical_checkpoint c))"
  have keys: "map fst (canonical_checkpoint c) = checkpoint_keys"
    by (simp add: canonical_checkpoint_def checkpoint_keys_def)
  have get: "object_get ''constraints'' (canonical_checkpoint c) = Some (canonical_strings (ck_constraints c))"
    "object_get ''decisions'' (canonical_checkpoint c) = Some (canonical_strings (ck_decisions c))"
    "object_get ''files'' (canonical_checkpoint c) = Some (canonical_strings (ck_files c))"
    "object_get ''verification'' (canonical_checkpoint c) = Some (canonical_strings (ck_verification c))"
    "object_get ''errors'' (canonical_checkpoint c) = Some (canonical_strings (ck_errors c))"
    "object_get ''remaining_work'' (canonical_checkpoint c) = Some (canonical_strings (ck_remaining_work c))"
    "object_get ''artifact_refs'' (canonical_checkpoint c) = Some (canonical_strings (ck_artifact_refs c))"
    "object_get ''unknowns'' (canonical_checkpoint c) = Some (canonical_strings (ck_unknowns c))"
    and str: "canonical_string (canonical_checkpoint c) ''current_task'' ctxt = Inr (ck_current_task c)"
    "canonical_string (canonical_checkpoint c) ''rationale'' ctxt = Inr (ck_rationale c)"
    by (simp_all add: canonical_checkpoint_def object_get_map_of canonical_string_def)
  show ?thesis unfolding parse_checkpoint_def obj using keys str by (simp add: get [THEN canonical_strings_read])
qed

lemma parse_fields_canonical:
  assumes "ca_schema_version a = compaction_schema_version"
  shows "parse_artifact_fields (canonical_artifact a) ctxt = Inr a"
proof -
  have num: "parse_canonical_u128 (show_nat n) c k = Inr (of_nat n)" if "n < 2 ^ 128" for n c k
    by (rule canonical_u128_render [OF that])
  have u64: "canonical_u64 (canonical_artifact a) k ctxt = Inr n"
    if "object_get k (canonical_artifact a) = Some (CUnsigned (show_nat (unat n)))" for k and n :: u64
  proof -
    have n: "unat n < 2 ^ 64" using unsigned_less [of n, where 'a = nat] by simp
    then have "unat (of_nat (unat n) :: u128) = unat n" by (intro unat_of_nat_small) simp
    moreover have "parse_canonical_u128 (show_nat (unat n)) c k = Inr (of_nat (unat n))" for c k
      using n by (intro num) simp
    ultimately show ?thesis using that n
      by (simp add: canonical_u64_def canonical_u128_def u64_try_from_def)
  qed
  have get: "object_get ''schema_version'' (canonical_artifact a) = Some (CUnsigned (show_nat (unat (ca_schema_version a))))"
    "object_get ''post_compact_target_tokens'' (canonical_artifact a) = Some (CUnsigned (show_nat (unat (ca_post_compact_target_tokens a))))"
    "object_get ''source_record_count'' (canonical_artifact a) = Some (CUnsigned (show_nat (unat (ca_source_record_count a))))"
    "object_get ''source_records_dropped'' (canonical_artifact a) = Some (CUnsigned (show_nat (unat (ca_source_records_dropped a))))"
    by (simp_all add: canonical_artifact_def object_get_map_of show_one assms)
  have str: "canonical_string (canonical_artifact a) ''artifact_id'' ctxt = Inr (ca_artifact_id a)"
    "canonical_string (canonical_artifact a) ''project_id'' ctxt = Inr (ca_project_id a)"
    "canonical_string (canonical_artifact a) ''session_id'' ctxt = Inr (ca_session_id a)"
    "canonical_string (canonical_artifact a) ''boundary_record_id'' ctxt = Inr (ca_boundary_record_id a)"
    "canonical_string (canonical_artifact a) ''previous_artifact_path'' ctxt = Inr (ca_previous_artifact_path a)"
    "canonical_string (canonical_artifact a) ''previous_artifact_hash'' ctxt = Inr (ca_previous_artifact_hash a)"
    "canonical_string (canonical_artifact a) ''summary_model_id'' ctxt = Inr (ca_summary_model_id a)"
    "canonical_string (canonical_artifact a) ''artifact_hash'' ctxt = Inr (ca_artifact_hash a)"
    by (simp_all add: canonical_artifact_def object_get_map_of canonical_string_def)
  have "canonical_u128 (canonical_artifact a) ''created_at_ms'' ctxt = Inr (ca_created_at_ms a)"
    using num [of "unat (ca_created_at_ms a)"] unsigned_less [of "ca_created_at_ms a", where 'a = nat]
    by (simp add: canonical_artifact_def object_get_map_of canonical_u128_def)
  moreover have "canonical_string_array (canonical_artifact a) ''recent_record_ids'' ctxt = Inr (ca_recent_record_ids a)"
    by (rule canonical_strings_read) (simp add: canonical_artifact_def object_get_map_of)
  moreover have "parse_checkpoint (canonical_artifact a) ctxt = Inr (ca_checkpoint a)"
    by (rule parse_checkpoint_canonical) (simp add: canonical_artifact_def object_get_map_of)
  ultimately show ?thesis unfolding parse_artifact_fields_def by (simp add: get [THEN u64] str)
qed

lemma artifact_reads_back:
  assumes "plain_artifact a" "artifact_valid sha a" "length (render_artifact a) \<le> 65536"
  shows "parse_artifact sha (render_artifact a) ctxt = Inr a"
proof -
  have "parse_canonical_object (render_artifact a) artifact_keys ctxt = Inr (canonical_artifact a)"
    using parse_canonical_render [OF wf_canonical_artifact(1,2) [OF assms(1)], of ctxt]
    by (simp add: wf_canonical_artifact(3) [OF assms(1)] render_artifact_canonical [OF assms(1)])
  moreover have "ca_schema_version a = compaction_schema_version" using assms(2) by (simp add: artifact_valid_def)
  ultimately show ?thesis using assms(2,3)
    by (simp add: parse_artifact_def max_artifact_bytes_def parse_fields_canonical validate_artifact_def)
qed

lemma parse_artifact_Inr:
  "parse_artifact sha body ctxt = Inr a \<Longrightarrow>
   artifact_valid sha a \<and> render_artifact a = body \<and> length body \<le> 65536"
  by (auto simp: parse_artifact_def rbind_Inr_iff validate_artifact_def max_artifact_bytes_def split: if_splits)

text \<open>
  The text of a compaction artifact is read back as the artifact exactly when the artifact is
  valid: its ids and hashes well formed, its previous pointer inside its own session, its counts
  consistent, its checkpoint normalized and its hash that of its payload. The strings must be ones
  that both writers escape alike, the text at most 64 KiB.
\<close>

theorem artifact_roundtrip:
  assumes "plain_artifact a" "length (render_artifact a) \<le> 65536"
  shows "parse_artifact sha (render_artifact a) ctxt = Inr a \<longleftrightarrow> artifact_valid sha a"
  using artifact_reads_back [OF assms(1) _ assms(2)] parse_artifact_Inr by blast

section \<open>The context string of the parsers\<close>

text \<open>The label the parsers take for their messages does not change what they accept.\<close>

definition ok_part :: "'e + 'a \<Rightarrow> 'a option" where
  "ok_part r = (case r of Inl _ \<Rightarrow> None | Inr x \<Rightarrow> Some x)"

lemma ok_part_simps [simp]: "ok_part (Inl e) = None" "ok_part (Inr x) = Some x"
  "ok_part (ok_or e v) = v"
  by (simp_all add: ok_part_def ok_or_def split: option.splits)

lemma ok_part_rbind: "ok_part (rbind r f) = Option.bind (ok_part r) (\<lambda>x. ok_part (f x))"
  by (cases r) simp_all

lemma ok_part_Some: "ok_part r = Some x \<longleftrightarrow> r = Inr x"
  by (cases r) simp_all

lemma ok_part_bind_cong:
  "ok_part r = ok_part r' \<Longrightarrow> (\<And>x. ok_part (f x) = ok_part (g x)) \<Longrightarrow> ok_part (rbind r f) = ok_part (rbind r' g)"
  by (simp add: ok_part_rbind)

lemma canonical_ctxt:
  "ok_part (canonical_from_json c v) = ok_part (canonical_from_json c' v)"
  "ok_part (canonical_members c obj) = ok_part (canonical_members c' obj)"
  "ok_part (canonical_elements c vs) = ok_part (canonical_elements c' vs)"
  by (induction c v and c obj and c vs rule: canonical_from_json_canonical_members_canonical_elements.induct)
    (auto simp: ok_part_rbind)

lemma parse_canonical_object_ctxt:
  "ok_part (parse_canonical_object body keys c) = ok_part (parse_canonical_object body keys c')"
proof -
  have v: "ok_part (parse_value body c) = ok_part (parse_value body c')"
    unfolding parse_value_def by (rule ok_part_bind_cong) (auto split: prod.splits)
  show ?thesis unfolding parse_canonical_object_def
    by (rule ok_part_bind_cong [OF v]) (auto split: json.splits intro!: ok_part_bind_cong canonical_ctxt(2))
qed

lemma canonical_digits_ctxt: "ok_part (canonical_digits c k v bs) = ok_part (canonical_digits c' k v bs)"
  by (induction c k v bs rule: canonical_digits.induct) (auto split: option.splits)

lemma canonical_readers_ctxt:
  "ok_part (canonical_u128 obj k c) = ok_part (canonical_u128 obj k c')"
  "ok_part (canonical_u64 obj k c) = ok_part (canonical_u64 obj k c')"
  "ok_part (canonical_string obj k c) = ok_part (canonical_string obj k c')"
  "ok_part (canonical_string_array obj k c) = ok_part (canonical_string_array obj k c')"
proof -
  show n: "ok_part (canonical_u128 obj k c) = ok_part (canonical_u128 obj k c')"
    using canonical_digits_ctxt by (auto simp: canonical_u128_def parse_canonical_u128_def split: option.splits cjson.splits)
  then show "ok_part (canonical_u64 obj k c) = ok_part (canonical_u64 obj k c')"
    unfolding canonical_u64_def by (rule ok_part_bind_cong) simp
  show "ok_part (canonical_string obj k c) = ok_part (canonical_string obj k c')"
    by (auto simp: canonical_string_def split: option.splits cjson.splits)
  have "ok_part (traverse (\<lambda>v. case v of CString s \<Rightarrow> Inr s | _ \<Rightarrow> Inl (blocked_error ''array item type'' [c, k])) vs)
      = ok_part (traverse (\<lambda>v. case v of CString s \<Rightarrow> Inr s | _ \<Rightarrow> Inl (blocked_error ''array item type'' [c', k])) vs)" for vs
    by (induction vs) (auto split: cjson.splits simp: ok_part_rbind)
  then show "ok_part (canonical_string_array obj k c) = ok_part (canonical_string_array obj k c')"
    by (auto simp: canonical_string_array_def split: option.splits cjson.splits)
qed

lemma parse_artifact_ctxt: "ok_part (parse_artifact sha body c) = ok_part (parse_artifact sha body c')"
proof -
  have checkpoint: "ok_part (parse_checkpoint obj c) = ok_part (parse_checkpoint obj c')" for obj
    unfolding parse_checkpoint_def
    by (auto split: option.splits cjson.splits intro!: ok_part_bind_cong canonical_readers_ctxt)
  have fields: "ok_part (parse_artifact_fields obj c) = ok_part (parse_artifact_fields obj c')" for obj
    unfolding parse_artifact_fields_def
    by (intro ok_part_bind_cong canonical_readers_ctxt checkpoint refl)
  show ?thesis unfolding parse_artifact_def
    by (auto intro!: ok_part_bind_cong parse_canonical_object_ctxt fields simp: validate_artifact_def)
qed

section \<open>Installation\<close>

lemma valid_id_no_slash: "compaction_valid_id v \<Longrightarrow> CHR ''/'' \<notin> set v \<and> v \<noteq> []"
  by (auto simp: compaction_valid_id_def list_all_iff compaction_id_byte_def is_ascii_alphanumeric_def
      is_ascii_digit_def is_ascii_lowercase_def is_ascii_uppercase_def)

lemma artifact_path_parts:
  assumes "artifact_valid sha a"
  shows "split_on (\<lambda>c. c = CHR ''/'') (relative_artifact_path a) =
    [''state'', ''compactions'', ca_project_id a, ca_session_id a, ca_artifact_id a @ ''.json'']"
proof -
  have "relative_artifact_path a =
      join ''/'' [''state'', ''compactions'', ca_project_id a, ca_session_id a, ca_artifact_id a @ ''.json'']"
    by (simp add: relative_artifact_path_def artifact_directory_def)
  moreover have "CHR ''/'' \<notin> set (ca_project_id a)" "CHR ''/'' \<notin> set (ca_session_id a)" "CHR ''/'' \<notin> set (ca_artifact_id a)"
    using assms valid_id_no_slash by (auto simp: artifact_valid_def)
  ultimately show ?thesis by (simp only:) (rule split_on_join, auto)
qed

lemma artifact_temporary_not_json: "\<not> ends_with ''.json'' (artifact_temporary path pid at_ms)"
proof
  assume "ends_with ''.json'' (artifact_temporary path pid at_ms)"
  then obtain xs where "artifact_temporary path pid at_ms = xs @ ''.json''" by (auto simp: ends_with_iff)
  then have "last (artifact_temporary path pid at_ms) = CHR ''n''" by simp
  moreover have "last (artifact_temporary path pid at_ms) = last (show_nat at_ms)"
    by (simp add: artifact_temporary_def)
  moreover have "is_ascii_digit (last (show_nat at_ms))"
    using last_in_set show_nat_digits show_nat_not_Nil by metis
  ultimately show False by (simp add: is_ascii_digit_def)
qed

text \<open>What a stored pointer reads does not depend on any file but its own.\<close>

lemma load_artifact_pointer_local:
  "files' pointer = files pointer \<Longrightarrow>
     load_artifact_pointer sha identity files' session pointer = load_artifact_pointer sha identity files session pointer"
  by (simp add: load_artifact_pointer_def read_artifact_file_def)

lemma load_artifact_pointer_json:
  "\<not> ends_with ''.json'' pointer \<Longrightarrow> \<exists>e. load_artifact_pointer sha identity files session pointer = Inl e"
  by (simp add: load_artifact_pointer_def)

lemma load_installed_artifact:
  assumes parsed: "parse_artifact sha (render_artifact a) c = Inr a" and stored: "files (relative_artifact_path a) = Some (render_artifact a)"
    and utf8: "utf8_valid (render_artifact a)" and ids: "ca_project_id a = ri_project_id identity"
    and dots: "ca_project_id a \<noteq> ''..''" "ca_session_id a \<noteq> ''..''"
  shows "load_artifact_pointer sha identity files (ca_session_id a) (relative_artifact_path a) = Inr a"
proof -
  let ?path = "relative_artifact_path a" and ?body = "render_artifact a"
  note valid = parse_artifact_Inr [OF parsed]
  have "ends_with ''.json'' ?path"
    by (simp add: relative_artifact_path_def ends_with_iff)
  moreover have "starts_with (''state/compactions/'' @ ri_project_id identity @ ''/'' @ ca_session_id a @ ''/'') ?path"
    by (simp add: relative_artifact_path_def artifact_directory_def starts_with_iff ids)
  moreover have "\<not> list_ex (\<lambda>part. part = [] \<or> part = ''..'') (split_on (\<lambda>c. c = CHR ''/'') ?path)"
    using valid dots valid_id_no_slash
    by (auto simp: artifact_path_parts artifact_valid_def Cons_eq_append_conv append_eq_Cons_conv)
  moreover have "read_artifact_file files ?path = Inr ?body"
    using valid utf8 by (simp add: stored read_artifact_file_def)
  moreover have "parse_artifact sha ?body ''compaction resume artifact'' = Inr a"
    unfolding ok_part_Some [symmetric]
    by (rule trans [OF parse_artifact_ctxt parsed [folded ok_part_Some]])
  ultimately show ?thesis by (simp add: load_artifact_pointer_def ids)
qed

text \<open>What a write leaves, however it ends.\<close>

lemma write_artifact_cases:
  assumes "write_artifact_file path body s = (r, s')"
  obtains "as_files s' = (as_files s)(path \<mapsto> body)"
    | "\<not> is_ok r" "as_files s' = as_files s"
    | pid at_ms n where "\<not> is_ok r" "as_files s (artifact_temporary path pid at_ms) = None"
        "as_files s' = (as_files s)(artifact_temporary path pid at_ms \<mapsto> take n body)"
  using assms
  by (auto simp: write_artifact_file_def Let_def split: artifact_write.splits if_splits)

text \<open>
  C34 Installing a compaction artifact, however its write ends. It never replaces a stored text by a
  different one: at the artifact's own path there is afterwards what was there, or the whole text of
  the artifact, which passed its check, where there was no file; besides, at most one new temporary
  file is left. So every stored pointer reads as before, except that the artifact's own may now read
  as the artifact. When the installation returns, it does: the pointer it returned names the
  artifact's path and is read back as the artifact. The identity's project and session are not \<open>..\<close>
  and the text is UTF-8.
\<close>

theorem install_reads_back:
  assumes "install_artifact sha identity lease a s = (r, s')" "utf8_valid (render_artifact a)"
    and "ri_project_id identity \<noteq> ''..''" "ri_session_id identity \<noteq> ''..''"
  shows "(as_files s' = as_files s
      \<or> artifact_valid sha a \<and> as_files s (relative_artifact_path a) = None
          \<and> as_files s' = (as_files s)(relative_artifact_path a \<mapsto> render_artifact a)
      \<or> (\<exists>temporary n. \<not> ends_with ''.json'' temporary \<and> as_files s temporary = None
          \<and> as_files s' = (as_files s)(temporary \<mapsto> take n (render_artifact a))))
    \<and> (\<forall>session pointer. load_artifact_pointer sha identity (as_files s') session pointer =
          load_artifact_pointer sha identity (as_files s) session pointer
        \<or> pointer = relative_artifact_path a
          \<and> load_artifact_pointer sha identity (as_files s') (ri_session_id identity) pointer = Inr a)
    \<and> (case r of
        Inl _ \<Rightarrow> True
      | Inr path \<Rightarrow> path = relative_artifact_path a \<and> as_files s' path = Some (render_artifact a)
          \<and> load_artifact_pointer sha identity (as_files s') (ri_session_id identity) path = Inr a)"
proof -
  let ?path = "relative_artifact_path a" and ?body = "render_artifact a"
  let ?bound = "ca_project_id a = ri_project_id identity \<and> ca_session_id a = ri_session_id identity
      \<and> parse_artifact sha ?body ''compaction artifact install'' = Inr a"
  have loaded: "load_artifact_pointer sha identity files (ri_session_id identity) ?path = Inr a"
    if "?bound" "files ?path = Some ?body" for files
    using load_installed_artifact [of sha a "''compaction artifact install''" files identity] that assms(2-4) by simp
  consider (kept) e where "r = Inl e" "as_files s' = as_files s"
    | (there) "?bound" "r = Inr ?path" "as_files s' = as_files s" "as_files s ?path = Some ?body"
    | (written) r' where "?bound" "as_files s ?path = None" "write_artifact_file ?path ?body s = (r', s')"
        "r = (case r' of Inl e \<Rightarrow> Inl e | Inr _ \<Rightarrow> Inr ?path)"
    using assms(1)
    by (auto simp: install_artifact_def read_artifact_file_def Let_def split: if_splits sum.splits prod.splits option.splits)
  then show ?thesis
  proof cases
    case kept
    then show ?thesis by simp
  next
    case there
    with loaded [of "as_files s", OF there(1,4)] show ?thesis by simp
  next
    case written
    then have valid: "artifact_valid sha a" using parse_artifact_Inr by blast
    from written(3) show ?thesis
    proof (cases rule: write_artifact_cases)
      case 1
      then have own: "as_files s' ?path = Some ?body" by simp
      note new = loaded [of "as_files s'", OF written(1) own]
      have "load_artifact_pointer sha identity (as_files s') session pointer =
          load_artifact_pointer sha identity (as_files s) session pointer
        \<or> pointer = ?path \<and> load_artifact_pointer sha identity (as_files s') (ri_session_id identity) pointer = Inr a"
        for session pointer
      proof (cases "pointer = ?path")
        case False
        then have "as_files s' pointer = as_files s pointer" using 1 by simp
        then show ?thesis by (intro disjI1 load_artifact_pointer_local)
      qed (use new in simp)
      with 1 own new written(2,4) valid show ?thesis by (cases r') simp_all
    next
      case 2
      with written(4) show ?thesis by (cases r') simp_all
    next
      case (3 pid at_ms n)
      let ?temporary = "artifact_temporary ?path pid at_ms"
      have json: "\<not> ends_with ''.json'' ?temporary" by (rule artifact_temporary_not_json)
      have "load_artifact_pointer sha identity (as_files s') session pointer =
          load_artifact_pointer sha identity (as_files s) session pointer" for session pointer
      proof (cases "pointer = ?temporary")
        case True
        with json show ?thesis by (simp add: load_artifact_pointer_def)
      next
        case False
        then show ?thesis by (intro load_artifact_pointer_local) (simp add: 3(3))
      qed
      with 3 json written(4) show ?thesis by (cases r') auto
    qed
  qed
qed

section \<open>A rationale that cannot be stored\<close>

text \<open>
  The semantic rationale reaches the artifact after one normalization. Cutting it to 800 characters
  may leave a space at its end, and normalizing once more removes it: the artifact is then refused
  by its own installation.
\<close>

lemma cut_at_a_space:
  "normalize_text (replicate 799 (CHR ''a'') @ '' b'') 800 = replicate 799 (CHR ''a'') @ '' ''"
  "normalize_text (replicate 799 (CHR ''a'') @ '' '') 800 = replicate 799 (CHR ''a'')"
proof -
  let ?a = "replicate 799 (CHR ''a'')"
  have a: "word_text ?a" and b: "word_text ''b''"
    by (rule word_text_ascii; simp add: all_ascii_def list_all_iff is_whitespace_def)+
  have ascii: "all_ascii (?a @ '' b'')" "all_ascii (?a @ '' '')" "all_ascii ?a"
    by (simp_all add: all_ascii_def list_all_iff)
  have "split_whitespace (?a @ '' b'') = [?a, ''b'']"
    using split_whitespace_join [of "[?a, ''b'']"] a b by simp
  then show "normalize_text (?a @ '' b'') 800 = ?a @ '' ''"
    by (simp add: normalize_text_def take_chars_def char_slices_all_ascii ascii)
  have w: "list_all (\<lambda>x. \<not> space_slice x) (char_slices ?a)" "char_slices ?a \<noteq> []"
    using a char_slices_all_ascii [OF ascii(3)] by (simp_all add: word_text_def)
  have "char_slices (?a @ '' '') = char_slices ?a @ ['' '']"
    by (simp add: char_slices_all_ascii ascii)
  moreover have "space_slice '' ''" by (simp add: space_slice_def is_whitespace_def)
  ultimately have "split_whitespace (?a @ '' '') = [?a]"
    using split_items_append [OF w(1), of "'' ''" "[]"] w(2) by (simp add: split_whitespace_def)
  then show "normalize_text (?a @ '' '') 800 = ?a"
    by (simp add: normalize_text_def take_chars_def char_slices_all_ascii ascii)
qed

lemma unstable_rationale_refused:
  assumes "semantic_rationale chat c source policy = Inr (r, model)" "r \<noteq> []"
    and "normalize_text (normalize_text r 800) 800 \<noteq> normalize_text r 800"
    and "session_artifact sha ports identity policy plan boundary previous (session_checkpoint chat policy c source) = Inr a"
    and "install_artifact sha identity lease a s = (out, s')"
  shows "\<not> is_ok out \<and> as_files s' = as_files s"
proof -
  have "ca_checkpoint a = fst (session_checkpoint chat policy c source)"
    using assms(4) by (auto simp: session_artifact_def Let_def rbind_Inr_iff seal_artifact_def)
  then have "ck_rationale (ca_checkpoint a) = normalize_text r 800"
    using assms(1,2) by (simp add: session_checkpoint_def normalize_checkpoint_def)
  then have "ca_checkpoint a \<noteq> normalize_checkpoint (ca_checkpoint a)"
    using assms(3) by (auto simp: normalize_checkpoint_def dest: arg_cong [where f = ck_rationale])
  then have "\<not> artifact_valid sha a" by (simp add: artifact_valid_def)
  then have "parse_artifact sha (render_artifact a) ''compaction artifact install'' \<noteq> Inr a"
    using parse_artifact_Inr by blast
  with assms(5) show ?thesis
    by (auto simp: install_artifact_def Let_def split: if_splits sum.splits)
qed

section \<open>An example artifact\<close>

definition wit_artifact_sha :: hasher where
  "wit_artifact_sha = (\<lambda>_. replicate 32 (CHR 0x07))"

definition wit_artifact :: compaction_artifact where
  "wit_artifact = \<lparr>ca_schema_version = 1, ca_artifact_id = ''compaction-1'', ca_project_id = ''p'',
     ca_session_id = ''s'', ca_boundary_record_id = ''r'', ca_previous_artifact_path = ''none'',
     ca_previous_artifact_hash = ''none'', ca_post_compact_target_tokens = 1, ca_source_record_count = 1,
     ca_source_records_dropped = 0, ca_recent_record_ids = [],
     ca_checkpoint = empty_checkpoint\<lparr>ck_current_task := ''t''\<rparr>, ca_summary_model_id = ''m'',
     ca_created_at_ms = 0, ca_artifact_hash = sha256_bytes wit_artifact_sha []\<rparr>"

definition wit_artifact_identity :: runtime_identity where
  "wit_artifact_identity = \<lparr>ri_project_id = ''p'', ri_session_id = ''s'', ri_project_root = ''/''\<rparr>"

lemma wit_hash: "sha256_bytes wit_artifact_sha x = sha256_bytes wit_artifact_sha []"
  by (simp add: sha256_bytes_def wit_artifact_sha_def)

lemma wit_hash_text: "sha256_bytes wit_artifact_sha x = concat (replicate 32 ''07'')"
  unfolding sha256_bytes_def bytes_to_hex_def wit_artifact_sha_def map_replicate
proof -
  have "[hex_char (byte (CHR 0x07) div 16), hex_char (byte (CHR 0x07) mod 16)] = ''07''" by code_simp
  then show "concat (replicate 32 [hex_char (byte (CHR 0x07) div 16), hex_char (byte (CHR 0x07) mod 16)])
      = concat (replicate 32 ''07'')" by (simp only:)
qed

lemma wit_artifact_text: "all_ascii (render_artifact wit_artifact) \<and> length (render_artifact wit_artifact) \<le> 900"
proof -
  have hash: "sha256_bytes wit_artifact_sha [] = concat (replicate 32 ''07'')" by (rule wit_hash_text)
  have one: "show_nat (unat (1 :: u64)) = ''1''" "show_nat (unat (0 :: u64)) = ''0''" "show_nat (unat (0 :: u128)) = ''0''"
    by code_simp+
  have plain: "quoted_escape s = quoted s" if "list_all plain_char s" "CHR 0x7F \<notin> set s" for s
    using plain_text_chars [OF that] plain_key_chars [OF that(1)] same_string by metis
  have "quoted_escape ''compaction-1'' = quoted ''compaction-1''" "quoted_escape ''p'' = quoted ''p''"
    "quoted_escape ''s'' = quoted ''s''" "quoted_escape ''r'' = quoted ''r''" "quoted_escape ''none'' = quoted ''none''"
    "quoted_escape ''t'' = quoted ''t''" "quoted_escape ''m'' = quoted ''m''" "quoted_escape [] = quoted []"
    by (rule plain; simp add: plain_char_def)+
  moreover have hashes: "list_all (\<lambda>c. byte c < 128) (concat (replicate 32 ''07''))" "length (concat (replicate 32 ''07'')) = 64"
    by (simp_all add: list_all_iff length_concat sum_list_replicate)
  ultimately show ?thesis unfolding render_artifact_template payload_members_def
    by (simp add: wit_artifact_def show_one one template_def compact_layout_def render_string_array_def
        render_checkpoint_def empty_checkpoint_def hash)
      (simp add: quoted_def all_ascii_def hashes one [simplified])
qed

lemma wit_artifact_plain: "plain_artifact wit_artifact"
proof -
  have p: "plain_text v" if "list_all plain_char v" "CHR 0x7F \<notin> set v" for v
    using that by (rule plain_text_chars)
  show ?thesis
    by (simp add: plain_artifact_def wit_artifact_def plain_checkpoint_def empty_checkpoint_def sha256_bytes_plain)
      (intro conjI p; simp add: plain_char_def)
qed

lemma wit_artifact_valid: "artifact_valid wit_artifact_sha wit_artifact"
proof -
  have t: "word_text ''t''" by (rule word_text_ascii; simp add: all_ascii_def list_all_iff is_whitespace_def)
  then have "split_whitespace ''t'' = [''t'']" "split_whitespace [] = []"
    using split_whitespace_join [of "[''t'']"] split_whitespace_join [of "[]"] by simp_all
  then have norm: "normalize_text ''t'' 600 = ''t''" "normalize_text [] n = []" for n
    by (simp_all add: normalize_text_def take_chars_def char_slices_ascii)
  have checkpoint: "normalize_checkpoint (ca_checkpoint wit_artifact) = ca_checkpoint wit_artifact"
    by (simp add: normalize_checkpoint_def wit_artifact_def empty_checkpoint_def norm normalize_list_def)
  have hash: "compaction_valid_hash (sha256_bytes wit_artifact_sha [])"
    unfolding wit_hash_text compaction_valid_hash_def
    by (simp add: length_concat sum_list_replicate list_all_iff is_ascii_digit_def)
  have trim: "trim ''m'' = ''m''" by (rule trim_ascii) (simp_all add: all_ascii_def is_whitespace_def)
  have ids: "compaction_valid_id ''compaction-1''" "compaction_valid_id ''p''" "compaction_valid_id ''s''" "compaction_valid_id ''r''"
    by code_simp+
  have seal: "ca_artifact_hash wit_artifact = sha256_bytes wit_artifact_sha (render_artifact_payload wit_artifact)"
    using wit_hash [of "render_artifact_payload wit_artifact"] by (simp add: wit_artifact_def)
  show ?thesis unfolding artifact_valid_def seal [symmetric] checkpoint
    using hash trim ids
    by (simp add: wit_artifact_def compaction_schema_version_def starts_with_def previous_pair_valid_def
        max_recent_records_def empty_checkpoint_def)
qed

lemma artifact_roundtrip_witness:
  "parse_artifact wit_artifact_sha (render_artifact wit_artifact) ''x'' = Inr wit_artifact"
  using artifact_roundtrip [OF wit_artifact_plain, of wit_artifact_sha "''x''"] wit_artifact_text wit_artifact_valid by simp

lemma install_reads_back_witness:
  "load_artifact_pointer wit_artifact_sha wit_artifact_identity
     [''state/compactions/p/s/compaction-1.json'' \<mapsto> render_artifact wit_artifact] ''s''
     ''state/compactions/p/s/compaction-1.json'' = Inr wit_artifact"
proof -
  let ?s = "\<lparr>as_files = Map.empty, as_writes = []\<rparr>"
  let ?path = "''state/compactions/p/s/compaction-1.json''"
  have path: "relative_artifact_path wit_artifact = ?path"
    by (simp add: relative_artifact_path_def artifact_directory_def wit_artifact_def)
  have parsed: "parse_artifact wit_artifact_sha (render_artifact wit_artifact) c = Inr wit_artifact" for c
    using artifact_reads_back [OF wit_artifact_plain wit_artifact_valid] wit_artifact_text by simp
  have "install_artifact wit_artifact_sha wit_artifact_identity (Inr ()) wit_artifact ?s =
      (Inr ?path, \<lparr>as_files = [?path \<mapsto> render_artifact wit_artifact], as_writes = []\<rparr>)"
    unfolding install_artifact_def Let_def path parsed
    by (simp add: wit_artifact_identity_def write_artifact_file_def) (simp add: wit_artifact_def)
  from install_reads_back [OF this] wit_artifact_text show ?thesis
    by (simp add: all_ascii_valid wit_artifact_identity_def path)
qed

end
