(* ===== verification/Canonical_Texts.thy ===== *)
theory Canonical_Texts
  imports Json_Arrays
begin

text \<open>
  Texts that a format string writes and the canonical parser reads: \<open>writes n raw c\<close> says that
  \<open>raw\<close> is the canonical text of the well-formed value \<open>c\<close>, nested at most \<open>n\<close> deep. The rules
  collected in \<open>writes_intros\<close> follow the format strings, one per kind of member.
\<close>

named_theorems writes_intros "the canonical text of a value, by the shape of the format string"

definition writes :: "nat \<Rightarrow> string \<Rightarrow> cjson \<Rightarrow> bool" where
  "writes n raw c \<longleftrightarrow> raw = render_cjson c \<and> wf_cjson c \<and> cjson_depth c \<le> n"

text \<open>A machine word is written in decimal, an option as a string or \<open>null\<close>.\<close>

definition cnum :: "'a::len word \<Rightarrow> cjson" where
  "cnum n = CUnsigned (show_nat (unat n))"

definition copt :: "string option \<Rightarrow> cjson" where
  "copt v = (case v of None \<Rightarrow> CNull | Some s \<Rightarrow> CString s)"

definition member_writes :: "nat \<Rightarrow> string \<times> string \<Rightarrow> string \<times> cjson \<Rightarrow> bool" where
  "member_writes n m kv \<longleftrightarrow> fst m = fst kv \<and> plain_key (fst m) \<and> writes n (snd m) (snd kv)"

lemma member_writes_Pair [simp]: "member_writes n (k, raw) (k', c) \<longleftrightarrow> k = k' \<and> plain_key k \<and> writes n raw c"
  by (auto simp: member_writes_def)

lemma writes_mono: "writes m raw c \<Longrightarrow> m \<le> n \<Longrightarrow> writes n raw c"
  by (simp add: writes_def)

lemma writes_plain_text [writes_intros]: "plain_text s \<Longrightarrow> writes n (quoted (escape_string_content s)) (CString s)"
  by (simp add: writes_def plain_text_def cjson_depth_def)

lemma writes_plain_key [writes_intros]: "plain_key s \<Longrightarrow> writes n (quoted s) (CString s)"
  by (simp add: writes_def plain_key_def cjson_depth_def)

lemma word_u128_range: "LENGTH('a) \<le> 128 \<Longrightarrow> unat (w :: 'a::len word) < 2 ^ 128"
proof -
  assume "LENGTH('a) \<le> 128"
  then have "(2 :: nat) ^ LENGTH('a) \<le> 2 ^ 128" by (rule power_increasing) simp
  with unsigned_less [of w, where 'a = nat] show ?thesis by (rule less_le_trans)
qed

lemma writes_number:
  "LENGTH('a) \<le> 128 \<Longrightarrow> writes n (show_nat (unat (w :: 'a::len word))) (cnum w)"
  using word_u128_range [of w] by (simp add: writes_def cnum_def canonical_number_def cjson_depth_def)

lemma writes_u64 [writes_intros]: "writes n (show_nat (unat (w :: u64))) (cnum w)"
  by (rule writes_number) simp

lemma writes_u32 [writes_intros]: "writes n (show_nat (unat (w :: u32))) (cnum w)"
  by (rule writes_number) simp

lemma writes_u128 [writes_intros]: "writes n (show_nat (unat (w :: u128))) (cnum w)"
  by (rule writes_number) simp

lemma writes_literals [writes_intros]:
  "writes n ''null'' CNull" "writes n (if b then ''true'' else ''false'') (CBool b)"
  by (simp_all add: writes_def cjson_depth_def)

lemma writes_digit [writes_intros]:
  "writes n ''1'' (cnum (1 :: u64))" "writes n ''2'' (cnum (2 :: u64))"
proof -
  have "show_nat (unat (1 :: u64)) = ''1''" "show_nat (unat (2 :: u64)) = ''2''" by code_simp+
  then show "writes n ''1'' (cnum (1 :: u64))" "writes n ''2'' (cnum (2 :: u64))"
    using writes_u64 [of n 1] writes_u64 [of n 2] by simp_all
qed

lemma writes_members:
  "list_all2 (member_writes n) ms kvs \<Longrightarrow>
   list_all2 same_member ms kvs \<and> wf_cmembers kvs \<and> members_depth (json_of_cmembers kvs) \<le> n"
proof (induction ms kvs rule: list_all2_induct)
  case (Cons m ms kv kvs)
  then show ?case
    by (cases kv) (simp add: member_writes_def same_member_def writes_def plain_key_def cjson_depth_def)
qed simp

lemma writes_object [writes_intros]:
  assumes "list_all2 (member_writes n) ms kvs" "distinct (object_keys kvs)"
  shows "writes (Suc n) (template compact_layout ms) (CObject kvs)"
  using writes_members [OF assms(1)] assms(2)
  by (simp add: writes_def template_render [of ms kvs] cjson_depth_def del: render_cjson.simps)

lemma writes_elements:
  "list_all2 (writes n) raws cs \<Longrightarrow>
   raws = map render_cjson cs \<and> wf_celements cs \<and> elements_depth (json_of_celements cs) \<le> n"
  by (induction raws cs rule: list_all2_induct) (simp_all add: writes_def cjson_depth_def)

lemma writes_array [writes_intros]:
  "list_all2 (writes n) raws cs \<Longrightarrow> writes (Suc n) (''['' @ join '','' raws @ '']'') (CArray cs)"
  using writes_elements [of n raws cs]
  by (simp add: writes_def render_celements_join cjson_depth_def)

text \<open>Reading such a text back.\<close>

lemma writes_parse_canonical:
  assumes "writes n raw (CObject kvs)" "n \<le> max_json_nesting_depth"
  shows "parse_canonical_object raw (object_keys kvs) ctxt = Inr kvs"
  using parse_canonical_render [of kvs ctxt] assms
  by (simp add: writes_def render_canonical_object_def)

lemma writes_parse_value:
  assumes "writes n raw c" "n \<le> max_json_nesting_depth"
  shows "parse_value raw ctxt = Inr (json_of_cjson c)"
proof -
  have "wf_at 0 (json_of_cjson c)"
    using assms by (simp add: writes_def wf_at_def cjson_depth_def wf_json_of_cjson(1))
  then show ?thesis using assms(1) parse_value_render [of "json_of_cjson c" ctxt]
    by (simp add: writes_def render_compact_def render_json_of_cjson(1))
qed

lemma read_show_word:
  "LENGTH('a) \<le> 128 \<Longrightarrow> parse_canonical_u128 (show_nat (unat (w :: 'a::len word))) ctxt k = Inr (of_nat (unat w))"
  using word_u128_range [of w] canonical_u128_render by blast

lemma canonical_u64_cnum:
  "object_get k obj = Some (cnum (w :: u64)) \<Longrightarrow> canonical_u64 obj k ctxt = Inr w"
proof -
  assume get: "object_get k obj = Some (cnum w)"
  have w: "unat w < 2 ^ 64" using unsigned_less [of w, where 'a = nat] by simp
  then have "unat (of_nat (unat w) :: u128) = unat w" by (intro unat_of_nat_small) simp
  with w show ?thesis
    by (simp add: canonical_u64_def canonical_u128_def get cnum_def read_show_word u64_try_from_def)
qed

lemma canonical_u128_cnum:
  "object_get k obj = Some (cnum (w :: u128)) \<Longrightarrow> canonical_u128 obj k ctxt = Inr w"
  by (simp add: canonical_u128_def cnum_def read_show_word)

lemma json_of_cnum: "json_of_cjson (cnum w) = JNumber (of_nat (unat w))"
  by (simp add: cnum_def)

lemma json_number_cnum:
  "object_get k obj = Some (JNumber (of_nat (unat (w :: u64)))) \<Longrightarrow> json_number obj k ctxt = Inr w"
proof -
  assume get: "object_get k obj = Some (JNumber (of_nat (unat w)))"
  have w: "unat w < 2 ^ 64" using unsigned_less [of w, where 'a = nat] by simp
  then have "unat (of_nat (unat w) :: u128) = unat w" by (intro unat_of_nat_small) simp
  with w show ?thesis by (simp add: json_number_def get u64_try_from_def)
qed

lemma json_of_copt: "json_of_cjson (copt v) = (case v of None \<Rightarrow> JNull | Some s \<Rightarrow> JString s)"
  by (simp add: copt_def split: option.splits)

lemma writes_copt:
  "(\<And>s. v = Some s \<Longrightarrow> plain_text s) \<Longrightarrow>
   writes n (case v of None \<Rightarrow> ''null'' | Some s \<Rightarrow> quoted (escape_string_content s)) (copt v)"
  by (cases v) (simp_all add: copt_def writes_literals writes_plain_text)

lemma json_of_cmembers_get: "object_get k (json_of_cmembers kvs) = map_option json_of_cjson (object_get k kvs)"
  by (induction kvs) (auto simp: object_get_def)

text \<open>Identifiers and hashes are plain.\<close>

lemma plain_id_text:
  assumes "list_all P s" "\<And>c. P c \<Longrightarrow> is_ascii_alphanumeric c \<or> c \<in> set ''-_.:/''"
  shows "plain_text s \<and> plain_key s"
proof -
  have c: "plain_char c \<and> c \<noteq> CHR 0x7F" if "c \<in> set s" for c
    using assms(2) [of c] assms(1) that
    by (auto simp: list_all_iff plain_char_def is_ascii_alphanumeric_def is_ascii_digit_def
        is_ascii_lowercase_def is_ascii_uppercase_def)
  then have "list_all plain_char s" "CHR 0x7F \<notin> set s" by (auto simp: list_all_iff)
  then show ?thesis by (simp add: plain_text_chars plain_key_chars)
qed

end
