(* ===== verification/Current_State.thy ===== *)
theory Current_State
  imports Workflow_Domain Json_Arrays
begin

text \<open>
  \<open>app/workflow_adapter/state\<close>: the current-state file of a project. \<open>current_snapshot/codec.rs\<close>
  and \<open>status.rs\<close> read and write it, \<open>current_transition/current_image.rs\<close> prepares the image
  that follows it, and \<open>transition_commit.rs\<close> installs an image only over the state it was
  prepared for. The file is its bytes, \<open>None\<close> when it does not exist.
\<close>

section \<open>The text (codec.rs)\<close>

definition current_state_v1_keys :: "string list" where
  "current_state_v1_keys = [''schema_version'', ''project_id'', ''project_root'', ''session_id'',
     ''active_workflow'', ''parent_session_id'', ''branch_from_event_id'', ''compaction_boundary'',
     ''resume_source'', ''terminal_states'']"

definition current_state_v2_keys :: "string list" where
  "current_state_v2_keys = [''schema_version'', ''revision'', ''previous_artifact_hash'', ''project_id'',
     ''project_root'', ''session_id'', ''active_workflow'', ''parent_session_id'', ''branch_from_event_id'',
     ''compaction_boundary'', ''resume_source'', ''terminal_states'', ''ledger_binding'', ''artifact_hash'']"

definition render_optional_string :: "string option \<Rightarrow> string" where
  "render_optional_string v = (case v of None \<Rightarrow> ''null'' | Some s \<Rightarrow> escaped s)"

text \<open>Hashes are written as they are, ids and other texts escaped.\<close>

definition render_current_workflow :: "current_workflow_binding option \<Rightarrow> string" where
  "render_current_workflow w =
     (case w of
        None \<Rightarrow> ''null''
      | Some b \<Rightarrow> template compact_layout
          [(''workflow_id'', escaped (cb_workflow_id b)), (''revision'', show_nat (unat (cb_revision b))),
           (''artifact_hash'', quoted (cb_artifact_hash b))])"

definition render_ledger_binding :: "ledger_binding \<Rightarrow> string" where
  "render_ledger_binding b = template compact_layout
     [(''event_count'', show_nat (unat (lb_event_count b))), (''event_id'', render_optional_string (lb_event_id b)),
      (''event_hash'', quoted (lb_event_hash b))]"

definition terminal_states :: "string list" where
  "terminal_states = [''complete'', ''failed'', ''cancelled'']"

definition current_payload_members :: "current_state_snapshot \<Rightarrow> (string \<times> string) list" where
  "current_payload_members s =
     [(''schema_version'', ''2''),
      (''revision'', show_nat (unat (cs_revision s))),
      (''previous_artifact_hash'', quoted (cs_previous_artifact_hash s)),
      (''project_id'', escaped (cs_project_id s)),
      (''project_root'', escaped (cs_project_root s)),
      (''session_id'', escaped (cs_session_id s)),
      (''active_workflow'', render_current_workflow (cs_active_workflow s)),
      (''parent_session_id'', render_optional_string (cs_parent_session_id s)),
      (''branch_from_event_id'', render_optional_string (cs_branch_from_event_id s)),
      (''compaction_boundary'', render_optional_string (cs_compaction_boundary s)),
      (''resume_source'', render_optional_string (cs_resume_source s)),
      (''terminal_states'', ''['' @ join '','' (map quoted terminal_states) @ '']''),
      (''ledger_binding'', render_ledger_binding (cs_ledger_binding s))]"

definition render_current_state_v2_payload :: "current_state_snapshot \<Rightarrow> string" where
  "render_current_state_v2_payload s = template compact_layout (current_payload_members s)"

text \<open>\<open>strip_suffix('}')\<close> takes one brace off the payload, which ends with one.\<close>

definition render_current_state_v2 :: "current_state_snapshot \<Rightarrow> string" where
  "render_current_state_v2 s =
     butlast (render_current_state_v2_payload s)
       @ '','' @ quoted ''artifact_hash'' @ '':'' @ quoted (cs_artifact_hash s) @ ''}''"

definition is_sha256 :: "string \<Rightarrow> bool" where
  "is_sha256 v \<longleftrightarrow> length v = 64 \<and> list_all (\<lambda>c. is_ascii_digit c \<or> 97 \<le> byte c \<and> byte c \<le> 102) v"

definition current_state_field_error :: "string \<Rightarrow> string \<Rightarrow> app_error" where
  "current_state_field_error ctxt field = blocked_error ''invalid current-state field'' [ctxt, field]"

definition current_id_byte :: "char \<Rightarrow> bool" where
  "current_id_byte c \<longleftrightarrow> is_ascii_alphanumeric c \<or> c \<in> {CHR ''-'', CHR ''_'', CHR ''.'', CHR '':''}"

definition current_id_valid :: "string \<Rightarrow> bool" where
  "current_id_valid v \<longleftrightarrow> v \<noteq> [] \<and> length v \<le> 128 \<and> list_all current_id_byte v"

definition validate_current_id :: "string \<Rightarrow> string \<Rightarrow> string \<Rightarrow> unit result" where
  "validate_current_id v field ctxt =
     (if current_id_valid v then Inr () else Inl (current_state_field_error ctxt field))"

definition require_exact_key_set :: "json_object \<Rightarrow> string list \<Rightarrow> string \<Rightarrow> unit result" where
  "require_exact_key_set obj keys ctxt =
     (if length obj = length keys \<and> list_all (\<lambda>k. object_contains_key k obj) keys then Inr ()
      else Inl (blocked_error ''exact key set'' [ctxt]))"

definition require_exact_key_order :: "json_object \<Rightarrow> string list \<Rightarrow> string \<Rightarrow> unit result" where
  "require_exact_key_order obj keys ctxt =
     (if object_keys obj = keys then Inr () else Inl (blocked_error ''exact nested key order'' [ctxt]))"

definition optional_json_string :: "json_object \<Rightarrow> string \<Rightarrow> string \<Rightarrow> string option result" where
  "optional_json_string obj key ctxt =
     (case object_get key obj of
        Some JNull \<Rightarrow> Inr None
      | Some (JString v) \<Rightarrow> Inr (Some v)
      | _ \<Rightarrow> Inl (current_state_field_error ctxt key))"

definition validate_terminal_states :: "json option \<Rightarrow> string \<Rightarrow> unit result" where
  "validate_terminal_states v ctxt =
     (if v = Some (JArray (map JString terminal_states)) then Inr ()
      else Inl (current_state_field_error ctxt ''terminal_states''))"

definition parse_current_workflow :: "json option \<Rightarrow> string \<Rightarrow> current_workflow_binding option result" where
  "parse_current_workflow v ctxt =
     (case v of
        Some JNull \<Rightarrow> Inr None
      | Some (JObject obj) \<Rightarrow>
          rbind (require_exact_key_order obj [''workflow_id'', ''revision'', ''artifact_hash''] ctxt) (\<lambda>_.
          rbind (json_string obj ''workflow_id'' ctxt) (\<lambda>workflow_id.
          rbind (validate_current_id workflow_id ''workflow_id'' ctxt) (\<lambda>_.
          rbind (json_number obj ''revision'' ctxt) (\<lambda>revision.
          rbind (json_string obj ''artifact_hash'' ctxt) (\<lambda>hash.
            if revision = 0 \<or> \<not> is_sha256 hash then Inl (current_state_field_error ctxt ''active_workflow'')
            else Inr (Some \<lparr>cb_workflow_id = workflow_id, cb_revision = revision, cb_artifact_hash = hash\<rparr>))))))
      | _ \<Rightarrow> Inl (current_state_field_error ctxt ''active_workflow''))"

definition binding_valid :: "ledger_binding \<Rightarrow> bool" where
  "binding_valid b \<longleftrightarrow>
     \<not> (lb_event_count b = 0 \<and> (lb_event_id b \<noteq> None \<or> lb_event_hash b \<noteq> ''root'')
        \<or> lb_event_count b > 0 \<and> (lb_event_id b = None \<or> \<not> is_sha256 (lb_event_hash b)))"

definition parse_current_ledger_binding :: "json option \<Rightarrow> string \<Rightarrow> ledger_binding result" where
  "parse_current_ledger_binding v ctxt =
     (case v of
        Some (JObject obj) \<Rightarrow>
          rbind (require_exact_key_order obj [''event_count'', ''event_id'', ''event_hash''] ctxt) (\<lambda>_.
          rbind (json_number obj ''event_count'' ctxt) (\<lambda>event_count.
          rbind (optional_json_string obj ''event_id'' ctxt) (\<lambda>eid.
          rbind (case eid of None \<Rightarrow> Inr () | Some i \<Rightarrow> validate_current_id i ''event_id'' ctxt) (\<lambda>_.
          rbind (json_string obj ''event_hash'' ctxt) (\<lambda>hash.
            let b = \<lparr>lb_event_count = event_count, lb_event_id = eid, lb_event_hash = hash\<rparr>
            in if \<not> binding_valid b then Inl (current_state_field_error ctxt ''ledger_binding'') else Inr b)))))
      | _ \<Rightarrow> Inl (current_state_field_error ctxt ''ledger_binding''))"

section \<open>Reading (codec.rs)\<close>

text \<open>\<open>ambient\<close> is what \<open>ledger::validated_ledger_binding\<close> returns: a version 1 state takes it.\<close>

definition parse_current_state_v1 ::
  "hasher \<Rightarrow> ledger_binding result \<Rightarrow> string \<Rightarrow> json \<Rightarrow> string \<Rightarrow> current_state_snapshot result" where
  "parse_current_state_v1 sha ambient body v ctxt =
     rbind (parse_object body current_state_v1_keys ctxt) (\<lambda>obj.
     rbind (require_exact_key_set obj current_state_v1_keys ctxt) (\<lambda>_.
     rbind (validate_terminal_states (object_get ''terminal_states'' obj) ctxt) (\<lambda>_.
     rbind (case object_get ''active_workflow'' obj of
              Some JNull \<Rightarrow> Inr None
            | Some (JString w) \<Rightarrow> rbind (validate_current_id w ''workflow_id'' ctxt) (\<lambda>_.
                Inr (Some \<lparr>cb_workflow_id = w, cb_revision = 0, cb_artifact_hash = []\<rparr>))
            | _ \<Rightarrow> Inl (current_state_field_error ctxt ''active_workflow'')) (\<lambda>active.
     rbind (json_string obj ''project_id'' ctxt) (\<lambda>project.
     rbind (json_string obj ''session_id'' ctxt) (\<lambda>session.
     rbind (validate_current_id project ''project_id'' ctxt) (\<lambda>_.
     rbind (validate_current_id session ''session_id'' ctxt) (\<lambda>_.
     rbind (json_string obj ''project_root'' ctxt) (\<lambda>root.
     rbind (optional_json_string obj ''parent_session_id'' ctxt) (\<lambda>parent.
     rbind (optional_json_string obj ''branch_from_event_id'' ctxt) (\<lambda>branch.
     rbind (optional_json_string obj ''compaction_boundary'' ctxt) (\<lambda>boundary.
     rbind (optional_json_string obj ''resume_source'' ctxt) (\<lambda>resume.
     rbind ambient (\<lambda>ledger.
       Inr \<lparr>cs_schema_version = 1, cs_revision = 0, cs_previous_artifact_hash = [], cs_project_id = project,
         cs_project_root = root, cs_session_id = session, cs_active_workflow = active,
         cs_parent_session_id = parent, cs_branch_from_event_id = branch, cs_compaction_boundary = boundary,
         cs_resume_source = resume, cs_ledger_binding = ledger, cs_artifact_hash = [],
         cs_legacy_canonical_hash = Some (sha256_bytes sha (render_compact v))\<rparr>))))))))))))))"

definition parse_current_fields :: "json_object \<Rightarrow> u64 \<Rightarrow> string \<Rightarrow> current_state_snapshot result" where
  "parse_current_fields obj revision ctxt =
     rbind (json_string obj ''previous_artifact_hash'' ctxt) (\<lambda>previous.
     if previous \<noteq> ''none'' \<and> \<not> is_sha256 previous
     then Inl (current_state_field_error ctxt ''previous_artifact_hash'')
     else
     rbind (json_string obj ''project_id'' ctxt) (\<lambda>project.
     rbind (json_string obj ''session_id'' ctxt) (\<lambda>session.
     rbind (validate_current_id project ''project_id'' ctxt) (\<lambda>_.
     rbind (validate_current_id session ''session_id'' ctxt) (\<lambda>_.
     rbind (parse_current_workflow (object_get ''active_workflow'' obj) ctxt) (\<lambda>active.
     rbind (validate_terminal_states (object_get ''terminal_states'' obj) ctxt) (\<lambda>_.
     rbind (parse_current_ledger_binding (object_get ''ledger_binding'' obj) ctxt) (\<lambda>ledger.
     rbind (json_string obj ''artifact_hash'' ctxt) (\<lambda>hash.
     if \<not> is_sha256 hash then Inl (current_state_field_error ctxt ''artifact_hash'')
     else
     rbind (json_string obj ''project_root'' ctxt) (\<lambda>root.
     rbind (optional_json_string obj ''parent_session_id'' ctxt) (\<lambda>parent.
     rbind (optional_json_string obj ''branch_from_event_id'' ctxt) (\<lambda>branch.
     rbind (optional_json_string obj ''compaction_boundary'' ctxt) (\<lambda>boundary.
     rbind (optional_json_string obj ''resume_source'' ctxt) (\<lambda>resume.
       Inr \<lparr>cs_schema_version = 2, cs_revision = revision, cs_previous_artifact_hash = previous,
         cs_project_id = project, cs_project_root = root, cs_session_id = session,
         cs_active_workflow = active, cs_parent_session_id = parent, cs_branch_from_event_id = branch,
         cs_compaction_boundary = boundary, cs_resume_source = resume, cs_ledger_binding = ledger,
         cs_artifact_hash = hash, cs_legacy_canonical_hash = None\<rparr>))))))))))))))"

definition parse_current_state_v2 :: "hasher \<Rightarrow> string \<Rightarrow> string \<Rightarrow> current_state_snapshot result" where
  "parse_current_state_v2 sha body ctxt =
     rbind (parse_canonical_object body current_state_v2_keys ctxt) (\<lambda>canonical.
     rbind (canonical_u64 canonical ''schema_version'' ctxt) (\<lambda>schema.
     if schema \<noteq> 2 then Inl (current_state_field_error ctxt ''schema_version'')
     else
     rbind (canonical_u64 canonical ''revision'' ctxt) (\<lambda>canonical_revision.
     rbind (parse_object_exact_order body current_state_v2_keys ctxt) (\<lambda>obj.
     rbind (json_number obj ''revision'' ctxt) (\<lambda>revision.
     if revision = 0 \<or> revision \<noteq> canonical_revision then Inl (current_state_field_error ctxt ''revision'')
     else
     rbind (parse_current_fields obj revision ctxt) (\<lambda>s.
       if sha256_bytes sha (render_current_state_v2_payload s) \<noteq> cs_artifact_hash s
          \<or> render_current_state_v2 s \<noteq> body
       then Inl (blocked_error ''current-state artifact hash or canonical re-render'' [ctxt])
       else Inr s))))))"

definition parse_current_state ::
  "hasher \<Rightarrow> ledger_binding result \<Rightarrow> string \<Rightarrow> string \<Rightarrow> current_state_snapshot result" where
  "parse_current_state sha ambient body ctxt =
     rbind (parse_value body ctxt) (\<lambda>v.
       case v of
         JObject root \<Rightarrow>
           rbind (json_number root ''schema_version'' ctxt) (\<lambda>schema.
             if schema = 1 then parse_current_state_v1 sha ambient body v ctxt
             else if schema = 2 then parse_current_state_v2 sha body ctxt
             else Inl (blocked_error ''unsupported schema version'' [ctxt]))
       | _ \<Rightarrow> Inl (blocked_error ''root must be object'' [ctxt]))"

text \<open>\<open>fs::read_to_string\<close> of the file's bytes.\<close>

definition read_utf8 :: "app_error \<Rightarrow> string option \<Rightarrow> string result" where
  "read_utf8 err file = (case file of Some b \<Rightarrow> if utf8_valid b then Inr b else Inl err | None \<Rightarrow> Inl err)"

section \<open>Status and identity (status.rs, lease\_view.rs)\<close>

datatype current_state_class = Missing | Corrupt | StaleProject | CleanNoActiveWorkflow | CleanActiveWorkflow

definition classify_current_state ::
  "hasher \<Rightarrow> ledger_binding result \<Rightarrow> string \<Rightarrow> runtime_identity \<Rightarrow> current_state_class" where
  "classify_current_state sha ambient contents identity =
     (case parse_current_state sha ambient contents ''current-state classification'' of
        Inl _ \<Rightarrow> Corrupt
      | Inr s \<Rightarrow>
          if cs_project_id s \<noteq> ri_project_id identity \<or> cs_project_root s \<noteq> ri_project_root identity
          then StaleProject
          else case cs_active_workflow s of None \<Rightarrow> CleanNoActiveWorkflow | Some _ \<Rightarrow> CleanActiveWorkflow)"

definition current_state_status ::
  "hasher \<Rightarrow> ledger_binding result \<Rightarrow> string option \<Rightarrow> runtime_identity \<Rightarrow> current_state_class result" where
  "current_state_status sha ambient file identity =
     (if file = None then Inr Missing
      else rbind (read_utf8 (runtime_error ''current-state read'' []) file) (\<lambda>contents.
        Inr (classify_current_state sha ambient contents identity)))"

definition validated_identity_from_current_state ::
  "hasher \<Rightarrow> ledger_binding result \<Rightarrow> string \<Rightarrow> runtime_identity \<Rightarrow> runtime_identity result" where
  "validated_identity_from_current_state sha ambient body fresh =
     rbind (parse_current_state sha ambient body ''current-state identity'') (\<lambda>s.
       if cs_project_id s \<noteq> ri_project_id fresh \<or> cs_project_root s \<noteq> ri_project_root fresh
       then Inl (blocked_error ''current-state identity project binding'' [])
       else Inr \<lparr>ri_project_id = cs_project_id s, ri_session_id = cs_session_id s,
                 ri_project_root = cs_project_root s\<rparr>)"

end
