(* ===== verification/Transition_Domain.thy ===== *)
theory Transition_Domain
  imports Event_Sequence Workflow_Domain
begin

text \<open>
  \<open>workflow/domain/transition.rs\<close>: the records of a prepared transition. A bundle names the
  state and the ledger it was prepared for, carries the files to install as members, plans the
  ledger events, and may replace one source file.
\<close>

lemma member_kind_roundtrip: "member_kind_parse (member_kind_str k) = Inr k"
  by (cases k) (simp_all add: member_kind_parse_def member_kind_str_def)

lemma member_kind_rank_inj: "member_kind_rank j = member_kind_rank k \<longleftrightarrow> j = k"
  by (cases j; cases k) (simp_all add: member_kind_rank_def)

record prepared_member_binding =
  pb_artifact_id :: "string option"
  pb_causal_id :: "string option"
  pb_source_key :: "string option"
  pb_event_id :: "string option"

record prepared_member =
  pm_kind :: prepared_member_kind
  pm_path :: string
  pm_schema_version :: u64
  pm_binding :: prepared_member_binding
  pm_bytes_utf8 :: string
  pm_expected_type :: string
  pm_expected_identity :: "string option"
  pm_readonly :: bool
  pm_mode :: u32
  pm_ownership :: "string option"
  pm_semantic_role_rank :: u8

record prepared_path =
  pp_namespace :: string
  pp_path :: string
  pp_parent :: string
  pp_basename :: string
  pp_expected_type :: string
  pp_expected_identity :: "string option"

record prepared_blob =
  bl_blob_id :: string
  bl_member_path :: string
  bl_sha256 :: string
  bl_byte_length :: u64

record source_permissions =
  sp_before_readonly :: bool
  sp_install_readonly :: bool
  sp_before_mode :: u32
  sp_install_mode :: u32

record source_ownership =
  so_before_owner :: string
  so_install_owner :: string

record unix_source_metadata =
  um_before_mode :: u32
  um_install_mode :: u32
  um_before_uid :: u32
  um_before_gid :: u32
  um_install_uid :: u32
  um_install_gid :: u32
  um_before_dev :: u64
  um_before_ino :: u64

record source_install_v1 =
  si_schema_version :: u64
  si_source_key :: string
  si_target :: prepared_path
  si_before_blob :: prepared_blob
  si_proposed_blob :: prepared_blob
  si_rollback_final :: prepared_path
  si_install_temp :: prepared_path
  si_guard_path :: prepared_path
  si_before_sha256 :: string
  si_before_byte_length :: u64
  si_proposed_sha256 :: string
  si_proposed_byte_length :: u64
  si_permissions :: source_permissions
  si_ownership :: source_ownership
  si_platform :: string
  si_unix_metadata :: unix_source_metadata
  si_operations :: "string list"

record prepared_event_chain =
  ec_event_id :: string
  ec_ordinal :: u64
  ec_previous_event_hash :: string
  ec_event_hash :: string

record prepared_source_bundle =
  bu_intent_id :: string
  bu_intent_kind :: string
  bu_project_id :: string
  bu_session_id :: string
  bu_workflow_id :: "string option"
  bu_prepared_at_ms :: u128
  bu_current_revision :: u64
  bu_current_artifact_hash :: string
  bu_ledger_binding :: ledger_binding
  bu_source_install :: "source_install_v1 option"
  bu_before_bytes :: "string option"
  bu_proposed_bytes :: "string option"
  bu_additional_members :: "prepared_member list"
  bu_semantic_events :: "ledger_event list"
  bu_event_chain_plan :: "prepared_event_chain list"
  bu_projection_lag_member_index :: "u64 option"

text \<open>\<open>PreparedBundleContext\<close>: whom and what a bundle is prepared for.\<close>

record prepared_bundle_context =
  bc_identity :: runtime_identity
  bc_lease :: current_state_lease_view
  bc_ledger_binding :: ledger_binding

end
