(* ===== verification/Current_Image.thy ===== *)
theory Current_Image
  imports Current_State Transition_Domain
begin

text \<open>
  The image of the next current state (\<open>current_transition/current_image.rs\<close>), its checks, and
  its installation by compare and set (\<open>transition_commit.rs\<close>, \<open>current_transition.rs\<close>).
\<close>

text \<open>\<open>workflow_revision.rs\<close>; the path is always that of the project's current-state file.\<close>

record prepared_current_image =
  ci_stored_path :: string
  ci_bytes :: string
  ci_artifact_id :: string
  ci_revision :: u64

datatype compaction_boundary_update = PreserveBoundary | SetBoundary string

text \<open>The snapshot with its hash taken of its payload, and the image of a snapshot.\<close>

definition seal_snapshot :: "hasher \<Rightarrow> current_state_snapshot \<Rightarrow> current_state_snapshot" where
  "seal_snapshot sha s = s\<lparr>cs_artifact_hash := sha256_bytes sha (render_current_state_v2_payload s)\<rparr>"

definition image_of_snapshot :: "current_state_snapshot \<Rightarrow> prepared_current_image" where
  "image_of_snapshot s =
     \<lparr>ci_stored_path = ''state/current-state.json'', ci_bytes = render_current_state_v2 s,
      ci_artifact_id = ''current-image-'' @ cs_artifact_hash s, ci_revision = cs_revision s\<rparr>"

definition binding_of_workflow :: "workflow_record \<Rightarrow> current_workflow_binding" where
  "binding_of_workflow w =
     \<lparr>cb_workflow_id = wr_workflow_id w, cb_revision = wr_revision w, cb_artifact_hash = wr_artifact_hash w\<rparr>"

section \<open>Preparing an image (current\_image.rs)\<close>

definition prepare_current_image_after_with_binding ::
  "hasher \<Rightarrow> ledger_binding result \<Rightarrow> string option \<Rightarrow> workflow_record \<Rightarrow> u64 \<Rightarrow> ledger_binding \<Rightarrow> bool \<Rightarrow>
   prepared_current_image result" where
  "prepare_current_image_after_with_binding sha ambient file workflow expected_previous ledger keep_active =
     rbind (read_utf8 (blocked_error ''current image precondition read'' []) file) (\<lambda>body.
     rbind (parse_current_state sha ambient body ''prepared current image'') (\<lambda>previous.
     if cs_schema_version previous \<noteq> 2 \<or> cs_project_id previous \<noteq> wr_project_id workflow
        \<or> cs_session_id previous \<noteq> wr_session_id workflow
        \<or> (case cs_active_workflow previous of
             None \<Rightarrow> True
           | Some active \<Rightarrow> cb_workflow_id active \<noteq> wr_workflow_id workflow
               \<or> cb_revision active \<noteq> expected_previous)
     then Inl (blocked_error ''prepared current image workflow predecessor binding'' [])
     else
     rbind (ok_or (blocked_error ''current-state revision overflow'' []) (checked_add (cs_revision previous) 1)) (\<lambda>revision.
       Inr (image_of_snapshot (seal_snapshot sha
         \<lparr>cs_schema_version = 2, cs_revision = revision,
          cs_previous_artifact_hash = cs_artifact_hash previous,
          cs_project_id = cs_project_id previous, cs_project_root = cs_project_root previous,
          cs_session_id = cs_session_id previous,
          cs_active_workflow = (if keep_active then Some (binding_of_workflow workflow) else None),
          cs_parent_session_id = cs_parent_session_id previous,
          cs_branch_from_event_id = cs_branch_from_event_id previous,
          cs_compaction_boundary = cs_compaction_boundary previous,
          cs_resume_source = cs_resume_source previous, cs_ledger_binding = ledger,
          cs_artifact_hash = [], cs_legacy_canonical_hash = None\<rparr>)))))"

definition prepare_current_image_after ::
  "hasher \<Rightarrow> ledger_binding result \<Rightarrow> string option \<Rightarrow> workflow_record \<Rightarrow> u64 \<Rightarrow> ledger_binding \<Rightarrow>
   prepared_current_image result" where
  "prepare_current_image_after sha ambient file workflow expected_previous ledger =
     prepare_current_image_after_with_binding sha ambient file workflow expected_previous ledger True"

definition prepare_terminal_current_image_after ::
  "hasher \<Rightarrow> ledger_binding result \<Rightarrow> string option \<Rightarrow> workflow_record \<Rightarrow> u64 \<Rightarrow> ledger_binding \<Rightarrow>
   prepared_current_image result" where
  "prepare_terminal_current_image_after sha ambient file workflow expected_previous ledger =
     prepare_current_image_after_with_binding sha ambient file workflow expected_previous ledger False"

definition prepare_current_image ::
  "hasher \<Rightarrow> ledger_binding result \<Rightarrow> string option \<Rightarrow> workflow_record \<Rightarrow> ledger_binding \<Rightarrow>
   prepared_current_image result" where
  "prepare_current_image sha ambient file workflow ledger =
     rbind (ok_or (blocked_error ''prepared current image workflow revision underflow'' [])
         (checked_sub (wr_revision workflow) 2)) (\<lambda>expected.
       prepare_current_image_after sha ambient file workflow expected ledger)"

text \<open>The snapshot that follows \<open>previous\<close>, before it is sealed.\<close>

definition next_snapshot ::
  "runtime_identity \<Rightarrow> string option \<Rightarrow> workflow_record option \<Rightarrow> ledger_binding \<Rightarrow>
   current_state_snapshot option \<Rightarrow> compaction_boundary_update \<Rightarrow> u64 \<Rightarrow> current_state_snapshot" where
  "next_snapshot identity resume active final_binding previous boundary revision =
     \<lparr>cs_schema_version = 2, cs_revision = revision,
      cs_previous_artifact_hash = (case previous of Some p \<Rightarrow> cs_artifact_hash p | None \<Rightarrow> ''none''),
      cs_project_id = ri_project_id identity, cs_project_root = ri_project_root identity,
      cs_session_id = ri_session_id identity, cs_active_workflow = map_option binding_of_workflow active,
      cs_parent_session_id = Option.bind previous cs_parent_session_id,
      cs_branch_from_event_id = Option.bind previous cs_branch_from_event_id,
      cs_compaction_boundary =
        (case boundary of
           PreserveBoundary \<Rightarrow>
             (case previous of
                Some p \<Rightarrow> if cs_session_id p = ri_session_id identity then cs_compaction_boundary p else None
              | None \<Rightarrow> None)
         | SetBoundary b \<Rightarrow> Some b),
      cs_resume_source = resume, cs_ledger_binding = final_binding, cs_artifact_hash = [],
      cs_legacy_canonical_hash = None\<rparr>"

definition prepare_state_transition_current_image ::
  "hasher \<Rightarrow> runtime_identity \<Rightarrow> string option \<Rightarrow> workflow_record option \<Rightarrow> ledger_binding \<Rightarrow>
   current_state_snapshot option \<Rightarrow> compaction_boundary_update \<Rightarrow> prepared_current_image result" where
  "prepare_state_transition_current_image sha identity resume active final_binding previous boundary =
     rbind (case previous of
         None \<Rightarrow> Inr 1
       | Some p \<Rightarrow> ok_or (blocked_error ''current-state revision overflow'' []) (checked_add (cs_revision p) 1))
       (\<lambda>revision. Inr (image_of_snapshot (seal_snapshot sha
         (next_snapshot identity resume active final_binding previous boundary revision))))"

text \<open>The mode is \<open>0o600\<close>.\<close>

definition state_transition_current_member ::
  "prepared_current_image \<Rightarrow> string \<Rightarrow> string option \<Rightarrow> string \<Rightarrow> prepared_member" where
  "state_transition_current_member prepared eid causal expected_type =
     \<lparr>pm_kind = CurrentImage, pm_path = ci_stored_path prepared, pm_schema_version = 2,
      pm_binding = \<lparr>pb_artifact_id = Some (ci_artifact_id prepared), pb_causal_id = causal,
        pb_source_key = None, pb_event_id = Some eid\<rparr>,
      pm_bytes_utf8 = ci_bytes prepared, pm_expected_type = expected_type, pm_expected_identity = None,
      pm_readonly = False, pm_mode = 384, pm_ownership = None, pm_semantic_role_rank = 0\<rparr>"

section \<open>Checking a prepared image (current\_image.rs, transition\_commit.rs)\<close>

definition chain_binding :: "prepared_event_chain \<Rightarrow> ledger_binding" where
  "chain_binding c =
     \<lparr>lb_event_count = ec_ordinal c, lb_event_id = Some (ec_event_id c), lb_event_hash = ec_event_hash c\<rparr>"

definition validate_workflow_id :: "string \<Rightarrow> unit result" where
  "validate_workflow_id w =
     (if starts_with ''workflow-'' w \<and> list_all (\<lambda>c. is_ascii_alphanumeric c \<or> c = CHR ''-'') w
      then Inr () else Inl (blocked_error ''workflow id format'' []))"

definition current_member_bound ::
  "hasher \<Rightarrow> prepared_source_bundle \<Rightarrow> prepared_member \<Rightarrow> prepared_event_chain \<Rightarrow> u64 \<Rightarrow>
   current_state_snapshot \<Rightarrow> bool" where
  "current_member_bound sha bundle m final expected_revision s \<longleftrightarrow>
     pm_kind m = CurrentImage \<and> pm_path m = ''state/current-state.json'' \<and> pm_schema_version m = 2
     \<and> pm_expected_type m =
         (if bu_current_revision bundle = 0 \<and> bu_current_artifact_hash bundle = ''missing''
          then ''absent'' else ''file'')
     \<and> pb_event_id (pm_binding m) = Some (ec_event_id final)
     \<and> cs_schema_version s = 2 \<and> cs_revision s = expected_revision
     \<and> cs_previous_artifact_hash s =
         (if bu_current_revision bundle = 0 then ''none'' else bu_current_artifact_hash bundle)
     \<and> cs_project_id s = bu_project_id bundle \<and> cs_session_id s = bu_session_id bundle
     \<and> cs_ledger_binding s = chain_binding final
     \<and> cs_artifact_hash s = sha256_bytes sha (render_current_state_v2_payload s)
     \<and> render_current_state_v2 s = pm_bytes_utf8 m
     \<and> pb_artifact_id (pm_binding m) = Some (''current-image-'' @ cs_artifact_hash s)"

definition validate_prepared_state_current_member ::
  "hasher \<Rightarrow> ledger_binding result \<Rightarrow> prepared_source_bundle \<Rightarrow> prepared_member \<Rightarrow> unit result" where
  "validate_prepared_state_current_member sha ambient bundle m =
     rbind (parse_current_state sha ambient (pm_bytes_utf8 m) ''prepared state current member'') (\<lambda>s.
     rbind (ok_or (blocked_error ''prepared state current final event'' [])
         (if bu_event_chain_plan bundle = [] then None else Some (last (bu_event_chain_plan bundle)))) (\<lambda>final.
     rbind (ok_or (blocked_error ''prepared state current revision overflow'' [])
         (checked_add (bu_current_revision bundle) 1)) (\<lambda>expected_revision.
     if \<not> current_member_bound sha bundle m final expected_revision s
     then Inl (blocked_error ''prepared state current canonical/binding'' [])
     else case cs_active_workflow s of
         None \<Rightarrow> Inr ()
       | Some active \<Rightarrow>
           rbind (validate_workflow_id (cb_workflow_id active)) (\<lambda>_.
             if cb_revision active = 0 \<or> length (cb_artifact_hash active) \<noteq> 64
             then Inl (blocked_error ''prepared state current active workflow binding'' [])
             else Inr ()))))"

definition prepared_state_current_image ::
  "hasher \<Rightarrow> ledger_binding result \<Rightarrow> prepared_source_bundle \<Rightarrow> prepared_current_image result" where
  "prepared_state_current_image sha ambient bundle =
     rbind (ok_or (blocked_error ''prepared state current member'' [])
         (if bu_additional_members bundle = [] then None else Some (last (bu_additional_members bundle)))) (\<lambda>m.
     rbind (validate_prepared_state_current_member sha ambient bundle m) (\<lambda>_.
     rbind (parse_current_state sha ambient (pm_bytes_utf8 m) ''prepared state current decode'') (\<lambda>s.
       Inr \<lparr>ci_stored_path = pm_path m, ci_bytes = pm_bytes_utf8 m,
            ci_artifact_id = ''current-image-'' @ cs_artifact_hash s, ci_revision = cs_revision s\<rparr>)))"

text \<open>Both decoders check the member's place first; they differ in the active workflow.\<close>

definition current_member_placed :: "prepared_member \<Rightarrow> string \<Rightarrow> string \<Rightarrow> bool" where
  "current_member_placed m causal eid \<longleftrightarrow>
     pm_kind m = CurrentImage \<and> pm_schema_version m = 2 \<and> pm_path m = ''state/current-state.json''
     \<and> pm_expected_type m = ''file'' \<and> pb_causal_id (pm_binding m) = Some causal
     \<and> pb_event_id (pm_binding m) = Some eid"

definition current_member_canonical ::
  "hasher \<Rightarrow> prepared_member \<Rightarrow> workflow_record \<Rightarrow> ledger_binding \<Rightarrow> current_state_snapshot \<Rightarrow> bool" where
  "current_member_canonical sha m workflow ledger s \<longleftrightarrow>
     cs_schema_version s = 2 \<and> cs_project_id s = wr_project_id workflow
     \<and> cs_session_id s = wr_session_id workflow \<and> cs_ledger_binding s = ledger
     \<and> cs_artifact_hash s = sha256_bytes sha (render_current_state_v2_payload s)
     \<and> render_current_state_v2 s = pm_bytes_utf8 m
     \<and> pb_artifact_id (pm_binding m) = Some (''current-image-'' @ cs_artifact_hash s)"

definition member_image :: "prepared_member \<Rightarrow> current_state_snapshot \<Rightarrow> prepared_current_image" where
  "member_image m s =
     \<lparr>ci_stored_path = pm_path m, ci_bytes = pm_bytes_utf8 m,
      ci_artifact_id = ''current-image-'' @ cs_artifact_hash s, ci_revision = cs_revision s\<rparr>"

definition decode_prepared_current_image ::
  "hasher \<Rightarrow> ledger_binding result \<Rightarrow> prepared_member \<Rightarrow> workflow_record \<Rightarrow> ledger_binding \<Rightarrow> string \<Rightarrow>
   string \<Rightarrow> prepared_current_image result" where
  "decode_prepared_current_image sha ambient m workflow ledger causal eid =
     (if \<not> current_member_placed m causal eid
      then Inl (blocked_error ''prepared current image member binding'' [])
      else
        rbind (parse_current_state sha ambient (pm_bytes_utf8 m) ''prepared current image member'') (\<lambda>s.
          case cs_active_workflow s of
            None \<Rightarrow> Inl (blocked_error ''prepared current image active workflow'' [])
          | Some active \<Rightarrow>
              if active \<noteq> binding_of_workflow workflow \<or> \<not> current_member_canonical sha m workflow ledger s
              then Inl (blocked_error ''prepared current image canonical/workflow/ledger binding'' [])
              else Inr (member_image m s)))"

definition decode_prepared_terminal_current_image ::
  "hasher \<Rightarrow> ledger_binding result \<Rightarrow> prepared_member \<Rightarrow> workflow_record \<Rightarrow> ledger_binding \<Rightarrow> string \<Rightarrow>
   string \<Rightarrow> prepared_current_image result" where
  "decode_prepared_terminal_current_image sha ambient m workflow ledger causal eid =
     (if \<not> current_member_placed m causal eid
      then Inl (blocked_error ''prepared terminal current member binding'' [])
      else
        rbind (parse_current_state sha ambient (pm_bytes_utf8 m) ''prepared terminal current member'') (\<lambda>s.
          if cs_active_workflow s \<noteq> None \<or> \<not> current_member_canonical sha m workflow ledger s
          then Inl (blocked_error ''prepared terminal current canonical/workflow/ledger binding'' [])
          else Inr (member_image m s)))"

section \<open>Compare and set (current\_image.rs, transition\_commit.rs)\<close>

text \<open>\<open>True\<close>: the file already holds the completed bytes; \<open>False\<close>: it is the exact predecessor.\<close>

definition validate_state_transition_current_cas ::
  "hasher \<Rightarrow> ledger_binding result \<Rightarrow> prepared_source_bundle \<Rightarrow> string option \<Rightarrow> string \<Rightarrow> bool result" where
  "validate_state_transition_current_cas sha ambient bundle file completed =
     (if file = Some completed then Inr True
      else if bu_current_revision bundle = 0
      then (case file of
          None \<Rightarrow> if bu_current_artifact_hash bundle = ''missing'' then Inr False
                  else Inl (blocked_error ''prepared state current missing/preserved CAS conflict'' [])
        | Some bytes \<Rightarrow>
            if sha256_bytes sha bytes = bu_current_artifact_hash bundle then Inr False
            else Inl (blocked_error ''prepared state current missing/preserved CAS conflict'' []))
      else
        rbind (read_utf8 (blocked_error ''prepared state current UTF-8/CAS conflict'' []) file) (\<lambda>body.
        rbind (parse_current_state sha ambient body ''prepared state current CAS'') (\<lambda>current.
          if cs_revision current \<noteq> bu_current_revision bundle
             \<or> cs_artifact_hash current \<noteq> bu_current_artifact_hash bundle
          then Inl (blocked_error ''prepared state current exact CAS conflict'' [])
          else Inr False)))"

definition validate_current_state_recovery_cas ::
  "hasher \<Rightarrow> ledger_binding result \<Rightarrow> string option \<Rightarrow> u64 \<Rightarrow> string \<Rightarrow> string option \<Rightarrow> bool result" where
  "validate_current_state_recovery_cas sha ambient file before_revision before_hash completed =
     rbind (read_utf8 (blocked_error ''current-state recovery CAS read'' []) file) (\<lambda>existing.
       if completed = Some existing then Inr True
       else
         rbind (parse_current_state sha ambient existing ''current-state recovery CAS'') (\<lambda>current.
           if cs_revision current \<noteq> before_revision \<or> cs_artifact_hash current \<noteq> before_hash
           then Inl (blocked_error ''prepared current-state exact CAS conflict'' []) else Inr False))"

text \<open>
  \<open>atomic_replace_bytes\<close> writes a temporary file, renames it over the file and syncs the
  directory: an error leaves the file as it was, or, when only the sync failed, replaced.
\<close>

datatype replace_outcome = Replaced | NotReplaced | ReplacedUnsynced

definition atomic_replace :: "replace_outcome \<Rightarrow> string \<Rightarrow> (string option, unit) effect" where
  "atomic_replace outcome bytes file =
     (case outcome of
        Replaced \<Rightarrow> (Inr (), Some bytes)
      | NotReplaced \<Rightarrow> (Inl (runtime_error ''atomic replace'' []), file)
      | ReplacedUnsynced \<Rightarrow> (Inl (runtime_error ''atomic replace sync'' []), Some bytes))"

definition install_state_current ::
  "hasher \<Rightarrow> ledger_binding result \<Rightarrow> replace_outcome \<Rightarrow> prepared_source_bundle \<Rightarrow> string \<Rightarrow>
   (string option, unit) effect" where
  "install_state_current sha ambient outcome bundle bytes file =
     (case validate_state_transition_current_cas sha ambient bundle file bytes of
        Inl e \<Rightarrow> (Inl e, file)
      | Inr True \<Rightarrow> (Inr (), file)
      | Inr False \<Rightarrow> atomic_replace outcome bytes file)"

definition install_current_image ::
  "hasher \<Rightarrow> ledger_binding result \<Rightarrow> replace_outcome \<Rightarrow> prepared_current_image \<Rightarrow> u64 \<Rightarrow> string \<Rightarrow>
   (string option, unit) effect" where
  "install_current_image sha ambient outcome prepared before_revision before_hash file =
     (if ci_revision prepared \<le> before_revision
      then (Inl (blocked_error ''prepared current image revision CAS'' []), file)
      else case validate_current_state_recovery_cas sha ambient file before_revision before_hash (Some (ci_bytes prepared)) of
          Inl e \<Rightarrow> (Inl e, file)
        | Inr True \<Rightarrow> (Inr (), file)
        | Inr False \<Rightarrow> atomic_replace outcome (ci_bytes prepared) file)"

end
