(* ===== verification/Current_State_Properties.thy ===== *)
theory Current_State_Properties
  imports Canonical_Texts Current_Image Ledger_Properties
begin

text \<open>
  When a current state is read back, the image prepared over a state, and the installation of an
  image, a compare and set on the current-state file.
\<close>

section \<open>The canonical value of a snapshot\<close>

definition canonical_workflow :: "current_workflow_binding option \<Rightarrow> cjson" where
  "canonical_workflow w = (case w of None \<Rightarrow> CNull | Some b \<Rightarrow> CObject
     [(''workflow_id'', CString (cb_workflow_id b)), (''revision'', cnum (cb_revision b)),
      (''artifact_hash'', CString (cb_artifact_hash b))])"

definition canonical_binding :: "ledger_binding \<Rightarrow> (string \<times> cjson) list" where
  "canonical_binding b = [(''event_count'', cnum (lb_event_count b)), (''event_id'', copt (lb_event_id b)),
     (''event_hash'', CString (lb_event_hash b))]"

definition canonical_snapshot :: "current_state_snapshot \<Rightarrow> (string \<times> cjson) list" where
  "canonical_snapshot s =
     [(''schema_version'', cnum (2 :: u64)), (''revision'', cnum (cs_revision s)),
      (''previous_artifact_hash'', CString (cs_previous_artifact_hash s)),
      (''project_id'', CString (cs_project_id s)), (''project_root'', CString (cs_project_root s)),
      (''session_id'', CString (cs_session_id s)), (''active_workflow'', canonical_workflow (cs_active_workflow s)),
      (''parent_session_id'', copt (cs_parent_session_id s)),
      (''branch_from_event_id'', copt (cs_branch_from_event_id s)),
      (''compaction_boundary'', copt (cs_compaction_boundary s)), (''resume_source'', copt (cs_resume_source s)),
      (''terminal_states'', CArray (map CString terminal_states)),
      (''ledger_binding'', CObject (canonical_binding (cs_ledger_binding s))),
      (''artifact_hash'', CString (cs_artifact_hash s))]"

text \<open>What the reader accepts, apart from how the free texts are escaped.\<close>

definition workflow_binding_valid :: "current_workflow_binding \<Rightarrow> bool" where
  "workflow_binding_valid b \<longleftrightarrow>
     current_id_valid (cb_workflow_id b) \<and> cb_revision b \<noteq> 0 \<and> is_sha256 (cb_artifact_hash b)"

definition current_state_valid :: "hasher \<Rightarrow> current_state_snapshot \<Rightarrow> bool" where
  "current_state_valid sha s \<longleftrightarrow>
     cs_schema_version s = 2 \<and> cs_revision s \<noteq> 0 \<and> cs_legacy_canonical_hash s = None
     \<and> (cs_previous_artifact_hash s = ''none'' \<or> is_sha256 (cs_previous_artifact_hash s))
     \<and> current_id_valid (cs_project_id s) \<and> current_id_valid (cs_session_id s)
     \<and> pred_option workflow_binding_valid (cs_active_workflow s)
     \<and> binding_valid (cs_ledger_binding s) \<and> pred_option current_id_valid (lb_event_id (cs_ledger_binding s))
     \<and> is_sha256 (cs_artifact_hash s)
     \<and> cs_artifact_hash s = sha256_bytes sha (render_current_state_v2_payload s)"

text \<open>The texts that are neither ids nor hashes are ones both writers escape alike.\<close>

definition plain_snapshot :: "current_state_snapshot \<Rightarrow> bool" where
  "plain_snapshot s \<longleftrightarrow> plain_text (cs_project_root s)
     \<and> pred_option plain_text (cs_parent_session_id s) \<and> pred_option plain_text (cs_branch_from_event_id s)
     \<and> pred_option plain_text (cs_compaction_boundary s) \<and> pred_option plain_text (cs_resume_source s)"

section \<open>Writing\<close>

lemma sha256_plain:
  assumes "is_sha256 v"
  shows "plain_key v \<and> plain_text v"
proof -
  have "list_all (\<lambda>c. is_ascii_digit c \<or> 97 \<le> byte c \<and> byte c \<le> 102) v"
    using assms by (simp add: is_sha256_def)
  then have "plain_text v \<and> plain_key v"
    by (rule plain_id_text) (auto simp: is_ascii_alphanumeric_def is_ascii_lowercase_def)
  then show ?thesis by simp
qed

lemma current_id_plain: "current_id_valid v \<Longrightarrow> plain_text v"
  using plain_id_text [of current_id_byte v] by (auto simp: current_id_valid_def current_id_byte_def)

lemma plain_literal:
  assumes "list_all plain_char v" "CHR 0x7F \<notin> set v"
  shows "plain_key v" "plain_text v"
  using assms by (simp_all add: plain_key_chars plain_text_chars)

lemma snapshot_keys_plain:
  "list_all plain_key current_state_v2_keys"
  "list_all plain_key [''workflow_id'', ''event_count'', ''event_id'', ''event_hash'', ''none'', ''root'',
     ''complete'', ''failed'', ''cancelled'']"
proof -
  have "list_all (list_all plain_char) current_state_v2_keys"
    "list_all (list_all plain_char) [''workflow_id'', ''event_count'', ''event_id'', ''event_hash'', ''none'',
       ''root'', ''complete'', ''failed'', ''cancelled'']"
    by (simp_all add: current_state_v2_keys_def plain_char_def)
  then show "list_all plain_key current_state_v2_keys"
    "list_all plain_key [''workflow_id'', ''event_count'', ''event_id'', ''event_hash'', ''none'', ''root'',
       ''complete'', ''failed'', ''cancelled'']"
    by (simp_all only: list_all_iff) (blast intro: plain_key_chars)+
qed

lemmas snapshot_keys_each = snapshot_keys_plain [unfolded current_state_v2_keys_def, simplified]

lemma writes_optional: "pred_option plain_text v \<Longrightarrow> writes n (render_optional_string v) (copt v)"
  unfolding render_optional_string_def by (rule writes_copt) simp

lemma writes_workflow:
  "pred_option workflow_binding_valid w \<Longrightarrow> writes (Suc n) (render_current_workflow w) (canonical_workflow w)"
proof (cases w)
  case (Some b)
  moreover assume "pred_option workflow_binding_valid w"
  ultimately have "plain_text (cb_workflow_id b)" "plain_key (cb_artifact_hash b)"
    by (simp_all add: workflow_binding_valid_def current_id_plain sha256_plain)
  with Some show ?thesis unfolding render_current_workflow_def canonical_workflow_def
    by (simp add: snapshot_keys_each writes_intros object_keys_def)
qed (simp add: render_current_workflow_def canonical_workflow_def writes_literals)

lemma writes_binding:
  assumes "binding_valid b" "pred_option current_id_valid (lb_event_id b)"
  shows "writes (Suc n) (render_ledger_binding b) (CObject (canonical_binding b))"
proof -
  have "lb_event_hash b = ''root'' \<or> is_sha256 (lb_event_hash b)"
    using assms(1) by (auto simp: binding_valid_def word_gt_0)
  then have "plain_key (lb_event_hash b)" using sha256_plain snapshot_keys_each(2) by auto
  moreover have "pred_option plain_text (lb_event_id b)"
    using assms(2) current_id_plain by (cases "lb_event_id b") auto
  ultimately show ?thesis unfolding render_ledger_binding_def canonical_binding_def
    by (simp add: snapshot_keys_each writes_intros writes_optional object_keys_def)
qed

lemma writes_terminal_states:
  "writes (Suc n) (''['' @ join '','' (map quoted terminal_states) @ '']'') (CArray (map CString terminal_states))"
proof -
  have "list_all2 (writes n) (map quoted terminal_states) (map CString terminal_states)"
    by (simp add: terminal_states_def snapshot_keys_each writes_plain_key)
  then show ?thesis by (rule writes_array)
qed

lemma butlast_template: "butlast (template lay ms) = ''{'' @ template_members lay ms"
  by (simp add: template_def butlast_append)

lemma render_current_state_template:
  "render_current_state_v2 s =
     template compact_layout (current_payload_members s @ [(''artifact_hash'', quoted (cs_artifact_hash s))])"
proof -
  have "current_payload_members s \<noteq> []" by (simp add: current_payload_members_def)
  then show ?thesis
    by (simp add: render_current_state_v2_def render_current_state_v2_payload_def butlast_template
        template_def compact_layout_def template_members_snoc)
qed

lemma snapshot_writes:
  assumes "plain_snapshot s" "current_state_valid sha s"
  shows "writes 2 (render_current_state_v2 s) (CObject (canonical_snapshot s))"
proof -
  have plain: "plain_key (cs_previous_artifact_hash s)" "plain_key (cs_artifact_hash s)"
    "plain_text (cs_project_id s)" "plain_text (cs_session_id s)"
    using assms(2) snapshot_keys_each sha256_plain current_id_plain
    by (auto simp: current_state_valid_def)
  have parts: "writes (Suc 0) (render_current_workflow (cs_active_workflow s)) (canonical_workflow (cs_active_workflow s))"
    "writes (Suc 0) (render_ledger_binding (cs_ledger_binding s)) (CObject (canonical_binding (cs_ledger_binding s)))"
    using assms(2) by (simp_all add: current_state_valid_def writes_workflow writes_binding)
  have "list_all2 (member_writes (Suc 0)) (current_payload_members s @ [(''artifact_hash'', quoted (cs_artifact_hash s))])
      (canonical_snapshot s)"
    using assms(1) plain parts writes_terminal_states [of 0]
    by (simp add: current_payload_members_def canonical_snapshot_def plain_snapshot_def snapshot_keys_each
        writes_plain_key writes_plain_text writes_u64 writes_digit writes_optional)
  moreover have "distinct (object_keys (canonical_snapshot s))"
    by (simp add: object_keys_def canonical_snapshot_def)
  ultimately show ?thesis unfolding render_current_state_template numeral_2_eq_2 by (rule writes_object)
qed

section \<open>Reading\<close>

lemma optional_read: "object_get k obj = Some (json_of_cjson (copt v)) \<Longrightarrow> optional_json_string obj k ctxt = Inr v"
  by (simp add: optional_json_string_def json_of_copt split: option.splits)

lemma parse_workflow_canonical:
  "pred_option workflow_binding_valid w \<Longrightarrow> parse_current_workflow (Some (json_of_cjson (canonical_workflow w))) ctxt = Inr w"
  by (cases w)
    (simp_all add: canonical_workflow_def parse_current_workflow_def require_exact_key_order_def object_keys_def
      json_string_def object_get_map_of json_of_cnum json_number_cnum validate_current_id_def workflow_binding_valid_def)

lemma parse_binding_canonical:
  assumes "binding_valid b" "pred_option current_id_valid (lb_event_id b)"
  shows "parse_current_ledger_binding (Some (JObject (json_of_cmembers (canonical_binding b)))) ctxt = Inr b"
proof -
  let ?obj = "json_of_cmembers (canonical_binding b)"
  have get: "object_get ''event_count'' ?obj = Some (JNumber (of_nat (unat (lb_event_count b))))"
    "object_get ''event_id'' ?obj = Some (json_of_cjson (copt (lb_event_id b)))"
    "object_get ''event_hash'' ?obj = Some (JString (lb_event_hash b))"
    by (simp_all add: canonical_binding_def object_get_map_of json_of_cnum)
  have keys: "object_keys (canonical_binding b) = [''event_count'', ''event_id'', ''event_hash'']"
    by (simp add: object_keys_def canonical_binding_def)
  have "(case lb_event_id b of None \<Rightarrow> Inr () | Some i \<Rightarrow> validate_current_id i ''event_id'' ctxt) = Inr ()"
    using assms(2) by (cases "lb_event_id b") (simp_all add: validate_current_id_def)
  moreover have "binding_valid \<lparr>lb_event_count = lb_event_count b, lb_event_id = lb_event_id b, lb_event_hash = lb_event_hash b\<rparr>"
    using assms(1) by (cases b) simp
  ultimately show ?thesis using assms(1)
    by (simp add: Let_def parse_current_ledger_binding_def require_exact_key_order_def keys
        json_number_cnum [OF get(1)] optional_read [OF get(2)] json_string_def get(3))
qed

lemma parse_fields_snapshot:
  assumes "current_state_valid sha s"
  shows "parse_current_fields (json_of_cmembers (canonical_snapshot s)) (cs_revision s) ctxt = Inr s"
proof -
  let ?obj = "json_of_cmembers (canonical_snapshot s)"
  have str: "json_string ?obj ''previous_artifact_hash'' ctxt = Inr (cs_previous_artifact_hash s)"
    "json_string ?obj ''project_id'' ctxt = Inr (cs_project_id s)"
    "json_string ?obj ''session_id'' ctxt = Inr (cs_session_id s)"
    "json_string ?obj ''artifact_hash'' ctxt = Inr (cs_artifact_hash s)"
    "json_string ?obj ''project_root'' ctxt = Inr (cs_project_root s)"
    by (simp_all add: canonical_snapshot_def json_string_def object_get_map_of)
  have opt: "optional_json_string ?obj ''parent_session_id'' ctxt = Inr (cs_parent_session_id s)"
    "optional_json_string ?obj ''branch_from_event_id'' ctxt = Inr (cs_branch_from_event_id s)"
    "optional_json_string ?obj ''compaction_boundary'' ctxt = Inr (cs_compaction_boundary s)"
    "optional_json_string ?obj ''resume_source'' ctxt = Inr (cs_resume_source s)"
    by (rule optional_read, simp add: canonical_snapshot_def object_get_map_of)+
  have get: "object_get ''active_workflow'' ?obj = Some (json_of_cjson (canonical_workflow (cs_active_workflow s)))"
    "object_get ''terminal_states'' ?obj = Some (JArray (map JString terminal_states))"
    "object_get ''ledger_binding'' ?obj = Some (JObject (json_of_cmembers (canonical_binding (cs_ledger_binding s))))"
    by (simp_all add: canonical_snapshot_def object_get_map_of terminal_states_def)
  have valid: "cs_schema_version s = 2" "cs_legacy_canonical_hash s = None" "is_sha256 (cs_artifact_hash s)"
    "cs_previous_artifact_hash s = ''none'' \<or> is_sha256 (cs_previous_artifact_hash s)"
    "current_id_valid (cs_project_id s)" "current_id_valid (cs_session_id s)"
    "pred_option workflow_binding_valid (cs_active_workflow s)" "binding_valid (cs_ledger_binding s)"
    "pred_option current_id_valid (lb_event_id (cs_ledger_binding s))"
    using assms unfolding current_state_valid_def by blast+
  show ?thesis unfolding parse_current_fields_def str opt get
    using valid by (simp add: validate_current_id_def validate_terminal_states_def
        parse_workflow_canonical parse_binding_canonical)
qed

lemma current_state_reads_back:
  assumes "plain_snapshot s" "current_state_valid sha s"
  shows "parse_current_state sha ambient (render_current_state_v2 s) ctxt = Inr s"
proof -
  let ?body = "render_current_state_v2 s" and ?obj = "json_of_cmembers (canonical_snapshot s)"
  note w = snapshot_writes [OF assms]
  have depth: "2 \<le> max_json_nesting_depth" by (simp add: max_json_nesting_depth_def)
  have keys: "object_keys (canonical_snapshot s) = current_state_v2_keys"
    by (simp add: object_keys_def canonical_snapshot_def current_state_v2_keys_def)
  have canonical: "parse_canonical_object ?body current_state_v2_keys ctxt = Inr (canonical_snapshot s)"
    using writes_parse_canonical [OF w depth] by (simp add: keys)
  have v: "parse_value ?body ctxt = Inr (JObject ?obj)" using writes_parse_value [OF w depth] by simp
  have "find (\<lambda>k. k \<notin> set current_state_v2_keys) (object_keys ?obj) = None"
    by (simp add: keys find_None_iff)
  then have strict: "parse_object_exact_order ?body current_state_v2_keys ctxt = Inr ?obj"
    by (simp add: parse_object_exact_order_def parse_object_def v keys)
  have num: "json_number ?obj ''schema_version'' ctxt = Inr 2" "json_number ?obj ''revision'' ctxt = Inr (cs_revision s)"
    by (rule json_number_cnum, simp add: canonical_snapshot_def object_get_map_of json_of_cnum)+
  have cnum: "canonical_u64 (canonical_snapshot s) ''schema_version'' ctxt = Inr 2"
    "canonical_u64 (canonical_snapshot s) ''revision'' ctxt = Inr (cs_revision s)"
    by (rule canonical_u64_cnum, simp add: canonical_snapshot_def object_get_map_of)+
  show ?thesis using assms(2) unfolding parse_current_state_def v
    by (simp add: num parse_current_state_v2_def canonical strict cnum parse_fields_snapshot [OF assms(2)]
        current_state_valid_def)
qed

lemma rbind_if_Inr: "(if c then Inl e else r) = Inr x \<longleftrightarrow> \<not> c \<and> r = Inr x"
  by simp

lemma validate_current_id_Inr: "validate_current_id v field ctxt = Inr u \<longleftrightarrow> current_id_valid v"
  by (simp add: validate_current_id_def)

lemma parse_workflow_Inr: "parse_current_workflow v ctxt = Inr w \<Longrightarrow> pred_option workflow_binding_valid w"
  by (auto simp: parse_current_workflow_def rbind_Inr_iff validate_current_id_Inr workflow_binding_valid_def
      split: option.splits json.splits if_splits)

lemma pred_option_iff: "pred_option P v \<longleftrightarrow> (\<forall>x. v = Some x \<longrightarrow> P x)"
  by (cases v) auto

lemma parse_binding_Inr:
  assumes "parse_current_ledger_binding v ctxt = Inr b"
  shows "binding_valid b \<and> pred_option current_id_valid (lb_event_id b)"
proof -
  from assms obtain obj where "v = Some (JObject obj)"
    by (auto simp: parse_current_ledger_binding_def split: option.splits json.splits)
  with assms obtain eid where b: "binding_valid b" "lb_event_id b = eid"
    and eid: "(case eid of None \<Rightarrow> Inr () | Some i \<Rightarrow> validate_current_id i ''event_id'' ctxt) = Inr ()"
    by (auto simp: parse_current_ledger_binding_def rbind_Inr_iff Let_def simp del: if_split_asm split: if_split_asm)
  from eid have "pred_option current_id_valid eid" by (cases eid) (simp_all add: validate_current_id_Inr)
  with b show ?thesis by simp
qed

lemma parse_fields_Inr:
  assumes "parse_current_fields obj revision ctxt = Inr s"
  shows "cs_schema_version s = 2 \<and> cs_revision s = revision \<and> cs_legacy_canonical_hash s = None
    \<and> (cs_previous_artifact_hash s = ''none'' \<or> is_sha256 (cs_previous_artifact_hash s))
    \<and> current_id_valid (cs_project_id s) \<and> current_id_valid (cs_session_id s)
    \<and> pred_option workflow_binding_valid (cs_active_workflow s) \<and> binding_valid (cs_ledger_binding s)
    \<and> pred_option current_id_valid (lb_event_id (cs_ledger_binding s)) \<and> is_sha256 (cs_artifact_hash s)"
  using assms unfolding parse_current_fields_def rbind_Inr_iff rbind_if_Inr validate_current_id_Inr
  apply (elim exE conjE)
  apply (frule parse_workflow_Inr)
  apply (frule parse_binding_Inr)
  apply (drule sum.inject(2) [THEN iffD1])
  apply hypsubst
  apply simp
  done

lemma parse_v2_valid:
  assumes "parse_current_state_v2 sha body ctxt = Inr s"
  shows "current_state_valid sha s \<and> render_current_state_v2 s = body"
proof -
  from assms obtain obj revision where "revision \<noteq> 0" and f: "parse_current_fields obj revision ctxt = Inr s"
    and "sha256_bytes sha (render_current_state_v2_payload s) = cs_artifact_hash s" "render_current_state_v2 s = body"
    unfolding parse_current_state_v2_def rbind_Inr_iff rbind_if_Inr by auto
  then show ?thesis using parse_fields_Inr [OF f] by (simp add: current_state_valid_def)
qed

lemma parse_v1_version: "parse_current_state_v1 sha ambient body v ctxt = Inr s \<Longrightarrow> cs_schema_version s = 1 \<and> cs_revision s = 0"
  by (auto simp: parse_current_state_v1_def rbind_Inr_iff)

lemma parse_current_valid:
  assumes "parse_current_state sha ambient body ctxt = Inr s"
  shows "cs_schema_version s = 1 \<and> cs_revision s = 0
    \<or> current_state_valid sha s \<and> render_current_state_v2 s = body"
proof -
  from assms obtain v where v: "parse_value body ctxt = Inr v" and
    "(case v of JObject root \<Rightarrow>
        rbind (json_number root ''schema_version'' ctxt) (\<lambda>schema.
          if schema = 1 then parse_current_state_v1 sha ambient body v ctxt
          else if schema = 2 then parse_current_state_v2 sha body ctxt
          else Inl (blocked_error ''unsupported schema version'' [ctxt]))
      | _ \<Rightarrow> Inl (blocked_error ''root must be object'' [ctxt])) = Inr s"
    unfolding parse_current_state_def rbind_Inr_iff by blast
  then consider "parse_current_state_v1 sha ambient body v ctxt = Inr s" | "parse_current_state_v2 sha body ctxt = Inr s"
    by (cases v) (auto simp: rbind_Inr_iff split: if_splits)
  then show ?thesis using parse_v1_version parse_v2_valid by cases blast+
qed

section \<open>The prepared image\<close>

lemma byte_hex_char: "n < 16 \<Longrightarrow> byte (hex_char n) = (if n < 10 then 48 + n else 87 + n)"
  by (simp add: hex_char_def)

lemma sha256_bytes_is_sha256: "digest32 sha \<Longrightarrow> is_sha256 (sha256_bytes sha s)"
proof -
  have lower: "is_ascii_digit (hex_char n) \<or> 97 \<le> byte (hex_char n) \<and> byte (hex_char n) \<le> 102" if "n < 16" for n
    using that by (auto simp: byte_hex_char is_ascii_digit_def)
  have "list_all (\<lambda>c. is_ascii_digit c \<or> 97 \<le> byte c \<and> byte c \<le> 102) (bytes_to_hex bs)" for bs
    by (induction bs) (auto simp: bytes_to_hex_def lower byte_div16)
  then show "digest32 sha \<Longrightarrow> is_sha256 (sha256_bytes sha s)"
    by (simp add: is_sha256_def sha256_bytes_def bytes_to_hex_plain digest32_def)
qed

text \<open>The payload does not hold the hash, so sealing leaves it as it is.\<close>

lemma seal_payload [simp]: "render_current_state_v2_payload (seal_snapshot sha s) = render_current_state_v2_payload s"
  by (simp add: seal_snapshot_def render_current_state_v2_payload_def current_payload_members_def)

text \<open>What a transition brings along: the identity, the workflow it makes active, its last event.\<close>

definition transition_inputs_valid ::
  "runtime_identity \<Rightarrow> workflow_record option \<Rightarrow> ledger_binding \<Rightarrow> bool" where
  "transition_inputs_valid identity active binding \<longleftrightarrow>
     current_id_valid (ri_project_id identity) \<and> current_id_valid (ri_session_id identity)
     \<and> pred_option (\<lambda>w. workflow_binding_valid (binding_of_workflow w)) active
     \<and> binding_valid binding \<and> pred_option current_id_valid (lb_event_id binding)"

definition transition_inputs_plain ::
  "runtime_identity \<Rightarrow> string option \<Rightarrow> compaction_boundary_update \<Rightarrow> bool" where
  "transition_inputs_plain identity resume boundary \<longleftrightarrow>
     plain_text (ri_project_root identity) \<and> pred_option plain_text resume
     \<and> (case boundary of PreserveBoundary \<Rightarrow> True | SetBoundary b \<Rightarrow> plain_text b)"

lemma transition_image_cases:
  assumes "prepare_state_transition_current_image sha identity resume active binding previous boundary = Inr img"
  obtains revision where
    "unat revision = (case previous of None \<Rightarrow> 0 | Some p \<Rightarrow> unat (cs_revision p)) + 1" "revision \<noteq> 0"
    "img = image_of_snapshot (seal_snapshot sha
       (next_snapshot identity resume active binding previous boundary revision))"
proof -
  from assms obtain revision where
    rev: "(case previous of None \<Rightarrow> Inr 1
       | Some p \<Rightarrow> ok_or (blocked_error ''current-state revision overflow'' []) (checked_add (cs_revision p) 1)) = Inr revision"
    and img: "img = image_of_snapshot (seal_snapshot sha
       (next_snapshot identity resume active binding previous boundary revision))"
    unfolding prepare_state_transition_current_image_def rbind_Inr_iff by blast
  have *: "unat revision = (case previous of None \<Rightarrow> 0 | Some p \<Rightarrow> unat (cs_revision p)) + 1"
    using rev by (cases previous) (auto simp: ok_or_Inr_iff checked_add_Some_iff)
  then have "revision \<noteq> 0" by auto
  from * this img show thesis by (rule that)
qed

lemma transition_snapshot_valid:
  assumes "digest32 sha" "transition_inputs_valid identity active binding"
    and "pred_option (current_state_valid sha) previous" "revision \<noteq> 0"
  shows "current_state_valid sha (seal_snapshot sha
    (next_snapshot identity resume active binding previous boundary revision))"
  using assms(2-4) unfolding current_state_valid_def [of sha "seal_snapshot _ _"] seal_payload
  by (cases previous; cases active)
    (simp_all add: seal_snapshot_def next_snapshot_def transition_inputs_valid_def
      sha256_bytes_is_sha256 [OF assms(1)] current_state_valid_def [of sha])

lemma transition_snapshot_plain:
  assumes "transition_inputs_plain identity resume boundary" "pred_option plain_snapshot previous"
  shows "plain_snapshot (seal_snapshot sha
    (next_snapshot identity resume active binding previous boundary revision))"
  using assms
  by (cases previous; cases boundary)
    (simp_all add: plain_snapshot_def seal_snapshot_def next_snapshot_def transition_inputs_plain_def)

lemma transition_image_parses:
  assumes "digest32 sha" "transition_inputs_valid identity active binding"
    and "transition_inputs_plain identity resume boundary"
    and "pred_option (\<lambda>p. current_state_valid sha p \<and> plain_snapshot p) previous"
    and "prepare_state_transition_current_image sha identity resume active binding previous boundary = Inr img"
  obtains revision where
    "unat revision = (case previous of None \<Rightarrow> 0 | Some p \<Rightarrow> unat (cs_revision p)) + 1" "revision \<noteq> 0"
    "img = image_of_snapshot (seal_snapshot sha
       (next_snapshot identity resume active binding previous boundary revision))"
    "\<And>ambient ctxt. parse_current_state sha ambient (ci_bytes img) ctxt =
       Inr (seal_snapshot sha (next_snapshot identity resume active binding previous boundary revision))"
proof -
  have previous: "pred_option (current_state_valid sha) previous" "pred_option plain_snapshot previous"
    using assms(4) by (cases previous; simp)+
  from assms(5) show thesis
  proof (rule transition_image_cases)
    fix revision
    let ?s = "seal_snapshot sha (next_snapshot identity resume active binding previous boundary revision)"
    assume r: "unat revision = (case previous of None \<Rightarrow> 0 | Some p \<Rightarrow> unat (cs_revision p)) + 1" "revision \<noteq> 0"
      and img: "img = image_of_snapshot ?s"
    have "parse_current_state sha ambient (ci_bytes img) ctxt = Inr ?s" for ambient ctxt
      using current_state_reads_back [OF transition_snapshot_plain [OF assms(3) previous(2)]
          transition_snapshot_valid [OF assms(1,2) previous(1) r(2)]]
      by (simp add: img image_of_snapshot_def)
    from r img this show thesis by (rule that)
  qed
qed

section \<open>The properties\<close>

definition wit_snapshot :: current_state_snapshot where
  "wit_snapshot = seal_snapshot wit_sha (next_snapshot
     \<lparr>ri_project_id = ''project-1'', ri_session_id = ''session-1'', ri_project_root = ''/work''\<rparr> None None
     \<lparr>lb_event_count = 0, lb_event_id = None, lb_event_hash = ''root''\<rparr> None PreserveBoundary 1)"

lemma wit_inputs:
  "transition_inputs_valid \<lparr>ri_project_id = ''project-1'', ri_session_id = ''session-1'', ri_project_root = ''/work''\<rparr>
     None \<lparr>lb_event_count = 0, lb_event_id = None, lb_event_hash = ''root''\<rparr>"
  by (simp add: transition_inputs_valid_def current_id_valid_def current_id_byte_def binding_valid_def
      is_ascii_alphanumeric_def is_ascii_uppercase_def is_ascii_lowercase_def is_ascii_digit_def)

lemma wit_plain_text: "plain_text ''/work'' \<and> plain_text ''resume-1''"
  by (auto intro!: plain_text_chars simp: plain_char_def)

lemma wit_plain_inputs: "pred_option (\<lambda>r. r = ''resume-1'') resume \<Longrightarrow>
  transition_inputs_plain \<lparr>ri_project_id = ''project-1'', ri_session_id = ''session-1'', ri_project_root = ''/work''\<rparr>
    resume PreserveBoundary"
  by (cases resume) (simp_all add: transition_inputs_plain_def wit_plain_text)

lemma wit_snapshot_valid: "current_state_valid wit_sha wit_snapshot" "plain_snapshot wit_snapshot"
  unfolding wit_snapshot_def
  by (rule transition_snapshot_valid [OF wit_digest wit_inputs], simp, simp)
    (rule transition_snapshot_plain [OF wit_plain_inputs], simp_all)

section \<open>Compare and set\<close>

lemma install_success:
  assumes "install_state_current sha ambient outcome bundle bytes file = (Inr (), file')"
  shows "file' = Some bytes"
  using assms
  by (auto simp: install_state_current_def validate_state_transition_current_cas_def atomic_replace_def rbind_Inr_iff
      split: sum.splits bool.splits replace_outcome.splits if_splits option.splits)

lemma install_unexpected:
  assumes "validate_state_transition_current_cas sha ambient bundle file bytes = Inl e"
  shows "install_state_current sha ambient outcome bundle bytes file = (Inl e, file)"
  using assms by (simp add: install_state_current_def)

text \<open>The bundle a transition prepares over \<open>previous\<close> names its revision and, past the first, its hash.\<close>

definition prepared_over :: "current_state_snapshot option \<Rightarrow> prepared_source_bundle \<Rightarrow> bool" where
  "prepared_over previous bundle \<longleftrightarrow>
     (case previous of
        None \<Rightarrow> bu_current_revision bundle = 0
      | Some p \<Rightarrow> bu_current_revision bundle = cs_revision p \<and> bu_current_artifact_hash bundle = cs_artifact_hash p)"

text \<open>
  C35 No update is lost: of two transitions prepared over the same current state, once the image of
  the first is installed the second is refused and the file keeps the first image.
\<close>

theorem no_lost_update:
  assumes "digest32 sha" "transition_inputs_valid identity active binding"
    and "transition_inputs_plain identity resume boundary"
    and previous: "pred_option (\<lambda>p. current_state_valid sha p \<and> plain_snapshot p) previous"
    and "prepare_state_transition_current_image sha identity resume active binding previous boundary = Inr img"
    and first: "install_state_current sha ambient outcome bundle (ci_bytes img) file = (Inr (), file')"
    and second: "prepared_over previous bundle2" "bytes2 \<noteq> ci_bytes img"
    and fresh: "sha256_bytes sha (ci_bytes img) \<noteq> bu_current_artifact_hash bundle2"
  shows "\<exists>e. install_state_current sha ambient2 outcome2 bundle2 bytes2 file' = (Inl e, Some (ci_bytes img))"
proof -
  have file': "file' = Some (ci_bytes img)" using install_success [OF first] .
  from assms(1-5) obtain s where s: "\<And>ambient ctxt. parse_current_state sha ambient (ci_bytes img) ctxt = Inr s"
    and revision: "unat (cs_revision s) = (case previous of None \<Rightarrow> 0 | Some p \<Rightarrow> unat (cs_revision p)) + 1"
    by (rule transition_image_parses) (simp add: seal_snapshot_def next_snapshot_def)
  have "\<exists>e. validate_state_transition_current_cas sha ambient2 bundle2 (Some (ci_bytes img)) bytes2 = Inl e"
  proof (cases "bu_current_revision bundle2 = 0")
    case True
    with fresh second(2) show ?thesis by (simp add: validate_state_transition_current_cas_def)
  next
    case False
    with second(1) obtain p where "previous = Some p" and p: "bu_current_revision bundle2 = cs_revision p"
      by (auto simp: prepared_over_def split: option.splits)
    with revision have "cs_revision s \<noteq> bu_current_revision bundle2" by auto
    with False second(2) show ?thesis
      by (simp add: validate_state_transition_current_cas_def read_utf8_def s)
  qed
  with install_unexpected file' show ?thesis by blast
qed

definition wit_bundle :: prepared_source_bundle where
  "wit_bundle = \<lparr>bu_intent_id = ''i'', bu_intent_kind = ''session-start'', bu_project_id = ''project-1'',
     bu_session_id = ''session-1'', bu_workflow_id = None, bu_prepared_at_ms = 1, bu_current_revision = 0,
     bu_current_artifact_hash = ''missing'',
     bu_ledger_binding = \<lparr>lb_event_count = 0, lb_event_id = None, lb_event_hash = ''root''\<rparr>,
     bu_source_install = None, bu_before_bytes = None, bu_proposed_bytes = None, bu_additional_members = [],
     bu_semantic_events = [], bu_event_chain_plan = [], bu_projection_lag_member_index = None\<rparr>"

lemma missing_not_hash: "digest32 sha \<Longrightarrow> sha256_bytes sha x \<noteq> ''missing''"
  using sha256_bytes_is_sha256 [of sha x] by (auto simp: is_sha256_def dest: arg_cong [where f = length])

lemma no_lost_update_witness:
  "\<exists>(img :: prepared_current_image) e. ci_bytes img = render_current_state_v2 wit_snapshot
     \<and> install_state_current wit_sha (Inl (runtime_error [] [])) Replaced wit_bundle (ci_bytes img) None = (Inr (), Some (ci_bytes img))
     \<and> install_state_current wit_sha (Inl (runtime_error [] [])) Replaced wit_bundle [] (Some (ci_bytes img)) = (Inl e, Some (ci_bytes img))"
proof -
  let ?id = "\<lparr>ri_project_id = ''project-1'', ri_session_id = ''session-1'', ri_project_root = ''/work''\<rparr>"
  let ?b = "\<lparr>lb_event_count = 0, lb_event_id = None, lb_event_hash = ''root''\<rparr>"
  let ?img = "image_of_snapshot wit_snapshot"
  have img: "prepare_state_transition_current_image wit_sha ?id None None ?b None PreserveBoundary = Inr ?img"
    by (simp add: prepare_state_transition_current_image_def wit_snapshot_def)
  have bytes: "ci_bytes ?img = render_current_state_v2 wit_snapshot" by (simp add: image_of_snapshot_def)
  then have ne: "[] \<noteq> ci_bytes ?img" by (simp add: render_current_state_v2_def)
  have first: "install_state_current wit_sha (Inl (runtime_error [] [])) Replaced wit_bundle (ci_bytes ?img) None
      = (Inr (), Some (ci_bytes ?img))"
    by (simp add: install_state_current_def validate_state_transition_current_cas_def wit_bundle_def atomic_replace_def)
  have over: "prepared_over None wit_bundle" "sha256_bytes wit_sha (ci_bytes ?img) \<noteq> bu_current_artifact_hash wit_bundle"
    by (simp_all add: prepared_over_def wit_bundle_def missing_not_hash [OF wit_digest])
  from no_lost_update [OF wit_digest wit_inputs wit_plain_inputs _ img first over(1) ne over(2)]
  obtain e where "install_state_current wit_sha (Inl (runtime_error [] [])) Replaced wit_bundle [] (Some (ci_bytes ?img)) =
      (Inl e, Some (ci_bytes ?img))" by auto
  with first bytes show ?thesis by blast
qed

text \<open>
  Installing an image can be interrupted anywhere and done again: whatever the first attempt
  made of the file, a later attempt over what it left ends with the prepared bytes in place, and
  one that already holds them is not written again.
\<close>

theorem install_retry_completes:
  assumes "validate_state_transition_current_cas sha ambient bundle file bytes = Inr installed"
    and "install_state_current sha ambient outcome bundle bytes file = (r, file')"
  shows "install_state_current sha ambient Replaced bundle bytes file' = (Inr (), Some bytes)
    \<and> (r = Inr () \<longrightarrow> install_state_current sha ambient2 outcome2 bundle bytes file' = (Inr (), file'))
    \<and> (installed \<longrightarrow> file' = file)"
proof -
  have completed: "install_state_current sha a out b bytes (Some bytes) = (Inr (), Some bytes)" for a out b
    by (simp add: install_state_current_def validate_state_transition_current_cas_def)
  have "installed \<Longrightarrow> file = Some bytes"
    using assms(1)
    by (auto simp: validate_state_transition_current_cas_def rbind_Inr_iff split: if_splits option.splits)
  moreover have "r = Inr () \<longrightarrow> file' = Some bytes" using assms(2) install_success by blast
  moreover have "file' = file \<or> file' = Some bytes" "installed \<longrightarrow> file' = file"
    using assms
    by (auto simp: install_state_current_def atomic_replace_def split: bool.splits replace_outcome.splits)
  moreover have "\<not> installed \<Longrightarrow> install_state_current sha ambient Replaced bundle bytes file = (Inr (), Some bytes)"
    using assms(1) by (simp add: install_state_current_def atomic_replace_def)
  ultimately show ?thesis using completed by (cases installed) auto
qed

lemma install_retry_completes_witness:
  "install_state_current wit_sha (Inl (runtime_error [] [])) Replaced wit_bundle ''{}''
     (snd (install_state_current wit_sha (Inl (runtime_error [] [])) NotReplaced wit_bundle ''{}'' None)) = (Inr (), Some ''{}'')"
proof -
  have "validate_state_transition_current_cas wit_sha (Inl (runtime_error [] [])) wit_bundle None ''{}'' = Inr False"
    by (simp add: validate_state_transition_current_cas_def wit_bundle_def)
  from install_retry_completes [OF this] show ?thesis by (metis surjective_pairing)
qed

text \<open>
  What the preparation of a state transition builds, its validation accepts: the current member
  made of the prepared image passes the check of the bundle it was prepared for, and decodes to the
  same image.
\<close>

theorem prepared_current_member_accepted:
  assumes "digest32 sha" "transition_inputs_valid identity active binding"
    and "transition_inputs_plain identity resume boundary"
    and "pred_option (\<lambda>p. current_state_valid sha p \<and> plain_snapshot p) previous"
    and "prepare_state_transition_current_image sha identity resume active binding previous boundary = Inr img"
    and "pred_option (\<lambda>w. validate_workflow_id (wr_workflow_id w) = Inr ()) active"
    and over: "prepared_over previous bundle"
    and bu: "bu_project_id bundle = ri_project_id identity" "bu_session_id bundle = ri_session_id identity"
      "bu_event_chain_plan bundle \<noteq> []" "chain_binding (last (bu_event_chain_plan bundle)) = binding"
    and expected: "expected_type =
      (if bu_current_revision bundle = 0 \<and> bu_current_artifact_hash bundle = ''missing'' then ''absent'' else ''file'')"
    and member: "m = state_transition_current_member img (ec_event_id (last (bu_event_chain_plan bundle))) causal expected_type"
    and members: "bu_additional_members bundle = ms @ [m]"
  shows "prepared_state_current_image sha ambient bundle = Inr img"
proof -
  from assms(1-5) show ?thesis
  proof (rule transition_image_parses)
    fix revision
    let ?s = "seal_snapshot sha (next_snapshot identity resume active binding previous boundary revision)"
    assume r: "unat revision = (case previous of None \<Rightarrow> 0 | Some p \<Rightarrow> unat (cs_revision p)) + 1" "revision \<noteq> 0"
      and img: "img = image_of_snapshot ?s"
      and parsed: "\<And>ambient ctxt. parse_current_state sha ambient (ci_bytes img) ctxt = Inr ?s"
    have "unat revision = unat (bu_current_revision bundle) + 1"
      using r(1) over by (cases previous) (simp_all add: prepared_over_def)
    then have succ: "checked_add (bu_current_revision bundle) 1 = Some revision"
      by (simp add: checked_add_Some_iff)
    have prev: "cs_previous_artifact_hash ?s =
        (if bu_current_revision bundle = 0 then ''none'' else bu_current_artifact_hash bundle)"
      using over assms(4)
      by (cases previous) (simp_all add: prepared_over_def seal_snapshot_def next_snapshot_def current_state_valid_def)
    have "current_member_bound sha bundle m (last (bu_event_chain_plan bundle)) revision ?s"
      unfolding current_member_bound_def
      by (simp only: prev)
        (simp add: member state_transition_current_member_def img image_of_snapshot_def expected bu
          seal_snapshot_def next_snapshot_def render_current_state_v2_payload_def current_payload_members_def)
    moreover have "case cs_active_workflow ?s of None \<Rightarrow> True | Some w \<Rightarrow>
        validate_workflow_id (cb_workflow_id w) = Inr () \<and> cb_revision w \<noteq> 0 \<and> length (cb_artifact_hash w) = 64"
      using assms(2,6)
      by (cases active) (simp_all add: seal_snapshot_def next_snapshot_def transition_inputs_valid_def
          workflow_binding_valid_def binding_of_workflow_def is_sha256_def)
    moreover have "pm_bytes_utf8 m = ci_bytes img" "pm_path m = ci_stored_path img"
      by (simp_all add: member state_transition_current_member_def)
    ultimately show ?thesis
      by (cases "cs_active_workflow ?s")
        (simp_all add: prepared_state_current_image_def members validate_prepared_state_current_member_def
          parsed bu succ, simp_all add: img image_of_snapshot_def)
  qed
qed

definition wit_chain :: prepared_event_chain where
  "wit_chain = \<lparr>ec_event_id = ''event-1'', ec_ordinal = 1, ec_previous_event_hash = ''root'',
     ec_event_hash = sha256_bytes wit_sha []\<rparr>"

lemma wit_chain_inputs:
  "transition_inputs_valid \<lparr>ri_project_id = ''project-1'', ri_session_id = ''session-1'', ri_project_root = ''/work''\<rparr>
     None (chain_binding wit_chain)"
  using wit_inputs
  by (simp add: transition_inputs_valid_def chain_binding_def wit_chain_def binding_valid_def
      sha256_bytes_is_sha256 [OF wit_digest] current_id_valid_def current_id_byte_def
      is_ascii_alphanumeric_def is_ascii_lowercase_def is_ascii_digit_def)

lemma prepared_current_member_accepted_witness:
  "\<exists>(img :: prepared_current_image). ci_revision img = 1
     \<and> prepared_state_current_image wit_sha (Inl (runtime_error [] []))
         (wit_bundle\<lparr>bu_event_chain_plan := [wit_chain],
            bu_additional_members := [state_transition_current_member img ''event-1'' None ''absent'']\<rparr>) = Inr img"
proof -
  let ?id = "\<lparr>ri_project_id = ''project-1'', ri_session_id = ''session-1'', ri_project_root = ''/work''\<rparr>"
  let ?s = "seal_snapshot wit_sha (next_snapshot ?id None None (chain_binding wit_chain) None PreserveBoundary 1)"
  let ?img = "image_of_snapshot ?s"
  let ?m = "state_transition_current_member ?img ''event-1'' None ''absent''"
  let ?bu = "wit_bundle\<lparr>bu_event_chain_plan := [wit_chain], bu_additional_members := [?m]\<rparr>"
  have img: "prepare_state_transition_current_image wit_sha ?id None None (chain_binding wit_chain) None PreserveBoundary = Inr ?img"
    by (simp add: prepare_state_transition_current_image_def)
  have rev: "ci_revision ?img = 1" by (simp add: image_of_snapshot_def seal_snapshot_def next_snapshot_def)
  have "prepared_state_current_image wit_sha (Inl (runtime_error [] [])) ?bu = Inr ?img"
    by (rule prepared_current_member_accepted [OF wit_digest wit_chain_inputs wit_plain_inputs _ img,
          where expected_type = "''absent''" and m = ?m and causal = None and ms = "[]"])
      (simp_all add: prepared_over_def wit_bundle_def, simp add: wit_chain_def)
  with rev show ?thesis by blast
qed

end
