(* ===== verification/Current_Promotion.thy ===== *)
theory Current_Promotion
  imports Current_Image Ledger_Store
begin

text \<open>
  \<open>current_snapshot/promotion.rs\<close>: a schema 1 current state is replaced by its schema 2 image, and
  \<open>transition_commit.rs\<close>: the state a transition starts from, promoted first when it has to be.
  Each write may fail as the next outcome says, after which the files keep what was done. The lease
  a promotion takes first is not modelled: the steps are those of its holder. The load of the
  workflow a state binds (\<open>load_workflow_under_transition\<close>) is a parameter.
\<close>

section \<open>The files\<close>

text \<open>
  The current state, the promotion's temporary file, and the diagnostics it sets aside, by the hash
  in their name.
\<close>

record promotion_fs =
  pf_current :: "string option"
  pf_temp :: "string option"
  pf_diagnostics :: "string \<Rightarrow> string option"
  pf_outcomes :: "io_outcome list"

text \<open>
  A change of the files: \<open>Io_error 0\<close> fails before it, any other error after it (the sync of the
  directory, or a stop in between).
\<close>

definition promotion_step :: "app_error \<Rightarrow> (promotion_fs \<Rightarrow> promotion_fs) \<Rightarrow> (promotion_fs, unit) effect" where
  "promotion_step err change fs =
     (let fs' = fs\<lparr>pf_outcomes := tl (pf_outcomes fs)\<rparr>
      in case (case pf_outcomes fs of [] \<Rightarrow> Io_ok | o' # _ \<Rightarrow> o') of
           Io_ok \<Rightarrow> (Inr (), change fs')
         | Io_error 0 \<Rightarrow> (Inl err, fs')
         | Io_error (Suc _) \<Rightarrow> (Inl err, change fs'))"

text \<open>
  \<open>create_new\<close>, the permissions, \<open>write_all\<close> and \<open>sync_all\<close>: \<open>Io_error (Suc n)\<close> leaves the first \<open>n\<close>
  bytes.
\<close>

definition create_promotion_temp :: "string \<Rightarrow> (promotion_fs, unit) effect" where
  "create_promotion_temp bytes fs =
     (let fs' = fs\<lparr>pf_outcomes := tl (pf_outcomes fs)\<rparr>
      in case (case pf_outcomes fs of [] \<Rightarrow> Io_ok | o' # _ \<Rightarrow> o') of
           Io_ok \<Rightarrow> (Inr (), fs'\<lparr>pf_temp := Some bytes\<rparr>)
         | Io_error 0 \<Rightarrow> (Inl (runtime_error ''current-state promotion temp create'' []), fs')
         | Io_error (Suc n) \<Rightarrow>
             (Inl (runtime_error ''current-state promotion temp write'' []), fs'\<lparr>pf_temp := Some (take n bytes)\<rparr>))"

section \<open>Promotion (promotion.rs)\<close>

definition same_v1_promotion_except_ledger :: "current_state_snapshot \<Rightarrow> current_state_snapshot \<Rightarrow> bool" where
  "same_v1_promotion_except_ledger l r \<longleftrightarrow>
     cs_schema_version l = 2 \<and> cs_revision l = 1
     \<and> cs_previous_artifact_hash l = cs_previous_artifact_hash r \<and> cs_project_id l = cs_project_id r
     \<and> cs_project_root l = cs_project_root r \<and> cs_session_id l = cs_session_id r
     \<and> cs_active_workflow l = cs_active_workflow r \<and> cs_parent_session_id l = cs_parent_session_id r
     \<and> cs_branch_from_event_id l = cs_branch_from_event_id r
     \<and> cs_compaction_boundary l = cs_compaction_boundary r \<and> cs_resume_source l = cs_resume_source r"

definition preserve_stale_promotion_temp :: "hasher \<Rightarrow> string \<Rightarrow> (promotion_fs, unit) effect" where
  "preserve_stale_promotion_temp sha bytes fs =
     (let name = sha256_bytes sha bytes
      in case pf_diagnostics fs name of
           Some _ \<Rightarrow>
             (case read_utf8 (blocked_error ''promotion diagnostic read'' []) (pf_diagnostics fs name) of
                Inl e \<Rightarrow> (Inl e, fs)
              | Inr existing \<Rightarrow>
                  if existing \<noteq> bytes
                  then (Inl (blocked_error ''current-state promotion diagnostic hash conflict'' []), fs)
                  else promotion_step (runtime_error ''stale promotion temp removal'' []) (pf_temp_update (\<lambda>_. None)) fs)
         | None \<Rightarrow>
             promotion_step (runtime_error ''stale promotion temp preservation'' [])
               (\<lambda>g. g\<lparr>pf_temp := None, pf_diagnostics := (pf_diagnostics g)(name := pf_temp g)\<rparr>) fs)"

text \<open>\<open>load_workflow_under_transition\<close> of the active workflow is the parameter \<open>load\<close>.\<close>

definition promoted_workflow ::
  "(string \<Rightarrow> workflow_record result) \<Rightarrow> current_state_snapshot \<Rightarrow> current_workflow_binding option result" where
  "promoted_workflow load current =
     (case cs_active_workflow current of
        None \<Rightarrow> Inr None
      | Some b \<Rightarrow> rbind (load (cb_workflow_id b)) (\<lambda>w. Inr (Some (binding_of_workflow w))))"

definition promoted_snapshot ::
  "hasher \<Rightarrow> (string \<Rightarrow> workflow_record result) \<Rightarrow> current_state_snapshot \<Rightarrow> current_state_snapshot result" where
  "promoted_snapshot sha load current =
     rbind (ok_or (blocked_error ''legacy current-state canonical hash'' []) (cs_legacy_canonical_hash current)) (\<lambda>previous.
     rbind (promoted_workflow load current) (\<lambda>active.
       Inr (seal_snapshot sha
         \<lparr>cs_schema_version = 2, cs_revision = 1, cs_previous_artifact_hash = previous,
          cs_project_id = cs_project_id current, cs_project_root = cs_project_root current,
          cs_session_id = cs_session_id current, cs_active_workflow = active,
          cs_parent_session_id = cs_parent_session_id current,
          cs_branch_from_event_id = cs_branch_from_event_id current,
          cs_compaction_boundary = cs_compaction_boundary current,
          cs_resume_source = cs_resume_source current,
          cs_ledger_binding = \<lparr>lb_event_count = 0, lb_event_id = None, lb_event_hash = ''root''\<rparr>,
          cs_artifact_hash = [], cs_legacy_canonical_hash = None\<rparr>)))"

text \<open>A temporary file left by an earlier attempt is used, set aside, or refused.\<close>

definition check_promotion_temp ::
  "hasher \<Rightarrow> current_state_snapshot \<Rightarrow> (promotion_fs, unit) effect" where
  "check_promotion_temp sha promoted fs =
     (if pf_temp fs = None then (Inr (), fs)
      else case rbind (read_utf8 (blocked_error ''current-state promotion temp read'' []) (pf_temp fs)) (\<lambda>temp_body.
                rbind (parse_current_state_v2 sha temp_body ''current-state promotion temp'') (\<lambda>temp.
                  Inr (temp_body, temp))) of
          Inl e \<Rightarrow> (Inl e, fs)
        | Inr (temp_body, temp) \<Rightarrow>
            if temp_body = render_current_state_v2 promoted then (Inr (), fs)
            else if same_v1_promotion_except_ledger temp promoted \<and> cs_ledger_binding temp \<noteq> cs_ledger_binding promoted
            then preserve_stale_promotion_temp sha temp_body fs
            else (Inl (blocked_error ''promotion temp not derived from v1'' []), fs))"

definition install_promotion ::
  "hasher \<Rightarrow> current_state_snapshot \<Rightarrow> (promotion_fs, unit) effect" where
  "install_promotion sha promoted =
     (let prepared = render_current_state_v2 promoted
      in sthen (check_promotion_temp sha promoted)
        (sthen (\<lambda>fs. if pf_temp fs = None then create_promotion_temp prepared fs else (Inr (), fs))
        (sthen (promotion_step (runtime_error ''current-state promotion replace'' [])
                  (\<lambda>g. g\<lparr>pf_current := pf_temp g, pf_temp := None\<rparr>))
          (\<lambda>fs. (rbind (read_utf8 (blocked_error ''promoted current-state reread'' []) (pf_current fs)) (\<lambda>installed.
                  if installed \<noteq> prepared then Inl (blocked_error ''promoted current-state bytes'' [])
                  else rbind (parse_current_state_v2 sha installed ''promoted current-state'') (\<lambda>s.
                    if s \<noteq> promoted then Inl (blocked_error ''promoted current-state binding'' []) else Inr ())), fs)))))"

text \<open>A state that already is schema 2 only loses a redundant temporary file.\<close>

definition drop_redundant_temp :: "hasher \<Rightarrow> string \<Rightarrow> (promotion_fs, unit) effect" where
  "drop_redundant_temp sha current_body fs =
     (if pf_temp fs = None then (Inr (), fs)
      else case rbind (read_utf8 (blocked_error ''current-state promotion temp read'' []) (pf_temp fs)) (\<lambda>temp_body.
                rbind (parse_current_state_v2 sha temp_body ''current-state promotion redundant temp'') (\<lambda>_.
                  if temp_body \<noteq> current_body then Inl (blocked_error ''promotion temp differs from v2'' [])
                  else Inr ())) of
          Inl e \<Rightarrow> (Inl e, fs)
        | Inr _ \<Rightarrow> promotion_step (runtime_error ''redundant promotion temp removal'' []) (pf_temp_update (\<lambda>_. None)) fs)"

definition promote_current_state_v1 ::
  "hasher \<Rightarrow> ledger_binding result \<Rightarrow> (string \<Rightarrow> workflow_record result) \<Rightarrow> (promotion_fs, unit) effect" where
  "promote_current_state_v1 sha ambient load fs =
     (case rbind (read_utf8 (blocked_error ''current-state promotion read'' []) (pf_current fs)) (\<lambda>current_body.
           rbind (parse_current_state sha ambient current_body ''current-state promotion source'') (\<lambda>current.
             Inr (current_body, current))) of
        Inl e \<Rightarrow> (Inl e, fs)
      | Inr (current_body, current) \<Rightarrow>
          if cs_schema_version current = 2 then drop_redundant_temp sha current_body fs
          else if cs_schema_version current \<noteq> 1
          then (Inl (blocked_error ''current-state promotion schema'' []), fs)
          else case promoted_snapshot sha load current of
              Inl e \<Rightarrow> (Inl e, fs)
            | Inr promoted \<Rightarrow> install_promotion sha promoted fs)"

section \<open>The state a transition starts from (transition\_commit.rs)\<close>

text \<open>The code calls itself again after a promotion; \<open>None\<close> would be a call that never returns.\<close>

partial_function (option) read_valid_current_for_transition ::
  "hasher \<Rightarrow> ledger_binding result \<Rightarrow> (string \<Rightarrow> workflow_record result) \<Rightarrow> promotion_fs \<Rightarrow>
   (current_state_snapshot option result \<times> promotion_fs) option" where
  "read_valid_current_for_transition sha ambient load fs =
     (if pf_current fs = None then Some (Inr None, fs)
      else case rbind (read_utf8 (blocked_error ''current-state transition precondition read'' []) (pf_current fs)) (\<lambda>body.
                parse_current_state sha ambient body ''current-state transition precondition'') of
          Inl e \<Rightarrow> Some (Inl e, fs)
        | Inr s \<Rightarrow>
            if cs_schema_version s = 1
            then (case promote_current_state_v1 sha ambient load fs of
                    (Inl e, fs') \<Rightarrow> Some (Inl e, fs')
                  | (Inr _, fs') \<Rightarrow> read_valid_current_for_transition sha ambient load fs')
            else Some (Inr (Some s), fs))"

end
