(* ===== verification/Promotion_Properties.thy ===== *)
theory Promotion_Properties
  imports Current_State_Properties Current_Promotion Json_Torn
begin

text \<open>
  A promotion is all or nothing, a transition always finds out which state it starts from, and a
  temporary file that cannot be read stops every promotion after it.
\<close>

section \<open>Versions\<close>

lemma parse_value_ctxt: "parse_value body c = Inr v \<Longrightarrow> parse_value body c' = Inr v"
  by (auto simp: parse_value_def rbind_Inr_iff split: prod.splits if_splits)

lemma parse_object_reads:
  assumes "parse_object body keys c = Inr obj"
  shows "parse_value body c = Inr (JObject obj) \<and> set (object_keys obj) \<subseteq> set keys"
proof -
  from assms obtain v where v: "parse_value body c = Inr v"
    and obj: "(case v of JObject obj \<Rightarrow>
        (case find (\<lambda>k. k \<notin> set keys) (object_keys obj) of
           Some key \<Rightarrow> Inl (json_blocked c (''unknown key: '' @ key)) | None \<Rightarrow> Inr obj)
      | _ \<Rightarrow> Inl (json_blocked c ''root must be an object'')) = Inr obj"
    unfolding parse_object_def rbind_Inr_iff by blast
  from obj have "v = JObject obj" "find (\<lambda>k. k \<notin> set keys) (object_keys obj) = None"
    by (cases v; simp split: option.splits)+
  with v show ?thesis by (auto simp: find_None_iff)
qed

lemma parse_v2_object:
  assumes "parse_current_state_v2 sha body c = Inr s"
  shows "\<exists>obj. parse_value body c = Inr (JObject obj) \<and> object_keys obj = current_state_v2_keys"
proof -
  from assms obtain obj where "parse_object body current_state_v2_keys c = Inr obj" "object_keys obj = current_state_v2_keys"
    unfolding parse_current_state_v2_def parse_object_exact_order_def rbind_Inr_iff rbind_if_Inr by auto
  then show ?thesis using parse_object_reads by blast
qed

lemma parse_v1_object: "parse_current_state_v1 sha ambient body v c = Inr s \<Longrightarrow>
  \<exists>obj. parse_value body c = Inr (JObject obj) \<and> set (object_keys obj) \<subseteq> set current_state_v1_keys"
  unfolding parse_current_state_v1_def rbind_Inr_iff using parse_object_reads by blast

text \<open>A text is not read as both versions, whatever the ledger and the caller.\<close>

lemma v2_not_v1:
  assumes "parse_current_state_v2 sha body c = Inr s" "parse_current_state sha ambient body c' = Inr s'"
  shows "cs_schema_version s' = 2"
proof (rule ccontr)
  assume no: "cs_schema_version s' \<noteq> 2"
  obtain obj where o2: "parse_value body c' = Inr (JObject obj)" "object_keys obj = current_state_v2_keys"
    using parse_v2_object [OF assms(1)] parse_value_ctxt by blast
  have "parse_current_state_v2 sha body c' \<noteq> Inr s'" using no parse_v2_valid
    by (auto simp: current_state_valid_def)
  with assms(2) o2 have "parse_current_state_v1 sha ambient body (JObject obj) c' = Inr s'"
    by (auto simp: parse_current_state_def rbind_Inr_iff split: if_splits)
  then have "set (object_keys obj) \<subseteq> set current_state_v1_keys" using parse_v1_object o2(1) by fastforce
  with o2(2) show False by (simp add: current_state_v1_keys_def current_state_v2_keys_def)
qed

lemma parse_current_v2:
  assumes "parse_current_state sha ambient body c = Inr s" "cs_schema_version s = 2"
  shows "parse_current_state_v2 sha body c = Inr s"
proof -
  from assms(1) obtain v where
    "(case v of JObject root \<Rightarrow>
        rbind (json_number root ''schema_version'' c) (\<lambda>schema.
          if schema = 1 then parse_current_state_v1 sha ambient body v c
          else if schema = 2 then parse_current_state_v2 sha body c
          else Inl (blocked_error ''unsupported schema version'' [c]))
      | _ \<Rightarrow> Inl (blocked_error ''root must be object'' [c])) = Inr s"
    unfolding parse_current_state_def rbind_Inr_iff by blast
  then consider "parse_current_state_v1 sha ambient body v c = Inr s" | "parse_current_state_v2 sha body c = Inr s"
    by (cases v) (auto simp: rbind_Inr_iff split: if_splits)
  then show ?thesis using parse_v1_version assms(2) by cases auto
qed

section \<open>What a promotion leaves\<close>

lemma promotion_step_current:
  assumes "promotion_step err change fs = (r, fs')" "\<And>os. pf_current (change (fs\<lparr>pf_outcomes := os\<rparr>)) = pf_current fs"
  shows "pf_current fs' = pf_current fs"
  using assms by (auto simp: promotion_step_def Let_def split: io_outcome.splits nat.splits list.splits)

lemma create_temp_cases:
  assumes "create_promotion_temp bytes fs = (r, fs')"
  shows "pf_current fs' = pf_current fs \<and> (r = Inr () \<longrightarrow> pf_temp fs' = Some bytes)"
  using assms by (auto simp: create_promotion_temp_def Let_def split: io_outcome.splits nat.splits list.splits)

lemma preserve_temp_current:
  assumes "preserve_stale_promotion_temp sha bytes fs = (r, fs')"
  shows "pf_current fs' = pf_current fs \<and> (r = Inr () \<longrightarrow> pf_temp fs' = None)"
  using assms
  by (auto simp: preserve_stale_promotion_temp_def promotion_step_def Let_def
      split: option.splits sum.splits if_splits io_outcome.splits nat.splits list.splits)

lemma check_temp_cases:
  assumes "check_promotion_temp sha promoted fs = (r, fs')"
  shows "pf_current fs' = pf_current fs
    \<and> (r = Inr () \<longrightarrow> pf_temp fs' = None \<or> pf_temp fs' = Some (render_current_state_v2 promoted))"
proof (cases "pf_temp fs")
  case None
  with assms show ?thesis by (auto simp: check_promotion_temp_def)
next
  case (Some temp)
  with assms show ?thesis
    using preserve_temp_current [of sha temp fs r fs']
    by (auto simp: check_promotion_temp_def read_utf8_def rbind_Inr_iff split: sum.splits if_splits)
qed

lemma drop_temp_current:
  assumes "drop_redundant_temp sha body fs = (r, fs')"
  shows "pf_current fs' = pf_current fs"
proof (cases "pf_temp fs")
  case None
  with assms show ?thesis by (simp add: drop_redundant_temp_def)
next
  case (Some temp)
  with assms show ?thesis
    by (auto simp: drop_redundant_temp_def promotion_step_def Let_def
        split: sum.splits io_outcome.splits nat.splits list.splits)
qed

lemma replace_cases:
  assumes "promotion_step err (\<lambda>g. g\<lparr>pf_current := pf_temp g, pf_temp := None\<rparr>) fs = (r, fs')"
  shows "pf_current fs' = pf_current fs \<and> r \<noteq> Inr () \<or> pf_current fs' = pf_temp fs"
  using assms by (auto simp: promotion_step_def Let_def split: io_outcome.splits nat.splits list.splits)

text \<open>
  The current state is the old one or the whole new one, and after a success the new one, read as
  what it was meant to be.
\<close>

lemma install_promotion_cases:
  assumes "install_promotion sha promoted fs = (r, fs')"
  shows "(pf_current fs' = pf_current fs \<and> r \<noteq> Inr () \<or> pf_current fs' = Some (render_current_state_v2 promoted))
    \<and> (r = Inr () \<longrightarrow> parse_current_state_v2 sha (render_current_state_v2 promoted) ''promoted current-state'' = Inr promoted)"
proof -
  obtain r1 f1 where 1: "check_promotion_temp sha promoted fs = (r1, f1)" by fastforce
  note c1 = check_temp_cases [OF 1]
  show ?thesis
  proof (cases "r1 = Inr ()")
    case False
    with assms 1 c1 show ?thesis by (cases r1) (auto simp: install_promotion_def sthen_def sbind_def Let_def)
  next
    case True
    obtain r2 f2 where 2: "(if pf_temp f1 = None then create_promotion_temp (render_current_state_v2 promoted) f1
        else (Inr (), f1)) = (r2, f2)" by fastforce
    have c2: "pf_current f2 = pf_current f1 \<and> (r2 = Inr () \<longrightarrow> pf_temp f2 = Some (render_current_state_v2 promoted))"
      using 2 c1 True create_temp_cases [of "render_current_state_v2 promoted" f1 r2 f2] by (auto split: if_splits)
    show ?thesis
    proof (cases "r2 = Inr ()")
      case False
      with assms 1 2 True c1 c2 show ?thesis by (cases r2) (auto simp: install_promotion_def sthen_def sbind_def Let_def)
    next
      case r2: True
      obtain r3 f3 where 3: "promotion_step (runtime_error ''current-state promotion replace'' [])
          (\<lambda>g. g\<lparr>pf_current := pf_temp g, pf_temp := None\<rparr>) f2 = (r3, f3)" by fastforce
      note c3 = replace_cases [OF 3]
      show ?thesis
      proof (cases "r3 = Inr ()")
        case False
        with assms 1 2 3 True r2 c1 c2 c3 show ?thesis
          by (cases r3) (auto simp: install_promotion_def sthen_def sbind_def Let_def)
      next
        case r3: True
        with c1 c2 c3 r2 have "pf_current f3 = Some (render_current_state_v2 promoted)" by auto
        with assms 1 2 3 True r2 r3 show ?thesis
          by (auto simp: install_promotion_def sthen_def sbind_def Let_def read_utf8_def rbind_Inr_iff split: if_splits)
      qed
    qed
  qed
qed

lemma promote_cases:
  assumes "promote_current_state_v1 sha ambient load fs = (r, fs')"
  shows "pf_current fs' = pf_current fs \<and> (r = Inr () \<longrightarrow> (\<exists>body s. pf_current fs = Some body \<and>
        parse_current_state sha ambient body ''current-state promotion source'' = Inr s \<and> cs_schema_version s = 2))
    \<or> (\<exists>body s promoted. pf_current fs = Some body
        \<and> parse_current_state sha ambient body ''current-state promotion source'' = Inr s \<and> cs_schema_version s = 1
        \<and> promoted_snapshot sha load s = Inr promoted \<and> pf_current fs' = Some (render_current_state_v2 promoted)
        \<and> (r = Inr () \<longrightarrow> parse_current_state_v2 sha (render_current_state_v2 promoted) ''promoted current-state'' = Inr promoted))"
proof (cases "rbind (read_utf8 (blocked_error ''current-state promotion read'' []) (pf_current fs)) (\<lambda>current_body.
    rbind (parse_current_state sha ambient current_body ''current-state promotion source'') (\<lambda>current.
      Inr (current_body, current)))")
  case (Inl e)
  with assms show ?thesis by (auto simp: promote_current_state_v1_def)
next
  case (Inr p)
  then obtain body s where p: "p = (body, s)" and body: "pf_current fs = Some body"
    and s: "parse_current_state sha ambient body ''current-state promotion source'' = Inr s"
    by (auto simp: rbind_Inr_iff read_utf8_def split: option.splits if_splits)
  consider "cs_schema_version s = 2" | "cs_schema_version s \<noteq> 2" "cs_schema_version s \<noteq> 1"
    | "cs_schema_version s = 1" by fastforce
  then show ?thesis
  proof cases
    case 1
    with assms Inr p have "drop_redundant_temp sha body fs = (r, fs')" by (simp add: promote_current_state_v1_def)
    from drop_temp_current [OF this] 1 body s show ?thesis by auto
  next
    case 2
    with assms Inr p show ?thesis by (auto simp: promote_current_state_v1_def)
  next
    case 3
    show ?thesis
    proof (cases "promoted_snapshot sha load s")
      case (Inl e)
      with 3 assms Inr p show ?thesis by (auto simp: promote_current_state_v1_def)
    next
      case promoted: (Inr promoted)
      with 3 assms Inr p have "install_promotion sha promoted fs = (r, fs')" by (simp add: promote_current_state_v1_def)
      from install_promotion_cases [OF this] 3 body s promoted show ?thesis by auto
    qed
  qed
qed

lemma promote_ok_v2:
  assumes "promote_current_state_v1 sha ambient load fs = (Inr u, fs')"
  shows "\<exists>body s c. pf_current fs' = Some body \<and> parse_current_state_v2 sha body c = Inr s"
  using promote_cases [OF assms]
proof (elim disjE conjE exE)
  assume same: "pf_current fs' = pf_current fs"
    and "Inr u = Inr () \<longrightarrow> (\<exists>body s. pf_current fs = Some body \<and>
        parse_current_state sha ambient body ''current-state promotion source'' = Inr s \<and> cs_schema_version s = 2)"
  then obtain body s where "pf_current fs = Some body" "cs_schema_version s = 2"
    "parse_current_state sha ambient body ''current-state promotion source'' = Inr s" by auto
  from this(1) parse_current_v2 [OF this(3,2)] show ?thesis unfolding same by blast
qed auto

section \<open>The state a transition starts from\<close>

text \<open>A text just promoted is not promoted again.\<close>

lemma read_after_v2:
  assumes "pf_current fs = Some body" "parse_current_state_v2 sha body c = Inr s"
  shows "\<exists>r. read_valid_current_for_transition sha ambient load fs = Some (r, fs)
    \<and> (\<forall>u. r = Inr u \<longrightarrow> (\<exists>s'. u = Some s' \<and> current_state_valid sha s' \<and> render_current_state_v2 s' = body))"
proof (cases "rbind (read_utf8 (blocked_error ''current-state transition precondition read'' []) (pf_current fs)) (\<lambda>body.
    parse_current_state sha ambient body ''current-state transition precondition'')")
  case (Inl e)
  with assms(1) show ?thesis by (subst read_valid_current_for_transition.simps) simp
next
  case (Inr s')
  with assms(1) have parsed: "parse_current_state sha ambient body ''current-state transition precondition'' = Inr s'"
    by (auto simp: rbind_Inr_iff read_utf8_def split: if_splits)
  then have "cs_schema_version s' = 2" using v2_not_v1 [OF assms(2)] by blast
  moreover from this parse_current_valid [OF parsed] have "current_state_valid sha s' \<and> render_current_state_v2 s' = body"
    by auto
  ultimately show ?thesis using Inr assms(1) by (subst read_valid_current_for_transition.simps) simp
qed

text \<open>
  C15 A transition always learns which state it starts from: reading it, and promoting it when it is
  of the first schema, returns, whatever the files hold and whichever writes fail. The state it
  returns is well formed and is the one now in the file; none is returned only when there is none.
\<close>

theorem transition_start_returns:
  "\<exists>r fs'. read_valid_current_for_transition sha ambient load fs = Some (r, fs')
     \<and> (\<forall>s. r = Inr (Some s) \<longrightarrow> current_state_valid sha s \<and> pf_current fs' = Some (render_current_state_v2 s))
     \<and> (r = Inr None \<longrightarrow> pf_current fs = None \<and> fs' = fs)"
proof (cases "pf_current fs = None")
  case True
  then show ?thesis by (subst read_valid_current_for_transition.simps) simp
next
  case False
  note current = False
  show ?thesis
  proof (cases "rbind (read_utf8 (blocked_error ''current-state transition precondition read'' []) (pf_current fs)) (\<lambda>body.
      parse_current_state sha ambient body ''current-state transition precondition'')")
    case (Inl e)
    with False show ?thesis by (subst read_valid_current_for_transition.simps) simp
  next
    case (Inr s)
    then obtain body where body: "pf_current fs = Some body"
      and parsed: "parse_current_state sha ambient body ''current-state transition precondition'' = Inr s"
      by (auto simp: rbind_Inr_iff read_utf8_def split: option.splits if_splits)
    show ?thesis
    proof (cases "cs_schema_version s = 1")
      case False
      with parse_current_valid [OF parsed] have "current_state_valid sha s" "render_current_state_v2 s = body" by auto
      with False Inr current body show ?thesis by (subst read_valid_current_for_transition.simps) simp
    next
      case True
      obtain r fs' where p: "promote_current_state_v1 sha ambient load fs = (r, fs')" by fastforce
      show ?thesis
      proof (cases r)
        case (Inl e)
        with True Inr current p show ?thesis by (subst read_valid_current_for_transition.simps) simp
      next
        case ok: (Inr u)
        have step: "read_valid_current_for_transition sha ambient load fs = read_valid_current_for_transition sha ambient load fs'"
          using True Inr current p ok by (subst read_valid_current_for_transition.simps) auto
        obtain body' s' c where b: "pf_current fs' = Some body'" "parse_current_state_v2 sha body' c = Inr s'"
          using promote_ok_v2 [OF p [unfolded ok]] by blast
        from read_after_v2 [OF b, of ambient load] obtain q where
          "read_valid_current_for_transition sha ambient load fs' = Some (q, fs')"
          "\<forall>u. q = Inr u \<longrightarrow> (\<exists>s'. u = Some s' \<and> current_state_valid sha s' \<and> render_current_state_v2 s' = body')" by blast
        with b(1) show ?thesis unfolding step by (intro exI [of _ q] exI [of _ fs']) auto
      qed
    qed
  qed
qed

lemma transition_start_returns_witness:
  "\<exists>r fs'. read_valid_current_for_transition wit_sha (Inl (runtime_error [] [])) (\<lambda>_. Inl (runtime_error [] []))
     \<lparr>pf_current = Some (render_current_state_v2 wit_snapshot), pf_temp = None, pf_diagnostics = Map.empty,
      pf_outcomes = []\<rparr> = Some (r, fs') \<and> r \<noteq> Inr None"
  using transition_start_returns [of wit_sha "Inl (runtime_error [] [])" "\<lambda>_. Inl (runtime_error [] [])"
      "\<lparr>pf_current = Some (render_current_state_v2 wit_snapshot), pf_temp = None, pf_diagnostics = Map.empty,
        pf_outcomes = []\<rparr>"]
  by auto

section \<open>A torn temporary file\<close>

lemma render_current_state_ends: "\<exists>xs. render_current_state_v2 s = CHR ''{'' # xs @ ''}''"
  by (auto simp: render_current_state_template template_def compact_layout_def)

text \<open>No proper prefix of a current state is a current state.\<close>

lemma torn_current_state:
  assumes "current_state_valid sha s" "plain_snapshot s" "n < length (render_current_state_v2 s)"
  shows "\<exists>e. parse_current_state_v2 sha' (take n (render_current_state_v2 s)) c = Inl e"
proof -
  let ?t = "render_current_state_v2 s"
  obtain xs where xs: "?t = CHR ''{'' # xs @ ''}''" using render_current_state_ends by blast
  have "parse_current_state sha (Inl (runtime_error [] [])) ?t [] = Inr s"
    by (rule current_state_reads_back [OF assms(2,1)])
  then obtain v where "parse_value (take n ?t @ drop n ?t) [] = Inr v"
    by (auto simp: parse_current_state_def rbind_Inr_iff)
  moreover have "drop n ?t \<noteq> []" "last (drop n ?t) = CHR ''}''"
    using assms(3) xs by (simp, simp add: last_drop)
  ultimately obtain e where e: "parse_value (take n ?t) c = Inl e"
    using torn_object_refused [of "take n ?t" "drop n ?t" "[]" v c] xs by auto
  show ?thesis
  proof (cases "parse_current_state_v2 sha' (take n ?t) c")
    case (Inr s')
    from parse_v2_object [OF this] e show ?thesis by simp
  qed auto
qed

text \<open>A temporary file that is not a current state is never replaced.\<close>

lemma unreadable_temp_blocks:
  assumes "pf_temp fs = Some temp" "\<And>c. \<exists>e. parse_current_state_v2 sha temp c = Inl e"
  shows "\<exists>e. promote_current_state_v1 sha ambient load fs = (Inl e, fs)"
proof -
  have check: "\<exists>e. check_promotion_temp sha promoted fs = (Inl e, fs)" for promoted
    using assms(1) assms(2) [of "''current-state promotion temp''"]
    by (auto simp: check_promotion_temp_def read_utf8_def)
  have "\<exists>e. drop_redundant_temp sha body fs = (Inl e, fs)" for body
    using assms(1) assms(2) [of "''current-state promotion redundant temp''"]
    by (auto simp: drop_redundant_temp_def read_utf8_def)
  moreover have "\<exists>e. install_promotion sha promoted fs = (Inl e, fs)" for promoted
    using check [of promoted] by (auto simp: install_promotion_def sthen_def sbind_def Let_def)
  ultimately show ?thesis unfolding promote_current_state_v1_def
    by (auto split: sum.splits)
qed

text \<open>
  A promotion that stops while it writes its temporary file cannot be repeated: as long as the
  part it wrote is there, every later promotion is refused and leaves the files as they are.
\<close>

theorem torn_promotion_blocks:
  assumes body: "pf_current fs = Some body" "utf8_valid body"
    and parsed: "parse_current_state sha ambient body ''current-state promotion source'' = Inr s" "cs_schema_version s = 1"
    and promoted: "promoted_snapshot sha load s = Inr promoted" "current_state_valid sha promoted" "plain_snapshot promoted"
    and torn: "pf_temp fs = None" "n < length (render_current_state_v2 promoted)"
  shows "\<exists>e. promote_current_state_v1 sha ambient load (fs\<lparr>pf_outcomes := [Io_error (Suc n)]\<rparr>) =
      (Inl e, fs\<lparr>pf_temp := Some (take n (render_current_state_v2 promoted)), pf_outcomes := []\<rparr>)"
    and "\<exists>e. promote_current_state_v1 sha ambient' load' (fs\<lparr>pf_temp := Some (take n (render_current_state_v2 promoted)),
        pf_outcomes := outcomes\<rparr>) =
      (Inl e, fs\<lparr>pf_temp := Some (take n (render_current_state_v2 promoted)), pf_outcomes := outcomes\<rparr>)"
proof -
  have "install_promotion sha promoted (fs\<lparr>pf_outcomes := [Io_error (Suc n)]\<rparr>) =
      (Inl (runtime_error ''current-state promotion temp write'' []),
       fs\<lparr>pf_temp := Some (take n (render_current_state_v2 promoted)), pf_outcomes := []\<rparr>)"
    using torn(1) by (simp add: install_promotion_def sthen_def sbind_def Let_def check_promotion_temp_def create_promotion_temp_def)
  then show "\<exists>e. promote_current_state_v1 sha ambient load (fs\<lparr>pf_outcomes := [Io_error (Suc n)]\<rparr>) =
      (Inl e, fs\<lparr>pf_temp := Some (take n (render_current_state_v2 promoted)), pf_outcomes := []\<rparr>)"
    using body parsed promoted(1) by (simp add: promote_current_state_v1_def read_utf8_def)
  show "\<exists>e. promote_current_state_v1 sha ambient' load' (fs\<lparr>pf_temp := Some (take n (render_current_state_v2 promoted)),
        pf_outcomes := outcomes\<rparr>) =
      (Inl e, fs\<lparr>pf_temp := Some (take n (render_current_state_v2 promoted)), pf_outcomes := outcomes\<rparr>)"
    by (rule unreadable_temp_blocks) (simp, rule torn_current_state [OF promoted(2,3) torn(2)])
qed

end
