(* ===== verification/Source_Install.thy ===== *)
theory Source_Install
  imports Current_Image Canonical_Texts
begin

text \<open>
  The source installation a bundle may carry (\<open>app/workflow_adapter/transition\<close>): the typed
  readers and writers of \<open>canonical.rs\<close>, the path and identifier checks of \<open>source_support.rs\<close>, and
  the plan, its check and its text of \<open>source_install/\<close>.
\<close>

section \<open>Limits and keys (contracts.rs)\<close>

definition max_source_blob_bytes :: nat where "max_source_blob_bytes = 262144"
definition max_source_install_bytes :: nat where "max_source_install_bytes = 32768"

definition enforce_byte_limit :: "nat \<Rightarrow> nat \<Rightarrow> string \<Rightarrow> unit result" where
  "enforce_byte_limit len limit message = (if len > limit then Inl (blocked_error message []) else Inr ())"

definition source_install_operations :: "string list" where
  "source_install_operations = [''validate-target'', ''install-rollback-create-new'', ''fsync-rollback'',
     ''fsync-rollback-parent'', ''create-install-temp-new'', ''write-proposed'', ''apply-install-metadata'',
     ''fsync-install-temp'', ''hard-link-target-to-guard-create-new'', ''validate-guard-before-unlink'',
     ''fsync-target-parent'', ''unlink-target'', ''revalidate-guard-after-unlink'',
     ''hard-link-install-temp-to-target-create-new'', ''fsync-target-parent'', ''validate-installed-target'',
     ''remove-install-temp'', ''remove-guard'', ''fsync-target-parent'']"

definition source_install_keys :: "string list" where
  "source_install_keys = [''schema_version'', ''source_key'', ''target'', ''before_blob'', ''proposed_blob'',
     ''rollback_final'', ''install_temp'', ''guard_path'', ''before_sha256'', ''before_byte_length'',
     ''proposed_sha256'', ''proposed_byte_length'', ''permissions'', ''ownership'', ''platform'',
     ''unix_metadata'', ''operations'']"

definition path_keys :: "string list" where
  "path_keys = [''namespace'', ''path'', ''parent'', ''basename'', ''expected_type'', ''expected_identity'']"

definition blob_keys :: "string list" where
  "blob_keys = [''blob_id'', ''member_path'', ''sha256'', ''byte_length'']"

definition permission_keys :: "string list" where
  "permission_keys = [''before_readonly'', ''install_readonly'', ''before_mode'', ''install_mode'']"

definition ownership_keys :: "string list" where
  "ownership_keys = [''before_owner'', ''install_owner'']"

definition unix_metadata_keys :: "string list" where
  "unix_metadata_keys = [''before_mode'', ''install_mode'', ''before_uid'', ''before_gid'', ''install_uid'',
     ''install_gid'', ''before_dev'', ''before_ino'']"

section \<open>Writing (canonical.rs)\<close>

definition show_bool :: "bool \<Rightarrow> string" where
  "show_bool b = (if b then ''true'' else ''false'')"

definition path_members :: "prepared_path \<Rightarrow> (string \<times> string) list" where
  "path_members p =
     [(''namespace'', escaped (pp_namespace p)), (''path'', escaped (pp_path p)), (''parent'', escaped (pp_parent p)),
      (''basename'', escaped (pp_basename p)), (''expected_type'', escaped (pp_expected_type p)),
      (''expected_identity'', render_optional_string (pp_expected_identity p))]"

definition render_path :: "prepared_path \<Rightarrow> string" where
  "render_path p = template compact_layout (path_members p)"

definition blob_members :: "prepared_blob \<Rightarrow> (string \<times> string) list" where
  "blob_members b =
     [(''blob_id'', escaped (bl_blob_id b)), (''member_path'', escaped (bl_member_path b)),
      (''sha256'', quoted (bl_sha256 b)), (''byte_length'', show_nat (unat (bl_byte_length b)))]"

definition render_blob :: "prepared_blob \<Rightarrow> string" where
  "render_blob b = template compact_layout (blob_members b)"

definition permission_members :: "source_permissions \<Rightarrow> (string \<times> string) list" where
  "permission_members v =
     [(''before_readonly'', show_bool (sp_before_readonly v)), (''install_readonly'', show_bool (sp_install_readonly v)),
      (''before_mode'', show_nat (unat (sp_before_mode v))), (''install_mode'', show_nat (unat (sp_install_mode v)))]"

definition render_permissions :: "source_permissions \<Rightarrow> string" where
  "render_permissions v = template compact_layout (permission_members v)"

definition ownership_members :: "source_ownership \<Rightarrow> (string \<times> string) list" where
  "ownership_members v =
     [(''before_owner'', escaped (so_before_owner v)), (''install_owner'', escaped (so_install_owner v))]"

definition render_ownership :: "source_ownership \<Rightarrow> string" where
  "render_ownership v = template compact_layout (ownership_members v)"

definition unix_members :: "unix_source_metadata \<Rightarrow> (string \<times> string) list" where
  "unix_members v =
     [(''before_mode'', show_nat (unat (um_before_mode v))), (''install_mode'', show_nat (unat (um_install_mode v))),
      (''before_uid'', show_nat (unat (um_before_uid v))), (''before_gid'', show_nat (unat (um_before_gid v))),
      (''install_uid'', show_nat (unat (um_install_uid v))), (''install_gid'', show_nat (unat (um_install_gid v))),
      (''before_dev'', show_nat (unat (um_before_dev v))), (''before_ino'', show_nat (unat (um_before_ino v)))]"

definition render_unix_metadata :: "unix_source_metadata \<Rightarrow> string" where
  "render_unix_metadata v = template compact_layout (unix_members v)"

section \<open>Reading (canonical.rs)\<close>

type_synonym canonical_object = "(string \<times> cjson) list"

definition required_object :: "canonical_object \<Rightarrow> string \<Rightarrow> canonical_object result" where
  "required_object obj key =
     (case object_get key obj of Some (CObject v) \<Rightarrow> Inr v | _ \<Rightarrow> Inl (blocked_error ''source_install_v1 object'' [key]))"

definition required_string :: "canonical_object \<Rightarrow> string \<Rightarrow> string result" where
  "required_string obj key =
     (case object_get key obj of Some (CString v) \<Rightarrow> Inr v | _ \<Rightarrow> Inl (blocked_error ''source_install_v1 string'' [key]))"

definition optional_string :: "canonical_object \<Rightarrow> string \<Rightarrow> string option result" where
  "optional_string obj key =
     (case object_get key obj of
        Some (CString v) \<Rightarrow> Inr (Some v)
      | Some CNull \<Rightarrow> Inr None
      | _ \<Rightarrow> Inl (blocked_error ''source_install_v1 nullable string'' [key]))"

definition required_bool :: "canonical_object \<Rightarrow> string \<Rightarrow> bool result" where
  "required_bool obj key =
     (case object_get key obj of Some (CBool v) \<Rightarrow> Inr v | _ \<Rightarrow> Inl (blocked_error ''source_install_v1 bool'' [key]))"

definition required_u32 :: "canonical_object \<Rightarrow> string \<Rightarrow> u32 result" where
  "required_u32 obj key =
     rbind (canonical_u64 obj key ''source_install_v1'') (\<lambda>v.
       if unat v < 2 ^ 32 then Inr (ucast v) else Inl (blocked_error ''source_install_v1 u32 overflow'' [key]))"

definition required_u128 :: "canonical_object \<Rightarrow> string \<Rightarrow> u128 result" where
  "required_u128 obj key = canonical_u128 obj key ''prepared source bundle''"

definition required_string_array :: "canonical_object \<Rightarrow> string \<Rightarrow> string list result" where
  "required_string_array obj key =
     (case object_get key obj of
        Some (CArray values) \<Rightarrow>
          traverse (\<lambda>v. case v of CString s \<Rightarrow> Inr s | _ \<Rightarrow> Inl (blocked_error ''source_install_v1 string array'' [key])) values
      | _ \<Rightarrow> Inl (blocked_error ''source_install_v1 array'' [key]))"

definition require_keys :: "canonical_object \<Rightarrow> string list \<Rightarrow> unit result" where
  "require_keys obj expected =
     (if object_keys obj = expected then Inr () else Inl (blocked_error ''source_install_v1 nested key order'' []))"

definition parse_path :: "canonical_object \<Rightarrow> prepared_path result" where
  "parse_path obj =
     rbind (require_keys obj path_keys) (\<lambda>_.
     rbind (required_string obj ''namespace'') (\<lambda>namespace.
     rbind (required_string obj ''path'') (\<lambda>path.
     rbind (required_string obj ''parent'') (\<lambda>parent.
     rbind (required_string obj ''basename'') (\<lambda>basename.
     rbind (required_string obj ''expected_type'') (\<lambda>type.
     rbind (optional_string obj ''expected_identity'') (\<lambda>identity.
       Inr \<lparr>pp_namespace = namespace, pp_path = path, pp_parent = parent, pp_basename = basename,
         pp_expected_type = type, pp_expected_identity = identity\<rparr>)))))))"

definition parse_blob :: "canonical_object \<Rightarrow> prepared_blob result" where
  "parse_blob obj =
     rbind (require_keys obj blob_keys) (\<lambda>_.
     rbind (required_string obj ''blob_id'') (\<lambda>blob.
     rbind (required_string obj ''member_path'') (\<lambda>path.
     rbind (required_string obj ''sha256'') (\<lambda>hash.
     rbind (canonical_u64 obj ''byte_length'' ''source_install_v1'') (\<lambda>len.
       Inr \<lparr>bl_blob_id = blob, bl_member_path = path, bl_sha256 = hash, bl_byte_length = len\<rparr>)))))"

definition parse_permissions :: "canonical_object \<Rightarrow> source_permissions result" where
  "parse_permissions obj =
     rbind (require_keys obj permission_keys) (\<lambda>_.
     rbind (required_bool obj ''before_readonly'') (\<lambda>before_readonly.
     rbind (required_bool obj ''install_readonly'') (\<lambda>install_readonly.
     rbind (required_u32 obj ''before_mode'') (\<lambda>before_mode.
     rbind (required_u32 obj ''install_mode'') (\<lambda>install_mode.
       Inr \<lparr>sp_before_readonly = before_readonly, sp_install_readonly = install_readonly,
         sp_before_mode = before_mode, sp_install_mode = install_mode\<rparr>)))))"

definition parse_ownership :: "canonical_object \<Rightarrow> source_ownership result" where
  "parse_ownership obj =
     rbind (require_keys obj ownership_keys) (\<lambda>_.
     rbind (required_string obj ''before_owner'') (\<lambda>before_owner.
     rbind (required_string obj ''install_owner'') (\<lambda>install_owner.
       Inr \<lparr>so_before_owner = before_owner, so_install_owner = install_owner\<rparr>)))"

definition parse_unix_metadata :: "canonical_object \<Rightarrow> unix_source_metadata result" where
  "parse_unix_metadata obj =
     rbind (require_keys obj unix_metadata_keys) (\<lambda>_.
     rbind (required_u32 obj ''before_mode'') (\<lambda>before_mode.
     rbind (required_u32 obj ''install_mode'') (\<lambda>install_mode.
     rbind (required_u32 obj ''before_uid'') (\<lambda>before_uid.
     rbind (required_u32 obj ''before_gid'') (\<lambda>before_gid.
     rbind (required_u32 obj ''install_uid'') (\<lambda>install_uid.
     rbind (required_u32 obj ''install_gid'') (\<lambda>install_gid.
     rbind (canonical_u64 obj ''before_dev'' ''source_install_v1'') (\<lambda>dev.
     rbind (canonical_u64 obj ''before_ino'' ''source_install_v1'') (\<lambda>ino.
       Inr \<lparr>um_before_mode = before_mode, um_install_mode = install_mode, um_before_uid = before_uid,
         um_before_gid = before_gid, um_install_uid = install_uid, um_install_gid = install_gid,
         um_before_dev = dev, um_before_ino = ino\<rparr>)))))))))"

section \<open>Paths, ids and keys (source\_support.rs)\<close>

definition path_control :: "char \<Rightarrow> bool" where
  "path_control c \<longleftrightarrow> c = CHR 0x00 \<or> c = CR \<or> c = LF"

definition stored_path_valid :: "string \<Rightarrow> bool" where
  "stored_path_valid v \<longleftrightarrow>
     \<not> (v = [] \<or> starts_with ''/'' v \<or> backslash \<in> set v \<or> list_ex path_control v
        \<or> list_ex (\<lambda>part. part = [] \<or> part = ''.'' \<or> part = ''..'') (split_on (\<lambda>c. c = CHR ''/'') v))"

definition validate_stored_path :: "string \<Rightarrow> unit result" where
  "validate_stored_path v = (if stored_path_valid v then Inr () else Inl (blocked_error ''stored project path'' []))"

definition basename_valid :: "string \<Rightarrow> bool" where
  "basename_valid v \<longleftrightarrow>
     \<not> (v = [] \<or> v = ''.'' \<or> v = ''..'' \<or> list_ex (\<lambda>c. c = CHR ''/'' \<or> c = backslash \<or> path_control c) v)"

definition validate_basename :: "string \<Rightarrow> unit result" where
  "validate_basename v = (if basename_valid v then Inr () else Inl (blocked_error ''prepared basename'' []))"

definition ascii_id_valid :: "string \<Rightarrow> bool" where
  "ascii_id_valid v \<longleftrightarrow> v \<noteq> [] \<and> length v \<le> 200
     \<and> list_all (\<lambda>c. is_ascii_alphanumeric c \<or> c = CHR ''-'' \<or> c = CHR ''_'') v"

definition validate_ascii_id :: "string \<Rightarrow> string \<Rightarrow> unit result" where
  "validate_ascii_id v label = (if ascii_id_valid v then Inr () else Inl (blocked_error ''id format'' [label]))"

definition join_stored :: "string \<Rightarrow> string \<Rightarrow> string" where
  "join_stored parent basename = (if parent = [] then basename else parent @ ''/'' @ basename)"

definition validate_prepared_path :: "prepared_path \<Rightarrow> bool \<Rightarrow> unit result" where
  "validate_prepared_path p target =
     (if pp_namespace p \<noteq> ''project'' then Inl (blocked_error ''prepared path namespace'' [])
      else
      rbind (validate_stored_path (pp_path p)) (\<lambda>_.
      rbind (if pp_parent p \<noteq> [] then validate_stored_path (pp_parent p) else Inr ()) (\<lambda>_.
      rbind (validate_basename (pp_basename p)) (\<lambda>_.
        if join_stored (pp_parent p) (pp_basename p) \<noteq> pp_path p
        then Inl (blocked_error ''prepared path parent/basename binding'' [])
        else if target then
          (if pp_expected_type p \<noteq> ''file''
              \<or> \<not> (case pp_expected_identity p of None \<Rightarrow> False | Some i \<Rightarrow> is_sha256 i)
           then Inl (blocked_error ''prepared target type/identity'' []) else Inr ())
        else if pp_expected_type p \<noteq> ''absent'' \<or> pp_expected_identity p \<noteq> None
        then Inl (blocked_error ''prepared create-new type/identity'' [])
        else Inr ()))))"

definition source_key_v1 :: "hasher \<Rightarrow> string \<Rightarrow> string \<Rightarrow> string \<Rightarrow> string \<Rightarrow> string" where
  "source_key_v1 sha intent_id target before proposed =
     sha256_bytes sha (''source-install-v1'' @ concat (map (\<lambda>v. CHR 0x00 # v) [intent_id, target, before, proposed]))"

definition be_bytes :: "u64 \<Rightarrow> string" where
  "be_bytes w = map (\<lambda>i. char_of (unat (drop_bit (8 * i) w))) [7, 6, 5, 4, 3, 2, 1, 0]"

definition be_bytes16 :: "nat \<Rightarrow> string" where
  "be_bytes16 n = [char_of (n div 256), char_of n]"

definition append_tlv :: "string \<Rightarrow> char \<Rightarrow> string \<Rightarrow> string result" where
  "append_tlv target tag v =
     (if length v < 2 ^ 16 then Inr (target @ tag # be_bytes16 (length v) @ v)
      else Inl (blocked_error ''source identity TLV length overflow'' []))"

definition hex_nibble :: "char \<Rightarrow> nat option" where
  "hex_nibble c =
     (if is_ascii_digit c then Some (byte c - 48)
      else if 97 \<le> byte c \<and> byte c \<le> 102 then Some (byte c - 97 + 10) else None)"

text \<open>\<open>chunks_exact(2)\<close>; the nibbles exist because the hash was checked first.\<close>

fun hex_pairs :: "string \<Rightarrow> string" where
  "hex_pairs (a # b # s) =
     char_of ((case hex_nibble a of Some n \<Rightarrow> n | None \<Rightarrow> 0) * 16 + (case hex_nibble b of Some n \<Rightarrow> n | None \<Rightarrow> 0)) # hex_pairs s"
| "hex_pairs _ = []"

definition decode_sha256 :: "string \<Rightarrow> string result" where
  "decode_sha256 v = (if is_sha256 v then Inr (hex_pairs v) else Inl (blocked_error ''SHA-256 raw decode'' []))"

section \<open>The plan (source\_install/paths.rs, validation.rs, codec.rs)\<close>

definition source_identity_v1 :: "hasher \<Rightarrow> u64 \<Rightarrow> u64 \<Rightarrow> string \<Rightarrow> string result" where
  "source_identity_v1 sha dev ino content_sha256 =
     rbind (decode_sha256 content_sha256) (\<lambda>content.
     rbind (append_tlv ''rpotato.source-identity/v1'' (CHR 0x01) ''unix'') (\<lambda>t1.
     rbind (append_tlv t1 (CHR 0x10) (be_bytes dev)) (\<lambda>t2.
     rbind (append_tlv t2 (CHR 0x11) (be_bytes ino)) (\<lambda>t3.
     rbind (append_tlv t3 (CHR 0x20) content) (\<lambda>t4.
       Inr (sha256_bytes sha t4))))))"

definition owner_text :: "u32 \<Rightarrow> u32 \<Rightarrow> string" where
  "owner_text uid gid = ''uid:'' @ show_nat (unat uid) @ '':gid:'' @ show_nat (unat gid)"

definition source_hashes_bound :: "source_install_v1 \<Rightarrow> bool" where
  "source_hashes_bound p \<longleftrightarrow>
     is_sha256 (si_source_key p) \<and> is_sha256 (si_before_sha256 p) \<and> is_sha256 (si_proposed_sha256 p)
     \<and> bl_sha256 (si_before_blob p) = si_before_sha256 p \<and> bl_sha256 (si_proposed_blob p) = si_proposed_sha256 p
     \<and> bl_byte_length (si_before_blob p) = si_before_byte_length p
     \<and> bl_byte_length (si_proposed_blob p) = si_proposed_byte_length p
     \<and> unat (si_before_byte_length p) \<le> max_source_blob_bytes
     \<and> unat (si_proposed_byte_length p) \<le> max_source_blob_bytes"

definition source_metadata_bound :: "source_install_v1 \<Rightarrow> bool" where
  "source_metadata_bound p \<longleftrightarrow>
     (let s = si_permissions p; u = si_unix_metadata p; w = si_ownership p
      in sp_before_readonly s = sp_install_readonly s \<and> sp_before_mode s = sp_install_mode s
         \<and> um_before_mode u = um_install_mode u \<and> um_before_uid u = um_install_uid u
         \<and> um_before_gid u = um_install_gid u \<and> sp_before_mode s = um_before_mode u
         \<and> sp_install_mode s = um_install_mode u
         \<and> so_before_owner w = owner_text (um_before_uid u) (um_before_gid u)
         \<and> so_install_owner w = owner_text (um_install_uid u) (um_install_gid u))"

definition validate_source_install_v1 :: "hasher \<Rightarrow> source_install_v1 \<Rightarrow> unit result" where
  "validate_source_install_v1 sha p =
     (if si_schema_version p \<noteq> 1 \<or> si_platform p \<noteq> ''unix''
      then Inl (blocked_error ''source_install_v1 schema/platform'' [])
      else if \<not> source_hashes_bound p then Inl (blocked_error ''source_install_v1 hash/blob binding'' [])
      else
      rbind (validate_prepared_path (si_target p) True) (\<lambda>_.
      rbind (validate_prepared_path (si_rollback_final p) False) (\<lambda>_.
      rbind (validate_prepared_path (si_install_temp p) False) (\<lambda>_.
      rbind (validate_prepared_path (si_guard_path p) False) (\<lambda>_.
        if pp_parent (si_target p) \<noteq> pp_parent (si_install_temp p)
           \<or> pp_parent (si_target p) \<noteq> pp_parent (si_guard_path p)
           \<or> pp_path (si_install_temp p) = pp_path (si_guard_path p)
        then Inl (blocked_error ''source_install_v1 same-parent binding'' [])
        else if si_operations p \<noteq> source_install_operations
        then Inl (blocked_error ''source_install_v1 operation oracle'' [])
        else if \<not> source_metadata_bound p
        then Inl (blocked_error ''source_install_v1 metadata binding'' [])
        else
          rbind (source_identity_v1 sha (um_before_dev (si_unix_metadata p)) (um_before_ino (si_unix_metadata p))
              (si_before_sha256 p)) (\<lambda>identity.
            if pp_expected_identity (si_target p) \<noteq> Some identity
            then Inl (blocked_error ''source_install_v1 expected identity'' []) else Inr ()))))))"

definition source_install_members :: "source_install_v1 \<Rightarrow> (string \<times> string) list" where
  "source_install_members p =
     [(''schema_version'', show_nat (unat (si_schema_version p))), (''source_key'', escaped (si_source_key p)),
      (''target'', render_path (si_target p)), (''before_blob'', render_blob (si_before_blob p)),
      (''proposed_blob'', render_blob (si_proposed_blob p)), (''rollback_final'', render_path (si_rollback_final p)),
      (''install_temp'', render_path (si_install_temp p)), (''guard_path'', render_path (si_guard_path p)),
      (''before_sha256'', quoted (si_before_sha256 p)),
      (''before_byte_length'', show_nat (unat (si_before_byte_length p))),
      (''proposed_sha256'', quoted (si_proposed_sha256 p)),
      (''proposed_byte_length'', show_nat (unat (si_proposed_byte_length p))),
      (''permissions'', render_permissions (si_permissions p)), (''ownership'', render_ownership (si_ownership p)),
      (''platform'', quoted (si_platform p)), (''unix_metadata'', render_unix_metadata (si_unix_metadata p)),
      (''operations'', ''['' @ join '','' (map escaped (si_operations p)) @ '']'')]"

definition render_source_install_v1 :: "hasher \<Rightarrow> source_install_v1 \<Rightarrow> string result" where
  "render_source_install_v1 sha p =
     rbind (validate_source_install_v1 sha p) (\<lambda>_.
       let body = template compact_layout (source_install_members p)
       in rbind (enforce_byte_limit (length body) max_source_install_bytes ''source_install_v1 byte limit'') (\<lambda>_. Inr body))"

definition parse_source_fields :: "canonical_object \<Rightarrow> source_install_v1 result" where
  "parse_source_fields obj =
     rbind (canonical_u64 obj ''schema_version'' ''source_install_v1'') (\<lambda>schema.
     rbind (required_string obj ''source_key'') (\<lambda>key.
     rbind (rbind (required_object obj ''target'') parse_path) (\<lambda>target.
     rbind (rbind (required_object obj ''before_blob'') parse_blob) (\<lambda>before_blob.
     rbind (rbind (required_object obj ''proposed_blob'') parse_blob) (\<lambda>proposed_blob.
     rbind (rbind (required_object obj ''rollback_final'') parse_path) (\<lambda>rollback.
     rbind (rbind (required_object obj ''install_temp'') parse_path) (\<lambda>temp.
     rbind (rbind (required_object obj ''guard_path'') parse_path) (\<lambda>guard.
     rbind (required_string obj ''before_sha256'') (\<lambda>before_sha.
     rbind (canonical_u64 obj ''before_byte_length'' ''source_install_v1'') (\<lambda>before_len.
     rbind (required_string obj ''proposed_sha256'') (\<lambda>proposed_sha.
     rbind (canonical_u64 obj ''proposed_byte_length'' ''source_install_v1'') (\<lambda>proposed_len.
     rbind (rbind (required_object obj ''permissions'') parse_permissions) (\<lambda>permissions.
     rbind (rbind (required_object obj ''ownership'') parse_ownership) (\<lambda>ownership.
     rbind (required_string obj ''platform'') (\<lambda>platform.
     rbind (rbind (required_object obj ''unix_metadata'') parse_unix_metadata) (\<lambda>unix.
     rbind (required_string_array obj ''operations'') (\<lambda>operations.
       Inr \<lparr>si_schema_version = schema, si_source_key = key, si_target = target, si_before_blob = before_blob,
         si_proposed_blob = proposed_blob, si_rollback_final = rollback, si_install_temp = temp,
         si_guard_path = guard, si_before_sha256 = before_sha, si_before_byte_length = before_len,
         si_proposed_sha256 = proposed_sha, si_proposed_byte_length = proposed_len,
         si_permissions = permissions, si_ownership = ownership, si_platform = platform,
         si_unix_metadata = unix, si_operations = operations\<rparr>)))))))))))))))))"

definition parse_source_install_v1 :: "hasher \<Rightarrow> string \<Rightarrow> source_install_v1 result" where
  "parse_source_install_v1 sha body =
     rbind (parse_canonical_object body source_install_keys ''source_install_v1'') (\<lambda>obj.
     rbind (parse_source_fields obj) (\<lambda>p.
     rbind (validate_source_install_v1 sha p) (\<lambda>_.
     rbind (render_source_install_v1 sha p) (\<lambda>again.
       if again \<noteq> body then Inl (blocked_error ''source_install_v1 canonical re-render'' []) else Inr p))))"

section \<open>Preparation (source\_install/preparation.rs, paths.rs)\<close>

text \<open>
  What the preparation asks the file system. A canonical absolute path is the list of its
  components; \<open>None\<close> is a failed call. \<open>sv_absent\<close> says of a sibling whether nothing is there.
\<close>

record source_view =
  sv_root :: "string list option"
  sv_target :: "string list option"
  sv_parent :: "string list option"
  sv_metadata :: "unix_source_metadata option"
  sv_readonly :: bool
  sv_regular_file :: bool
  sv_parent_dev :: "u64 option"
  sv_ownership_kept :: bool
  sv_content :: "string option"
  sv_absent :: "string list \<Rightarrow> bool option"

text \<open>\<open>strip_prefix\<close> and \<open>to_str\<close>; the separator is already a slash.\<close>

definition stored_project_path :: "string list \<Rightarrow> string list \<Rightarrow> string result" where
  "stored_project_path root path =
     (if take (length root) path \<noteq> root then Inl (blocked_error ''source path outside the project root'' [])
      else let v = join ''/'' (drop (length root) path)
        in if \<not> utf8_valid v then Inl (blocked_error ''source project path UTF-8'' [])
           else rbind (validate_stored_path v) (\<lambda>_. Inr v))"

definition absent_path :: "string \<Rightarrow> string \<Rightarrow> string \<Rightarrow> prepared_path" where
  "absent_path path parent basename =
     \<lparr>pp_namespace = ''project'', pp_path = path, pp_parent = parent, pp_basename = basename,
      pp_expected_type = ''absent'', pp_expected_identity = None\<rparr>"

definition check_siblings :: "(string list \<Rightarrow> bool option) \<Rightarrow> string list list \<Rightarrow> unit result" where
  "check_siblings absent paths =
     rbind (traverse (\<lambda>p. case absent p of
         Some True \<Rightarrow> Inr ()
       | Some False \<Rightarrow> Inl (blocked_error ''source create-new sibling exists'' [])
       | None \<Rightarrow> Inl (blocked_error ''source create-new sibling preflight'' [])) paths) (\<lambda>_. Inr ())"

text \<open>The plan put together once the target is known; \<open>meta\<close> is what the target's metadata holds.\<close>

definition source_plan ::
  "hasher \<Rightarrow> string \<Rightarrow> string \<Rightarrow> string \<Rightarrow> string \<Rightarrow> string \<Rightarrow> unix_source_metadata \<Rightarrow> bool \<Rightarrow> string \<Rightarrow>
   string \<Rightarrow> string \<Rightarrow> source_install_v1" where
  "source_plan sha intent_id proposal_id target parent basename meta readonly identity before proposed =
     (let before_sha = sha256_bytes sha before; proposed_sha = sha256_bytes sha proposed;
          key = source_key_v1 sha intent_id target before_sha proposed_sha;
          rollback_parent = ''.rpotato/patches/'' @ proposal_id;
          rollback = intent_id @ ''-'' @ key @ ''.rollback'';
          temp = ''.'' @ basename @ ''.rpotato-install-'' @ intent_id @ ''-'' @ proposed_sha @ ''.tmp'';
          guard = ''.'' @ basename @ ''.rpotato-guard-'' @ intent_id @ ''-'' @ before_sha;
          owner = owner_text (um_before_uid meta) (um_before_gid meta)
      in \<lparr>si_schema_version = 1, si_source_key = key,
          si_target = \<lparr>pp_namespace = ''project'', pp_path = target, pp_parent = parent, pp_basename = basename,
            pp_expected_type = ''file'', pp_expected_identity = Some identity\<rparr>,
          si_before_blob = \<lparr>bl_blob_id = ''source-before-'' @ before_sha,
            bl_member_path = ''.rpotato/transition-blobs/'' @ before_sha @ ''.before'',
            bl_sha256 = before_sha, bl_byte_length = of_nat (length before)\<rparr>,
          si_proposed_blob = \<lparr>bl_blob_id = ''source-proposed-'' @ proposed_sha,
            bl_member_path = ''.rpotato/transition-blobs/'' @ proposed_sha @ ''.proposed'',
            bl_sha256 = proposed_sha, bl_byte_length = of_nat (length proposed)\<rparr>,
          si_rollback_final = absent_path (rollback_parent @ ''/'' @ rollback) rollback_parent rollback,
          si_install_temp = absent_path (join_stored parent temp) parent temp,
          si_guard_path = absent_path (join_stored parent guard) parent guard,
          si_before_sha256 = before_sha, si_before_byte_length = of_nat (length before),
          si_proposed_sha256 = proposed_sha, si_proposed_byte_length = of_nat (length proposed),
          si_permissions = \<lparr>sp_before_readonly = readonly, sp_install_readonly = readonly,
            sp_before_mode = um_before_mode meta, sp_install_mode = um_before_mode meta\<rparr>,
          si_ownership = \<lparr>so_before_owner = owner, so_install_owner = owner\<rparr>,
          si_platform = ''unix'',
          si_unix_metadata = meta\<lparr>um_install_mode := um_before_mode meta, um_install_uid := um_before_uid meta,
            um_install_gid := um_before_gid meta\<rparr>,
          si_operations = source_install_operations\<rparr>)"

definition checked_len :: "string \<Rightarrow> string \<Rightarrow> u64 result" where
  "checked_len bytes label =
     (if length bytes < 2 ^ 64 then Inr (of_nat (length bytes)) else Inl (blocked_error ''length overflow'' [label]))"

text \<open>The checks of the target and its surroundings: the root, the target's components, the parent's.\<close>

definition probe_target ::
  "source_view \<Rightarrow> string \<Rightarrow> (string list \<times> string list \<times> string list \<times> unix_source_metadata) result" where
  "probe_target v before =
     rbind (ok_or (blocked_error ''project root canonicalize'' []) (sv_root v)) (\<lambda>root.
     rbind (ok_or (blocked_error ''source target canonicalize'' []) (sv_target v)) (\<lambda>target.
     if target = [] then Inl (blocked_error ''source target parent'' [])
     else
     rbind (ok_or (blocked_error ''source parent canonicalize'' []) (sv_parent v)) (\<lambda>parent.
     if butlast target \<noteq> parent then Inl (blocked_error ''source target/parent canonical binding'' [])
     else
     rbind (ok_or (blocked_error ''source target metadata'' []) (sv_metadata v)) (\<lambda>meta.
     if \<not> sv_regular_file v then Inl (blocked_error ''source target type'' [])
     else
     rbind (ok_or (blocked_error ''source parent metadata'' []) (sv_parent_dev v)) (\<lambda>parent_dev.
     if um_before_dev meta \<noteq> parent_dev then Inl (blocked_error ''source target/parent filesystem'' [])
     else if \<not> sv_ownership_kept v then Inl (blocked_error ''source ownership'' [])
     else
     rbind (ok_or (blocked_error ''source target read'' []) (sv_content v)) (\<lambda>actual.
       if actual \<noteq> before then Inl (blocked_error ''source before bytes'' [])
       else Inr (root, target, parent, meta)))))))"

text \<open>\<open>validate_source_install_initial_admission\<close> of the installer is the parameter \<open>admission\<close>.\<close>

definition prepare_source_install_v1 ::
  "hasher \<Rightarrow> source_view \<Rightarrow> (source_install_v1 \<Rightarrow> unit result) \<Rightarrow> string \<Rightarrow> string \<Rightarrow> string \<Rightarrow> string \<Rightarrow>
   source_install_v1 result" where
  "prepare_source_install_v1 sha v admission intent_id proposal_id before proposed =
     rbind (validate_ascii_id intent_id ''intent'') (\<lambda>_.
     rbind (validate_ascii_id proposal_id ''proposal'') (\<lambda>_.
     rbind (probe_target v before) (\<lambda>(root, target, parent, meta).
     rbind (stored_project_path root target) (\<lambda>target_path.
     rbind (stored_project_path root parent) (\<lambda>parent_path.
     let basename = last target
     in if \<not> utf8_valid basename then Inl (blocked_error ''source target basename UTF-8'' [])
        else
     rbind (validate_basename basename) (\<lambda>_.
     rbind (checked_len before ''before blob'') (\<lambda>_.
     rbind (checked_len proposed ''proposed blob'') (\<lambda>_.
     rbind (source_identity_v1 sha (um_before_dev meta) (um_before_ino meta) (sha256_bytes sha before)) (\<lambda>identity.
     let plan = source_plan sha intent_id proposal_id target_path parent_path basename meta (sv_readonly v)
           identity before proposed
     in rbind (validate_basename (pp_basename (si_install_temp plan))) (\<lambda>_.
        rbind (validate_basename (pp_basename (si_guard_path plan))) (\<lambda>_.
        rbind (check_siblings (sv_absent v) [parent @ [pp_basename (si_install_temp plan)], parent @ [pp_basename (si_guard_path plan)]]) (\<lambda>_.
        rbind (validate_source_install_v1 sha plan) (\<lambda>_.
        rbind (admission plan) (\<lambda>_. Inr plan))))))))))))))"

definition source_install_rollback_path ::
  "hasher \<Rightarrow> string list option \<Rightarrow> string list option \<Rightarrow> string \<Rightarrow> string \<Rightarrow> string \<Rightarrow> string \<Rightarrow> string list result" where
  "source_install_rollback_path sha root target intent_id proposal_id before_sha256 proposed_sha256 =
     rbind (validate_ascii_id intent_id ''intent'') (\<lambda>_.
     rbind (validate_ascii_id proposal_id ''proposal'') (\<lambda>_.
     if \<not> is_sha256 before_sha256 \<or> \<not> is_sha256 proposed_sha256
     then Inl (blocked_error ''source rollback hash format'' [])
     else
     rbind (ok_or (blocked_error ''project root canonicalize'' []) root) (\<lambda>root.
     rbind (ok_or (blocked_error ''source target canonicalize'' []) target) (\<lambda>target.
     rbind (stored_project_path root target) (\<lambda>path.
       Inr (root @ [''.rpotato'', ''patches'', proposal_id,
         intent_id @ ''-'' @ source_key_v1 sha intent_id path before_sha256 proposed_sha256 @ ''.rollback'']))))))"

text \<open>
  A file that lies directly in the project root cannot be prepared: its parent's stored path is
  empty, which the check of stored paths refuses, although the check of a prepared path allows it.
\<close>

lemma root_file_refused:
  assumes "sv_root v = Some root" "sv_target v = Some (root @ [name])"
  shows "\<exists>e. prepare_source_install_v1 sha v admission intent_id proposal_id before proposed = Inl e"
proof -
  have root: "\<exists>e. stored_project_path root root = Inl e"
    by (simp add: stored_project_path_def validate_stored_path_def stored_path_valid_def)
  have probe: "root' = root \<and> target = root @ [name] \<and> parent = root"
    if "probe_target v before = Inr (root', target, parent, meta)" for root' target parent meta
    using that assms by (auto simp: probe_target_def rbind_Inr_iff split: if_splits)
  show ?thesis
  proof (cases "prepare_source_install_v1 sha v admission intent_id proposal_id before proposed")
    case (Inr plan)
    then obtain root' target parent meta where "probe_target v before = Inr (root', target, parent, meta)"
      and "\<exists>parent_path. stored_project_path root' parent = Inr parent_path"
      unfolding prepare_source_install_v1_def rbind_Inr_iff by (auto simp: rbind_Inr_iff)
    with probe root show ?thesis by fastforce
  qed auto
qed

end
