(* ===== verification/Source_Replace.thy ===== *)
theory Source_Replace
  imports Source_Install Ledger_Store
begin

text \<open>
  \<open>app/workflow_adapter/state/source_install.rs\<close> and \<open>source_install/directory.rs\<close>: the installation of
  proposed bytes over a source file, as a sequence of create-new, hard link and unlink steps that
  may stop anywhere and is continued by running it again.
\<close>

section \<open>The directory\<close>

datatype source_stage = TargetFile | TempFile | GuardFile | RollbackFile

record source_inode =
  in_bytes :: string
  in_mode :: u32
  in_uid :: u32
  in_gid :: u32
  in_regular :: bool

text \<open>
  The four names of a plan and the inodes they link to, all on the file system \<open>sf_dev\<close>. The
  rollback lies in a directory of its own, which may be missing. A file created under a name gets
  the number \<open>sf_new\<close> has for it and the process's owner and group \<open>sf_owner\<close>; \<open>sf_outcomes\<close> says of
  each change whether and how it fails.
\<close>

record source_fs =
  sf_names :: "source_stage \<Rightarrow> u64 option"
  sf_inodes :: "u64 \<Rightarrow> source_inode"
  sf_dev :: u64
  sf_rollback_dir :: bool
  sf_new :: "source_stage \<Rightarrow> u64"
  sf_owner :: "u32 \<times> u32"
  sf_outcomes :: "io_outcome list"

definition stage_inode :: "source_fs \<Rightarrow> source_stage \<Rightarrow> (u64 \<times> source_inode) option" where
  "stage_inode fs st = map_option (\<lambda>i. (i, sf_inodes fs i)) (sf_names fs st)"

definition source_outcome :: "source_fs \<Rightarrow> io_outcome" where
  "source_outcome fs = (case sf_outcomes fs of [] \<Rightarrow> Io_ok | o' # _ \<Rightarrow> o')"

definition spend_outcome :: "source_fs \<Rightarrow> source_fs" where
  "spend_outcome fs = fs\<lparr>sf_outcomes := tl (sf_outcomes fs)\<rparr>"

text \<open>A change of the names, or a sync: \<open>Io_error 0\<close> stops before it, any other error after it.\<close>

definition source_step :: "string \<Rightarrow> (source_fs \<Rightarrow> source_fs) \<Rightarrow> (source_fs, unit) effect" where
  "source_step label change fs =
     (case source_outcome fs of
        Io_ok \<Rightarrow> (Inr (), change (spend_outcome fs))
      | Io_error 0 \<Rightarrow> (Inl (runtime_error label []), spend_outcome fs)
      | Io_error (Suc _) \<Rightarrow> (Inl (runtime_error label []), change (spend_outcome fs)))"

definition sread :: "(source_fs \<Rightarrow> 'a result) \<Rightarrow> (source_fs, 'a) effect" where
  "sread f fs = (f fs, fs)"

section \<open>Reading a stage (directory.rs)\<close>

definition open_source_dir :: "source_install_v1 \<Rightarrow> source_fs \<Rightarrow> unit result" where
  "open_source_dir plan fs =
     (if pp_parent (si_target plan) \<noteq> pp_parent (si_install_temp plan)
         \<or> pp_parent (si_target plan) \<noteq> pp_parent (si_guard_path plan)
      then Inl (blocked_error ''prepared source sibling parent binding'' [])
      else if sf_dev fs \<noteq> um_before_dev (si_unix_metadata plan)
      then Inl (blocked_error ''prepared source parent directory/filesystem binding'' [])
      else Inr ())"

definition stage_hash :: "hasher \<Rightarrow> source_stage \<Rightarrow> source_fs \<Rightarrow> string option result" where
  "stage_hash sha st fs =
     (case stage_inode fs st of
        None \<Rightarrow> Inr None
      | Some (_, n) \<Rightarrow>
          if \<not> in_regular n then Inl (blocked_error ''source stage type'' [])
          else if length (in_bytes n) > max_source_blob_bytes then Inl (blocked_error ''source stage reread budget'' [])
          else Inr (Some (sha256_bytes sha (in_bytes n))))"

definition mode_readonly :: "u32 \<Rightarrow> bool" where
  "mode_readonly m \<longleftrightarrow> and m 146 = 0"

definition validate_source_metadata ::
  "source_install_v1 \<Rightarrow> bool \<Rightarrow> u64 \<Rightarrow> u64 \<Rightarrow> source_inode \<Rightarrow> unit result" where
  "validate_source_metadata plan installed dev ino n =
     (let u = si_unix_metadata plan; p = si_permissions plan;
          (mode, uid, gid, readonly) =
            (if installed then (um_install_mode u, um_install_uid u, um_install_gid u, sp_install_readonly p)
             else (um_before_mode u, um_before_uid u, um_before_gid u, sp_before_readonly p))
      in if \<not> in_regular n then Inl (blocked_error ''source stage type'' [])
         else if dev \<noteq> um_before_dev u \<or> in_mode n \<noteq> mode \<or> in_uid n \<noteq> uid \<or> in_gid n \<noteq> gid
              \<or> mode_readonly (in_mode n) \<noteq> readonly
         then Inl (blocked_error ''source stage metadata/parent binding'' [])
         else if \<not> installed \<and> (dev \<noteq> um_before_dev u \<or> ino \<noteq> um_before_ino u)
         then Inl (blocked_error ''source original dev/ino binding'' []) else Inr ())"

definition validate_original :: "hasher \<Rightarrow> source_install_v1 \<Rightarrow> source_stage \<Rightarrow> source_fs \<Rightarrow> unit result" where
  "validate_original sha plan st fs =
     (case stage_inode fs st of
        None \<Rightarrow> Inl (blocked_error ''source original missing'' [])
      | Some (ino, n) \<Rightarrow>
          rbind (stage_hash sha st fs) (\<lambda>h.
          if h \<noteq> Some (si_before_sha256 plan) then Inl (blocked_error ''source stage hash/type'' [])
          else
          rbind (validate_source_metadata plan False (sf_dev fs) ino n) (\<lambda>_.
          rbind (source_identity_v1 sha (sf_dev fs) ino (si_before_sha256 plan)) (\<lambda>identity.
            if pp_expected_identity (si_target plan) \<noteq> Some identity
            then Inl (blocked_error ''source original expected identity'' []) else Inr ()))))"

definition validate_installed :: "hasher \<Rightarrow> source_install_v1 \<Rightarrow> source_stage \<Rightarrow> source_fs \<Rightarrow> unit result" where
  "validate_installed sha plan st fs =
     rbind (stage_hash sha st fs) (\<lambda>h.
       if h \<noteq> Some (si_proposed_sha256 plan) then Inl (blocked_error ''source stage hash/type'' [])
       else case stage_inode fs st of
           None \<Rightarrow> Inl (blocked_error ''source installed missing'' [])
         | Some (ino, n) \<Rightarrow> validate_source_metadata plan True (sf_dev fs) ino n)"

definition validate_original_pair :: "hasher \<Rightarrow> source_install_v1 \<Rightarrow> source_fs \<Rightarrow> unit result" where
  "validate_original_pair sha plan fs =
     rbind (validate_original sha plan TargetFile fs) (\<lambda>_.
     rbind (validate_original sha plan GuardFile fs) (\<lambda>_.
       if sf_names fs TargetFile \<noteq> sf_names fs GuardFile
       then Inl (blocked_error ''source target/guard inode identity'' []) else Inr ()))"

definition validate_installed_pair :: "hasher \<Rightarrow> source_install_v1 \<Rightarrow> source_fs \<Rightarrow> unit result" where
  "validate_installed_pair sha plan fs =
     rbind (validate_installed sha plan TargetFile fs) (\<lambda>_.
     rbind (validate_installed sha plan TempFile fs) (\<lambda>_.
       if sf_names fs TargetFile \<noteq> sf_names fs TempFile
       then Inl (blocked_error ''installed target/temp inode identity'' []) else Inr ()))"

definition validate_rollback :: "hasher \<Rightarrow> source_install_v1 \<Rightarrow> source_fs \<Rightarrow> unit result" where
  "validate_rollback sha plan fs =
     (case stage_inode fs RollbackFile of
        None \<Rightarrow> Inl (blocked_error ''source rollback missing'' [])
      | Some (_, n) \<Rightarrow>
          if \<not> in_regular n \<or> length (in_bytes n) > unat (si_before_byte_length plan)
          then Inl (blocked_error ''source rollback type/budget'' [])
          else if sha256_bytes sha (in_bytes n) \<noteq> si_before_sha256 plan
                  \<or> length (in_bytes n) \<noteq> unat (si_before_byte_length plan)
          then Inl (blocked_error ''source rollback hash/length'' []) else Inr ())"

section \<open>Changing the names\<close>

text \<open>\<open>linkat\<close> fails when the new name exists or the old one does not, \<open>unlinkat\<close> when there is none.\<close>

definition link_stage :: "source_stage \<Rightarrow> source_stage \<Rightarrow> (source_fs, unit) effect" where
  "link_stage old new fs =
     (if sf_names fs old = None \<or> sf_names fs new \<noteq> None
      then (Inl (blocked_error ''source recovery create-new link'' []), fs)
      else source_step ''source link'' (\<lambda>g. g\<lparr>sf_names := (sf_names g)(new := sf_names g old)\<rparr>) fs)"

definition unlink_stage :: "source_stage \<Rightarrow> (source_fs, unit) effect" where
  "unlink_stage st fs =
     (if sf_names fs st = None then (Inl (blocked_error ''source recovery unlink'' []), fs)
      else source_step ''source unlink'' (\<lambda>g. g\<lparr>sf_names := (sf_names g)(st := None)\<rparr>) fs)"

definition sync_stage :: "(source_fs, unit) effect" where
  "sync_stage = source_step ''source parent fsync'' (\<lambda>g. g)"

definition set_file :: "source_stage \<Rightarrow> source_inode \<Rightarrow> source_fs \<Rightarrow> source_fs" where
  "set_file st n fs =
     fs\<lparr>sf_names := (sf_names fs)(st \<mapsto> sf_new fs st), sf_inodes := (sf_inodes fs)(sf_new fs st := n)\<rparr>"

definition fresh_inode :: "source_fs \<Rightarrow> source_inode" where
  "fresh_inode fs = \<lparr>in_bytes = [], in_mode = 33152, in_uid = fst (sf_owner fs), in_gid = snd (sf_owner fs), in_regular = True\<rparr>"

text \<open>
  A file made under a new name, from an empty one of the process with mode \<open>0o600\<close>. \<open>part f k\<close> is the
  file after \<open>k\<close> of the \<open>len\<close> steps of its making, \<open>whole f\<close> the file as it is meant to be:
  \<open>Io_error (Suc k)\<close> stops after \<open>k\<close> steps, or past them, after the last one.
\<close>

definition create_file ::
  "source_stage \<Rightarrow> (source_inode \<Rightarrow> nat \<Rightarrow> source_inode) \<Rightarrow> (source_inode \<Rightarrow> source_inode) \<Rightarrow> nat \<Rightarrow> (source_fs, unit) effect" where
  "create_file st part whole len fs =
     (if sf_names fs st \<noteq> None then (Inl (blocked_error ''source create-new'' []), fs)
      else case source_outcome fs of
          Io_ok \<Rightarrow> (Inr (), set_file st (whole (fresh_inode fs)) (spend_outcome fs))
        | Io_error 0 \<Rightarrow> (Inl (blocked_error ''source create-new'' []), spend_outcome fs)
        | Io_error (Suc k) \<Rightarrow>
            (Inl (runtime_error ''source file write'' []),
             set_file st (if k \<le> len then part (fresh_inode fs) k else whole (fresh_inode fs)) (spend_outcome fs)))"

section \<open>Installation (source\_install.rs)\<close>

text \<open>
  The temporary file is given its owner first, then written, then given its mode.
\<close>

definition temp_inode :: "source_install_v1 \<Rightarrow> u32 \<Rightarrow> string \<Rightarrow> source_inode" where
  "temp_inode plan mode bytes =
     \<lparr>in_bytes = bytes, in_mode = mode, in_uid = um_install_uid (si_unix_metadata plan),
      in_gid = um_install_gid (si_unix_metadata plan), in_regular = True\<rparr>"

fun temp_part :: "source_install_v1 \<Rightarrow> string \<Rightarrow> source_inode \<Rightarrow> nat \<Rightarrow> source_inode" where
  "temp_part plan proposed f 0 = f"
| "temp_part plan proposed f (Suc k) = temp_inode plan 33152 (take k proposed)"

definition install_prepared_temp :: "hasher \<Rightarrow> source_install_v1 \<Rightarrow> string \<Rightarrow> (source_fs, unit) effect" where
  "install_prepared_temp sha plan proposed =
     (if sha256_bytes sha proposed \<noteq> si_proposed_sha256 plan \<or> length proposed \<noteq> unat (si_proposed_byte_length plan)
      then sthrow (blocked_error ''source install temp proposed bytes binding'' [])
      else sthen (create_file TempFile (temp_part plan proposed)
          (\<lambda>_. temp_inode plan (um_install_mode (si_unix_metadata plan)) proposed) (Suc (length proposed)))
        (sread (validate_installed sha plan TempFile)))"

definition rollback_original :: "hasher \<Rightarrow> source_install_v1 \<Rightarrow> source_fs \<Rightarrow> source_inode result" where
  "rollback_original sha plan fs =
     (case stage_inode fs TargetFile of
        None \<Rightarrow> Inl (blocked_error ''source rollback original missing'' [])
      | Some (_, n) \<Rightarrow>
          if \<not> in_regular n \<or> length (in_bytes n) > unat (si_before_byte_length plan)
          then Inl (blocked_error ''source rollback original budget'' [])
          else if sha256_bytes sha (in_bytes n) \<noteq> si_before_sha256 plan
                  \<or> length (in_bytes n) \<noteq> unat (si_before_byte_length plan)
          then Inl (blocked_error ''source rollback before blob binding'' []) else Inr n)"

text \<open>
  The rollback is given the target's mode, then written. It keeps the process's owner; only its bytes
  are ever checked.
\<close>

definition rollback_whole :: "source_inode \<Rightarrow> source_inode \<Rightarrow> source_inode" where
  "rollback_whole n f = f\<lparr>in_mode := in_mode n, in_bytes := in_bytes n\<rparr>"

fun rollback_part :: "source_inode \<Rightarrow> source_inode \<Rightarrow> nat \<Rightarrow> source_inode" where
  "rollback_part n f 0 = f"
| "rollback_part n f (Suc k) = f\<lparr>in_mode := in_mode n, in_bytes := take k (in_bytes n)\<rparr>"

definition install_prepared_rollback :: "hasher \<Rightarrow> source_install_v1 \<Rightarrow> (source_fs, unit) effect" where
  "install_prepared_rollback sha plan =
     sthen (\<lambda>fs. (if sf_rollback_dir fs then sreturn ()
            else source_step ''source rollback parent'' (\<lambda>g. g\<lparr>sf_rollback_dir := True\<rparr>)) fs)
       (\<lambda>fs. (if sf_names fs RollbackFile \<noteq> None then sread (validate_rollback sha plan)
         else sbind (sread (rollback_original sha plan)) (\<lambda>n.
             sthen (create_file RollbackFile (rollback_part n) (rollback_whole n) (Suc (length (in_bytes n))))
               (sthen (source_step ''source rollback parent fsync'' (\<lambda>g. g))
                 (sread (validate_rollback sha plan))))) fs)"

text \<open>Evidence first: the rollback and the temporary file, before the target is touched.\<close>

definition source_evidence :: "hasher \<Rightarrow> source_install_v1 \<Rightarrow> string \<Rightarrow> string option \<Rightarrow> (source_fs, unit) effect" where
  "source_evidence sha plan proposed target_hash =
     sthen (\<lambda>fs. (if sf_rollback_dir fs \<and> sf_names fs RollbackFile \<noteq> None then sread (validate_rollback sha plan)
         else if target_hash = Some (si_before_sha256 plan)
         then sthen (sread (validate_original sha plan TargetFile)) (install_prepared_rollback sha plan)
         else sthrow (blocked_error ''source recovery rollback evidence missing'' [])) fs)
      (sbind (sread (stage_hash sha TempFile)) (\<lambda>temp.
        swhen (temp = None \<and> target_hash \<noteq> Some (si_proposed_sha256 plan)) (install_prepared_temp sha plan proposed)))"

definition source_conflict :: "source_install_v1 \<Rightarrow> string option \<Rightarrow> string option \<Rightarrow> string option \<Rightarrow> bool" where
  "source_conflict plan target guard temp \<longleftrightarrow>
     (\<exists>h. temp = Some h \<and> h \<noteq> si_proposed_sha256 plan) \<or> (\<exists>h. guard = Some h \<and> h \<noteq> si_before_sha256 plan)
     \<or> (\<exists>h. target = Some h \<and> h \<noteq> si_before_sha256 plan \<and> h \<noteq> si_proposed_sha256 plan)"

definition guard_target ::
  "hasher \<Rightarrow> source_install_v1 \<Rightarrow> string option \<Rightarrow> string option \<Rightarrow> string option \<Rightarrow> (source_fs, unit) effect" where
  "guard_target sha plan target guard temp =
     swhen (target = Some (si_before_sha256 plan) \<and> guard = None)
       (if temp \<noteq> Some (si_proposed_sha256 plan) then sthrow (blocked_error ''source transaction proposed temp missing'' [])
        else sthen (sread (validate_original sha plan TargetFile))
          (sthen (link_stage TargetFile GuardFile) (sread (validate_original_pair sha plan))))"

definition unlink_target :: "hasher \<Rightarrow> source_install_v1 \<Rightarrow> (source_fs, unit) effect" where
  "unlink_target sha plan =
     sbind (sread (stage_hash sha TargetFile)) (\<lambda>h.
       swhen (h = Some (si_before_sha256 plan))
         (sthen (sread (validate_original_pair sha plan))
           (sthen sync_stage (sthen (sread (validate_original_pair sha plan)) (unlink_stage TargetFile)))))"

definition link_target :: "hasher \<Rightarrow> source_install_v1 \<Rightarrow> (source_fs, unit) effect" where
  "link_target sha plan =
     sbind (sread (stage_hash sha TargetFile)) (\<lambda>target.
     sbind (if target = None then sread (stage_hash sha GuardFile) else sreturn None) (\<lambda>guard.
       swhen (target = None \<and> guard \<noteq> None)
         (sthen (sread (validate_original sha plan GuardFile))
           (sbind (sread (stage_hash sha TempFile)) (\<lambda>temp.
             if temp \<noteq> Some (si_proposed_sha256 plan) then sthrow (blocked_error ''source recovery install temp missing'' [])
             else sthen (link_stage TempFile TargetFile) sync_stage)))))"

definition unlink_if_present :: "hasher \<Rightarrow> source_stage \<Rightarrow> (source_fs, unit) effect" where
  "unlink_if_present sha st = sbind (sread (stage_hash sha st)) (\<lambda>h. swhen (h \<noteq> None) (unlink_stage st))"

definition finish_target :: "hasher \<Rightarrow> source_install_v1 \<Rightarrow> (source_fs, unit) effect" where
  "finish_target sha plan =
     sbind (sread (stage_hash sha TargetFile)) (\<lambda>target.
       if target \<noteq> Some (si_proposed_sha256 plan)
       then sbind (if target = None then sread (stage_hash sha GuardFile) else sreturn None)
         (\<lambda>_. sthrow (blocked_error ''source transaction recovery bytes missing'' []))
       else sthen (sread (validate_installed sha plan TargetFile))
         (sthen (sbind (sread (stage_hash sha TempFile)) (\<lambda>temp.
             swhen (temp \<noteq> None) (sread (validate_installed_pair sha plan))))
         (sthen (unlink_if_present sha TempFile)
         (sthen (unlink_if_present sha GuardFile) sync_stage))))"

text \<open>\<open>recover_source_replace\<close> on the plan and the bytes of the transaction it has read.\<close>

definition recover_source_plan :: "hasher \<Rightarrow> source_install_v1 \<Rightarrow> string \<Rightarrow> (source_fs, unit) effect" where
  "recover_source_plan sha plan proposed =
     sthen (sread (open_source_dir plan))
     (sbind (sread (stage_hash sha TargetFile)) (\<lambda>target.
      sthen (source_evidence sha plan proposed target)
     (sbind (sread (stage_hash sha GuardFile)) (\<lambda>guard.
      sbind (sread (stage_hash sha TempFile)) (\<lambda>temp.
        if source_conflict plan target guard temp
        then sthrow (blocked_error ''source transaction recovery conflict'' [])
        else sthen (guard_target sha plan target guard temp)
          (sthen (unlink_target sha plan)
          (sthen (link_target sha plan) (finish_target sha plan))))))))"

text \<open>\<open>validate_source_install_initial_admission\<close>.\<close>

definition validate_source_install_initial_admission :: "source_fs \<Rightarrow> unit result" where
  "validate_source_install_initial_admission fs =
     (if sf_rollback_dir fs \<and> sf_names fs RollbackFile \<noteq> None
      then Inl (blocked_error ''source rollback create-new admission'' []) else Inr ())"

end
