(* ===== verification/Source_Replace_Properties.thy ===== *)
theory Source_Replace_Properties
  imports Source_Replace Effect_Hoare
begin

text \<open>
  An installation of source bytes that stops anywhere never loses the original and never touches a
  file it does not know, and it completes when it is run again, unless it stopped inside the writing
  of a file.
\<close>

section \<open>The states of an installation\<close>

text \<open>
  The original file \<open>orig\<close>, linked as the plan says it was, and the plan's bytes. Inode numbers of
  files not yet created differ from it and from each other.
\<close>

definition source_setting :: "hasher \<Rightarrow> source_install_v1 \<Rightarrow> source_inode \<Rightarrow> string \<Rightarrow> source_fs \<Rightarrow> bool" where
  "source_setting sha plan orig proposed fs \<longleftrightarrow>
     (let i = um_before_ino (si_unix_metadata plan)
      in sf_dev fs = um_before_dev (si_unix_metadata plan) \<and> sf_inodes fs i = orig
         \<and> sf_new fs TempFile \<noteq> i \<and> sf_new fs RollbackFile \<noteq> i \<and> sf_new fs TempFile \<noteq> sf_new fs RollbackFile)"

definition original_for :: "hasher \<Rightarrow> source_install_v1 \<Rightarrow> source_inode \<Rightarrow> bool" where
  "original_for sha plan orig \<longleftrightarrow>
     sha256_bytes sha (in_bytes orig) = si_before_sha256 plan
     \<and> length (in_bytes orig) = unat (si_before_byte_length plan)
     \<and> in_regular orig \<and> in_mode orig = um_before_mode (si_unix_metadata plan)
     \<and> in_uid orig = um_before_uid (si_unix_metadata plan) \<and> in_gid orig = um_before_gid (si_unix_metadata plan)
     \<and> mode_readonly (in_mode orig) = sp_before_readonly (si_permissions plan)"

definition proposed_for :: "hasher \<Rightarrow> source_install_v1 \<Rightarrow> string \<Rightarrow> bool" where
  "proposed_for sha plan proposed \<longleftrightarrow>
     sha256_bytes sha proposed = si_proposed_sha256 plan \<and> length proposed = unat (si_proposed_byte_length plan)
     \<and> si_before_sha256 plan \<noteq> si_proposed_sha256 plan"

text \<open>Files that hold what the plan wants, up to the hash.\<close>

definition rollback_good :: "hasher \<Rightarrow> source_install_v1 \<Rightarrow> source_fs \<Rightarrow> bool" where
  "rollback_good sha plan fs \<longleftrightarrow> sf_rollback_dir fs \<and> sf_names fs RollbackFile = Some (sf_new fs RollbackFile)
     \<and> in_regular (sf_inodes fs (sf_new fs RollbackFile))
     \<and> sha256_bytes sha (in_bytes (sf_inodes fs (sf_new fs RollbackFile))) = si_before_sha256 plan
     \<and> length (in_bytes (sf_inodes fs (sf_new fs RollbackFile))) = unat (si_before_byte_length plan)"

definition temp_good :: "hasher \<Rightarrow> source_install_v1 \<Rightarrow> source_fs \<Rightarrow> bool" where
  "temp_good sha plan fs \<longleftrightarrow> in_regular (sf_inodes fs (sf_new fs TempFile))
     \<and> length (in_bytes (sf_inodes fs (sf_new fs TempFile))) \<le> max_source_blob_bytes
     \<and> sha256_bytes sha (in_bytes (sf_inodes fs (sf_new fs TempFile))) = si_proposed_sha256 plan"

text \<open>
  Every state an installation passes through: the original is linked as the target, or as the guard
  while the temporary file is ready, or has given way to the proposed bytes with the rollback kept.
\<close>

definition source_inv :: "hasher \<Rightarrow> source_install_v1 \<Rightarrow> source_inode \<Rightarrow> string \<Rightarrow> source_fs \<Rightarrow> bool" where
  "source_inv sha plan orig proposed fs \<longleftrightarrow>
     (let i = um_before_ino (si_unix_metadata plan)
      in source_setting sha plan orig proposed fs
         \<and> (sf_names fs GuardFile = None \<or> sf_names fs GuardFile = Some i)
         \<and> (sf_names fs TempFile = None \<or> sf_names fs TempFile = Some (sf_new fs TempFile))
         \<and> (sf_names fs RollbackFile = None \<or> sf_names fs RollbackFile = Some (sf_new fs RollbackFile) \<and> sf_rollback_dir fs)
         \<and> (sf_names fs TargetFile = Some i
            \<or> rollback_good sha plan fs \<and> temp_good sha plan fs
               \<and> (sf_names fs TargetFile = None \<and> sf_names fs GuardFile = Some i \<and> sf_names fs TempFile = Some (sf_new fs TempFile)
                  \<or> sf_names fs TargetFile = Some (sf_new fs TempFile))))"

text \<open>
  What it means for the user: the original is linked as the target or as the guard, with its bytes
  and its metadata; or the target has the proposed bytes and a rollback the original's.
\<close>

definition source_recoverable :: "hasher \<Rightarrow> source_install_v1 \<Rightarrow> source_inode \<Rightarrow> source_fs \<Rightarrow> bool" where
  "source_recoverable sha plan orig fs \<longleftrightarrow>
     stage_inode fs TargetFile = Some (um_before_ino (si_unix_metadata plan), orig)
     \<or> stage_inode fs TargetFile = None \<and> stage_inode fs GuardFile = Some (um_before_ino (si_unix_metadata plan), orig)
     \<or> (\<exists>i n j r. stage_inode fs TargetFile = Some (i, n) \<and> sha256_bytes sha (in_bytes n) = si_proposed_sha256 plan
         \<and> stage_inode fs RollbackFile = Some (j, r) \<and> sha256_bytes sha (in_bytes r) = si_before_sha256 plan
         \<and> length (in_bytes r) = unat (si_before_byte_length plan))"

section \<open>Steps\<close>

lemma hoare_sread: "hoare P (sread f) (\<lambda>x s. P s \<and> f s = Inr x) P"
  by (auto simp: hoare_def sread_def split: sum.splits)

lemma hoare_sread_keep: "(\<And>x s. P s \<Longrightarrow> f s = Inr x \<Longrightarrow> Q x s) \<Longrightarrow> (\<And>s. P s \<Longrightarrow> E s) \<Longrightarrow> hoare P (sread f) Q E"
  by (auto simp: hoare_def sread_def split: sum.splits)

lemma hoare_step:
  assumes "\<And>s. P s \<Longrightarrow> Q (change (spend_outcome s))"
    and "\<And>s. P s \<Longrightarrow> E (spend_outcome s) \<and> E (change (spend_outcome s))"
  shows "hoare P (source_step label change) (\<lambda>_. Q) E"
  using assms by (auto simp: hoare_def source_step_def split: io_outcome.splits nat.splits)

lemma spend_fields [simp]:
  "sf_names (spend_outcome fs) = sf_names fs" "sf_inodes (spend_outcome fs) = sf_inodes fs"
  "sf_dev (spend_outcome fs) = sf_dev fs" "sf_rollback_dir (spend_outcome fs) = sf_rollback_dir fs"
  "sf_new (spend_outcome fs) = sf_new fs" "sf_owner (spend_outcome fs) = sf_owner fs"
  by (simp_all add: spend_outcome_def)

lemma hoare_link:
  assumes "\<And>s. P s \<Longrightarrow> sf_names s old \<noteq> None \<Longrightarrow> sf_names s new = None \<Longrightarrow>
      Q (s\<lparr>sf_names := (sf_names s)(new := sf_names s old)\<rparr>)"
    and "\<And>s. P s \<Longrightarrow> E s" "\<And>s. Q s \<Longrightarrow> E s" "\<And>s. P s \<Longrightarrow> P (spend_outcome s)"
  shows "hoare P (link_stage old new) (\<lambda>_. Q) E"
proof (rule hoareI)
  fix s assume s: "P s"
  show "case link_stage old new s of (Inl e, s') \<Rightarrow> E s' | (Inr x, s') \<Rightarrow> Q s'"
  proof (cases "sf_names s old = None \<or> sf_names s new \<noteq> None")
    case True
    with s assms(2) show ?thesis by (auto simp: link_stage_def)
  next
    case False
    let ?s = "spend_outcome s"
    have "Q (?s\<lparr>sf_names := (sf_names ?s)(new := sf_names ?s old)\<rparr>)"
      using assms(1) [OF assms(4) [OF s]] False by simp
    with False s assms show ?thesis
      by (auto simp: link_stage_def source_step_def split: io_outcome.splits nat.splits)
  qed
qed

lemma hoare_unlink:
  assumes "\<And>s. P s \<Longrightarrow> sf_names s st \<noteq> None \<Longrightarrow> Q (s\<lparr>sf_names := (sf_names s)(st := None)\<rparr>)"
    and "\<And>s. P s \<Longrightarrow> E s" "\<And>s. Q s \<Longrightarrow> E s" "\<And>s. P s \<Longrightarrow> P (spend_outcome s)"
  shows "hoare P (unlink_stage st) (\<lambda>_. Q) E"
proof (rule hoareI)
  fix s assume s: "P s"
  show "case unlink_stage st s of (Inl e, s') \<Rightarrow> E s' | (Inr x, s') \<Rightarrow> Q s'"
  proof (cases "sf_names s st = None")
    case True
    with s assms(2) show ?thesis by (auto simp: unlink_stage_def)
  next
    case False
    let ?s = "spend_outcome s"
    have "Q (?s\<lparr>sf_names := (sf_names ?s)(st := None)\<rparr>)"
      using assms(1) [OF assms(4) [OF s]] False by simp
    with False s assms show ?thesis
      by (auto simp: unlink_stage_def source_step_def split: io_outcome.splits nat.splits)
  qed
qed

lemma hoare_create:
  assumes "\<And>s n. P s \<Longrightarrow> sf_names s st = None \<Longrightarrow> E (set_file st n s)"
    and "\<And>s f. P s \<Longrightarrow> sf_names s st = None \<Longrightarrow> Q (set_file st (whole f) s)"
    and "\<And>s. P s \<Longrightarrow> E s" "\<And>s. Q s \<Longrightarrow> E s" "\<And>s. P s \<Longrightarrow> P (spend_outcome s)"
  shows "hoare P (create_file st part whole len) (\<lambda>_. Q) E"
proof (rule hoareI)
  fix s assume s: "P s"
  show "case create_file st part whole len s of (Inl e, s') \<Rightarrow> E s' | (Inr x, s') \<Rightarrow> Q s'"
  proof (cases "sf_names s st = None")
    case False
    with s assms(3) show ?thesis by (simp add: create_file_def)
  next
    case True
    note sp = assms(5) [OF s]
    from True assms(1) [OF sp] assms(2) [OF sp] assms(3) [OF sp] assms(4) show ?thesis
      by (auto simp: create_file_def split: io_outcome.splits nat.splits)
  qed
qed

section \<open>Reading\<close>

lemma stage_hash_file:
  "sf_names fs st = Some i \<Longrightarrow> stage_hash sha st fs = Inr h \<Longrightarrow>
     h = Some (sha256_bytes sha (in_bytes (sf_inodes fs i))) \<and> in_regular (sf_inodes fs i)
     \<and> length (in_bytes (sf_inodes fs i)) \<le> max_source_blob_bytes"
  by (auto simp: stage_hash_def stage_inode_def split: if_splits)

lemma stage_hash_none: "stage_hash sha st fs = Inr None \<longleftrightarrow> sf_names fs st = None"
  by (auto simp: stage_hash_def stage_inode_def split: option.splits)

lemma stage_hash_target:
  assumes "source_inv sha plan orig proposed fs" "original_for sha plan orig" "proposed_for sha plan proposed"
    and "stage_hash sha TargetFile fs = Inr h"
  shows "h = Some (si_before_sha256 plan) \<longleftrightarrow> sf_names fs TargetFile = Some (um_before_ino (si_unix_metadata plan))"
    and "h = Some (si_proposed_sha256 plan) \<longleftrightarrow> sf_names fs TargetFile = Some (sf_new fs TempFile)"
    and "h = None \<longleftrightarrow> sf_names fs TargetFile = None"
    and "h \<in> {None, Some (si_before_sha256 plan), Some (si_proposed_sha256 plan)}"
  using assms stage_hash_none [of sha TargetFile fs] stage_hash_file [OF _ assms(4)]
  by (auto simp: source_inv_def Let_def source_setting_def temp_good_def original_for_def proposed_for_def)

section \<open>The operations keep the states\<close>

lemma inv_spend [simp]:
  "source_inv sha plan orig proposed (spend_outcome fs) = source_inv sha plan orig proposed fs"
  "rollback_good sha plan (spend_outcome fs) = rollback_good sha plan fs"
  "temp_good sha plan (spend_outcome fs) = temp_good sha plan fs"
  "stage_hash sha st (spend_outcome fs) = stage_hash sha st fs"
  by (simp_all add: source_inv_def source_setting_def rollback_good_def temp_good_def stage_hash_def stage_inode_def)

text \<open>A new rollback or temporary file, while the original is the target.\<close>

lemma inv_new_file:
  assumes "source_inv sha plan orig proposed fs" "sf_names fs TargetFile = Some (um_before_ino (si_unix_metadata plan))"
  shows "sf_rollback_dir fs \<Longrightarrow> source_inv sha plan orig proposed (set_file RollbackFile n fs)"
    and "source_inv sha plan orig proposed (set_file TempFile n fs)"
    and "stage_hash sha TargetFile (set_file RollbackFile n fs) = stage_hash sha TargetFile fs"
    and "stage_hash sha TargetFile (set_file TempFile n fs) = stage_hash sha TargetFile fs"
    and "rollback_good sha plan fs \<Longrightarrow> rollback_good sha plan (set_file TempFile n fs)"
  using assms
  by (auto simp: source_inv_def source_setting_def Let_def set_file_def stage_hash_def stage_inode_def rollback_good_def)

lemma inv_dir: "source_inv sha plan orig proposed fs \<Longrightarrow> source_inv sha plan orig proposed (fs\<lparr>sf_rollback_dir := True\<rparr>)"
  by (auto simp: source_inv_def source_setting_def Let_def rollback_good_def temp_good_def)

lemma stage_hash_dir [simp]: "stage_hash sha st (fs\<lparr>sf_rollback_dir := b\<rparr>) = stage_hash sha st fs"
  by (simp add: stage_hash_def stage_inode_def)

lemma validate_rollback_good:
  assumes "source_inv sha plan orig proposed fs" "validate_rollback sha plan fs = Inr u"
  shows "rollback_good sha plan fs"
proof -
  from assms have r: "sf_names fs RollbackFile = Some (sf_new fs RollbackFile) \<and> sf_rollback_dir fs"
    by (auto simp: source_inv_def Let_def validate_rollback_def stage_inode_def)
  with assms(2) show ?thesis
    by (auto simp: rollback_good_def validate_rollback_def stage_inode_def split: if_splits)
qed

lemma validate_original_target:
  assumes "source_inv sha plan orig proposed fs" "original_for sha plan orig" "proposed_for sha plan proposed"
    and "validate_original sha plan TargetFile fs = Inr u"
  shows "sf_names fs TargetFile = Some (um_before_ino (si_unix_metadata plan))"
proof -
  from assms(4) have "stage_hash sha TargetFile fs = Inr (Some (si_before_sha256 plan))"
    by (auto simp: validate_original_def rbind_Inr_iff split: option.splits prod.splits if_splits)
  from stage_hash_target(1) [OF assms(1-3) this] show ?thesis by simp
qed

lemma rollback_installed:
  assumes "original_for sha plan orig" "proposed_for sha plan proposed"
  shows "hoare (\<lambda>s. source_inv sha plan orig proposed s \<and> stage_hash sha TargetFile s = Inr h
        \<and> sf_names s TargetFile = Some (um_before_ino (si_unix_metadata plan)))
      (install_prepared_rollback sha plan)
      (\<lambda>_ s. source_inv sha plan orig proposed s \<and> rollback_good sha plan s \<and> stage_hash sha TargetFile s = Inr h)
      (source_inv sha plan orig proposed)"
    (is "hoare ?P _ _ ?I")
proof -
  let ?D = "\<lambda>s. ?P s \<and> sf_rollback_dir s"
  have dir: "hoare ?P (\<lambda>fs. (if sf_rollback_dir fs then sreturn ()
      else source_step ''source rollback parent'' (\<lambda>g. g\<lparr>sf_rollback_dir := True\<rparr>)) fs) (\<lambda>_. ?D) ?I"
    by (intro hoare_state_if hoare_step) (auto simp: hoare_def sreturn_def inv_dir)
  have wr: "hoare ?D (sthen (create_file RollbackFile (rollback_part n) (rollback_whole n) (Suc (length (in_bytes n))))
      (sthen (source_step ''source rollback parent fsync'' (\<lambda>g. g)) (sread (validate_rollback sha plan))))
      (\<lambda>_ s. source_inv sha plan orig proposed s \<and> rollback_good sha plan s \<and> stage_hash sha TargetFile s = Inr h) ?I" for n
    by (rule hoare_then [where R = "\<lambda>s. source_inv sha plan orig proposed s \<and> stage_hash sha TargetFile s = Inr h"],
        rule hoare_create, simp_all add: inv_new_file [of sha plan orig proposed],
        rule hoare_then [where R = "\<lambda>s. source_inv sha plan orig proposed s \<and> stage_hash sha TargetFile s = Inr h"],
        rule hoare_step, simp_all, rule hoare_sread_keep, (use validate_rollback_good in blast), blast)
  show ?thesis unfolding install_prepared_rollback_def
  proof (rule hoare_then [OF dir], rule hoare_state_if)
    show "hoare (\<lambda>s. ?D s \<and> sf_names s RollbackFile \<noteq> None) (sread (validate_rollback sha plan))
        (\<lambda>_ s. source_inv sha plan orig proposed s \<and> rollback_good sha plan s \<and> stage_hash sha TargetFile s = Inr h) ?I"
      by (rule hoare_sread_keep) (use validate_rollback_good in blast)+
    show "hoare (\<lambda>s. ?D s \<and> \<not> sf_names s RollbackFile \<noteq> None)
        (sbind (sread (rollback_original sha plan)) (\<lambda>n.
             sthen (create_file RollbackFile (rollback_part n) (rollback_whole n) (Suc (length (in_bytes n))))
               (sthen (source_step ''source rollback parent fsync'' (\<lambda>g. g))
                 (sread (validate_rollback sha plan)))))
        (\<lambda>_ s. source_inv sha plan orig proposed s \<and> rollback_good sha plan s \<and> stage_hash sha TargetFile s = Inr h) ?I"
      by (rule hoare_bind [where R = "\<lambda>_. ?D"], rule hoare_sread_keep, simp, simp, rule wr)
  qed
qed

lemma temp_installed:
  "hoare (\<lambda>s. source_inv sha plan orig proposed s \<and> rollback_good sha plan s \<and> stage_hash sha TargetFile s = Inr h
        \<and> sf_names s TargetFile = Some (um_before_ino (si_unix_metadata plan)))
      (install_prepared_temp sha plan proposed)
      (\<lambda>_ s. source_inv sha plan orig proposed s \<and> rollback_good sha plan s \<and> stage_hash sha TargetFile s = Inr h
        \<and> sf_names s TempFile \<noteq> None)
      (source_inv sha plan orig proposed)"
    (is "hoare ?P _ ?Q ?I")
proof -
  have c: "hoare ?P (create_file TempFile (temp_part plan proposed)
      (\<lambda>_. temp_inode plan (um_install_mode (si_unix_metadata plan)) proposed) (Suc (length proposed))) ?Q ?I"
    by (rule hoare_create)
      (simp_all add: inv_new_file [of sha plan orig proposed] set_file_def [of TempFile, THEN arg_cong [where f = sf_names]])
  show ?thesis unfolding install_prepared_temp_def
    by (intro hoare_if hoare_then [OF c hoare_sread_keep] hoare_pre [OF hoare_throw]) simp_all
qed

lemma evidence_kept:
  assumes O: "original_for sha plan orig" and N: "proposed_for sha plan proposed"
  shows "hoare (\<lambda>s. source_inv sha plan orig proposed s \<and> stage_hash sha TargetFile s = Inr h)
      (source_evidence sha plan proposed h)
      (\<lambda>_ s. source_inv sha plan orig proposed s \<and> rollback_good sha plan s \<and> stage_hash sha TargetFile s = Inr h
        \<and> (sf_names s TempFile = None \<longrightarrow> h = Some (si_proposed_sha256 plan)))
      (source_inv sha plan orig proposed)"
    (is "hoare ?P _ ?Q ?I")
proof -
  let ?R = "\<lambda>s. source_inv sha plan orig proposed s \<and> rollback_good sha plan s \<and> stage_hash sha TargetFile s = Inr h"
  have first: "hoare ?P (\<lambda>fs. (if sf_rollback_dir fs \<and> sf_names fs RollbackFile \<noteq> None then sread (validate_rollback sha plan)
         else if h = Some (si_before_sha256 plan)
         then sthen (sread (validate_original sha plan TargetFile)) (install_prepared_rollback sha plan)
         else sthrow (blocked_error ''source recovery rollback evidence missing'' [])) fs) (\<lambda>_. ?R) ?I"
  proof (rule hoare_state_if)
    show "hoare (\<lambda>s. ?P s \<and> sf_rollback_dir s \<and> sf_names s RollbackFile \<noteq> None) (sread (validate_rollback sha plan)) (\<lambda>_. ?R) ?I"
      by (rule hoare_sread_keep) (use validate_rollback_good in blast)+
    show "hoare (\<lambda>s. ?P s \<and> \<not> (sf_rollback_dir s \<and> sf_names s RollbackFile \<noteq> None))
        (if h = Some (si_before_sha256 plan)
         then sthen (sread (validate_original sha plan TargetFile)) (install_prepared_rollback sha plan)
         else sthrow (blocked_error ''source recovery rollback evidence missing'' [])) (\<lambda>_. ?R) ?I"
      by (intro hoare_if hoare_then [OF hoare_sread_keep rollback_installed [OF O N]] hoare_pre [OF hoare_throw])
        (use validate_original_target [OF _ O N] in blast)+
  qed
  have second: "hoare (\<lambda>s. ?R s \<and> stage_hash sha TempFile s = Inr temp)
      (swhen (temp = None \<and> h \<noteq> Some (si_proposed_sha256 plan)) (install_prepared_temp sha plan proposed)) ?Q ?I" for temp
  proof (rule hoare_when)
    assume c: "temp = None \<and> h \<noteq> Some (si_proposed_sha256 plan)"
    show "hoare (\<lambda>s. ?R s \<and> stage_hash sha TempFile s = Inr temp) (install_prepared_temp sha plan proposed) ?Q ?I"
    proof (rule hoare_pre, rule hoare_post [OF temp_installed [of sha plan orig proposed h]])
      fix s assume s: "?R s \<and> stage_hash sha TempFile s = Inr temp"
      then have none: "sf_names s TempFile = None" using c stage_hash_none by auto
      have "h = Some (si_before_sha256 plan)"
        using stage_hash_target(3,4) [OF _ O N, of s h] s c none
        by (auto simp: source_inv_def Let_def source_setting_def)
      with s stage_hash_target(1) [OF _ O N, of s h]
      show "source_inv sha plan orig proposed s \<and> rollback_good sha plan s \<and> stage_hash sha TargetFile s = Inr h
          \<and> sf_names s TargetFile = Some (um_before_ino (si_unix_metadata plan))" by blast
    qed auto
  next
    fix s
    assume "\<not> (temp = None \<and> h \<noteq> Some (si_proposed_sha256 plan))" "?R s \<and> stage_hash sha TempFile s = Inr temp"
    then show "?Q () s" using stage_hash_none [of sha TempFile s] by auto
  qed
  show ?thesis unfolding source_evidence_def
    by (rule hoare_then [OF first], rule hoare_bind [where R = "\<lambda>temp s. ?R s \<and> stage_hash sha TempFile s = Inr temp"],
        rule hoare_sread_keep, simp, simp, rule second)
qed

text \<open>Once the evidence is there, the original leaves the target only as the guard.\<close>

lemma guarded:
  assumes O: "original_for sha plan orig" and N: "proposed_for sha plan proposed"
    and no: "\<not> source_conflict plan h guard temp"
  shows "hoare (\<lambda>s. source_inv sha plan orig proposed s \<and> rollback_good sha plan s \<and> stage_hash sha TargetFile s = Inr h
        \<and> (sf_names s TempFile = None \<longrightarrow> h = Some (si_proposed_sha256 plan))
        \<and> stage_hash sha GuardFile s = Inr guard \<and> stage_hash sha TempFile s = Inr temp)
      (guard_target sha plan h guard temp)
      (\<lambda>_ s. source_inv sha plan orig proposed s \<and> rollback_good sha plan s
        \<and> (sf_names s TargetFile = Some (um_before_ino (si_unix_metadata plan)) \<longrightarrow>
            sf_names s TempFile = Some (sf_new s TempFile) \<and> temp_good sha plan s))
      (source_inv sha plan orig proposed)"
    (is "hoare ?P _ (\<lambda>_. ?Q) ?I")
proof -
  have ready: "?Q s" if "?P s" for s
  proof -
    have "sf_names s TempFile = Some (sf_new s TempFile) \<and> temp_good sha plan s"
      if t: "sf_names s TargetFile = Some (um_before_ino (si_unix_metadata plan))"
    proof -
      have "h = Some (si_before_sha256 plan)"
        using stage_hash_target(1) [OF _ O N, of s h] \<open>?P s\<close> t by blast
      then have "h \<noteq> Some (si_proposed_sha256 plan)" using N by (simp add: proposed_for_def)
      with \<open>?P s\<close> have T: "sf_names s TempFile = Some (sf_new s TempFile)"
        by (auto simp: source_inv_def Let_def)
      have "stage_hash sha TempFile s = Inr temp" using \<open>?P s\<close> by simp
      from stage_hash_file [OF T this] no T show ?thesis by (auto simp: source_conflict_def temp_good_def)
    qed
    with that show ?thesis by blast
  qed
  let ?T = "\<lambda>s. ?Q s \<and> sf_names s TargetFile = Some (um_before_ino (si_unix_metadata plan))"
  have link: "hoare ?T (link_stage TargetFile GuardFile) (\<lambda>_. ?Q) ?I"
    by (rule hoare_link)
      (auto simp: source_inv_def source_setting_def Let_def rollback_good_def temp_good_def spend_fields)
  have val: "hoare ?P (sread (validate_original sha plan TargetFile)) (\<lambda>_. ?T) ?I"
  proof (rule hoare_sread_keep)
    fix x s
    assume s: "?P s" and v: "validate_original sha plan TargetFile s = Inr x"
    then have "source_inv sha plan orig proposed s" by blast
    from ready [OF s] validate_original_target [OF this O N v] show "?T s" by blast
  qed simp
  show ?thesis unfolding guard_target_def
  proof (rule hoare_when, intro hoare_if)
    show "hoare ?P (sthrow (blocked_error ''source transaction proposed temp missing'' [])) (\<lambda>_. ?Q) ?I"
      by (rule hoare_pre [OF hoare_throw]) simp
    show "hoare ?P (sthen (sread (validate_original sha plan TargetFile))
        (sthen (link_stage TargetFile GuardFile) (sread (validate_original_pair sha plan)))) (\<lambda>_. ?Q) ?I"
      by (rule hoare_then [OF val], rule hoare_then [OF link], rule hoare_sread_keep) simp_all
  next
    fix s
    assume "?P s"
    then show "?Q s" by (rule ready)
  qed
qed

lemma target_unlinked:
  assumes O: "original_for sha plan orig" and N: "proposed_for sha plan proposed"
  shows "hoare (\<lambda>s. source_inv sha plan orig proposed s \<and> rollback_good sha plan s
        \<and> (sf_names s TargetFile = Some (um_before_ino (si_unix_metadata plan)) \<longrightarrow>
            sf_names s TempFile = Some (sf_new s TempFile) \<and> temp_good sha plan s))
      (unlink_target sha plan)
      (\<lambda>_ s. source_inv sha plan orig proposed s \<and> rollback_good sha plan s
        \<and> sf_names s TargetFile \<noteq> Some (um_before_ino (si_unix_metadata plan)))
      (source_inv sha plan orig proposed)"
    (is "hoare ?P _ (\<lambda>_. ?Q) ?I")
proof -
  let ?G = "\<lambda>s. ?P s \<and> sf_names s TargetFile = Some (um_before_ino (si_unix_metadata plan))"
  let ?H = "\<lambda>s. ?G s \<and> sf_names s GuardFile = sf_names s TargetFile"
  have un: "hoare ?H (unlink_stage TargetFile) (\<lambda>_. ?Q) ?I"
    by (rule hoare_unlink)
      (auto simp: source_inv_def source_setting_def Let_def rollback_good_def temp_good_def spend_fields)
  have pair: "hoare ?G (sread (validate_original_pair sha plan)) (\<lambda>_. ?H) ?I"
    by (rule hoare_sread_keep) (auto simp: validate_original_pair_def rbind_Inr_iff split: if_splits)
  have body: "hoare ?G (sthen (sread (validate_original_pair sha plan))
      (sthen sync_stage (sthen (sread (validate_original_pair sha plan)) (unlink_stage TargetFile)))) (\<lambda>_. ?Q) ?I"
    by (rule hoare_then [OF pair], rule hoare_then [where R = ?G], unfold sync_stage_def, rule hoare_step, simp, simp,
        rule hoare_then [OF pair un])
  show ?thesis unfolding unlink_target_def
  proof (rule hoare_bind [where R = "\<lambda>h s. ?P s \<and> stage_hash sha TargetFile s = Inr h"], rule hoare_sread_keep, simp, simp)
    fix h
    show "hoare (\<lambda>s. ?P s \<and> stage_hash sha TargetFile s = Inr h) (swhen (h = Some (si_before_sha256 plan))
        (sthen (sread (validate_original_pair sha plan))
          (sthen sync_stage (sthen (sread (validate_original_pair sha plan)) (unlink_stage TargetFile))))) (\<lambda>_. ?Q) ?I"
      by (rule hoare_when, rule hoare_pre [OF body]) (use stage_hash_target(1) [OF _ O N] in blast)+
  qed
qed

lemma target_linked:
  assumes O: "original_for sha plan orig" and N: "proposed_for sha plan proposed"
  shows "hoare (\<lambda>s. source_inv sha plan orig proposed s \<and> rollback_good sha plan s
        \<and> sf_names s TargetFile \<noteq> Some (um_before_ino (si_unix_metadata plan)))
      (link_target sha plan)
      (\<lambda>_ s. source_inv sha plan orig proposed s \<and> rollback_good sha plan s
        \<and> sf_names s TargetFile = Some (sf_new s TempFile))
      (source_inv sha plan orig proposed)"
    (is "hoare ?P _ (\<lambda>_. ?Q) ?I")
proof -
  let ?N = "\<lambda>s. ?P s \<and> sf_names s TargetFile = None"
  have out: "?P s \<Longrightarrow> \<not> ?N s \<Longrightarrow> ?Q s" for s by (auto simp: source_inv_def Let_def)
  have link: "hoare ?N (sthen (link_stage TempFile TargetFile) sync_stage) (\<lambda>_. ?Q) ?I"
  proof (rule hoare_then)
    show "hoare ?N (link_stage TempFile TargetFile) (\<lambda>_. ?Q) ?I"
      by (rule hoare_link)
        (auto simp: source_inv_def source_setting_def Let_def rollback_good_def temp_good_def spend_fields)
    show "hoare ?Q sync_stage (\<lambda>_. ?Q) ?I"
      unfolding sync_stage_def by (rule hoare_step) simp_all
  qed
  have body: "hoare ?N (sthen (sread (validate_original sha plan GuardFile))
      (sbind (sread (stage_hash sha TempFile)) (\<lambda>temp.
        if temp \<noteq> Some (si_proposed_sha256 plan) then sthrow (blocked_error ''source recovery install temp missing'' [])
        else sthen (link_stage TempFile TargetFile) sync_stage))) (\<lambda>_. ?Q) ?I"
    by (rule hoare_then [where R = ?N], rule hoare_sread_keep, simp, simp,
        rule hoare_bind [where R = "\<lambda>_. ?N"], rule hoare_sread_keep, simp, simp,
        rule hoare_if, rule hoare_pre [OF hoare_throw], simp, rule link)
  show ?thesis unfolding link_target_def
  proof (rule hoare_bind [where R = "\<lambda>h s. ?P s \<and> stage_hash sha TargetFile s = Inr h"], rule hoare_sread_keep, simp, simp)
    fix h
    show "hoare (\<lambda>s. ?P s \<and> stage_hash sha TargetFile s = Inr h)
      (sbind (if h = None then sread (stage_hash sha GuardFile) else sreturn None) (\<lambda>guard.
         swhen (h = None \<and> guard \<noteq> None) (sthen (sread (validate_original sha plan GuardFile))
           (sbind (sread (stage_hash sha TempFile)) (\<lambda>temp.
             if temp \<noteq> Some (si_proposed_sha256 plan) then sthrow (blocked_error ''source recovery install temp missing'' [])
             else sthen (link_stage TempFile TargetFile) sync_stage))))) (\<lambda>_. ?Q) ?I"
    proof (cases "h = None")
      case True
      have n: "?P s \<and> stage_hash sha TargetFile s = Inr h \<Longrightarrow> ?N s \<and> sf_names s GuardFile \<noteq> None" for s
        using True stage_hash_none [of sha TargetFile s] by (auto simp: source_inv_def Let_def source_setting_def)
      have "hoare (\<lambda>s. ?P s \<and> stage_hash sha TargetFile s = Inr h) (sread (stage_hash sha GuardFile))
          (\<lambda>guard s. ?N s \<and> guard \<noteq> None) ?I"
      proof (rule hoare_sread_keep)
        fix x s
        assume "?P s \<and> stage_hash sha TargetFile s = Inr h" "stage_hash sha GuardFile s = Inr x"
        with n [of s] stage_hash_none [of sha GuardFile s] show "?N s \<and> x \<noteq> None" by auto
      qed simp
      then show ?thesis using True
        by (simp only: if_True simp_thms) (rule hoare_bind, assumption, rule hoare_when, rule hoare_pre [OF body], auto)
    next
      case False
      then have "?P s \<and> stage_hash sha TargetFile s = Inr h \<Longrightarrow> ?Q s" for s
        using out [of s] stage_hash_none [of sha TargetFile s] by auto
      with False show ?thesis by (auto simp: hoare_def sreturn_def)
    qed
  qed
qed

text \<open>An installation that is done.\<close>

definition source_installed :: "hasher \<Rightarrow> source_install_v1 \<Rightarrow> source_fs \<Rightarrow> bool" where
  "source_installed sha plan fs \<longleftrightarrow>
     stage_hash sha TargetFile fs = Inr (Some (si_proposed_sha256 plan)) \<and> sf_names fs TempFile = None
     \<and> sf_names fs GuardFile = None \<and> rollback_good sha plan fs \<and> validate_installed sha plan TargetFile fs = Inr ()"

lemma stage_hash_cong:
  "stage_inode fs' st = stage_inode fs st \<Longrightarrow> stage_hash sha st fs' = stage_hash sha st fs"
  by (simp add: stage_hash_def)

lemma validate_installed_cong:
  "stage_inode fs' st = stage_inode fs st \<Longrightarrow> sf_dev fs' = sf_dev fs \<Longrightarrow>
     validate_installed sha plan st fs' = validate_installed sha plan st fs"
  using stage_hash_cong [of fs' st fs sha] by (simp only: validate_installed_def)

lemma stage_inode_names:
  "st \<noteq> st' \<Longrightarrow> stage_inode (fs\<lparr>sf_names := (sf_names fs)(st := x)\<rparr>) st' = stage_inode fs st'"
  by (simp add: stage_inode_def)

lemma stage_inode_spend [simp]: "stage_inode (spend_outcome fs) st = stage_inode fs st"
  by (simp add: stage_inode_def)

lemma validate_installed_spend [simp]:
  "validate_installed sha plan st (spend_outcome fs) = validate_installed sha plan st fs"
  by (rule validate_installed_cong) simp_all

lemma validate_installed_names:
  "st \<noteq> st' \<Longrightarrow>
     validate_installed sha plan st' (fs\<lparr>sf_names := (sf_names fs)(st := x)\<rparr>) = validate_installed sha plan st' fs"
  by (rule validate_installed_cong) (simp_all add: stage_inode_names)

lemma validate_installed_hash:
  "validate_installed sha plan st fs = Inr () \<Longrightarrow> stage_hash sha st fs = Inr (Some (si_proposed_sha256 plan))"
  by (cases "stage_hash sha st fs") (simp_all add: validate_installed_def split: if_splits)

lemma unlinked_if_present:
  assumes "st = TempFile \<or> st = GuardFile"
  shows "hoare (\<lambda>s. source_inv sha plan orig proposed s \<and> rollback_good sha plan s
        \<and> sf_names s TargetFile = Some (sf_new s TempFile) \<and> validate_installed sha plan TargetFile s = Inr ()
        \<and> (\<forall>x\<in>gone. sf_names s x = None))
      (unlink_if_present sha st)
      (\<lambda>_ s. source_inv sha plan orig proposed s \<and> rollback_good sha plan s
        \<and> sf_names s TargetFile = Some (sf_new s TempFile) \<and> validate_installed sha plan TargetFile s = Inr ()
        \<and> (\<forall>x\<in>insert st gone. sf_names s x = None))
      (source_inv sha plan orig proposed)"
    (is "hoare ?P _ (\<lambda>_. ?Q) ?I")
proof -
  have "hoare ?P (unlink_stage st) (\<lambda>_. ?Q) ?I"
  proof (rule hoare_unlink)
    fix s
    assume s: "?P s"
    have "source_inv sha plan orig proposed (s\<lparr>sf_names := (sf_names s)(st := None)\<rparr>)
        \<and> rollback_good sha plan (s\<lparr>sf_names := (sf_names s)(st := None)\<rparr>)"
      using s assms by (auto simp: source_inv_def source_setting_def Let_def rollback_good_def temp_good_def)
    then show "?Q (s\<lparr>sf_names := (sf_names s)(st := None)\<rparr>)"
      using s assms by (auto simp: validate_installed_names)
  qed simp_all
  then show ?thesis unfolding unlink_if_present_def
    by (intro hoare_bind [where R = "\<lambda>h s. ?P s \<and> stage_hash sha st s = Inr h"] hoare_sread_keep hoare_when)
      (auto intro: hoare_pre simp: stage_hash_none)
qed

lemma target_finished:
  assumes O: "original_for sha plan orig" and N: "proposed_for sha plan proposed"
  shows "hoare (\<lambda>s. source_inv sha plan orig proposed s \<and> rollback_good sha plan s
        \<and> sf_names s TargetFile = Some (sf_new s TempFile))
      (finish_target sha plan)
      (\<lambda>_ s. source_inv sha plan orig proposed s \<and> source_installed sha plan s)
      (source_inv sha plan orig proposed)"
    (is "hoare ?P _ (\<lambda>_. ?Q) ?I")
proof -
  let ?V = "\<lambda>s. ?P s \<and> validate_installed sha plan TargetFile s = Inr ()"
  let ?G = "\<lambda>gone s. source_inv sha plan orig proposed s \<and> rollback_good sha plan s
        \<and> sf_names s TargetFile = Some (sf_new s TempFile) \<and> validate_installed sha plan TargetFile s = Inr ()
        \<and> (\<forall>x\<in>gone. sf_names s x = None)"
  have cleanup: "hoare (?G {}) (sthen (unlink_if_present sha TempFile) (sthen (unlink_if_present sha GuardFile) sync_stage))
      (\<lambda>_. ?G {GuardFile, TempFile}) ?I"
    by (rule hoare_then [OF unlinked_if_present], simp, rule hoare_then [OF unlinked_if_present], simp,
        unfold sync_stage_def, rule hoare_step) simp_all
  have final: "?Q s" if "?G {GuardFile, TempFile} s" for s
    using that validate_installed_hash [of sha plan TargetFile s] by (simp add: source_installed_def)
  have temp: "hoare (?G {}) (sbind (sread (stage_hash sha TempFile)) (\<lambda>temp.
      swhen (temp \<noteq> None) (sread (validate_installed_pair sha plan)))) (\<lambda>_. ?G {}) ?I"
    by (intro hoare_bind [where R = "\<lambda>_. ?G {}"] hoare_sread_keep hoare_when) simp_all
  have body: "hoare ?P (sthen (sread (validate_installed sha plan TargetFile))
         (sthen (sbind (sread (stage_hash sha TempFile)) (\<lambda>temp.
             swhen (temp \<noteq> None) (sread (validate_installed_pair sha plan))))
         (sthen (unlink_if_present sha TempFile)
         (sthen (unlink_if_present sha GuardFile) sync_stage)))) (\<lambda>_. ?Q) ?I"
    by (rule hoare_then [where R = "?G {}"], rule hoare_sread_keep, simp, simp,
        rule hoare_then [OF temp], rule hoare_post [OF cleanup], rule final)
  show ?thesis unfolding finish_target_def
    by (intro hoare_bind [where R = "\<lambda>_. ?P"] hoare_sread_keep hoare_if body hoare_pre [OF hoare_return] hoare_pre [OF hoare_throw])
      simp_all
qed

lemma recovery_keeps:
  assumes O: "original_for sha plan orig" and N: "proposed_for sha plan proposed"
  shows "hoare (source_inv sha plan orig proposed) (recover_source_plan sha plan proposed)
      (\<lambda>_ s. source_inv sha plan orig proposed s \<and> source_installed sha plan s)
      (source_inv sha plan orig proposed)"
    (is "hoare ?I _ ?Q _")
proof -
  let ?E = "\<lambda>h s. ?I s \<and> rollback_good sha plan s \<and> stage_hash sha TargetFile s = Inr h
        \<and> (sf_names s TempFile = None \<longrightarrow> h = Some (si_proposed_sha256 plan))"
  have rest: "hoare (\<lambda>s. ?E h s \<and> stage_hash sha GuardFile s = Inr guard \<and> stage_hash sha TempFile s = Inr temp)
      (if source_conflict plan h guard temp
        then sthrow (blocked_error ''source transaction recovery conflict'' [])
        else sthen (guard_target sha plan h guard temp)
          (sthen (unlink_target sha plan)
          (sthen (link_target sha plan) (finish_target sha plan)))) ?Q ?I" for h guard temp
    by (rule hoare_if, rule hoare_pre [OF hoare_throw], simp,
        rule hoare_then [OF _ hoare_then [OF target_unlinked [OF O N]
          hoare_then [OF target_linked [OF O N] target_finished [OF O N]]]],
        rule hoare_pre [OF guarded [OF O N]], assumption, blast)
  have temp: "hoare (\<lambda>s. ?E h s \<and> stage_hash sha GuardFile s = Inr guard)
      (sbind (sread (stage_hash sha TempFile)) (\<lambda>temp.
        if source_conflict plan h guard temp
        then sthrow (blocked_error ''source transaction recovery conflict'' [])
        else sthen (guard_target sha plan h guard temp)
          (sthen (unlink_target sha plan)
          (sthen (link_target sha plan) (finish_target sha plan))))) ?Q ?I" for h guard
    by (rule hoare_bind [OF hoare_sread_keep rest]) simp_all
  have guard: "hoare (?E h) (sbind (sread (stage_hash sha GuardFile)) (\<lambda>guard.
      sbind (sread (stage_hash sha TempFile)) (\<lambda>temp.
        if source_conflict plan h guard temp
        then sthrow (blocked_error ''source transaction recovery conflict'' [])
        else sthen (guard_target sha plan h guard temp)
          (sthen (unlink_target sha plan)
          (sthen (link_target sha plan) (finish_target sha plan)))))) ?Q ?I" for h
    by (rule hoare_bind [OF hoare_sread_keep temp]) simp_all
  show ?thesis unfolding recover_source_plan_def
    by (rule hoare_then [where R = ?I], rule hoare_sread_keep, assumption, assumption,
        rule hoare_bind [where R = "\<lambda>h s. ?I s \<and> stage_hash sha TargetFile s = Inr h"], rule hoare_sread_keep, simp, simp,
        rule hoare_then [OF evidence_kept [OF O N] guard])
qed

end
