(* ===== verification/Source_Replace_Liveness.thy ===== *)
theory Source_Replace_Liveness
  imports Source_Replace_Properties
begin

text \<open>
  The other half: an installation that can do its steps and finds no half-written file completes.
  The triples here have no error state.
\<close>

section \<open>Steps that do not fail\<close>

lemma hoare_sread_ok: "(\<And>s. P s \<Longrightarrow> \<exists>x. f s = Inr x \<and> Q x s) \<Longrightarrow> hoare P (sread f) Q E"
  by (fastforce simp: hoare_def sread_def)

lemma hoare_sread_unit: "(\<And>s. P s \<Longrightarrow> f s = Inr ()) \<Longrightarrow> (\<And>s. P s \<Longrightarrow> Q s) \<Longrightarrow> hoare P (sread f) (\<lambda>_. Q) E"
  by (rule hoare_sread_ok) simp

lemma spend_none: "sf_outcomes fs = [] \<Longrightarrow> spend_outcome fs = fs"
  by (simp add: spend_outcome_def)

lemma source_outcome_none: "sf_outcomes fs = [] \<Longrightarrow> source_outcome fs = Io_ok"
  by (simp add: source_outcome_def)

lemma hoare_step_ok:
  "(\<And>s. P s \<Longrightarrow> sf_outcomes s = [] \<and> Q (change s)) \<Longrightarrow> hoare P (source_step label change) (\<lambda>_. Q) E"
  by (rule hoareI) (simp add: source_step_def spend_none source_outcome_none)

lemma hoare_sync_ok: "(\<And>s. P s \<Longrightarrow> sf_outcomes s = []) \<Longrightarrow> hoare P sync_stage (\<lambda>_. P) E"
  unfolding sync_stage_def by (rule hoare_step_ok) simp

lemma hoare_link_ok:
  "(\<And>s. P s \<Longrightarrow> sf_outcomes s = [] \<and> sf_names s old \<noteq> None \<and> sf_names s new = None
      \<and> Q (s\<lparr>sf_names := (sf_names s)(new := sf_names s old)\<rparr>)) \<Longrightarrow> hoare P (link_stage old new) (\<lambda>_. Q) E"
  by (rule hoareI) (fastforce simp: link_stage_def source_step_def spend_none source_outcome_none)

lemma hoare_unlink_ok:
  "(\<And>s. P s \<Longrightarrow> sf_outcomes s = [] \<and> sf_names s st \<noteq> None
      \<and> Q (s\<lparr>sf_names := (sf_names s)(st := None)\<rparr>)) \<Longrightarrow> hoare P (unlink_stage st) (\<lambda>_. Q) E"
  by (rule hoareI) (fastforce simp: unlink_stage_def source_step_def spend_none source_outcome_none)

lemma hoare_create_ok:
  "(\<And>s f. P s \<Longrightarrow> f = fresh_inode s \<Longrightarrow> sf_outcomes s = [] \<and> sf_names s st = None \<and> Q (set_file st (whole f) s)) \<Longrightarrow>
     hoare P (create_file st part whole len) (\<lambda>_. Q) E"
  by (rule hoareI) (simp add: create_file_def spend_none source_outcome_none)

section \<open>Reading what is there\<close>

definition temp_whole :: "hasher \<Rightarrow> source_install_v1 \<Rightarrow> source_fs \<Rightarrow> bool" where
  "temp_whole sha plan fs \<longleftrightarrow> temp_good sha plan fs
     \<and> validate_source_metadata plan True (sf_dev fs) (sf_new fs TempFile) (sf_inodes fs (sf_new fs TempFile)) = Inr ()"

lemma validate_installed_whole:
  "sf_names fs st = Some (sf_new fs TempFile) \<Longrightarrow> validate_installed sha plan st fs = Inr () \<longleftrightarrow> temp_whole sha plan fs"
  by (auto simp: validate_installed_def stage_hash_def stage_inode_def temp_whole_def temp_good_def)

lemma temp_whole_cong:
  "sf_inodes fs' (sf_new fs' TempFile) = sf_inodes fs (sf_new fs TempFile) \<Longrightarrow> sf_dev fs' = sf_dev fs \<Longrightarrow>
     temp_whole sha plan fs' = temp_whole sha plan fs"
  by (simp add: temp_whole_def temp_good_def validate_source_metadata_def Let_def)

text \<open>What a checked plan gives.\<close>

lemma checked_plan:
  assumes "validate_source_install_v1 sha plan = Inr ()"
  shows "source_hashes_bound plan" "source_metadata_bound plan"
    and "pp_parent (si_target plan) = pp_parent (si_install_temp plan)"
    and "pp_parent (si_target plan) = pp_parent (si_guard_path plan)"
    and "\<exists>identity. source_identity_v1 sha (um_before_dev (si_unix_metadata plan)) (um_before_ino (si_unix_metadata plan))
           (si_before_sha256 plan) = Inr identity \<and> pp_expected_identity (si_target plan) = Some identity"
  using assms by (auto simp: validate_source_install_v1_def rbind_Inr_iff split: if_splits)

lemma original_stage:
  assumes I: "source_inv sha plan orig proposed fs" and O: "original_for sha plan orig"
    and V: "validate_source_install_v1 sha plan = Inr ()"
    and at: "sf_names fs st = Some (um_before_ino (si_unix_metadata plan))"
  shows "stage_hash sha st fs = Inr (Some (si_before_sha256 plan))" "validate_original sha plan st fs = Inr ()"
proof -
  have n: "stage_inode fs st = Some (um_before_ino (si_unix_metadata plan), orig)"
    and dev: "sf_dev fs = um_before_dev (si_unix_metadata plan)"
    using I at by (auto simp: source_inv_def source_setting_def Let_def stage_inode_def)
  have len: "length (in_bytes orig) \<le> max_source_blob_bytes"
    using checked_plan(1) [OF V] O by (simp add: source_hashes_bound_def original_for_def)
  show h: "stage_hash sha st fs = Inr (Some (si_before_sha256 plan))"
    using n O len by (simp add: stage_hash_def original_for_def)
  have m: "validate_source_metadata plan False (sf_dev fs) (um_before_ino (si_unix_metadata plan)) orig = Inr ()"
    using O dev by (auto simp: validate_source_metadata_def original_for_def Let_def)
  obtain identity where "source_identity_v1 sha (sf_dev fs) (um_before_ino (si_unix_metadata plan)) (si_before_sha256 plan) = Inr identity"
    "pp_expected_identity (si_target plan) = Some identity"
    using checked_plan(5) [OF V] dev by auto
  with n h m show "validate_original sha plan st fs = Inr ()" by (simp add: validate_original_def)
qed

lemma temp_stage:
  "temp_good sha plan fs \<Longrightarrow> sf_names fs st = Some (sf_new fs TempFile) \<Longrightarrow>
     stage_hash sha st fs = Inr (Some (si_proposed_sha256 plan))"
  by (simp add: temp_good_def stage_hash_def stage_inode_def)

lemma stage_hash_some: "stage_hash sha st fs = Inr (Some h) \<Longrightarrow> \<exists>i. sf_names fs st = Some i"
  using stage_hash_none [of sha st fs] by fastforce

section \<open>The phases\<close>

text \<open>The evidence is there: the rollback, and the proposed bytes in the temporary file's inode.\<close>

definition source_ready :: "hasher \<Rightarrow> source_install_v1 \<Rightarrow> source_inode \<Rightarrow> string \<Rightarrow> source_fs \<Rightarrow> bool" where
  "source_ready sha plan orig proposed fs \<longleftrightarrow>
     source_inv sha plan orig proposed fs \<and> rollback_good sha plan fs \<and> temp_whole sha plan fs \<and> sf_outcomes fs = []
     \<and> (sf_names fs TempFile = None \<longrightarrow> sf_names fs TargetFile = Some (sf_new fs TempFile))"

lemma ready_names:
  assumes "source_ready sha plan orig proposed fs"
  shows "sf_names fs TargetFile \<in> {None, Some (um_before_ino (si_unix_metadata plan)), Some (sf_new fs TempFile)}"
    and "sf_names fs GuardFile \<in> {None, Some (um_before_ino (si_unix_metadata plan))}"
    and "sf_names fs TempFile \<in> {None, Some (sf_new fs TempFile)}"
    and "sf_names fs TargetFile = None \<Longrightarrow> sf_names fs GuardFile = Some (um_before_ino (si_unix_metadata plan))"
    and "um_before_ino (si_unix_metadata plan) \<noteq> sf_new fs TempFile"
  using assms by (auto simp: source_ready_def source_inv_def source_setting_def Let_def)

lemma ready_hash:
  assumes R: "source_ready sha plan orig proposed fs" and O: "original_for sha plan orig"
    and V: "validate_source_install_v1 sha plan = Inr ()"
  shows "\<exists>h. stage_hash sha TargetFile fs = Inr h" "\<exists>h. stage_hash sha GuardFile fs = Inr h"
    and "\<exists>h. stage_hash sha TempFile fs = Inr h"
proof -
  have I: "source_inv sha plan orig proposed fs" and T: "temp_good sha plan fs"
    using R by (simp_all add: source_ready_def temp_whole_def)
  note cases = ready_names [OF R] and st = original_stage(1) [OF I O V] temp_stage [OF T]
    and no = stage_hash_none [of sha _ fs, THEN iffD2]
  show "\<exists>h. stage_hash sha TargetFile fs = Inr h" using cases(1) st [of TargetFile] no [of TargetFile] by auto
  show "\<exists>h. stage_hash sha GuardFile fs = Inr h" using cases(2) st [of GuardFile] no [of GuardFile] by auto
  show "\<exists>h. stage_hash sha TempFile fs = Inr h" using cases(3) st [of TempFile] no [of TempFile] by auto
qed

text \<open>Unlinking or linking what the phases link keeps a ready state ready.\<close>

lemma ready_guard:
  assumes "source_ready sha plan orig proposed fs" "sf_names fs TargetFile = Some (um_before_ino (si_unix_metadata plan))"
  shows "source_ready sha plan orig proposed (fs\<lparr>sf_names := (sf_names fs)(GuardFile := sf_names fs TargetFile)\<rparr>)"
  using assms by (auto simp: source_ready_def source_inv_def source_setting_def Let_def rollback_good_def temp_good_def temp_whole_def)

lemma ready_unlinked:
  assumes "source_ready sha plan orig proposed fs" "sf_names fs TargetFile = Some (um_before_ino (si_unix_metadata plan))"
    and "sf_names fs GuardFile = sf_names fs TargetFile"
  shows "source_ready sha plan orig proposed (fs\<lparr>sf_names := (sf_names fs)(TargetFile := None)\<rparr>)"
  using assms by (auto simp: source_ready_def source_inv_def source_setting_def Let_def rollback_good_def temp_good_def temp_whole_def)

lemma ready_linked:
  assumes "source_ready sha plan orig proposed fs" "sf_names fs TargetFile = None"
  shows "source_ready sha plan orig proposed (fs\<lparr>sf_names := (sf_names fs)(TargetFile := sf_names fs TempFile)\<rparr>)"
  using assms by (auto simp: source_ready_def source_inv_def source_setting_def Let_def rollback_good_def temp_good_def temp_whole_def)

lemma ready_removed:
  assumes "source_ready sha plan orig proposed fs" "sf_names fs TargetFile = Some (sf_new fs TempFile)"
    and "st = TempFile \<or> st = GuardFile"
  shows "source_ready sha plan orig proposed (fs\<lparr>sf_names := (sf_names fs)(st := None)\<rparr>)"
  using assms by (auto simp: source_ready_def source_inv_def source_setting_def Let_def rollback_good_def temp_good_def temp_whole_def)

lemma ready_inv:
  "source_ready sha plan orig proposed fs \<Longrightarrow> source_inv sha plan orig proposed fs"
  "source_ready sha plan orig proposed fs \<Longrightarrow> temp_good sha plan fs"
  "source_ready sha plan orig proposed fs \<Longrightarrow> temp_whole sha plan fs"
  "source_ready sha plan orig proposed fs \<Longrightarrow> sf_outcomes fs = []"
  by (simp_all add: source_ready_def temp_whole_def)

text \<open>The first link, the guard.\<close>

lemma guard_ok:
  assumes O: "original_for sha plan orig" and N: "proposed_for sha plan proposed"
    and V: "validate_source_install_v1 sha plan = Inr ()"
  shows "hoare (\<lambda>s. source_ready sha plan orig proposed s \<and> stage_hash sha TargetFile s = Inr h
        \<and> stage_hash sha GuardFile s = Inr guard \<and> stage_hash sha TempFile s = Inr temp)
      (guard_target sha plan h guard temp)
      (\<lambda>_ s. source_ready sha plan orig proposed s
        \<and> (sf_names s TargetFile = Some (um_before_ino (si_unix_metadata plan)) \<longrightarrow>
            sf_names s GuardFile = sf_names s TargetFile)) (\<lambda>_. False)"
    (is "hoare ?P _ (\<lambda>_. ?Q) ?E")
proof -
  let ?i = "um_before_ino (si_unix_metadata plan)"
  let ?A = "\<lambda>s. source_ready sha plan orig proposed s \<and> sf_names s TargetFile = Some ?i \<and> sf_names s GuardFile = None"
  let ?B = "\<lambda>s. source_ready sha plan orig proposed s \<and> sf_names s TargetFile = Some ?i \<and> sf_names s GuardFile = Some ?i"
  have orig: "hoare ?A (sread (validate_original sha plan TargetFile)) (\<lambda>_. ?A) ?E"
    by (rule hoare_sread_unit) (use original_stage(2) [OF ready_inv(1) O V] in blast)+
  have link: "hoare ?A (link_stage TargetFile GuardFile) (\<lambda>_. ?B) ?E"
    by (rule hoare_link_ok) (use ready_guard ready_inv(4) in auto)
  have pair: "hoare ?B (sread (validate_original_pair sha plan)) (\<lambda>_. ?Q) ?E"
    by (rule hoare_sread_unit)
      (use original_stage(2) [OF ready_inv(1) O V] in \<open>auto simp: validate_original_pair_def\<close>)
  show ?thesis unfolding guard_target_def
  proof (rule hoare_when)
    assume c: "h = Some (si_before_sha256 plan) \<and> guard = None"
    have A: "?A s" "temp = Some (si_proposed_sha256 plan)" if s: "?P s" for s
    proof -
      have I: "source_inv sha plan orig proposed s" using s ready_inv(1) by blast
      show "?A s" using s c stage_hash_target(1) [OF I O N, of h] stage_hash_none [of sha GuardFile s] by auto
      then have "sf_names s TempFile = Some (sf_new s TempFile)" using ready_names(3,5) [of sha plan orig proposed s]
        by (auto simp: source_ready_def)
      from temp_stage [OF ready_inv(2) this] s show "temp = Some (si_proposed_sha256 plan)" by auto
    qed
    show "hoare ?P (if temp \<noteq> Some (si_proposed_sha256 plan) then sthrow (blocked_error ''source transaction proposed temp missing'' [])
        else sthen (sread (validate_original sha plan TargetFile))
          (sthen (link_stage TargetFile GuardFile) (sread (validate_original_pair sha plan)))) (\<lambda>_. ?Q) ?E"
    proof (rule hoare_if)
      assume "temp \<noteq> Some (si_proposed_sha256 plan)"
      with A(2) have "\<And>s. \<not> ?P s" by blast
      then show "hoare ?P (sthrow (blocked_error ''source transaction proposed temp missing'' [])) (\<lambda>_. ?Q) ?E"
        by (intro hoare_pre [OF hoare_false]) blast
    qed (rule hoare_pre [OF hoare_then [OF orig hoare_then [OF link pair]]], rule A(1))
  next
    fix s
    assume c: "\<not> (h = Some (si_before_sha256 plan) \<and> guard = None)" and s: "?P s"
    have I: "source_inv sha plan orig proposed s" using s ready_inv(1) by blast
    show "?Q s" using s c stage_hash_target(1) [OF I O N, of h] stage_hash_none [of sha GuardFile s]
        ready_names(2) [of sha plan orig proposed s] by auto
  qed
qed

lemma unlink_ok:
  assumes O: "original_for sha plan orig" and N: "proposed_for sha plan proposed"
    and V: "validate_source_install_v1 sha plan = Inr ()"
  shows "hoare (\<lambda>s. source_ready sha plan orig proposed s
        \<and> (sf_names s TargetFile = Some (um_before_ino (si_unix_metadata plan)) \<longrightarrow>
            sf_names s GuardFile = sf_names s TargetFile))
      (unlink_target sha plan)
      (\<lambda>_ s. source_ready sha plan orig proposed s
        \<and> sf_names s TargetFile \<noteq> Some (um_before_ino (si_unix_metadata plan))) (\<lambda>_. False)"
    (is "hoare ?P _ (\<lambda>_. ?Q) ?E")
proof -
  let ?i = "um_before_ino (si_unix_metadata plan)"
  let ?B = "\<lambda>s. source_ready sha plan orig proposed s \<and> sf_names s TargetFile = Some ?i \<and> sf_names s GuardFile = Some ?i"
  have pair: "hoare ?B (sread (validate_original_pair sha plan)) (\<lambda>_. ?B) ?E"
    by (rule hoare_sread_unit)
      (use original_stage(2) [OF ready_inv(1) O V] in \<open>auto simp: validate_original_pair_def\<close>)
  have un: "hoare ?B (unlink_stage TargetFile) (\<lambda>_. ?Q) ?E"
    by (rule hoare_unlink_ok) (use ready_unlinked ready_inv(4) in auto)
  have syn: "hoare ?B sync_stage (\<lambda>_. ?B) ?E"
    by (rule hoare_sync_ok) (use ready_inv(4) in blast)
  show ?thesis unfolding unlink_target_def
  proof (rule hoare_bind [where R = "\<lambda>h s. ?P s \<and> stage_hash sha TargetFile s = Inr h"])
    show "hoare ?P (sread (stage_hash sha TargetFile)) (\<lambda>h s. ?P s \<and> stage_hash sha TargetFile s = Inr h) ?E"
      by (rule hoare_sread_ok) (use ready_hash(1) [OF _ O V] in blast)
    fix h
    show "hoare (\<lambda>s. ?P s \<and> stage_hash sha TargetFile s = Inr h) (swhen (h = Some (si_before_sha256 plan))
        (sthen (sread (validate_original_pair sha plan))
          (sthen sync_stage (sthen (sread (validate_original_pair sha plan)) (unlink_stage TargetFile))))) (\<lambda>_. ?Q) ?E"
      by (rule hoare_when, rule hoare_pre [OF hoare_then [OF pair hoare_then [OF syn hoare_then [OF pair un]]]])
        (use stage_hash_target(1) [OF ready_inv(1) O N] in auto)
  qed
qed

lemma link_ok:
  assumes O: "original_for sha plan orig" and N: "proposed_for sha plan proposed"
    and V: "validate_source_install_v1 sha plan = Inr ()"
  shows "hoare (\<lambda>s. source_ready sha plan orig proposed s
        \<and> sf_names s TargetFile \<noteq> Some (um_before_ino (si_unix_metadata plan)))
      (link_target sha plan)
      (\<lambda>_ s. source_ready sha plan orig proposed s \<and> sf_names s TargetFile = Some (sf_new s TempFile)) (\<lambda>_. False)"
    (is "hoare ?P _ (\<lambda>_. ?Q) ?E")
proof -
  let ?i = "um_before_ino (si_unix_metadata plan)"
  let ?C = "\<lambda>s. source_ready sha plan orig proposed s \<and> sf_names s TargetFile = None
      \<and> sf_names s GuardFile = Some ?i \<and> sf_names s TempFile = Some (sf_new s TempFile)"
  have C: "?C s" if "?P s" "stage_hash sha TargetFile s = Inr None" for s
    using that ready_names [of sha plan orig proposed s] stage_hash_none [of sha TargetFile s]
    by (auto simp: source_ready_def)
  have guard: "hoare ?C (sread (validate_original sha plan GuardFile)) (\<lambda>_. ?C) ?E"
    by (rule hoare_sread_unit) (use original_stage(2) [OF ready_inv(1) O V] in blast)+
  have temp: "hoare ?C (sread (stage_hash sha TempFile)) (\<lambda>temp s. temp = Some (si_proposed_sha256 plan) \<and> ?C s) ?E"
    by (rule hoare_sread_ok) (use temp_stage [OF ready_inv(2)] in blast)
  have link: "hoare ?C (link_stage TempFile TargetFile) (\<lambda>_. ?Q) ?E"
  proof (rule hoare_link_ok)
    fix s
    assume C: "?C s"
    with ready_linked [of sha plan orig proposed s] ready_inv(4) [of sha plan orig proposed s]
    show "sf_outcomes s = [] \<and> sf_names s TempFile \<noteq> None \<and> sf_names s TargetFile = None
        \<and> ?Q (s\<lparr>sf_names := (sf_names s)(TargetFile := sf_names s TempFile)\<rparr>)" by simp
  qed
  have syn: "hoare ?Q sync_stage (\<lambda>_. ?Q) ?E"
    by (rule hoare_sync_ok) (use ready_inv(4) in blast)
  have inner: "hoare (\<lambda>s. temp = Some (si_proposed_sha256 plan) \<and> ?C s)
      (if temp \<noteq> Some (si_proposed_sha256 plan) then sthrow (blocked_error ''source recovery install temp missing'' [])
       else sthen (link_stage TempFile TargetFile) sync_stage) (\<lambda>_. ?Q) ?E" for temp
    by (rule hoare_fact) (simp add: hoare_then [OF link syn])
  show ?thesis unfolding link_target_def
  proof (rule hoare_bind [where R = "\<lambda>h s. ?P s \<and> stage_hash sha TargetFile s = Inr h"])
    show "hoare ?P (sread (stage_hash sha TargetFile)) (\<lambda>h s. ?P s \<and> stage_hash sha TargetFile s = Inr h) ?E"
      by (rule hoare_sread_ok) (use ready_hash(1) [OF _ O V] in blast)
    fix h
    show "hoare (\<lambda>s. ?P s \<and> stage_hash sha TargetFile s = Inr h)
      (sbind (if h = None then sread (stage_hash sha GuardFile) else sreturn None) (\<lambda>guard.
         swhen (h = None \<and> guard \<noteq> None) (sthen (sread (validate_original sha plan GuardFile))
           (sbind (sread (stage_hash sha TempFile)) (\<lambda>temp.
             if temp \<noteq> Some (si_proposed_sha256 plan) then sthrow (blocked_error ''source recovery install temp missing'' [])
             else sthen (link_stage TempFile TargetFile) sync_stage))))) (\<lambda>_. ?Q) ?E"
    proof (cases "h = None")
      case True
      have "hoare ?C (sread (stage_hash sha GuardFile)) (\<lambda>guard s. guard \<noteq> None \<and> ?C s) ?E"
        by (rule hoare_sread_ok) (use original_stage(1) [OF ready_inv(1) O V] in blast)
      then have "hoare ?C (sbind (sread (stage_hash sha GuardFile)) (\<lambda>guard.
         swhen (guard \<noteq> None) (sthen (sread (validate_original sha plan GuardFile))
           (sbind (sread (stage_hash sha TempFile)) (\<lambda>temp.
             if temp \<noteq> Some (si_proposed_sha256 plan) then sthrow (blocked_error ''source recovery install temp missing'' [])
             else sthen (link_stage TempFile TargetFile) sync_stage))))) (\<lambda>_. ?Q) ?E"
        by (rule hoare_bind, intro hoare_fact, intro hoare_when hoare_then [OF guard] hoare_bind [OF temp inner]) blast
      with True show ?thesis by (simp only: if_True simp_thms) (rule hoare_pre, assumption, use C in blast)
    next
      case False
      then have "?P s \<and> stage_hash sha TargetFile s = Inr h \<Longrightarrow> ?Q s" for s
        using ready_names(1) [of sha plan orig proposed s] stage_hash_none [of sha TargetFile s] by auto
      with False show ?thesis by (auto simp: hoare_def sreturn_def)
    qed
  qed
qed

text \<open>The temporary name and the guard go.\<close>

lemma removed_ok:
  assumes O: "original_for sha plan orig" and V: "validate_source_install_v1 sha plan = Inr ()"
    and st: "st = TempFile \<or> st = GuardFile"
  shows "hoare (\<lambda>s. source_ready sha plan orig proposed s \<and> sf_names s TargetFile = Some (sf_new s TempFile))
      (unlink_if_present sha st)
      (\<lambda>_ s. source_ready sha plan orig proposed s \<and> sf_names s TargetFile = Some (sf_new s TempFile)) (\<lambda>_. False)"
    (is "hoare ?D _ _ ?E")
proof -
  have un: "hoare (\<lambda>s. ?D s \<and> sf_names s st \<noteq> None) (unlink_stage st) (\<lambda>_. ?D) ?E"
  proof (rule hoare_unlink_ok)
    fix s
    assume D: "?D s \<and> sf_names s st \<noteq> None"
    with ready_removed [of sha plan orig proposed s st] ready_inv(4) [of sha plan orig proposed s] st
    show "sf_outcomes s = [] \<and> sf_names s st \<noteq> None \<and> ?D (s\<lparr>sf_names := (sf_names s)(st := None)\<rparr>)" by auto
  qed
  show ?thesis unfolding unlink_if_present_def
  proof (rule hoare_bind [where R = "\<lambda>h s. ?D s \<and> stage_hash sha st s = Inr h"])
    show "hoare ?D (sread (stage_hash sha st)) (\<lambda>h s. ?D s \<and> stage_hash sha st s = Inr h) ?E"
      by (rule hoare_sread_ok) (use ready_hash(2,3) [OF _ O V] st in blast)
    show "hoare (\<lambda>s. ?D s \<and> stage_hash sha st s = Inr h) (swhen (h \<noteq> None) (unlink_stage st)) (\<lambda>_. ?D) ?E" for h
      by (rule hoare_when, rule hoare_pre [OF un]) (use stage_hash_none [of sha st] stage_hash_some [of sha st] in auto)
  qed
qed

lemma finish_ok:
  assumes O: "original_for sha plan orig" and V: "validate_source_install_v1 sha plan = Inr ()"
  shows "hoare (\<lambda>s. source_ready sha plan orig proposed s \<and> sf_names s TargetFile = Some (sf_new s TempFile))
      (finish_target sha plan) (\<lambda>_ _. True) (\<lambda>_. False)"
    (is "hoare ?D _ _ ?E")
proof -
  have target: "hoare ?D (sread (stage_hash sha TargetFile)) (\<lambda>h s. h = Some (si_proposed_sha256 plan) \<and> ?D s) ?E"
    by (rule hoare_sread_ok) (use temp_stage [OF ready_inv(2)] in blast)
  have inst: "hoare ?D (sread (validate_installed sha plan TargetFile)) (\<lambda>_. ?D) ?E"
    by (rule hoare_sread_unit) (use validate_installed_whole ready_inv(3) in blast)+
  have pair: "hoare (\<lambda>s. ?D s \<and> sf_names s TempFile \<noteq> None) (sread (validate_installed_pair sha plan)) (\<lambda>_. ?D) ?E"
  proof (rule hoare_sread_unit)
    fix s
    assume D: "?D s \<and> sf_names s TempFile \<noteq> None"
    then have "sf_names s TempFile = Some (sf_new s TempFile)" using ready_names(3) [of sha plan orig proposed s] by auto
    with D validate_installed_whole [of s _ sha plan] ready_inv(3) [of sha plan orig proposed s]
    show "validate_installed_pair sha plan s = Inr ()" by (simp add: validate_installed_pair_def)
  qed simp
  have temp: "hoare ?D (sbind (sread (stage_hash sha TempFile)) (\<lambda>temp.
      swhen (temp \<noteq> None) (sread (validate_installed_pair sha plan)))) (\<lambda>_. ?D) ?E"
  proof (rule hoare_bind [where R = "\<lambda>h s. ?D s \<and> stage_hash sha TempFile s = Inr h"])
    show "hoare ?D (sread (stage_hash sha TempFile)) (\<lambda>h s. ?D s \<and> stage_hash sha TempFile s = Inr h) ?E"
      by (rule hoare_sread_ok) (use ready_hash(3) [OF _ O V] in blast)
    show "hoare (\<lambda>s. ?D s \<and> stage_hash sha TempFile s = Inr h)
        (swhen (h \<noteq> None) (sread (validate_installed_pair sha plan))) (\<lambda>_. ?D) ?E" for h
      by (rule hoare_when, rule hoare_pre [OF pair]) (use stage_hash_none [of sha TempFile] stage_hash_some [of sha TempFile] in auto)
  qed
  have syn: "hoare ?D sync_stage (\<lambda>_. ?D) ?E"
    by (rule hoare_sync_ok) (use ready_inv(4) in blast)
  have all: "hoare ?D (sthen (sread (validate_installed sha plan TargetFile))
         (sthen (sbind (sread (stage_hash sha TempFile)) (\<lambda>temp.
             swhen (temp \<noteq> None) (sread (validate_installed_pair sha plan))))
         (sthen (unlink_if_present sha TempFile)
         (sthen (unlink_if_present sha GuardFile) sync_stage)))) (\<lambda>_. ?D) ?E"
    by (intro hoare_then [OF inst] hoare_then [OF temp] hoare_then [OF removed_ok [OF O V]] syn) simp_all
  show ?thesis unfolding finish_target_def
    by (rule hoare_bind [OF target], rule hoare_fact) (simp only: simp_thms if_False, rule hoare_post [OF all], simp_all)
qed

section \<open>The evidence\<close>

text \<open>
  Where an installation can go on: the temporary file and the rollback are either not there yet or
  whole.
\<close>

definition whole_files :: "hasher \<Rightarrow> source_install_v1 \<Rightarrow> source_fs \<Rightarrow> bool" where
  "whole_files sha plan fs \<longleftrightarrow>
     (sf_names fs RollbackFile = None \<or> rollback_good sha plan fs)
     \<and> (sf_names fs TempFile = None \<or> validate_installed sha plan TempFile fs = Inr ())
     \<and> (sf_names fs TargetFile = Some (sf_new fs TempFile) \<longrightarrow> validate_installed sha plan TargetFile fs = Inr ())"

definition source_live :: "hasher \<Rightarrow> source_install_v1 \<Rightarrow> source_inode \<Rightarrow> string \<Rightarrow> source_fs \<Rightarrow> bool" where
  "source_live sha plan orig proposed fs \<longleftrightarrow>
     source_inv sha plan orig proposed fs \<and> whole_files sha plan fs \<and> sf_outcomes fs = []"

lemma live_whole:
  assumes "source_live sha plan orig proposed fs"
    and "sf_names fs TempFile \<noteq> None \<or> sf_names fs TargetFile \<noteq> Some (um_before_ino (si_unix_metadata plan))"
  shows "temp_whole sha plan fs"
proof -
  consider "sf_names fs TempFile = Some (sf_new fs TempFile)" | "sf_names fs TargetFile = Some (sf_new fs TempFile)"
    using assms by (auto simp: source_live_def source_inv_def Let_def)
  then show ?thesis
    using assms(1) validate_installed_whole [of fs _ sha plan] by cases (auto simp: source_live_def whole_files_def)
qed

lemma validate_rollback_ok: "rollback_good sha plan fs \<Longrightarrow> validate_rollback sha plan fs = Inr ()"
  by (simp add: rollback_good_def validate_rollback_def stage_inode_def)

text \<open>Where the rollback is missing the target is still the original, and its copy is a good rollback.\<close>

lemma live_new_rollback:
  assumes L: "source_live sha plan orig proposed fs" and O: "original_for sha plan orig"
    and n: "in_bytes n = in_bytes orig" "in_regular n" and none: "sf_names fs RollbackFile = None" and dir: "sf_rollback_dir fs"
  shows "sf_names fs TargetFile = Some (um_before_ino (si_unix_metadata plan))"
    and "source_live sha plan orig proposed (set_file RollbackFile n fs)"
    and "rollback_good sha plan (set_file RollbackFile n fs)"
proof -
  have I: "source_inv sha plan orig proposed fs" using L by (simp add: source_live_def)
  show t: "sf_names fs TargetFile = Some (um_before_ino (si_unix_metadata plan))"
    using I none by (auto simp: source_inv_def Let_def rollback_good_def)
  show g: "rollback_good sha plan (set_file RollbackFile n fs)"
    using O n dir by (simp add: rollback_good_def set_file_def original_for_def)
  have ino: "sf_new fs RollbackFile \<noteq> sf_new fs TempFile" "um_before_ino (si_unix_metadata plan) \<noteq> sf_new fs TempFile"
    using I by (auto simp: source_inv_def source_setting_def Let_def)
  have w: "validate_installed sha plan TempFile (set_file RollbackFile n fs) = Inr ()" if "sf_names fs TempFile \<noteq> None"
  proof -
    have s: "sf_names fs TempFile = Some (sf_new fs TempFile)" using that I by (auto simp: source_inv_def Let_def)
    have "validate_installed sha plan TempFile (set_file RollbackFile n fs) = validate_installed sha plan TempFile fs"
      by (rule validate_installed_cong) (use s ino in \<open>simp_all add: stage_inode_def set_file_def\<close>)
    with L s show ?thesis by (simp add: source_live_def whole_files_def)
  qed
  have "source_inv sha plan orig proposed (set_file RollbackFile n fs)" by (rule inv_new_file(1) [OF I t dir])
  moreover have "sf_names fs TempFile = None \<or> validate_installed sha plan TempFile (set_file RollbackFile n fs) = Inr ()"
    using w by blast
  ultimately show "source_live sha plan orig proposed (set_file RollbackFile n fs)"
    using L g t ino by (simp add: source_live_def whole_files_def) (auto simp: set_file_def)
qed

lemma live_new_temp:
  assumes L: "source_live sha plan orig proposed fs" and O: "original_for sha plan orig"
    and N: "proposed_for sha plan proposed" and V: "validate_source_install_v1 sha plan = Inr ()"
    and t: "sf_names fs TargetFile = Some (um_before_ino (si_unix_metadata plan))" and g: "rollback_good sha plan fs"
  shows "source_ready sha plan orig proposed
    (set_file TempFile (temp_inode plan (um_install_mode (si_unix_metadata plan)) proposed) fs)" (is "source_ready _ _ _ _ ?f")
proof -
  have I: "source_inv sha plan orig proposed fs" using L by (simp add: source_live_def)
  have m: "source_metadata_bound plan" "source_hashes_bound plan" using checked_plan(1,2) [OF V] by simp_all
  have dev: "sf_dev fs = um_before_dev (si_unix_metadata plan)"
    using I by (simp add: source_inv_def source_setting_def Let_def)
  have "temp_good sha plan ?f"
    using N m by (simp add: temp_good_def set_file_def temp_inode_def proposed_for_def source_hashes_bound_def)
  moreover have "validate_source_metadata plan True (sf_dev ?f) (sf_new ?f TempFile) (sf_inodes ?f (sf_new ?f TempFile)) = Inr ()"
    using O m dev
    by (auto simp: set_file_def validate_source_metadata_def temp_inode_def original_for_def source_metadata_bound_def Let_def)
  moreover have "rollback_good sha plan ?f" "source_inv sha plan orig proposed ?f"
    using inv_new_file(5) [OF I t g] inv_new_file(2) [OF I t] by simp_all
  moreover have "sf_names ?f TempFile \<noteq> None" "sf_outcomes ?f = []"
    using L by (simp_all add: set_file_def source_live_def)
  ultimately show ?thesis unfolding source_ready_def temp_whole_def by blast
qed

lemma live_ready:
  assumes "source_live sha plan orig proposed fs" "rollback_good sha plan fs"
    and "sf_names fs TempFile \<noteq> None \<or> sf_names fs TargetFile \<noteq> Some (um_before_ino (si_unix_metadata plan))"
  shows "source_ready sha plan orig proposed fs"
  using assms live_whole [OF assms(1,3)] by (auto simp: source_ready_def source_live_def source_inv_def Let_def)

lemma live_hash:
  assumes L: "source_live sha plan orig proposed fs" and O: "original_for sha plan orig"
    and V: "validate_source_install_v1 sha plan = Inr ()"
  shows "\<exists>h. stage_hash sha TargetFile fs = Inr h" "\<exists>h. stage_hash sha TempFile fs = Inr h"
proof -
  have I: "source_inv sha plan orig proposed fs" using L by (simp add: source_live_def)
  have n: "sf_names fs TempFile \<in> {None, Some (sf_new fs TempFile)}"
    "sf_names fs TargetFile \<in> {None, Some (um_before_ino (si_unix_metadata plan)), Some (sf_new fs TempFile)}"
    using I by (auto simp: source_inv_def Let_def)
  have t: "temp_good sha plan fs" if "sf_names fs TempFile \<noteq> None \<or> sf_names fs TargetFile \<noteq> Some (um_before_ino (si_unix_metadata plan))"
    using live_whole [OF L that] by (simp add: temp_whole_def)
  have no: "sf_names fs st = None \<Longrightarrow> stage_hash sha st fs = Inr None" for st by (simp add: stage_hash_none)
  have i: "um_before_ino (si_unix_metadata plan) \<noteq> sf_new fs TempFile"
    using I by (auto simp: source_inv_def source_setting_def Let_def)
  show "\<exists>h. stage_hash sha TargetFile fs = Inr h"
    using n(2) t temp_stage [of sha plan fs TargetFile] original_stage(1) [OF I O V, of TargetFile] no [of TargetFile] i
    by auto
  show "\<exists>h. stage_hash sha TempFile fs = Inr h"
    using n(1) t temp_stage [of sha plan fs TempFile] no [of TempFile] by auto
qed

lemma rollback_ok:
  assumes O: "original_for sha plan orig" and V: "validate_source_install_v1 sha plan = Inr ()"
  shows "hoare (\<lambda>s. source_live sha plan orig proposed s \<and> sf_names s TargetFile = Some (um_before_ino (si_unix_metadata plan)))
      (install_prepared_rollback sha plan)
      (\<lambda>_ s. source_live sha plan orig proposed s \<and> rollback_good sha plan s
        \<and> sf_names s TargetFile = Some (um_before_ino (si_unix_metadata plan))) (\<lambda>_. False)"
    (is "hoare ?P _ (\<lambda>_. ?Q) ?E")
proof -
  let ?D = "\<lambda>s. ?P s \<and> sf_rollback_dir s" and ?N = "\<lambda>s. ?P s \<and> sf_rollback_dir s \<and> sf_names s RollbackFile = None"
  have P_dir: "?D (s\<lparr>sf_rollback_dir := True\<rparr>)" if "?P s" for s
  proof -
    have "validate_installed sha plan st (s\<lparr>sf_rollback_dir := True\<rparr>) = validate_installed sha plan st s" for st
      by (rule validate_installed_cong) (simp_all add: stage_inode_def)
    with that show ?thesis by (auto simp: source_live_def whole_files_def inv_dir rollback_good_def)
  qed
  have step: "hoare ?P (source_step ''source rollback parent'' (\<lambda>g. g\<lparr>sf_rollback_dir := True\<rparr>)) (\<lambda>_. ?D) ?E"
    by (rule hoare_step_ok) (use P_dir in \<open>simp add: source_live_def\<close>)
  have dir: "hoare ?P (\<lambda>fs. (if sf_rollback_dir fs then sreturn ()
      else source_step ''source rollback parent'' (\<lambda>g. g\<lparr>sf_rollback_dir := True\<rparr>)) fs) (\<lambda>_. ?D) ?E"
    by (rule hoare_state_if [OF _ hoare_pre [OF step]]) (simp_all add: hoare_def sreturn_def)
  have orig: "hoare ?N (sread (rollback_original sha plan)) (\<lambda>n s. n = orig \<and> ?N s) ?E"
    by (rule hoare_sread_ok)
      (use O in \<open>auto simp: rollback_original_def stage_inode_def original_for_def source_live_def source_inv_def source_setting_def Let_def\<close>)
  have create: "hoare ?N (create_file RollbackFile part (rollback_whole orig) len) (\<lambda>_. ?Q) ?E" for part len
  proof (rule hoare_create_ok)
    fix s f
    assume s: "?N s" and "f = fresh_inode s"
    then have "in_bytes (rollback_whole orig f) = in_bytes orig" "in_regular (rollback_whole orig f)"
      by (simp_all add: rollback_whole_def fresh_inode_def)
    from live_new_rollback [OF _ O this, of proposed s] s
    have "source_live sha plan orig proposed (set_file RollbackFile (rollback_whole orig f) s)"
      "rollback_good sha plan (set_file RollbackFile (rollback_whole orig f) s)" by simp_all
    moreover have "sf_names (set_file RollbackFile (rollback_whole orig f) s) TargetFile = sf_names s TargetFile"
      by (simp add: set_file_def)
    ultimately show "sf_outcomes s = [] \<and> sf_names s RollbackFile = None \<and> ?Q (set_file RollbackFile (rollback_whole orig f) s)"
      using s by (simp add: source_live_def)
  qed
  have syn: "hoare ?Q (source_step l (\<lambda>g. g)) (\<lambda>_. ?Q) ?E" for l
    by (rule hoare_step_ok) (simp add: source_live_def)
  have val: "hoare ?Q (sread (validate_rollback sha plan)) (\<lambda>_. ?Q) ?E"
    by (rule hoare_sread_unit) (simp_all add: validate_rollback_ok)
  have new: "hoare ?N (sbind (sread (rollback_original sha plan)) (\<lambda>n.
             sthen (create_file RollbackFile (rollback_part n) (rollback_whole n) (Suc (length (in_bytes n))))
               (sthen (source_step ''source rollback parent fsync'' (\<lambda>g. g)) (sread (validate_rollback sha plan))))) (\<lambda>_. ?Q) ?E"
    by (rule hoare_bind [OF orig], rule hoare_fact) (simp only:, rule hoare_then [OF create hoare_then [OF syn val]])
  have old: "hoare (\<lambda>s. ?D s \<and> sf_names s RollbackFile \<noteq> None) (sread (validate_rollback sha plan)) (\<lambda>_. ?Q) ?E"
    by (rule hoare_pre [OF val]) (auto simp: source_live_def whole_files_def)
  show ?thesis unfolding install_prepared_rollback_def
    by (rule hoare_then [OF dir], rule hoare_state_if [OF old hoare_pre [OF new]]) simp
qed

lemma evidence_ok:
  assumes O: "original_for sha plan orig" and N: "proposed_for sha plan proposed"
    and V: "validate_source_install_v1 sha plan = Inr ()"
  shows "hoare (\<lambda>s. source_live sha plan orig proposed s \<and> stage_hash sha TargetFile s = Inr h)
      (source_evidence sha plan proposed h) (\<lambda>_. source_ready sha plan orig proposed) (\<lambda>_. False)"
    (is "hoare ?P _ (\<lambda>_. ?Q) ?E")
proof -
  let ?i = "um_before_ino (si_unix_metadata plan)"
  have hash: "(h = Some (si_before_sha256 plan) \<longleftrightarrow> sf_names s TargetFile = Some ?i)
      \<and> (h = Some (si_proposed_sha256 plan) \<longleftrightarrow> sf_names s TargetFile = Some (sf_new s TempFile))" if "?P s" for s
    using stage_hash_target(1,2) [OF _ O N, of s h] that by (simp add: source_live_def)
  let ?R = "\<lambda>s. source_live sha plan orig proposed s \<and> rollback_good sha plan s
      \<and> (h = Some (si_proposed_sha256 plan) \<longleftrightarrow> sf_names s TargetFile = Some (sf_new s TempFile))"
  let ?T = "\<lambda>s. source_live sha plan orig proposed s \<and> sf_names s TargetFile = Some ?i"
  have val: "hoare (\<lambda>s. ?P s \<and> sf_rollback_dir s \<and> sf_names s RollbackFile \<noteq> None) (sread (validate_rollback sha plan)) (\<lambda>_. ?R) ?E"
    by (rule hoare_sread_unit) (use hash in \<open>auto simp: source_live_def whole_files_def validate_rollback_ok\<close>)
  have orig: "hoare ?T (sread (validate_original sha plan TargetFile)) (\<lambda>_. ?T) ?E"
    by (rule hoare_sread_unit) (use original_stage(2) [OF _ O V] in \<open>auto simp: source_live_def\<close>)
  have missing: "h = Some (si_before_sha256 plan) \<and> ?T s"
    if "?P s \<and> \<not> (sf_rollback_dir s \<and> sf_names s RollbackFile \<noteq> None)" for s
    using hash [of s] that by (auto simp: source_live_def source_inv_def Let_def rollback_good_def)
  have new: "hoare (\<lambda>s. ?P s \<and> \<not> (sf_rollback_dir s \<and> sf_names s RollbackFile \<noteq> None))
      (if h = Some (si_before_sha256 plan)
       then sthen (sread (validate_original sha plan TargetFile)) (install_prepared_rollback sha plan)
       else sthrow (blocked_error ''source recovery rollback evidence missing'' [])) (\<lambda>_. ?R) ?E"
  proof (rule hoare_if)
    assume b: "h = Some (si_before_sha256 plan)"
    then have "h \<noteq> Some (si_proposed_sha256 plan)" using N by (simp add: proposed_for_def)
    then have "source_live sha plan orig proposed s \<and> rollback_good sha plan s \<and> sf_names s TargetFile = Some ?i \<Longrightarrow> ?R s" for s
      by (auto simp: source_live_def source_inv_def source_setting_def Let_def)
    then show "hoare (\<lambda>s. ?P s \<and> \<not> (sf_rollback_dir s \<and> sf_names s RollbackFile \<noteq> None))
        (sthen (sread (validate_original sha plan TargetFile)) (install_prepared_rollback sha plan)) (\<lambda>_. ?R) ?E"
      by (intro hoare_pre [OF hoare_then [OF orig hoare_post [OF rollback_ok [OF O V]]]]) (use missing in blast)+
  next
    assume "h \<noteq> Some (si_before_sha256 plan)"
    then show "hoare (\<lambda>s. ?P s \<and> \<not> (sf_rollback_dir s \<and> sf_names s RollbackFile \<noteq> None))
        (sthrow (blocked_error ''source recovery rollback evidence missing'' [])) (\<lambda>_. ?R) ?E"
      by (intro hoare_pre [OF hoare_false]) (use missing in blast)
  qed
  have temp: "hoare ?R (sread (stage_hash sha TempFile)) (\<lambda>t s. ?R s \<and> stage_hash sha TempFile s = Inr t) ?E"
    by (rule hoare_sread_ok) (use live_hash(2) [OF _ O V] in blast)
  let ?W = "\<lambda>s. ?R s \<and> sf_names s TargetFile = Some ?i \<and> sf_names s TempFile = None"
  have inst: "hoare ?W (install_prepared_temp sha plan proposed) (\<lambda>_. ?Q) ?E"
  proof -
    let ?F = "\<lambda>s. ?Q s \<and> sf_names s TempFile \<noteq> None"
    have "hoare ?W (create_file TempFile part (\<lambda>_. temp_inode plan (um_install_mode (si_unix_metadata plan)) proposed) len) (\<lambda>_. ?F) ?E" for part len
      by (rule hoare_create_ok) (use live_new_temp [OF _ O N V] in \<open>auto simp: source_live_def set_file_def\<close>)
    moreover have "hoare ?F (sread (validate_installed sha plan TempFile)) (\<lambda>_. ?Q) ?E"
    proof (rule hoare_sread_unit)
      fix s
      assume F: "?F s"
      then have "sf_names s TempFile = Some (sf_new s TempFile)" using ready_names(3) [of sha plan orig proposed s] by auto
      with F ready_inv(3) [of sha plan orig proposed s] show "validate_installed sha plan TempFile s = Inr ()"
        by (simp add: validate_installed_whole)
    qed simp
    ultimately show ?thesis using N unfolding install_prepared_temp_def
      by (intro hoare_if hoare_then) (auto simp: proposed_for_def)
  qed
  show ?thesis unfolding source_evidence_def
  proof (rule hoare_then [OF hoare_state_if [OF val new]], rule hoare_bind [OF temp])
    fix t
    show "hoare (\<lambda>s. ?R s \<and> stage_hash sha TempFile s = Inr t)
      (swhen (t = None \<and> h \<noteq> Some (si_proposed_sha256 plan)) (install_prepared_temp sha plan proposed)) (\<lambda>_. ?Q) ?E"
    proof (rule hoare_when)
      assume c: "t = None \<and> h \<noteq> Some (si_proposed_sha256 plan)"
      have "?R s \<and> stage_hash sha TempFile s = Inr t \<Longrightarrow> ?W s" for s
        using c stage_hash_none [of sha TempFile s] by (auto simp: source_live_def source_inv_def Let_def)
      then show "hoare (\<lambda>s. ?R s \<and> stage_hash sha TempFile s = Inr t) (install_prepared_temp sha plan proposed) (\<lambda>_. ?Q) ?E"
        by (rule hoare_pre [OF inst])
    next
      fix s
      assume "\<not> (t = None \<and> h \<noteq> Some (si_proposed_sha256 plan))" and s: "?R s \<and> stage_hash sha TempFile s = Inr t"
      then have "sf_names s TempFile \<noteq> None \<or> sf_names s TargetFile = Some (sf_new s TempFile)"
        using stage_hash_none [of sha TempFile s] by auto
      with s show "?Q s"
        by (intro live_ready) (auto simp: source_live_def source_inv_def source_setting_def Let_def)
    qed
  qed
qed

lemma evidence_target:
  assumes O: "original_for sha plan orig" and N: "proposed_for sha plan proposed"
    and V: "validate_source_install_v1 sha plan = Inr ()"
  shows "hoare (\<lambda>s. source_live sha plan orig proposed s \<and> stage_hash sha TargetFile s = Inr h)
      (source_evidence sha plan proposed h)
      (\<lambda>_ s. source_ready sha plan orig proposed s \<and> stage_hash sha TargetFile s = Inr h) (\<lambda>_. False)"
  by (rule hoare_post [OF hoare_conj [OF evidence_ok [OF O N V] hoare_pre [OF evidence_kept [OF O N]]]])
    (auto simp: source_live_def)

lemma ready_no_conflict:
  assumes R: "source_ready sha plan orig proposed fs" and O: "original_for sha plan orig"
    and N: "proposed_for sha plan proposed" and V: "validate_source_install_v1 sha plan = Inr ()"
    and h: "stage_hash sha TargetFile fs = Inr h" "stage_hash sha GuardFile fs = Inr guard" "stage_hash sha TempFile fs = Inr temp"
  shows "\<not> source_conflict plan h guard temp"
proof -
  note I = ready_inv(1) [OF R]
  have "temp = None \<or> temp = Some (si_proposed_sha256 plan)"
    using ready_names(3) [OF R] temp_stage [OF ready_inv(2) [OF R], of TempFile] h(3) stage_hash_none [of sha TempFile fs] by auto
  moreover have "guard = None \<or> guard = Some (si_before_sha256 plan)"
    using ready_names(2) [OF R] original_stage(1) [OF I O V, of GuardFile] h(2) stage_hash_none [of sha GuardFile fs] by auto
  ultimately show ?thesis using stage_hash_target(4) [OF I O N h(1)] by (auto simp: source_conflict_def)
qed

lemma recovery_ok:
  assumes O: "original_for sha plan orig" and N: "proposed_for sha plan proposed"
    and V: "validate_source_install_v1 sha plan = Inr ()"
  shows "hoare (source_live sha plan orig proposed) (recover_source_plan sha plan proposed) (\<lambda>_ _. True) (\<lambda>_. False)"
    (is "hoare ?L _ _ ?E")
proof -
  let ?Y = "\<lambda>h s. source_ready sha plan orig proposed s \<and> stage_hash sha TargetFile s = Inr h"
  let ?Z = "\<lambda>h guard s. ?Y h s \<and> stage_hash sha GuardFile s = Inr guard"
  let ?fin = "\<lambda>h guard temp. if source_conflict plan h guard temp
        then sthrow (blocked_error ''source transaction recovery conflict'' [])
        else sthen (guard_target sha plan h guard temp)
          (sthen (unlink_target sha plan) (sthen (link_target sha plan) (finish_target sha plan)))"
  have dir: "hoare ?L (sread (open_source_dir plan)) (\<lambda>_. ?L) ?E"
    by (rule hoare_sread_unit)
      (use checked_plan(3,4) [OF V] in \<open>auto simp: open_source_dir_def source_live_def source_inv_def source_setting_def Let_def\<close>)
  have target: "hoare ?L (sread (stage_hash sha TargetFile)) (\<lambda>h s. ?L s \<and> stage_hash sha TargetFile s = Inr h) ?E"
    by (rule hoare_sread_ok) (use live_hash(1) [OF _ O V] in blast)
  have guard: "hoare (?Y h) (sread (stage_hash sha GuardFile)) (?Z h) ?E" for h
    by (rule hoare_sread_ok) (use ready_hash(2) [OF _ O V] in blast)
  have temp: "hoare (?Z h guard) (sread (stage_hash sha TempFile)) (\<lambda>temp s. ?Z h guard s \<and> stage_hash sha TempFile s = Inr temp) ?E" for h guard
    by (rule hoare_sread_ok) (use ready_hash(3) [OF _ O V] in blast)
  have all: "hoare (\<lambda>s. ?Z h guard s \<and> stage_hash sha TempFile s = Inr temp) (?fin h guard temp) (\<lambda>_ _. True) ?E" for h guard temp
  proof (rule hoare_if)
    assume "source_conflict plan h guard temp"
    then show "hoare (\<lambda>s. ?Z h guard s \<and> stage_hash sha TempFile s = Inr temp)
        (sthrow (blocked_error ''source transaction recovery conflict'' [])) (\<lambda>_ _. True) ?E"
      by (intro hoare_pre [OF hoare_false]) (use ready_no_conflict [OF _ O N V] in blast)
  qed (rule hoare_pre [OF hoare_then [OF guard_ok [OF O N V] hoare_then [OF unlink_ok [OF O N V]
      hoare_then [OF link_ok [OF O N V] finish_ok [OF O V]]]]], blast)
  show ?thesis unfolding recover_source_plan_def
    by (rule hoare_then [OF dir], rule hoare_bind [OF target], rule hoare_then [OF evidence_target [OF O N V]],
        rule hoare_bind [OF guard], rule hoare_bind [OF temp all])
qed

section \<open>The two properties\<close>

text \<open>
  One installation, run again after every stop: \<open>runs\<close> holds for each run what its changes meet.
\<close>

fun source_runs :: "hasher \<Rightarrow> source_install_v1 \<Rightarrow> string \<Rightarrow> io_outcome list list \<Rightarrow> source_fs \<Rightarrow> source_fs" where
  "source_runs sha plan proposed [] fs = fs"
| "source_runs sha plan proposed (outcomes # runs) fs =
     source_runs sha plan proposed runs (snd (recover_source_plan sha plan proposed (fs\<lparr>sf_outcomes := outcomes\<rparr>)))"

lemma inv_outcomes: "source_inv sha plan orig proposed (fs\<lparr>sf_outcomes := os\<rparr>) = source_inv sha plan orig proposed fs"
  by (simp add: source_inv_def source_setting_def rollback_good_def temp_good_def)

lemma runs_inv:
  assumes O: "original_for sha plan orig" and N: "proposed_for sha plan proposed"
  shows "source_inv sha plan orig proposed fs \<Longrightarrow> source_inv sha plan orig proposed (source_runs sha plan proposed runs fs)"
proof (induction runs arbitrary: fs)
  case (Cons os runs)
  have "source_inv sha plan orig proposed (snd (recover_source_plan sha plan proposed (fs\<lparr>sf_outcomes := os\<rparr>)))"
    by (rule hoare_snd [OF recovery_keeps [OF O N]]) (simp_all add: inv_outcomes Cons.prems)
  with Cons.IH show ?case by simp
qed simp

text \<open>Where an installation starts: only the target is there.\<close>

definition source_start :: "source_install_v1 \<Rightarrow> source_inode \<Rightarrow> source_fs \<Rightarrow> bool" where
  "source_start plan orig fs \<longleftrightarrow>
     (let i = um_before_ino (si_unix_metadata plan)
      in sf_dev fs = um_before_dev (si_unix_metadata plan) \<and> stage_inode fs TargetFile = Some (i, orig)
         \<and> sf_names fs TempFile = None \<and> sf_names fs GuardFile = None \<and> sf_names fs RollbackFile = None
         \<and> sf_new fs TempFile \<noteq> i \<and> sf_new fs RollbackFile \<noteq> i \<and> sf_new fs TempFile \<noteq> sf_new fs RollbackFile)"

lemma start_inv: "source_start plan orig fs \<Longrightarrow> source_inv sha plan orig proposed fs"
  by (auto simp: source_start_def source_inv_def source_setting_def Let_def stage_inode_def)

lemma inv_recoverable:
  assumes "source_inv sha plan orig proposed fs"
  shows "source_recoverable sha plan orig fs"
  using assms
  by (auto simp: source_inv_def source_setting_def Let_def source_recoverable_def stage_inode_def rollback_good_def temp_good_def)

section \<open>A temporary file that is not whole\<close>

text \<open>It is never replaced, and the target is never accepted once it is that file.\<close>

definition stuck_temp :: "source_inode \<Rightarrow> source_fs \<Rightarrow> bool" where
  "stuck_temp n fs \<longleftrightarrow> sf_names fs TempFile = Some (sf_new fs TempFile) \<and> sf_inodes fs (sf_new fs TempFile) = n
     \<and> sf_new fs TempFile \<noteq> sf_new fs RollbackFile"

lemma stuck_steps:
  "hoare (stuck_temp n) (sread f) (\<lambda>_. stuck_temp n) (stuck_temp n)"
  "hoare (stuck_temp n) sync_stage (\<lambda>_. stuck_temp n) (stuck_temp n)"
  "hoare (stuck_temp n) (link_stage old TargetFile) (\<lambda>_. stuck_temp n) (stuck_temp n)"
  "hoare (stuck_temp n) (link_stage old GuardFile) (\<lambda>_. stuck_temp n) (stuck_temp n)"
  "hoare (stuck_temp n) (unlink_stage TargetFile) (\<lambda>_. stuck_temp n) (stuck_temp n)"
  "hoare (stuck_temp n) (create_file RollbackFile part whole len) (\<lambda>_. stuck_temp n) (stuck_temp n)"
  "hoare (stuck_temp n) (source_step l (\<lambda>g. g\<lparr>sf_rollback_dir := b\<rparr>)) (\<lambda>_. stuck_temp n) (stuck_temp n)"
  "hoare (stuck_temp n) (source_step l (\<lambda>g. g)) (\<lambda>_. stuck_temp n) (stuck_temp n)"
  "hoare (stuck_temp n) (sreturn x) (\<lambda>_. stuck_temp n) (stuck_temp n)"
  "hoare (stuck_temp n) (sthrow e) Q (stuck_temp n)"
proof -
  show "hoare (stuck_temp n) (sread f) (\<lambda>_. stuck_temp n) (stuck_temp n)" by (rule hoare_sread_keep)
  show "hoare (stuck_temp n) sync_stage (\<lambda>_. stuck_temp n) (stuck_temp n)"
    "hoare (stuck_temp n) (source_step l (\<lambda>g. g\<lparr>sf_rollback_dir := b\<rparr>)) (\<lambda>_. stuck_temp n) (stuck_temp n)"
    "hoare (stuck_temp n) (source_step l (\<lambda>g. g)) (\<lambda>_. stuck_temp n) (stuck_temp n)"
    unfolding sync_stage_def by (rule hoare_step; simp add: stuck_temp_def)+
  show "hoare (stuck_temp n) (link_stage old TargetFile) (\<lambda>_. stuck_temp n) (stuck_temp n)"
    "hoare (stuck_temp n) (link_stage old GuardFile) (\<lambda>_. stuck_temp n) (stuck_temp n)"
    by (rule hoare_link; simp add: stuck_temp_def)+
  show "hoare (stuck_temp n) (unlink_stage TargetFile) (\<lambda>_. stuck_temp n) (stuck_temp n)"
    by (rule hoare_unlink; simp add: stuck_temp_def)
  show "hoare (stuck_temp n) (create_file RollbackFile part whole len) (\<lambda>_. stuck_temp n) (stuck_temp n)"
    by (rule hoare_create; simp add: stuck_temp_def set_file_def)
  show "hoare (stuck_temp n) (sreturn x) (\<lambda>_. stuck_temp n) (stuck_temp n)" by (rule hoare_return)
  show "hoare (stuck_temp n) (sthrow e) Q (stuck_temp n)" by (rule hoare_throw)
qed

lemma stuck_rules:
  "hoare (stuck_temp n) r (\<lambda>_. stuck_temp n) (stuck_temp n) \<Longrightarrow> (\<And>x. hoare (stuck_temp n) (k x) Q (stuck_temp n)) \<Longrightarrow>
     hoare (stuck_temp n) (sbind r k) Q (stuck_temp n)"
  "hoare (stuck_temp n) m (\<lambda>_. stuck_temp n) (stuck_temp n) \<Longrightarrow> hoare (stuck_temp n) m' Q (stuck_temp n) \<Longrightarrow>
     hoare (stuck_temp n) (sthen m m') Q (stuck_temp n)"
  "hoare (stuck_temp n) m (\<lambda>_. stuck_temp n) (stuck_temp n) \<Longrightarrow>
     hoare (stuck_temp n) (swhen b m) (\<lambda>_. stuck_temp n) (stuck_temp n)"
  "hoare (stuck_temp n) u R E \<Longrightarrow> hoare (stuck_temp n) u' R E \<Longrightarrow> hoare (stuck_temp n) (if b then u else u') R E"
  "hoare (stuck_temp n) w S E \<Longrightarrow> hoare (stuck_temp n) w' S E \<Longrightarrow>
     hoare (stuck_temp n) (\<lambda>s. (if c s then w else w') s) S E"
  by (rule hoare_bind, assumption+, rule hoare_then, assumption+, rule hoare_when, assumption+, simp_all add: hoare_def)

lemma stuck_evidence: "hoare (stuck_temp n) (source_evidence sha plan proposed h) (\<lambda>_. stuck_temp n) (stuck_temp n)"
proof -
  have temp: "hoare (stuck_temp n) (sread (stage_hash sha TempFile)) (\<lambda>t s. t \<noteq> None \<and> stuck_temp n s) (stuck_temp n)"
  proof (rule hoare_sread_keep)
    fix t s
    assume "stuck_temp n s" "stage_hash sha TempFile s = Inr t"
    then show "t \<noteq> None \<and> stuck_temp n s" using stage_hash_none [of sha TempFile s] by (cases t) (auto simp: stuck_temp_def)
  qed
  have skip: "hoare (\<lambda>s. t \<noteq> None \<and> stuck_temp n s)
      (swhen (t = None \<and> h \<noteq> Some (si_proposed_sha256 plan)) m) (\<lambda>_. stuck_temp n) (stuck_temp n)" for t m
    by (rule hoare_fact) (auto simp: hoare_def sreturn_def)
  have rollback: "hoare (stuck_temp n) (install_prepared_rollback sha plan) (\<lambda>_. stuck_temp n) (stuck_temp n)"
    unfolding install_prepared_rollback_def by (intro stuck_rules stuck_steps)
  show ?thesis unfolding source_evidence_def
    by (rule stuck_rules(2)) (intro stuck_rules stuck_steps rollback, rule hoare_bind [OF temp skip])
qed

lemma stuck_target:
  shows "hoare (stuck_temp n) (guard_target sha plan h guard temp) (\<lambda>_. stuck_temp n) (stuck_temp n)"
    and "hoare (stuck_temp n) (unlink_target sha plan) (\<lambda>_. stuck_temp n) (stuck_temp n)"
    and "hoare (stuck_temp n) (link_target sha plan) (\<lambda>_. stuck_temp n) (stuck_temp n)"
proof -
  show "hoare (stuck_temp n) (guard_target sha plan h guard temp) (\<lambda>_. stuck_temp n) (stuck_temp n)"
    unfolding guard_target_def by (intro stuck_rules stuck_steps)
  show "hoare (stuck_temp n) (unlink_target sha plan) (\<lambda>_. stuck_temp n) (stuck_temp n)"
    unfolding unlink_target_def by (intro stuck_rules stuck_steps)
  show "hoare (stuck_temp n) (link_target sha plan) (\<lambda>_. stuck_temp n) (stuck_temp n)"
    unfolding link_target_def by (intro stuck_rules stuck_steps)
qed

lemma stuck_run:
  assumes O: "original_for sha plan orig" and N: "proposed_for sha plan proposed"
    and no: "\<And>s. stuck_temp n s \<Longrightarrow> source_inv sha plan orig proposed s \<Longrightarrow> \<not> temp_whole sha plan s"
  shows "hoare (\<lambda>s. source_inv sha plan orig proposed s \<and> stuck_temp n s) (recover_source_plan sha plan proposed)
      (\<lambda>_ _. False) (\<lambda>s. source_inv sha plan orig proposed s \<and> stuck_temp n s)"
proof -
  let ?I = "source_inv sha plan orig proposed" and ?S = "stuck_temp n"
  let ?K = "\<lambda>s. ?I s \<and> ?S s"
  have finish: "hoare (\<lambda>s. (?I s \<and> rollback_good sha plan s \<and> sf_names s TargetFile = Some (sf_new s TempFile)) \<and> ?S s)
      (finish_target sha plan) (\<lambda>_ _. False) ?K" (is "hoare ?F _ _ _")
  proof -
    have no_valid: "\<not> validate_installed sha plan TargetFile s = Inr ()" if "?F s" for s
      using that no validate_installed_whole [of s TargetFile sha plan] by blast
    show ?thesis unfolding finish_target_def
      by (rule hoare_bind [where R = "\<lambda>_. ?F"], rule hoare_sread_keep, simp, simp, rule hoare_if,
          rule hoare_bind [where R = "\<lambda>_. ?F"], intro hoare_if, rule hoare_sread_keep, simp, simp,
          rule hoare_pre [OF hoare_return], simp, rule hoare_pre [OF hoare_throw], simp,
          rule hoare_then [where R = "\<lambda>_. False"], rule hoare_sread_keep, use no_valid in simp, simp, rule hoare_false)
  qed
  note frame = hoare_frame [OF _ stuck_target(1)] hoare_frame [OF _ stuck_target(2)] hoare_frame [OF _ stuck_target(3)]
    hoare_frame [OF _ stuck_evidence]
  let ?E = "\<lambda>h s. ?I s \<and> rollback_good sha plan s \<and> stage_hash sha TargetFile s = Inr h
        \<and> (sf_names s TempFile = None \<longrightarrow> h = Some (si_proposed_sha256 plan))"
  have rest: "hoare (\<lambda>s. (?E h s \<and> stage_hash sha GuardFile s = Inr guard \<and> stage_hash sha TempFile s = Inr temp) \<and> ?S s)
      (if source_conflict plan h guard temp
        then sthrow (blocked_error ''source transaction recovery conflict'' [])
        else sthen (guard_target sha plan h guard temp)
          (sthen (unlink_target sha plan)
          (sthen (link_target sha plan) (finish_target sha plan)))) (\<lambda>_ _. False) ?K" for h guard temp
  proof (rule hoare_if)
    assume "source_conflict plan h guard temp"
    show "hoare (\<lambda>s. (?E h s \<and> stage_hash sha GuardFile s = Inr guard \<and> stage_hash sha TempFile s = Inr temp) \<and> ?S s)
      (sthrow (blocked_error ''source transaction recovery conflict'' [])) (\<lambda>_ _. False) ?K"
      by (rule hoare_pre [OF hoare_throw]) simp
  next
    assume c: "\<not> source_conflict plan h guard temp"
    show "hoare (\<lambda>s. (?E h s \<and> stage_hash sha GuardFile s = Inr guard \<and> stage_hash sha TempFile s = Inr temp) \<and> ?S s)
      (sthen (guard_target sha plan h guard temp)
          (sthen (unlink_target sha plan)
          (sthen (link_target sha plan) (finish_target sha plan)))) (\<lambda>_ _. False) ?K"
      by (rule hoare_pre [OF hoare_then [OF frame(1) [OF guarded [OF O N c]] hoare_then [OF frame(2) [OF target_unlinked [OF O N]]
        hoare_then [OF frame(3) [OF target_linked [OF O N]] finish]]]], blast)
  qed
  have temp: "hoare (\<lambda>s. (?E h s \<and> stage_hash sha GuardFile s = Inr guard) \<and> ?S s)
      (sbind (sread (stage_hash sha TempFile)) (\<lambda>temp.
        if source_conflict plan h guard temp
        then sthrow (blocked_error ''source transaction recovery conflict'' [])
        else sthen (guard_target sha plan h guard temp)
          (sthen (unlink_target sha plan)
          (sthen (link_target sha plan) (finish_target sha plan))))) (\<lambda>_ _. False) ?K" for h guard
    by (rule hoare_bind [OF hoare_sread_keep rest]) simp_all
  have guard: "hoare (\<lambda>s. ?E h s \<and> ?S s) (sbind (sread (stage_hash sha GuardFile)) (\<lambda>guard.
      sbind (sread (stage_hash sha TempFile)) (\<lambda>temp.
        if source_conflict plan h guard temp
        then sthrow (blocked_error ''source transaction recovery conflict'' [])
        else sthen (guard_target sha plan h guard temp)
          (sthen (unlink_target sha plan)
          (sthen (link_target sha plan) (finish_target sha plan)))))) (\<lambda>_ _. False) ?K" for h
    by (rule hoare_bind [OF hoare_sread_keep temp]) simp_all
  show ?thesis unfolding recover_source_plan_def
    by (rule hoare_then [where R = ?K], rule hoare_sread_keep, assumption, assumption,
        rule hoare_bind [where R = "\<lambda>h s. (?I s \<and> stage_hash sha TargetFile s = Inr h) \<and> ?S s"], rule hoare_sread_keep, simp, simp,
        rule hoare_then [OF frame(4) [OF evidence_kept [OF O N]] guard])
qed

end
