(* ===== verification/Source_Plan_Properties.thy ===== *)
theory Source_Plan_Properties
  imports Source_Install Current_State_Properties
begin

text \<open>
  The plan the preparation puts together is well formed: its paths are stored paths, its names are
  names, its hashes, owners and modes are bound to each other as the plan's own check demands.
\<close>

section \<open>Names and paths\<close>

definition name_part :: "string \<Rightarrow> bool" where
  "name_part v \<longleftrightarrow> list_all (\<lambda>c. c \<noteq> CHR ''/'' \<and> c \<noteq> backslash \<and> \<not> path_control c) v"

lemma name_part_simps [simp]:
  "name_part []" "name_part (a @ b) = (name_part a \<and> name_part b)"
  "name_part (c # v) = (c \<noteq> CHR ''/'' \<and> c \<noteq> backslash \<and> \<not> path_control c \<and> name_part v)"
  by (auto simp: name_part_def)

lemma name_part_chars: "name_part v \<Longrightarrow> c \<in> set v \<Longrightarrow> c \<noteq> CHR ''/'' \<and> c \<noteq> backslash \<and> \<not> path_control c"
  by (simp add: name_part_def list_all_iff)

lemma basename_name:
  assumes "name_part v" "2 < length v"
  shows "basename_valid v"
proof -
  have "\<not> list_ex (\<lambda>c. c = CHR ''/'' \<or> c = backslash \<or> path_control c) v"
    using name_part_chars [OF assms(1)] by (auto simp: list_ex_iff)
  moreover have "v \<noteq> [] \<and> v \<noteq> ''.'' \<and> v \<noteq> ''..''" using assms(2) by (intro conjI notI) simp_all
  ultimately show ?thesis unfolding basename_valid_def by blast
qed

lemma basename_parts:
  assumes "basename_valid v"
  shows "name_part v" "v \<noteq> []" "v \<noteq> ''.''" "v \<noteq> ''..''"
  using assms by (simp_all add: basename_valid_def name_part_def list_all_iff list_ex_iff)

lemma split_on_nonempty: "split_on P s \<noteq> []"
  by (induction s) (auto split: list.splits)

lemma split_on_slash:
  "split_on (\<lambda>c. c = CHR ''/'') (a @ CHR ''/'' # b) =
     split_on (\<lambda>c. c = CHR ''/'') a @ split_on (\<lambda>c. c = CHR ''/'') b"
proof (induction a)
  case (Cons c a)
  obtain w ws where "split_on (\<lambda>c. c = CHR ''/'') a = w # ws"
    using split_on_nonempty [of "\<lambda>c. c = CHR ''/''" a] by (cases "split_on (\<lambda>c. c = CHR ''/'') a") auto
  with Cons show ?case by simp
qed simp

lemma split_on_name: "name_part v \<Longrightarrow> split_on (\<lambda>c. c = CHR ''/'') v = [v]"
  by (rule split_on_clean) (use name_part_chars in blast)

lemma stored_path_name:
  assumes b: "basename_valid v"
  shows "stored_path_valid v"
proof -
  note p = basename_parts [OF b]
  have "\<not> starts_with ''/'' v" using p(1,2) by (cases v) (simp_all add: starts_with_def)
  moreover have "backslash \<notin> set v" "\<not> list_ex path_control v"
    using name_part_chars [OF p(1)] by (auto simp: list_ex_iff)
  ultimately show ?thesis using p by (simp add: stored_path_valid_def split_on_name)
qed

lemma stored_path_join:
  assumes a: "stored_path_valid a" and b: "basename_valid b"
  shows "stored_path_valid (a @ CHR ''/'' # b)"
proof -
  note p = basename_parts [OF b]
  have "\<not> starts_with ''/'' (a @ CHR ''/'' # b)" using a by (cases a) (simp_all add: starts_with_def stored_path_valid_def)
  moreover have "backslash \<notin> set b" "\<not> list_ex path_control b"
    using name_part_chars [OF p(1)] by (auto simp: list_ex_iff)
  ultimately show ?thesis using a p
    by (simp add: stored_path_valid_def split_on_slash split_on_name path_control_def)
qed

lemma stored_path_nonempty: "stored_path_valid v \<Longrightarrow> v \<noteq> []"
  by (auto simp: stored_path_valid_def)

lemma name_part_hash: "digest32 sha \<Longrightarrow> name_part (sha256_bytes sha s)"
  using sha256_bytes_is_sha256 [of sha s]
  by (auto simp: is_sha256_def name_part_def list_all_iff is_ascii_digit_def path_control_def)

lemma length_hash: "digest32 sha \<Longrightarrow> length (sha256_bytes sha s) = 64"
  using sha256_bytes_is_sha256 [of sha s] by (simp add: is_sha256_def)

lemma ascii_id_name:
  assumes "ascii_id_valid v"
  shows "name_part v" "basename_valid v"
proof -
  have c: "\<And>c. c \<in> set v \<Longrightarrow> is_ascii_alphanumeric c \<or> c = CHR ''-'' \<or> c = CHR ''_''" and ne: "v \<noteq> []"
    using assms by (auto simp: ascii_id_valid_def list_all_iff)
  have alnum: "is_ascii_alphanumeric c \<Longrightarrow> c \<noteq> CHR ''/'' \<and> c \<noteq> backslash \<and> c \<noteq> CHR ''.'' \<and> \<not> path_control c" for c
    by (auto simp: is_ascii_alphanumeric_def is_ascii_digit_def is_ascii_lowercase_def is_ascii_uppercase_def path_control_def)
  have other: "c = CHR ''-'' \<or> c = CHR ''_'' \<Longrightarrow> c \<noteq> CHR ''/'' \<and> c \<noteq> backslash \<and> c \<noteq> CHR ''.'' \<and> \<not> path_control c" for c
    by (auto simp: path_control_def)
  have all: "c \<in> set v \<Longrightarrow> c \<noteq> CHR ''/'' \<and> c \<noteq> backslash \<and> c \<noteq> CHR ''.'' \<and> \<not> path_control c" for c
    using c alnum other by blast
  then show "name_part v" by (auto simp: name_part_def list_all_iff)
  have "v \<noteq> ''.'' \<and> v \<noteq> ''..''" using all [of "CHR ''.''"] by auto
  with ne all show "basename_valid v" by (auto simp: basename_valid_def list_ex_iff)
qed

section \<open>The plan\<close>

lemma length_hex_pairs: "length (hex_pairs v) = length v div 2"
  by (induction v rule: hex_pairs.induct) auto

lemma source_identity_total:
  assumes "is_sha256 h"
  shows "\<exists>identity. source_identity_v1 sha dev ino h = Inr identity"
proof -
  have "length (hex_pairs h) = 32" using assms by (simp add: length_hex_pairs is_sha256_def)
  then show ?thesis using assms
    by (simp add: source_identity_v1_def decode_sha256_def append_tlv_def be_bytes_def)
qed

lemma source_identity_hash: "source_identity_v1 sha dev ino h = Inr identity \<Longrightarrow> \<exists>s. identity = sha256_bytes sha s"
  by (auto simp: source_identity_v1_def rbind_Inr_iff)

lemma append_tlv_length: "append_tlv t tag v = Inr x \<Longrightarrow> length t + 3 \<le> length x"
  by (auto simp: append_tlv_def be_bytes16_def split: if_splits)

lemma source_identity_long:
  assumes "source_identity_v1 sha dev ino h = Inr identity"
  shows "\<exists>s. 6 < length s \<and> identity = sha256_bytes sha s"
proof -
  obtain c t1 t2 t3 t4 where t: "append_tlv ''rpotato.source-identity/v1'' (CHR 0x01) ''unix'' = Inr t1"
    "append_tlv t1 (CHR 0x10) (be_bytes dev) = Inr t2" "append_tlv t2 (CHR 0x11) (be_bytes ino) = Inr t3"
    "append_tlv t3 (CHR 0x20) c = Inr t4" and i: "identity = sha256_bytes sha t4"
    using assms unfolding source_identity_v1_def rbind_Inr_iff by blast
  have "6 < length t4" using t [THEN append_tlv_length] by linarith
  with i show ?thesis by blast
qed

lemma absent_path_valid:
  assumes "stored_path_valid parent" "basename_valid name" "path = parent @ CHR ''/'' # name"
  shows "validate_prepared_path (absent_path path parent name) False = Inr ()"
  using assms stored_path_join [OF assms(1,2)] stored_path_nonempty [OF assms(1)]
  by (simp add: validate_prepared_path_def absent_path_def validate_stored_path_def validate_basename_def join_stored_def)

lemma target_path_valid:
  assumes "stored_path_valid parent" "basename_valid name" "is_sha256 identity"
  shows "validate_prepared_path \<lparr>pp_namespace = ''project'', pp_path = parent @ CHR ''/'' # name, pp_parent = parent,
    pp_basename = name, pp_expected_type = ''file'', pp_expected_identity = Some identity\<rparr> True = Inr ()"
  using assms stored_path_join [OF assms(1,2)] stored_path_nonempty [OF assms(1)]
  by (simp add: validate_prepared_path_def validate_stored_path_def validate_basename_def join_stored_def)

lemma source_plan_names:
  assumes sha: "digest32 sha" and I: "ascii_id_valid intent" and P: "ascii_id_valid proposal"
    and b: "basename_valid name"
  shows "basename_valid (''.'' @ name @ ''.rpotato-install-'' @ intent @ ''-'' @ sha256_bytes sha proposed @ ''.tmp'')"
    and "basename_valid (''.'' @ name @ ''.rpotato-guard-'' @ intent @ ''-'' @ sha256_bytes sha before)"
    and "basename_valid (intent @ ''-'' @ sha256_bytes sha k @ ''.rollback'')"
    and "stored_path_valid (''.rpotato/patches/'' @ proposal)"
proof -
  note n = basename_parts(1) [OF b] ascii_id_name(1) [OF I] name_part_hash [OF sha]
  show "basename_valid (''.'' @ name @ ''.rpotato-install-'' @ intent @ ''-'' @ sha256_bytes sha proposed @ ''.tmp'')"
    "basename_valid (''.'' @ name @ ''.rpotato-guard-'' @ intent @ ''-'' @ sha256_bytes sha before)"
    "basename_valid (intent @ ''-'' @ sha256_bytes sha k @ ''.rollback'')"
    by (rule basename_name; simp add: n path_control_def)+
  have "stored_path_valid (''.rpotato'' @ CHR ''/'' # ''patches'')"
    by (intro stored_path_join stored_path_name basename_name) (simp_all add: path_control_def)
  from stored_path_join [OF this ascii_id_name(2) [OF P]]
  show "stored_path_valid (''.rpotato/patches/'' @ proposal)" by simp
qed

lemma temp_not_guard:
  assumes "digest32 sha"
  shows "x @ sha256_bytes sha a @ ''.tmp'' \<noteq> y @ sha256_bytes sha b"
proof
  assume "x @ sha256_bytes sha a @ ''.tmp'' = y @ sha256_bytes sha b"
  then have "last (x @ sha256_bytes sha a @ ''.tmp'') = last (y @ sha256_bytes sha b)" by (simp only:)
  moreover have "sha256_bytes sha b \<noteq> []" using length_hash [OF assms, of b] by auto
  ultimately have "CHR ''p'' \<in> set (sha256_bytes sha b)" by (simp add: last_in_set)
  then show False using sha256_bytes_is_sha256 [OF assms, of b]
    by (auto simp: is_sha256_def list_all_iff is_ascii_digit_def)
qed

lemma source_plan_valid:
  assumes sha: "digest32 sha" and I: "ascii_id_valid intent" and P: "ascii_id_valid proposal"
    and parent: "stored_path_valid parent" and name: "basename_valid name"
    and id: "source_identity_v1 sha (um_before_dev meta) (um_before_ino meta) (sha256_bytes sha before) = Inr identity"
    and small: "length before \<le> max_source_blob_bytes" "length proposed \<le> max_source_blob_bytes"
  shows "validate_source_install_v1 sha
    (source_plan sha intent proposal (parent @ CHR ''/'' # name) parent name meta readonly identity before proposed) = Inr ()"
    (is "validate_source_install_v1 sha ?plan = _")
proof -
  note names = source_plan_names [OF sha I P name] and hash = sha256_bytes_is_sha256 [OF sha]
  have len: "unat (of_nat (length s) :: u64) = length s" if "length s \<le> max_source_blob_bytes" for s :: string
    using that by (simp add: max_source_blob_bytes_def unat_of_nat take_bit_nat_eq_self)
  have "source_hashes_bound ?plan"
    using small by (simp add: source_hashes_bound_def source_plan_def Let_def hash len source_key_v1_def)
  moreover have "source_metadata_bound ?plan"
    by (simp add: source_metadata_bound_def source_plan_def Let_def)
  moreover have "is_sha256 identity" using source_identity_hash [OF id] hash by auto
  then have "validate_prepared_path (si_target ?plan) True = Inr ()"
    using target_path_valid [OF parent name] by (simp add: source_plan_def Let_def)
  moreover have "validate_prepared_path (si_rollback_final ?plan) False = Inr ()"
    unfolding source_plan_def Let_def
    by (simp only: source_install_v1.simps) (rule absent_path_valid, simp_all add: names source_key_v1_def del: append.append_Cons)
  moreover have "validate_prepared_path (si_install_temp ?plan) False = Inr ()"
    "validate_prepared_path (si_guard_path ?plan) False = Inr ()"
    unfolding source_plan_def Let_def join_stored_def
    by (simp_all only: source_install_v1.simps stored_path_nonempty [OF parent] if_False)
      (rule absent_path_valid, simp_all add: parent names del: append.append_Cons)+
  moreover have "pp_path (si_install_temp ?plan) \<noteq> pp_path (si_guard_path ?plan)"
    using temp_not_guard [OF sha, of "parent @ ''/.'' @ name @ ''.rpotato-install-'' @ intent @ ''-'' "
        proposed "parent @ ''/.'' @ name @ ''.rpotato-guard-'' @ intent @ ''-'' " before] stored_path_nonempty [OF parent]
    by (simp add: source_plan_def Let_def join_stored_def absent_path_def)
  ultimately show ?thesis using id
    by (simp add: validate_source_install_v1_def) (simp add: source_plan_def Let_def absent_path_def)
qed

section \<open>The preparation\<close>

lemma join_slash_snoc: "ps \<noteq> [] \<Longrightarrow> join ''/'' (ps @ [w]) = join ''/'' ps @ CHR ''/'' # w"
proof (induction ps)
  case (Cons v ps)
  then show ?case by (cases ps) simp_all
qed simp

lemma stored_path_components: "ps \<noteq> [] \<Longrightarrow> list_all basename_valid ps \<Longrightarrow> stored_path_valid (join ''/'' ps)"
proof (induction ps rule: rev_induct)
  case (snoc w ps)
  then show ?case by (cases "ps = []") (simp_all add: stored_path_name join_slash_snoc stored_path_join)
qed simp

lemma utf8_components: "list_all utf8_valid ps \<Longrightarrow> utf8_valid (join ''/'' ps)"
proof (induction ps)
  case (Cons v ps)
  then show ?case by (cases ps) (simp_all add: utf8_valid_append utf8_valid_ascii_Cons)
qed simp

lemma stored_project_path_below:
  "ps \<noteq> [] \<Longrightarrow> list_all basename_valid ps \<Longrightarrow> list_all utf8_valid ps \<Longrightarrow>
     stored_project_path root (root @ ps) = Inr (join ''/'' ps)"
  by (simp add: stored_project_path_def utf8_components validate_stored_path_def stored_path_components)

text \<open>
  C40 A preparation is complete for files below a directory of the project: when the target is a
  readable regular file there, unchanged, on its parent's file system and with its owner, both
  texts fit, nothing is in the way of the new names and the rollback is new, the preparation gives
  a plan; the plan names that file, and the check that every later reader makes accepts it.
\<close>
theorem preparation_succeeds:
  assumes "digest32 sha" "ascii_id_valid intent" "ascii_id_valid proposal"
    and "sv_root v = Some root" "sv_target v = Some (root @ dirs @ [name])" "sv_parent v = Some (root @ dirs)" "dirs \<noteq> []"
    and "sv_metadata v = Some meta" "sv_regular_file v" "sv_parent_dev v = Some (um_before_dev meta)"
    and "sv_ownership_kept v" "sv_content v = Some before" "sv_absent v = (\<lambda>_. Some True)"
    and "list_all basename_valid (dirs @ [name])" "list_all utf8_valid (dirs @ [name])"
    and "length before \<le> max_source_blob_bytes" "length proposed \<le> max_source_blob_bytes"
  shows "\<exists>plan. prepare_source_install_v1 sha v (\<lambda>_. Inr ()) intent proposal before proposed = Inr plan
    \<and> pp_path (si_target plan) = join ''/'' (dirs @ [name]) \<and> validate_source_install_v1 sha plan = Inr ()"
proof -
  have name: "basename_valid name" "utf8_valid name" and dirs: "stored_path_valid (join ''/'' dirs)"
    using assms(7,14,15) by (simp_all add: stored_path_components)
  obtain identity where id: "source_identity_v1 sha (um_before_dev meta) (um_before_ino meta) (sha256_bytes sha before) = Inr identity"
    using source_identity_total [OF sha256_bytes_is_sha256 [OF assms(1)]] by blast
  let ?plan = "source_plan sha intent proposal (join ''/'' dirs @ CHR ''/'' # name) (join ''/'' dirs) name meta
      (sv_readonly v) identity before proposed"
  note valid = source_plan_valid [OF assms(1-3) dirs name(1) id assms(16,17), of "sv_readonly v"]
  have probe: "probe_target v before = Inr (root, root @ dirs @ [name], root @ dirs, meta)"
    using assms(4-13) by (simp add: probe_target_def butlast_append)
  have target: "stored_project_path root (root @ dirs @ [name]) = Inr (join ''/'' dirs @ CHR ''/'' # name)"
    using stored_project_path_below [of "dirs @ [name]" root] assms(7,14,15) by (simp add: join_slash_snoc)
  have parent: "stored_project_path root (root @ dirs) = Inr (join ''/'' dirs)"
    using stored_project_path_below [of dirs root] assms(7,14,15) by simp
  have names: "basename_valid (pp_basename (si_install_temp ?plan))" "basename_valid (pp_basename (si_guard_path ?plan))"
    using source_plan_names(1,2) [OF assms(1-3) name(1)] by (simp_all add: source_plan_def absent_path_def Let_def)
  have lens: "checked_len before l = Inr (of_nat (length before))" "checked_len proposed l = Inr (of_nat (length proposed))" for l
    using assms(16,17) by (simp_all add: checked_len_def max_source_blob_bytes_def)
  have "prepare_source_install_v1 sha v (\<lambda>_. Inr ()) intent proposal before proposed = Inr ?plan"
    using assms(2,3,13) name
    by (simp add: prepare_source_install_v1_def validate_ascii_id_def probe target parent lens id names valid Let_def
      validate_basename_def check_siblings_def)
  moreover have "pp_path (si_target ?plan) = join ''/'' (dirs @ [name])"
    by (simp add: source_plan_def Let_def join_slash_snoc assms(7))
  ultimately show ?thesis using valid by blast
qed

definition small_hash :: hasher where
  "small_hash s = replicate 32 (if s = ''new'' then CHR 0x01 else if s = ''edited'' then CHR 0x02 else CHR 0x00)"

definition small_meta :: unix_source_metadata where
  "small_meta = \<lparr>um_before_mode = 33188, um_install_mode = 33188, um_before_uid = 501, um_before_gid = 20,
     um_install_uid = 501, um_install_gid = 20, um_before_dev = 1, um_before_ino = 7\<rparr>"

definition small_view :: source_view where
  "small_view = \<lparr>sv_root = Some [''home'', ''p''], sv_target = Some [''home'', ''p'', ''src'', ''a''],
     sv_parent = Some [''home'', ''p'', ''src''], sv_metadata = Some small_meta, sv_readonly = False,
     sv_regular_file = True, sv_parent_dev = Some 1, sv_ownership_kept = True, sv_content = Some ''old'',
     sv_absent = (\<lambda>_. Some True)\<rparr>"

lemma small_hash_digest: "digest32 small_hash"
  by (simp add: digest32_def small_hash_def)

lemma small_ids: "ascii_id_valid ''i1''" "ascii_id_valid ''p1''" "basename_valid ''a''" "basename_valid ''src''"
  by code_simp+

lemma preparation_succeeds_witness:
  "\<exists>plan. prepare_source_install_v1 small_hash small_view (\<lambda>_. Inr ()) ''i1'' ''p1'' ''old'' ''new'' = Inr plan
    \<and> pp_path (si_target plan) = ''src/a'' \<and> validate_source_install_v1 small_hash plan = Inr ()"
  using preparation_succeeds [of small_hash "''i1''" "''p1''" small_view "[''home'', ''p'']" "[''src'']" "''a''" small_meta
      "''old''" "''new''"] small_ids
  by (simp add: small_hash_digest small_view_def small_meta_def utf8_valid_ascii_Cons max_source_blob_bytes_def)

end
