(* ===== verification/Source_Install_Properties.thy ===== *)
theory Source_Install_Properties
  imports Source_Replace_Liveness Source_Plan_Properties
begin

text \<open>
  What an installation of source bytes promises its user, and what it does not: stops inside the
  making of a file that no later run recovers from.
\<close>

section \<open>A concrete installation\<close>

definition small_plan :: source_install_v1 where
  "small_plan = source_plan small_hash ''i1'' ''p1'' ''src/a'' ''src'' ''a'' small_meta False
     (sha256_bytes small_hash []) ''old'' ''new''"

definition small_inode :: source_inode where
  "small_inode = \<lparr>in_bytes = ''old'', in_mode = 33188, in_uid = 501, in_gid = 20, in_regular = True\<rparr>"

definition small_fs :: source_fs where
  "small_fs = \<lparr>sf_names = Map.empty(TargetFile \<mapsto> 7), sf_inodes = (\<lambda>_. small_inode), sf_dev = 1,
     sf_rollback_dir = False, sf_new = (\<lambda>st. if st = TempFile then 8 else 9), sf_owner = (501, 20), sf_outcomes = []\<rparr>"

lemma small_hash_new: "sha256_bytes small_hash ''old'' \<noteq> sha256_bytes small_hash ''new''"
  by (simp add: sha256_bytes_def bytes_to_hex_inj) (simp add: small_hash_def)

lemma small_hash_other: "s \<noteq> ''new'' \<Longrightarrow> s \<noteq> ''edited'' \<Longrightarrow> sha256_bytes small_hash s = sha256_bytes small_hash []"
  by (simp add: sha256_bytes_def small_hash_def)

lemma small_original: "original_for small_hash small_plan small_inode"
  by (simp add: original_for_def small_plan_def source_plan_def small_inode_def small_meta_def mode_readonly_def Let_def)

lemma small_proposed: "proposed_for small_hash small_plan ''new''"
  using small_hash_new by (simp add: proposed_for_def small_plan_def source_plan_def Let_def)

lemma small_start: "source_start small_plan small_inode small_fs"
  by (simp add: source_start_def small_plan_def source_plan_def small_fs_def small_meta_def stage_inode_def Let_def)

lemma small_valid: "validate_source_install_v1 small_hash small_plan = Inr ()"
proof -
  obtain identity where id: "source_identity_v1 small_hash (um_before_dev small_meta) (um_before_ino small_meta)
      (sha256_bytes small_hash ''old'') = Inr identity"
    using source_identity_total [OF sha256_bytes_is_sha256 [OF small_hash_digest]] by blast
  then obtain v where v: "6 < length v" "identity = sha256_bytes small_hash v" using source_identity_long by blast
  then have "v \<noteq> ''new''" "v \<noteq> ''edited''" by auto
  with v small_hash_other [of v] have "identity = sha256_bytes small_hash []" by simp
  with source_plan_valid [OF small_hash_digest small_ids(1,2) stored_path_name [OF small_ids(4)] small_ids(3) id, of "''new''" False]
  show ?thesis by (simp add: small_plan_def max_source_blob_bytes_def)
qed

section \<open>The promises\<close>

text \<open>
  C4 No installation loses the original. From the file system a preparation found, after any number
  of runs that each stop anywhere (before, inside or after any change), the original file is still
  linked as the target, or as the guard while the target is not there, with its bytes and its
  metadata; or the target has the proposed bytes and the rollback the original's.
\<close>
theorem source_never_lost:
  assumes "original_for sha plan orig" "proposed_for sha plan proposed" "source_start plan orig fs"
  shows "source_recoverable sha plan orig (source_runs sha plan proposed runs fs)"
  by (rule inv_recoverable [OF runs_inv [OF assms(1,2) start_inv [OF assms(3)]]])

lemma source_never_lost_witness:
  "source_recoverable small_hash small_plan small_inode
     (source_runs small_hash small_plan ''new'' [[Io_ok, Io_ok, Io_ok, Io_error 2], [Io_error 0], []] small_fs)"
  by (rule source_never_lost [OF small_original small_proposed small_start])

text \<open>
  C38 An installation that was stopped, anywhere but inside the making of a file, completes: after
  any runs that left the temporary file and the rollback missing or whole, a run whose changes
  succeed returns, and then the target has the proposed bytes and the planned mode and owner, the
  temporary file and the guard are gone and the rollback holds the original bytes.
\<close>
theorem source_install_completes:
  assumes "original_for sha plan orig" "proposed_for sha plan proposed" "validate_source_install_v1 sha plan = Inr ()"
    and "source_start plan orig fs" "whole_files sha plan (source_runs sha plan proposed runs fs)"
  shows "\<exists>fs'. recover_source_plan sha plan proposed ((source_runs sha plan proposed runs fs)\<lparr>sf_outcomes := []\<rparr>) = (Inr (), fs')
    \<and> source_installed sha plan fs'"
proof -
  let ?fs = "(source_runs sha plan proposed runs fs)\<lparr>sf_outcomes := []\<rparr>"
  have I: "source_inv sha plan orig proposed ?fs"
    using runs_inv [OF assms(1,2) start_inv [OF assms(4)]] by (simp add: inv_outcomes)
  have "validate_installed sha plan st ?fs = validate_installed sha plan st (source_runs sha plan proposed runs fs)" for st
    by (rule validate_installed_cong) (simp_all add: stage_inode_def)
  then have "source_live sha plan orig proposed ?fs"
    using I assms(5) by (simp add: source_live_def whole_files_def rollback_good_def)
  then obtain fs' where r: "recover_source_plan sha plan proposed ?fs = (Inr (), fs')"
    using hoare_returns [OF recovery_ok [OF assms(1-3)]] by fastforce
  with hoareD(1) [OF recovery_keeps [OF assms(1,2)] I r] show ?thesis by blast
qed

lemma start_whole: "source_start plan orig fs \<Longrightarrow> whole_files sha plan fs"
  by (auto simp: source_start_def whole_files_def stage_inode_def Let_def)

lemma source_install_completes_witness:
  "\<exists>fs'. recover_source_plan small_hash small_plan ''new'' (small_fs\<lparr>sf_outcomes := []\<rparr>) = (Inr (), fs')
    \<and> source_installed small_hash small_plan fs'"
  using source_install_completes [OF small_original small_proposed small_valid small_start, of "[]"] start_whole [OF small_start]
  by simp

lemma foreign_evidence:
  assumes "h \<noteq> si_before_sha256 plan"
  shows "hoare (\<lambda>s. stage_inode s TargetFile = Some (i, n) \<and> sf_new s TempFile \<noteq> i)
      (source_evidence sha plan proposed (Some h))
      (\<lambda>_ s. stage_inode s TargetFile = Some (i, n) \<and> sf_new s TempFile \<noteq> i)
      (\<lambda>s. stage_inode s TargetFile = Some (i, n) \<and> sf_new s TempFile \<noteq> i)"
    (is "hoare ?P _ (\<lambda>_. ?P) ?P")
proof -
  have c: "hoare ?P (create_file TempFile part whole len) (\<lambda>_. ?P) ?P" for part whole len
    by (rule hoare_create) (auto simp: set_file_def stage_inode_def)
  have inst: "hoare ?P (install_prepared_temp sha plan proposed) (\<lambda>_. ?P) ?P"
    unfolding install_prepared_temp_def
    by (intro hoare_if hoare_then [OF c hoare_sread_keep] hoare_throw) simp_all
  have temp: "hoare ?P (sbind (sread (stage_hash sha TempFile)) (\<lambda>temp.
      swhen (temp = None \<and> Some h \<noteq> Some (si_proposed_sha256 plan)) (install_prepared_temp sha plan proposed))) (\<lambda>_. ?P) ?P"
    by (rule hoare_bind [where R = "\<lambda>_. ?P"], rule hoare_sread_keep, simp, simp, rule hoare_when, rule inst, simp)
  have rollback: "hoare ?P (\<lambda>fs. (if sf_rollback_dir fs \<and> sf_names fs RollbackFile \<noteq> None then sread (validate_rollback sha plan)
         else if Some h = Some (si_before_sha256 plan)
         then sthen (sread (validate_original sha plan TargetFile)) (install_prepared_rollback sha plan)
         else sthrow (blocked_error ''source recovery rollback evidence missing'' [])) fs) (\<lambda>_. ?P) ?P"
    by (rule hoare_state_if, rule hoare_sread_keep, simp, simp)
      (use assms in \<open>simp only: option.inject if_False, intro hoare_pre [OF hoare_throw], blast\<close>)
  show ?thesis unfolding source_evidence_def by (rule hoare_then [OF rollback temp])
qed

text \<open>
  C39 Bytes that are neither the original's nor the proposal's are never overwritten: when the target
  has them, a run ends in an error and the target is the same file.
\<close>
theorem foreign_target_kept:
  assumes "stage_hash sha TargetFile fs = Inr (Some h)" "h \<noteq> si_before_sha256 plan" "h \<noteq> si_proposed_sha256 plan"
    and "sf_names fs TargetFile \<noteq> Some (sf_new fs TempFile)"
  shows "\<exists>e fs'. recover_source_plan sha plan proposed fs = (Inl e, fs')
    \<and> stage_inode fs' TargetFile = stage_inode fs TargetFile"
proof -
  obtain i n where t: "stage_inode fs TargetFile = Some (i, n)"
    using assms(1) by (cases "stage_inode fs TargetFile") (auto simp: stage_hash_def)
  let ?P = "\<lambda>s. stage_inode s TargetFile = Some (i, n) \<and> sf_new s TempFile \<noteq> i"
  have hash: "stage_hash sha TargetFile s = Inr (Some h)" if "?P s" for s
    using stage_hash_cong [of s TargetFile fs sha] that t assms(1) by simp
  have conflict: "source_conflict plan (Some h) guard temp" for guard temp
    using assms(2,3) by (simp add: source_conflict_def)
  have "hoare ?P (recover_source_plan sha plan proposed) (\<lambda>_ _. False) ?P"
    unfolding recover_source_plan_def
  proof (rule hoare_then [where R = ?P], rule hoare_sread_keep, assumption, assumption,
      rule hoare_bind [where R = "\<lambda>x s. x = Some h \<and> ?P s"])
    show "hoare ?P (sread (stage_hash sha TargetFile)) (\<lambda>x s. x = Some h \<and> ?P s) ?P"
      by (rule hoare_sread_ok) (use hash in blast)
  qed (rule hoare_fact, simp only: conflict if_True, intro hoare_then [OF foreign_evidence [OF assms(2)]]
      hoare_bind [where R = "\<lambda>_. ?P"] hoare_sread_keep hoare_throw, assumption+)
  moreover have "?P fs" using t assms(4) by (auto simp: stage_inode_def)
  ultimately show ?thesis using hoare_stops t by fastforce
qed

definition foreign_fs :: source_fs where
  "foreign_fs = small_fs\<lparr>sf_inodes := (\<lambda>_. small_inode\<lparr>in_bytes := ''edited''\<rparr>)\<rparr>"

lemma foreign_target_kept_witness:
  "\<exists>e fs'. recover_source_plan small_hash small_plan ''new'' foreign_fs = (Inl e, fs')
    \<and> stage_inode fs' TargetFile = stage_inode foreign_fs TargetFile"
proof -
  have "sha256_bytes small_hash ''edited'' \<noteq> si_before_sha256 small_plan"
    "sha256_bytes small_hash ''edited'' \<noteq> si_proposed_sha256 small_plan"
    by (simp_all add: small_plan_def source_plan_def Let_def sha256_bytes_def bytes_to_hex_inj) (simp_all add: small_hash_def)
  then show ?thesis
    by (intro foreign_target_kept [where h = "sha256_bytes small_hash ''edited''"])
      (simp_all add: foreign_fs_def small_fs_def stage_hash_def stage_inode_def small_inode_def max_source_blob_bytes_def)
qed

section \<open>Stops inside the making of a file\<close>

lemma stuck_runs:
  assumes O: "original_for sha plan orig" and N: "proposed_for sha plan proposed"
    and no: "\<And>s. stuck_temp n s \<Longrightarrow> source_inv sha plan orig proposed s \<Longrightarrow> \<not> temp_whole sha plan s"
  shows "source_inv sha plan orig proposed fs \<and> stuck_temp n fs \<Longrightarrow>
     source_inv sha plan orig proposed (source_runs sha plan proposed runs fs)
     \<and> stuck_temp n (source_runs sha plan proposed runs fs)"
proof (induction runs arbitrary: fs)
  case (Cons os runs)
  have "source_inv sha plan orig proposed (fs\<lparr>sf_outcomes := os\<rparr>) \<and> stuck_temp n (fs\<lparr>sf_outcomes := os\<rparr>)"
    using Cons.prems by (simp add: stuck_temp_def inv_outcomes)
  then have "source_inv sha plan orig proposed (snd (recover_source_plan sha plan proposed (fs\<lparr>sf_outcomes := os\<rparr>)))
      \<and> stuck_temp n (snd (recover_source_plan sha plan proposed (fs\<lparr>sf_outcomes := os\<rparr>)))"
    by (rule hoare_snd [OF stuck_run [OF O N no], rotated -1]) simp_all
  with Cons.IH show ?case by simp
qed simp

text \<open>
  A stop inside the making of the temporary file is never recovered from: once a run has left one
  that is not the proposed bytes with the planned mode and owner, every later run ends in an error,
  whatever its changes meet.
\<close>
theorem half_made_temp_blocks:
  assumes O: "original_for sha plan orig" and N: "proposed_for sha plan proposed" and start: "source_start plan orig fs"
    and temp: "sf_names (source_runs sha plan proposed runs fs) TempFile \<noteq> None"
    and half: "validate_installed sha plan TempFile (source_runs sha plan proposed runs fs) \<noteq> Inr ()"
  shows "\<exists>e. fst (recover_source_plan sha plan proposed
      ((source_runs sha plan proposed later (source_runs sha plan proposed runs fs))\<lparr>sf_outcomes := os\<rparr>)) = Inl e"
proof -
  let ?fs = "source_runs sha plan proposed runs fs"
  let ?n = "sf_inodes ?fs (sf_new ?fs TempFile)"
  have I: "source_inv sha plan orig proposed ?fs" by (rule runs_inv [OF O N start_inv [OF start]])
  then have S: "stuck_temp ?n ?fs" using temp by (auto simp: stuck_temp_def source_inv_def source_setting_def Let_def)
  have dev: "source_inv sha plan orig proposed s \<Longrightarrow> sf_dev s = um_before_dev (si_unix_metadata plan)" for s
    by (simp add: source_inv_def source_setting_def Let_def)
  have no: "\<not> temp_whole sha plan s" if s: "stuck_temp ?n s" "source_inv sha plan orig proposed s" for s
  proof
    assume "temp_whole sha plan s"
    moreover have "temp_whole sha plan s = temp_whole sha plan ?fs"
      by (rule temp_whole_cong) (use s(1) dev [OF I] dev [OF s(2)] in \<open>simp_all add: stuck_temp_def\<close>)
    ultimately have "temp_whole sha plan ?fs" by simp
    with half S validate_installed_whole [of ?fs TempFile sha plan] show False by (simp add: stuck_temp_def)
  qed
  let ?last = "(source_runs sha plan proposed later ?fs)\<lparr>sf_outcomes := os\<rparr>"
  have "source_inv sha plan orig proposed ?last \<and> stuck_temp ?n ?last"
    using stuck_runs [OF O N no conjI [OF I S], of later] by (simp add: inv_outcomes stuck_temp_def)
  from hoare_stops [OF stuck_run [OF O N no] this] show ?thesis by fastforce
qed

text \<open>
  Such stops happen: the first run can stop after \<open>k\<close> bytes of the temporary file, or past the last,
  before it has its mode.
\<close>

lemma half_made_reached:
  assumes O: "original_for sha plan orig" and N: "proposed_for sha plan proposed"
    and V: "validate_source_install_v1 sha plan = Inr ()" and start: "source_start plan orig fs"
    and dir: "\<not> sf_rollback_dir fs" and k: "k \<le> length proposed"
  shows "stage_inode (source_runs sha plan proposed [[Io_ok, Io_ok, Io_ok, Io_error (Suc (Suc k))]] fs) TempFile =
     Some (sf_new fs TempFile, temp_inode plan 33152 (take k proposed))"
proof -
  let ?fs = "\<lambda>os. fs\<lparr>sf_outcomes := os\<rparr>"
  have I: "source_inv sha plan orig proposed (?fs os)" for os using start_inv [OF start] by (simp add: inv_outcomes)
  have names: "sf_names fs TargetFile = Some (um_before_ino (si_unix_metadata plan))"
    "sf_inodes fs (um_before_ino (si_unix_metadata plan)) = orig"
    "sf_names fs RollbackFile = None" "sf_names fs TempFile = None" "sf_new fs RollbackFile \<noteq> um_before_ino (si_unix_metadata plan)"
    using start by (auto simp: source_start_def Let_def stage_inode_def)
  have open': "open_source_dir plan (?fs os) = Inr ()" for os
    using checked_plan(3,4) [OF V] start by (simp add: open_source_dir_def source_start_def Let_def)
  have target: "stage_hash sha TargetFile (?fs os) = Inr (Some (si_before_sha256 plan))"
    "validate_original sha plan TargetFile (?fs os) = Inr ()" for os
    by (rule original_stage [OF I O V]; simp add: names)+
  let ?fs3 = "\<lambda>os. set_file RollbackFile (rollback_whole orig (fresh_inode fs)) (fs\<lparr>sf_rollback_dir := True, sf_outcomes := os\<rparr>)"
  have rollback: "install_prepared_rollback sha plan (?fs [Io_ok, Io_ok, Io_ok, x]) = (Inr (), ?fs3 [x])" for x
    using O names dir
    by (simp add: install_prepared_rollback_def sthen_def sbind_def source_step_def source_outcome_def spend_outcome_def
      rollback_original_def stage_inode_def sread_def original_for_def create_file_def validate_rollback_def set_file_def
      rollback_whole_def fresh_inode_def)
  have none: "stage_hash sha TempFile (?fs3 os) = Inr None" for os
    by (simp add: stage_hash_none set_file_def names)
  show ?thesis using O N names dir k
    by (simp add: recover_source_plan_def sthen_def sbind_def sread_def open' target source_evidence_def rollback none
      proposed_for_def install_prepared_temp_def create_file_def)
      (simp add: set_file_def names source_outcome_def spend_outcome_def stage_inode_def)
qed

lemma validate_installed_mode:
  assumes "stage_inode fs st = Some (i, n)" "in_mode n \<noteq> um_install_mode (si_unix_metadata plan)"
  shows "validate_installed sha plan st fs \<noteq> Inr ()"
proof
  assume "validate_installed sha plan st fs = Inr ()"
  then have "validate_source_metadata plan True (sf_dev fs) i n = Inr ()"
    using assms(1) by (auto simp: validate_installed_def rbind_Inr_iff split: if_splits)
  with assms(2) show False by (simp add: validate_source_metadata_def Let_def split: if_splits)
qed

lemma small_install_mode: "um_install_mode (si_unix_metadata small_plan) = 33188"
  by (simp add: small_plan_def source_plan_def small_meta_def Let_def)

lemma half_made_temp_blocks_witness:
  "\<exists>e. fst (recover_source_plan small_hash small_plan ''new''
      ((source_runs small_hash small_plan ''new'' [[], [Io_ok]]
        (source_runs small_hash small_plan ''new'' [[Io_ok, Io_ok, Io_ok, Io_error 5]] small_fs))\<lparr>sf_outcomes := []\<rparr>)) = Inl e"
proof -
  let ?fs = "source_runs small_hash small_plan ''new'' [[Io_ok, Io_ok, Io_ok, Io_error 5]] small_fs"
  have "stage_inode ?fs TempFile = Some (8, temp_inode small_plan 33152 ''new'')"
    using half_made_reached [OF small_original small_proposed small_valid small_start, of 3]
    by (simp add: small_fs_def numeral_eq_Suc)
  then have "sf_names ?fs TempFile \<noteq> None" "validate_installed small_hash small_plan TempFile ?fs \<noteq> Inr ()"
    using validate_installed_mode [of ?fs TempFile 8 "temp_inode small_plan 33152 ''new''" small_plan small_hash]
    by (simp_all add: stage_inode_def temp_inode_def small_install_mode del: source_runs.simps)
  from half_made_temp_blocks [OF small_original small_proposed small_start this] show ?thesis .
qed

text \<open>A rollback that is not the original's bytes, as a stop inside its writing leaves it, stops every run at once.\<close>

lemma half_made_rollback_blocks:
  assumes "open_source_dir plan fs = Inr ()" "stage_hash sha TargetFile fs = Inr h"
    and "sf_rollback_dir fs" "stage_inode fs RollbackFile = Some (i, n)" "sha256_bytes sha (in_bytes n) \<noteq> si_before_sha256 plan"
  shows "\<exists>e. recover_source_plan sha plan proposed fs = (Inl e, fs)"
  using assms
  by (auto simp: recover_source_plan_def sthen_def sbind_def sread_def source_evidence_def validate_rollback_def stage_inode_def)

end
