(* ===== verification/Workflow_Store.thy ===== *)
theory Workflow_Store
  imports Workflow_Recovery Current_Image Redaction "HOL-Library.List_Lexorder" "HOL-Library.Char_ord"
begin

text \<open>
  The files behind a workflow (\<open>app/workflow_adapter/state\<close>): immutable snapshots of its revisions, the
  pointer to the committed one and a legacy transaction file (\<open>workflow_store.rs\<close>), the checkpoints
  the ledger holds (\<open>ledger/query.rs\<close>), the preparation of the next revision and its installation
  (\<open>workflow_revision.rs\<close>), and the load of a workflow (\<open>workflow_access.rs\<close>).
\<close>

section \<open>Checkpoints in the ledger (ledger/query.rs)\<close>

text \<open>\<open>str::parse::<u64>\<close>: an optional plus sign, then digits.\<close>

definition parse_u64_text :: "string \<Rightarrow> u64 option" where
  "parse_u64_text s =
     (let digits = (case s of [] \<Rightarrow> [] | c # r \<Rightarrow> if c = CHR ''+'' then r else s) in
      if digits = [] \<or> \<not> list_all is_ascii_digit digits \<or> 2 ^ 64 \<le> read_digits digits then None
      else Some (of_nat (read_digits digits)))"

fun field_value :: "string \<Rightarrow> string list \<Rightarrow> string option" where
  "field_value key [] = None"
| "field_value key (part # parts) =
     (case split_once (CHR ''='') part of
        None \<Rightarrow> field_value key parts
      | Some (candidate, v) \<Rightarrow> if candidate = key then Some v else field_value key parts)"

definition ledger_detail_value :: "string \<Rightarrow> string \<Rightarrow> string option" where
  "ledger_detail_value detail_text key = field_value key (split_whitespace detail_text)"

definition malformed_checkpoint :: "string \<Rightarrow> app_error" where
  "malformed_checkpoint eid = blocked_error ''workflow ledger checkpoint malformed'' [eid]"

definition checkpoint_of_event :: "parsed_event \<Rightarrow> workflow_checkpoint result" where
  "checkpoint_of_event event =
     (let field = ledger_detail_value (details event); malformed = malformed_checkpoint (event_id event) in
      rbind (ok_or malformed (Option.bind (field ''revision'') parse_u64_text)) (\<lambda>revision.
      rbind (ok_or malformed (Option.bind (field ''artifact_hash'') (\<lambda>v. if is_sha256 v then Some v else None))) (\<lambda>hash.
      rbind (ok_or malformed (Option.bind (field ''previous_hash'')
          (\<lambda>v. if v = ''none'' \<or> is_sha256 v then Some v else None))) (\<lambda>previous.
        Inr \<lparr>wc_revision = revision, wc_artifact_hash = hash, wc_previous_hash = previous\<rparr>))))"

definition checkpoint_of :: "string \<Rightarrow> parsed_event \<Rightarrow> bool" where
  "checkpoint_of workflow_id event \<longleftrightarrow>
     event_type event = ''workflow.checkpoint''
     \<and> ledger_detail_value (details event) ''workflow_id'' = Some workflow_id"

text \<open>The index of the first checkpoint that does not continue the chain.\<close>

definition checkpoint_breaks :: "workflow_checkpoint list \<Rightarrow> nat \<Rightarrow> bool" where
  "checkpoint_breaks cs i \<longleftrightarrow>
     wc_revision (cs ! i) \<noteq> of_nat i + 1
     \<or> wc_previous_hash (cs ! i) \<noteq> (if i = 0 then ''none'' else wc_artifact_hash (cs ! (i - 1)))"

definition workflow_checkpoints :: "string \<Rightarrow> parsed_event list result \<Rightarrow> workflow_checkpoint list result" where
  "workflow_checkpoints workflow_id events =
     rbind events (\<lambda>es.
     rbind (traverse checkpoint_of_event (filter (checkpoint_of workflow_id) es)) (\<lambda>found.
       let cs = sort_key wc_revision found in
       case find (checkpoint_breaks cs) [0..<length cs] of
         None \<Rightarrow> Inr cs
       | Some i \<Rightarrow> Inl (blocked_error ''workflow ledger chain''
                     [workflow_id, show_nat (unat (wc_revision (cs ! i)))])))"

definition workflow_checkpoint_exists ::
  "string \<Rightarrow> u64 \<Rightarrow> string \<Rightarrow> parsed_event list result \<Rightarrow> bool result" where
  "workflow_checkpoint_exists workflow_id revision hash events =
     rbind (workflow_checkpoints workflow_id events) (\<lambda>cs.
       Inr (list_ex (\<lambda>c. wc_revision c = revision \<and> wc_artifact_hash c = hash) cs))"

definition event_detail_exists :: "string \<Rightarrow> string \<Rightarrow> string \<Rightarrow> parsed_event list result \<Rightarrow> bool result" where
  "event_detail_exists kind field v events =
     rbind events (\<lambda>es. Inr (list_ex (\<lambda>e. event_type e = kind \<and> ledger_detail_value (details e) field = Some v) es))"

definition event_details_match ::
  "string \<Rightarrow> (string \<times> string) list \<Rightarrow> parsed_event list result \<Rightarrow> bool result" where
  "event_details_match kind wanted events =
     rbind events (\<lambda>es. Inr (list_ex (\<lambda>e. event_type e = kind
       \<and> list_all (\<lambda>(field, v). ledger_detail_value (details e) field = Some v) wanted) es))"

section \<open>The files (workflow\_store.rs, layout.rs)\<close>

text \<open>
  A snapshot file is named by its workflow and revision, a pointer or transaction file by its
  workflow. What the ledger and the runtime identity answer is part of the state. Every
  replacement or removal of a file takes the next outcome; with none left it succeeds.
\<close>

record workflow_files =
  wf_snapshots :: "string \<times> u64 \<Rightarrow> string option"
  wf_pointers :: "string \<Rightarrow> string option"
  wf_transactions :: "string \<Rightarrow> string option"
  wf_events :: "parsed_event list result"
  wf_identity :: "runtime_identity result"
  wf_outcomes :: "replace_outcome list"

definition max_workflow_pointer_bytes :: nat where "max_workflow_pointer_bytes = 64 * 1024"
definition max_workflow_snapshot_bytes :: nat where "max_workflow_snapshot_bytes = 512 * 1024"

definition pad20 :: "u64 \<Rightarrow> string" where
  "pad20 n = (let s = show_nat (unat n) in replicate (20 - length s) (CHR ''0'') @ s)"

definition stored_snapshot_path :: "string \<Rightarrow> u64 \<Rightarrow> string" where
  "stored_snapshot_path workflow_id revision =
     ''.rpotato/workflows/'' @ workflow_id @ ''.snapshots/'' @ pad20 revision @ ''.json''"

definition stored_pointer_path :: "string \<Rightarrow> string" where
  "stored_pointer_path workflow_id = ''.rpotato/workflows/'' @ workflow_id @ ''.json''"

definition stored_transaction_path :: "string \<Rightarrow> string" where
  "stored_transaction_path workflow_id = ''.rpotato/workflows/'' @ workflow_id @ ''.txn''"

definition corrupt_workflow :: "string \<Rightarrow> app_error" where
  "corrupt_workflow path = blocked_error ''workflow corrupt'' [path]"

text \<open>\<open>read_regular_file_bounded\<close>, on a regular file or none.\<close>

definition read_bounded :: "nat \<Rightarrow> string \<Rightarrow> string option \<Rightarrow> string result" where
  "read_bounded limit label file =
     (case file of
        None \<Rightarrow> Inl (blocked_error ''metadata'' [label])
      | Some bytes \<Rightarrow>
          if length bytes > limit then Inl (blocked_error ''byte budget'' [label])
          else if \<not> utf8_valid bytes then Inl (blocked_error ''UTF-8'' [label]) else Inr bytes)"

definition read_snapshot :: "workflow_files \<Rightarrow> string \<Rightarrow> u64 \<Rightarrow> string result" where
  "read_snapshot s workflow_id revision =
     read_bounded max_workflow_snapshot_bytes ''workflow snapshot'' (wf_snapshots s (workflow_id, revision))"

definition read_pointer :: "workflow_files \<Rightarrow> string \<Rightarrow> string result" where
  "read_pointer s workflow_id =
     read_bounded max_workflow_pointer_bytes ''workflow pointer'' (wf_pointers s workflow_id)"

definition file_outcome :: "workflow_files \<Rightarrow> replace_outcome \<times> workflow_files" where
  "file_outcome s = (case wf_outcomes s of
     [] \<Rightarrow> (Replaced, s) | oc # rest \<Rightarrow> (oc, s\<lparr>wf_outcomes := rest\<rparr>))"

definition put_snapshot :: "string \<times> u64 \<Rightarrow> string \<Rightarrow> (workflow_files, unit) effect" where
  "put_snapshot key bytes s =
     (let (oc, s) = file_outcome s; (r, file) = atomic_replace oc bytes (wf_snapshots s key)
      in (r, s\<lparr>wf_snapshots := (wf_snapshots s)(key := file)\<rparr>))"

definition put_pointer :: "string \<Rightarrow> string \<Rightarrow> (workflow_files, unit) effect" where
  "put_pointer workflow_id bytes s =
     (let (oc, s) = file_outcome s; (r, file) = atomic_replace oc bytes (wf_pointers s workflow_id)
      in (r, s\<lparr>wf_pointers := (wf_pointers s)(workflow_id := file)\<rparr>))"

definition write_workflow_snapshot_bytes :: "workflow_record \<Rightarrow> string \<Rightarrow> (workflow_files, unit) effect" where
  "write_workflow_snapshot_bytes r rendered s =
     (let key = (wr_workflow_id r, wr_revision r) in
      case wf_snapshots s key of
        Some existing \<Rightarrow>
          if existing = rendered then (Inr (), s)
          else (Inl (blocked_error ''workflow snapshot immutable revision bytes conflict''
                  [stored_snapshot_path (fst key) (snd key)]), s)
      | None \<Rightarrow> put_snapshot key rendered s)"

definition write_workflow_pointer_for_schema :: "workflow_record \<Rightarrow> u64 \<Rightarrow> (workflow_files, unit) effect" where
  "write_workflow_pointer_for_schema r schema s =
     (case render_pointer r schema of
        Inl e \<Rightarrow> (Inl e, s)
      | Inr body \<Rightarrow> put_pointer (wr_workflow_id r) body s)"

text \<open>A removal's outcomes: removed, not removed, or removed without the sync of the directory.\<close>

definition remove_workflow_transaction :: "string \<Rightarrow> (workflow_files, unit) effect" where
  "remove_workflow_transaction workflow_id s =
     (case wf_transactions s workflow_id of
        None \<Rightarrow> (Inr (), s)
      | Some _ \<Rightarrow>
          let (oc, s) = file_outcome s; s' = s\<lparr>wf_transactions := (wf_transactions s)(workflow_id := None)\<rparr> in
          case oc of
            Replaced \<Rightarrow> (Inr (), s')
          | NotReplaced \<Rightarrow> (Inl (runtime_error ''workflow transaction cleanup'' []), s)
          | ReplacedUnsynced \<Rightarrow> (Inl (runtime_error ''workflow transaction cleanup sync'' []), s'))"

section \<open>The chain of snapshots (workflow\_store.rs)\<close>

text \<open>
  One turn of the loop over the revisions, given the schema of the snapshot before, and the loop:
  one checkpoint for each revision, the record read last is its result.
\<close>

definition snapshot_step ::
  "hasher \<Rightarrow> workflow_files \<Rightarrow> string \<Rightarrow> u64 \<Rightarrow> string \<Rightarrow> u64 option \<Rightarrow> workflow_checkpoint \<Rightarrow>
   (u64 \<times> workflow_record) result" where
  "snapshot_step sha s workflow_id revision previous_hash previous_schema c =
     (let path = stored_snapshot_path workflow_id revision in
      rbind (read_snapshot s workflow_id revision) (\<lambda>body.
      rbind (snapshot_schema corrupt_workflow path body) (\<lambda>schema.
      if (case previous_schema of None \<Rightarrow> False | Some before \<Rightarrow> schema < before) then Inl (corrupt_workflow path)
      else
      rbind (parse_snapshot sha corrupt_workflow path body) (\<lambda>r.
      if wr_workflow_id r \<noteq> workflow_id \<or> wr_revision r \<noteq> revision \<or> wr_previous_hash r \<noteq> previous_hash
         \<or> wc_revision c \<noteq> revision \<or> wc_artifact_hash c \<noteq> wr_artifact_hash r
         \<or> wc_previous_hash c \<noteq> previous_hash
      then Inl (corrupt_workflow path) else Inr (schema, r)))))"

fun snapshot_chain ::
  "hasher \<Rightarrow> workflow_files \<Rightarrow> string \<Rightarrow> u64 \<Rightarrow> string \<Rightarrow> (u64 \<times> workflow_record) option \<Rightarrow>
   workflow_checkpoint list \<Rightarrow> (u64 \<times> workflow_record) option result" where
  "snapshot_chain sha s workflow_id revision previous_hash latest [] = Inr latest"
| "snapshot_chain sha s workflow_id revision previous_hash latest (c # cs) =
     rbind (snapshot_step sha s workflow_id revision previous_hash (map_option fst latest) c) (\<lambda>(schema, r).
       snapshot_chain sha s workflow_id (revision + 1) (wr_artifact_hash r) (Some (schema, r)) cs)"

definition validate_chain_with_checkpoints ::
  "hasher \<Rightarrow> workflow_files \<Rightarrow> string \<Rightarrow> u64 \<Rightarrow> u64 \<Rightarrow> workflow_checkpoint list \<Rightarrow> workflow_record result" where
  "validate_chain_with_checkpoints sha s workflow_id committed schema cs =
     (let corrupt = Inl (corrupt_workflow (stored_pointer_path workflow_id)) in
      if length cs \<noteq> unat committed then corrupt
      else rbind (snapshot_chain sha s workflow_id 1 ''none'' None cs) (\<lambda>latest.
        case latest of
          None \<Rightarrow> corrupt
        | Some (last_schema, r) \<Rightarrow> if last_schema \<noteq> schema then corrupt else Inr r))"

definition validate_workflow_chain ::
  "hasher \<Rightarrow> workflow_files \<Rightarrow> string \<Rightarrow> u64 \<Rightarrow> u64 \<Rightarrow> workflow_record result" where
  "validate_workflow_chain sha s workflow_id committed schema =
     rbind (workflow_checkpoints workflow_id (wf_events s)) (\<lambda>cs.
       if length cs \<noteq> unat committed
       then Inl (blocked_error ''workflow chain''
              [workflow_id, show_nat (unat committed), show_nat (length cs)])
       else validate_chain_with_checkpoints sha s workflow_id committed schema cs)"

text \<open>The recovery port of the workflow files.\<close>

definition load_transaction :: "hasher \<Rightarrow> workflow_files \<Rightarrow> string \<Rightarrow> pending_transaction option result" where
  "load_transaction sha s workflow_id =
     (case wf_transactions s workflow_id of
        None \<Rightarrow> Inr None
      | Some file \<Rightarrow>
          let path = stored_transaction_path workflow_id in
          rbind (read_bounded max_workflow_snapshot_bytes ''workflow recovery transaction'' (Some file)) (\<lambda>body.
          rbind (snapshot_schema corrupt_workflow path body) (\<lambda>schema.
          rbind (parse_snapshot sha corrupt_workflow path body) (\<lambda>r.
            Inr (Some \<lparr>pt_schema_version = schema, pt_record = r, pt_body = body\<rparr>)))))"

definition load_pointer :: "workflow_files \<Rightarrow> string \<Rightarrow> workflow_pointer option result" where
  "load_pointer s workflow_id =
     (case wf_pointers s workflow_id of
        None \<Rightarrow> Inr None
      | Some _ \<Rightarrow>
          rbind (read_pointer s workflow_id) (\<lambda>body.
          rbind (parse_pointer corrupt_workflow (stored_pointer_path workflow_id) body) (\<lambda>p. Inr (Some p))))"

definition state_recovery_port :: "hasher \<Rightarrow> workflow_files recovery_port" where
  "state_recovery_port sha =
     \<lparr>wp_load_transaction = (\<lambda>w s. (load_transaction sha s w, s)),
      wp_load_pointer = (\<lambda>w s. (load_pointer s w, s)),
      wp_checkpoints = (\<lambda>w s. (workflow_checkpoints w (wf_events s), s)),
      wp_validate_chain = (\<lambda>w committed schema s. (validate_workflow_chain sha s w committed schema, s)),
      wp_validate_chain_with = (\<lambda>w committed schema cs s.
        (validate_chain_with_checkpoints sha s w committed schema cs, s)),
      wp_current_identity = (\<lambda>s. (wf_identity s, s)),
      wp_checkpoint_exists = (\<lambda>w revision hash s. (workflow_checkpoint_exists w revision hash (wf_events s), s)),
      wp_install_snapshot = write_workflow_snapshot_bytes,
      wp_install_pointer = write_workflow_pointer_for_schema,
      wp_remove_transaction = remove_workflow_transaction,
      wp_corrupt = (\<lambda>w artifact. corrupt_workflow (case artifact of
          ArtifactTransaction \<Rightarrow> stored_transaction_path w | ArtifactPointer \<Rightarrow> stored_pointer_path w))\<rparr>"

section \<open>Loading a workflow (workflow\_access.rs)\<close>

definition load_committed :: "hasher \<Rightarrow> workflow_files \<Rightarrow> string \<Rightarrow> workflow_record result" where
  "load_committed sha s workflow_id =
     (let path = stored_pointer_path workflow_id in
      rbind (read_pointer s workflow_id) (\<lambda>body.
      rbind (parse_pointer corrupt_workflow path body) (\<lambda>p.
      if wp_workflow_id p \<noteq> workflow_id \<or> wp_committed_revision p = 0 then Inl (corrupt_workflow path)
      else
      rbind (validate_workflow_chain sha s workflow_id (wp_committed_revision p) (wp_schema_version p)) (\<lambda>r.
      rbind (wf_identity s) (\<lambda>identity.
        if wr_artifact_hash r \<noteq> wp_artifact_hash p \<or> wr_project_id r \<noteq> ri_project_id identity
        then Inl (corrupt_workflow path) else Inr r)))))"

definition load_workflow_under_transition :: "hasher \<Rightarrow> string \<Rightarrow> (workflow_files, workflow_record) effect" where
  "load_workflow_under_transition sha workflow_id =
     sthen (\<lambda>s. (validate_workflow_id workflow_id, s))
    (sthen (recover_workflow_transaction (state_recovery_port sha) workflow_id)
           (\<lambda>s. (load_committed sha s workflow_id, s)))"

text \<open>The guard of \<open>TransitionGuard::acquire_for\<close> is the parameter \<open>acquire\<close>.\<close>

definition load_workflow_revision ::
  "hasher \<Rightarrow> (string \<Rightarrow> (workflow_files, unit) effect) \<Rightarrow> string \<Rightarrow> u64 \<Rightarrow> (workflow_files, workflow_record) effect" where
  "load_workflow_revision sha acquire workflow_id revision =
     (if revision = 0 then sthrow (blocked_error ''workflow historical revision at least 1'' [])
      else
      sbind (\<lambda>s. (wf_identity s, s)) (\<lambda>identity.
      sthen (acquire (ri_project_id identity))
     (sbind (load_workflow_under_transition sha workflow_id) (\<lambda>latest s.
        (if wr_revision latest < revision
         then Inl (blocked_error ''workflow historical revision range'' [])
         else
         let path = stored_snapshot_path workflow_id revision in
         rbind (read_snapshot s workflow_id revision) (\<lambda>body.
         rbind (parse_snapshot sha corrupt_workflow path body) (\<lambda>r.
           if wr_workflow_id r \<noteq> workflow_id \<or> wr_revision r \<noteq> revision
              \<or> wr_project_id r \<noteq> ri_project_id identity \<or> render r \<noteq> body
           then Inl (corrupt_workflow path) else Inr r)), s)))))"

text \<open>
  \<open>discover_active_workflow\<close>: the directory's entry names in the order the set keeps them, \<open>None\<close> for
  a name that is not UTF-8; a missing directory has no workflow.
\<close>

definition strip_suffix :: "string \<Rightarrow> string \<Rightarrow> string option" where
  "strip_suffix suffix s = (if ends_with suffix s then Some (take (length s - length suffix) s) else None)"

definition entry_workflow_id :: "string \<Rightarrow> string option" where
  "entry_workflow_id entry =
     (case strip_suffix ''.json'' entry of
        Some w \<Rightarrow> Some w
      | None \<Rightarrow> (case strip_suffix ''.txn'' entry of Some w \<Rightarrow> Some w | None \<Rightarrow> strip_suffix ''.snapshots'' entry))"

definition entry_ids :: "string option list \<Rightarrow> string list result" where
  "entry_ids entries =
     rbind (traverse (\<lambda>entry. case entry of
         None \<Rightarrow> Inl (corrupt_workflow ''workflow entry'')
       | Some entry_name \<Rightarrow>
           (case entry_workflow_id entry_name of
              None \<Rightarrow> Inr None
            | Some w \<Rightarrow> rbind (validate_workflow_id w) (\<lambda>_. Inr (Some w)))) entries) (\<lambda>ids.
       Inr (List.map_filter id ids))"

fun active_workflows :: "hasher \<Rightarrow> string list \<Rightarrow> (workflow_files, string list) effect" where
  "active_workflows sha [] = sreturn []"
| "active_workflows sha (w # ids) =
     sbind (\<lambda>s. if wf_pointers s w = None \<and> wf_transactions s w = None
              then (Inl (blocked_error ''workflow scan: snapshots without pointer'' [w]), s)
              else load_workflow_under_transition sha w s) (\<lambda>r.
     sbind (active_workflows sha ids) (\<lambda>rest.
       sreturn (if is_terminal r then rest else wr_workflow_id r # rest)))"

definition discover_active_workflow ::
  "hasher \<Rightarrow> string option list result option \<Rightarrow> (workflow_files, string option) effect" where
  "discover_active_workflow sha directory =
     (case directory of
        None \<Rightarrow> sreturn None
      | Some entries \<Rightarrow>
          sbind (\<lambda>s. (rbind entries entry_ids, s)) (\<lambda>ids.
          sbind (active_workflows sha (remdups (sort_key id ids))) (\<lambda>active.
            case active of
              [] \<Rightarrow> sreturn None
            | [w] \<Rightarrow> sreturn (Some w)
            | _ \<Rightarrow> sthrow (blocked_error ''workflow resume: several active workflows'' []))))"

end
