(* ===== verification/Workflow_Revision.thy ===== *)
theory Workflow_Revision
  imports Workflow_Store
begin

text \<open>
  The next revision of a workflow (\<open>workflow_revision.rs\<close>): its snapshot, pointer and checkpoint
  event are prepared together, carried as members of a bundle, decoded from it, and installed.
\<close>

section \<open>The checkpoint event (workflow\_store.rs, ledger.rs)\<close>

definition display_empty :: "string \<Rightarrow> string" where
  "display_empty v = (if v = [] then ''none'' else v)"

definition workflow_identity :: "string \<Rightarrow> workflow_record \<Rightarrow> runtime_identity" where
  "workflow_identity project_root r =
     \<lparr>ri_project_id = wr_project_id r, ri_session_id = wr_session_id r, ri_project_root = project_root\<rparr>"

definition checkpoint_fields :: "workflow_record \<Rightarrow> (string \<times> string) list" where
  "checkpoint_fields r =
     [(''workflow_id'', wr_workflow_id r), (''revision'', show_nat (unat (wr_revision r))),
      (''artifact_hash'', wr_artifact_hash r), (''previous_hash'', wr_previous_hash r),
      (''phase'', wr_phase r), (''workflow_kind'', wr_workflow_kind r),
      (''active_skill_id'', wr_active_skill_id r), (''skill_state'', wr_skill_state r),
      (''action_id'', wr_action_id r), (''action_kind'', wr_action_kind r),
      (''proposal_id'', display_empty (wr_proposal_id r)), (''evidence_id'', display_empty (wr_evidence_id r))]"

definition workflow_checkpoint_event_details :: "workflow_record \<Rightarrow> string" where
  "workflow_checkpoint_event_details r = join '' '' (map (\<lambda>(k, v). k @ ''='' @ v) (checkpoint_fields r))"

text \<open>
  \<open>new_event_for\<close>: the event's id and time come from the clock, the process and a counter, so they
  are given; the details are redacted.
\<close>

definition new_event_for ::
  "string \<Rightarrow> u128 \<Rightarrow> runtime_identity \<Rightarrow> string \<Rightarrow> string \<Rightarrow> string \<Rightarrow> ledger_event" where
  "new_event_for eid ts identity kind text_summary detail_text =
     \<lparr>event_id = eid, ts_ms = ts, event_type = kind, project_id = ri_project_id identity,
      session_id = ri_session_id identity, summary = text_summary, details = redact_text detail_text\<rparr>"

definition checkpoint_summary :: string where
  "checkpoint_summary = ''canonical workflow revision persisted''"

definition workflow_checkpoint_event :: "string \<Rightarrow> u128 \<Rightarrow> workflow_record \<Rightarrow> runtime_identity \<Rightarrow> ledger_event" where
  "workflow_checkpoint_event eid ts r identity =
     new_event_for eid ts identity ''workflow.checkpoint'' checkpoint_summary
       (workflow_checkpoint_event_details r)"

section \<open>Preparing a revision\<close>

record prepared_workflow_revision =
  pr_record :: workflow_record
  pr_snapshot_path :: "string \<times> u64"
  pr_snapshot_stored_path :: string
  pr_snapshot_bytes :: string
  pr_snapshot_member_id :: string
  pr_pointer_path :: string
  pr_pointer_stored_path :: string
  pr_pointer_bytes :: string
  pr_pointer_member_id :: string
  pr_event :: ledger_event

definition prepared_workflow_member_id :: "hasher \<Rightarrow> string \<Rightarrow> string \<Rightarrow> string \<Rightarrow> u64 \<Rightarrow> string" where
  "prepared_workflow_member_id sha domain prefix workflow_id revision =
     prefix @ ''-'' @ sha256_bytes sha (domain @ [CHR 0x00] @ workflow_id @ [CHR 0x00] @ show_nat (unat revision))"

definition snapshot_member_id :: "hasher \<Rightarrow> string \<Rightarrow> u64 \<Rightarrow> string" where
  "snapshot_member_id sha =
     prepared_workflow_member_id sha ''rpotato.workflow-snapshot-member-id/v1'' ''workflow-snapshot''"

definition pointer_member_id :: "hasher \<Rightarrow> string \<Rightarrow> u64 \<Rightarrow> string" where
  "pointer_member_id sha =
     prepared_workflow_member_id sha ''rpotato.workflow-pointer-member-id/v1'' ''workflow-pointer''"

definition build_prepared_workflow_revision ::
  "hasher \<Rightarrow> string \<Rightarrow> u128 \<Rightarrow> string \<Rightarrow> workflow_record \<Rightarrow> prepared_workflow_revision result" where
  "build_prepared_workflow_revision sha eid ts project_root r =
     rbind (render_pointer r 4) (\<lambda>pointer_bytes.
       let w = wr_workflow_id r; revision = wr_revision r in
       Inr \<lparr>pr_record = r, pr_snapshot_path = (w, revision),
            pr_snapshot_stored_path = stored_snapshot_path w revision, pr_snapshot_bytes = render r,
            pr_snapshot_member_id = snapshot_member_id sha w revision,
            pr_pointer_path = w, pr_pointer_stored_path = stored_pointer_path w,
            pr_pointer_bytes = pointer_bytes, pr_pointer_member_id = pointer_member_id sha w revision,
            pr_event = workflow_checkpoint_event eid ts r (workflow_identity project_root r)\<rparr>)"

text \<open>The guard of a workflow is its id; its lease is not modelled.\<close>

definition prepare_initial ::
  "hasher \<Rightarrow> string \<Rightarrow> u128 \<Rightarrow> string \<Rightarrow> workflow_files \<Rightarrow> string \<Rightarrow> workflow_record \<Rightarrow>
   prepared_workflow_revision result" where
  "prepare_initial sha eid ts project_root s workflow_id r =
     (if wr_workflow_id r \<noteq> workflow_id \<or> wr_revision r \<noteq> 0 \<or> wf_pointers s workflow_id \<noteq> None
      then Inl (blocked_error ''prepared initial workflow predecessor binding'' [])
      else
        let r = r\<lparr>wr_revision := 1, wr_previous_hash := ''none''\<rparr>
        in build_prepared_workflow_revision sha eid ts project_root
             (r\<lparr>wr_artifact_hash := sha256_bytes sha (payload r)\<rparr>))"

definition prepare_revision ::
  "hasher \<Rightarrow> string \<Rightarrow> u128 \<Rightarrow> string \<Rightarrow> string \<Rightarrow> workflow_record \<Rightarrow> workflow_record \<Rightarrow>
   prepared_workflow_revision result" where
  "prepare_revision sha eid ts project_root workflow_id current r =
     (if wr_workflow_id current \<noteq> workflow_id \<or> wr_workflow_id r \<noteq> workflow_id
         \<or> wr_revision r \<noteq> wr_revision current \<or> wr_artifact_hash r \<noteq> wr_artifact_hash current
      then Inl (blocked_error ''prepared workflow revision CAS binding'' [])
      else
      rbind (ok_or (blocked_error ''workflow revision overflow'' []) (checked_add (wr_revision current) 1)) (\<lambda>revision.
        let r = r\<lparr>wr_previous_hash := wr_artifact_hash current, wr_revision := revision\<rparr>
        in build_prepared_workflow_revision sha eid ts project_root
             (r\<lparr>wr_artifact_hash := sha256_bytes sha (payload r)\<rparr>)))"

text \<open>
  The preparation of \<open>checkpoint_workflow_under_transition\<close>, up to the transition that installs it:
  \<open>expected_revision\<close> 0 starts a workflow, any other names the revision it replaces.
\<close>

definition prepare_checkpoint ::
  "hasher \<Rightarrow> string \<Rightarrow> u128 \<Rightarrow> string \<Rightarrow> workflow_record \<Rightarrow> u64 \<Rightarrow>
   (workflow_files, prepared_workflow_revision) effect" where
  "prepare_checkpoint sha eid ts project_root r expected_revision =
     sthen (\<lambda>s. (validate_workflow_id (wr_workflow_id r), s))
    (sthen (recover_workflow_transaction (state_recovery_port sha) (wr_workflow_id r))
     (if expected_revision = 0
      then (\<lambda>s. (prepare_initial sha eid ts project_root s (wr_workflow_id r) r, s))
      else sbind (load_workflow_under_transition sha (wr_workflow_id r)) (\<lambda>current s.
        (if wr_revision current \<noteq> expected_revision \<or> wr_artifact_hash current \<noteq> wr_artifact_hash r
         then Inl (blocked_error ''workflow save: revision or hash conflict''
                [wr_workflow_id r, show_nat (unat expected_revision), show_nat (unat (wr_revision current))])
         else prepare_revision sha eid ts project_root (wr_workflow_id r) current r, s))))"

section \<open>The members of a bundle (current\_transition.rs)\<close>

text \<open>The mode is \<open>0o600\<close>; \<open>workflow_members\<close> are the two members the transition pushes for a workflow.\<close>

definition prepared_workflow_member ::
  "prepared_member_kind \<Rightarrow> string \<Rightarrow> string \<Rightarrow> string option \<Rightarrow> string \<Rightarrow> string \<Rightarrow> string \<Rightarrow> prepared_member" where
  "prepared_workflow_member kind path artifact causal eid bytes expected_type =
     \<lparr>pm_kind = kind, pm_path = path, pm_schema_version = 4,
      pm_binding = \<lparr>pb_artifact_id = Some artifact, pb_causal_id = causal, pb_source_key = None,
        pb_event_id = Some eid\<rparr>,
      pm_bytes_utf8 = bytes, pm_expected_type = expected_type, pm_expected_identity = None,
      pm_readonly = False, pm_mode = 384, pm_ownership = None, pm_semantic_role_rank = 0\<rparr>"

definition snapshot_member :: "prepared_workflow_revision \<Rightarrow> string \<Rightarrow> prepared_member" where
  "snapshot_member p eid = prepared_workflow_member WorkflowSnapshot (pr_snapshot_stored_path p)
     (pr_snapshot_member_id p) None eid (pr_snapshot_bytes p) ''absent''"

definition pointer_member :: "prepared_workflow_revision \<Rightarrow> string \<Rightarrow> prepared_member" where
  "pointer_member p eid = prepared_workflow_member WorkflowPointer (pr_pointer_stored_path p)
     (pr_pointer_member_id p) (Some (pr_snapshot_member_id p)) eid (pr_pointer_bytes p) ''file''"

section \<open>Decoding the members\<close>

definition workflow_members_placed :: "prepared_member \<Rightarrow> prepared_member \<Rightarrow> bool" where
  "workflow_members_placed snapshot pointer \<longleftrightarrow>
     pm_kind snapshot = WorkflowSnapshot \<and> pm_kind pointer = WorkflowPointer
     \<and> pm_schema_version snapshot = 4 \<and> pm_schema_version pointer = 4
     \<and> pm_expected_type snapshot = ''absent'' \<and> pm_expected_type pointer = ''file''"

text \<open>The conjunction of \<open>decode_prepared_workflow_revision\<close>, member by member, and the event.\<close>

definition workflow_members_bound ::
  "hasher \<Rightarrow> string \<Rightarrow> prepared_member \<Rightarrow> prepared_member \<Rightarrow> ledger_event \<Rightarrow> workflow_record \<Rightarrow>
   workflow_pointer \<Rightarrow> string \<Rightarrow> bool" where
  "workflow_members_bound sha workflow_id snapshot pointer event r p expected_pointer \<longleftrightarrow>
     wr_workflow_id r = workflow_id \<and> render r = pm_bytes_utf8 snapshot
     \<and> pm_path snapshot = stored_snapshot_path workflow_id (wr_revision r)
     \<and> pm_path pointer = stored_pointer_path workflow_id
     \<and> pb_artifact_id (pm_binding snapshot) = Some (snapshot_member_id sha workflow_id (wr_revision r))
     \<and> pb_artifact_id (pm_binding pointer) = Some (pointer_member_id sha workflow_id (wr_revision r))
     \<and> pb_causal_id (pm_binding snapshot) = None
     \<and> pb_causal_id (pm_binding pointer) = Some (snapshot_member_id sha workflow_id (wr_revision r))
     \<and> pb_event_id (pm_binding snapshot) = Some (event_id event)
     \<and> pb_event_id (pm_binding pointer) = Some (event_id event)
     \<and> wp_workflow_id p = workflow_id \<and> wp_committed_revision p = wr_revision r
     \<and> wp_artifact_hash p = wr_artifact_hash r \<and> wp_schema_version p = 4
     \<and> pm_bytes_utf8 pointer = expected_pointer"

definition checkpoint_event_bound :: "workflow_record \<Rightarrow> ledger_event \<Rightarrow> bool" where
  "checkpoint_event_bound r event \<longleftrightarrow>
     event_type event = ''workflow.checkpoint'' \<and> project_id event = wr_project_id r
     \<and> session_id event = wr_session_id r \<and> summary event = checkpoint_summary
     \<and> details event = workflow_checkpoint_event_details r"

definition decode_prepared_workflow_revision ::
  "hasher \<Rightarrow> string \<Rightarrow> prepared_member \<Rightarrow> prepared_member \<Rightarrow> ledger_event \<Rightarrow>
   prepared_workflow_revision result" where
  "decode_prepared_workflow_revision sha workflow_id snapshot pointer event =
     rbind (validate_workflow_id workflow_id) (\<lambda>_.
     if \<not> workflow_members_placed snapshot pointer
     then Inl (blocked_error ''prepared workflow member kind/schema/type'' [])
     else
     rbind (parse_snapshot sha corrupt_workflow (stored_pointer_path workflow_id) (pm_bytes_utf8 snapshot)) (\<lambda>r.
     rbind (parse_pointer corrupt_workflow (stored_pointer_path workflow_id) (pm_bytes_utf8 pointer)) (\<lambda>p.
     rbind (render_pointer r 4) (\<lambda>expected_pointer.
     if \<not> workflow_members_bound sha workflow_id snapshot pointer event r p expected_pointer
        \<or> \<not> checkpoint_event_bound r event
     then Inl (blocked_error ''prepared workflow snapshot/pointer/event binding'' [])
     else Inr
       \<lparr>pr_record = r, pr_snapshot_path = (workflow_id, wr_revision r),
        pr_snapshot_stored_path = stored_snapshot_path workflow_id (wr_revision r),
        pr_snapshot_bytes = pm_bytes_utf8 snapshot,
        pr_snapshot_member_id = snapshot_member_id sha workflow_id (wr_revision r),
        pr_pointer_path = workflow_id, pr_pointer_stored_path = stored_pointer_path workflow_id,
        pr_pointer_bytes = pm_bytes_utf8 pointer,
        pr_pointer_member_id = pointer_member_id sha workflow_id (wr_revision r), pr_event = event\<rparr>))))"

section \<open>Installing a revision\<close>

definition install_snapshot :: "string \<Rightarrow> prepared_workflow_revision \<Rightarrow> (workflow_files, unit) effect" where
  "install_snapshot workflow_id prepared =
     (if wr_workflow_id (pr_record prepared) \<noteq> workflow_id
         \<or> pr_snapshot_path prepared \<noteq> (workflow_id, wr_revision (pr_record prepared))
      then sthrow (blocked_error ''prepared workflow snapshot guard binding'' [])
      else write_workflow_snapshot_bytes (pr_record prepared) (pr_snapshot_bytes prepared))"

text \<open>A pointer that is one revision ahead is left in place when its snapshot continues the chain.\<close>

definition newer_pointer_continues ::
  "hasher \<Rightarrow> workflow_files \<Rightarrow> string \<Rightarrow> workflow_record \<Rightarrow> workflow_pointer \<Rightarrow> unit result" where
  "newer_pointer_continues sha s workflow_id r existing =
     (if wp_committed_revision existing \<noteq> (case checked_add (wr_revision r) 1 of None \<Rightarrow> 0 | Some n \<Rightarrow> n)
      then Inl (blocked_error ''prepared workflow pointer newer revision range'' [])
      else
      let revision = wp_committed_revision existing in
      rbind (read_snapshot s workflow_id revision) (\<lambda>body.
      rbind (parse_snapshot sha corrupt_workflow (stored_snapshot_path workflow_id revision) body) (\<lambda>newer.
        if wr_workflow_id newer \<noteq> workflow_id \<or> wr_revision newer \<noteq> revision
           \<or> wr_previous_hash newer \<noteq> wr_artifact_hash r
           \<or> wr_artifact_hash newer \<noteq> wp_artifact_hash existing \<or> render newer \<noteq> body
        then Inl (blocked_error ''prepared workflow pointer newer chain binding'' []) else Inr ())))"

text \<open>\<open>True\<close>: the pointer is to be replaced; \<open>False\<close>: it already names this revision or the next.\<close>

definition pointer_decision ::
  "hasher \<Rightarrow> workflow_files \<Rightarrow> string \<Rightarrow> prepared_workflow_revision \<Rightarrow> bool result" where
  "pointer_decision sha s workflow_id prepared =
     (let r = pr_record prepared in
      if wf_pointers s (pr_pointer_path prepared) = None then Inr True
      else
      rbind (read_pointer s (pr_pointer_path prepared)) (\<lambda>bytes.
      rbind (parse_pointer corrupt_workflow (stored_pointer_path (pr_pointer_path prepared)) bytes) (\<lambda>existing.
      if wp_workflow_id existing \<noteq> workflow_id
      then Inl (blocked_error ''prepared workflow pointer workflow binding'' [])
      else if wp_committed_revision existing = wr_revision r
      then if bytes = pr_pointer_bytes prepared \<and> wp_artifact_hash existing = wr_artifact_hash r
           then Inr False
           else Inl (blocked_error ''prepared workflow pointer immutable revision conflict'' [])
      else if wr_revision r < wp_committed_revision existing
      then rbind (newer_pointer_continues sha s workflow_id r existing) (\<lambda>_. Inr False)
      else Inr True)))"

definition install_pointer ::
  "hasher \<Rightarrow> string \<Rightarrow> prepared_workflow_revision \<Rightarrow> (workflow_files, unit) effect" where
  "install_pointer sha workflow_id prepared s =
     (if wr_workflow_id (pr_record prepared) \<noteq> workflow_id \<or> pr_pointer_path prepared \<noteq> workflow_id
      then (Inl (blocked_error ''prepared workflow pointer guard binding'' []), s)
      else case pointer_decision sha s workflow_id prepared of
          Inl e \<Rightarrow> (Inl e, s)
        | Inr False \<Rightarrow> (Inr (), s)
        | Inr True \<Rightarrow> put_pointer (pr_pointer_path prepared) (pr_pointer_bytes prepared) s)"

text \<open>\<open>load_recovery_current\<close>: the pointer must name one of the given revisions and hashes.\<close>

definition load_recovery_current ::
  "hasher \<Rightarrow> workflow_files \<Rightarrow> string \<Rightarrow> (u64 \<times> string) list \<Rightarrow> workflow_record result" where
  "load_recovery_current sha s workflow_id allowed =
     rbind (read_pointer s workflow_id) (\<lambda>pointer_bytes.
     rbind (parse_pointer corrupt_workflow (stored_pointer_path workflow_id) pointer_bytes) (\<lambda>p.
     if wp_workflow_id p \<noteq> workflow_id \<or> (wp_committed_revision p, wp_artifact_hash p) \<notin> set allowed
     then Inl (blocked_error ''prepared recovery workflow pointer binding'' [])
     else
     let revision = wp_committed_revision p in
     rbind (read_snapshot s workflow_id revision) (\<lambda>body.
     rbind (parse_snapshot sha corrupt_workflow (stored_snapshot_path workflow_id revision) body) (\<lambda>r.
       let conflict = Inl (blocked_error ''prepared recovery workflow snapshot/pointer binding'' []) in
       if wr_workflow_id r \<noteq> workflow_id \<or> wr_revision r \<noteq> revision
          \<or> wr_artifact_hash r \<noteq> wp_artifact_hash p \<or> render r \<noteq> body
       then conflict
       else rbind (render_pointer r (wp_schema_version p)) (\<lambda>again.
         if again \<noteq> pointer_bytes then conflict else Inr r)))))"

end
