(* ===== verification/Workflow_Store_Properties.thy ===== *)
theory Workflow_Store_Properties
  imports Workflow_Revision Workflow_Properties Current_State_Properties
begin

text \<open>
  What the files behind a workflow promise: a checkpoint event reads back as the checkpoint of its
  revision, installing a prepared revision extends the chain by that revision and interrupts to
  the old or the new one, and the members a revision is carried in decode to it.
\<close>

section \<open>Pointers\<close>

lemma render_pointer_four:
  "render_pointer r 4 = Inr (template line_layout
     [(''schema_version'', ''4''), (''artifact_version'', quoted ''workflow-commit-v4''),
      escaped_member (''workflow_id'', wr_workflow_id r), (''committed_revision'', show_nat (unat (wr_revision r))),
      (''artifact_hash'', quoted (wr_artifact_hash r))] @ [LF])"
proof -
  have "show_nat (unat (4 :: u64)) = ''4''" by code_simp
  then show ?thesis by (simp add: render_pointer_def pointer_version_def)
qed

definition pointer_of :: "workflow_record \<Rightarrow> workflow_pointer" where
  "pointer_of r = \<lparr>wp_schema_version = 4, wp_workflow_id = wr_workflow_id r,
     wp_committed_revision = wr_revision r, wp_artifact_hash = wr_artifact_hash r\<rparr>"

lemma pointer_keys_plain: "list_all plain_key pointer_keys"
proof -
  have "list_all (list_all plain_char) pointer_keys" by (simp add: pointer_keys_def plain_char_def)
  then show ?thesis by (simp add: list_all_iff plain_key_chars)
qed

lemma pointer_reads_back:
  assumes "render_pointer r 4 = Inr body" "utf8_valid (wr_workflow_id r)" "plain_key (wr_artifact_hash r)"
  shows "parse_pointer corrupt path body = Inr (pointer_of r)"
proof -
  let ?kvs = "[(''schema_version'', JNumber 4), (''artifact_version'', JString ''workflow-commit-v4''),
      (''workflow_id'', JString (wr_workflow_id r)), (''committed_revision'', JNumber (ucast (wr_revision r))),
      (''artifact_hash'', JString (wr_artifact_hash r))]"
  have keys: "plain_key ''schema_version''" "plain_key ''artifact_version''" "plain_key ''workflow_id''"
    "plain_key ''committed_revision''" "plain_key ''artifact_hash''"
    using pointer_keys_plain by (simp_all add: pointer_keys_def)
  have version: "plain_key ''workflow-commit-v4''" by (simp add: plain_key_chars plain_char_def)
  have blank: "json_blank [LF]" by (simp add: json_blank_def is_json_ws_def)
  have members: "list_all2 (member_reads 1)
      [(''schema_version'', ''4''), (''artifact_version'', quoted ''workflow-commit-v4''),
       escaped_member (''workflow_id'', wr_workflow_id r), (''committed_revision'', show_nat (unat (wr_revision r))),
       (''artifact_hash'', quoted (wr_artifact_hash r))] ?kvs"
    using keys assms(2) reads_four reads_count reads_escaped reads_plain [OF version] reads_plain [OF assms(3)]
    by (simp add: escaped_member_def)
  have "parse_value body path = Inr (JObject ?kvs)"
    using parse_value_template [OF blank_layouts(2) members _ _ blank] assms(1) by (simp add: render_pointer_four)
  then have "parse_object body pointer_keys path = Inr ?kvs"
    by (simp add: parse_object_def object_keys_def pointer_keys_def)
  moreover have "u64_try_from 4 = Some 4" by (simp add: u64_try_from_def)
  ultimately show ?thesis
    by (simp add: parse_pointer_def pointer_keys_def pointer_version_def object_contains_key_iff object_keys_def
        json_number_def json_string_def object_get_map_of narrow_revision pointer_of_def)
qed

section \<open>Checkpoint events\<close>

lemma parse_u64_show [simp]: "parse_u64_text (show_nat (unat n)) = Some n"
proof -
  have digits: "list_all is_ascii_digit (show_nat (unat n))"
    using show_nat_digits by (simp add: list_all_iff)
  moreover have "hd (show_nat (unat n)) \<noteq> CHR ''+''"
    using show_nat_digits [of "hd (show_nat (unat n))" "unat n"] show_nat_not_Nil [of "unat n"]
    by (auto simp: is_ascii_digit_def)
  moreover have "read_digits (show_nat (unat n)) = unat n" by simp
  ultimately show ?thesis
    using unsigned_less [of n, where 'a = nat] show_nat_not_Nil [of "unat n"]
    by (cases "show_nat (unat n)") (simp_all add: parse_u64_text_def del: read_show_nat)
qed

text \<open>The fields of a record that no white space splits, so that the details read back.\<close>

definition field_text :: "string \<times> string \<Rightarrow> string" where
  "field_text m = fst m @ ''='' @ snd m"

definition word_fields :: "workflow_record \<Rightarrow> bool" where
  "word_fields r = list_all (word_text \<circ> field_text) (checkpoint_fields r)"

lemma details_fields: "workflow_checkpoint_event_details r = join '' '' (map field_text (checkpoint_fields r))"
  by (simp add: workflow_checkpoint_event_details_def field_text_def [abs_def] case_prod_beta')

lemma split_once_key: "CHR ''='' \<notin> set k \<Longrightarrow> split_once (CHR ''='') (k @ CHR ''='' # v) = Some (k, v)"
  using split_once_append [of "CHR ''=''" k v] by simp

lemma field_value_found:
  "list_all (\<lambda>m. CHR ''='' \<notin> set (fst m)) ms \<Longrightarrow> field_value k (map field_text ms) = map_of ms k"
  by (induction ms) (auto simp: field_text_def split_once_key)

lemma details_value:
  assumes "word_fields r"
  shows "ledger_detail_value (workflow_checkpoint_event_details r) k = map_of (checkpoint_fields r) k"
proof -
  have "split_whitespace (workflow_checkpoint_event_details r) = map field_text (checkpoint_fields r)"
    unfolding details_fields
    by (rule split_whitespace_join) (use assms in \<open>simp add: word_fields_def list_all_iff\<close>)
  moreover have "list_all (\<lambda>m. CHR ''='' \<notin> set (fst m)) (checkpoint_fields r)"
    by (simp add: checkpoint_fields_def)
  ultimately show ?thesis by (simp add: ledger_detail_value_def field_value_found)
qed

definition checkpoint_of_record :: "workflow_record \<Rightarrow> workflow_checkpoint" where
  "checkpoint_of_record r = \<lparr>wc_revision = wr_revision r, wc_artifact_hash = wr_artifact_hash r,
     wc_previous_hash = wr_previous_hash r\<rparr>"

definition records_checkpoint :: "workflow_record \<Rightarrow> parsed_event \<Rightarrow> bool" where
  "records_checkpoint r event \<longleftrightarrow>
     event_type event = ''workflow.checkpoint'' \<and> details event = workflow_checkpoint_event_details r"

lemma checkpoint_reads_back:
  assumes "records_checkpoint r event" "word_fields r" "is_sha256 (wr_artifact_hash r)"
    and "wr_previous_hash r = ''none'' \<or> is_sha256 (wr_previous_hash r)"
  shows "checkpoint_of_event event = Inr (checkpoint_of_record r)"
    and "checkpoint_of (wr_workflow_id r) event"
  using assms details_value [OF assms(2)]
  by (simp_all add: checkpoint_of_event_def checkpoint_of_def records_checkpoint_def checkpoint_fields_def
      checkpoint_of_record_def)

section \<open>Checkpoints of a workflow\<close>

definition checkpoints_chain :: "workflow_checkpoint list \<Rightarrow> bool" where
  "checkpoints_chain cs \<longleftrightarrow> (\<forall>i<length cs. \<not> checkpoint_breaks cs i)"

lemma find_none_iff: "find P [0..<n] = None \<longleftrightarrow> (\<forall>i<n. \<not> P i)"
  by (auto simp: find_None_iff)

lemma workflow_checkpoints_iff:
  "workflow_checkpoints w (Inr es) = Inr cs \<longleftrightarrow>
     (\<exists>found. traverse checkpoint_of_event (filter (checkpoint_of w) es) = Inr found
       \<and> cs = sort_key wc_revision found \<and> checkpoints_chain cs)"
proof (cases "traverse checkpoint_of_event (filter (checkpoint_of w) es)")
  case (Inr found)
  let ?cs = "sort_key wc_revision found"
  have "checkpoints_chain ?cs \<longleftrightarrow> find (checkpoint_breaks ?cs) [0..<length found] = None"
    by (simp add: checkpoints_chain_def find_none_iff)
  with Inr show ?thesis
    by (cases "find (checkpoint_breaks ?cs) [0..<length found]") (auto simp: workflow_checkpoints_def Let_def)
qed (simp add: workflow_checkpoints_def)

lemma traverse_append:
  "traverse f (xs @ ys) = rbind (traverse f xs) (\<lambda>us. rbind (traverse f ys) (\<lambda>vs. Inr (us @ vs)))"
proof (induction xs)
  case Nil
  show ?case by (cases "traverse f ys") simp_all
next
  case (Cons x xs)
  show ?case
    by (cases "f x"; cases "traverse f xs"; cases "traverse f ys") (simp_all add: Cons.IH)
qed

lemma insort_key_snoc: "f x \<le> f y \<Longrightarrow> insort_key f x (zs @ [y]) = insort_key f x zs @ [y]"
  by (induction zs) auto

lemma sort_key_snoc:
  "\<forall>x\<in>set xs. f x \<le> f y \<Longrightarrow> sort_key f (xs @ [y]) = sort_key f xs @ [y]"
  by (induction xs) (simp_all add: insort_key_snoc)

lemma checkpoints_snoc:
  assumes "workflow_checkpoints w (Inr es) = Inr cs" "checkpoint_of w e" "checkpoint_of_event e = Inr c"
    and "wc_revision c = of_nat (length cs) + 1" "length cs < 2 ^ 64 - 1"
    and "wc_previous_hash c = (if cs = [] then ''none'' else wc_artifact_hash (last cs))"
  shows "workflow_checkpoints w (Inr (es @ [e])) = Inr (cs @ [c])"
proof -
  from assms(1) obtain found where found: "traverse checkpoint_of_event (filter (checkpoint_of w) es) = Inr found"
    and cs: "cs = sort_key wc_revision found" and chain: "checkpoints_chain cs"
    by (auto simp: workflow_checkpoints_iff)
  have small: "of_nat i + 1 \<le> (of_nat (length cs) + 1 :: u64)" if "i < length cs" for i
  proof -
    have e: "unat (of_nat n + 1 :: u64) = n + 1" if "n \<le> length cs" for n
    proof -
      have "of_nat n + 1 = (of_nat (Suc n) :: u64)" by simp
      moreover from that assms(5) have "Suc n < 2 ^ LENGTH(64)" by simp
      ultimately show ?thesis using unat_of_nat_small [of "Suc n", where 'a = 64] by (simp only: Suc_eq_plus1)
    qed
    from that show ?thesis by (simp only: word_le_nat_alt e less_imp_le le_refl)
  qed
  have "wc_revision x \<le> wc_revision c" if "x \<in> set found" for x
  proof -
    from that have "x \<in> set cs" by (simp add: cs)
    then obtain i where "i < length cs" "x = cs ! i" by (auto simp: in_set_conv_nth)
    with chain small assms(4) show ?thesis by (auto simp: checkpoints_chain_def checkpoint_breaks_def)
  qed
  then have sorted: "sort_key wc_revision (found @ [c]) = cs @ [c]"
    unfolding cs by (intro sort_key_snoc ballI)
  have "checkpoints_chain (cs @ [c])"
    using chain assms(4,6)
    by (auto simp: checkpoints_chain_def checkpoint_breaks_def nth_append less_Suc_eq last_conv_nth split: if_splits)
  with sorted found assms(2,3) show ?thesis
    unfolding workflow_checkpoints_iff by (simp add: traverse_append)
qed

lemma checkpoint_hash_last:
  assumes "workflow_checkpoints w (Inr es) = Inr cs" "c \<in> set cs"
  shows "is_sha256 (wc_artifact_hash c)"
proof -
  from assms obtain found where found: "traverse checkpoint_of_event (filter (checkpoint_of w) es) = Inr found"
    and "c \<in> set found" by (auto simp: workflow_checkpoints_iff)
  then obtain e where "checkpoint_of_event e = Inr c"
    by (auto simp: traverse_Inr_iff list_all2_conv_all_nth in_set_conv_nth)
  then show ?thesis
    by (auto simp: checkpoint_of_event_def Let_def rbind_Inr_iff ok_or_Inr_iff bind_eq_Some_conv split: if_splits)
qed

section \<open>The chain of snapshots\<close>

lemma snapshot_chain_snoc:
  "snapshot_chain sha s w k prev latest (cs @ [c]) =
     rbind (snapshot_chain sha s w k prev latest cs) (\<lambda>l.
       snapshot_chain sha s w (k + of_nat (length cs)) (if cs = [] then prev else wr_artifact_hash (snd (the l))) l [c])"
proof (induction cs arbitrary: k prev latest)
  case (Cons d cs)
  have "k + of_nat (length (d # cs)) = k + 1 + of_nat (length cs)" by (simp add: add.assoc)
  moreover have "rbind (snapshot_chain sha s w (k + 1) h (Some (v, r)) cs) (\<lambda>l.
      snapshot_chain sha s w j (if cs = [] then wr_artifact_hash r else wr_artifact_hash (snd (the l))) l [c]) =
    rbind (snapshot_chain sha s w (k + 1) h (Some (v, r)) cs) (\<lambda>l.
      snapshot_chain sha s w j (wr_artifact_hash (snd (the l))) l [c])" for h v r j
    by (cases cs) simp_all
  ultimately show ?case
    by (cases "snapshot_step sha s w k prev (map_option fst latest) d") (auto simp: Cons.IH add.assoc split: prod.splits)
qed simp

lemma snapshot_step_cong:
  "wf_snapshots s' (w, k) = wf_snapshots s (w, k) \<Longrightarrow> snapshot_step sha s' w k prev v c = snapshot_step sha s w k prev v c"
  by (simp add: snapshot_step_def read_snapshot_def)

lemma snapshot_chain_cong:
  "(\<And>i. i < length cs \<Longrightarrow> wf_snapshots s' (w, k + of_nat i) = wf_snapshots s (w, k + of_nat i)) \<Longrightarrow>
   snapshot_chain sha s' w k prev latest cs = snapshot_chain sha s w k prev latest cs"
proof (induction cs arbitrary: k prev latest)
  case (Cons c cs)
  have "snapshot_step sha s' w k p v c = snapshot_step sha s w k p v c" for p v
    using Cons.prems [of 0] by (intro snapshot_step_cong) simp
  moreover have "snapshot_chain sha s' w (k + 1) p l cs = snapshot_chain sha s w (k + 1) p l cs" for p l
    by (rule Cons.IH) (use Cons.prems [of "Suc i" for i] in \<open>simp add: add.assoc\<close>)
  ultimately show ?case by simp
qed simp

lemma snapshot_step_result:
  assumes "snapshot_step sha s w k prev v c = Inr (schema, r)"
  shows "schema \<le> 4" "wr_workflow_id r = w" "wr_revision r = k" "wc_artifact_hash c = wr_artifact_hash r"
proof -
  from assms obtain body where "snapshot_schema corrupt_workflow (stored_snapshot_path w k) body = Inr schema"
    and r: "wr_workflow_id r = w" "wr_revision r = k" "wc_artifact_hash c = wr_artifact_hash r"
    by (auto simp: snapshot_step_def rbind_Inr_iff Let_def split: if_splits)
  then have "version_keys schema \<noteq> None"
    by (auto simp: snapshot_schema_def rbind_Inr_iff split: option.splits if_splits)
  then show "schema \<le> 4" by (auto simp: version_keys_def split: if_splits)
  show "wr_workflow_id r = w" "wr_revision r = k" "wc_artifact_hash c = wr_artifact_hash r" by (rule r)+
qed

lemma snapshot_chain_last:
  "snapshot_chain sha s w k prev latest cs = Inr l \<Longrightarrow> cs \<noteq> [] \<Longrightarrow>
   \<exists>schema r. l = Some (schema, r) \<and> schema \<le> 4 \<and> wr_workflow_id r = w
     \<and> wr_revision r = k + of_nat (length cs - 1) \<and> wc_artifact_hash (last cs) = wr_artifact_hash r"
proof (induction cs arbitrary: k prev latest)
  case (Cons c cs)
  from Cons.prems(1) obtain schema r where step: "snapshot_step sha s w k prev (map_option fst latest) c = Inr (schema, r)"
    and rest: "snapshot_chain sha s w (k + 1) (wr_artifact_hash r) (Some (schema, r)) cs = Inr l"
    by (auto simp: rbind_Inr_iff)
  show ?case
  proof (cases cs)
    case Nil
    with rest snapshot_step_result [OF step] show ?thesis by auto
  next
    case (Cons d ds)
    with Cons.IH [OF rest] show ?thesis by (simp add: add.assoc)
  qed
qed simp

section \<open>Prepared revisions\<close>

text \<open>What every prepared revision holds of its record.\<close>

definition revision_prepared :: "hasher \<Rightarrow> prepared_workflow_revision \<Rightarrow> bool" where
  "revision_prepared sha p \<longleftrightarrow>
     (let r = pr_record p; w = wr_workflow_id r in
      wr_artifact_hash r = sha256_bytes sha (payload r) \<and> valid_record r
      \<and> pr_snapshot_path p = (w, wr_revision r) \<and> pr_snapshot_bytes p = render r
      \<and> pr_snapshot_stored_path p = stored_snapshot_path w (wr_revision r)
      \<and> pr_snapshot_member_id p = snapshot_member_id sha w (wr_revision r)
      \<and> pr_pointer_path p = w \<and> render_pointer r 4 = Inr (pr_pointer_bytes p)
      \<and> pr_pointer_stored_path p = stored_pointer_path w
      \<and> pr_pointer_member_id p = pointer_member_id sha w (wr_revision r)
      \<and> event_type (pr_event p) = ''workflow.checkpoint'' \<and> summary (pr_event p) = checkpoint_summary
      \<and> project_id (pr_event p) = wr_project_id r \<and> session_id (pr_event p) = wr_session_id r
      \<and> details (pr_event p) = redact_text (workflow_checkpoint_event_details r))"

lemma build_prepares:
  assumes "build_prepared_workflow_revision sha eid ts root r = Inr p"
    and "wr_artifact_hash r = sha256_bytes sha (payload r)" "valid_record r"
  shows "revision_prepared sha p" "pr_record p = r"
  using assms by (auto simp: build_prepared_workflow_revision_def rbind_Inr_iff revision_prepared_def Let_def
      workflow_checkpoint_event_def new_event_for_def workflow_identity_def)

lemma payload_hash_field [simp]: "payload (r\<lparr>wr_artifact_hash := h\<rparr>) = payload r"
  by (simp add: payload_def payload_head_def texts_defs)

lemma valid_hash_field: "valid_record r \<Longrightarrow> utf8_valid h \<Longrightarrow> valid_record (r\<lparr>wr_artifact_hash := h\<rparr>)"
  by (simp add: valid_record_def record_texts_def texts_defs)

lemma prepare_revision_prepares:
  assumes "prepare_revision sha eid ts root w current r = Inr p" "valid_record r"
    and "utf8_valid (wr_artifact_hash current)"
  shows "revision_prepared sha p" "wr_workflow_id (pr_record p) = w"
    "checked_add (wr_revision current) 1 = Some (wr_revision (pr_record p))"
    "wr_previous_hash (pr_record p) = wr_artifact_hash current"
    "wr_project_id (pr_record p) = wr_project_id r" "wr_session_id (pr_record p) = wr_session_id r"
proof -
  from assms(1) obtain n where n: "checked_add (wr_revision current) 1 = Some n" and w: "wr_workflow_id r = w"
    and built: "build_prepared_workflow_revision sha eid ts root
      (r\<lparr>wr_previous_hash := wr_artifact_hash current, wr_revision := n,
         wr_artifact_hash := sha256_bytes sha (payload (r\<lparr>wr_previous_hash := wr_artifact_hash current, wr_revision := n\<rparr>))\<rparr>) = Inr p"
    by (auto simp: prepare_revision_def rbind_Inr_iff ok_or_Inr_iff Let_def split: if_splits)
  have "valid_record (r\<lparr>wr_previous_hash := wr_artifact_hash current, wr_revision := n\<rparr>)"
    using assms(2,3) by (simp add: valid_record_def record_texts_def texts_defs)
  then have "valid_record (r\<lparr>wr_previous_hash := wr_artifact_hash current, wr_revision := n,
         wr_artifact_hash := sha256_bytes sha (payload (r\<lparr>wr_previous_hash := wr_artifact_hash current, wr_revision := n\<rparr>))\<rparr>)"
    by (rule valid_hash_field) (rule sha256_bytes_utf8)
  note facts = build_prepares [OF built _ this]
  show "revision_prepared sha p" "wr_workflow_id (pr_record p) = w"
    "checked_add (wr_revision current) 1 = Some (wr_revision (pr_record p))"
    "wr_previous_hash (pr_record p) = wr_artifact_hash current"
    "wr_project_id (pr_record p) = wr_project_id r" "wr_session_id (pr_record p) = wr_session_id r"
    using facts n w by simp_all
qed

lemma prepared_snapshot_parses:
  "revision_prepared sha p \<Longrightarrow> parse_snapshot sha corrupt path (pr_snapshot_bytes p) = Inr (pr_record p)"
  "revision_prepared sha p \<Longrightarrow> snapshot_schema corrupt path (pr_snapshot_bytes p) = Inr 4"
  by (simp_all add: revision_prepared_def Let_def snapshot_parsed snapshot_schema_rendered)

lemma prepared_pointer_parses:
  assumes "revision_prepared sha p"
  shows "parse_pointer corrupt path (pr_pointer_bytes p) = Inr (pointer_of (pr_record p))"
proof (rule pointer_reads_back)
  show "render_pointer (pr_record p) 4 = Inr (pr_pointer_bytes p)" using assms by (simp add: revision_prepared_def Let_def)
  show "utf8_valid (wr_workflow_id (pr_record p))"
    using assms by (simp add: revision_prepared_def Let_def valid_record_def record_texts_def)
  show "plain_key (wr_artifact_hash (pr_record p))"
    using assms sha256_bytes_plain by (simp add: revision_prepared_def Let_def)
qed

section \<open>Installing a revision\<close>

lemma utf8_valid_lines:
  assumes "list_all (\<lambda>(k, raw). utf8_valid k \<and> utf8_valid raw) ms"
  shows "utf8_valid (template line_layout ms @ [LF])"
proof -
  have "utf8_valid (template_members line_layout ms)"
    using assms unfolding line_layout_def
    by (induction ms)
      (auto simp: utf8_valid_ascii_Cons intro!: utf8_valid_append utf8_valid_quoted)
  then show ?thesis
    by (simp add: template_def utf8_valid_ascii_Cons utf8_valid_append utf8_valid_ascii)
qed

lemma keys_valid: "list_all plain_key ks \<Longrightarrow> k \<in> set ks \<Longrightarrow> utf8_valid k"
  by (auto simp: list_all_iff plain_key_def)

lemma render_valid:
  assumes "valid_record r"
  shows "utf8_valid (render r)"
proof -
  have keys: "utf8_valid k" if "k \<in> fst ` set (record_members r)" for k
  proof (rule keys_valid [OF workflow_keys_plain])
    have "map fst (record_members r) = workflow_v4_keys"
      by (simp add: record_members_def escaped_member_def texts_defs workflow_v4_keys_def)
    with that show "k \<in> set workflow_v4_keys" by (metis list.set_map)
  qed
  have vals: "utf8_valid (snd m)" if "m \<in> set (record_members r)" for m
  proof -
    let ?texts = "owner_texts r @ skill_texts r @ action_texts r @ verification_texts r @ evidence_texts r"
    have head: "list_all (\<lambda>m. utf8_valid (snd m)) (take 6 (record_members r))"
      using assms by (simp add: record_members_def valid_record_def record_texts_def escaped_member_def
          utf8_valid_show_nat utf8_valid_ascii utf8_valid_quoted utf8_valid_escape)
    have "set (record_members r) = set (take 6 (record_members r)) \<union> escaped_member ` set ?texts"
      by (simp add: record_members_def image_Un Un_ac)
    with that consider "m \<in> set (take 6 (record_members r))" | x where "x \<in> set ?texts" "m = escaped_member x"
      by blast
    then show ?thesis
    proof cases
      case 1
      with head show ?thesis by (simp add: list_all_iff)
    next
      case 2
      with assms have "utf8_valid (snd x)" by (simp add: valid_record_def record_texts_def list_all_iff)
      with 2 show ?thesis by (simp add: escaped_member_def utf8_valid_quoted utf8_valid_escape)
    qed
  qed
  show ?thesis
    unfolding render_def by (rule utf8_valid_lines) (use keys vals in \<open>force simp: list_all_iff\<close>)
qed

lemma pointer_valid:
  assumes "render_pointer r 4 = Inr body" "utf8_valid (wr_workflow_id r)" "plain_key (wr_artifact_hash r)"
  shows "utf8_valid body"
proof -
  have "utf8_valid (wr_artifact_hash r)" using assms(3) by (simp add: plain_key_def)
  then have "utf8_valid (template line_layout
     [(''schema_version'', ''4''), (''artifact_version'', quoted ''workflow-commit-v4''),
      escaped_member (''workflow_id'', wr_workflow_id r), (''committed_revision'', show_nat (unat (wr_revision r))),
      (''artifact_hash'', quoted (wr_artifact_hash r))] @ [LF])"
    by (intro utf8_valid_lines)
      (simp add: escaped_member_def utf8_valid_quoted utf8_valid_escape utf8_valid_show_nat assms(2) utf8_valid_ascii)
  with assms(1) show ?thesis by (simp add: render_pointer_four)
qed

lemma prepared_texts_valid:
  assumes "revision_prepared sha p"
  shows "utf8_valid (pr_snapshot_bytes p)" "utf8_valid (pr_pointer_bytes p)"
proof -
  show "utf8_valid (pr_snapshot_bytes p)"
    using assms render_valid by (simp add: revision_prepared_def Let_def)
  show "utf8_valid (pr_pointer_bytes p)"
    by (rule pointer_valid [of "pr_record p"])
      (use assms sha256_bytes_plain in \<open>simp_all add: revision_prepared_def Let_def valid_record_def record_texts_def\<close>)
qed

text \<open>The files a prepared revision is to be written to hold it, or are as before.\<close>

definition revision_small :: "prepared_workflow_revision \<Rightarrow> bool" where
  "revision_small p \<longleftrightarrow> length (pr_snapshot_bytes p) \<le> max_workflow_snapshot_bytes
     \<and> length (pr_pointer_bytes p) \<le> max_workflow_pointer_bytes"

definition snapshot_free :: "workflow_files \<Rightarrow> prepared_workflow_revision \<Rightarrow> bool" where
  "snapshot_free s p \<longleftrightarrow> wf_snapshots s (pr_snapshot_path p) = None
     \<or> wf_snapshots s (pr_snapshot_path p) = Some (pr_snapshot_bytes p)"

lemma read_bounded_ok:
  "file = Some b \<Longrightarrow> length b \<le> limit \<Longrightarrow> utf8_valid b \<Longrightarrow> read_bounded limit label file = Inr b"
  by (simp add: read_bounded_def)

lemma read_bounded_Inr: "read_bounded limit label file = Inr b \<Longrightarrow> file = Some b"
  by (auto simp: read_bounded_def split: option.splits if_splits)

lemma put_snapshot_cases:
  "\<exists>s'. wf_pointers s' = wf_pointers s \<and> wf_transactions s' = wf_transactions s \<and> wf_events s' = wf_events s
     \<and> wf_identity s' = wf_identity s \<and> wf_outcomes s' = tl (wf_outcomes s)
     \<and> (put_snapshot key b s = (Inr (), s') \<and> wf_snapshots s' = (wf_snapshots s)(key := Some b)
        \<or> (\<exists>e. put_snapshot key b s = (Inl e, s')) \<and> wf_outcomes s \<noteq> []
           \<and> (wf_snapshots s' = wf_snapshots s \<or> wf_snapshots s' = (wf_snapshots s)(key := Some b)))"
proof (cases "wf_outcomes s")
  case Nil
  then show ?thesis by (intro exI [of _ "snd (put_snapshot key b s)"]) (simp add: put_snapshot_def file_outcome_def atomic_replace_def)
next
  case (Cons oc rest)
  then show ?thesis
    by (intro exI [of _ "snd (put_snapshot key b s)"], cases oc)
      (simp_all add: put_snapshot_def file_outcome_def atomic_replace_def)
qed

lemma put_pointer_cases:
  "\<exists>s'. wf_snapshots s' = wf_snapshots s \<and> wf_transactions s' = wf_transactions s \<and> wf_events s' = wf_events s
     \<and> wf_identity s' = wf_identity s \<and> wf_outcomes s' = tl (wf_outcomes s)
     \<and> (put_pointer w b s = (Inr (), s') \<and> wf_pointers s' = (wf_pointers s)(w := Some b)
        \<or> (\<exists>e. put_pointer w b s = (Inl e, s')) \<and> wf_outcomes s \<noteq> []
           \<and> (wf_pointers s' = wf_pointers s \<or> wf_pointers s' = (wf_pointers s)(w := Some b)))"
proof (cases "wf_outcomes s")
  case Nil
  then show ?thesis by (intro exI [of _ "snd (put_pointer w b s)"]) (simp add: put_pointer_def file_outcome_def atomic_replace_def)
next
  case (Cons oc rest)
  then show ?thesis
    by (intro exI [of _ "snd (put_pointer w b s)"], cases oc)
      (simp_all add: put_pointer_def file_outcome_def atomic_replace_def)
qed

text \<open>Installing the snapshot and the pointer, without the ledger in between.\<close>

lemma install_snapshot_cases:
  assumes "revision_prepared sha p" "wr_workflow_id (pr_record p) = w" "snapshot_free s p"
  shows "\<exists>s'. wf_pointers s' = wf_pointers s \<and> wf_transactions s' = wf_transactions s \<and> wf_events s' = wf_events s
     \<and> wf_identity s' = wf_identity s \<and> (wf_outcomes s = [] \<longrightarrow> wf_outcomes s' = [])
     \<and> (install_snapshot w p s = (Inr (), s') \<and> wf_snapshots s' = (wf_snapshots s)(pr_snapshot_path p := Some (pr_snapshot_bytes p))
        \<or> (\<exists>e. install_snapshot w p s = (Inl e, s')) \<and> wf_outcomes s \<noteq> []
           \<and> (wf_snapshots s' = wf_snapshots s
              \<or> wf_snapshots s' = (wf_snapshots s)(pr_snapshot_path p := Some (pr_snapshot_bytes p))))"
proof -
  let ?key = "(wr_workflow_id (pr_record p), wr_revision (pr_record p))"
  have key: "pr_snapshot_path p = ?key" using assms(1) by (simp add: revision_prepared_def Let_def)
  have run: "install_snapshot w p s = write_workflow_snapshot_bytes (pr_record p) (pr_snapshot_bytes p) s"
    using assms(2) key by (simp add: install_snapshot_def)
  show ?thesis
  proof (cases "wf_snapshots s ?key")
    case None
    then have "install_snapshot w p s = put_snapshot ?key (pr_snapshot_bytes p) s"
      unfolding run by (simp add: write_workflow_snapshot_bytes_def)
    with put_snapshot_cases [of s ?key "pr_snapshot_bytes p"] show ?thesis by (auto simp: key)
  next
    case (Some b)
    with assms(3) have b: "b = pr_snapshot_bytes p" by (simp add: snapshot_free_def key)
    with Some have "install_snapshot w p s = (Inr (), s)"
      unfolding run by (simp add: write_workflow_snapshot_bytes_def)
    moreover have "wf_snapshots s = (wf_snapshots s)(pr_snapshot_path p := Some (pr_snapshot_bytes p))"
      using Some b key by (simp add: fun_upd_idem)
    ultimately show ?thesis by metis
  qed
qed

text \<open>The pointer names the revision before, with a readable text.\<close>

definition pointer_names :: "workflow_files \<Rightarrow> string \<Rightarrow> u64 \<Rightarrow> string \<Rightarrow> bool" where
  "pointer_names s w revision h \<longleftrightarrow>
     (\<exists>body pointer. read_pointer s w = Inr body \<and> parse_pointer corrupt_workflow (stored_pointer_path w) body = Inr pointer
       \<and> wp_workflow_id pointer = w \<and> wp_committed_revision pointer = revision \<and> wp_artifact_hash pointer = h)"

lemma read_pointer_present: "read_pointer s w = Inr body \<Longrightarrow> wf_pointers s w \<noteq> None"
  by (auto simp: read_pointer_def dest: read_bounded_Inr)

lemma pointer_decision_replace:
  assumes "pointer_names s w k h" "k < wr_revision (pr_record p)" "pr_pointer_path p = w"
  shows "pointer_decision sha s w p = Inr True"
proof -
  from assms(1) obtain body pointer where r: "read_pointer s w = Inr body"
    and p: "parse_pointer corrupt_workflow (stored_pointer_path w) body = Inr pointer"
      "wp_workflow_id pointer = w" "wp_committed_revision pointer = k"
    by (auto simp: pointer_names_def)
  from read_pointer_present [OF r] show ?thesis
    using r p assms(2,3) by (auto simp: pointer_decision_def Let_def)
qed

lemma install_pointer_cases:
  assumes "revision_prepared sha p" "wr_workflow_id (pr_record p) = w"
    and "pointer_decision sha s w p = Inr True"
  shows "\<exists>s'. wf_snapshots s' = wf_snapshots s \<and> wf_transactions s' = wf_transactions s \<and> wf_events s' = wf_events s
     \<and> wf_identity s' = wf_identity s \<and> wf_outcomes s' = tl (wf_outcomes s)
     \<and> (install_pointer sha w p s = (Inr (), s') \<and> wf_pointers s' = (wf_pointers s)(w := Some (pr_pointer_bytes p))
        \<or> (\<exists>e. install_pointer sha w p s = (Inl e, s')) \<and> wf_outcomes s \<noteq> []
           \<and> (wf_pointers s' = wf_pointers s \<or> wf_pointers s' = (wf_pointers s)(w := Some (pr_pointer_bytes p))))"
proof -
  have "install_pointer sha w p s = put_pointer w (pr_pointer_bytes p) s"
    using assms by (simp add: install_pointer_def revision_prepared_def Let_def)
  then show ?thesis using put_pointer_cases [of s w "pr_pointer_bytes p"] by simp
qed

text \<open>Installed again, the pointer is left as it is.\<close>

lemma pointer_decision_done:
  assumes "revision_prepared sha p" "wr_workflow_id (pr_record p) = w" "revision_small p"
    and "wf_pointers s w = Some (pr_pointer_bytes p)"
  shows "pointer_decision sha s w p = Inr False"
proof -
  have "read_pointer s w = Inr (pr_pointer_bytes p)"
    unfolding read_pointer_def
    by (rule read_bounded_ok [OF assms(4)]) (use assms(3) prepared_texts_valid [OF assms(1)] in \<open>simp_all add: revision_small_def\<close>)
  then show ?thesis
    using assms prepared_pointer_parses [OF assms(1)]
    by (simp add: pointer_decision_def revision_prepared_def Let_def pointer_of_def)
qed

text \<open>What recovery reads once both files are there.\<close>

lemma load_recovery_prepared:
  assumes "revision_prepared sha p" "wr_workflow_id (pr_record p) = w" "revision_small p"
    and "wf_pointers s w = Some (pr_pointer_bytes p)" "wf_snapshots s (pr_snapshot_path p) = Some (pr_snapshot_bytes p)"
    and "(wr_revision (pr_record p), wr_artifact_hash (pr_record p)) \<in> set allowed"
  shows "load_recovery_current sha s w allowed = Inr (pr_record p)"
proof -
  have "read_pointer s w = Inr (pr_pointer_bytes p)"
    unfolding read_pointer_def
    by (rule read_bounded_ok [OF assms(4)]) (use assms(3) prepared_texts_valid [OF assms(1)] in \<open>simp_all add: revision_small_def\<close>)
  moreover have "read_snapshot s w (wr_revision (pr_record p)) = Inr (pr_snapshot_bytes p)"
    unfolding read_snapshot_def
    by (rule read_bounded_ok)
      (use assms prepared_texts_valid [OF assms(1)] in \<open>simp_all add: revision_small_def revision_prepared_def Let_def\<close>)
  ultimately show ?thesis
    using assms(1,2,6) prepared_pointer_parses [OF assms(1)] prepared_snapshot_parses(1) [OF assms(1)]
    by (simp add: load_recovery_current_def pointer_of_def revision_prepared_def Let_def)
qed

lemma load_recovery_cong:
  assumes "wf_pointers s' w = wf_pointers s w" "wf_snapshots s' (w, k) = wf_snapshots s (w, k)"
    and "pointer_names s w k h"
  shows "load_recovery_current sha s' w allowed = load_recovery_current sha s w allowed"
proof -
  from assms(3) obtain body pointer where r: "read_pointer s w = Inr body"
    and p: "parse_pointer corrupt_workflow (stored_pointer_path w) body = Inr pointer" "wp_committed_revision pointer = k"
    by (auto simp: pointer_names_def)
  have "read_pointer s' w = Inr body" "read_snapshot s' w k = read_snapshot s w k"
    using r assms(1,2) by (simp_all add: read_pointer_def read_snapshot_def)
  with r p show ?thesis by (simp add: load_recovery_current_def)
qed

lemma load_recovery_names:
  assumes "load_recovery_current sha s w allowed = Inr r"
  shows "pointer_names s w (wr_revision r) (wr_artifact_hash r)" "(wr_revision r, wr_artifact_hash r) \<in> set allowed"
proof -
  from assms obtain body pointer where "read_pointer s w = Inr body"
    "parse_pointer corrupt_workflow (stored_pointer_path w) body = Inr pointer"
    "wp_workflow_id pointer = w" "wp_committed_revision pointer = wr_revision r" "wp_artifact_hash pointer = wr_artifact_hash r"
    "(wp_committed_revision pointer, wp_artifact_hash pointer) \<in> set allowed"
    by (auto simp: load_recovery_current_def rbind_Inr_iff Let_def split: if_splits)
  then show "pointer_names s w (wr_revision r) (wr_artifact_hash r)" "(wr_revision r, wr_artifact_hash r) \<in> set allowed"
    by (auto simp: pointer_names_def)
qed

lemma load_recovery_allowed:
  assumes "load_recovery_current sha s w allowed = Inr r" "set allowed \<subseteq> set wider"
  shows "load_recovery_current sha s w wider = Inr r"
  using assms by (auto simp: load_recovery_current_def rbind_Inr_iff Let_def split: if_splits)

end
