(* ===== verification/Checkpoint_Properties.thy ===== *)
theory Checkpoint_Properties
  imports Workflow_Store_Properties Source_Plan_Properties
begin

text \<open>
  What a workflow checkpoint promises: its members decode, an interruption leaves the old revision
  or the new one, and a completed checkpoint is what the next load finds.
\<close>

section \<open>Members\<close>

text \<open>
  A prepared revision survives the bundle: the two members a transition carries it in, with its
  checkpoint event, decode to the revision, provided redaction leaves the event's details alone.
\<close>

theorem workflow_members_roundtrip:
  assumes "revision_prepared sha p" "validate_workflow_id (wr_workflow_id (pr_record p)) = Inr ()"
    and "redact_text (workflow_checkpoint_event_details (pr_record p)) = workflow_checkpoint_event_details (pr_record p)"
  shows "decode_prepared_workflow_revision sha (wr_workflow_id (pr_record p))
    (snapshot_member p (event_id (pr_event p))) (pointer_member p (event_id (pr_event p))) (pr_event p) = Inr p"
proof -
  have parsed: "parse_snapshot sha corrupt_workflow path (pr_snapshot_bytes p) = Inr (pr_record p)"
    "parse_pointer corrupt_workflow path (pr_pointer_bytes p) = Inr (pointer_of (pr_record p))" for path
    using prepared_snapshot_parses [OF assms(1)] prepared_pointer_parses [OF assms(1)] by simp_all
  show ?thesis
    using assms parsed
    by (simp add: decode_prepared_workflow_revision_def snapshot_member_def pointer_member_def
        prepared_workflow_member_def workflow_members_placed_def workflow_members_bound_def checkpoint_event_bound_def
        revision_prepared_def Let_def pointer_of_def)
qed

text \<open>
  A finding: the event's details were redacted when it was made, but are compared with the
  details as they are, so a revision whose details redaction changes cannot be checkpointed.
\<close>

lemma redacted_checkpoint_refused:
  assumes "revision_prepared sha p"
    and "redact_text (workflow_checkpoint_event_details (pr_record p)) \<noteq> workflow_checkpoint_event_details (pr_record p)"
  shows "\<exists>e. decode_prepared_workflow_revision sha w
    (snapshot_member p (event_id (pr_event p))) (pointer_member p (event_id (pr_event p))) (pr_event p) = Inl e"
proof -
  have "\<not> checkpoint_event_bound (pr_record p) (pr_event p)"
    using assms by (simp add: checkpoint_event_bound_def revision_prepared_def Let_def)
  then show ?thesis
    using prepared_snapshot_parses(1) [OF assms(1)]
    by (cases "validate_workflow_id w")
      (auto simp: decode_prepared_workflow_revision_def snapshot_member_def prepared_workflow_member_def rbind_def
        split: sum.splits)
qed

section \<open>Interruptions\<close>

definition install_revision :: "hasher \<Rightarrow> string \<Rightarrow> prepared_workflow_revision \<Rightarrow> (workflow_files, unit) effect" where
  "install_revision sha w p = sthen (install_snapshot w p) (install_pointer sha w p)"

lemma install_revision_cases:
  assumes "revision_prepared sha p" "wr_workflow_id (pr_record p) = w" "snapshot_free s p"
    and "pointer_names s w k h" "k < wr_revision (pr_record p)"
  shows "\<exists>r s'. install_revision sha w p s = (r, s')
    \<and> wf_transactions s' = wf_transactions s \<and> wf_events s' = wf_events s \<and> wf_identity s' = wf_identity s
    \<and> (wf_snapshots s' = wf_snapshots s \<and> wf_pointers s' = wf_pointers s
       \<or> wf_snapshots s' = (wf_snapshots s)(pr_snapshot_path p := Some (pr_snapshot_bytes p))
         \<and> (wf_pointers s' = wf_pointers s \<or> wf_pointers s' = (wf_pointers s)(w := Some (pr_pointer_bytes p))))
    \<and> (wf_outcomes s = [] \<longrightarrow> r = Inr () \<and> wf_pointers s' = (wf_pointers s)(w := Some (pr_pointer_bytes p))
         \<and> wf_snapshots s' = (wf_snapshots s)(pr_snapshot_path p := Some (pr_snapshot_bytes p)))"
proof -
  have path: "pr_pointer_path p = w" using assms(1,2) by (simp add: revision_prepared_def Let_def)
  from install_snapshot_cases [OF assms(1-3)] obtain s1 where s1: "wf_pointers s1 = wf_pointers s"
      "wf_transactions s1 = wf_transactions s" "wf_events s1 = wf_events s" "wf_identity s1 = wf_identity s"
      "wf_outcomes s = [] \<longrightarrow> wf_outcomes s1 = []"
    and run: "install_snapshot w p s = (Inr (), s1) \<and> wf_snapshots s1 = (wf_snapshots s)(pr_snapshot_path p := Some (pr_snapshot_bytes p))
      \<or> (\<exists>e. install_snapshot w p s = (Inl e, s1)) \<and> wf_outcomes s \<noteq> []
        \<and> (wf_snapshots s1 = wf_snapshots s \<or> wf_snapshots s1 = (wf_snapshots s)(pr_snapshot_path p := Some (pr_snapshot_bytes p)))"
    by blast
  from run show ?thesis
  proof
    assume "(\<exists>e. install_snapshot w p s = (Inl e, s1)) \<and> wf_outcomes s \<noteq> []
        \<and> (wf_snapshots s1 = wf_snapshots s \<or> wf_snapshots s1 = (wf_snapshots s)(pr_snapshot_path p := Some (pr_snapshot_bytes p)))"
    with s1 show ?thesis by (auto simp: install_revision_def sthen_def sbind_def)
  next
    assume ok: "install_snapshot w p s = (Inr (), s1) \<and> wf_snapshots s1 = (wf_snapshots s)(pr_snapshot_path p := Some (pr_snapshot_bytes p))"
    have "pointer_names s1 w k h" using assms(4) s1(1) by (simp add: pointer_names_def read_pointer_def)
    from install_pointer_cases [OF assms(1,2) pointer_decision_replace [OF this assms(5) path]] obtain s2
      where s2: "wf_snapshots s2 = wf_snapshots s1" "wf_transactions s2 = wf_transactions s1" "wf_events s2 = wf_events s1"
        "wf_identity s2 = wf_identity s1" "wf_outcomes s2 = tl (wf_outcomes s1)"
      and r: "install_pointer sha w p s1 = (Inr (), s2) \<and> wf_pointers s2 = (wf_pointers s1)(w := Some (pr_pointer_bytes p))
        \<or> (\<exists>e. install_pointer sha w p s1 = (Inl e, s2)) \<and> wf_outcomes s1 \<noteq> []
          \<and> (wf_pointers s2 = wf_pointers s1 \<or> wf_pointers s2 = (wf_pointers s1)(w := Some (pr_pointer_bytes p)))"
      by blast
    then show ?thesis using ok s1 by (auto simp: install_revision_def sthen_def sbind_def)
  qed
qed

text \<open>
  C5 A checkpoint is atomic for recovery: however the installation of the next revision is
  interrupted, recovery reads the committed revision or the new one, and installing it again
  without faults makes it the new one; no other snapshot is touched.
\<close>

theorem checkpoint_interrupted:
  assumes "load_recovery_current sha s w [(wr_revision current, wr_artifact_hash current)] = Inr current"
    and "revision_prepared sha p" "wr_workflow_id (pr_record p) = w" "revision_small p" "snapshot_free s p"
    and "checked_add (wr_revision current) 1 = Some (wr_revision (pr_record p))"
    and "install_revision sha w p s = (r, s')"
  defines "allowed \<equiv> [(wr_revision current, wr_artifact_hash current),
      (wr_revision (pr_record p), wr_artifact_hash (pr_record p))]"
  shows "load_recovery_current sha s' w allowed \<in> {Inr current, Inr (pr_record p)}
    \<and> (\<exists>s''. install_revision sha w p (s'\<lparr>wf_outcomes := []\<rparr>) = (Inr (), s'')
         \<and> load_recovery_current sha s'' w allowed = Inr (pr_record p))
    \<and> (\<forall>key. key \<noteq> pr_snapshot_path p \<longrightarrow> wf_snapshots s' key = wf_snapshots s key)"
proof -
  let ?k = "wr_revision current" let ?h = "wr_artifact_hash current"
  note names = load_recovery_names(1) [OF assms(1)]
  have less: "?k < wr_revision (pr_record p)"
    using assms(6) by (simp add: checked_add_Some_iff word_less_nat_alt)
  have key: "pr_snapshot_path p = (w, wr_revision (pr_record p))" "pr_pointer_path p = w"
    using assms(2,3) by (simp_all add: revision_prepared_def Let_def)
  then have other: "(w, ?k) \<noteq> pr_snapshot_path p" using less by auto
  from install_revision_cases [OF assms(2,3,5) names less] assms(7)
  have s': "wf_snapshots s' = wf_snapshots s \<and> wf_pointers s' = wf_pointers s
       \<or> wf_snapshots s' = (wf_snapshots s)(pr_snapshot_path p := Some (pr_snapshot_bytes p))
         \<and> (wf_pointers s' = wf_pointers s \<or> wf_pointers s' = (wf_pointers s)(w := Some (pr_pointer_bytes p)))"
    by auto
  have old: "load_recovery_current sha s w allowed = Inr current"
    by (rule load_recovery_allowed [OF assms(1)]) (simp add: allowed_def)
  have new: "load_recovery_current sha t w allowed = Inr (pr_record p)"
    if "wf_pointers t w = Some (pr_pointer_bytes p)" "wf_snapshots t (pr_snapshot_path p) = Some (pr_snapshot_bytes p)" for t
    by (rule load_recovery_prepared [OF assms(2-4) that]) (simp add: allowed_def)
  have same: "wf_snapshots s' (w, ?k) = wf_snapshots s (w, ?k)" using s' other by auto
  have kept: "load_recovery_current sha s' w allowed = Inr current" if "wf_pointers s' = wf_pointers s"
  proof -
    from that have "wf_pointers s' w = wf_pointers s w" by simp
    from load_recovery_cong [OF this same names, of sha allowed] old show ?thesis by simp
  qed
  have first: "load_recovery_current sha s' w allowed \<in> {Inr current, Inr (pr_record p)}"
    using s' kept new [of s'] by auto
  let ?t = "s'\<lparr>wf_outcomes := []\<rparr>"
  have free: "snapshot_free ?t p" using s' assms(5) by (auto simp: snapshot_free_def)
  have "\<exists>s''. install_revision sha w p ?t = (Inr (), s'') \<and> load_recovery_current sha s'' w allowed = Inr (pr_record p)"
  proof (cases "wf_pointers s' = wf_pointers s")
    case True
    with names have "pointer_names ?t w ?k ?h" by (simp add: pointer_names_def read_pointer_def)
    from install_revision_cases [OF assms(2,3) free this less] obtain s'' where "install_revision sha w p ?t = (Inr (), s'')"
      and "wf_pointers s'' = (wf_pointers ?t)(w := Some (pr_pointer_bytes p))"
        "wf_snapshots s'' = (wf_snapshots ?t)(pr_snapshot_path p := Some (pr_snapshot_bytes p))"
      by (metis (no_types, lifting) workflow_files.select_convs(6) workflow_files.surjective workflow_files.update_convs(6))
    with new [of s''] show ?thesis by simp
  next
    case False
    with s' have done_before: "wf_pointers ?t w = Some (pr_pointer_bytes p)"
      "wf_snapshots ?t (pr_snapshot_path p) = Some (pr_snapshot_bytes p)" by auto
    then have "install_snapshot w p ?t = (Inr (), ?t)"
      using assms(3) key by (simp add: install_snapshot_def write_workflow_snapshot_bytes_def)
    moreover have "install_pointer sha w p ?t = (Inr (), ?t)"
      using pointer_decision_done [OF assms(2-4) done_before(1)] assms(3) key by (simp add: install_pointer_def)
    ultimately have "install_revision sha w p ?t = (Inr (), ?t)" by (simp add: install_revision_def sthen_def sbind_def)
    with new [OF done_before] show ?thesis by blast
  qed
  with first s' show ?thesis by auto
qed

section \<open>Completed checkpoints\<close>

lemma validate_chain_Inr:
  "validate_chain_with_checkpoints sha s w committed schema cs = Inr r \<longleftrightarrow>
     length cs = unat committed \<and> snapshot_chain sha s w 1 ''none'' None cs = Inr (Some (schema, r))"
  by (cases "snapshot_chain sha s w 1 ''none'' None cs")
    (auto simp: validate_chain_with_checkpoints_def Let_def split: option.splits)

text \<open>What a load of a workflow found.\<close>

lemma load_committedE:
  assumes "load_committed sha s w = Inr r"
  obtains es cs schema identity where "wf_events s = Inr es" "workflow_checkpoints w (Inr es) = Inr cs" "cs \<noteq> []"
    "length cs = unat (wr_revision r)" "snapshot_chain sha s w 1 ''none'' None cs = Inr (Some (schema, r))"
    "schema \<le> 4" "wr_workflow_id r = w" "wc_artifact_hash (last cs) = wr_artifact_hash r"
    "wf_identity s = Inr identity" "wr_project_id r = ri_project_id identity"
    "pointer_names s w (wr_revision r) (wr_artifact_hash r)"
proof -
  from assms obtain body pointer cs identity where pointer: "read_pointer s w = Inr body"
      "parse_pointer corrupt_workflow (stored_pointer_path w) body = Inr pointer"
      "wp_workflow_id pointer = w" "wp_committed_revision pointer \<noteq> 0"
    and cs: "workflow_checkpoints w (wf_events s) = Inr cs" "length cs = unat (wp_committed_revision pointer)"
    and chain: "snapshot_chain sha s w 1 ''none'' None cs = Inr (Some (wp_schema_version pointer, r))"
    and identity: "wf_identity s = Inr identity" "wr_artifact_hash r = wp_artifact_hash pointer"
      "wr_project_id r = ri_project_id identity"
    by (auto simp: load_committed_def validate_workflow_chain_def validate_chain_Inr rbind_Inr_iff Let_def
        split: if_splits)
  from cs(1) obtain es where es: "wf_events s = Inr es" by (cases "wf_events s") (auto simp: workflow_checkpoints_def)
  have ne: "cs \<noteq> []" using cs(2) pointer(4) by (auto simp: unat_eq_zero)
  from snapshot_chain_last [OF chain ne] have l: "wp_schema_version pointer \<le> 4" "wr_workflow_id r = w"
    "wr_revision r = 1 + of_nat (length cs - 1)" "wc_artifact_hash (last cs) = wr_artifact_hash r" by auto
  have "of_nat (length cs) = (1 + of_nat (length cs - 1) :: u64)"
    using ne by (cases cs) simp_all
  with l(3) cs(2) have rev_eq: "wr_revision r = wp_committed_revision pointer" by simp
  show ?thesis
    by (rule that [of es cs "wp_schema_version pointer" identity])
      (use es cs ne chain l identity pointer rev_eq in \<open>auto simp: pointer_names_def\<close>)
qed

definition append_event :: "parsed_event \<Rightarrow> (workflow_files, unit) effect" where
  "append_event e s = (case wf_events s of Inl err \<Rightarrow> (Inl err, s) | Inr es \<Rightarrow> (Inr (), s\<lparr>wf_events := Inr (es @ [e])\<rparr>))"

text \<open>
  C6 A completed checkpoint is what the next load returns: with the snapshot installed, the event
  in the ledger and the pointer moved, the chain of the workflow ends in the new revision.
\<close>

theorem checkpoint_extends_chain:
  assumes "load_committed sha s w = Inr current"
    and "prepare_revision sha eid ts root w current new_record = Inr p"
    and "valid_record new_record" "wr_project_id new_record = wr_project_id current"
    and "digest32 sha"
    and "revision_small p" "snapshot_free s p" "wf_outcomes s = []"
    and "records_checkpoint (pr_record p) e" "word_fields (pr_record p)"
  shows "\<exists>s'. sthen (install_snapshot w p) (sthen (append_event e) (install_pointer sha w p)) s = (Inr (), s')
    \<and> load_committed sha s' w = Inr (pr_record p)"
proof -
  let ?r = "pr_record p"
  from load_committedE [OF assms(1)] obtain es cs schema identity where es: "wf_events s = Inr es"
    and cs: "workflow_checkpoints w (Inr es) = Inr cs" "cs \<noteq> []" "length cs = unat (wr_revision current)"
      "snapshot_chain sha s w 1 ''none'' None cs = Inr (Some (schema, current))" "schema \<le> 4"
      "wc_artifact_hash (last cs) = wr_artifact_hash current"
    and identity: "wf_identity s = Inr identity" "wr_project_id current = ri_project_id identity"
    and names: "pointer_names s w (wr_revision current) (wr_artifact_hash current)" by metis
  have current_hash: "is_sha256 (wr_artifact_hash current)"
    using checkpoint_hash_last [OF cs(1), of "last cs"] cs(2,6) by simp
  then have "utf8_valid (wr_artifact_hash current)" using sha256_plain by (simp add: plain_key_def)
  note prep = prepare_revision_prepares [OF assms(2,3) this]
  have next_rev: "unat (wr_revision ?r) = unat (wr_revision current) + 1" "wr_revision ?r = wr_revision current + 1"
    using prep(3) by (simp add: checked_add_Some_iff) (use prep(3) in \<open>auto simp: checked_add_def split: if_splits\<close>)
  have key: "pr_snapshot_path p = (w, wr_revision ?r)" "pr_pointer_path p = w"
    using prep(1,2) by (simp_all add: revision_prepared_def Let_def)
  have hash: "is_sha256 (wr_artifact_hash ?r)"
    using prep(1) sha256_bytes_is_sha256 assms(5) by (simp add: revision_prepared_def Let_def)
  \<comment> \<open>the three steps\<close>
  from install_snapshot_cases [OF prep(1,2) assms(7)] assms(8) obtain s1 where s1: "wf_pointers s1 = wf_pointers s"
      "wf_events s1 = wf_events s" "wf_identity s1 = wf_identity s" "wf_outcomes s1 = []"
      "install_snapshot w p s = (Inr (), s1)" "wf_snapshots s1 = (wf_snapshots s)(pr_snapshot_path p := Some (pr_snapshot_bytes p))"
    by auto
  let ?s2 = "s1\<lparr>wf_events := Inr (es @ [e])\<rparr>"
  have "pointer_names ?s2 w (wr_revision current) (wr_artifact_hash current)"
    using names s1(1) by (simp add: pointer_names_def read_pointer_def)
  moreover have "wr_revision current < wr_revision ?r" using next_rev(1) by (simp add: word_less_nat_alt)
  ultimately have "pointer_decision sha ?s2 w p = Inr True" using key(2) by (rule pointer_decision_replace)
  from install_pointer_cases [OF prep(1,2) this] s1(4) obtain s3 where s3: "wf_snapshots s3 = wf_snapshots s1"
      "wf_events s3 = Inr (es @ [e])" "wf_identity s3 = wf_identity s1"
      "install_pointer sha w p ?s2 = (Inr (), s3)" "wf_pointers s3 = (wf_pointers s1)(w := Some (pr_pointer_bytes p))"
    by auto
  have run: "sthen (install_snapshot w p) (sthen (append_event e) (install_pointer sha w p)) s = (Inr (), s3)"
    using s1(2,5) s3(4) es by (simp add: sthen_def sbind_def append_event_def)
  \<comment> \<open>the checkpoints and the chain\<close>
  let ?c = "checkpoint_of_record ?r"
  have "length cs < 2 ^ 64 - 1"
    using unsigned_less [of "wr_revision ?r", where 'a = nat] next_rev(1) cs(3) by simp
  moreover have "wr_revision ?r = of_nat (length cs) + 1" using next_rev(2) cs(3) by simp
  ultimately have cps: "workflow_checkpoints w (Inr (es @ [e])) = Inr (cs @ [?c])"
    using checkpoint_reads_back [OF assms(9,10) hash] prep(2,4) current_hash cs(2,6)
    by (intro checkpoints_snoc [OF cs(1)]) (simp_all add: checkpoint_of_record_def)
  have "snapshot_chain sha s3 w 1 ''none'' None cs = snapshot_chain sha s w 1 ''none'' None cs"
  proof (rule snapshot_chain_cong)
    fix i assume "i < length cs"
    then have "unat (1 + of_nat i :: u64) \<noteq> unat (wr_revision ?r)"
      using next_rev(1) cs(3) unat_of_nat_small [of "Suc i", where 'a = 64] unsigned_less [of "wr_revision current", where 'a = nat]
      by simp
    then show "wf_snapshots s3 (w, 1 + of_nat i) = wf_snapshots s (w, 1 + of_nat i)"
      using s1(6) s3(1) key(1) by auto
  qed
  moreover have "read_snapshot s3 w (wr_revision ?r) = Inr (pr_snapshot_bytes p)"
    unfolding read_snapshot_def
    by (rule read_bounded_ok)
      (use s1(6) s3(1) key(1) assms(6) prepared_texts_valid [OF prep(1)] in \<open>simp_all add: revision_small_def\<close>)
  then have "snapshot_step sha s3 w (wr_revision ?r) (wr_artifact_hash current) (Some schema) ?c = Inr (4, ?r)"
    using prepared_snapshot_parses [OF prep(1)] cs(5) prep(2,4)
    by (simp add: snapshot_step_def checkpoint_of_record_def Let_def leD)
  ultimately have chain: "snapshot_chain sha s3 w 1 ''none'' None (cs @ [?c]) = Inr (Some (4, ?r))"
    unfolding snapshot_chain_snoc using cs(2-4) next_rev(2) by (simp add: add.commute)
  \<comment> \<open>the load\<close>
  have "read_pointer s3 w = Inr (pr_pointer_bytes p)"
    unfolding read_pointer_def
    by (rule read_bounded_ok) (use s3(5) assms(6) prepared_texts_valid [OF prep(1)] in \<open>simp_all add: revision_small_def\<close>)
  moreover have "wr_revision ?r \<noteq> 0" using next_rev(1) by auto
  moreover have "validate_chain_with_checkpoints sha s3 w (wr_revision ?r) 4 (cs @ [?c]) = Inr ?r"
    using chain next_rev(1) cs(3) by (simp add: validate_chain_Inr)
  ultimately have "load_committed sha s3 w = Inr ?r"
    using prepared_pointer_parses [OF prep(1)] cps s3(2,3) s1(3) identity prep(2,5) assms(4) next_rev(1) cs(3)
    by (simp add: load_committed_def validate_workflow_chain_def pointer_of_def)
  with run show ?thesis by blast
qed

section \<open>An example\<close>

text \<open>The first checkpoint of a workflow loads, too.\<close>

lemma first_checkpoint_loads:
  assumes "revision_prepared sha p" "revision_small p" "digest32 sha"
    and "wr_revision (pr_record p) = 1" "wr_previous_hash (pr_record p) = ''none''"
    and "records_checkpoint (pr_record p) e" "word_fields (pr_record p)" "w = wr_workflow_id (pr_record p)"
    and "wf_events s = Inr [e]" "wf_identity s = Inr identity" "ri_project_id identity = wr_project_id (pr_record p)"
    and "wf_pointers s w = Some (pr_pointer_bytes p)" "wf_snapshots s (pr_snapshot_path p) = Some (pr_snapshot_bytes p)"
  shows "load_committed sha s w = Inr (pr_record p)"
proof -
  let ?r = "pr_record p" let ?c = "checkpoint_of_record ?r"
  have hash: "is_sha256 (wr_artifact_hash ?r)"
    using assms(1,3) sha256_bytes_is_sha256 by (simp add: revision_prepared_def Let_def)
  have "workflow_checkpoints w (Inr []) = Inr []" by (simp add: workflow_checkpoints_def)
  then have cps: "workflow_checkpoints w (Inr ([] @ [e])) = Inr ([] @ [?c])"
    using checkpoint_reads_back [OF assms(6,7) hash] assms(4,5,8)
    by (intro checkpoints_snoc) (simp_all add: checkpoint_of_record_def)
  have "read_snapshot s w 1 = Inr (pr_snapshot_bytes p)"
    unfolding read_snapshot_def
    by (rule read_bounded_ok)
      (use assms prepared_texts_valid [OF assms(1)] in \<open>simp_all add: revision_small_def revision_prepared_def Let_def\<close>)
  then have "snapshot_step sha s w 1 ''none'' None ?c = Inr (4, ?r)"
    using prepared_snapshot_parses [OF assms(1)] assms(4,5,8)
    by (simp add: snapshot_step_def checkpoint_of_record_def Let_def)
  then have "validate_chain_with_checkpoints sha s w 1 4 [?c] = Inr ?r"
    by (simp add: validate_chain_Inr)
  moreover have "read_pointer s w = Inr (pr_pointer_bytes p)"
    unfolding read_pointer_def
    by (rule read_bounded_ok [OF assms(12)])
      (use assms(2) prepared_texts_valid [OF assms(1)] in \<open>simp_all add: revision_small_def\<close>)
  ultimately show ?thesis
    using prepared_pointer_parses [OF assms(1)] cps assms(4,8-11)
    by (simp add: load_committed_def validate_workflow_chain_def pointer_of_def)
qed

definition wit_first :: workflow_record where
  "wit_first = sealed small_hash (wit_record\<lparr>wr_revision := 1\<rparr>)"

definition wit_files :: "prepared_workflow_revision \<Rightarrow> parsed_event \<Rightarrow> workflow_files" where
  "wit_files p e =
     \<lparr>wf_snapshots = (\<lambda>_. None)(pr_snapshot_path p := Some (pr_snapshot_bytes p)),
      wf_pointers = (\<lambda>_. None)(pr_pointer_path p := Some (pr_pointer_bytes p)),
      wf_transactions = (\<lambda>_. None), wf_events = Inr [e], wf_identity = Inr wit_identity, wf_outcomes = []\<rparr>"

definition wit_checkpoint :: "workflow_record \<Rightarrow> parsed_event" where
  "wit_checkpoint r = \<lparr>event_id = ''e1'', ts_ms = 0, event_type = ''workflow.checkpoint'', project_id = ''p'',
     session_id = ''s'', summary = checkpoint_summary, details = workflow_checkpoint_event_details r,
     previous_event_hash = None, event_hash = None\<rparr>"

lemma length_escape_char: "length (escape_content_char x) \<le> 6 + length x"
  by (simp add: escape_content_char_def show_hex4_def)

lemma escape_ascii_length:
  assumes "all_ascii v"
  shows "length (escape_string_content v) \<le> 7 * length v"
proof -
  have "length (concat (map escape_content_char (map (\<lambda>c. [c]) u))) \<le> 7 * length u" for u
  proof (induction u)
    case (Cons c u)
    with length_escape_char [of "[c]"] show ?case by simp
  qed simp
  then show ?thesis using assms by (simp add: escape_string_content_def char_slices_all_ascii)
qed

definition short_text :: "string \<Rightarrow> bool" where
  "short_text v \<longleftrightarrow> all_ascii v \<and> length v \<le> 100"

definition short_record :: "workflow_record \<Rightarrow> bool" where
  "short_record r \<longleftrightarrow> list_all (\<lambda>m. short_text (snd m)) (record_texts r)"

lemma length_quoted_escape: "short_text v \<Longrightarrow> length (quoted (escape_string_content v)) \<le> 702"
  using escape_ascii_length [of v] by (simp add: short_text_def quoted_def)

lemma length_members:
  "list_all (\<lambda>m. length (fst m) \<le> 40 \<and> length (snd m) \<le> 702) ms \<Longrightarrow>
   length (template_members line_layout ms) \<le> 1 + 750 * length ms"
  unfolding line_layout_def
  by (induction ms) (auto simp: quoted_def)

lemma length_show_u64: "length (show_nat (unat (n :: u64))) \<le> 20"
proof -
  have "length (show_nat m) \<le> k" if "m < 10 ^ k" "0 < k" for m k
    using that
  proof (induction k arbitrary: m)
    case (Suc k)
    show ?case
    proof (cases "m < 10")
      case True
      then show ?thesis by (simp add: show_nat.simps [of m])
    next
      case False
      then have "0 < k" using Suc.prems(1) by (cases k) auto
      moreover have "m div 10 < 10 ^ k" using Suc.prems(1) by (simp add: less_mult_imp_div_less mult.commute)
      ultimately have "length (show_nat (m div 10)) \<le> k" by (rule Suc.IH [rotated])
      then show ?thesis using False by (simp add: show_nat.simps [of m])
    qed
  qed simp
  moreover have "unat n < 10 ^ 20" using unsigned_less [of n, where 'a = nat] by simp
  ultimately show ?thesis by simp
qed

lemma short_small:
  assumes "revision_prepared sha p" "short_record (pr_record p)"
  shows "revision_small p"
proof -
  let ?r = "pr_record p"
  let ?texts = "owner_texts ?r @ skill_texts ?r @ action_texts ?r @ verification_texts ?r @ evidence_texts ?r"
  have head: "short_text (wr_workflow_id ?r)" "short_text (wr_previous_hash ?r)" "short_text (wr_artifact_hash ?r)"
    and texts: "list_all (\<lambda>m. short_text (snd m)) ?texts"
    using assms(2) by (simp_all add: short_record_def record_texts_def)
  have count: "length (record_members ?r) = 37" by (simp add: record_members_def texts_defs)
  have "list_all (\<lambda>m. length (fst m) \<le> 40 \<and> length (snd m) \<le> 702) (record_members ?r)"
  proof -
    have short: "list_all (\<lambda>m. length (snd m) \<le> 702) (map escaped_member ?texts)"
      unfolding list.pred_map
      by (rule list.pred_mono_strong [OF texts]) (simp add: escaped_member_def length_quoted_escape)
    have keys: "list_all (\<lambda>m. length (fst m) \<le> 40) (map escaped_member ?texts)"
      by (simp add: escaped_member_def texts_defs)
    have both: "list_all (\<lambda>m. length (fst m) \<le> 40 \<and> length (snd m) \<le> 702) (map escaped_member ?texts)"
      using short keys by (auto simp: list_all_iff)
    have "length (show_nat (unat (wr_revision ?r))) \<le> 702" using length_show_u64 [of "wr_revision ?r"] by simp
    moreover have "length (quoted ''workflow-v4'') \<le> 702" by (simp add: quoted_def)
    ultimately have "list_all (\<lambda>m. length (fst m) \<le> 40 \<and> length (snd m) \<le> 702)
        [(''schema_version'', ''4''), (''artifact_version'', quoted ''workflow-v4''),
         escaped_member (''workflow_id'', wr_workflow_id ?r), (''revision'', show_nat (unat (wr_revision ?r))),
         escaped_member (''previous_hash'', wr_previous_hash ?r), escaped_member (''artifact_hash'', wr_artifact_hash ?r)]"
      using head [THEN length_quoted_escape] by (simp add: escaped_member_def)
    then show ?thesis unfolding record_members_def list_all_append using both by blast
  qed
  from length_members [OF this] have "length (template_members line_layout (record_members ?r)) \<le> 1 + 750 * 37"
    unfolding count .
  then have "length (render ?r) \<le> 30000" by (simp add: render_def template_def)
  moreover have "length (pr_pointer_bytes p) \<le> 10000"
  proof -
    let ?ms = "[(''schema_version'', ''4''), (''artifact_version'', quoted ''workflow-commit-v4''),
      escaped_member (''workflow_id'', wr_workflow_id ?r), (''committed_revision'', show_nat (unat (wr_revision ?r))),
      (''artifact_hash'', quoted (wr_artifact_hash ?r))]"
    have "list_all (\<lambda>m. length (fst m) \<le> 40 \<and> length (snd m) \<le> 702) ?ms"
      using length_quoted_escape [OF head(1)] length_show_u64 [of "wr_revision ?r"] head(3)
      by (simp add: escaped_member_def quoted_def short_text_def)
    note bound = length_members [OF this]
    have "render_pointer ?r 4 = Inr (pr_pointer_bytes p)" using assms(1) by (simp add: revision_prepared_def Let_def)
    then have "pr_pointer_bytes p = template line_layout ?ms @ [LF]" unfolding render_pointer_four by simp
    then show ?thesis using bound by (simp add: template_def)
  qed
  ultimately show ?thesis
    using assms(1)
    by (simp add: revision_small_def revision_prepared_def Let_def max_workflow_snapshot_bytes_def max_workflow_pointer_bytes_def)
qed

lemma short_hash: "short_text (sha256_bytes small_hash m)"
proof -
  have "list_all (\<lambda>c. is_ascii_digit c \<or> 97 \<le> byte c \<and> byte c \<le> 102) (sha256_bytes small_hash m)"
    using sha256_bytes_is_sha256 [OF small_hash_digest] by (simp add: is_sha256_def)
  then have "all_ascii (sha256_bytes small_hash m)"
    unfolding all_ascii_def by (rule list.pred_mono_strong) (auto simp: is_ascii_digit_def)
  then show ?thesis using length_hash [OF small_hash_digest] by (simp add: short_text_def)
qed

lemma wit_first_short:
  "short_record (wit_first\<lparr>wr_previous_hash := h, wr_revision := n, wr_artifact_hash := sha256_bytes small_hash m\<rparr>)"
  if "short_text h"
  using that short_hash
  by (simp add: short_record_def record_texts_def texts_defs wit_first_def sealed_def wit_record_def
      workflow_record_new_def Let_def const_hash wit_identity_def short_text_def all_ascii_def)

lemma wit_first_valid: "valid_record wit_first"
proof -
  have "valid_record (wit_record\<lparr>wr_revision := 1\<rparr>)"
    using wit_record_valid by (simp add: valid_record_def record_texts_def texts_defs)
  then show ?thesis unfolding wit_first_def by (rule valid_sealed)
qed

lemma wit_first_fields:
  "wr_workflow_id wit_first = ''workflow-07''" "wr_revision wit_first = 1" "wr_previous_hash wit_first = ''none''"
  "wr_project_id wit_first = ''p''" "wr_artifact_hash wit_first = sha256_bytes small_hash (payload wit_first)"
  by (simp_all add: wit_first_def sealed_def wit_record_def workflow_record_new_def Let_def const_hash wit_identity_def)
    (simp add: payload_def payload_head_def texts_defs)

lemma wit_words:
  "word_fields (wit_first\<lparr>wr_previous_hash := h, wr_revision := n, wr_artifact_hash := sha256_bytes small_hash m\<rparr>)"
  if "short_text h" "list_all (\<lambda>c. \<not> is_whitespace (byte c)) h"
proof -
  have hash: "list_all (\<lambda>c. \<not> is_whitespace (byte c)) (sha256_bytes small_hash m)" for m
  proof -
    have "list_all (\<lambda>c. is_ascii_digit c \<or> 97 \<le> byte c \<and> byte c \<le> 102) (sha256_bytes small_hash m)"
      using sha256_bytes_is_sha256 [OF small_hash_digest] by (simp add: is_sha256_def)
    then show ?thesis by (rule list.pred_mono_strong) (auto simp: is_ascii_digit_def is_whitespace_def)
  qed
  have digits: "list_all (\<lambda>c. \<not> is_whitespace (byte c)) (show_nat k)" "all_ascii (show_nat k)" for k
    using show_nat_digits [of _ k] by (force simp: list_all_iff all_ascii_def is_ascii_digit_def is_whitespace_def)+
  show ?thesis
    using that hash short_hash [of m] digits
    by (simp add: word_fields_def checkpoint_fields_def field_text_def wit_first_def sealed_def wit_record_def
        workflow_record_new_def Let_def const_hash wit_identity_def display_empty_def short_text_def all_ascii_def
        is_whitespace_def word_text_ascii)
qed

lemma build_total: "\<exists>p. build_prepared_workflow_revision sha eid ts root r = Inr p"
  by (simp add: build_prepared_workflow_revision_def render_pointer_four Let_def)

text \<open>The first revision, prepared and installed, and the second one prepared from it.\<close>

lemma wit_setup:
  obtains p q where "revision_prepared small_hash p" "pr_record p = wit_first" "revision_small p"
    "prepare_revision small_hash ''e2'' 0 ''/p'' ''workflow-07'' wit_first wit_first = Inr q" "revision_small q"
    "load_committed small_hash (wit_files p (wit_checkpoint wit_first)) ''workflow-07'' = Inr wit_first"
    "word_fields (pr_record q)" "snapshot_free (wit_files p (wit_checkpoint wit_first)) q"
    "revision_prepared small_hash q" "wr_workflow_id (pr_record q) = ''workflow-07''"
    "checked_add (wr_revision wit_first) 1 = Some (wr_revision (pr_record q))"
proof -
  obtain p where built: "build_prepared_workflow_revision small_hash ''e1'' 0 ''/p'' wit_first = Inr p"
    using build_total by blast
  note p = build_prepares [OF built wit_first_fields(5) wit_first_valid]
  let ?h = "wr_artifact_hash wit_first"
  have h: "?h = sha256_bytes small_hash (payload wit_first)" by (rule wit_first_fields(5))
  have none: "short_text ''none''" "list_all (\<lambda>c. \<not> is_whitespace (byte c)) ''none''"
    by (simp_all add: short_text_def all_ascii_def is_whitespace_def)
  have self: "wit_first = wit_first\<lparr>wr_previous_hash := ''none'', wr_revision := 1, wr_artifact_hash := sha256_bytes small_hash (payload wit_first)\<rparr>"
    using wit_first_fields by (simp add: workflow_record.equality)
  have p_small: "revision_small p" using short_small [OF p(1)] wit_first_short [OF none(1)] self p(2) by metis
  have p_words: "word_fields wit_first" using wit_words [OF none] self by metis
  have loads: "load_committed small_hash (wit_files p (wit_checkpoint wit_first)) ''workflow-07'' = Inr wit_first"
    using first_checkpoint_loads [OF p(1) p_small small_hash_digest, of "wit_checkpoint wit_first" "''workflow-07''"
        "wit_files p (wit_checkpoint wit_first)" wit_identity] p wit_first_fields p_words
    by (simp add: records_checkpoint_def wit_checkpoint_def wit_files_def wit_identity_def revision_prepared_def Let_def)
  have "checked_add (1 :: u64) 1 = Some 2" by (simp add: checked_add_def)
  then obtain q where q: "prepare_revision small_hash ''e2'' 0 ''/p'' ''workflow-07'' wit_first wit_first = Inr q"
    using build_total [of small_hash "''e2''" 0 "''/p''"] wit_first_fields
    by (auto simp: prepare_revision_def Let_def)
  have utf8: "utf8_valid ?h" unfolding h by (rule sha256_bytes_utf8)
  note qs = prepare_revision_prepares [OF q wit_first_valid utf8]
  have rev: "wr_revision (pr_record q) = 2" using qs(3) wit_first_fields(2) \<open>checked_add 1 1 = Some 2\<close> by simp
  have short_h: "short_text ?h" "list_all (\<lambda>c. \<not> is_whitespace (byte c)) ?h"
  proof -
    show "short_text ?h" unfolding h by (rule short_hash)
    have "list_all (\<lambda>c. is_ascii_digit c \<or> 97 \<le> byte c \<and> byte c \<le> 102) ?h"
      using sha256_bytes_is_sha256 [OF small_hash_digest] unfolding h by (simp add: is_sha256_def)
    then show "list_all (\<lambda>c. \<not> is_whitespace (byte c)) ?h"
      by (rule list.pred_mono_strong) (auto simp: is_ascii_digit_def is_whitespace_def)
  qed
  from q obtain m where "pr_record q = wit_first\<lparr>wr_previous_hash := ?h, wr_revision := 2, wr_artifact_hash := sha256_bytes small_hash m\<rparr>"
    using wit_first_fields \<open>checked_add 1 1 = Some 2\<close>
    by (auto simp: prepare_revision_def Let_def build_prepared_workflow_revision_def rbind_Inr_iff)
  then have q_small: "revision_small q" and q_words: "word_fields (pr_record q)"
    using short_small [OF qs(1)] wit_first_short [OF short_h(1)] wit_words [OF short_h] by metis+
  have "snapshot_free (wit_files p (wit_checkpoint wit_first)) q"
    using p qs(1,2) rev wit_first_fields(2)
    by (simp add: snapshot_free_def wit_files_def revision_prepared_def Let_def)
  with p p_small q q_small loads q_words qs(1-3) show ?thesis by (intro that)
qed

lemma checkpoint_extends_chain_witness:
  "\<exists>p (q :: prepared_workflow_revision). load_committed small_hash (wit_files p (wit_checkpoint wit_first)) ''workflow-07'' = Inr wit_first
    \<and> (\<exists>s'. load_committed small_hash s' ''workflow-07'' = Inr (pr_record q) \<and> wr_revision (pr_record q) = 2)"
proof -
  from wit_setup obtain p q where s: "prepare_revision small_hash ''e2'' 0 ''/p'' ''workflow-07'' wit_first wit_first = Inr q"
    "revision_small q" "load_committed small_hash (wit_files p (wit_checkpoint wit_first)) ''workflow-07'' = Inr wit_first"
    "word_fields (pr_record q)" "snapshot_free (wit_files p (wit_checkpoint wit_first)) q"
    "checked_add (wr_revision wit_first) 1 = Some (wr_revision (pr_record q))" by metis
  have "wr_revision (pr_record q) = 2" using s(6) wit_first_fields(2) by (simp add: checked_add_def)
  moreover have "\<exists>s'. load_committed small_hash s' ''workflow-07'' = Inr (pr_record q)"
    using checkpoint_extends_chain [OF s(3,1) wit_first_valid refl small_hash_digest s(2,5) _ _ s(4),
        of "wit_checkpoint (pr_record q)"]
    by (auto simp: wit_files_def wit_checkpoint_def records_checkpoint_def)
  ultimately show ?thesis using s(3) by blast
qed

lemma checkpoint_interrupted_witness:
  "\<exists>p (q :: prepared_workflow_revision) r s'. install_revision small_hash ''workflow-07'' q
      ((wit_files p (wit_checkpoint wit_first))\<lparr>wf_outcomes := [Replaced, ReplacedUnsynced]\<rparr>) = (r, s')
    \<and> load_recovery_current small_hash s' ''workflow-07'' [(1, wr_artifact_hash wit_first), (2, wr_artifact_hash (pr_record q))]
        \<in> {Inr wit_first, Inr (pr_record q)}"
proof -
  from wit_setup obtain p q where p: "revision_prepared small_hash p" "pr_record p = wit_first" "revision_small p"
    and q: "revision_prepared small_hash q" "wr_workflow_id (pr_record q) = ''workflow-07''" "revision_small q"
      "snapshot_free (wit_files p (wit_checkpoint wit_first)) q"
      "checked_add (wr_revision wit_first) 1 = Some (wr_revision (pr_record q))" by metis
  let ?s = "(wit_files p (wit_checkpoint wit_first))\<lparr>wf_outcomes := [Replaced, ReplacedUnsynced]\<rparr>"
  obtain r s' where run: "install_revision small_hash ''workflow-07'' q ?s = (r, s')" by fastforce
  have two: "wr_revision (pr_record q) = 2" using q(5) wit_first_fields(2) by (simp add: checked_add_def)
  have current: "load_recovery_current small_hash ?s ''workflow-07'' [(wr_revision wit_first, wr_artifact_hash wit_first)] = Inr wit_first"
    using load_recovery_prepared [OF p(1) _ p(3), of "''workflow-07''" ?s] p wit_first_fields(1)
    by (simp add: wit_files_def revision_prepared_def Let_def)
  have free: "snapshot_free ?s q" using q(4) by (simp add: snapshot_free_def)
  from checkpoint_interrupted [OF current q(1-3) free q(5) run] run two wit_first_fields(2) show ?thesis by auto
qed

end
