(* ===== verification/Bundle.thy ===== *)
theory Bundle
  imports Source_Install Workflow_Revision Ledger_Writer
    "HOL-Library.Product_Lexorder" "HOL-Library.Option_ord"
begin

text \<open>
  The prepared bundle of a transition and its check (\<open>transition/bundle_validation\<close>): whom and what it
  is prepared for, the chain of its ledger events, the order and shape of its members.
\<close>

section \<open>Limits (contracts.rs)\<close>

definition max_prepared_event_bytes :: nat where "max_prepared_event_bytes = 16384"
definition max_prepared_events_bytes :: nat where "max_prepared_events_bytes = 163840"
definition max_prepared_bundle_bytes :: nat where "max_prepared_bundle_bytes = 1048576"

definition checked_add_bytes :: "nat \<Rightarrow> nat \<Rightarrow> nat \<Rightarrow> string \<Rightarrow> string \<Rightarrow> nat result" where
  "checked_add_bytes current additional limit overflow_message limit_message =
     (let n = current + additional in
      if 2 ^ 64 \<le> n then Inl (blocked_error overflow_message [])
      else rbind (enforce_byte_limit n limit limit_message) (\<lambda>_. Inr n))"

section \<open>The order of members (bundle\_codec/semantic.rs)\<close>

text \<open>
  The comparison is that of tuples; \<open>None\<close> comes before \<open>Some\<close>, strings compare by their bytes, as
  \<open>linorder\<close> of the library's \<open>Product_Lexorder\<close>, \<open>Option_ord\<close> and \<open>List_Lexorder\<close> has it.
\<close>

type_synonym member_order =
  "u8 \<times> string \<times> u8 \<times> string option \<times> string option \<times> string option \<times> string option"

definition prepared_member_order :: "prepared_member \<Rightarrow> member_order" where
  "prepared_member_order m =
     (let b = pm_binding m in
      (member_kind_rank (pm_kind m), pm_path m, pm_semantic_role_rank m, pb_artifact_id b, pb_causal_id b,
       pb_source_key b, pb_event_id b))"

section \<open>Semantic events (bundle\_codec/semantic.rs)\<close>

definition semantic_event_members :: "ledger_event \<Rightarrow> (string \<times> string) list" where
  "semantic_event_members e =
     [(''schema_version'', ''1''), (''event_id'', escaped (event_id e)), (''ts_ms'', show_nat (unat (ts_ms e))),
      (''event_type'', escaped (event_type e)), (''project_id'', escaped (project_id e)),
      (''session_id'', escaped (session_id e)), (''summary'', escaped (summary e)),
      (''details'', escaped (details e))]"

definition render_semantic_event :: "ledger_event \<Rightarrow> string" where
  "render_semantic_event e = template compact_layout (semantic_event_members e)"

section \<open>The event chain (bundle\_validation/event\_chain.rs)\<close>

fun event_bytes_bounded :: "nat \<Rightarrow> ledger_event list \<Rightarrow> unit result" where
  "event_bytes_bounded used [] = Inr ()"
| "event_bytes_bounded used (e # es) =
     (let n = length (render_semantic_event e) in
      rbind (enforce_byte_limit n max_prepared_event_bytes ''prepared semantic event byte limit'') (\<lambda>_.
      rbind (checked_add_bytes used n max_prepared_events_bytes ''prepared semantic event byte count overflow''
          ''prepared semantic events aggregate byte limit'') (\<lambda>used.
        event_bytes_bounded used es)))"

definition event_link_valid ::
  "hasher \<Rightarrow> string \<Rightarrow> u64 \<Rightarrow> ledger_event \<Rightarrow> prepared_event_chain \<Rightarrow> bool" where
  "event_link_valid sha previous expected_ordinal e chain \<longleftrightarrow>
     ec_event_id chain = event_id e \<and> ec_ordinal chain = expected_ordinal
     \<and> ec_previous_event_hash chain = previous \<and> ec_event_hash chain = planned_event_hash sha e previous
     \<and> is_sha256 (ec_event_hash chain)"

text \<open>The loop over the events and their links, with the ids seen and the hash of the event before.\<close>

fun event_links ::
  "hasher \<Rightarrow> prepared_source_bundle \<Rightarrow> nat \<Rightarrow> string list \<Rightarrow> string \<Rightarrow>
   (ledger_event \<times> prepared_event_chain) list \<Rightarrow> unit result" where
  "event_links sha b index ids previous [] = Inr ()"
| "event_links sha b index ids previous ((e, chain) # rest) =
     rbind (validate_ascii_id (event_id e) ''event'') (\<lambda>_.
     if event_type e = [] \<or> project_id e \<noteq> bu_project_id b \<or> session_id e \<noteq> bu_session_id b
        \<or> event_id e \<in> set ids
     then Inl (blocked_error ''prepared semantic event owner/id binding'' [])
     else
     rbind (ok_or (blocked_error ''prepared event ordinal overflow'' []) (u64_of_len (index + 1))) (\<lambda>offset.
     rbind (ok_or (blocked_error ''prepared event ordinal overflow'' [])
         (checked_add (lb_event_count (bu_ledger_binding b)) offset)) (\<lambda>expected_ordinal.
       if \<not> event_link_valid sha previous expected_ordinal e chain
       then Inl (blocked_error ''prepared semantic event chain binding'' [])
       else event_links sha b (index + 1) (event_id e # ids) (ec_event_hash chain) rest)))"

definition validate_event_chain :: "hasher \<Rightarrow> prepared_source_bundle \<Rightarrow> unit result" where
  "validate_event_chain sha b =
     (if length (bu_semantic_events b) \<noteq> length (bu_event_chain_plan b) \<or> 10 < length (bu_semantic_events b)
      then Inl (blocked_error ''prepared semantic event/chain cardinality'' [])
      else rbind (event_bytes_bounded 0 (bu_semantic_events b)) (\<lambda>_.
        event_links sha b 0 [] (lb_event_hash (bu_ledger_binding b))
          (zip (bu_semantic_events b) (bu_event_chain_plan b))))"

section \<open>Members (bundle\_validation/members.rs)\<close>

text \<open>
  The three loops over the members share their end: the artifact id is new, so is the path where
  paths have to be, and the member comes after the one before it.
\<close>

fun member_loop ::
  "(nat \<Rightarrow> prepared_member \<Rightarrow> unit result) \<Rightarrow> bool \<Rightarrow> prepared_member list \<Rightarrow> prepared_member list \<Rightarrow>
   unit result" where
  "member_loop check distinct_paths before [] = Inr ()"
| "member_loop check distinct_paths before (m # ms) =
     rbind (check (length before) m) (\<lambda>_.
     if list_ex (\<lambda>m'. pb_artifact_id (pm_binding m') = pb_artifact_id (pm_binding m)) before
        \<or> distinct_paths \<and> list_ex (\<lambda>m'. pm_path m' = pm_path m) before
     then Inl (blocked_error ''prepared member id/path'' [])
     else if before \<noteq> [] \<and> \<not> prepared_member_order (last before) < prepared_member_order m
     then Inl (blocked_error ''prepared member order'' [])
     else member_loop check distinct_paths (before @ [m]) ms)"

definition member_schema :: "prepared_member_kind \<Rightarrow> u64" where
  "member_schema k = (case k of
     ToolOutput \<Rightarrow> 1 | TranscriptV2 \<Rightarrow> 2 | WorkflowSnapshot \<Rightarrow> 4 | WorkflowPointer \<Rightarrow> 4 | CurrentImage \<Rightarrow> 2
   | ProjectionLag \<Rightarrow> 1)"

definition artifact_named :: "prepared_member \<Rightarrow> bool" where
  "artifact_named m \<longleftrightarrow> (case pb_artifact_id (pm_binding m) of
     None \<Rightarrow> False | Some i \<Rightarrow> validate_ascii_id i ''member artifact'' = Inr ())"

definition optional_id :: "string option \<Rightarrow> string \<Rightarrow> unit result" where
  "optional_id v label = (case v of None \<Rightarrow> Inr () | Some i \<Rightarrow> validate_ascii_id i label)"

definition workflow_pointer_path :: "string option \<Rightarrow> string" where
  "workflow_pointer_path w = stored_pointer_path (case w of None \<Rightarrow> [] | Some w \<Rightarrow> w)"

text \<open>The mode is \<open>0o600\<close>.\<close>

definition member_plain_file :: "prepared_member \<Rightarrow> bool" where
  "member_plain_file m \<longleftrightarrow> \<not> pm_readonly m \<and> pm_mode m = 384 \<and> pm_ownership m = None \<and> pm_bytes_utf8 m \<noteq> []"

subsection \<open>A patch approval\<close>

definition production_kinds :: "prepared_member_kind list" where
  "production_kinds = [ToolOutput, TranscriptV2, WorkflowSnapshot, WorkflowSnapshot, WorkflowPointer,
     WorkflowPointer, CurrentImage, ProjectionLag]"

definition production_limit :: "prepared_member_kind \<Rightarrow> nat" where
  "production_limit k = (case k of
     ToolOutput \<Rightarrow> 262144 | TranscriptV2 \<Rightarrow> 131072 | WorkflowSnapshot \<Rightarrow> 65536 | WorkflowPointer \<Rightarrow> 16384
   | CurrentImage \<Rightarrow> 65536 | ProjectionLag \<Rightarrow> 4096)"

definition check_production_member :: "prepared_source_bundle \<Rightarrow> nat \<Rightarrow> prepared_member \<Rightarrow> unit result" where
  "check_production_member b index m =
     (let k = pm_kind m in
      if k \<noteq> production_kinds ! index
         \<or> pm_semantic_role_rank m \<noteq> (if k = WorkflowSnapshot \<or> k = WorkflowPointer then of_nat (index mod 2) else 0)
         \<or> pb_source_key (pm_binding m) \<noteq> None
      then Inl (blocked_error ''prepared production member kind/role/source binding'' [])
      else if pm_schema_version m \<noteq> member_schema k \<or> pm_expected_type m = ''content-addressed-reference''
         \<or> \<not> member_plain_file m \<or> \<not> artifact_named m
      then Inl (blocked_error ''prepared production member schema/bytes/binding'' [])
      else
      rbind (validate_stored_path (pm_path m)) (\<lambda>_.
      if k = WorkflowPointer \<and> pm_path m \<noteq> workflow_pointer_path (bu_workflow_id b)
      then Inl (blocked_error ''prepared workflow pointer canonical path'' [])
      else
      rbind (optional_id (pb_causal_id (pm_binding m)) ''member causal'') (\<lambda>_.
      rbind (optional_id (pb_event_id (pm_binding m)) ''member event'') (\<lambda>_.
        enforce_byte_limit (length (pm_bytes_utf8 m)) (production_limit k) ''prepared member byte limit''))))"

text \<open>A path with several members must be the workflow pointer's, written for both revisions.\<close>

definition shared_path_valid :: "prepared_source_bundle \<Rightarrow> string \<Rightarrow> bool" where
  "shared_path_valid b path \<longleftrightarrow>
     (let ms = filter (\<lambda>m. pm_path m = path) (bu_additional_members b) in
      length ms = 1
      \<or> length ms = 2 \<and> path = workflow_pointer_path (bu_workflow_id b)
        \<and> list_all (\<lambda>m. pm_kind m = WorkflowPointer) ms
        \<and> pm_semantic_role_rank (ms ! 0) = 0 \<and> pm_semantic_role_rank (ms ! 1) = 1)"

definition projection_lag_keys :: "string list" where
  "projection_lag_keys = [''schema_version'', ''intent_id'', ''event_id'', ''event_ordinal'', ''event_hash'',
     ''required_outputs'', ''required_event_ids'']"

definition lag_outputs :: "string list" where
  "lag_outputs = [''project-session-ledger'', ''global-operation-log'', ''sqlite'']"

definition lag_path :: "string \<Rightarrow> string \<Rightarrow> string" where
  "lag_path intent_id eid = ''state/projection-lag/'' @ intent_id @ ''-'' @ eid @ ''.json''"

definition projection_lag_bound ::
  "hasher \<Rightarrow> prepared_source_bundle \<Rightarrow> prepared_member \<Rightarrow> ledger_event \<Rightarrow> bool" where
  "projection_lag_bound sha b lag final_event \<longleftrightarrow>
     pm_path lag = lag_path (bu_intent_id b) (event_id final_event)
     \<and> pb_artifact_id (pm_binding lag) = Some (''projection-lag-'' @ sha256_bytes sha (pm_bytes_utf8 lag))
     \<and> pb_causal_id (pm_binding lag) = None \<and> pm_expected_type lag = ''absent''"

definition validate_projection_lag_member ::
  "hasher \<Rightarrow> prepared_source_bundle \<Rightarrow> prepared_member \<Rightarrow> unit result" where
  "validate_projection_lag_member sha b lag =
     (let ctxt = ''projection lag member''; conflict = Inl (blocked_error ''prepared projection lag canonical/reference binding'' []) in
      rbind (parse_canonical_object (pm_bytes_utf8 lag) projection_lag_keys ctxt) (\<lambda>obj.
      if length (bu_semantic_events b) \<le> 9 then Inl (blocked_error ''projection lag final event'' [])
      else if length (bu_event_chain_plan b) \<le> 9 then Inl (blocked_error ''projection lag final chain'' [])
      else
      let final_event = bu_semantic_events b ! 9; final_chain = bu_event_chain_plan b ! 9 in
      rbind (required_string_array obj ''required_outputs'') (\<lambda>outputs.
      rbind (required_string_array obj ''required_event_ids'') (\<lambda>ids.
      rbind (canonical_u64 obj ''schema_version'' ctxt) (\<lambda>schema.
      if schema \<noteq> 1 then conflict else
      rbind (required_string obj ''intent_id'') (\<lambda>intent.
      if intent \<noteq> bu_intent_id b then conflict else
      rbind (required_string obj ''event_id'') (\<lambda>eid.
      if eid \<noteq> event_id final_event then conflict else
      rbind (canonical_u64 obj ''event_ordinal'' ctxt) (\<lambda>ordinal.
      if ordinal \<noteq> ec_ordinal final_chain then conflict else
      rbind (required_string obj ''event_hash'') (\<lambda>hash.
      if hash \<noteq> ec_event_hash final_chain \<or> outputs \<noteq> lag_outputs
         \<or> ids \<noteq> map event_id (bu_semantic_events b) \<or> \<not> projection_lag_bound sha b lag final_event
      then conflict else Inr ())))))))))"

definition validate_production_members :: "hasher \<Rightarrow> prepared_source_bundle \<Rightarrow> unit result" where
  "validate_production_members sha b =
     (let ms = bu_additional_members b; events = bu_semantic_events b in
      if bu_intent_kind b \<noteq> ''approve-patch'' \<or> bu_source_install b = None
      then Inl (blocked_error ''prepared approval member intent binding'' [])
      else if length ms \<noteq> 8 \<or> length events \<noteq> 10 \<or> bu_workflow_id b = None
         \<or> bu_projection_lag_member_index b \<noteq> Some 10
      then Inl (blocked_error ''prepared production approval exact-11 cardinality'' [])
      else
      rbind (member_loop (check_production_member b) False [] ms) (\<lambda>_.
      if list_ex (\<lambda>m. \<not> shared_path_valid b (pm_path m)) ms
      then Inl (blocked_error ''prepared member duplicate path'' [])
      else if pm_kind (last ms) \<noteq> ProjectionLag \<or> pb_event_id (pm_binding (last ms)) \<noteq> Some (event_id (events ! 9))
      then Inl (blocked_error ''prepared projection lag E9/index binding'' [])
      else validate_projection_lag_member sha b (last ms)))"

subsection \<open>A state transition (members/workflow.rs)\<close>

definition preserved_reconcile :: "prepared_source_bundle \<Rightarrow> bool" where
  "preserved_reconcile b \<longleftrightarrow> bu_intent_kind b = ''reconcile'' \<and> bu_current_revision b = 0
     \<and> bu_current_artifact_hash b \<noteq> ''missing''"

definition transition_kinds :: "prepared_source_bundle \<Rightarrow> prepared_member_kind list" where
  "transition_kinds b =
     (if bu_intent_kind b = ''checkpoint-workflow'' then [WorkflowSnapshot, WorkflowPointer, CurrentImage]
      else if preserved_reconcile b then [ToolOutput, CurrentImage]
      else [CurrentImage])"

definition event_type_matches :: "string \<Rightarrow> string \<Rightarrow> bool" where
  "event_type_matches kind type \<longleftrightarrow>
     kind = ''bootstrap'' \<and> type = ''runtime.init''
     \<or> kind = ''checkpoint-workflow'' \<and> type = ''workflow.checkpoint''
     \<or> kind = ''repair-workflow-pointer'' \<and> type = ''workflow.pointer.recovered''
     \<or> kind = ''clear-terminal-workflow'' \<and> type = ''workflow.pointer.cleared''
     \<or> kind = ''reconcile'' \<and> starts_with ''state.reconcile.'' type
     \<or> kind = ''resume'' \<and> starts_with ''workflow.resume.'' type
     \<or> kind = ''cancel'' \<and> starts_with ''workflow.cancel.'' type
     \<or> kind = ''start-session'' \<and> type = ''session.new''
     \<or> kind = ''select-session'' \<and> type = ''session.resume.selected''
     \<or> kind = ''record-event'' \<and> type \<noteq> []"

definition transition_limit :: "prepared_member_kind \<Rightarrow> nat" where
  "transition_limit k = (if k = WorkflowPointer then 16384 else 65536)"

definition check_transition_member :: "prepared_source_bundle \<Rightarrow> nat \<Rightarrow> prepared_member \<Rightarrow> unit result" where
  "check_transition_member b index m =
     (let k = pm_kind m in
      if k \<noteq> transition_kinds b ! index \<or> pm_semantic_role_rank m \<noteq> 0 \<or> pb_source_key (pm_binding m) \<noteq> None
         \<or> \<not> member_plain_file m
      then Inl (blocked_error ''prepared state transition member metadata'' [])
      else if pm_schema_version m \<noteq> member_schema k \<or> transition_limit k < length (pm_bytes_utf8 m)
      then Inl (blocked_error ''prepared state transition member schema/byte limit'' [])
      else
      rbind (validate_stored_path (pm_path m)) (\<lambda>_.
      rbind (ok_or (blocked_error ''prepared state transition artifact id'' []) (pb_artifact_id (pm_binding m))) (\<lambda>artifact.
      rbind (validate_ascii_id artifact ''member artifact'') (\<lambda>_.
        if pb_event_id (pm_binding m) \<noteq> Some (event_id (hd (bu_semantic_events b)))
        then Inl (blocked_error ''prepared state transition member event'' []) else Inr ()))))"

definition reconcile_reason :: "string \<Rightarrow> string result" where
  "reconcile_reason type =
     (if type = ''state.reconcile.corrupt_recovered'' then Inr ''corrupt''
      else if type = ''state.reconcile.stale_recovered'' then Inr ''stale''
      else Inl (blocked_error ''prepared reconcile preserved reason'' []))"

definition check_reconcile_backup :: "hasher \<Rightarrow> prepared_source_bundle \<Rightarrow> unit result" where
  "check_reconcile_backup sha b =
     (let backup = hd (bu_additional_members b) in
      rbind (reconcile_reason (event_type (hd (bu_semantic_events b)))) (\<lambda>reason.
        if pm_path backup \<noteq> ''state/current-state.json.'' @ reason @ ''.'' @ bu_intent_id b
           \<or> pm_expected_type backup \<noteq> ''absent''
           \<or> sha256_bytes sha (pm_bytes_utf8 backup) \<noteq> bu_current_artifact_hash b
           \<or> pb_causal_id (pm_binding backup) \<noteq> None
        then Inl (blocked_error ''prepared reconcile preserved member binding'' []) else Inr ()))"

definition check_checkpoint_members ::
  "hasher \<Rightarrow> ledger_binding result \<Rightarrow> prepared_source_bundle \<Rightarrow> unit result" where
  "check_checkpoint_members sha ambient b =
     (let ms = bu_additional_members b; e = hd (bu_semantic_events b) in
      rbind (ok_or (blocked_error ''prepared checkpoint workflow id'' []) (bu_workflow_id b)) (\<lambda>w.
      rbind (decode_prepared_workflow_revision sha w (ms ! 0) (ms ! 1) e) (\<lambda>prepared.
      rbind (ok_or (blocked_error ''prepared checkpoint final chain'' [])
          (if bu_event_chain_plan b = [] then None else Some (last (bu_event_chain_plan b)))) (\<lambda>final_chain.
      rbind (decode_prepared_current_image sha ambient (last ms) (pr_record prepared) (chain_binding final_chain)
          (pr_snapshot_member_id prepared) (event_id e)) (\<lambda>_. Inr ())))))"

definition validate_state_transition_members ::
  "hasher \<Rightarrow> ledger_binding result \<Rightarrow> prepared_source_bundle \<Rightarrow> unit result" where
  "validate_state_transition_members sha ambient b =
     (let checkpoint = (bu_intent_kind b = ''checkpoint-workflow''); ms = bu_additional_members b;
          events = bu_semantic_events b in
      if bu_source_install b \<noteq> None \<or> bu_before_bytes b \<noteq> None \<or> bu_proposed_bytes b \<noteq> None
         \<or> bu_projection_lag_member_index b \<noteq> None \<or> length events \<noteq> 1
         \<or> length ms \<noteq> length (transition_kinds b) \<or> checkpoint \<and> bu_workflow_id b = None
      then Inl (blocked_error ''prepared state transition exact shape'' [])
      else if \<not> event_type_matches (bu_intent_kind b) (event_type (hd events))
      then Inl (blocked_error ''prepared state transition semantic event type'' [])
      else
      rbind (member_loop (check_transition_member b) True [] ms) (\<lambda>_.
      rbind (if preserved_reconcile b then check_reconcile_backup sha b else Inr ()) (\<lambda>_.
      rbind (validate_prepared_state_current_member sha ambient b (last ms)) (\<lambda>_.
        if checkpoint then check_checkpoint_members sha ambient b else Inr ()))))"

subsection \<open>An approved verification or a terminal action\<close>

definition verification_types :: "string \<Rightarrow> string list result" where
  "verification_types kind =
     (let types = (\<lambda>final. Inr [''runtime.intent.accepted'', ''workflow.checkpoint'', final]) in
      if kind = ''approve-verification'' then types ''patch.verification.approved''
      else if kind = ''deny-patch'' then types ''patch.apply.denied''
      else if kind = ''deny-verification'' then types ''patch.verification.denied''
      else if kind = ''cancel-workflow'' then types ''workflow.user-cancelled''
      else Inl (blocked_error ''prepared single revision intent'' []))"

definition verification_kinds :: "prepared_member_kind list" where
  "verification_kinds = [WorkflowSnapshot, WorkflowPointer, CurrentImage]"

definition check_verification_member :: "prepared_source_bundle \<Rightarrow> nat \<Rightarrow> prepared_member \<Rightarrow> unit result" where
  "check_verification_member b index m =
     (let k = pm_kind m in
      if k \<noteq> verification_kinds ! index \<or> pm_semantic_role_rank m \<noteq> 0 \<or> pb_source_key (pm_binding m) \<noteq> None
         \<or> \<not> member_plain_file m \<or> pm_expected_type m = ''content-addressed-reference''
      then Inl (blocked_error ''prepared verification member kind/metadata'' [])
      else if pm_schema_version m \<noteq> member_schema k \<or> \<not> artifact_named m
      then Inl (blocked_error ''prepared verification member schema/binding'' [])
      else if transition_limit k < length (pm_bytes_utf8 m)
      then Inl (blocked_error ''prepared verification member byte limit'' [])
      else
      rbind (validate_stored_path (pm_path m)) (\<lambda>_.
      if k = WorkflowPointer \<and> pm_path m \<noteq> workflow_pointer_path (bu_workflow_id b)
      then Inl (blocked_error ''prepared verification workflow pointer path'' [])
      else
      rbind (optional_id (pb_causal_id (pm_binding m)) ''member causal'') (\<lambda>_.
        optional_id (pb_event_id (pm_binding m)) ''member event'')))"

definition validate_verification_members :: "prepared_source_bundle \<Rightarrow> unit result" where
  "validate_verification_members b =
     rbind (verification_types (bu_intent_kind b)) (\<lambda>types.
     if length (bu_additional_members b) \<noteq> length verification_kinds \<or> length (bu_semantic_events b) \<noteq> length types
        \<or> bu_workflow_id b = None \<or> bu_projection_lag_member_index b \<noteq> None
        \<or> map event_type (bu_semantic_events b) \<noteq> types
     then Inl (blocked_error ''prepared verification approval exact shape'' [])
     else member_loop (check_verification_member b) True [] (bu_additional_members b))"

subsection \<open>The check of the members\<close>

definition validate_additional_members ::
  "hasher \<Rightarrow> ledger_binding result \<Rightarrow> prepared_source_bundle \<Rightarrow> unit result" where
  "validate_additional_members sha ambient b =
     (let kind = bu_intent_kind b in
      if bu_additional_members b = [] then
        (if kind \<noteq> ''approve-patch'' \<or> bu_source_install b = None \<or> bu_projection_lag_member_index b \<noteq> None
         then Inl (blocked_error ''prepared source-only bundle'' []) else Inr ())
      else if kind = ''approve-verification'' then validate_verification_members b
      else if is_terminal_action_intent_kind kind then validate_verification_members b
      else if is_state_transition_intent_kind kind then validate_state_transition_members sha ambient b
      else validate_production_members sha b)"

section \<open>The bundle (bundle\_validation.rs)\<close>

definition intent_kind_known :: "string \<Rightarrow> bool" where
  "intent_kind_known kind \<longleftrightarrow> kind = ''approve-patch'' \<or> kind = ''approve-verification''
     \<or> is_state_transition_intent_kind kind \<or> is_terminal_action_intent_kind kind"

definition before_binding_valid :: "prepared_source_bundle \<Rightarrow> bool" where
  "before_binding_valid b \<longleftrightarrow>
     (let kind = bu_intent_kind b; hash = bu_current_artifact_hash b; ledger = bu_ledger_binding b;
          missing = (bu_current_revision b = 0 \<and> hash = ''missing''
            \<and> kind \<in> {''bootstrap'', ''repair-workflow-pointer'', ''reconcile'', ''start-session''});
          preserved = (bu_current_revision b = 0 \<and> is_sha256 hash \<and> kind = ''reconcile'')
      in (missing \<or> preserved \<or> bu_current_revision b \<noteq> 0 \<and> is_sha256 hash)
         \<and> (lb_event_count ledger = 0 \<longrightarrow> lb_event_id ledger = None \<and> lb_event_hash ledger = ''root'')
         \<and> (lb_event_count ledger \<noteq> 0 \<longrightarrow> lb_event_id ledger \<noteq> None \<and> is_sha256 (lb_event_hash ledger)))"

definition source_bytes_bound :: "hasher \<Rightarrow> source_install_v1 \<Rightarrow> string \<Rightarrow> string \<Rightarrow> bool" where
  "source_bytes_bound sha source before proposed \<longleftrightarrow>
     sha256_bytes sha before = si_before_sha256 source \<and> sha256_bytes sha proposed = si_proposed_sha256 source"

definition validate_bundle_source :: "hasher \<Rightarrow> prepared_source_bundle \<Rightarrow> unit result" where
  "validate_bundle_source sha b =
     (let kind = bu_intent_kind b in
      case (bu_source_install b, bu_before_bytes b, bu_proposed_bytes b) of
        (Some source, Some before, Some proposed) \<Rightarrow>
          if kind = ''approve-patch'' then
            rbind (validate_source_install_v1 sha source) (\<lambda>_.
              if \<not> source_bytes_bound sha source before proposed
              then Inl (blocked_error ''prepared source bundle hash binding'' []) else Inr ())
          else if is_terminal_action_intent_kind kind then
            rbind (validate_source_install_v1 sha source) (\<lambda>_.
              if \<not> source_bytes_bound sha source before proposed \<or> kind = ''deny-patch''
              then Inl (blocked_error ''prepared terminal source bundle hash/intent'' []) else Inr ())
          else Inl (blocked_error ''prepared bundle source nullability'' [])
      | (None, None, None) \<Rightarrow>
          if kind = ''approve-verification'' then Inr ()
          else if is_terminal_action_intent_kind kind then
            (if kind = ''deny-verification'' then Inl (blocked_error ''prepared denial rollback source'' []) else Inr ())
          else if is_state_transition_intent_kind kind then Inr ()
          else Inl (blocked_error ''prepared bundle source nullability'' [])
      | _ \<Rightarrow> Inl (blocked_error ''prepared bundle source nullability'' []))"

definition validate_prepared_source_bundle ::
  "hasher \<Rightarrow> ledger_binding result \<Rightarrow> prepared_source_bundle \<Rightarrow> unit result" where
  "validate_prepared_source_bundle sha ambient b =
     rbind (validate_ascii_id (bu_intent_id b) ''intent'') (\<lambda>_.
     rbind (validate_ascii_id (bu_project_id b) ''project'') (\<lambda>_.
     rbind (validate_ascii_id (bu_session_id b) ''session'') (\<lambda>_.
     rbind (optional_id (bu_workflow_id b) ''workflow'') (\<lambda>_.
     if \<not> intent_kind_known (bu_intent_kind b) then Inl (blocked_error ''prepared bundle intent kind'' [])
     else if \<not> before_binding_valid b then Inl (blocked_error ''prepared source bundle binding'' [])
     else
     rbind (validate_bundle_source sha b) (\<lambda>_.
     rbind (validate_event_chain sha b) (\<lambda>_.
       validate_additional_members sha ambient b))))))"

end
