(* ===== verification/Bundle_Codec.thy ===== *)
theory Bundle_Codec
  imports Bundle
begin

text \<open>
  The text of a bundle, as the journal keeps it (\<open>transition/bundle_codec\<close>, \<open>journal/codec.rs\<close>).
\<close>

section \<open>Keys (contracts.rs)\<close>

definition prepared_bundle_keys :: "string list" where
  "prepared_bundle_keys = [''schema_version'', ''intent_id'', ''intent_kind'', ''project_id'', ''session_id'',
     ''workflow_id'', ''prepared_at_ms'', ''before_binding'', ''members'', ''semantic_events'',
     ''event_chain_plan'', ''source_install_v1'', ''projection_lag_v1'']"

definition before_binding_keys :: "string list" where
  "before_binding_keys = [''current_revision'', ''current_artifact_hash'', ''ledger_count'', ''ledger_event_id'',
     ''ledger_hash'']"

definition member_keys :: "string list" where
  "member_keys = [''member_kind'', ''path'', ''schema_version'', ''owner'', ''binding'', ''prepared_at_ms'',
     ''bytes_utf8'', ''byte_length'', ''sha256'', ''expected_type'', ''expected_identity'', ''permissions'',
     ''ownership'']"

definition owner_keys :: "string list" where
  "owner_keys = [''project_id'', ''session_id'', ''workflow_id'', ''intent_id'']"

definition binding_keys :: "string list" where
  "binding_keys = [''artifact_id'', ''causal_id'', ''source_key'', ''event_id'']"

definition member_permission_keys :: "string list" where
  "member_permission_keys = [''readonly'', ''mode'']"

definition semantic_event_keys :: "string list" where
  "semantic_event_keys = [''schema_version'', ''event_id'', ''ts_ms'', ''event_type'', ''project_id'',
     ''session_id'', ''summary'', ''details'']"

definition event_chain_plan_keys :: "string list" where
  "event_chain_plan_keys = [''event_id'', ''ordinal'', ''previous_event_hash'', ''event_hash'']"

definition projection_lag_reference_keys :: "string list" where
  "projection_lag_reference_keys = [''member_kind'', ''member_index'']"

section \<open>Events and chain (bundle\_codec/semantic.rs)\<close>

definition text_array :: "string list \<Rightarrow> string" where
  "text_array rows = ''['' @ join '','' rows @ '']''"

definition render_semantic_events :: "ledger_event list \<Rightarrow> string" where
  "render_semantic_events es = text_array (map render_semantic_event es)"

definition object_array :: "canonical_object \<Rightarrow> string \<Rightarrow> string \<Rightarrow> cjson list result" where
  "object_array obj key message =
     (case object_get key obj of Some (CArray vs) \<Rightarrow> Inr vs | _ \<Rightarrow> Inl (blocked_error message []))"

definition as_object :: "string \<Rightarrow> cjson \<Rightarrow> canonical_object result" where
  "as_object message v = (case v of CObject kvs \<Rightarrow> Inr kvs | _ \<Rightarrow> Inl (blocked_error message []))"

definition require_that :: "bool \<Rightarrow> string \<Rightarrow> unit result" where
  "require_that holds message = (if holds then Inr () else Inl (blocked_error message []))"

definition parse_semantic_event :: "cjson \<Rightarrow> ledger_event result" where
  "parse_semantic_event v =
     rbind (as_object ''prepared semantic event type'' v) (\<lambda>e.
     rbind (require_keys e semantic_event_keys) (\<lambda>_.
     rbind (canonical_u64 e ''schema_version'' ''semantic event'') (\<lambda>schema.
     rbind (require_that (schema = 1) ''prepared semantic event schema'') (\<lambda>_.
     rbind (required_string e ''event_id'') (\<lambda>eid.
     rbind (canonical_u128 e ''ts_ms'' ''semantic event'') (\<lambda>ts.
     rbind (required_string e ''event_type'') (\<lambda>type.
     rbind (required_string e ''project_id'') (\<lambda>project.
     rbind (required_string e ''session_id'') (\<lambda>session.
     rbind (required_string e ''summary'') (\<lambda>summary_text.
     rbind (required_string e ''details'') (\<lambda>detail_text.
       Inr \<lparr>event_id = eid, ts_ms = ts, event_type = type, project_id = project, session_id = session,
         summary = summary_text, details = detail_text\<rparr>)))))))))))"

definition parse_semantic_events :: "canonical_object \<Rightarrow> ledger_event list result" where
  "parse_semantic_events obj =
     rbind (object_array obj ''semantic_events'' ''prepared semantic_events type'') (traverse parse_semantic_event)"

definition chain_members :: "prepared_event_chain \<Rightarrow> (string \<times> string) list" where
  "chain_members c =
     [(''event_id'', escaped (ec_event_id c)), (''ordinal'', show_nat (unat (ec_ordinal c))),
      (''previous_event_hash'', quoted (ec_previous_event_hash c)), (''event_hash'', quoted (ec_event_hash c))]"

definition render_event_chain_plan :: "prepared_event_chain list \<Rightarrow> string" where
  "render_event_chain_plan cs = text_array (map (\<lambda>c. template compact_layout (chain_members c)) cs)"

definition parse_event_chain :: "cjson \<Rightarrow> prepared_event_chain result" where
  "parse_event_chain v =
     rbind (as_object ''prepared event chain entry type'' v) (\<lambda>c.
     rbind (require_keys c event_chain_plan_keys) (\<lambda>_.
     rbind (required_string c ''event_id'') (\<lambda>eid.
     rbind (canonical_u64 c ''ordinal'' ''event chain plan'') (\<lambda>ordinal.
     rbind (required_string c ''previous_event_hash'') (\<lambda>previous.
     rbind (required_string c ''event_hash'') (\<lambda>hash.
       Inr \<lparr>ec_event_id = eid, ec_ordinal = ordinal, ec_previous_event_hash = previous, ec_event_hash = hash\<rparr>))))))"

definition parse_event_chain_plan :: "canonical_object \<Rightarrow> prepared_event_chain list result" where
  "parse_event_chain_plan obj =
     rbind (object_array obj ''event_chain_plan'' ''prepared event_chain_plan type'') (traverse parse_event_chain)"

definition render_projection_lag_reference :: "u64 option \<Rightarrow> string" where
  "render_projection_lag_reference index =
     (case index of
        None \<Rightarrow> ''null''
      | Some i \<Rightarrow> template compact_layout
          [(''member_kind'', quoted ''projection_lag''), (''member_index'', show_nat (unat i))])"

definition parse_projection_lag_reference :: "canonical_object \<Rightarrow> u64 option result" where
  "parse_projection_lag_reference obj =
     (case object_get ''projection_lag_v1'' obj of
        Some CNull \<Rightarrow> Inr None
      | Some (CObject reference) \<Rightarrow>
          rbind (require_keys reference projection_lag_reference_keys) (\<lambda>_.
          rbind (required_string reference ''member_kind'') (\<lambda>kind.
          rbind (require_that (kind = ''projection_lag'') ''prepared projection lag reference kind'') (\<lambda>_.
          rbind (canonical_u64 reference ''member_index'' ''projection lag reference'') (\<lambda>i. Inr (Some i)))))
      | _ \<Rightarrow> Inl (blocked_error ''prepared projection_lag_v1 type'' []))"

section \<open>Writing members (bundle\_codec/source\_members.rs)\<close>

definition owner_members :: "prepared_source_bundle \<Rightarrow> (string \<times> string) list" where
  "owner_members b =
     [(''project_id'', quoted (bu_project_id b)), (''session_id'', quoted (bu_session_id b)),
      (''workflow_id'', render_optional_string (bu_workflow_id b)), (''intent_id'', quoted (bu_intent_id b))]"

definition binding_members :: "prepared_member_binding \<Rightarrow> (string \<times> string) list" where
  "binding_members x =
     [(''artifact_id'', render_optional_string (pb_artifact_id x)),
      (''causal_id'', render_optional_string (pb_causal_id x)),
      (''source_key'', render_optional_string (pb_source_key x)),
      (''event_id'', render_optional_string (pb_event_id x))]"

definition additional_member_fields :: "hasher \<Rightarrow> prepared_source_bundle \<Rightarrow> prepared_member \<Rightarrow> (string \<times> string) list" where
  "additional_member_fields sha b m =
     [(''member_kind'', quoted (member_kind_str (pm_kind m))), (''path'', escaped (pm_path m)),
      (''schema_version'', show_nat (unat (pm_schema_version m))),
      (''owner'', template compact_layout (owner_members b)),
      (''binding'', template compact_layout (binding_members (pm_binding m))),
      (''prepared_at_ms'', show_nat (unat (bu_prepared_at_ms b))), (''bytes_utf8'', escaped (pm_bytes_utf8 m)),
      (''byte_length'', show_nat (length (pm_bytes_utf8 m))),
      (''sha256'', quoted (sha256_bytes sha (pm_bytes_utf8 m))), (''expected_type'', quoted (pm_expected_type m)),
      (''expected_identity'', render_optional_string (pm_expected_identity m)),
      (''permissions'', template compact_layout
         [(''readonly'', show_bool (pm_readonly m)), (''mode'', show_nat (unat (pm_mode m)))]),
      (''ownership'', render_optional_string (pm_ownership m))]"

definition render_additional_member :: "hasher \<Rightarrow> prepared_source_bundle \<Rightarrow> prepared_member \<Rightarrow> string" where
  "render_additional_member sha b m = template compact_layout (additional_member_fields sha b m)"

text \<open>The closure \<open>member\<close> of \<open>render_source_members\<close>, and its three members.\<close>

definition source_member_fields ::
  "prepared_source_bundle \<Rightarrow> source_install_v1 \<Rightarrow> string \<Rightarrow> string \<Rightarrow> string \<Rightarrow> string option \<Rightarrow> u64 \<Rightarrow> string \<Rightarrow>
   string \<Rightarrow> string option \<Rightarrow> string option \<Rightarrow> (string \<times> string) list" where
  "source_member_fields b source kind path artifact bytes len hash expected_type identity owner =
     [(''member_kind'', quoted kind), (''path'', escaped path), (''schema_version'', ''null''),
      (''owner'', template compact_layout (owner_members b)),
      (''binding'', template compact_layout
         [(''artifact_id'', quoted artifact), (''causal_id'', ''null''), (''source_key'', quoted (si_source_key source)),
          (''event_id'', ''null'')]),
      (''prepared_at_ms'', show_nat (unat (bu_prepared_at_ms b))), (''bytes_utf8'', render_optional_string bytes),
      (''byte_length'', show_nat (unat len)), (''sha256'', quoted hash), (''expected_type'', quoted expected_type),
      (''expected_identity'', render_optional_string identity),
      (''permissions'', template compact_layout
         [(''readonly'', ''false''), (''mode'', show_nat (unat (um_before_mode (si_unix_metadata source))))]),
      (''ownership'', render_optional_string owner)]"

definition source_members ::
  "prepared_source_bundle \<Rightarrow> source_install_v1 \<Rightarrow> string \<Rightarrow> string \<Rightarrow> (string \<times> string) list list" where
  "source_members b source before proposed =
     [source_member_fields b source ''before_blob'' (bl_member_path (si_before_blob source))
        (bl_blob_id (si_before_blob source)) (Some before) (si_before_byte_length source) (si_before_sha256 source)
        ''file'' (pp_expected_identity (si_target source)) (Some (so_before_owner (si_ownership source))),
      source_member_fields b source ''proposed_blob'' (bl_member_path (si_proposed_blob source))
        (bl_blob_id (si_proposed_blob source)) (Some proposed) (si_proposed_byte_length source)
        (si_proposed_sha256 source) ''file'' None (Some (so_install_owner (si_ownership source))),
      source_member_fields b source ''rollback_ref'' (pp_path (si_rollback_final source))
        (''rollback-ref-'' @ si_source_key source) None (si_before_byte_length source) (si_before_sha256 source)
        ''content-addressed-reference'' (Some (si_before_sha256 source)) (Some (so_before_owner (si_ownership source)))]"

definition render_source_members :: "hasher \<Rightarrow> prepared_source_bundle \<Rightarrow> string result" where
  "render_source_members sha b =
     (let additional = map (render_additional_member sha b) (bu_additional_members b) in
      case bu_source_install b of
        None \<Rightarrow> Inr (text_array additional)
      | Some source \<Rightarrow>
          rbind (ok_or (blocked_error ''prepared source before bytes'' []) (bu_before_bytes b)) (\<lambda>before.
          rbind (ok_or (blocked_error ''prepared source proposed bytes'' []) (bu_proposed_bytes b)) (\<lambda>proposed.
            Inr (text_array (map (template compact_layout) (source_members b source before proposed) @ additional)))))"

section \<open>Reading members (additional\_members.rs, source\_members.rs)\<close>

record member_parse_context =
  mc_prepared_at_ms :: u128
  mc_project_id :: string
  mc_session_id :: string
  mc_workflow_id :: "string option"
  mc_intent_id :: string
  mc_intent_kind :: string
  mc_semantic_events :: "ledger_event list"

definition check_member_owner :: "member_parse_context \<Rightarrow> canonical_object \<Rightarrow> string \<Rightarrow> unit result" where
  "check_member_owner ctx member message =
     rbind (required_object member ''owner'') (\<lambda>owner.
     rbind (require_keys owner owner_keys) (\<lambda>_.
     rbind (required_string owner ''project_id'') (\<lambda>project.
     rbind (require_that (project = mc_project_id ctx) message) (\<lambda>_.
     rbind (required_string owner ''session_id'') (\<lambda>session.
     rbind (require_that (session = mc_session_id ctx) message) (\<lambda>_.
     rbind (optional_string owner ''workflow_id'') (\<lambda>w.
     rbind (require_that (w = mc_workflow_id ctx) message) (\<lambda>_.
     rbind (required_string owner ''intent_id'') (\<lambda>intent.
       require_that (intent = mc_intent_id ctx) message)))))))))"

text \<open>The roles of the two revisions of a workflow, told apart by the events their members name.\<close>

definition derive_workflow_role_rank :: "string option \<Rightarrow> string \<Rightarrow> ledger_event list \<Rightarrow> u8 result" where
  "derive_workflow_role_rank eid kind events =
     (let named = (\<lambda>i. eid = Some (event_id (events ! i))) in
      if kind = ''approve-patch'' \<and> length events = 10 then
        (if named 1 then Inr 0 else if named 9 then Inr 1
         else Inl (blocked_error ''prepared workflow member event/role binding'' []))
      else if kind = ''approve-verification'' \<and> length events = 3 then
        (if named 1 then Inr 0 else Inl (blocked_error ''prepared verification workflow member event binding'' []))
      else if is_terminal_action_intent_kind kind \<and> length events = 3 then
        (if named 1 then Inr 0 else Inl (blocked_error ''prepared terminal workflow member event binding'' []))
      else if kind = ''checkpoint-workflow'' \<and> length events = 1 then
        (if named 0 then Inr 0 else Inl (blocked_error ''prepared checkpoint workflow member event binding'' []))
      else Inl (blocked_error ''prepared workflow member event plan'' []))"

text \<open>The fields of a member once its bytes and its binding are known, in the order they are read.\<close>

definition parse_member_fields ::
  "canonical_object \<Rightarrow> canonical_object \<Rightarrow> canonical_object \<Rightarrow> prepared_member_kind \<Rightarrow> string \<Rightarrow>
   string option \<Rightarrow> u8 \<Rightarrow> prepared_member result" where
  "parse_member_fields member bound permissions kind bytes eid role =
     rbind (required_string member ''path'') (\<lambda>path.
     rbind (canonical_u64 member ''schema_version'' ''prepared member'') (\<lambda>schema.
     rbind (optional_string bound ''artifact_id'') (\<lambda>artifact.
     rbind (optional_string bound ''causal_id'') (\<lambda>causal.
     rbind (optional_string bound ''source_key'') (\<lambda>source.
     rbind (required_string member ''expected_type'') (\<lambda>expected_type.
     rbind (optional_string member ''expected_identity'') (\<lambda>identity.
     rbind (required_bool permissions ''readonly'') (\<lambda>readonly.
     rbind (required_u32 permissions ''mode'') (\<lambda>mode.
     rbind (optional_string member ''ownership'') (\<lambda>ownership.
       Inr \<lparr>pm_kind = kind, pm_path = path, pm_schema_version = schema,
         pm_binding = \<lparr>pb_artifact_id = artifact, pb_causal_id = causal, pb_source_key = source, pb_event_id = eid\<rparr>,
         pm_bytes_utf8 = bytes, pm_expected_type = expected_type, pm_expected_identity = identity,
         pm_readonly = readonly, pm_mode = mode, pm_ownership = ownership, pm_semantic_role_rank = role\<rparr>))))))))))"

definition parse_additional_member :: "hasher \<Rightarrow> member_parse_context \<Rightarrow> cjson \<Rightarrow> prepared_member result" where
  "parse_additional_member sha ctx v =
     rbind (as_object ''prepared member type'' v) (\<lambda>member.
     rbind (require_keys member member_keys) (\<lambda>_.
     rbind (check_member_owner ctx member ''prepared member owner'') (\<lambda>_.
     rbind (required_object member ''binding'') (\<lambda>bound.
     rbind (require_keys bound binding_keys) (\<lambda>_.
     rbind (required_object member ''permissions'') (\<lambda>permissions.
     rbind (require_keys permissions member_permission_keys) (\<lambda>_.
     rbind (required_u128 member ''prepared_at_ms'') (\<lambda>at.
     rbind (require_that (at = mc_prepared_at_ms ctx) ''prepared member timestamp binding'') (\<lambda>_.
     rbind (rbind (optional_string member ''bytes_utf8'') (ok_or (blocked_error ''prepared non-reference member bytes'' []))) (\<lambda>bytes.
     rbind (canonical_u64 member ''byte_length'' ''prepared member'') (\<lambda>len.
     rbind (require_that (u64_of_len (length bytes) = Some len) ''prepared member byte/hash binding'') (\<lambda>_.
     rbind (required_string member ''sha256'') (\<lambda>hash.
     rbind (require_that (sha256_bytes sha bytes = hash) ''prepared member byte/hash binding'') (\<lambda>_.
     rbind (rbind (required_string member ''member_kind'') member_kind_parse) (\<lambda>kind.
     rbind (optional_string bound ''event_id'') (\<lambda>eid.
     rbind (if kind = WorkflowSnapshot \<or> kind = WorkflowPointer
            then derive_workflow_role_rank eid (mc_intent_kind ctx) (mc_semantic_events ctx) else Inr 0) (\<lambda>role.
       parse_member_fields member bound permissions kind bytes eid role)))))))))))))))))"

definition parse_additional_members ::
  "hasher \<Rightarrow> canonical_object \<Rightarrow> member_parse_context \<Rightarrow> prepared_member list result" where
  "parse_additional_members sha root ctx =
     rbind (object_array root ''members'' ''prepared members type'') (traverse (parse_additional_member sha ctx))"

record source_member_expectation =
  sm_kind :: string
  sm_path :: string
  sm_artifact :: "string option"
  sm_sha256 :: string
  sm_length :: u64
  sm_has_bytes :: bool

definition expected_source_members :: "source_install_v1 \<Rightarrow> source_member_expectation list" where
  "expected_source_members source =
     [\<lparr>sm_kind = ''before_blob'', sm_path = bl_member_path (si_before_blob source),
       sm_artifact = Some (bl_blob_id (si_before_blob source)), sm_sha256 = si_before_sha256 source,
       sm_length = si_before_byte_length source, sm_has_bytes = True\<rparr>,
      \<lparr>sm_kind = ''proposed_blob'', sm_path = bl_member_path (si_proposed_blob source),
       sm_artifact = Some (bl_blob_id (si_proposed_blob source)), sm_sha256 = si_proposed_sha256 source,
       sm_length = si_proposed_byte_length source, sm_has_bytes = True\<rparr>,
      \<lparr>sm_kind = ''rollback_ref'', sm_path = pp_path (si_rollback_final source), sm_artifact = None,
       sm_sha256 = si_before_sha256 source, sm_length = si_before_byte_length source, sm_has_bytes = False\<rparr>]"

text \<open>\<open>sm_artifact\<close> is \<open>None\<close> for the reference, whose artifact id the code does not compare.\<close>

definition check_source_scalars ::
  "member_parse_context \<Rightarrow> canonical_object \<Rightarrow> source_member_expectation \<Rightarrow> string \<Rightarrow> unit result" where
  "check_source_scalars ctx member x artifact =
     (let message = ''prepared source member scalar binding'' in
      rbind (required_string member ''member_kind'') (\<lambda>kind.
      rbind (require_that (kind = sm_kind x) message) (\<lambda>_.
      rbind (required_string member ''path'') (\<lambda>path.
      rbind (require_that (path = sm_path x \<and> (sm_artifact x \<noteq> None \<longrightarrow> sm_artifact x = Some artifact)
          \<and> object_get ''schema_version'' member = Some CNull) message) (\<lambda>_.
      rbind (required_u128 member ''prepared_at_ms'') (\<lambda>at.
      rbind (require_that (at = mc_prepared_at_ms ctx) message) (\<lambda>_.
      rbind (canonical_u64 member ''byte_length'' ''prepared source member'') (\<lambda>len.
      rbind (require_that (len = sm_length x) message) (\<lambda>_.
      rbind (required_string member ''sha256'') (\<lambda>hash.
        require_that (hash = sm_sha256 x) message))))))))))"

definition parse_source_member ::
  "hasher \<Rightarrow> source_install_v1 \<Rightarrow> member_parse_context \<Rightarrow> source_member_expectation \<times> cjson \<Rightarrow> string option result" where
  "parse_source_member sha source ctx xv =
     (let (x, v) = xv; message = ''prepared source member binding'' in
      rbind (as_object ''prepared source member type'' v) (\<lambda>member.
      rbind (require_keys member member_keys) (\<lambda>_.
      rbind (check_member_owner ctx member ''prepared source member owner'') (\<lambda>_.
      rbind (required_object member ''binding'') (\<lambda>bound.
      rbind (require_keys bound binding_keys) (\<lambda>_.
      rbind (required_string bound ''artifact_id'') (\<lambda>artifact.
      rbind (optional_string bound ''causal_id'') (\<lambda>causal.
      rbind (require_that (causal = None) message) (\<lambda>_.
      rbind (optional_string bound ''source_key'') (\<lambda>key.
      rbind (require_that (key = Some (si_source_key source)) message) (\<lambda>_.
      rbind (optional_string bound ''event_id'') (\<lambda>eid.
      rbind (require_that (eid = None) message) (\<lambda>_.
      rbind (check_source_scalars ctx member x artifact) (\<lambda>_.
      rbind (required_object member ''permissions'') (\<lambda>permissions.
      rbind (require_keys permissions member_permission_keys) (\<lambda>_.
      rbind (required_bool permissions ''readonly'') (\<lambda>_.
      rbind (required_u32 permissions ''mode'') (\<lambda>_.
      rbind (optional_string member ''bytes_utf8'') (\<lambda>bytes.
      rbind (require_that (sm_has_bytes x = (bytes \<noteq> None)) ''prepared source member bytes nullability'') (\<lambda>_.
        case bytes of
          None \<Rightarrow> Inr None
        | Some text \<Rightarrow>
            rbind (require_that (length text \<le> max_source_blob_bytes \<and> sha256_bytes sha text = sm_sha256 x
                \<and> u64_of_len (length text) = Some (sm_length x)) ''prepared source member embedded bytes'') (\<lambda>_.
              Inr (Some text))))))))))))))))))))))"

definition parse_source_members ::
  "hasher \<Rightarrow> canonical_object \<Rightarrow> source_install_v1 \<Rightarrow> member_parse_context \<Rightarrow>
   (string \<times> string \<times> prepared_member list) result" where
  "parse_source_members sha root source ctx =
     rbind (object_array root ''members'' ''prepared source members'') (\<lambda>vs.
     if length vs < 3 then Inl (blocked_error ''prepared source members count'' [])
     else
     rbind (traverse (parse_source_member sha source ctx) (zip (expected_source_members source) (take 3 vs))) (\<lambda>found.
     rbind (traverse (parse_additional_member sha ctx) (drop 3 vs)) (\<lambda>additional.
       let decoded = List.map_filter id found in Inr (decoded ! 0, decoded ! 1, additional))))"

section \<open>The bundle (journal/codec.rs)\<close>

definition bundle_members ::
  "prepared_source_bundle \<Rightarrow> string \<Rightarrow> string \<Rightarrow> (string \<times> string) list" where
  "bundle_members b members source =
     [(''schema_version'', ''1''), (''intent_id'', escaped (bu_intent_id b)),
      (''intent_kind'', quoted (bu_intent_kind b)), (''project_id'', escaped (bu_project_id b)),
      (''session_id'', escaped (bu_session_id b)), (''workflow_id'', render_optional_string (bu_workflow_id b)),
      (''prepared_at_ms'', show_nat (unat (bu_prepared_at_ms b))),
      (''before_binding'', template compact_layout
         [(''current_revision'', show_nat (unat (bu_current_revision b))),
          (''current_artifact_hash'', quoted (bu_current_artifact_hash b)),
          (''ledger_count'', show_nat (unat (lb_event_count (bu_ledger_binding b)))),
          (''ledger_event_id'', render_optional_string (lb_event_id (bu_ledger_binding b))),
          (''ledger_hash'', quoted (lb_event_hash (bu_ledger_binding b)))]),
      (''members'', members), (''semantic_events'', render_semantic_events (bu_semantic_events b)),
      (''event_chain_plan'', render_event_chain_plan (bu_event_chain_plan b)), (''source_install_v1'', source),
      (''projection_lag_v1'', render_projection_lag_reference (bu_projection_lag_member_index b))]"

definition render_prepared_source_bundle ::
  "hasher \<Rightarrow> ledger_binding result \<Rightarrow> prepared_source_bundle \<Rightarrow> string result" where
  "render_prepared_source_bundle sha ambient b =
     rbind (validate_prepared_source_bundle sha ambient b) (\<lambda>_.
     rbind (case bu_source_install b of None \<Rightarrow> Inr ''null'' | Some p \<Rightarrow> render_source_install_v1 sha p) (\<lambda>source.
     rbind (render_source_members sha b) (\<lambda>members.
       let body = template compact_layout (bundle_members b members source) in
       rbind (enforce_byte_limit (length body) max_prepared_bundle_bytes ''prepared bundle byte limit'') (\<lambda>_. Inr body))))"

definition parse_bundle_source :: "hasher \<Rightarrow> canonical_object \<Rightarrow> source_install_v1 option result" where
  "parse_bundle_source sha obj =
     (case object_get ''source_install_v1'' obj of
        Some (CObject source) \<Rightarrow>
          rbind (parse_source_install_v1 sha (render_canonical_object source)) (\<lambda>p. Inr (Some p))
      | Some CNull \<Rightarrow> Inr None
      | _ \<Rightarrow> Inl (blocked_error ''prepared source_install_v1 type'' []))"

text \<open>The members with the bytes before and after of a source installation, when there is one.\<close>

definition parse_bundle_members ::
  "hasher \<Rightarrow> canonical_object \<Rightarrow> source_install_v1 option \<Rightarrow> member_parse_context \<Rightarrow>
   (string option \<times> string option \<times> prepared_member list) result" where
  "parse_bundle_members sha obj source ctx =
     (case source of
        Some p \<Rightarrow> rbind (parse_source_members sha obj p ctx) (\<lambda>(before, proposed, additional).
                    Inr (Some before, Some proposed, additional))
      | None \<Rightarrow> rbind (parse_additional_members sha obj ctx) (\<lambda>additional. Inr (None, None, additional)))"

definition parse_before_binding :: "canonical_object \<Rightarrow> (u64 \<times> string \<times> ledger_binding) result" where
  "parse_before_binding bound =
     rbind (canonical_u64 bound ''current_revision'' ''prepared source bundle'') (\<lambda>revision.
     rbind (required_string bound ''current_artifact_hash'') (\<lambda>hash.
     rbind (canonical_u64 bound ''ledger_count'' ''prepared source bundle'') (\<lambda>count.
     rbind (optional_string bound ''ledger_event_id'') (\<lambda>eid.
     rbind (required_string bound ''ledger_hash'') (\<lambda>ledger_hash.
       Inr (revision, hash, \<lparr>lb_event_count = count, lb_event_id = eid, lb_event_hash = ledger_hash\<rparr>))))))"

text \<open>Everything read from the object, before the check and the comparison with the text.\<close>

definition parse_bundle_fields :: "hasher \<Rightarrow> canonical_object \<Rightarrow> prepared_source_bundle result" where
  "parse_bundle_fields sha obj =
     rbind (canonical_u64 obj ''schema_version'' ''prepared source bundle'') (\<lambda>schema.
     rbind (require_that (schema = 1) ''prepared source bundle schema/kind'') (\<lambda>_.
     rbind (required_string obj ''intent_kind'') (\<lambda>kind.
     rbind (require_that (intent_kind_known kind) ''prepared source bundle intent kind'') (\<lambda>_.
     rbind (optional_string obj ''workflow_id'') (\<lambda>w.
     rbind (required_object obj ''before_binding'') (\<lambda>bound.
     rbind (require_keys bound before_binding_keys) (\<lambda>_.
     rbind (parse_bundle_source sha obj) (\<lambda>source.
     rbind (parse_semantic_events obj) (\<lambda>events.
     rbind (required_u128 obj ''prepared_at_ms'') (\<lambda>at.
     rbind (required_string obj ''project_id'') (\<lambda>project.
     rbind (required_string obj ''session_id'') (\<lambda>session.
     rbind (required_string obj ''intent_id'') (\<lambda>intent.
     rbind (parse_bundle_members sha obj source
        \<lparr>mc_prepared_at_ms = at, mc_project_id = project, mc_session_id = session, mc_workflow_id = w,
         mc_intent_id = intent, mc_intent_kind = kind, mc_semantic_events = events\<rparr>) (\<lambda>(before, proposed, additional).
     rbind (parse_event_chain_plan obj) (\<lambda>chain.
     rbind (parse_projection_lag_reference obj) (\<lambda>lag.
     rbind (parse_before_binding bound) (\<lambda>(revision, hash, ledger).
       Inr \<lparr>bu_intent_id = intent, bu_intent_kind = kind, bu_project_id = project, bu_session_id = session,
         bu_workflow_id = w, bu_prepared_at_ms = at, bu_current_revision = revision,
         bu_current_artifact_hash = hash, bu_ledger_binding = ledger, bu_source_install = source,
         bu_before_bytes = before, bu_proposed_bytes = proposed, bu_additional_members = additional,
         bu_semantic_events = events, bu_event_chain_plan = chain, bu_projection_lag_member_index = lag\<rparr>)))))))))))))))))"

definition parse_prepared_source_bundle ::
  "hasher \<Rightarrow> ledger_binding result \<Rightarrow> string \<Rightarrow> prepared_source_bundle result" where
  "parse_prepared_source_bundle sha ambient body =
     rbind (enforce_byte_limit (length body) max_prepared_bundle_bytes ''prepared bundle byte limit'') (\<lambda>_.
     rbind (parse_canonical_object body prepared_bundle_keys ''prepared source bundle'') (\<lambda>obj.
     rbind (parse_bundle_fields sha obj) (\<lambda>b.
     rbind (validate_prepared_source_bundle sha ambient b) (\<lambda>_.
     rbind (render_prepared_source_bundle sha ambient b) (\<lambda>again.
       if again \<noteq> body then Inl (blocked_error ''prepared source bundle canonical re-render'' []) else Inr b)))))"

end
