(* ===== verification/Bundle_Preparation.thy ===== *)
theory Bundle_Preparation
  imports Bundle_Codec
begin

text \<open>
  How a bundle is put together (\<open>transition/bundle_preparation\<close>): its frame for each kind of
  transition, the events planned for it, its members in their order, and the projection lag member.
  The time of preparation is given.
\<close>

section \<open>Frames (construction.rs)\<close>

definition bundle_frame ::
  "string \<Rightarrow> string \<Rightarrow> runtime_identity \<Rightarrow> string option \<Rightarrow> u128 \<Rightarrow> u64 \<Rightarrow> string \<Rightarrow> ledger_binding \<Rightarrow>
   (source_install_v1 \<times> string \<times> string) option \<Rightarrow> prepared_source_bundle" where
  "bundle_frame intent_id kind identity w at revision hash ledger source =
     \<lparr>bu_intent_id = intent_id, bu_intent_kind = kind, bu_project_id = ri_project_id identity,
      bu_session_id = ri_session_id identity, bu_workflow_id = w, bu_prepared_at_ms = at,
      bu_current_revision = revision, bu_current_artifact_hash = hash, bu_ledger_binding = ledger,
      bu_source_install = map_option fst source, bu_before_bytes = map_option (fst \<circ> snd) source,
      bu_proposed_bytes = map_option (snd \<circ> snd) source, bu_additional_members = [],
      bu_semantic_events = [], bu_event_chain_plan = [], bu_projection_lag_member_index = None\<rparr>"

definition context_frame ::
  "string \<Rightarrow> string \<Rightarrow> string option \<Rightarrow> u128 \<Rightarrow> (source_install_v1 \<times> string \<times> string) option \<Rightarrow>
   prepared_bundle_context \<Rightarrow> prepared_source_bundle" where
  "context_frame intent_id kind w at source c =
     bundle_frame intent_id kind (bc_identity c) w at (lv_revision (bc_lease c)) (lv_artifact_hash (bc_lease c))
       (bc_ledger_binding c) source"

definition prepare_state_transition_bundle ::
  "string \<Rightarrow> current_state_intent \<Rightarrow> runtime_identity \<Rightarrow> string option \<Rightarrow> u128 \<Rightarrow> u64 \<Rightarrow> string \<Rightarrow>
   ledger_binding \<Rightarrow> prepared_source_bundle result" where
  "prepare_state_transition_bundle intent_id intent identity w at revision hash ledger =
     rbind (validate_ascii_id intent_id ''intent'') (\<lambda>_.
     rbind (validate_ascii_id (ri_project_id identity) ''project'') (\<lambda>_.
     rbind (validate_ascii_id (ri_session_id identity) ''session'') (\<lambda>_.
     rbind (optional_id w ''workflow'') (\<lambda>_.
     rbind (require_that (is_state_transition_intent_kind (intent_str intent)) ''prepared state transition intent kind'') (\<lambda>_.
       Inr (bundle_frame intent_id (intent_str intent) identity w at revision hash ledger None))))))"

definition prepare_source_bundle_with_context ::
  "hasher \<Rightarrow> string \<Rightarrow> string option \<Rightarrow> u128 \<Rightarrow> source_install_v1 \<Rightarrow> string \<Rightarrow> string \<Rightarrow> prepared_bundle_context \<Rightarrow>
   prepared_source_bundle result" where
  "prepare_source_bundle_with_context sha intent_id w at source before proposed c =
     rbind (validate_ascii_id intent_id ''intent'') (\<lambda>_.
     rbind (optional_id w ''workflow'') (\<lambda>_.
     rbind (validate_source_install_v1 sha source) (\<lambda>_.
     rbind (enforce_byte_limit (length before) max_source_blob_bytes ''prepared source blob byte limit'') (\<lambda>_.
     rbind (enforce_byte_limit (length proposed) max_source_blob_bytes ''prepared source blob byte limit'') (\<lambda>_.
     rbind (require_that (utf8_valid before) ''prepared before blob UTF-8'') (\<lambda>_.
     rbind (require_that (utf8_valid proposed) ''prepared proposed blob UTF-8'') (\<lambda>_.
     rbind (require_that (source_bytes_bound sha source before proposed) ''prepared source blob hash binding'') (\<lambda>_.
       Inr (context_frame intent_id ''approve-patch'' w at (Some (source, before, proposed)) c)))))))))"

definition prepare_workflow_bundle_with_context ::
  "string \<Rightarrow> string \<Rightarrow> string \<Rightarrow> u128 \<Rightarrow> prepared_bundle_context \<Rightarrow> prepared_source_bundle result" where
  "prepare_workflow_bundle_with_context intent_id kind w at c =
     rbind (validate_ascii_id intent_id ''intent'') (\<lambda>_.
     rbind (validate_ascii_id w ''workflow'') (\<lambda>_.
     rbind (require_that (kind = ''approve-verification'') ''prepared workflow intent kind'') (\<lambda>_.
       Inr (context_frame intent_id kind (Some w) at None c))))"

definition prepare_terminal_action_bundle_with_context ::
  "hasher \<Rightarrow> string \<Rightarrow> string \<Rightarrow> string \<Rightarrow> u128 \<Rightarrow> (source_install_v1 \<times> string \<times> string) option \<Rightarrow>
   prepared_bundle_context \<Rightarrow> prepared_source_bundle result" where
  "prepare_terminal_action_bundle_with_context sha intent_id kind w at source c =
     rbind (validate_ascii_id intent_id ''intent'') (\<lambda>_.
     rbind (validate_ascii_id w ''workflow'') (\<lambda>_.
     rbind (require_that (is_terminal_action_intent_kind kind) ''prepared terminal action intent kind'') (\<lambda>_.
     rbind (case source of
         None \<Rightarrow> Inr ()
       | Some (plan, before, proposed) \<Rightarrow>
           rbind (validate_source_install_v1 sha plan) (\<lambda>_.
           rbind (require_that (utf8_valid before) ''terminal source before UTF-8'') (\<lambda>_.
           rbind (require_that (utf8_valid proposed) ''terminal source proposed UTF-8'') (\<lambda>_.
             require_that (source_bytes_bound sha plan before proposed) ''prepared terminal source hash binding'')))) (\<lambda>_.
     rbind (require_that (\<not> (kind = ''deny-patch'' \<and> source \<noteq> None \<or> kind = ''deny-verification'' \<and> source = None))
         ''prepared terminal source intent/nullability'') (\<lambda>_.
       Inr (context_frame intent_id kind (Some w) at source c))))))"

section \<open>Planned events (event\_plan.rs)\<close>

definition chain_of_planned :: "planned_event \<Rightarrow> prepared_event_chain" where
  "chain_of_planned p =
     \<lparr>ec_event_id = event_id (pe_event p), ec_ordinal = pe_ordinal p,
      ec_previous_event_hash = pe_previous_event_hash p, ec_event_hash = pe_event_hash p\<rparr>"

definition planned_of_chain :: "ledger_event \<Rightarrow> prepared_event_chain \<Rightarrow> planned_event" where
  "planned_of_chain e c =
     \<lparr>pe_event = e, pe_ordinal = ec_ordinal c, pe_previous_event_hash = ec_previous_event_hash c,
      pe_event_hash = ec_event_hash c\<rparr>"

definition planned_events ::
  "hasher \<Rightarrow> ledger_binding result \<Rightarrow> prepared_source_bundle \<Rightarrow> planned_event list result" where
  "planned_events sha ambient b =
     rbind (validate_prepared_source_bundle sha ambient b) (\<lambda>_.
       Inr (map2 planned_of_chain (bu_semantic_events b) (bu_event_chain_plan b)))"

text \<open>The bundle is changed in place: the caller sees the change also when the check fails.\<close>

definition with_planned_events :: "prepared_source_bundle \<Rightarrow> planned_event list \<Rightarrow> prepared_source_bundle" where
  "with_planned_events b planned =
     b\<lparr>bu_semantic_events := map pe_event planned, bu_event_chain_plan := map chain_of_planned planned\<rparr>"

definition bind_planned_events ::
  "hasher \<Rightarrow> planned_event list \<Rightarrow> (prepared_source_bundle, unit) effect" where
  "bind_planned_events sha planned b =
     (let b' = with_planned_events b planned in (validate_event_chain sha b', b'))"

section \<open>Members (members.rs)\<close>

definition lag_index :: "prepared_source_bundle \<Rightarrow> prepared_member list \<Rightarrow> u64 option" where
  "lag_index b ms =
     map_option (\<lambda>(i, _). of_nat (i + (if bu_source_install b = None then 0 else 3)))
       (find_index (\<lambda>m. pm_kind m = ProjectionLag) ms)"

text \<open>\<open>sort_by\<close> is stable. The index of a list that fits into memory fits into \<open>u64\<close>.\<close>

definition with_members :: "prepared_source_bundle \<Rightarrow> prepared_member list \<Rightarrow> prepared_source_bundle" where
  "with_members b ms =
     (let sorted = sort_key prepared_member_order ms in
      b\<lparr>bu_additional_members := sorted, bu_projection_lag_member_index := lag_index b sorted\<rparr>)"

definition bind_additional_members ::
  "hasher \<Rightarrow> ledger_binding result \<Rightarrow> prepared_member list \<Rightarrow> (prepared_source_bundle, unit) effect" where
  "bind_additional_members sha ambient ms b =
     (let b' = with_members b ms in (validate_prepared_source_bundle sha ambient b', b'))"

section \<open>The projection lag (projection\_lag.rs)\<close>

definition projection_lag_members :: "string \<Rightarrow> planned_event list \<Rightarrow> (string \<times> string) list" where
  "projection_lag_members intent_id planned =
     (let final = planned ! 9 in
      [(''schema_version'', ''1''), (''intent_id'', escaped intent_id), (''event_id'', escaped (event_id (pe_event final))),
       (''event_ordinal'', show_nat (unat (pe_ordinal final))), (''event_hash'', quoted (pe_event_hash final)),
       (''required_outputs'', text_array (map quoted lag_outputs)),
       (''required_event_ids'', text_array (map (\<lambda>p. escaped (event_id (pe_event p))) planned))])"

definition prepare_projection_lag_member :: "hasher \<Rightarrow> string \<Rightarrow> planned_event list \<Rightarrow> prepared_member result" where
  "prepare_projection_lag_member sha intent_id planned =
     rbind (validate_ascii_id intent_id ''intent'') (\<lambda>_.
     if length planned \<noteq> 10 then Inl (blocked_error ''projection lag plan E0..E9'' [])
     else
     let eid = event_id (pe_event (planned ! 9)); bytes = template compact_layout (projection_lag_members intent_id planned)
     in Inr \<lparr>pm_kind = ProjectionLag, pm_path = lag_path intent_id eid, pm_schema_version = 1,
          pm_binding = \<lparr>pb_artifact_id = Some (''projection-lag-'' @ sha256_bytes sha bytes), pb_causal_id = None,
            pb_source_key = None, pb_event_id = Some eid\<rparr>,
          pm_bytes_utf8 = bytes, pm_expected_type = ''absent'', pm_expected_identity = None,
          pm_readonly = False, pm_mode = 384, pm_ownership = None, pm_semantic_role_rank = 0\<rparr>)"

end
