(* ===== verification/Journal.thy ===== *)
theory Journal
  imports Bundle_Preparation "HOL-Library.AList"
begin

text \<open>
  The journal of a project (\<open>transition/journal\<close>): a bundle is committed by installing its text
  under its intent's name, recovery runs what a committed bundle says and removes it. The entries
  of the two directories are regular files, in the order \<open>read_dir\<close> gives them; a directory that
  does not exist is an empty one. Each write takes the next outcome.
\<close>

section \<open>The files\<close>

record journal_fs =
  jf_entries :: "(string \<times> string) list"
  jf_lag :: "(string \<times> string) list"
  jf_outcomes :: "io_outcome list"

definition lock_name :: string where "lock_name = ''transition.lock''"
definition journal_suffix :: string where "journal_suffix = ''.prepared.json''"
definition temp_suffix :: string where "temp_suffix = ''.prepared.json.tmp''"

definition journal_name :: "string \<Rightarrow> string" where "journal_name intent_id = intent_id @ journal_suffix"
definition journal_temp :: "string \<Rightarrow> string" where "journal_temp intent_id = intent_id @ temp_suffix"
definition lag_name :: "string \<Rightarrow> string \<Rightarrow> string" where "lag_name intent_id eid = intent_id @ ''-'' @ eid @ ''.json''"

text \<open>\<open>path.with_extension\<close> of a path that ends in \<open>.json\<close>, which every path here does.\<close>

definition with_extension :: "string \<Rightarrow> string \<Rightarrow> string" where
  "with_extension ext name = (case strip_suffix ''json'' name of Some stem \<Rightarrow> stem @ ext | None \<Rightarrow> name)"

definition max_recovery_journal_entries :: nat where "max_recovery_journal_entries = 4"
definition max_recovery_journal_bytes :: nat where
  "max_recovery_journal_bytes = 2 * max_prepared_bundle_bytes + 64 * 1024"
definition max_recovery_project_entries :: nat where "max_recovery_project_entries = 128"
definition max_projection_lag_entries :: nat where "max_projection_lag_entries = 4"
definition max_projection_lag_bytes :: nat where "max_projection_lag_bytes = 256 * 1024"

definition journal_outcome :: "journal_fs \<Rightarrow> io_outcome \<times> journal_fs" where
  "journal_outcome fs =
     (case jf_outcomes fs of [] \<Rightarrow> (Io_ok, fs) | oc # rest \<Rightarrow> (oc, fs\<lparr>jf_outcomes := rest\<rparr>))"

text \<open>
  A change of a directory: \<open>Io_error 0\<close> fails before it, any other error after it (the sync, or a
  stop). A file made with \<open>create_new\<close>, \<open>write_all\<close> and \<open>sync_all\<close> keeps the bytes written when it
  fails: \<open>Io_error (Suc n)\<close> leaves the first \<open>n\<close>.
\<close>

definition journal_step :: "app_error \<Rightarrow> (journal_fs \<Rightarrow> journal_fs) \<Rightarrow> (journal_fs, unit) effect" where
  "journal_step err change fs =
     (case journal_outcome fs of
        (Io_ok, fs) \<Rightarrow> (Inr (), change fs)
      | (Io_error 0, fs) \<Rightarrow> (Inl err, fs)
      | (Io_error (Suc _), fs) \<Rightarrow> (Inl err, change fs))"

datatype journal_dir = JournalDir | LagDir

definition dir_entries :: "journal_dir \<Rightarrow> journal_fs \<Rightarrow> (string \<times> string) list" where
  "dir_entries d fs = (case d of JournalDir \<Rightarrow> jf_entries fs | LagDir \<Rightarrow> jf_lag fs)"

definition map_dir ::
  "journal_dir \<Rightarrow> ((string \<times> string) list \<Rightarrow> (string \<times> string) list) \<Rightarrow> journal_fs \<Rightarrow> journal_fs" where
  "map_dir d f fs = (case d of
     JournalDir \<Rightarrow> fs\<lparr>jf_entries := f (jf_entries fs)\<rparr> | LagDir \<Rightarrow> fs\<lparr>jf_lag := f (jf_lag fs)\<rparr>)"

definition put_entry :: "journal_dir \<Rightarrow> string \<Rightarrow> string \<Rightarrow> journal_fs \<Rightarrow> journal_fs" where
  "put_entry d name bytes = map_dir d (AList.update name bytes)"

definition drop_entry :: "journal_dir \<Rightarrow> string \<Rightarrow> journal_fs \<Rightarrow> journal_fs" where
  "drop_entry d name = map_dir d (AList.delete name)"

definition entry :: "journal_dir \<Rightarrow> string \<Rightarrow> journal_fs \<Rightarrow> string option" where
  "entry d name fs = map_of (dir_entries d fs) name"

definition rename_entry :: "journal_dir \<Rightarrow> string \<Rightarrow> string \<Rightarrow> journal_fs \<Rightarrow> journal_fs" where
  "rename_entry d from to fs =
     (case entry d from fs of None \<Rightarrow> fs | Some bytes \<Rightarrow> put_entry d to bytes (drop_entry d from fs))"

definition create_entry :: "app_error \<Rightarrow> journal_dir \<Rightarrow> string \<Rightarrow> string \<Rightarrow> (journal_fs, unit) effect" where
  "create_entry err d name bytes fs =
     (case journal_outcome fs of
        (Io_ok, fs) \<Rightarrow> (Inr (), put_entry d name bytes fs)
      | (Io_error 0, fs) \<Rightarrow> (Inl err, fs)
      | (Io_error (Suc n), fs) \<Rightarrow> (Inl err, put_entry d name (take n bytes) fs))"

text \<open>\<open>fs::read_to_string\<close>\<close>

definition entry_text :: "string \<Rightarrow> journal_dir \<Rightarrow> string \<Rightarrow> journal_fs \<Rightarrow> string result" where
  "entry_text label d name fs = read_utf8 (blocked_error label []) (entry d name fs)"

section \<open>Committing a bundle (persistence.rs)\<close>

definition validate_no_competing_prepared_journal ::
  "prepared_source_bundle \<Rightarrow> journal_fs \<Rightarrow> unit result" where
  "validate_no_competing_prepared_journal b fs =
     (case find (\<lambda>(name, _). name \<notin> {journal_name (bu_intent_id b), journal_temp (bu_intent_id b), lock_name}) (jf_entries fs) of
        None \<Rightarrow> Inr ()
      | Some (name, _) \<Rightarrow>
          if \<not> utf8_valid name then Inl (blocked_error ''transition journal filename UTF-8'' [])
          else if ends_with journal_suffix name \<or> ends_with temp_suffix name
          then Inl (blocked_error ''competing prepared journal'' [name, bu_intent_id b])
          else Inl (blocked_error ''unknown transition journal entry'' [name]))"

text \<open>A journal that is there already is accepted when it is this bundle's; its temporary file goes.\<close>

definition commit_again ::
  "hasher \<Rightarrow> ledger_binding result \<Rightarrow> prepared_source_bundle \<Rightarrow> string \<Rightarrow> (journal_fs, string) effect" where
  "commit_again sha ambient b body fs =
     (let final = journal_name (bu_intent_id b); temp = journal_temp (bu_intent_id b) in
      case rbind (entry_text ''prepared journal read'' JournalDir final fs) (\<lambda>existing.
           rbind (parse_prepared_source_bundle sha ambient existing) (\<lambda>parsed.
             if parsed \<noteq> b \<or> existing \<noteq> body then Inl (blocked_error ''prepared journal immutable conflict'' [])
             else Inr ())) of
        Inl e \<Rightarrow> (Inl e, fs)
      | Inr _ \<Rightarrow>
          if entry JournalDir temp fs = None then (Inr final, fs)
          else case entry_text ''prepared temp read'' JournalDir temp fs of
              Inl e \<Rightarrow> (Inl e, fs)
            | Inr text \<Rightarrow>
                if text \<noteq> body then (Inl (blocked_error ''prepared journal/temp conflict'' []), fs)
                else sthen (journal_step (runtime_error ''prepared temp cleanup'' []) (drop_entry JournalDir temp)) (sreturn final) fs)"

definition write_temp ::
  "hasher \<Rightarrow> ledger_binding result \<Rightarrow> string \<Rightarrow> string \<Rightarrow> (journal_fs, unit) effect" where
  "write_temp sha ambient temp body fs =
     (if entry JournalDir temp fs = None
      then create_entry (runtime_error ''prepared temp write'' []) JournalDir temp body fs
      else (rbind (entry_text ''prepared temp read'' JournalDir temp fs) (\<lambda>text.
              if text \<noteq> body then Inl (blocked_error ''prepared temp immutable conflict'' [])
              else rbind (parse_prepared_source_bundle sha ambient text) (\<lambda>_. Inr ())), fs))"

definition check_installed_journal ::
  "hasher \<Rightarrow> ledger_binding result \<Rightarrow> prepared_source_bundle \<Rightarrow> string \<Rightarrow> journal_fs \<Rightarrow> unit result" where
  "check_installed_journal sha ambient b body fs =
     rbind (entry_text ''prepared journal reread'' JournalDir (journal_name (bu_intent_id b)) fs) (\<lambda>installed.
     if installed \<noteq> body then Inl (blocked_error ''prepared journal installed bytes'' [])
     else rbind (parse_prepared_source_bundle sha ambient installed) (\<lambda>parsed.
       if parsed \<noteq> b then Inl (blocked_error ''prepared journal installed bytes'' []) else Inr ()))"

definition commit_prepared_source_bundle_under_guard ::
  "hasher \<Rightarrow> ledger_binding result \<Rightarrow> prepared_source_bundle \<Rightarrow> (journal_fs, string) effect" where
  "commit_prepared_source_bundle_under_guard sha ambient b =
     (let final = journal_name (bu_intent_id b); temp = journal_temp (bu_intent_id b) in
      sbind (\<lambda>fs. (render_prepared_source_bundle sha ambient b, fs)) (\<lambda>body.
      sthen (\<lambda>fs. (validate_no_competing_prepared_journal b fs, fs))
        (\<lambda>fs. if entry JournalDir final fs \<noteq> None then commit_again sha ambient b body fs
              else sthen (write_temp sha ambient temp body)
                  (sthen (journal_step (runtime_error ''prepared journal rename'' []) (rename_entry JournalDir temp final))
                  (sthen (\<lambda>fs. (check_installed_journal sha ambient b body fs, fs)) (sreturn final))) fs)))"

section \<open>Removing a bundle (persistence.rs)\<close>

text \<open>\<open>restore_removed_file\<close> puts a file back whose removal could not be synced.\<close>

definition restore_removed_file :: "journal_dir \<Rightarrow> string \<Rightarrow> string \<Rightarrow> string \<Rightarrow> (journal_fs, unit) effect" where
  "restore_removed_file d path bytes label fs =
     (let temporary = with_extension ''restore.tmp'' path; failed = runtime_error ''restore'' [label] in
      case entry d path fs of
        Some existing \<Rightarrow>
          if existing \<noteq> bytes then (Inl (blocked_error ''restore immutable conflict'' [label]), fs) else (Inr (), fs)
      | None \<Rightarrow>
          sthen (\<lambda>fs. if entry d temporary fs = None then (Inr (), fs)
                   else journal_step failed (drop_entry d temporary) fs)
         (sthen (create_entry failed d temporary bytes)
                (journal_step failed (rename_entry d temporary path))) fs)"

text \<open>A file removed whose removal is synced, or put back when the sync fails.\<close>

definition remove_or_restore ::
  "journal_dir \<Rightarrow> string \<Rightarrow> string \<Rightarrow> string \<Rightarrow> (journal_fs, unit) effect" where
  "remove_or_restore d path bytes label fs =
     (let failed = runtime_error ''cleanup'' [label] in
      case journal_outcome fs of
        (Io_ok, fs) \<Rightarrow> (Inr (), drop_entry d path fs)
      | (Io_error 0, fs) \<Rightarrow> (Inl failed, fs)
      | (Io_error (Suc _), fs) \<Rightarrow> sthen (restore_removed_file d path bytes label) (sthrow failed) (drop_entry d path fs))"

definition committed_body ::
  "hasher \<Rightarrow> ledger_binding result \<Rightarrow> prepared_source_bundle \<Rightarrow> string \<Rightarrow> string \<Rightarrow> journal_fs \<Rightarrow> string result" where
  "committed_body sha ambient b path label fs =
     (if path \<noteq> journal_name (bu_intent_id b) then Inl (blocked_error ''journal cleanup path binding'' [label])
      else rbind (entry_text label JournalDir path fs) (\<lambda>body.
           rbind (parse_prepared_source_bundle sha ambient body) (\<lambda>parsed.
             if parsed \<noteq> b then Inl (blocked_error ''journal cleanup binding'' [label]) else Inr body)))"

definition remove_committed_source_bundle ::
  "hasher \<Rightarrow> ledger_binding result \<Rightarrow> prepared_source_bundle \<Rightarrow> string \<Rightarrow> (journal_fs, unit) effect" where
  "remove_committed_source_bundle sha ambient b path =
     sbind (\<lambda>fs. (committed_body sha ambient b path ''prepared journal cleanup'' fs, fs)) (\<lambda>body.
       remove_or_restore JournalDir path body ''prepared journal'')"

section \<open>Reading the directories (recovery\_io.rs)\<close>

text \<open>
  Every name is checked and counted; the first entry over a bound stops the loop, and any failure
  is one error to the caller.
\<close>

definition bounded_regular_entries ::
  "nat \<Rightarrow> nat \<Rightarrow> (string \<Rightarrow> bool) \<Rightarrow> (string \<times> string) list \<Rightarrow> string list result" where
  "bounded_regular_entries max_entries max_bytes allowed_name entries =
     (if list_all (\<lambda>(name, _). utf8_valid name \<and> allowed_name name) entries \<and> length entries \<le> max_entries
         \<and> sum_list (map (length \<circ> snd) entries) \<le> max_bytes
      then Inr (map fst entries)
      else Inl (blocked_error ''recovery bound'' []))"

definition read_regular_utf8_bounded :: "string option \<Rightarrow> nat \<Rightarrow> string \<Rightarrow> string result" where
  "read_regular_utf8_bounded file max_bytes label = read_bounded max_bytes label file"

section \<open>Projection lag (recovery.rs)\<close>

definition journal_bundles ::
  "hasher \<Rightarrow> ledger_binding result \<Rightarrow> string \<Rightarrow> journal_fs \<Rightarrow> prepared_source_bundle list result" where
  "journal_bundles sha ambient project fs =
     rbind (bounded_regular_entries max_recovery_journal_entries max_recovery_journal_bytes
        (\<lambda>name. name = lock_name \<or> ends_with journal_suffix name \<or> ends_with temp_suffix name) (jf_entries fs)) (\<lambda>names.
     traverse (\<lambda>name.
       rbind (read_regular_utf8_bounded (entry JournalDir name fs) max_prepared_bundle_bytes ''projection lag journal'') (\<lambda>body.
       rbind (parse_prepared_source_bundle sha ambient body) (\<lambda>b.
         if bu_project_id b \<noteq> project then Inl (blocked_error ''projection lag journal project binding'' [])
         else Inr b)))
       (filter (\<lambda>name. name \<noteq> lock_name \<and> ends_with journal_suffix name) names))"

text \<open>\<open>Path::file_name\<close> of a stored path.\<close>

definition file_name :: "string \<Rightarrow> string" where
  "file_name path = last (split_on (\<lambda>c. c = CHR ''/'') path)"

definition lag_member :: "prepared_source_bundle \<Rightarrow> prepared_member option" where
  "lag_member b = find (\<lambda>m. pm_kind m = ProjectionLag) (bu_additional_members b)"

definition validate_committed_bundle_cleanup_authority ::
  "hasher \<Rightarrow> ledger_binding result \<Rightarrow> prepared_source_bundle \<Rightarrow> string \<Rightarrow> journal_fs \<Rightarrow> unit result" where
  "validate_committed_bundle_cleanup_authority sha ambient b journal fs =
     rbind (validate_prepared_source_bundle sha ambient b) (\<lambda>_.
     rbind (committed_body sha ambient b journal ''prepared cleanup journal'' fs) (\<lambda>_.
       case lag_member b of
         None \<Rightarrow> Inr ()
       | Some m \<Rightarrow>
           let name = file_name (pm_path m) in
           if entry LagDir (with_extension ''json.tmp'' name) fs \<noteq> None
           then Inl (blocked_error ''prepared cleanup lag temp'' [])
           else (case entry LagDir name fs of
               None \<Rightarrow> Inr ()
             | Some bytes \<Rightarrow>
                 if bytes \<noteq> pm_bytes_utf8 m then Inl (blocked_error ''prepared cleanup lag/member binding'' [])
                 else Inr ())))"

definition lag_of_bundle :: "string \<Rightarrow> string \<Rightarrow> prepared_source_bundle \<Rightarrow> bool" where
  "lag_of_bundle name body b \<longleftrightarrow> list_ex (\<lambda>m. pm_kind m = ProjectionLag \<and> pm_bytes_utf8 m = body
     \<and> file_name (pm_path m) = name) (bu_additional_members b)"

definition check_lag_entry ::
  "prepared_source_bundle list \<Rightarrow> journal_fs \<Rightarrow> string \<Rightarrow> unit result" where
  "check_lag_entry bundles fs name =
     (let final_name = (case strip_suffix ''.tmp'' name of Some v \<Rightarrow> v | None \<Rightarrow> name) in
      if \<not> ends_with ''.json'' final_name then Inl (blocked_error ''unknown projection lag entry'' [])
      else
      rbind (read_regular_utf8_bounded (entry LagDir name fs) max_projection_lag_bytes ''projection lag'') (\<lambda>body.
        if length (filter (lag_of_bundle final_name body) bundles) \<noteq> 1
        then Inl (blocked_error ''orphan or ambiguous projection lag'' []) else Inr ()))"

definition validate_projection_lag_authority ::
  "hasher \<Rightarrow> ledger_binding result \<Rightarrow> string \<Rightarrow> journal_fs \<Rightarrow> bool result" where
  "validate_projection_lag_authority sha ambient project fs =
     rbind (bounded_regular_entries max_projection_lag_entries max_projection_lag_bytes
        (\<lambda>name. ends_with ''.json'' name \<or> ends_with ''.json.tmp'' name) (jf_lag fs)) (\<lambda>lags.
     if lags = [] then Inr False
     else
     rbind (journal_bundles sha ambient project fs) (\<lambda>bundles.
     rbind (traverse (check_lag_entry bundles fs) lags) (\<lambda>_. Inr True)))"

definition projection_lag_status_read_only ::
  "hasher \<Rightarrow> ledger_binding result \<Rightarrow> string \<Rightarrow> journal_fs \<Rightarrow> bool option" where
  "projection_lag_status_read_only sha ambient project fs =
     (case validate_projection_lag_authority sha ambient project fs of Inr lagging \<Rightarrow> Some lagging | Inl _ \<Rightarrow> None)"

section \<open>Installing and removing the projection lag (bundle\_preparation/projection\_lag.rs)\<close>

definition lag_target ::
  "hasher \<Rightarrow> ledger_binding result \<Rightarrow> prepared_source_bundle \<Rightarrow> (prepared_member \<times> string) result" where
  "lag_target sha ambient b =
     rbind (validate_prepared_source_bundle sha ambient b) (\<lambda>_.
     rbind (ok_or (blocked_error ''prepared projection lag member'' []) (lag_member b)) (\<lambda>m.
     rbind (ok_or (blocked_error ''prepared projection lag event binding'' []) (pb_event_id (pm_binding m))) (\<lambda>eid.
       Inr (m, eid))))"

definition projection_lag_path :: "hasher \<Rightarrow> ledger_binding result \<Rightarrow> prepared_source_bundle \<Rightarrow> string result" where
  "projection_lag_path sha ambient b =
     rbind (lag_target sha ambient b) (\<lambda>(_, eid). Inr (lag_name (bu_intent_id b) eid))"

definition lag_temp_ready :: "string \<Rightarrow> string \<Rightarrow> (journal_fs, unit) effect" where
  "lag_temp_ready temporary bytes fs =
     (if entry LagDir temporary fs = None
      then create_entry (runtime_error ''projection lag temp write'' []) LagDir temporary bytes fs
      else (rbind (entry_text ''projection lag temp reread'' LagDir temporary fs) (\<lambda>existing.
              if existing \<noteq> bytes then Inl (blocked_error ''projection lag temp immutable conflict'' []) else Inr ()), fs))"

definition install_projection_lag ::
  "hasher \<Rightarrow> ledger_binding result \<Rightarrow> prepared_source_bundle \<Rightarrow> (journal_fs, string) effect" where
  "install_projection_lag sha ambient b =
     sbind (\<lambda>fs. (lag_target sha ambient b, fs)) (\<lambda>(m, eid) fs.
       let name = lag_name (bu_intent_id b) eid; temporary = with_extension ''json.tmp'' name; bytes = pm_bytes_utf8 m in
       if pm_path m \<noteq> lag_path (bu_intent_id b) eid
       then (Inl (blocked_error ''prepared projection lag path binding'' []), fs)
       else if entry LagDir name fs \<noteq> None
       then (rbind (entry_text ''projection lag reread'' LagDir name fs) (\<lambda>existing.
               if existing \<noteq> bytes then Inl (blocked_error ''projection lag immutable conflict'' []) else Inr name), fs)
       else sthen (lag_temp_ready temporary bytes)
           (sthen (journal_step (runtime_error ''projection lag rename'' []) (rename_entry LagDir temporary name))
             (sreturn name)) fs)"

definition drop_lag_temp :: "string \<Rightarrow> string \<Rightarrow> (journal_fs, unit) effect" where
  "drop_lag_temp temporary bytes fs =
     (if entry LagDir temporary fs = None then (Inr (), fs)
      else case entry_text ''projection lag temp cleanup read'' LagDir temporary fs of
          Inl e \<Rightarrow> (Inl e, fs)
        | Inr existing \<Rightarrow>
            if existing \<noteq> bytes then (Inl (blocked_error ''projection lag temp cleanup conflict'' []), fs)
            else journal_step (runtime_error ''projection lag temp cleanup'' []) (drop_entry LagDir temporary) fs)"

definition remove_projection_lag ::
  "hasher \<Rightarrow> ledger_binding result \<Rightarrow> prepared_source_bundle \<Rightarrow> (journal_fs, unit) effect" where
  "remove_projection_lag sha ambient b =
     sbind (\<lambda>fs. (lag_target sha ambient b, fs)) (\<lambda>(m, eid).
       let name = lag_name (bu_intent_id b) eid; bytes = pm_bytes_utf8 m in
       sthen (drop_lag_temp (with_extension ''json.tmp'' name) bytes)
         (\<lambda>fs. if entry LagDir name fs = None then (Inr (), fs)
              else case entry_text ''projection lag cleanup read'' LagDir name fs of
                  Inl e \<Rightarrow> (Inl e, fs)
                | Inr existing \<Rightarrow>
                    if existing \<noteq> bytes then (Inl (blocked_error ''projection lag cleanup immutable conflict'' []), fs)
                    else remove_or_restore LagDir name bytes ''projection lag'' fs))"

section \<open>Recovery (recovery.rs)\<close>

text \<open>
  What a committed bundle of each kind installs. The rest of the project is the state \<open>'r\<close>; an approval also
  installs and removes its projection lag.
\<close>

record 'r bundle_recovery =
  br_source :: "prepared_source_bundle \<Rightarrow> (journal_fs \<times> 'r, unit) effect"
  br_approval :: "prepared_source_bundle \<Rightarrow> (journal_fs \<times> 'r, unit) effect"
  br_verification :: "prepared_source_bundle \<Rightarrow> (journal_fs \<times> 'r, unit) effect"
  br_terminal_action :: "prepared_source_bundle \<Rightarrow> (journal_fs \<times> 'r, unit) effect"
  br_state_transition :: "prepared_source_bundle \<Rightarrow> (journal_fs \<times> 'r, unit) effect"

definition recover_bundle :: "'r bundle_recovery \<Rightarrow> prepared_source_bundle \<Rightarrow> (journal_fs \<times> 'r, unit) effect" where
  "recover_bundle port b =
     (let kind = bu_intent_kind b in
      if kind = ''approve-patch'' then (if bu_additional_members b = [] then br_source port b else br_approval port b)
      else if kind = ''approve-verification'' then br_verification port b
      else if is_terminal_action_intent_kind kind then br_terminal_action port b
      else if is_state_transition_intent_kind kind then br_state_transition port b
      else sthrow (blocked_error ''transition recovery intent kind'' []))"

text \<open>A step of the journal alone.\<close>

definition on_journal :: "(journal_fs, 'a) effect \<Rightarrow> (journal_fs \<times> 'r, 'a) effect" where
  "on_journal run s = (let (r, fs) = run (fst s) in (r, (fs, snd s)))"

definition read_journal_bundle ::
  "hasher \<Rightarrow> ledger_binding result \<Rightarrow> string \<Rightarrow> string \<Rightarrow> string \<Rightarrow> string \<Rightarrow> journal_fs \<Rightarrow>
   (string \<times> prepared_source_bundle) result" where
  "read_journal_bundle sha ambient project intent_id name label fs =
     rbind (validate_ascii_id intent_id ''intent'') (\<lambda>_.
     rbind (read_regular_utf8_bounded (entry JournalDir name fs) max_prepared_bundle_bytes label) (\<lambda>body.
     rbind (parse_prepared_source_bundle sha ambient body) (\<lambda>b.
       if bu_intent_id b \<noteq> intent_id \<or> bu_project_id b \<noteq> project
       then Inl (blocked_error ''transition owner/name binding'' [label]) else Inr (body, b))))"

text \<open>A temporary file has had no effect: it is removed once it is known to be whole.\<close>

definition recover_temp ::
  "hasher \<Rightarrow> ledger_binding result \<Rightarrow> string \<Rightarrow> string \<Rightarrow> string \<Rightarrow> (journal_fs, unit) effect" where
  "recover_temp sha ambient project intent_id name =
     sbind (\<lambda>fs. (read_journal_bundle sha ambient project intent_id name ''transition temp'' fs, fs)) (\<lambda>(temp_body, _).
     sthen (\<lambda>fs. (case entry JournalDir (journal_name intent_id) fs of
         None \<Rightarrow> Inr ()
       | Some final \<Rightarrow>
           rbind (read_regular_utf8_bounded (Some final) max_prepared_bundle_bytes ''transition final'') (\<lambda>final_body.
             if final_body \<noteq> temp_body then Inl (blocked_error ''transition final/temp bytes conflict'' []) else Inr ()), fs))
       (journal_step (runtime_error ''zero-effect transition temp cleanup'' []) (drop_entry JournalDir name)))"

definition recover_journal ::
  "hasher \<Rightarrow> ledger_binding result \<Rightarrow> 'r bundle_recovery \<Rightarrow> string \<Rightarrow> string \<Rightarrow> string \<Rightarrow>
   (journal_fs \<times> 'r, unit) effect" where
  "recover_journal sha ambient port project intent_id name =
     sbind (on_journal (\<lambda>fs. (read_journal_bundle sha ambient project intent_id name ''transition final'' fs, fs))) (\<lambda>(_, b).
     sthen (recover_bundle port b)
           (on_journal (remove_committed_source_bundle sha ambient b name)))"

fun recover_entries ::
  "hasher \<Rightarrow> ledger_binding result \<Rightarrow> 'r bundle_recovery \<Rightarrow> string \<Rightarrow> string list \<Rightarrow> (journal_fs \<times> 'r, nat) effect" where
  "recover_entries sha ambient port project [] = sreturn 0"
| "recover_entries sha ambient port project (name # names) =
     (if name = lock_name then recover_entries sha ambient port project names
      else case strip_suffix temp_suffix name of
          Some intent_id \<Rightarrow>
            sthen (on_journal (recover_temp sha ambient project intent_id name))
              (recover_entries sha ambient port project names)
        | None \<Rightarrow>
            (case strip_suffix journal_suffix name of
               None \<Rightarrow> sthrow (blocked_error ''unknown transition journal entry'' [name])
             | Some intent_id \<Rightarrow>
                 sthen (recover_journal sha ambient port project intent_id name)
                   (sbind (recover_entries sha ambient port project names) (\<lambda>n. sreturn (n + 1)))))"

definition recover_pending_bundles_under_guard ::
  "hasher \<Rightarrow> ledger_binding result \<Rightarrow> 'r bundle_recovery \<Rightarrow> string \<Rightarrow> (journal_fs \<times> 'r, nat) effect" where
  "recover_pending_bundles_under_guard sha ambient port project =
     sbind (on_journal (\<lambda>fs. (validate_projection_lag_authority sha ambient project fs, fs))) (\<lambda>_.
     sbind (on_journal (\<lambda>fs. (bounded_regular_entries max_recovery_journal_entries max_recovery_journal_bytes
              (\<lambda>_. True) (jf_entries fs), fs))) (\<lambda>names.
       recover_entries sha ambient port project (sort names)))"

section \<open>The guard (guard.rs)\<close>

text \<open>The lease is not modelled.\<close>

definition acquire_for ::
  "hasher \<Rightarrow> ledger_binding result \<Rightarrow> 'r bundle_recovery \<Rightarrow> string \<Rightarrow> (journal_fs \<times> 'r, string) effect" where
  "acquire_for sha ambient port project =
     sthen (\<lambda>s. (validate_ascii_id project ''project'', s))
    (sbind (recover_pending_bundles_under_guard sha ambient port project) (\<lambda>_. sreturn project))"

definition guard_commit ::
  "hasher \<Rightarrow> ledger_binding result \<Rightarrow> string \<Rightarrow> prepared_source_bundle \<Rightarrow> (journal_fs, string) effect" where
  "guard_commit sha ambient guard b =
     (if bu_project_id b \<noteq> guard then sthrow (blocked_error ''transition guard/project bundle binding'' [])
      else commit_prepared_source_bundle_under_guard sha ambient b)"

definition commit_prepared_source_bundle ::
  "hasher \<Rightarrow> ledger_binding result \<Rightarrow> 'r bundle_recovery \<Rightarrow> prepared_source_bundle \<Rightarrow> (journal_fs \<times> 'r, string) effect" where
  "commit_prepared_source_bundle sha ambient port b =
     sbind (acquire_for sha ambient port (bu_project_id b)) (\<lambda>guard. on_journal (guard_commit sha ambient guard b))"

definition guard_remove ::
  "hasher \<Rightarrow> ledger_binding result \<Rightarrow> string \<Rightarrow> prepared_source_bundle \<Rightarrow> string \<Rightarrow> (journal_fs, unit) effect" where
  "guard_remove sha ambient guard b path =
     (if bu_project_id b \<noteq> guard then sthrow (blocked_error ''transition cleanup guard/project binding'' [])
      else remove_committed_source_bundle sha ambient b path)"

section \<open>When recovery is needed (recovery\_io.rs)\<close>

text \<open>
  The directories are those under \<open>transition-journal\<close>, \<open>None\<close> for anything else that is there;
  \<open>Ok\<close> for each file of a directory is a readable name.
\<close>

definition suspicious_or_busy :: "(string \<Rightarrow> bool) \<Rightarrow> string list \<Rightarrow> bool" where
  "suspicious_or_busy counts names = list_ex (\<lambda>name. \<not> utf8_valid name \<or> counts name) names"

fun projects_busy :: "nat \<Rightarrow> string list option list \<Rightarrow> bool" where
  "projects_busy n [] = False"
| "projects_busy n (project # projects) =
     (if max_recovery_project_entries < n + 1 then True
      else case project of
          None \<Rightarrow> True
        | Some names \<Rightarrow> suspicious_or_busy (\<lambda>name. name \<noteq> lock_name) names \<or> projects_busy (n + 1) projects)"

definition recovery_work_may_exist :: "string list \<Rightarrow> string list option list \<Rightarrow> bool" where
  "recovery_work_may_exist lag_names projects \<longleftrightarrow> suspicious_or_busy (\<lambda>_. True) lag_names \<or> projects_busy 0 projects"

text \<open>\<open>identity\<close> is the identity in the current state, or a fresh one.\<close>

definition recover_pending_source_bundles ::
  "hasher \<Rightarrow> ledger_binding result \<Rightarrow> 'r bundle_recovery \<Rightarrow> bool \<Rightarrow> runtime_identity result \<Rightarrow>
   (journal_fs \<times> 'r, nat) effect" where
  "recover_pending_source_bundles sha ambient port busy identity =
     (if \<not> busy then sreturn 0
      else sbind (\<lambda>s. (identity, s)) (\<lambda>i.
           sthen (\<lambda>s. (validate_ascii_id (ri_project_id i) ''project'', s))
             (recover_pending_bundles_under_guard sha ambient port (ri_project_id i))))"

end
