(* ===== verification/Bundle_Roundtrip.thy ===== *)
theory Bundle_Roundtrip
  imports Bundle_Preparation Current_State_Properties
begin

text \<open>
  The text of a bundle is read back: the canonical value of each of its parts, that the writers
  write it and that the readers read it.
\<close>

section \<open>Words and numbers\<close>

lemma bundle_words_plain:
  "list_all plain_key (prepared_bundle_keys @ before_binding_keys @ member_keys @ owner_keys @ binding_keys)"
  "list_all plain_key (member_permission_keys @ semantic_event_keys @ event_chain_plan_keys @ projection_lag_reference_keys)"
  "list_all plain_key (source_install_keys @ path_keys @ blob_keys @ permission_keys @ ownership_keys @ unix_metadata_keys)"
  "list_all plain_key [''projection_lag'', ''unix'', ''project'', ''before_blob'', ''proposed_blob'', ''rollback_ref'',
     ''file'', ''absent'', ''missing'', ''content-addressed-reference'', ''rollback-ref-'']"
proof -
  have "list_all (list_all plain_char) (prepared_bundle_keys @ before_binding_keys @ member_keys @ owner_keys @ binding_keys)"
    by (simp add: prepared_bundle_keys_def before_binding_keys_def member_keys_def owner_keys_def binding_keys_def plain_char_def)
  moreover have "list_all (list_all plain_char) (member_permission_keys @ semantic_event_keys @ event_chain_plan_keys @ projection_lag_reference_keys)"
    by (simp add: member_permission_keys_def semantic_event_keys_def event_chain_plan_keys_def
        projection_lag_reference_keys_def plain_char_def)
  moreover have "list_all (list_all plain_char) (source_install_keys @ path_keys @ blob_keys @ permission_keys @ ownership_keys @ unix_metadata_keys)"
    by (simp add: source_install_keys_def path_keys_def blob_keys_def permission_keys_def ownership_keys_def
        unix_metadata_keys_def plain_char_def)
  moreover have "list_all (list_all plain_char) [''projection_lag'', ''unix'', ''project'', ''before_blob'', ''proposed_blob'',
     ''rollback_ref'', ''file'', ''absent'', ''missing'', ''content-addressed-reference'', ''rollback-ref-'']"
    by (simp add: plain_char_def)
  ultimately show
    "list_all plain_key (prepared_bundle_keys @ before_binding_keys @ member_keys @ owner_keys @ binding_keys)"
    "list_all plain_key (member_permission_keys @ semantic_event_keys @ event_chain_plan_keys @ projection_lag_reference_keys)"
    "list_all plain_key (source_install_keys @ path_keys @ blob_keys @ permission_keys @ ownership_keys @ unix_metadata_keys)"
    "list_all plain_key [''projection_lag'', ''unix'', ''project'', ''before_blob'', ''proposed_blob'', ''rollback_ref'',
     ''file'', ''absent'', ''missing'', ''content-addressed-reference'', ''rollback-ref-'']"
    by (simp_all only: list_all_iff) (blast intro: plain_key_chars)+
qed

lemmas bundle_words =
  bundle_words_plain [unfolded prepared_bundle_keys_def before_binding_keys_def member_keys_def owner_keys_def
    binding_keys_def member_permission_keys_def semantic_event_keys_def event_chain_plan_keys_def
    projection_lag_reference_keys_def source_install_keys_def path_keys_def blob_keys_def permission_keys_def
    ownership_keys_def unix_metadata_keys_def, simplified]

lemma ascii_id_plain:
  assumes "ascii_id_valid v"
  shows "plain_key v" "plain_text v"
proof -
  have "list_all (\<lambda>c. is_ascii_alphanumeric c \<or> c = CHR ''-'' \<or> c = CHR ''_'') v"
    using assms by (simp add: ascii_id_valid_def)
  then have "plain_text v \<and> plain_key v" by (rule plain_id_text) auto
  then show "plain_key v" "plain_text v" by simp_all
qed

lemma validate_ascii_id_iff: "validate_ascii_id v label = Inr u \<longleftrightarrow> ascii_id_valid v"
  by (simp add: validate_ascii_id_def)

lemma unat_ucast_widen: "LENGTH('a) \<le> LENGTH('b) \<Longrightarrow> unat (ucast (w :: 'a::len word) :: 'b::len word) = unat w"
proof -
  assume "LENGTH('a) \<le> LENGTH('b)"
  then have "(2 :: nat) ^ LENGTH('a) \<le> 2 ^ LENGTH('b)" by (rule power_increasing) simp
  with unsigned_less [of w, where 'a = nat] have "unat w < 2 ^ LENGTH('b)" by linarith
  then show ?thesis by (simp add: unsigned_ucast_eq take_bit_nat_eq_self)
qed

lemma cnum_ucast: "LENGTH('a) \<le> LENGTH('b) \<Longrightarrow> cnum (w :: 'a::len word) = cnum (ucast w :: 'b::len word)"
  by (simp add: cnum_def unat_ucast_widen)

lemma required_u32_cnum: "object_get k obj = Some (cnum (w :: u32)) \<Longrightarrow> required_u32 obj k = Inr w"
proof -
  assume "object_get k obj = Some (cnum w)"
  then have "object_get k obj = Some (cnum (ucast w :: u64))" by (simp add: cnum_ucast [of w, where 'b = 64])
  from canonical_u64_cnum [OF this] have "canonical_u64 obj k ''source_install_v1'' = Inr (ucast w)" .
  moreover have "unat (ucast w :: u64) < 2 ^ 32"
    using unsigned_less [of w, where 'a = nat] by (simp add: unat_ucast_widen)
  moreover have "ucast (ucast w :: u64) = w"
    by transfer simp
  ultimately show ?thesis by (simp add: required_u32_def)
qed

lemma required_u128_cnum: "object_get k obj = Some (cnum (w :: u128)) \<Longrightarrow> required_u128 obj k = Inr w"
  by (simp add: required_u128_def canonical_u128_cnum)

text \<open>A length is written like the word that holds it.\<close>

lemma show_length_word: "u64_of_len n = Some len \<Longrightarrow> show_nat n = show_nat (unat len)"
  by (auto simp: u64_of_len_def unat_of_nat_small split: if_splits)

lemma optional_string_copt: "object_get k obj = Some (copt v) \<Longrightarrow> optional_string obj k = Inr v"
  by (simp add: optional_string_def copt_def split: option.splits)

lemma required_string_CString: "object_get k obj = Some (CString v) \<Longrightarrow> required_string obj k = Inr v"
  by (simp add: required_string_def)

lemma required_bool_CBool: "object_get k obj = Some (CBool v) \<Longrightarrow> required_bool obj k = Inr v"
  by (simp add: required_bool_def)

lemma required_object_CObject: "object_get k obj = Some (CObject v) \<Longrightarrow> required_object obj k = Inr v"
  by (simp add: required_object_def)

lemmas read_fields = canonical_u64_cnum canonical_u128_cnum required_u32_cnum required_u128_cnum
  optional_string_copt required_string_CString required_bool_CBool required_object_CObject

section \<open>The source plan\<close>

definition path_value :: "prepared_path \<Rightarrow> (string \<times> cjson) list" where
  "path_value p =
     [(''namespace'', CString (pp_namespace p)), (''path'', CString (pp_path p)), (''parent'', CString (pp_parent p)),
      (''basename'', CString (pp_basename p)), (''expected_type'', CString (pp_expected_type p)),
      (''expected_identity'', copt (pp_expected_identity p))]"

definition blob_value :: "prepared_blob \<Rightarrow> (string \<times> cjson) list" where
  "blob_value b =
     [(''blob_id'', CString (bl_blob_id b)), (''member_path'', CString (bl_member_path b)),
      (''sha256'', CString (bl_sha256 b)), (''byte_length'', cnum (bl_byte_length b))]"

definition permission_value :: "source_permissions \<Rightarrow> (string \<times> cjson) list" where
  "permission_value v =
     [(''before_readonly'', CBool (sp_before_readonly v)), (''install_readonly'', CBool (sp_install_readonly v)),
      (''before_mode'', cnum (sp_before_mode v)), (''install_mode'', cnum (sp_install_mode v))]"

definition ownership_value :: "source_ownership \<Rightarrow> (string \<times> cjson) list" where
  "ownership_value v =
     [(''before_owner'', CString (so_before_owner v)), (''install_owner'', CString (so_install_owner v))]"

definition unix_value :: "unix_source_metadata \<Rightarrow> (string \<times> cjson) list" where
  "unix_value v =
     [(''before_mode'', cnum (um_before_mode v)), (''install_mode'', cnum (um_install_mode v)),
      (''before_uid'', cnum (um_before_uid v)), (''before_gid'', cnum (um_before_gid v)),
      (''install_uid'', cnum (um_install_uid v)), (''install_gid'', cnum (um_install_gid v)),
      (''before_dev'', cnum (um_before_dev v)), (''before_ino'', cnum (um_before_ino v))]"

definition plain_path :: "prepared_path \<Rightarrow> bool" where
  "plain_path p \<longleftrightarrow> plain_text (pp_namespace p) \<and> plain_text (pp_path p) \<and> plain_text (pp_parent p)
     \<and> plain_text (pp_basename p) \<and> plain_text (pp_expected_type p) \<and> pred_option plain_text (pp_expected_identity p)"

definition plain_blob :: "prepared_blob \<Rightarrow> bool" where
  "plain_blob b \<longleftrightarrow> plain_text (bl_blob_id b) \<and> plain_text (bl_member_path b) \<and> plain_key (bl_sha256 b)"

lemma writes_path: "plain_path p \<Longrightarrow> writes (Suc n) (render_path p) (CObject (path_value p))"
  unfolding render_path_def path_members_def path_value_def plain_path_def
  by (rule writes_object) (simp_all add: bundle_words writes_plain_text writes_optional object_keys_def)

lemma writes_blob: "plain_blob b \<Longrightarrow> writes (Suc n) (render_blob b) (CObject (blob_value b))"
  unfolding render_blob_def blob_members_def blob_value_def plain_blob_def
  by (rule writes_object) (simp_all add: bundle_words writes_plain_text writes_plain_key writes_u64 object_keys_def)

lemma writes_permissions: "writes (Suc n) (render_permissions v) (CObject (permission_value v))"
  unfolding render_permissions_def permission_members_def permission_value_def show_bool_def
  by (rule writes_object) (simp_all add: bundle_words writes_literals writes_u32 object_keys_def)

lemma writes_ownership:
  "plain_text (so_before_owner v) \<Longrightarrow> plain_text (so_install_owner v) \<Longrightarrow>
   writes (Suc n) (render_ownership v) (CObject (ownership_value v))"
  unfolding render_ownership_def ownership_members_def ownership_value_def
  by (rule writes_object) (simp_all add: bundle_words writes_plain_text object_keys_def)

lemma writes_unix: "writes (Suc n) (render_unix_metadata v) (CObject (unix_value v))"
  unfolding render_unix_metadata_def unix_members_def unix_value_def
  by (rule writes_object) (simp_all add: bundle_words writes_u32 writes_u64 object_keys_def)

lemma parse_path_value: "parse_path (path_value p) = Inr p"
  by (simp add: parse_path_def path_value_def require_keys_def path_keys_def object_keys_def object_get_map_of
      read_fields)

lemma parse_blob_value: "parse_blob (blob_value b) = Inr b"
  by (simp add: parse_blob_def blob_value_def require_keys_def blob_keys_def object_keys_def object_get_map_of
      read_fields)

lemma parse_permission_value: "parse_permissions (permission_value v) = Inr v"
  by (simp add: parse_permissions_def permission_value_def require_keys_def permission_keys_def object_keys_def
      object_get_map_of read_fields)

lemma parse_ownership_value: "parse_ownership (ownership_value v) = Inr v"
  by (simp add: parse_ownership_def ownership_value_def require_keys_def ownership_keys_def object_keys_def
      object_get_map_of read_fields)

lemma parse_unix_value: "parse_unix_metadata (unix_value v) = Inr v"
  by (simp add: parse_unix_metadata_def unix_value_def require_keys_def unix_metadata_keys_def object_keys_def
      object_get_map_of read_fields)

definition source_value :: "source_install_v1 \<Rightarrow> (string \<times> cjson) list" where
  "source_value p =
     [(''schema_version'', cnum (si_schema_version p)), (''source_key'', CString (si_source_key p)),
      (''target'', CObject (path_value (si_target p))), (''before_blob'', CObject (blob_value (si_before_blob p))),
      (''proposed_blob'', CObject (blob_value (si_proposed_blob p))),
      (''rollback_final'', CObject (path_value (si_rollback_final p))),
      (''install_temp'', CObject (path_value (si_install_temp p))),
      (''guard_path'', CObject (path_value (si_guard_path p))),
      (''before_sha256'', CString (si_before_sha256 p)), (''before_byte_length'', cnum (si_before_byte_length p)),
      (''proposed_sha256'', CString (si_proposed_sha256 p)),
      (''proposed_byte_length'', cnum (si_proposed_byte_length p)),
      (''permissions'', CObject (permission_value (si_permissions p))),
      (''ownership'', CObject (ownership_value (si_ownership p))), (''platform'', CString (si_platform p)),
      (''unix_metadata'', CObject (unix_value (si_unix_metadata p))),
      (''operations'', CArray (map CString (si_operations p)))]"

text \<open>The texts of a plan that its own check leaves free.\<close>

definition plain_source :: "source_install_v1 \<Rightarrow> bool" where
  "plain_source p \<longleftrightarrow> plain_path (si_target p) \<and> plain_path (si_rollback_final p) \<and> plain_path (si_install_temp p)
     \<and> plain_path (si_guard_path p) \<and> plain_text (bl_blob_id (si_before_blob p))
     \<and> plain_text (bl_member_path (si_before_blob p)) \<and> plain_text (bl_blob_id (si_proposed_blob p))
     \<and> plain_text (bl_member_path (si_proposed_blob p))"

lemma owner_text_plain: "plain_text (owner_text uid gid)"
proof -
  have "list_all (\<lambda>c. is_ascii_alphanumeric c \<or> c = CHR '':'') (owner_text uid gid)"
    using show_nat_digits unfolding owner_text_def
    by (auto simp: list_all_iff is_ascii_alphanumeric_def is_ascii_lowercase_def)
  then have "plain_text (owner_text uid gid) \<and> plain_key (owner_text uid gid)"
    by (rule plain_id_text) auto
  then show ?thesis by simp
qed

lemma operations_plain: "list_all plain_text source_install_operations"
proof -
  have "list_all (list_all plain_char) source_install_operations"
    by (simp add: source_install_operations_def plain_char_def)
  moreover have "list_all (\<lambda>v. CHR 0x7F \<notin> set v) source_install_operations"
    by (simp add: source_install_operations_def)
  ultimately show ?thesis by (simp add: list_all_iff plain_text_chars)
qed

lemma source_writes:
  assumes "validate_source_install_v1 sha p = Inr ()" "plain_source p"
  shows "writes (Suc (Suc n)) (template compact_layout (source_install_members p)) (CObject (source_value p))"
proof -
  have v: "source_hashes_bound p" "source_metadata_bound p" "si_platform p = ''unix''"
    "si_operations p = source_install_operations" "si_schema_version p = 1"
    using assms(1) by (auto simp: validate_source_install_v1_def rbind_Inr_iff split: if_splits)
  then have hashes: "plain_key (si_source_key p)" "plain_text (si_source_key p)" "plain_key (si_before_sha256 p)"
      "plain_key (si_proposed_sha256 p)" "plain_blob (si_before_blob p)" "plain_blob (si_proposed_blob p)"
    using assms(2) by (auto simp: source_hashes_bound_def sha256_plain plain_blob_def plain_source_def)
  have owner: "plain_text (so_before_owner (si_ownership p))" "plain_text (so_install_owner (si_ownership p))"
    using v(2) by (simp_all add: source_metadata_bound_def Let_def owner_text_plain)
  have "list_all2 (writes n) (map escaped (si_operations p)) (map CString (si_operations p))"
    using operations_plain v(4) by (simp add: list_all2_conv_all_nth list_all_length writes_plain_text)
  then have ops: "writes (Suc n) (''['' @ join '','' (map escaped (si_operations p)) @ '']'') (CArray (map CString (si_operations p)))"
    by (rule writes_array)
  have paths: "plain_path (si_target p)" "plain_path (si_rollback_final p)" "plain_path (si_install_temp p)"
    "plain_path (si_guard_path p)" using assms(2) by (simp_all add: plain_source_def)
  show ?thesis
  proof (rule writes_object)
    show "list_all2 (member_writes (Suc n)) (source_install_members p) (source_value p)"
      unfolding source_install_members_def source_value_def
      by (simp add: bundle_words v(3) hashes paths ops owner writes_path writes_blob writes_permissions
          writes_ownership writes_unix writes_plain_key writes_plain_text writes_u64 del: append_Cons)
    show "distinct (object_keys (source_value p))" by (simp add: object_keys_def source_value_def)
  qed
qed

lemma parse_source_value: "parse_source_fields (source_value p) = Inr p"
proof -
  let ?obj = "source_value p"
  have get: "object_get ''schema_version'' ?obj = Some (cnum (si_schema_version p))"
    "object_get ''source_key'' ?obj = Some (CString (si_source_key p))"
    "object_get ''target'' ?obj = Some (CObject (path_value (si_target p)))"
    "object_get ''before_blob'' ?obj = Some (CObject (blob_value (si_before_blob p)))"
    "object_get ''proposed_blob'' ?obj = Some (CObject (blob_value (si_proposed_blob p)))"
    "object_get ''rollback_final'' ?obj = Some (CObject (path_value (si_rollback_final p)))"
    "object_get ''install_temp'' ?obj = Some (CObject (path_value (si_install_temp p)))"
    "object_get ''guard_path'' ?obj = Some (CObject (path_value (si_guard_path p)))"
    "object_get ''before_sha256'' ?obj = Some (CString (si_before_sha256 p))"
    "object_get ''before_byte_length'' ?obj = Some (cnum (si_before_byte_length p))"
    "object_get ''proposed_sha256'' ?obj = Some (CString (si_proposed_sha256 p))"
    "object_get ''proposed_byte_length'' ?obj = Some (cnum (si_proposed_byte_length p))"
    "object_get ''permissions'' ?obj = Some (CObject (permission_value (si_permissions p)))"
    "object_get ''ownership'' ?obj = Some (CObject (ownership_value (si_ownership p)))"
    "object_get ''platform'' ?obj = Some (CString (si_platform p))"
    "object_get ''unix_metadata'' ?obj = Some (CObject (unix_value (si_unix_metadata p)))"
    "object_get ''operations'' ?obj = Some (CArray (map CString (si_operations p)))"
    by (simp_all add: source_value_def object_get_map_of)
  have "traverse (\<lambda>v. case v of CString s \<Rightarrow> Inr s | _ \<Rightarrow> Inl e) (map CString vs) = Inr vs" for vs and e :: app_error
    by (induction vs) simp_all
  then have ops: "required_string_array ?obj ''operations'' = Inr (si_operations p)"
    by (simp add: required_string_array_def get)
  show ?thesis unfolding parse_source_fields_def ops
    by (simp add: read_fields get parse_path_value parse_blob_value parse_permission_value parse_ownership_value
        parse_unix_value)
qed

lemma source_reads_back:
  assumes "render_source_install_v1 sha p = Inr body" "plain_source p"
  shows "parse_source_install_v1 sha body = Inr p" "writes 2 body (CObject (source_value p))"
    "body = render_canonical_object (source_value p)"
proof -
  have valid: "validate_source_install_v1 sha p = Inr ()" and body: "body = template compact_layout (source_install_members p)"
    using assms(1) by (auto simp: render_source_install_v1_def rbind_Inr_iff Let_def)
  show w: "writes 2 body (CObject (source_value p))"
    using source_writes [OF valid assms(2), of 0] body by (simp add: numeral_2_eq_2)
  have keys: "object_keys (source_value p) = source_install_keys"
    by (simp add: object_keys_def source_value_def source_install_keys_def)
  have "parse_canonical_object body source_install_keys ''source_install_v1'' = Inr (source_value p)"
    using writes_parse_canonical [OF w] by (simp add: keys max_json_nesting_depth_def)
  then show "parse_source_install_v1 sha body = Inr p"
    using assms(1) valid by (simp add: parse_source_install_v1_def parse_source_value)
  show "body = render_canonical_object (source_value p)"
    using w by (simp add: writes_def render_canonical_object_def)
qed

section \<open>Events and chain\<close>

definition semantic_event_value :: "ledger_event \<Rightarrow> (string \<times> cjson) list" where
  "semantic_event_value e =
     [(''schema_version'', cnum (1 :: u64)), (''event_id'', CString (event_id e)), (''ts_ms'', cnum (ts_ms e)),
      (''event_type'', CString (event_type e)), (''project_id'', CString (project_id e)),
      (''session_id'', CString (session_id e)), (''summary'', CString (summary e)),
      (''details'', CString (details e))]"

definition plain_event :: "ledger_event \<Rightarrow> bool" where
  "plain_event e \<longleftrightarrow> plain_text (event_id e) \<and> plain_text (event_type e) \<and> plain_text (project_id e)
     \<and> plain_text (session_id e) \<and> plain_text (summary e) \<and> plain_text (details e)"

lemma writes_semantic_event:
  "plain_event e \<Longrightarrow> writes (Suc n) (render_semantic_event e) (CObject (semantic_event_value e))"
  unfolding render_semantic_event_def semantic_event_members_def semantic_event_value_def plain_event_def
  by (rule writes_object)
    (simp_all add: bundle_words writes_plain_text writes_u128 writes_digit object_keys_def)

lemma parse_semantic_event_value: "parse_semantic_event (CObject (semantic_event_value e)) = Inr e"
  by (simp add: parse_semantic_event_def semantic_event_value_def as_object_def require_keys_def semantic_event_keys_def
      object_keys_def object_get_map_of read_fields require_that_def)

definition chain_value :: "prepared_event_chain \<Rightarrow> (string \<times> cjson) list" where
  "chain_value c =
     [(''event_id'', CString (ec_event_id c)), (''ordinal'', cnum (ec_ordinal c)),
      (''previous_event_hash'', CString (ec_previous_event_hash c)), (''event_hash'', CString (ec_event_hash c))]"

definition plain_chain :: "prepared_event_chain \<Rightarrow> bool" where
  "plain_chain c \<longleftrightarrow> plain_text (ec_event_id c) \<and> plain_key (ec_previous_event_hash c) \<and> plain_key (ec_event_hash c)"

lemma writes_chain: "plain_chain c \<Longrightarrow> writes (Suc n) (template compact_layout (chain_members c)) (CObject (chain_value c))"
  unfolding chain_members_def chain_value_def plain_chain_def
  by (rule writes_object) (simp_all add: bundle_words writes_plain_text writes_plain_key writes_u64 object_keys_def)

lemma parse_chain_value: "parse_event_chain (CObject (chain_value c)) = Inr c"
  by (simp add: parse_event_chain_def chain_value_def as_object_def require_keys_def event_chain_plan_keys_def
      object_keys_def object_get_map_of read_fields)

text \<open>An array of texts that are written element by element, and its reading.\<close>

lemma writes_text_array:
  "(\<And>x. x \<in> set xs \<Longrightarrow> writes n (f x) (g x)) \<Longrightarrow> writes (Suc n) (text_array (map f xs)) (CArray (map g xs))"
  unfolding text_array_def by (rule writes_array) (simp add: list_all2_conv_all_nth)

lemma traverse_map_eq: "(\<And>x. x \<in> set xs \<Longrightarrow> f (g x) = h x) \<Longrightarrow> traverse f (map g xs) = traverse h xs"
  by (induction xs) auto

lemma traverse_map_id: "(\<And>x. x \<in> set xs \<Longrightarrow> f (g x) = Inr x) \<Longrightarrow> traverse f (map g xs) = Inr xs"
  by (induction xs) simp_all

section \<open>Members\<close>

definition owner_value :: "prepared_source_bundle \<Rightarrow> (string \<times> cjson) list" where
  "owner_value b =
     [(''project_id'', CString (bu_project_id b)), (''session_id'', CString (bu_session_id b)),
      (''workflow_id'', copt (bu_workflow_id b)), (''intent_id'', CString (bu_intent_id b))]"

definition binding_value :: "prepared_member_binding \<Rightarrow> (string \<times> cjson) list" where
  "binding_value x =
     [(''artifact_id'', copt (pb_artifact_id x)), (''causal_id'', copt (pb_causal_id x)),
      (''source_key'', copt (pb_source_key x)), (''event_id'', copt (pb_event_id x))]"

definition mode_value :: "bool \<Rightarrow> u32 \<Rightarrow> (string \<times> cjson) list" where
  "mode_value readonly mode = [(''readonly'', CBool readonly), (''mode'', cnum mode)]"

definition member_value :: "hasher \<Rightarrow> prepared_source_bundle \<Rightarrow> prepared_member \<Rightarrow> (string \<times> cjson) list" where
  "member_value sha b m =
     [(''member_kind'', CString (member_kind_str (pm_kind m))), (''path'', CString (pm_path m)),
      (''schema_version'', cnum (pm_schema_version m)), (''owner'', CObject (owner_value b)),
      (''binding'', CObject (binding_value (pm_binding m))), (''prepared_at_ms'', cnum (bu_prepared_at_ms b)),
      (''bytes_utf8'', copt (Some (pm_bytes_utf8 m))),
      (''byte_length'', cnum (of_nat (length (pm_bytes_utf8 m)) :: u64)),
      (''sha256'', CString (sha256_bytes sha (pm_bytes_utf8 m))), (''expected_type'', CString (pm_expected_type m)),
      (''expected_identity'', copt (pm_expected_identity m)),
      (''permissions'', CObject (mode_value (pm_readonly m) (pm_mode m))), (''ownership'', copt (pm_ownership m))]"

definition plain_binding :: "prepared_member_binding \<Rightarrow> bool" where
  "plain_binding x \<longleftrightarrow> pred_option plain_text (pb_artifact_id x) \<and> pred_option plain_text (pb_causal_id x)
     \<and> pred_option plain_text (pb_source_key x) \<and> pred_option plain_text (pb_event_id x)"

definition plain_member :: "prepared_member \<Rightarrow> bool" where
  "plain_member m \<longleftrightarrow> plain_text (pm_path m) \<and> plain_text (pm_bytes_utf8 m) \<and> plain_key (pm_expected_type m)
     \<and> plain_binding (pm_binding m) \<and> pred_option plain_text (pm_expected_identity m)
     \<and> pred_option plain_text (pm_ownership m)"

definition plain_owner :: "prepared_source_bundle \<Rightarrow> bool" where
  "plain_owner b \<longleftrightarrow> plain_key (bu_project_id b) \<and> plain_key (bu_session_id b) \<and> plain_key (bu_intent_id b)
     \<and> pred_option plain_text (bu_workflow_id b)"

lemma writes_owner: "plain_owner b \<Longrightarrow> writes (Suc n) (template compact_layout (owner_members b)) (CObject (owner_value b))"
  unfolding owner_members_def owner_value_def plain_owner_def
  by (rule writes_object) (simp_all add: bundle_words writes_plain_key writes_optional object_keys_def)

lemma writes_member_binding:
  "plain_binding x \<Longrightarrow> writes (Suc n) (template compact_layout (binding_members x)) (CObject (binding_value x))"
  unfolding binding_members_def binding_value_def plain_binding_def
  by (rule writes_object) (simp_all add: bundle_words writes_optional object_keys_def)

lemma writes_mode:
  "writes (Suc n) (template compact_layout [(''readonly'', show_bool r), (''mode'', show_nat (unat m))]) (CObject (mode_value r m))"
  unfolding mode_value_def show_bool_def
  by (rule writes_object) (simp_all add: bundle_words writes_literals writes_u32 object_keys_def)

lemma member_kind_plain: "plain_key (member_kind_str k)"
  by (cases k) (simp_all add: member_kind_str_def plain_key_chars plain_char_def)

lemma writes_length: "m < 2 ^ 64 \<Longrightarrow> writes n (show_nat m) (cnum (of_nat m :: u64))"
  using writes_u64 [of n "of_nat m"] by (simp add: unat_of_nat_small)

lemma writes_member:
  assumes "plain_member m" "plain_owner b" "length (pm_bytes_utf8 m) < 2 ^ 64"
    and "plain_key (sha256_bytes sha (pm_bytes_utf8 m))"
  shows "writes (Suc (Suc n)) (render_additional_member sha b m) (CObject (member_value sha b m))"
  unfolding render_additional_member_def
proof (rule writes_object)
  have bytes: "writes (Suc n) (escaped (pm_bytes_utf8 m)) (copt (Some (pm_bytes_utf8 m)))"
    using assms(1) by (simp add: plain_member_def copt_def writes_plain_text)
  show "list_all2 (member_writes (Suc n)) (additional_member_fields sha b m) (member_value sha b m)"
    using assms bytes unfolding additional_member_fields_def member_value_def
    by (simp add: bundle_words plain_member_def writes_owner writes_member_binding writes_mode member_kind_plain
        writes_length writes_plain_key writes_plain_text writes_optional writes_u64 writes_u128)
  show "distinct (object_keys (member_value sha b m))" by (simp add: object_keys_def member_value_def)
qed

definition context_of :: "prepared_source_bundle \<Rightarrow> member_parse_context" where
  "context_of b =
     \<lparr>mc_prepared_at_ms = bu_prepared_at_ms b, mc_project_id = bu_project_id b, mc_session_id = bu_session_id b,
      mc_workflow_id = bu_workflow_id b, mc_intent_id = bu_intent_id b, mc_intent_kind = bu_intent_kind b,
      mc_semantic_events = bu_semantic_events b\<rparr>"

lemma check_owner_value:
  "object_get ''owner'' member = Some (CObject (owner_value b)) \<Longrightarrow> check_member_owner (context_of b) member message = Inr ()"
  by (simp add: check_member_owner_def context_of_def required_object_CObject owner_value_def require_keys_def
      owner_keys_def object_keys_def object_get_map_of read_fields require_that_def)

text \<open>The role of a member is not written; it is told from the event the member names.\<close>

definition role_of :: "prepared_source_bundle \<Rightarrow> prepared_member \<Rightarrow> u8 result" where
  "role_of b m =
     (if pm_kind m = WorkflowSnapshot \<or> pm_kind m = WorkflowPointer
      then derive_workflow_role_rank (pb_event_id (pm_binding m)) (bu_intent_kind b) (bu_semantic_events b)
      else Inr 0)"

definition role_named :: "prepared_source_bundle \<Rightarrow> prepared_member \<Rightarrow> bool" where
  "role_named b m \<longleftrightarrow> role_of b m = Inr (pm_semantic_role_rank m)"

text \<open>A member as it is read: everything but the role is that of the member written.\<close>

definition read_member :: "prepared_source_bundle \<Rightarrow> prepared_member \<Rightarrow> prepared_member result" where
  "read_member b m = rbind (role_of b m) (\<lambda>r. Inr (m\<lparr>pm_semantic_role_rank := r\<rparr>))"

lemma parse_member_value:
  assumes "length (pm_bytes_utf8 m) < 2 ^ 64"
  shows "parse_additional_member sha (context_of b) (CObject (member_value sha b m)) = read_member b m"
proof -
  let ?obj = "member_value sha b m"
  have get: "object_get ''member_kind'' ?obj = Some (CString (member_kind_str (pm_kind m)))"
    "object_get ''path'' ?obj = Some (CString (pm_path m))"
    "object_get ''schema_version'' ?obj = Some (cnum (pm_schema_version m))"
    "object_get ''owner'' ?obj = Some (CObject (owner_value b))"
    "object_get ''binding'' ?obj = Some (CObject (binding_value (pm_binding m)))"
    "object_get ''prepared_at_ms'' ?obj = Some (cnum (bu_prepared_at_ms b))"
    "object_get ''bytes_utf8'' ?obj = Some (copt (Some (pm_bytes_utf8 m)))"
    "object_get ''byte_length'' ?obj = Some (cnum (of_nat (length (pm_bytes_utf8 m)) :: u64))"
    "object_get ''sha256'' ?obj = Some (CString (sha256_bytes sha (pm_bytes_utf8 m)))"
    "object_get ''expected_type'' ?obj = Some (CString (pm_expected_type m))"
    "object_get ''expected_identity'' ?obj = Some (copt (pm_expected_identity m))"
    "object_get ''permissions'' ?obj = Some (CObject (mode_value (pm_readonly m) (pm_mode m)))"
    "object_get ''ownership'' ?obj = Some (copt (pm_ownership m))"
    by (simp_all add: member_value_def object_get_map_of)
  have bound: "object_get ''artifact_id'' (binding_value x) = Some (copt (pb_artifact_id x))"
    "object_get ''causal_id'' (binding_value x) = Some (copt (pb_causal_id x))"
    "object_get ''source_key'' (binding_value x) = Some (copt (pb_source_key x))"
    "object_get ''event_id'' (binding_value x) = Some (copt (pb_event_id x))" for x
    by (simp_all add: binding_value_def object_get_map_of)
  have mode: "object_get ''readonly'' (mode_value r w) = Some (CBool r)" "object_get ''mode'' (mode_value r w) = Some (cnum w)" for r w
    by (simp_all add: mode_value_def object_get_map_of)
  have keys: "require_keys ?obj member_keys = Inr ()" "require_keys (binding_value x) binding_keys = Inr ()"
    "require_keys (mode_value r w) member_permission_keys = Inr ()" for x r w
    by (simp_all add: require_keys_def object_keys_def member_value_def member_keys_def binding_value_def
        binding_keys_def mode_value_def member_permission_keys_def)
  have len: "u64_of_len (length (pm_bytes_utf8 m)) = Some (of_nat (length (pm_bytes_utf8 m)))"
    using assms(1) by (simp add: u64_of_len_def)
  have role: "(if pm_kind m = WorkflowSnapshot \<or> pm_kind m = WorkflowPointer
      then derive_workflow_role_rank (pb_event_id (pm_binding m)) (mc_intent_kind (context_of b)) (mc_semantic_events (context_of b))
      else Inr 0) = role_of b m"
    by (simp add: role_of_def context_of_def)
  have at: "bu_prepared_at_ms b = mc_prepared_at_ms (context_of b)" by (simp add: context_of_def)
  have fields: "parse_member_fields ?obj (binding_value (pm_binding m)) (mode_value (pm_readonly m) (pm_mode m)) (pm_kind m)
      (pm_bytes_utf8 m) (pb_event_id (pm_binding m)) = (\<lambda>r. Inr (m\<lparr>pm_semantic_role_rank := r\<rparr>))"
    by (rule ext) (simp add: parse_member_fields_def read_fields get bound mode)
  show ?thesis
    unfolding parse_additional_member_def
    by (simp add: as_object_def keys check_owner_value [OF get(4)] read_fields get bound at [symmetric] require_that_def len
        member_kind_roundtrip role fields read_member_def)
qed

text \<open>The three members of a source installation.\<close>

definition source_member_value ::
  "prepared_source_bundle \<Rightarrow> source_install_v1 \<Rightarrow> string \<Rightarrow> string \<Rightarrow> string \<Rightarrow> string option \<Rightarrow> u64 \<Rightarrow> string \<Rightarrow>
   string \<Rightarrow> string option \<Rightarrow> string option \<Rightarrow> (string \<times> cjson) list" where
  "source_member_value b source kind path artifact bytes len hash expected_type identity owner =
     [(''member_kind'', CString kind), (''path'', CString path), (''schema_version'', CNull),
      (''owner'', CObject (owner_value b)),
      (''binding'', CObject (binding_value \<lparr>pb_artifact_id = Some artifact, pb_causal_id = None,
          pb_source_key = Some (si_source_key source), pb_event_id = None\<rparr>)),
      (''prepared_at_ms'', cnum (bu_prepared_at_ms b)), (''bytes_utf8'', copt bytes), (''byte_length'', cnum len),
      (''sha256'', CString hash), (''expected_type'', CString expected_type), (''expected_identity'', copt identity),
      (''permissions'', CObject (mode_value False (um_before_mode (si_unix_metadata source)))),
      (''ownership'', copt owner)]"

lemma writes_source_binding:
  assumes "plain_key artifact" "plain_key key"
  shows "writes (Suc n) (template compact_layout
     [(''artifact_id'', quoted artifact), (''causal_id'', ''null''), (''source_key'', quoted key), (''event_id'', ''null'')])
   (CObject (binding_value \<lparr>pb_artifact_id = Some artifact, pb_causal_id = None, pb_source_key = Some key, pb_event_id = None\<rparr>))"
  using assms unfolding binding_value_def copt_def
  by (intro writes_object) (simp_all add: bundle_words writes_plain_key writes_literals object_keys_def)

lemma writes_source_member:
  assumes "plain_owner b" "plain_key kind" "plain_text path" "plain_key artifact" "plain_key (si_source_key source)"
    and "pred_option plain_text bytes" "plain_key hash" "plain_key expected_type" "pred_option plain_text identity"
    and "pred_option plain_text owner"
  shows "writes (Suc (Suc n))
    (template compact_layout (source_member_fields b source kind path artifact bytes len hash expected_type identity owner))
    (CObject (source_member_value b source kind path artifact bytes len hash expected_type identity owner))"
proof (rule writes_object)
  have mode: "writes (Suc n) (template compact_layout [(''readonly'', ''false''), (''mode'', show_nat (unat m))])
      (CObject (mode_value False m))" for m :: u32
    using writes_mode [of n False m] by (simp add: show_bool_def)
  show "list_all2 (member_writes (Suc n))
      (source_member_fields b source kind path artifact bytes len hash expected_type identity owner)
      (source_member_value b source kind path artifact bytes len hash expected_type identity owner)"
    using assms writes_source_binding [OF assms(4,5)] mode unfolding source_member_fields_def source_member_value_def
    by (simp add: bundle_words writes_owner writes_plain_key writes_plain_text writes_optional writes_u64 writes_u128
        writes_literals)
  show "distinct (object_keys (source_member_value b source kind path artifact bytes len hash expected_type identity owner))"
    by (simp add: object_keys_def source_member_value_def)
qed

lemma parse_source_member_value:
  assumes "sm_artifact x \<noteq> None \<longrightarrow> sm_artifact x = Some artifact" "sm_has_bytes x = (bytes \<noteq> None)"
  shows "parse_source_member sha source (context_of b)
    (x, CObject (source_member_value b source (sm_kind x) (sm_path x) artifact bytes (sm_length x) (sm_sha256 x)
       expected_type identity owner)) =
     (case bytes of None \<Rightarrow> Inr None
      | Some text \<Rightarrow> rbind (require_that (length text \<le> max_source_blob_bytes \<and> sha256_bytes sha text = sm_sha256 x
          \<and> u64_of_len (length text) = Some (sm_length x)) ''prepared source member embedded bytes'') (\<lambda>_. Inr (Some text)))"
proof -
  let ?obj = "source_member_value b source (sm_kind x) (sm_path x) artifact bytes (sm_length x) (sm_sha256 x)
       expected_type identity owner"
  let ?bound = "binding_value \<lparr>pb_artifact_id = Some artifact, pb_causal_id = None,
          pb_source_key = Some (si_source_key source), pb_event_id = None\<rparr>"
  let ?mode = "mode_value False (um_before_mode (si_unix_metadata source))"
  have get: "object_get ''member_kind'' ?obj = Some (CString (sm_kind x))"
    "object_get ''path'' ?obj = Some (CString (sm_path x))" "object_get ''schema_version'' ?obj = Some CNull"
    "object_get ''owner'' ?obj = Some (CObject (owner_value b))" "object_get ''binding'' ?obj = Some (CObject ?bound)"
    "object_get ''prepared_at_ms'' ?obj = Some (cnum (bu_prepared_at_ms b))"
    "object_get ''bytes_utf8'' ?obj = Some (copt bytes)" "object_get ''byte_length'' ?obj = Some (cnum (sm_length x))"
    "object_get ''sha256'' ?obj = Some (CString (sm_sha256 x))" "object_get ''permissions'' ?obj = Some (CObject ?mode)"
    by (simp_all add: source_member_value_def object_get_map_of)
  have bound: "object_get ''artifact_id'' ?bound = Some (CString artifact)"
    "object_get ''causal_id'' ?bound = Some (copt None)" "object_get ''source_key'' ?bound = Some (copt (Some (si_source_key source)))"
    "object_get ''event_id'' ?bound = Some (copt None)"
    by (simp_all add: binding_value_def object_get_map_of copt_def)
  have mode: "object_get ''readonly'' ?mode = Some (CBool False)"
    "object_get ''mode'' ?mode = Some (cnum (um_before_mode (si_unix_metadata source)))"
    by (simp_all add: mode_value_def object_get_map_of)
  have readonly: "required_bool ?mode ''readonly'' = Inr False" using mode(1) by (rule required_bool_CBool)
  have keys: "require_keys ?obj member_keys = Inr ()" "require_keys ?bound binding_keys = Inr ()"
    "require_keys ?mode member_permission_keys = Inr ()"
    by (simp_all add: require_keys_def object_keys_def source_member_value_def member_keys_def binding_value_def
        binding_keys_def mode_value_def member_permission_keys_def)
  have at: "bu_prepared_at_ms b = mc_prepared_at_ms (context_of b)" by (simp add: context_of_def)
  have scalars: "check_source_scalars (context_of b) ?obj x artifact = Inr ()"
    using assms(1) by (simp add: check_source_scalars_def read_fields get at [symmetric] require_that_def)
  show ?thesis
    unfolding parse_source_member_def Let_def
    by (simp add: as_object_def keys check_owner_value [OF get(4)] read_fields get bound mode(2) readonly scalars assms(2))
      (cases bytes; simp add: require_that_def)
qed

section \<open>The bundle\<close>

definition before_value :: "prepared_source_bundle \<Rightarrow> (string \<times> cjson) list" where
  "before_value b =
     [(''current_revision'', cnum (bu_current_revision b)),
      (''current_artifact_hash'', CString (bu_current_artifact_hash b)),
      (''ledger_count'', cnum (lb_event_count (bu_ledger_binding b))),
      (''ledger_event_id'', copt (lb_event_id (bu_ledger_binding b))),
      (''ledger_hash'', CString (lb_event_hash (bu_ledger_binding b)))]"

definition lag_value :: "u64 option \<Rightarrow> cjson" where
  "lag_value index = (case index of None \<Rightarrow> CNull
     | Some i \<Rightarrow> CObject [(''member_kind'', CString ''projection_lag''), (''member_index'', cnum i)])"

definition source_member_values :: "prepared_source_bundle \<Rightarrow> cjson list" where
  "source_member_values b = (case (bu_source_install b, bu_before_bytes b, bu_proposed_bytes b) of
     (Some source, Some before, Some proposed) \<Rightarrow>
       [CObject (source_member_value b source ''before_blob'' (bl_member_path (si_before_blob source))
          (bl_blob_id (si_before_blob source)) (Some before) (si_before_byte_length source) (si_before_sha256 source)
          ''file'' (pp_expected_identity (si_target source)) (Some (so_before_owner (si_ownership source)))),
        CObject (source_member_value b source ''proposed_blob'' (bl_member_path (si_proposed_blob source))
          (bl_blob_id (si_proposed_blob source)) (Some proposed) (si_proposed_byte_length source)
          (si_proposed_sha256 source) ''file'' None (Some (so_install_owner (si_ownership source)))),
        CObject (source_member_value b source ''rollback_ref'' (pp_path (si_rollback_final source))
          (''rollback-ref-'' @ si_source_key source) None (si_before_byte_length source) (si_before_sha256 source)
          ''content-addressed-reference'' (Some (si_before_sha256 source)) (Some (so_before_owner (si_ownership source))))]
   | _ \<Rightarrow> [])"

definition bundle_value :: "hasher \<Rightarrow> prepared_source_bundle \<Rightarrow> (string \<times> cjson) list" where
  "bundle_value sha b =
     [(''schema_version'', cnum (1 :: u64)), (''intent_id'', CString (bu_intent_id b)),
      (''intent_kind'', CString (bu_intent_kind b)), (''project_id'', CString (bu_project_id b)),
      (''session_id'', CString (bu_session_id b)), (''workflow_id'', copt (bu_workflow_id b)),
      (''prepared_at_ms'', cnum (bu_prepared_at_ms b)), (''before_binding'', CObject (before_value b)),
      (''members'', CArray (source_member_values b @ map (\<lambda>m. CObject (member_value sha b m)) (bu_additional_members b))),
      (''semantic_events'', CArray (map (\<lambda>e. CObject (semantic_event_value e)) (bu_semantic_events b))),
      (''event_chain_plan'', CArray (map (\<lambda>c. CObject (chain_value c)) (bu_event_chain_plan b))),
      (''source_install_v1'', case bu_source_install b of None \<Rightarrow> CNull | Some p \<Rightarrow> CObject (source_value p)),
      (''projection_lag_v1'', lag_value (bu_projection_lag_member_index b))]"

text \<open>
  What a bundle must have for its text to be readable, beyond what its check demands: texts that
  both escapings write alike, and lengths that are those of the bytes and roles told by the events.
\<close>

definition plain_bundle_source :: "prepared_source_bundle \<Rightarrow> bool" where
  "plain_bundle_source b \<longleftrightarrow> (case (bu_source_install b, bu_before_bytes b, bu_proposed_bytes b) of
     (Some source, Some before, Some proposed) \<Rightarrow>
       plain_source source \<and> plain_key (bl_blob_id (si_before_blob source)) \<and> plain_key (bl_blob_id (si_proposed_blob source))
       \<and> plain_text before \<and> plain_text proposed
   | _ \<Rightarrow> True)"

definition source_lengths :: "prepared_source_bundle \<Rightarrow> bool" where
  "source_lengths b \<longleftrightarrow> (case (bu_source_install b, bu_before_bytes b, bu_proposed_bytes b) of
     (Some p, Some before, Some proposed) \<Rightarrow> u64_of_len (length before) = Some (si_before_byte_length p)
       \<and> u64_of_len (length proposed) = Some (si_proposed_byte_length p)
   | _ \<Rightarrow> True)"

definition told_bundle :: "prepared_source_bundle \<Rightarrow> bool" where
  "told_bundle b \<longleftrightarrow> source_lengths b \<and> list_all (role_named b) (bu_additional_members b)"

definition plain_event_texts :: "ledger_event \<Rightarrow> bool" where
  "plain_event_texts e \<longleftrightarrow> plain_text (event_type e) \<and> plain_text (summary e) \<and> plain_text (details e)"

definition plain_bundle :: "prepared_source_bundle \<Rightarrow> bool" where
  "plain_bundle b \<longleftrightarrow> list_all plain_member (bu_additional_members b)
     \<and> list_all plain_event_texts (bu_semantic_events b)
     \<and> pred_option plain_text (lb_event_id (bu_ledger_binding b)) \<and> plain_bundle_source b"

text \<open>What the check of a bundle says of its parts.\<close>

lemma member_loop_checks:
  "member_loop check d before ms = Inr () \<Longrightarrow> i < length ms \<Longrightarrow> check (length before + i) (ms ! i) = Inr ()"
proof (induction ms arbitrary: before i)
  case (Cons m ms)
  from Cons.prems(1) have m: "check (length before) m = Inr ()" "member_loop check d (before @ [m]) ms = Inr ()"
    by (auto simp: rbind_Inr_iff split: if_splits)
  show ?case
  proof (cases i)
    case 0
    with m(1) show ?thesis by simp
  next
    case (Suc j)
    with Cons.IH [OF m(2), of j] Cons.prems(2) show ?thesis by simp
  qed
qed simp

lemma member_loop_each:
  assumes "member_loop check d [] ms = Inr ()" "m \<in> set ms"
  shows "\<exists>i < length ms. ms ! i = m \<and> check i m = Inr ()"
  using member_loop_checks [OF assms(1)] assms(2) by (auto simp: in_set_conv_nth)

lemma enforce_Inr [simp]: "enforce_byte_limit n limit message = Inr u \<longleftrightarrow> n \<le> limit"
  by (auto simp: enforce_byte_limit_def)

lemma additional_member_bytes:
  assumes "validate_additional_members sha ambient b = Inr ()" "m \<in> set (bu_additional_members b)"
  shows "length (pm_bytes_utf8 m) < 2 ^ 64"
proof -
  have "length (pm_bytes_utf8 m) \<le> 262144"
  proof (cases "is_state_transition_intent_kind (bu_intent_kind b) \<and> \<not> is_terminal_action_intent_kind (bu_intent_kind b)
      \<and> bu_intent_kind b \<noteq> ''approve-verification''")
    case True
    with assms have "member_loop (check_transition_member b) True [] (bu_additional_members b) = Inr ()"
      by (auto simp: validate_additional_members_def validate_state_transition_members_def Let_def rbind_Inr_iff
          split: if_splits)
    from member_loop_each [OF this assms(2)] show ?thesis
      by (auto simp: check_transition_member_def transition_limit_def Let_def split: if_splits)
  next
    case False
    show ?thesis
    proof (cases "bu_intent_kind b = ''approve-verification'' \<or> is_terminal_action_intent_kind (bu_intent_kind b)")
      case True
      with assms have "member_loop (check_verification_member b) True [] (bu_additional_members b) = Inr ()"
        by (auto simp: validate_additional_members_def validate_verification_members_def Let_def rbind_Inr_iff
            split: if_splits)
      from member_loop_each [OF this assms(2)] show ?thesis
        by (auto simp: check_verification_member_def transition_limit_def Let_def split: if_splits)
    next
      case no: False
      with False assms have "member_loop (check_production_member b) False [] (bu_additional_members b) = Inr ()"
        by (auto simp: validate_additional_members_def validate_production_members_def Let_def rbind_Inr_iff
            split: if_splits)
      from member_loop_each [OF this assms(2)] obtain i where "check_production_member b i m = Inr ()" by blast
      then have "length (pm_bytes_utf8 m) \<le> production_limit (pm_kind m)"
        by (auto simp: check_production_member_def Let_def rbind_Inr_iff split: if_splits)
      moreover have "production_limit (pm_kind m) \<le> 262144"
        by (cases "pm_kind m") (simp_all add: production_limit_def)
      ultimately show ?thesis by linarith
    qed
  qed
  then show ?thesis by simp
qed

lemma event_links_each:
  "event_links sha b index ids previous ecs = Inr () \<Longrightarrow> (e, c) \<in> set ecs \<Longrightarrow> plain_key previous \<Longrightarrow>
   ascii_id_valid (event_id e) \<and> project_id e = bu_project_id b \<and> session_id e = bu_session_id b
   \<and> ec_event_id c = event_id e \<and> is_sha256 (ec_event_hash c) \<and> plain_key (ec_previous_event_hash c)"
proof (induction ecs arbitrary: index ids previous)
  case (Cons ec ecs)
  obtain e' c' where ec: "ec = (e', c')" by fastforce
  from Cons.prems(1) ec have hd: "ascii_id_valid (event_id e')" "project_id e' = bu_project_id b"
      "session_id e' = bu_session_id b" "ec_event_id c' = event_id e'" "is_sha256 (ec_event_hash c')"
      "ec_previous_event_hash c' = previous"
    and tl: "event_links sha b (index + 1) (event_id e' # ids) (ec_event_hash c') ecs = Inr ()"
    by (auto simp: rbind_Inr_iff validate_ascii_id_iff event_link_valid_def split: if_splits)
  from hd(5) have "plain_key (ec_event_hash c')" using sha256_plain by blast
  from Cons.IH [OF tl _ this] Cons.prems(2,3) ec hd show ?case by auto
qed simp

lemma plain_missing: "plain_key ''missing''" "plain_key ''root''"
  by (simp_all add: plain_key_chars plain_char_def)

lemma intent_kind_plain: "intent_kind_known kind \<Longrightarrow> plain_key kind"
  unfolding intent_kind_known_def is_state_transition_intent_kind_def is_terminal_action_intent_kind_def
    state_transition_intent_kinds_def terminal_action_intent_kinds_def
  by (auto simp: plain_key_chars plain_char_def)

lemma optional_id_Inr: "optional_id v label = Inr u \<longleftrightarrow> pred_option ascii_id_valid v"
  by (cases v) (simp_all add: optional_id_def validate_ascii_id_iff)

lemma bundle_checked:
  assumes "validate_prepared_source_bundle sha ambient b = Inr ()"
  shows "ascii_id_valid (bu_intent_id b)" "ascii_id_valid (bu_project_id b)" "ascii_id_valid (bu_session_id b)"
    "pred_option ascii_id_valid (bu_workflow_id b)" "intent_kind_known (bu_intent_kind b)" "before_binding_valid b"
    "validate_bundle_source sha b = Inr ()" "validate_event_chain sha b = Inr ()"
    "validate_additional_members sha ambient b = Inr ()"
  using assms by (auto simp: validate_prepared_source_bundle_def rbind_Inr_iff validate_ascii_id_iff optional_id_Inr
      split: if_splits)

lemma before_binding_plain:
  "before_binding_valid b \<Longrightarrow> plain_key (bu_current_artifact_hash b) \<and> plain_key (lb_event_hash (bu_ledger_binding b))"
  using sha256_plain plain_missing by (auto simp: before_binding_valid_def Let_def)

lemma checked_owner: "validate_prepared_source_bundle sha ambient b = Inr () \<Longrightarrow> plain_owner b"
  using bundle_checked [of sha ambient b] ascii_id_plain
  by (auto simp: plain_owner_def pred_option_def)

lemma checked_events:
  assumes "validate_prepared_source_bundle sha ambient b = Inr ()" "list_all plain_event_texts (bu_semantic_events b)"
  shows "e \<in> set (bu_semantic_events b) \<Longrightarrow> plain_event e" "c \<in> set (bu_event_chain_plan b) \<Longrightarrow> plain_chain c"
proof -
  note v = bundle_checked [OF assms(1)]
  from v(8) have len: "length (bu_semantic_events b) = length (bu_event_chain_plan b)"
    and links: "event_links sha b 0 [] (lb_event_hash (bu_ledger_binding b)) (zip (bu_semantic_events b) (bu_event_chain_plan b)) = Inr ()"
    by (auto simp: validate_event_chain_def rbind_Inr_iff split: if_splits)
  note each = event_links_each [OF links _ conjunct2 [OF before_binding_plain [OF v(6)]]]
  show "plain_event e" if "e \<in> set (bu_semantic_events b)"
  proof -
    from that len obtain c where "(e, c) \<in> set (zip (bu_semantic_events b) (bu_event_chain_plan b))"
      by (auto simp: in_set_conv_nth set_zip)
    from each [OF this] that assms(2) v(2,3) show ?thesis
      by (auto simp: plain_event_def plain_event_texts_def list_all_iff ascii_id_plain)
  qed
  show "plain_chain c" if "c \<in> set (bu_event_chain_plan b)"
  proof -
    from that len obtain e where "(e, c) \<in> set (zip (bu_semantic_events b) (bu_event_chain_plan b))"
      by (auto simp: in_set_conv_nth set_zip)
    from each [OF this] show ?thesis by (auto simp: plain_chain_def ascii_id_plain sha256_plain)
  qed
qed

lemma writes_bundle_source:
  assumes "validate_bundle_source sha b = Inr ()" "plain_bundle b"
    and "(case bu_source_install b of None \<Rightarrow> Inr ''null'' | Some p \<Rightarrow> render_source_install_v1 sha p) = Inr source"
  shows "writes 2 source (case bu_source_install b of None \<Rightarrow> CNull | Some p \<Rightarrow> CObject (source_value p))"
    "bu_source_install b = Some p \<Longrightarrow> source = render_canonical_object (source_value p) \<and> parse_source_install_v1 sha source = Inr p"
    "(bu_source_install b = None) = (bu_before_bytes b = None)" "(bu_source_install b = None) = (bu_proposed_bytes b = None)"
proof -
  show nulls: "(bu_source_install b = None) = (bu_before_bytes b = None)" "(bu_source_install b = None) = (bu_proposed_bytes b = None)"
    using assms(1) by (auto simp: validate_bundle_source_def Let_def split: option.splits)
  have plain: "plain_source p" if "bu_source_install b = Some p" for p
    using assms(2) nulls that by (auto simp: plain_bundle_def plain_bundle_source_def split: option.splits)
  show "writes 2 source (case bu_source_install b of None \<Rightarrow> CNull | Some p \<Rightarrow> CObject (source_value p))"
    using assms(3) source_reads_back(2) plain by (auto simp: writes_literals split: option.splits)
  show "source = render_canonical_object (source_value p) \<and> parse_source_install_v1 sha source = Inr p"
    if "bu_source_install b = Some p"
    using assms(3) that plain [OF that] source_reads_back(1,3) by auto
qed

lemma source_hash_fields:
  assumes "validate_source_install_v1 sha p = Inr ()"
  shows "plain_key (si_source_key p)" "plain_text (si_source_key p)" "plain_key (si_before_sha256 p)" "plain_text (si_before_sha256 p)"
    "plain_key (si_proposed_sha256 p)" "is_sha256 (si_source_key p)"
    "plain_text (so_before_owner (si_ownership p))" "plain_text (so_install_owner (si_ownership p))"
    "unat (si_before_byte_length p) \<le> max_source_blob_bytes" "unat (si_proposed_byte_length p) \<le> max_source_blob_bytes"
proof -
  have "source_hashes_bound p" "source_metadata_bound p"
    using assms by (auto simp: validate_source_install_v1_def rbind_Inr_iff split: if_splits)
  then show "plain_key (si_source_key p)" "plain_text (si_source_key p)" "plain_key (si_before_sha256 p)"
    "plain_text (si_before_sha256 p)" "plain_key (si_proposed_sha256 p)" "is_sha256 (si_source_key p)"
    "plain_text (so_before_owner (si_ownership p))" "plain_text (so_install_owner (si_ownership p))"
    "unat (si_before_byte_length p) \<le> max_source_blob_bytes" "unat (si_proposed_byte_length p) \<le> max_source_blob_bytes"
    by (simp_all add: source_hashes_bound_def sha256_plain source_metadata_bound_def Let_def owner_text_plain)
qed

lemma rollback_ref_plain:
  assumes "is_sha256 v"
  shows "plain_key (''rollback-ref-'' @ v)"
proof -
  have "list_all (\<lambda>c. is_ascii_alphanumeric c \<or> c = CHR ''-'') (''rollback-ref-'' @ v)"
    using assms
    by (auto simp: is_sha256_def list_all_iff is_ascii_alphanumeric_def is_ascii_digit_def is_ascii_lowercase_def)
  then have "plain_text (''rollback-ref-'' @ v) \<and> plain_key (''rollback-ref-'' @ v)"
    by (rule plain_id_text) auto
  then show ?thesis by simp
qed

text \<open>A source that the check and \<open>plain_bundle\<close> admit, as the writer and the reader see it.\<close>

lemma bundle_source_cases:
  assumes "validate_bundle_source sha b = Inr ()" "plain_bundle b"
  obtains (none) "bu_source_install b = None" "bu_before_bytes b = None" "bu_proposed_bytes b = None"
  | (source) source before proposed where "bu_source_install b = Some source" "bu_before_bytes b = Some before"
      "bu_proposed_bytes b = Some proposed" "validate_source_install_v1 sha source = Inr ()"
      "source_bytes_bound sha source before proposed" "plain_source source"
      "plain_key (bl_blob_id (si_before_blob source))" "plain_key (bl_blob_id (si_proposed_blob source))"
      "plain_text before" "plain_text proposed"
proof (cases "bu_source_install b")
  case None
  with assms(1) none show ?thesis by (auto simp: validate_bundle_source_def Let_def split: option.splits)
next
  case (Some p)
  with assms(1) obtain before proposed where bytes: "bu_before_bytes b = Some before" "bu_proposed_bytes b = Some proposed"
    by (auto simp: validate_bundle_source_def Let_def split: option.splits)
  moreover have "validate_source_install_v1 sha p = Inr ()" "source_bytes_bound sha p before proposed"
    using assms(1) Some bytes by (auto simp: validate_bundle_source_def Let_def rbind_Inr_iff split: if_splits)
  moreover have "plain_source p" "plain_key (bl_blob_id (si_before_blob p))" "plain_key (bl_blob_id (si_proposed_blob p))"
      "plain_text before" "plain_text proposed"
    using assms(2) Some bytes by (simp_all add: plain_bundle_def plain_bundle_source_def)
  ultimately show ?thesis using source Some by blast
qed

lemma u64_of_len_unat: "u64_of_len n = Some len \<Longrightarrow> n = unat len"
  by (auto simp: u64_of_len_def unat_of_nat_small split: if_splits)

lemma writes_source_members:
  assumes "validate_prepared_source_bundle sha ambient b = Inr ()" "plain_bundle b" "render_source_members sha b = Inr members"
  shows "writes (Suc (Suc (Suc n))) members
    (CArray (source_member_values b @ map (\<lambda>m. CObject (member_value sha b m)) (bu_additional_members b)))"
proof -
  note v = bundle_checked [OF assms(1)] and owner = checked_owner [OF assms(1)]
  have m: "list_all2 (writes (Suc (Suc n))) (map (render_additional_member sha b) (bu_additional_members b))
      (map (\<lambda>m. CObject (member_value sha b m)) (bu_additional_members b))"
  proof (simp add: list_all2_conv_all_nth, intro allI impI)
    fix i assume "i < length (bu_additional_members b)"
    then have m: "bu_additional_members b ! i \<in> set (bu_additional_members b)" by simp
    then have "plain_member (bu_additional_members b ! i)" using assms(2) by (simp add: plain_bundle_def list_all_iff)
    then show "writes (Suc (Suc n)) (render_additional_member sha b (bu_additional_members b ! i))
        (CObject (member_value sha b (bu_additional_members b ! i)))"
      using owner additional_member_bytes [OF v(9) m] sha256_bytes_plain by (rule writes_member)
  qed
  from v(7) assms(2) show ?thesis
  proof (cases rule: bundle_source_cases)
    case none
    with assms(3) have "members = text_array (map (render_additional_member sha b) (bu_additional_members b))"
      by (simp add: render_source_members_def Let_def)
    with none writes_array [OF m] show ?thesis by (simp add: source_member_values_def text_array_def)
  next
    case (source p before proposed)
    note h = source_hash_fields [OF source(4)]
    have "pred_option plain_text (pp_expected_identity (si_target p))" "plain_text (bl_member_path (si_before_blob p))"
        "plain_text (bl_member_path (si_proposed_blob p))" "plain_text (pp_path (si_rollback_final p))"
      using source(6) by (simp_all add: plain_source_def plain_path_def)
    then have "list_all2 (writes (Suc (Suc n))) (map (template compact_layout) (source_members b p before proposed))
        (source_member_values b)"
      using source h owner rollback_ref_plain [OF h(6)]
      by (simp add: source_members_def source_member_values_def writes_source_member bundle_words)
    moreover have "members = text_array (map (template compact_layout) (source_members b p before proposed)
        @ map (render_additional_member sha b) (bu_additional_members b))"
      using assms(3) source(1-3) by (simp add: render_source_members_def Let_def)
    ultimately show ?thesis using writes_array m unfolding text_array_def by (simp add: list_all2_appendI)
  qed
qed

lemma parse_bundle_members_value:
  assumes "validate_prepared_source_bundle sha ambient b = Inr ()" "plain_bundle b"
  shows "parse_bundle_members sha (bundle_value sha b) (bu_source_install b) (context_of b) =
    (if source_lengths b
     then rbind (traverse (read_member b) (bu_additional_members b)) (\<lambda>ms. Inr (bu_before_bytes b, bu_proposed_bytes b, ms))
     else Inl (blocked_error ''prepared source member embedded bytes'' []))"
proof -
  note v = bundle_checked [OF assms(1)]
  have arr: "object_array (bundle_value sha b) ''members'' e
    = Inr (source_member_values b @ map (\<lambda>m. CObject (member_value sha b m)) (bu_additional_members b))" for e
    by (simp add: object_array_def bundle_value_def object_get_map_of)
  have additional: "traverse (parse_additional_member sha (context_of b))
      (map (\<lambda>m. CObject (member_value sha b m)) (bu_additional_members b)) = traverse (read_member b) (bu_additional_members b)"
    by (rule traverse_map_eq) (rule parse_member_value [OF additional_member_bytes [OF v(9)]])
  from v(7) assms(2) show ?thesis
  proof (cases rule: bundle_source_cases)
    case none
    then show ?thesis
      using additional by (simp add: parse_bundle_members_def parse_additional_members_def arr source_member_values_def source_lengths_def)
  next
    case (source p before proposed)
    note h = source_hash_fields [OF source(4)]
    let ?x = "expected_source_members p" and ?e = "blocked_error ''prepared source member embedded bytes'' []"
    have len: "u64_of_len (length before) = Some (si_before_byte_length p) \<Longrightarrow> length before \<le> max_source_blob_bytes"
      "u64_of_len (length proposed) = Some (si_proposed_byte_length p) \<Longrightarrow> length proposed \<le> max_source_blob_bytes"
      using h(9,10) u64_of_len_unat by fastforce+
    have three: "traverse (parse_source_member sha p (context_of b)) (zip ?x (take 3 (source_member_values b @ rest)))
      = (if source_lengths b then Inr [Some before, Some proposed, None] else Inl ?e)" for rest
    proof -
      obtain v1 v2 v3 where vs: "source_member_values b = [v1, v2, v3]"
        using source(1-3) by (simp add: source_member_values_def)
      have "parse_source_member sha p (context_of b) (?x ! 0, v1) =
          (if u64_of_len (length before) = Some (si_before_byte_length p) then Inr (Some before) else Inl ?e)"
        using vs source(1-3) parse_source_member_value [of "?x ! 0" "bl_blob_id (si_before_blob p)" "Some before" sha p b
            "''file''" "pp_expected_identity (si_target p)" "Some (so_before_owner (si_ownership p))"]
          source(5) len(1)
        by (auto simp: source_member_values_def expected_source_members_def source_bytes_bound_def require_that_def)
      moreover have "parse_source_member sha p (context_of b) (?x ! 1, v2) =
          (if u64_of_len (length proposed) = Some (si_proposed_byte_length p) then Inr (Some proposed) else Inl ?e)"
        using vs source(1-3) parse_source_member_value [of "?x ! 1" "bl_blob_id (si_proposed_blob p)" "Some proposed" sha p b
            "''file''" None "Some (so_install_owner (si_ownership p))"]
          source(5) len(2)
        by (auto simp: source_member_values_def expected_source_members_def source_bytes_bound_def require_that_def)
      moreover have "parse_source_member sha p (context_of b) (?x ! 2, v3) = Inr None"
        using vs source(1-3) parse_source_member_value [of "?x ! 2" "''rollback-ref-'' @ si_source_key p" None sha p b
            "''content-addressed-reference''" "Some (si_before_sha256 p)" "Some (so_before_owner (si_ownership p))"]
        by (simp add: source_member_values_def expected_source_members_def)
      moreover have "?x = [?x ! 0, ?x ! 1, ?x ! 2]" by (simp add: expected_source_members_def)
      then have "zip ?x [v1, v2, v3] = [(?x ! 0, v1), (?x ! 1, v2), (?x ! 2, v3)]"
        by (metis zip_Cons_Cons zip_Nil)
      ultimately show ?thesis using source(1-3) by (simp add: vs source_lengths_def)
    qed
    moreover have "length (source_member_values b) = 3" using source(1-3) by (simp add: source_member_values_def)
    ultimately have "parse_source_members sha (bundle_value sha b) p (context_of b) =
        (if source_lengths b
         then rbind (traverse (read_member b) (bu_additional_members b)) (\<lambda>ms. Inr (before, proposed, ms)) else Inl ?e)"
      using additional by (simp add: parse_source_members_def arr)
    then show ?thesis using source(1-3) by (simp add: parse_bundle_members_def rbind_assoc)
  qed
qed

lemma parse_bundle_value:
  assumes "validate_prepared_source_bundle sha ambient b = Inr ()" "plain_bundle b"
    and "\<And>p. bu_source_install b = Some p \<Longrightarrow> parse_source_install_v1 sha (render_canonical_object (source_value p)) = Inr p"
  shows "parse_bundle_fields sha (bundle_value sha b) =
    (if source_lengths b
     then rbind (traverse (read_member b) (bu_additional_members b)) (\<lambda>ms. Inr (b\<lparr>bu_additional_members := ms\<rparr>))
     else Inl (blocked_error ''prepared source member embedded bytes'' []))"
proof -
  let ?obj = "bundle_value sha b"
  have get: "object_get ''schema_version'' ?obj = Some (cnum (1 :: u64))"
    "object_get ''intent_id'' ?obj = Some (CString (bu_intent_id b))"
    "object_get ''intent_kind'' ?obj = Some (CString (bu_intent_kind b))"
    "object_get ''project_id'' ?obj = Some (CString (bu_project_id b))"
    "object_get ''session_id'' ?obj = Some (CString (bu_session_id b))"
    "object_get ''workflow_id'' ?obj = Some (copt (bu_workflow_id b))"
    "object_get ''prepared_at_ms'' ?obj = Some (cnum (bu_prepared_at_ms b))"
    "object_get ''before_binding'' ?obj = Some (CObject (before_value b))"
    "object_get ''semantic_events'' ?obj = Some (CArray (map (\<lambda>e. CObject (semantic_event_value e)) (bu_semantic_events b)))"
    "object_get ''event_chain_plan'' ?obj = Some (CArray (map (\<lambda>c. CObject (chain_value c)) (bu_event_chain_plan b)))"
    "object_get ''source_install_v1'' ?obj = Some (case bu_source_install b of None \<Rightarrow> CNull | Some p \<Rightarrow> CObject (source_value p))"
    "object_get ''projection_lag_v1'' ?obj = Some (lag_value (bu_projection_lag_member_index b))"
    by (simp_all add: bundle_value_def object_get_map_of)
  have before: "require_keys (before_value b) before_binding_keys = Inr ()"
    "parse_before_binding (before_value b) = Inr (bu_current_revision b, bu_current_artifact_hash b, bu_ledger_binding b)"
    by (simp_all add: before_value_def before_binding_keys_def require_keys_def object_keys_def parse_before_binding_def
        object_get_map_of read_fields)
  have source: "parse_bundle_source sha ?obj = Inr (bu_source_install b)"
    using assms(3) by (cases "bu_source_install b") (simp_all add: parse_bundle_source_def get)
  have events: "parse_semantic_events ?obj = Inr (bu_semantic_events b)" "parse_event_chain_plan ?obj = Inr (bu_event_chain_plan b)"
    by (simp_all add: parse_semantic_events_def parse_event_chain_plan_def object_array_def get traverse_map_id
        parse_semantic_event_value parse_chain_value)
  have lag: "parse_projection_lag_reference ?obj = Inr (bu_projection_lag_member_index b)"
    unfolding parse_projection_lag_reference_def get lag_value_def
    by (cases "bu_projection_lag_member_index b")
      (simp_all add: require_keys_def projection_lag_reference_keys_def object_keys_def object_get_map_of read_fields
        require_that_def)
  have kind: "intent_kind_known (bu_intent_kind b)" using bundle_checked(5) [OF assms(1)] .
  note members = parse_bundle_members_value [OF assms(1,2), unfolded context_of_def]
  have upd: "\<lparr>bu_intent_id = bu_intent_id b, bu_intent_kind = bu_intent_kind b, bu_project_id = bu_project_id b,
      bu_session_id = bu_session_id b, bu_workflow_id = bu_workflow_id b, bu_prepared_at_ms = bu_prepared_at_ms b,
      bu_current_revision = bu_current_revision b, bu_current_artifact_hash = bu_current_artifact_hash b,
      bu_ledger_binding = bu_ledger_binding b, bu_source_install = bu_source_install b,
      bu_before_bytes = bu_before_bytes b, bu_proposed_bytes = bu_proposed_bytes b, bu_additional_members = ms,
      bu_semantic_events = bu_semantic_events b, bu_event_chain_plan = bu_event_chain_plan b,
      bu_projection_lag_member_index = bu_projection_lag_member_index b\<rparr> = b\<lparr>bu_additional_members := ms\<rparr>" for ms
    by (cases b) simp
  show ?thesis unfolding parse_bundle_fields_def
    by (simp add: read_fields get require_that_def kind before source events members lag rbind_assoc upd)
qed

text \<open>The text of a plain bundle is read back as the bundle.\<close>

lemma bundle_writes:
  assumes "render_prepared_source_bundle sha ambient b = Inr body" "plain_bundle b"
  shows "writes 4 body (CObject (bundle_value sha b))"
proof -
  from assms(1) obtain source members where valid: "validate_prepared_source_bundle sha ambient b = Inr ()"
    and source: "(case bu_source_install b of None \<Rightarrow> Inr ''null'' | Some p \<Rightarrow> render_source_install_v1 sha p) = Inr source"
    and members: "render_source_members sha b = Inr members"
    and body: "body = template compact_layout (bundle_members b members source)"
    by (auto simp: render_prepared_source_bundle_def rbind_Inr_iff Let_def)
  note v = bundle_checked [OF valid]
  have "list_all plain_event_texts (bu_semantic_events b)" using assms(2) by (simp add: plain_bundle_def)
  note ev = checked_events [OF valid this]
  note src = writes_bundle_source [OF v(7) assms(2) source]
  have w_events: "writes 2 (render_semantic_events (bu_semantic_events b))
      (CArray (map (\<lambda>e. CObject (semantic_event_value e)) (bu_semantic_events b)))"
    unfolding render_semantic_events_def numeral_2_eq_2
    by (rule writes_text_array) (simp add: ev(1) writes_semantic_event)
  have w_chain: "writes 2 (render_event_chain_plan (bu_event_chain_plan b))
      (CArray (map (\<lambda>c. CObject (chain_value c)) (bu_event_chain_plan b)))"
    unfolding render_event_chain_plan_def numeral_2_eq_2
    by (rule writes_text_array) (simp add: ev(2) writes_chain)
  have w_before: "writes 2 (template compact_layout
         [(''current_revision'', show_nat (unat (bu_current_revision b))),
          (''current_artifact_hash'', quoted (bu_current_artifact_hash b)),
          (''ledger_count'', show_nat (unat (lb_event_count (bu_ledger_binding b)))),
          (''ledger_event_id'', render_optional_string (lb_event_id (bu_ledger_binding b))),
          (''ledger_hash'', quoted (lb_event_hash (bu_ledger_binding b)))]) (CObject (before_value b))"
    using before_binding_plain [OF v(6)] assms(2) unfolding before_value_def plain_bundle_def numeral_2_eq_2
    by (intro writes_object) (simp_all add: bundle_words writes_plain_key writes_optional writes_u64 object_keys_def)
  have w_lag: "writes 2 (render_projection_lag_reference i) (lag_value i)" for i
    unfolding render_projection_lag_reference_def lag_value_def numeral_2_eq_2
    by (cases i) (simp_all add: bundle_words writes_literals writes_object writes_plain_key writes_u64 object_keys_def)
  have w_members: "writes 3 members
      (CArray (source_member_values b @ map (\<lambda>m. CObject (member_value sha b m)) (bu_additional_members b)))"
    using writes_source_members [OF valid assms(2) members, of 0] by (simp add: numeral_3_eq_3)
  have ids: "plain_text (bu_intent_id b)" "plain_text (bu_project_id b)" "plain_text (bu_session_id b)"
      "pred_option plain_text (bu_workflow_id b)" "plain_key (bu_intent_kind b)"
    using v(1-5) by (simp_all add: ascii_id_plain intent_kind_plain pred_option_def)
  have two: "writes 3 raw c" if "writes 2 raw c" for raw c
    using that by (rule writes_mono) simp
  have "list_all2 (member_writes 3) (bundle_members b members source) (bundle_value sha b)"
    unfolding bundle_members_def bundle_value_def
    by (simp add: bundle_words ids w_members two [OF w_events] two [OF w_chain] two [OF w_before] two [OF w_lag] two [OF src(1)]
        writes_plain_text writes_plain_key writes_optional writes_u128 writes_digit)
  then have "writes (Suc 3) body (CObject (bundle_value sha b))"
    unfolding body by (rule writes_object) (simp add: object_keys_def bundle_value_def)
  then show ?thesis by simp
qed

text \<open>The roles that the check of a bundle demands; they follow from the kind and the place of a member.\<close>

definition checked_role :: "prepared_source_bundle \<Rightarrow> nat \<Rightarrow> prepared_member \<Rightarrow> u8" where
  "checked_role b i m =
     (if bu_intent_kind b = ''approve-patch'' \<and> (pm_kind m = WorkflowSnapshot \<or> pm_kind m = WorkflowPointer)
      then of_nat (i mod 2) else 0)"

lemma checked_roles:
  assumes "validate_additional_members sha ambient b = Inr ()" "i < length (bu_additional_members b)"
  shows "pm_semantic_role_rank (bu_additional_members b ! i) = checked_role b i (bu_additional_members b ! i)"
proof -
  let ?m = "bu_additional_members b ! i"
  have ne: "bu_additional_members b \<noteq> []" using assms(2) by auto
  consider (verification) "bu_intent_kind b = ''approve-verification'' \<or> is_terminal_action_intent_kind (bu_intent_kind b)"
    | (transition) "is_state_transition_intent_kind (bu_intent_kind b)" "bu_intent_kind b \<noteq> ''approve-verification''"
        "\<not> is_terminal_action_intent_kind (bu_intent_kind b)"
    | (production) "\<not> is_state_transition_intent_kind (bu_intent_kind b)" "bu_intent_kind b \<noteq> ''approve-verification''"
        "\<not> is_terminal_action_intent_kind (bu_intent_kind b)" by blast
  then show ?thesis
  proof cases
    case verification
    with assms ne have "member_loop (check_verification_member b) True [] (bu_additional_members b) = Inr ()"
      by (auto simp: validate_additional_members_def validate_verification_members_def Let_def rbind_Inr_iff split: if_splits)
    from member_loop_checks [OF this assms(2)] have "pm_semantic_role_rank ?m = 0"
      by (auto simp: check_verification_member_def Let_def split: if_splits)
    moreover have "bu_intent_kind b \<noteq> ''approve-patch''"
      using verification by (auto simp: is_terminal_action_intent_kind_def terminal_action_intent_kinds_def)
    ultimately show ?thesis by (simp add: checked_role_def)
  next
    case transition
    with assms ne have "member_loop (check_transition_member b) True [] (bu_additional_members b) = Inr ()"
      by (auto simp: validate_additional_members_def validate_state_transition_members_def Let_def rbind_Inr_iff split: if_splits)
    from member_loop_checks [OF this assms(2)] have "pm_semantic_role_rank ?m = 0"
      by (auto simp: check_transition_member_def Let_def split: if_splits)
    moreover have "bu_intent_kind b \<noteq> ''approve-patch''"
      using transition by (auto simp: is_state_transition_intent_kind_def state_transition_intent_kinds_def)
    ultimately show ?thesis by (simp add: checked_role_def)
  next
    case production
    with assms ne have "member_loop (check_production_member b) False [] (bu_additional_members b) = Inr ()"
      and kind: "bu_intent_kind b = ''approve-patch''"
      by (auto simp: validate_additional_members_def validate_production_members_def Let_def rbind_Inr_iff split: if_splits)
    from member_loop_checks [OF this(1) assms(2)] kind show ?thesis
      by (auto simp: check_production_member_def checked_role_def Let_def split: if_splits)
  qed
qed

text \<open>Two bundles that differ in the roles alone and pass the check are one.\<close>

lemma read_members_same:
  assumes "traverse (read_member b) (bu_additional_members b) = Inr ms"
    and "validate_additional_members sha ambient b = Inr ()"
    and "validate_additional_members sha ambient (b\<lparr>bu_additional_members := ms\<rparr>) = Inr ()"
  shows "ms = bu_additional_members b \<and> list_all (role_named b) (bu_additional_members b)"
proof -
  from assms(1) have len: "length ms = length (bu_additional_members b)"
    and each: "\<And>i. i < length ms \<Longrightarrow> read_member b (bu_additional_members b ! i) = Inr (ms ! i)"
    by (simp_all add: traverse_Inr_iff list_all2_conv_all_nth)
  have same: "ms ! i = bu_additional_members b ! i \<and> role_named b (bu_additional_members b ! i)" if "i < length ms" for i
  proof -
    let ?m = "bu_additional_members b ! i"
    from each [OF that] obtain r where r: "role_of b ?m = Inr r" "ms ! i = ?m\<lparr>pm_semantic_role_rank := r\<rparr>"
      by (auto simp: read_member_def rbind_Inr_iff)
    have "r = checked_role b i ?m"
      using checked_roles [OF assms(3), of i] that r(2) by (simp add: checked_role_def)
    with checked_roles [OF assms(2), of i] that len have "r = pm_semantic_role_rank ?m" by simp
    with r show ?thesis by (simp add: role_named_def)
  qed
  with len show ?thesis by (auto simp: list_all_length intro: nth_equalityI)
qed

lemma read_members_told:
  "list_all (role_named b) ms \<Longrightarrow> traverse (read_member b) ms = Inr ms"
  by (auto simp: traverse_Inr_iff list_all2_conv_all_nth list_all_length role_named_def read_member_def)

text \<open>The text of a plain bundle is read back as the bundle when the rest is told, and refused otherwise.\<close>

lemma bundle_reads_back:
  assumes "render_prepared_source_bundle sha ambient b = Inr body" "plain_bundle b"
  shows "parse_prepared_source_bundle sha ambient body = Inr b \<longleftrightarrow> told_bundle b"
    and "parse_prepared_source_bundle sha ambient body = Inr b' \<Longrightarrow> b' = b"
proof -
  from assms(1) obtain source where valid: "validate_prepared_source_bundle sha ambient b = Inr ()"
    and source: "(case bu_source_install b of None \<Rightarrow> Inr ''null'' | Some p \<Rightarrow> render_source_install_v1 sha p) = Inr source"
    and len: "length body \<le> max_prepared_bundle_bytes"
    by (auto simp: render_prepared_source_bundle_def rbind_Inr_iff Let_def)
  note src = writes_bundle_source [OF bundle_checked(7) [OF valid] assms(2) source]
  have keys: "object_keys (bundle_value sha b) = prepared_bundle_keys"
    by (simp add: object_keys_def bundle_value_def prepared_bundle_keys_def)
  have obj: "parse_canonical_object body prepared_bundle_keys ''prepared source bundle'' = Inr (bundle_value sha b)"
    using writes_parse_canonical [OF bundle_writes [OF assms]] by (simp add: keys max_json_nesting_depth_def)
  have fields: "parse_bundle_fields sha (bundle_value sha b) =
    (if source_lengths b
     then rbind (traverse (read_member b) (bu_additional_members b)) (\<lambda>ms. Inr (b\<lparr>bu_additional_members := ms\<rparr>))
     else Inl (blocked_error ''prepared source member embedded bytes'' []))"
    using src(2) by (intro parse_bundle_value [OF valid assms(2)]) metis
  have only: "b' = b \<and> told_bundle b" if parsed: "parse_prepared_source_bundle sha ambient body = Inr b'" for b'
  proof -
    from parsed obj have "parse_bundle_fields sha (bundle_value sha b) = Inr b'"
      and v': "validate_prepared_source_bundle sha ambient b' = Inr ()"
      by (auto simp: parse_prepared_source_bundle_def rbind_Inr_iff split: if_splits)
    then obtain ms where lengths: "source_lengths b"
      and ms: "traverse (read_member b) (bu_additional_members b) = Inr ms" "b' = b\<lparr>bu_additional_members := ms\<rparr>"
      by (auto simp: fields rbind_Inr_iff split: if_splits)
    from bundle_checked(9) [OF v'] read_members_same [OF ms(1) bundle_checked(9) [OF valid]] ms(2) lengths
    show ?thesis by (simp add: told_bundle_def)
  qed
  then show "parse_prepared_source_bundle sha ambient body = Inr b' \<Longrightarrow> b' = b" by blast
  have "parse_prepared_source_bundle sha ambient body = Inr b" if "told_bundle b"
    using that obj assms(1) len valid
    by (simp add: parse_prepared_source_bundle_def enforce_byte_limit_def fields told_bundle_def read_members_told)
  with only show "parse_prepared_source_bundle sha ambient body = Inr b \<longleftrightarrow> told_bundle b" by blast
qed

end
