(* ===== verification/Json_Spelling.thy ===== *)
theory Json_Spelling
  imports Current_State_Properties Canonical_Texts
begin

text \<open>
  Why a text that \<open>escape_string_content\<close> wrote may not be canonical: the canonical writer uses the
  long escape only for the control characters below a space that have no short one, so no canonical
  text has any other. \<open>closed\<close> texts end outside an escape, so that what holds of the escapes of a
  text holds of its parts.
\<close>

section \<open>The escapes of a text\<close>

definition long_escape :: "string \<Rightarrow> bool" where
  "long_escape h \<longleftrightarrow> h \<in> show_hex4 ` ({..<32} - {8, 9, 10, 12, 13})"

fun spelled :: "string \<Rightarrow> bool" where
  "spelled [] = True"
| "spelled [c] = (c \<noteq> backslash)"
| "spelled (c # d # cs) =
     (if c = backslash then (d = CHR ''u'' \<longrightarrow> long_escape (take 4 cs)) \<and> spelled cs else spelled (d # cs))"

definition closed :: "string \<Rightarrow> bool" where
  "closed v \<longleftrightarrow> (\<forall>t. spelled (v @ t) = (spelled v \<and> spelled t))"

lemma show_hex4_inj: "m < 65536 \<Longrightarrow> n < 65536 \<Longrightarrow> show_hex4 m = show_hex4 n \<Longrightarrow> m = n"
  using hex4_show_hex4 [of m "[]"] hex4_show_hex4 [of n "[]"] by simp

lemma long_escape_iff: "n < 65536 \<Longrightarrow> long_escape (show_hex4 n) \<longleftrightarrow> n < 32 \<and> n \<notin> {8, 9, 10, 12, 13}"
proof -
  assume n: "n < 65536"
  have "show_hex4 n = show_hex4 m \<longleftrightarrow> n = m" if "m < 32" for m
    using show_hex4_inj [OF n, of m] that by auto
  then show ?thesis by (auto simp: long_escape_def image_iff)
qed

lemma spelled_plain_step: "c \<noteq> backslash \<Longrightarrow> spelled (c # t) = spelled t"
  by (cases t) auto

lemma spelled_no_backslash: "backslash \<notin> set v \<Longrightarrow> spelled (v @ t) = spelled t"
  by (induction v) (auto simp: spelled_plain_step)

lemma closed_Nil [simp]: "closed []" by (simp add: closed_def)

lemma closed_append: "closed a \<Longrightarrow> closed b \<Longrightarrow> closed (a @ b)"
  by (simp add: closed_def)

lemma spelled_append: "closed a \<Longrightarrow> spelled (a @ b) \<longleftrightarrow> spelled a \<and> spelled b"
  by (simp add: closed_def)

lemma closed_no_backslash: "backslash \<notin> set v \<Longrightarrow> closed v"
  using spelled_no_backslash [of v "[]"] by (simp add: closed_def spelled_no_backslash)

lemma spelled_words: "backslash \<notin> set v \<Longrightarrow> spelled v"
  using spelled_no_backslash [of v "[]"] by simp

lemma closed_Cons: "c \<noteq> backslash \<Longrightarrow> closed v \<Longrightarrow> closed (c # v)"
  by (simp add: closed_def spelled_plain_step)

lemma closed_concat: "\<forall>v\<in>set vs. closed v \<Longrightarrow> closed (concat vs)"
  by (induction vs) (auto intro: closed_append)

lemma spelled_concat: "\<forall>v\<in>set vs. closed v \<Longrightarrow> spelled (concat vs) \<longleftrightarrow> (\<forall>v\<in>set vs. spelled v)"
  by (induction vs) (auto simp: spelled_append)

lemma closed_join: "\<forall>v\<in>set vs. closed v \<Longrightarrow> closed (join '','' vs)"
  by (induction vs) (auto simp: join_Cons_step intro!: closed_append closed_Cons)

lemma spelled_join: "\<forall>v\<in>set vs. closed v \<Longrightarrow> spelled (join '','' vs) \<longleftrightarrow> (\<forall>v\<in>set vs. spelled v)"
  by (induction vs) (auto simp: join_Cons_step spelled_append spelled_plain_step)

section \<open>Escaped and rendered characters\<close>

lemma backslash_in_hex: "backslash \<notin> set (show_hex4 n)"
proof -
  have "backslash \<noteq> hex_char (m mod 16)" for m using hex_char_plain [of m] by (auto simp: plain_char_def)
  then show ?thesis by (auto simp: show_hex4_def)
qed

lemma escape_unit:
  "spelled ([backslash, CHR ''u''] @ show_hex4 n @ t) \<longleftrightarrow> long_escape (show_hex4 n) \<and> spelled t"
  using spelled_no_backslash [OF backslash_in_hex] by (simp add: show_hex4_def)

lemma closed_hex: "closed ([backslash, CHR ''u''] @ show_hex4 n)"
  using escape_unit [of n] escape_unit [of n "[]"] by (simp add: closed_def)

lemma spelled_hex: "n < 65536 \<Longrightarrow> spelled ([backslash, CHR ''u''] @ show_hex4 n) \<longleftrightarrow> n < 32 \<and> n \<notin> {8, 9, 10, 12, 13}"
  using escape_unit [of n "[]"] by (simp add: long_escape_iff)

lemma closed_short: "d \<noteq> CHR ''u'' \<Longrightarrow> closed [backslash, d]" "d \<noteq> CHR ''u'' \<Longrightarrow> spelled [backslash, d]"
  by (simp_all add: closed_def)

lemma byte_inj: "byte c = byte d \<Longrightarrow> c = d"
  by (metis char_of_char)

lemma short_controls:
  "byte c = 8 \<longleftrightarrow> c = CHR 0x08" "byte c = 9 \<longleftrightarrow> c = CHR 0x09" "byte c = 10 \<longleftrightarrow> c = CHR 0x0A"
  "byte c = 12 \<longleftrightarrow> c = CHR 0x0C" "byte c = 13 \<longleftrightarrow> c = CHR 0x0D"
  using byte_inj [of c "CHR 0x08"] byte_inj [of c "CHR 0x09"] byte_inj [of c "CHR 0x0A"]
    byte_inj [of c "CHR 0x0C"] byte_inj [of c "CHR 0x0D"] by auto

lemma render_char_spelled: "closed (render_char c)" "spelled (render_char c)"
proof -
  have short: "\<exists>d. render_char c = [backslash, d] \<and> d \<noteq> CHR ''u''"
    if "c \<in> {quote, backslash, CHR 0x08, CHR 0x0C, CHR 0x0A, CHR 0x0D, CHR 0x09}"
    using that by (elim insertE emptyE; simp only:; simp add: render_char_def)
  consider "c \<in> {quote, backslash, CHR 0x08, CHR 0x0C, CHR 0x0A, CHR 0x0D, CHR 0x09}"
    | (long) "c \<notin> {quote, backslash, CHR 0x08, CHR 0x0C, CHR 0x0A, CHR 0x0D, CHR 0x09}" "byte c < 32"
    | (other) "c \<notin> {quote, backslash, CHR 0x08, CHR 0x0C, CHR 0x0A, CHR 0x0D, CHR 0x09}" "32 \<le> byte c"
    by linarith
  then have "closed (render_char c) \<and> spelled (render_char c)"
  proof cases
    case 1
    from short [OF this] obtain d where "render_char c = [backslash, d]" "d \<noteq> CHR ''u''" by blast
    then show ?thesis by (simp only: closed_short simp_thms)
  next
    case long
    then have "byte c \<notin> {8, 9, 10, 12, 13}" by (simp add: short_controls)
    with long closed_hex [of "byte c"] spelled_hex [of "byte c"] show ?thesis by (simp add: render_char_def)
  next
    case other
    then have "render_char c = [c]" by (simp add: render_char_def)
    with other show ?thesis by (simp add: closed_def spelled_plain_step)
  qed
  then show "closed (render_char c)" "spelled (render_char c)" by simp_all
qed

lemma render_string_spelled: "closed (render_string s)" "spelled (render_string s)"
proof -
  have all: "\<forall>v\<in>set (map render_char s). closed v" "\<forall>v\<in>set (map render_char s). spelled v"
    using render_char_spelled by auto
  from closed_concat [OF all(1)] show "closed (render_string s)"
    unfolding render_string_def by (intro closed_Cons closed_append) simp_all
  from spelled_concat [OF all(1)] closed_concat [OF all(1)] all(2) show "spelled (render_string s)"
    unfolding render_string_def by (simp add: spelled_plain_step spelled_append)
qed

lemma plain_char_closed: "c \<noteq> backslash \<Longrightarrow> closed [c]" "c \<noteq> backslash \<Longrightarrow> spelled [c]"
  by (simp_all add: closed_Cons)

definition agrees :: "string \<Rightarrow> string \<Rightarrow> bool" where
  "agrees ch raw \<longleftrightarrow> closed raw \<and> (spelled raw \<longrightarrow> raw = concat (map render_char ch))"

lemma rendered_closed: "closed (concat (map render_char ch))" "spelled (concat (map render_char ch))"
proof -
  have all: "\<forall>v\<in>set (map render_char ch). closed v" "\<forall>v\<in>set (map render_char ch). spelled v"
    using render_char_spelled by auto
  from closed_concat [OF all(1)] spelled_concat [OF all(1)] all(2)
  show "closed (concat (map render_char ch))" "spelled (concat (map render_char ch))" by simp_all
qed

lemma agrees_same: "raw = concat (map render_char ch) \<Longrightarrow> agrees ch raw"
  by (simp add: agrees_def rendered_closed)

lemma agrees_append: "agrees a u \<Longrightarrow> agrees b v \<Longrightarrow> agrees (a @ b) (u @ v)"
  by (auto simp: agrees_def closed_append spelled_append)

lemma agrees_hex: "n < 65536 \<Longrightarrow> (n < 32 \<and> n \<notin> {8, 9, 10, 12, 13} \<Longrightarrow> [backslash, CHR ''u''] @ show_hex4 n = concat (map render_char ch)) \<Longrightarrow>
    agrees ch ([backslash, CHR ''u''] @ show_hex4 n)"
  using spelled_hex [of n] closed_hex [of n] unfolding agrees_def by blast

lemma agrees_ascii:
  assumes "byte c < 128"
  shows "agrees [c] (escape_content_char [c])"
proof (cases "c \<in> {quote, backslash, CHR 0x0A, CHR 0x0D, CHR 0x09}")
  case True
  then show ?thesis
    by (elim insertE emptyE; intro agrees_same; simp only:; simp add: render_char_def escape_content_char_def)
next
  case other: False
  show ?thesis
  proof (cases "is_control (byte c)")
    case True
    then have esc: "escape_content_char [c] = [backslash, CHR ''u''] @ show_hex4 (byte c)"
      using assms other by (simp add: escape_content_char_def)
    have "[backslash, CHR ''u''] @ show_hex4 (byte c) = concat (map render_char [c])"
      if "byte c < 32 \<and> byte c \<notin> {8, 9, 10, 12, 13}"
      using that other by (simp add: render_char_def short_controls)
    then show ?thesis unfolding esc using assms by (intro agrees_hex) simp_all
  next
    case False
    then have "\<not> byte c < 32" by (simp add: is_control_def)
    then have "c \<noteq> CHR 0x08" "c \<noteq> CHR 0x0C" "\<not> byte c < 32" by (auto simp: short_controls [symmetric])
    then have "render_char c = [c]" using other by (simp add: render_char_def)
    moreover have "escape_content_char [c] = [c]" using False assms other by (simp add: escape_content_char_def)
    ultimately show ?thesis by (intro agrees_same) simp
  qed
qed

lemma render_high: "\<forall>c\<in>set ch. 128 \<le> byte c \<Longrightarrow> concat (map render_char ch) = ch"
  by (induction ch) (simp_all add: render_char_high)

lemma agrees_slice:
  assumes "0 < utf8_width v"
  shows "agrees (take (utf8_width v) v) (escape_content_char (take (utf8_width v) v))"
  using assms
proof (cases rule: utf8_width_cases)
  case (ascii c)
  then show ?thesis by (simp add: agrees_ascii)
next
  case (two a b r)
  have high: "128 \<le> byte a" using utf8_width_high [OF assms, of a "b # r"] two by simp
  have "128 \<le> byte b" using utf8_width_tail [of a "b # r"] two high by simp
  with high have r: "concat (map render_char [a, b]) = [a, b]" by (intro render_high) simp
  show ?thesis
  proof (cases "is_control (code_point [a, b])")
    case True
    from code_point_two [OF two(2,1) this] have enc: "utf8_encode (code_point [a, b]) = [a, b]" "code_point [a, b] < 65536"
      by simp_all
    then have "\<not> code_point [a, b] < 32" by (auto simp: utf8_encode_def split: if_splits)
    then have "agrees [a, b] ([backslash, CHR ''u''] @ show_hex4 (code_point [a, b]))"
      using enc(2) by (intro agrees_hex) simp_all
    then show ?thesis using True two by (simp add: escape_content_char_def)
  next
    case False
    then have "escape_content_char [a, b] = [a, b]" by (simp add: escape_content_char_def)
    then show ?thesis using two r by (simp add: agrees_same del: concat.simps list.map)
  qed
next
  case wide
  let ?ch = "take (utf8_width v) v"
  obtain c r where v: "v = c # r" using wide by (cases v) simp_all
  have ch: "?ch = c # take (utf8_width v - 1) r" unfolding v using wide v by (cases "utf8_width v") simp_all
  have c: "128 \<le> byte c" using utf8_width_high [OF assms _ v] wide by simp
  have "\<forall>x\<in>set ?ch. 128 \<le> byte x"
    unfolding ch using utf8_width_tail [of c r] c wide by (simp add: v)
  from render_high [OF this] have r: "concat (map render_char ?ch) = ?ch" .
  have "length ?ch > 1" using wide utf8_width_le [of v] by simp
  then have "?ch \<noteq> [d]" for d by (metis One_nat_def length_Cons less_irrefl list.size(3))
  then have "escape_content_char ?ch = ?ch"
    using code_point_wide [OF wide] by (simp add: escape_content_char_def)
  with r show ?thesis by (simp add: agrees_same)
qed

lemma agrees_escape: "utf8_valid s \<Longrightarrow> agrees s (escape_string_content s)"
proof (induction s rule: utf8_valid.induct)
  case (1 s)
  show ?case
  proof (cases "s = []")
    case False
    with "1.prems" have w: "0 < utf8_width s" and v: "utf8_valid (drop (utf8_width s) s)"
      by (simp_all add: utf8_valid_step)
    have "escape_string_content s =
        escape_content_char (take (utf8_width s) s) @ escape_string_content (drop (utf8_width s) s)"
      using False w by (simp add: escape_string_content_def char_slices.simps [of s] Let_def max_def)
    with agrees_append [OF agrees_slice [OF w] "1.IH" [OF False _ v]] w show ?thesis by simp
  qed (simp add: agrees_same escape_string_content_def)
qed

lemma escape_closed: "utf8_valid s \<Longrightarrow> closed (quoted (escape_string_content s))"
  using agrees_escape [of s] by (auto simp: agrees_def quoted_def intro!: closed_Cons closed_append)

lemma escape_spelled:
  "utf8_valid s \<Longrightarrow> spelled (quoted (escape_string_content s)) \<Longrightarrow> plain_text s"
  using agrees_escape [of s]
  by (auto simp: agrees_def quoted_def spelled_plain_step spelled_append plain_text_def render_string_def)

section \<open>Rendered texts are UTF-8\<close>

lemma utf8_render_char: "byte c < 128 \<Longrightarrow> utf8_valid (render_char c)"
  by (simp add: render_char_def utf8_valid_ascii_Cons utf8_valid_show_hex4)

lemma utf8_render_chars: "utf8_valid s \<Longrightarrow> utf8_valid (concat (map render_char s))"
proof (induction s rule: utf8_valid.induct)
  case (1 s)
  show ?case
  proof (cases "s = []")
    case False
    let ?w = "utf8_width s"
    from False "1.prems" have w: "0 < ?w" and v: "utf8_valid (drop ?w s)" by (simp_all add: utf8_valid_step)
    have "take ?w s \<in> set (char_slices s)" using False w by (simp add: char_slices.simps [of s] Let_def max_def)
    then have slice: "utf8_valid (take ?w s)" using utf8_valid_slices "1.prems" by blast
    have "utf8_valid (concat (map render_char (take ?w s)))"
    proof (cases "\<exists>c. take ?w s = [c] \<and> byte c < 128")
      case True
      then show ?thesis using utf8_render_char by auto
    next
      case no: False
      obtain c r where s: "s = c # r" using False by (cases s) auto
      from w have "?w \<noteq> 1" by (cases rule: utf8_width_cases) (use no in auto)
      from utf8_width_high [OF w this s] have c: "128 \<le> byte c" .
      have "take ?w s = c # take (?w - 1) r" unfolding s using w s by (cases "utf8_width s") simp_all
      with c utf8_width_tail [of c r] w s have "\<forall>x\<in>set (take ?w s). 128 \<le> byte x" by simp
      from render_high [OF this] slice show ?thesis by simp
    qed
    then have "utf8_valid (concat (map render_char (take ?w s @ drop ?w s)))"
      using "1.IH" [OF False _ v] w utf8_valid_append by (simp del: append_take_drop_id)
    then show ?thesis by simp
  qed simp
qed

lemma utf8_render_string: "utf8_valid s \<Longrightarrow> utf8_valid (render_string s)"
  using utf8_valid_quoted [OF utf8_render_chars [of s]] by (simp add: render_string_def quoted_def)

lemma utf8_show_nat: "utf8_valid (show_nat n)"
proof (rule utf8_valid_ascii, unfold list_all_iff, intro ballI)
  fix c assume "c \<in> set (show_nat n)"
  then have "is_ascii_digit c" by (rule show_nat_digits)
  then show "byte c < 128" by (simp add: is_ascii_digit_def)
qed

lemma utf8_words: "utf8_valid ''true''" "utf8_valid ''false''" "utf8_valid ''null''"
  by (simp_all add: utf8_valid_ascii)

lemma utf8_canonical:
  "wf_cjson c \<Longrightarrow> utf8_valid (render_cjson c)"
  "wf_cmembers obj \<Longrightarrow> utf8_valid (render_cmembers obj)"
  "wf_celements vs \<Longrightarrow> utf8_valid (render_celements vs)"
proof (induction c and obj and vs rule: json_of_cjson_json_of_cmembers_json_of_celements.induct)
  case (4 raw)
  then show ?case using utf8_show_nat [of "read_digits raw"] by (simp add: canonical_number_def)
qed (auto simp: utf8_valid_ascii_Cons utf8_words intro!: utf8_valid_append utf8_render_string)

lemma writes_utf8: "writes n raw c \<Longrightarrow> utf8_valid raw"
  by (simp add: writes_def utf8_canonical)

section \<open>Values, objects and arrays\<close>

lemma show_nat_closed: "closed (show_nat n)" "spelled (show_nat n)"
proof -
  have "backslash \<notin> set (show_nat n)"
  proof
    assume "backslash \<in> set (show_nat n)"
    then have "is_ascii_digit backslash" by (rule show_nat_digits)
    then show False by (simp add: is_ascii_digit_def)
  qed
  then show "closed (show_nat n)" "spelled (show_nat n)" by (simp_all add: closed_no_backslash spelled_words)
qed

lemma plain_key_closed: "plain_key k \<Longrightarrow> closed (quoted k)" "plain_key k \<Longrightarrow> spelled (quoted k)"
  using render_string_spelled [of k] by (simp_all add: plain_key_def)

definition well_spelled :: "string \<Rightarrow> bool" where
  "well_spelled raw \<longleftrightarrow> closed raw \<and> spelled raw"

lemma well_spelled_append: "well_spelled a \<Longrightarrow> well_spelled b \<Longrightarrow> well_spelled (a @ b)"
  by (simp add: well_spelled_def closed_append spelled_append)

lemma well_spelled_Nil: "well_spelled []" by (simp add: well_spelled_def)

lemma well_spelled_words: "backslash \<notin> set v \<Longrightarrow> well_spelled v"
  by (simp add: well_spelled_def closed_no_backslash spelled_words)

lemma well_spelled_Cons: "c \<noteq> backslash \<Longrightarrow> well_spelled v \<Longrightarrow> well_spelled (c # v)"
  by (simp add: well_spelled_def closed_Cons spelled_plain_step)

lemma well_spelled_scalars: "well_spelled (render_string s)" "well_spelled (show_nat n)"
  by (simp_all add: well_spelled_def render_string_spelled show_nat_closed)

lemma canonical_spelled:
  "canonical_from_json ctxt v = Inr c \<Longrightarrow> well_spelled (render_cjson c)"
  "canonical_members ctxt obj = Inr es \<Longrightarrow> well_spelled (render_cmembers es)"
  "canonical_elements ctxt vs = Inr cs \<Longrightarrow> well_spelled (render_celements cs)"
proof (induction ctxt v and ctxt obj and ctxt vs arbitrary: c and es and cs
    rule: canonical_from_json_canonical_members_canonical_elements.induct)
  case (9 ctxt k v kvs)
  then obtain w rest where "es = (k, w) # rest" "canonical_from_json ctxt v = Inr w"
    "canonical_members ctxt kvs = Inr rest" by (auto simp: rbind_Inr_iff)
  with 9 have "es = (k, w) # rest" "well_spelled (render_cjson w)" "well_spelled (render_cmembers rest)" by blast+
  then show ?case
    by (auto intro!: well_spelled_append well_spelled_scalars well_spelled_Cons well_spelled_Nil)
next
  case (11 ctxt v vs)
  then obtain w rest where "cs = w # rest" "canonical_from_json ctxt v = Inr w"
    "canonical_elements ctxt vs = Inr rest" by (auto simp: rbind_Inr_iff)
  with 11 have "cs = w # rest" "well_spelled (render_cjson w)" "well_spelled (render_celements rest)" by blast+
  then show ?case by (auto intro!: well_spelled_append well_spelled_Cons well_spelled_Nil)
qed (auto simp: rbind_Inr_iff intro!: well_spelled_append well_spelled_scalars well_spelled_Cons well_spelled_Nil)

lemma canonical_input_spelled: "parse_canonical_object input keys ctxt = Inr obj \<Longrightarrow> spelled input"
proof -
  assume parse: "parse_canonical_object input keys ctxt = Inr obj"
  then obtain val where "parse_value input ctxt = Inr val" by (auto simp: parse_canonical_object_def rbind_Inr_iff)
  with parse obtain v where "canonical_members ctxt v = Inr obj" "render_canonical_object obj = input"
    by (cases val) (auto simp: parse_canonical_object_def rbind_Inr_iff split: if_splits)
  moreover have "well_spelled (render_canonical_object obj)"
    using canonical_spelled(2) [OF calculation(1)] unfolding render_canonical_object_def
    by (auto intro!: well_spelled_append well_spelled_Cons well_spelled_Nil)
  ultimately show ?thesis by (simp add: well_spelled_def)
qed

text \<open>An object or an array of closed texts is closed, and well spelled only if each of them is.\<close>

definition closed_members :: "(string \<times> string) list \<Rightarrow> bool" where
  "closed_members ms \<longleftrightarrow> (\<forall>m\<in>set ms. plain_key (fst m) \<and> closed (snd m))"

lemma template_closed:
  assumes "closed_members ms"
  shows "closed (template compact_layout ms)"
    "spelled (template compact_layout ms) \<Longrightarrow> m \<in> set ms \<Longrightarrow> spelled (snd m)"
proof -
  have body: "closed (template_members compact_layout ms) \<and>
      (spelled (template_members compact_layout ms) \<longrightarrow> (\<forall>m\<in>set ms. spelled (snd m)))"
    using assms
  proof (induction ms)
    case (Cons m ms)
    then have m: "plain_key (fst m)" "closed (snd m)" and rest: "closed_members ms"
      by (simp_all add: closed_members_def)
    from plain_key_closed [OF m(1)] m(2) Cons.IH [OF rest] show ?case
      by (cases m) (auto simp: compact_layout_def spelled_append spelled_plain_step intro!: closed_append closed_Cons)
  qed (simp add: compact_layout_def)
  then show "closed (template compact_layout ms)"
    unfolding template_def by (auto intro!: closed_append closed_Cons)
  from body show "spelled (template compact_layout ms) \<Longrightarrow> m \<in> set ms \<Longrightarrow> spelled (snd m)"
    unfolding template_def by (simp add: spelled_append spelled_plain_step)
qed

lemma array_closed:
  assumes "\<forall>v\<in>set vs. closed v"
  shows "closed (''['' @ join '','' vs @ '']'')"
    "spelled (''['' @ join '','' vs @ '']'') \<Longrightarrow> v \<in> set vs \<Longrightarrow> spelled v"
  using closed_join [OF assms] spelled_join [OF assms]
  by (auto simp: spelled_plain_step spelled_append intro!: closed_append closed_Cons)

lemma closed_members_simps:
  "closed_members []"
  "closed_members ((k, v) # ms) \<longleftrightarrow> plain_key k \<and> closed v \<and> closed_members ms"
  by (auto simp: closed_members_def)

lemma writes_well_spelled: "writes n raw c \<Longrightarrow> well_spelled raw"
proof -
  assume w: "writes n raw c"
  then have "canonical_from_json [] (json_of_cjson c) = Inr c" by (simp add: writes_def canonical_of_json_of_cjson)
  from canonical_spelled(1) [OF this] w show ?thesis by (simp add: writes_def)
qed

lemma writes_closed: "writes n raw c \<Longrightarrow> closed raw"
  using writes_well_spelled [of n raw c] by (simp add: well_spelled_def)

lemma closed_optional: "pred_option utf8_valid v \<Longrightarrow> closed (render_optional_string v)"
  by (cases v) (simp_all add: render_optional_string_def escape_closed closed_no_backslash)

lemma plain_closed: "plain_text s \<Longrightarrow> closed (escaped s)" "plain_key k \<Longrightarrow> closed (quoted k)"
  by (simp_all add: plain_text_valid escape_closed plain_key_closed)

lemma closed_plain_optional: "pred_option plain_text v \<Longrightarrow> closed (render_optional_string v)"
  by (rule closed_optional) (auto simp: pred_option_def plain_text_valid)

end
