(* ===== verification/Bundle_Refusal.thy ===== *)
theory Bundle_Refusal
  imports Bundle_Roundtrip Json_Spelling
begin

text \<open>
  When the text of a bundle is not read back: the contents it carries, the bytes of a source before
  and after and those of its members, are escaped one way and read another.
\<close>

definition blank_member :: "prepared_member \<Rightarrow> prepared_member" where
  "blank_member m = m\<lparr>pm_bytes_utf8 := []\<rparr>"

text \<open>Everything but the contents is plain; the contents are strings.\<close>

definition plain_frame :: "prepared_source_bundle \<Rightarrow> bool" where
  "plain_frame b \<longleftrightarrow> list_all plain_member (map blank_member (bu_additional_members b))
     \<and> list_all (\<lambda>m. utf8_valid (pm_bytes_utf8 m)) (bu_additional_members b)
     \<and> list_all plain_event_texts (bu_semantic_events b)
     \<and> pred_option plain_text (lb_event_id (bu_ledger_binding b))
     \<and> pred_option (\<lambda>p. plain_source p \<and> plain_key (bl_blob_id (si_before_blob p))
         \<and> plain_key (bl_blob_id (si_proposed_blob p))) (bu_source_install b)
     \<and> pred_option utf8_valid (bu_before_bytes b) \<and> pred_option utf8_valid (bu_proposed_bytes b)"

definition option_list :: "'a option \<Rightarrow> 'a list" where
  "option_list v = (case v of None \<Rightarrow> [] | Some x \<Rightarrow> [x])"

definition bundle_contents :: "prepared_source_bundle \<Rightarrow> string list" where
  "bundle_contents b = option_list (bu_before_bytes b) @ option_list (bu_proposed_bytes b)
     @ map pm_bytes_utf8 (bu_additional_members b)"

lemma member_spelled:
  assumes "plain_member (blank_member m)" "utf8_valid (pm_bytes_utf8 m)" "plain_owner b"
    and "plain_key (sha256_bytes sha (pm_bytes_utf8 m))"
  shows "closed (render_additional_member sha b m)"
    "spelled (render_additional_member sha b m) \<Longrightarrow> plain_text (pm_bytes_utf8 m)"
proof -
  have m: "plain_text (pm_path m)" "plain_key (pm_expected_type m)" "plain_binding (pm_binding m)"
    "pred_option plain_text (pm_expected_identity m)" "pred_option plain_text (pm_ownership m)"
    using assms(1) by (simp_all add: plain_member_def blank_member_def)
  have c: "closed_members (additional_member_fields sha b m)"
    unfolding additional_member_fields_def
    using m assms by (simp add: closed_members_simps bundle_words plain_closed member_kind_plain show_nat_closed
        closed_plain_optional escape_closed writes_closed [OF writes_owner] writes_closed [OF writes_member_binding]
        writes_closed [OF writes_mode] del: append_Cons)
  from template_closed(1) [OF c] show "closed (render_additional_member sha b m)"
    by (simp add: render_additional_member_def)
  show "plain_text (pm_bytes_utf8 m)" if "spelled (render_additional_member sha b m)"
    using template_closed(2) [OF c that [unfolded render_additional_member_def], of "(''bytes_utf8'', escaped (pm_bytes_utf8 m))"]
      escape_spelled [OF assms(2)] by (simp add: additional_member_fields_def)
qed

lemma source_member_spelled:
  fixes len :: u64
  assumes "plain_owner b" "plain_key kind" "plain_text path" "plain_key artifact" "plain_key (si_source_key source)"
    and "pred_option utf8_valid bytes" "plain_key hash" "plain_key expected_type" "pred_option plain_text identity"
    and "pred_option plain_text owner"
  shows "closed (template compact_layout
      (source_member_fields b source kind path artifact bytes len hash expected_type identity owner))"
    "spelled (template compact_layout
      (source_member_fields b source kind path artifact bytes len hash expected_type identity owner)) \<Longrightarrow>
     bytes = Some v \<Longrightarrow> plain_text v"
proof -
  let ?fs = "source_member_fields b source kind path artifact bytes len hash expected_type identity owner"
  have mode: "closed (template compact_layout [(''readonly'', ''false''), (''mode'', show_nat (unat m))])" for m :: u32
    using writes_closed [OF writes_mode [of 0 False m]] by (simp add: show_bool_def)
  have c: "closed_members ?fs"
    unfolding source_member_fields_def
    using assms(1-10) mode by (simp add: closed_members_simps bundle_words plain_closed show_nat_closed closed_plain_optional
        closed_optional closed_no_backslash writes_closed [OF writes_owner] writes_closed [OF writes_source_binding])
  from template_closed(1) [OF c] show "closed (template compact_layout ?fs)" .
  show "plain_text v" if "spelled (template compact_layout ?fs)" "bytes = Some v"
    using template_closed(2) [OF c that(1), of "(''bytes_utf8'', render_optional_string bytes)"] assms(6) that(2)
      escape_spelled [of v] by (simp add: source_member_fields_def render_optional_string_def)
qed

lemma frame_source_cases:
  assumes "validate_bundle_source sha b = Inr ()" "plain_frame b"
  obtains (none) "bu_source_install b = None" "bu_before_bytes b = None" "bu_proposed_bytes b = None"
  | (source) source before proposed where "bu_source_install b = Some source" "bu_before_bytes b = Some before"
      "bu_proposed_bytes b = Some proposed" "validate_source_install_v1 sha source = Inr ()" "plain_source source"
      "plain_key (bl_blob_id (si_before_blob source))" "plain_key (bl_blob_id (si_proposed_blob source))"
      "utf8_valid before" "utf8_valid proposed"
proof (cases "bu_source_install b")
  case None
  with assms(1) none show ?thesis by (auto simp: validate_bundle_source_def Let_def split: option.splits)
next
  case (Some p)
  with assms(1) obtain before proposed where bytes: "bu_before_bytes b = Some before" "bu_proposed_bytes b = Some proposed"
    by (auto simp: validate_bundle_source_def Let_def split: option.splits)
  moreover have "validate_source_install_v1 sha p = Inr ()"
    using assms(1) Some bytes by (auto simp: validate_bundle_source_def Let_def rbind_Inr_iff split: if_splits)
  moreover have "plain_source p" "plain_key (bl_blob_id (si_before_blob p))" "plain_key (bl_blob_id (si_proposed_blob p))"
      "utf8_valid before" "utf8_valid proposed"
    using assms(2) Some bytes by (simp_all add: plain_frame_def)
  ultimately show ?thesis using source Some by blast
qed

lemma source_members_spelled:
  assumes "validate_prepared_source_bundle sha ambient b = Inr ()" "plain_frame b" "render_source_members sha b = Inr members"
  shows "closed members" "spelled members \<Longrightarrow> v \<in> set (bundle_contents b) \<Longrightarrow> plain_text v"
proof -
  note c = bundle_checked [OF assms(1)] and owner = checked_owner [OF assms(1)]
  let ?additional = "map (render_additional_member sha b) (bu_additional_members b)"
  have m: "closed (render_additional_member sha b m)"
      "spelled (render_additional_member sha b m) \<Longrightarrow> plain_text (pm_bytes_utf8 m)"
    if "m \<in> set (bu_additional_members b)" for m
  proof -
    have "plain_member (blank_member m)" "utf8_valid (pm_bytes_utf8 m)"
      using assms(2) that by (auto simp: plain_frame_def list_all_iff)
    from member_spelled [OF this owner sha256_bytes_plain]
    show "closed (render_additional_member sha b m)"
      "spelled (render_additional_member sha b m) \<Longrightarrow> plain_text (pm_bytes_utf8 m)" by blast+
  qed
  have additional: "\<forall>v\<in>set ?additional. closed v" using m(1) by simp
  from c(7) assms(2) have "closed members \<and> (spelled members \<longrightarrow> (\<forall>v\<in>set (bundle_contents b). plain_text v))"
  proof (cases rule: frame_source_cases)
    case none
    with assms(3) have members: "members = ''['' @ join '','' ?additional @ '']''"
      by (simp add: render_source_members_def text_array_def Let_def)
    have "plain_text v" if "spelled members" "v \<in> set (bundle_contents b)" for v
    proof -
      from that(2) none obtain x where "x \<in> set (bu_additional_members b)" "v = pm_bytes_utf8 x"
        by (auto simp: bundle_contents_def option_list_def)
      with m(2) array_closed(2) [OF additional that(1) [unfolded members]] show ?thesis by simp
    qed
    with array_closed(1) [OF additional] members show ?thesis by blast
  next
    case (source p before proposed)
    note h = source_hash_fields [OF source(4)]
    have paths: "pred_option plain_text (pp_expected_identity (si_target p))" "plain_text (bl_member_path (si_before_blob p))"
        "plain_text (bl_member_path (si_proposed_blob p))" "plain_text (pp_path (si_rollback_final p))"
      using source(5) by (simp_all add: plain_source_def plain_path_def)
    let ?sources = "map (template compact_layout) (source_members b p before proposed)"
    have sources: "\<forall>v\<in>set ?sources. closed v"
      using source h owner paths rollback_ref_plain [OF h(6)]
      by (simp add: source_members_def source_member_spelled(1) bundle_words)
    have bytes: "plain_text before" if "spelled (?sources ! 0)"
      using source_member_spelled(2) [OF owner _ _ _ _ _ _ _ _ _ that [unfolded source_members_def, simplified] refl]
        source h paths by (simp add: bundle_words)
    have bytes2: "plain_text proposed" if "spelled (?sources ! 1)"
      using source_member_spelled(2) [OF owner _ _ _ _ _ _ _ _ _ that [unfolded source_members_def, simplified] refl]
        source h paths by (simp add: bundle_words)
    have members: "members = ''['' @ join '','' (?sources @ ?additional) @ '']''"
      using assms(3) source(1-3) by (simp add: render_source_members_def text_array_def Let_def)
    have all: "\<forall>v\<in>set (?sources @ ?additional). closed v" using sources additional by auto
    have "plain_text v" if "spelled members" "v \<in> set (bundle_contents b)" for v
    proof -
      note each = array_closed(2) [OF all that(1) [unfolded members]]
      have "?sources ! 0 \<in> set (?sources @ ?additional)" "?sources ! 1 \<in> set (?sources @ ?additional)"
        by (simp_all add: source_members_def)
      with each bytes bytes2 have "plain_text before" "plain_text proposed" by blast+
      moreover have "plain_text (pm_bytes_utf8 x)" if "x \<in> set (bu_additional_members b)" for x
        using each [of "render_additional_member sha b x"] m(2) [OF that] that by simp
      ultimately show ?thesis using that(2) source by (auto simp: bundle_contents_def option_list_def)
    qed
    with array_closed(1) [OF all] members show ?thesis by blast
  qed
  then show "closed members" "spelled members \<Longrightarrow> v \<in> set (bundle_contents b) \<Longrightarrow> plain_text v" by blast+
qed

text \<open>A bundle whose text is accepted carries plain contents only.\<close>

lemma parsed_contents_plain:
  assumes "render_prepared_source_bundle sha ambient b = Inr body" "plain_frame b"
    and "parse_prepared_source_bundle sha ambient body = Inr b'" "v \<in> set (bundle_contents b)"
  shows "plain_text v"
proof -
  from assms(1) obtain source members where valid: "validate_prepared_source_bundle sha ambient b = Inr ()"
    and source: "(case bu_source_install b of None \<Rightarrow> Inr ''null'' | Some p \<Rightarrow> render_source_install_v1 sha p) = Inr source"
    and members: "render_source_members sha b = Inr members"
    and body: "body = template compact_layout (bundle_members b members source)"
    by (auto simp: render_prepared_source_bundle_def rbind_Inr_iff Let_def)
  note c = bundle_checked [OF valid]
  have "list_all plain_event_texts (bu_semantic_events b)" using assms(2) by (simp add: plain_frame_def)
  note ev = checked_events [OF valid this]
  have "writes 2 (render_semantic_events (bu_semantic_events b))
      (CArray (map (\<lambda>e. CObject (semantic_event_value e)) (bu_semantic_events b)))"
    unfolding render_semantic_events_def numeral_2_eq_2
    by (rule writes_text_array) (simp add: ev(1) writes_semantic_event)
  then have w_events: "closed (render_semantic_events (bu_semantic_events b))" by (rule writes_closed)
  have "writes 2 (render_event_chain_plan (bu_event_chain_plan b))
      (CArray (map (\<lambda>c. CObject (chain_value c)) (bu_event_chain_plan b)))"
    unfolding render_event_chain_plan_def numeral_2_eq_2
    by (rule writes_text_array) (simp add: ev(2) writes_chain)
  then have w_chain: "closed (render_event_chain_plan (bu_event_chain_plan b))" by (rule writes_closed)
  have "pred_option plain_text (lb_event_id (bu_ledger_binding b))" using assms(2) by (simp add: plain_frame_def)
  then have "closed_members
         [(''current_revision'', show_nat (unat (bu_current_revision b))),
          (''current_artifact_hash'', quoted (bu_current_artifact_hash b)),
          (''ledger_count'', show_nat (unat (lb_event_count (bu_ledger_binding b)))),
          (''ledger_event_id'', render_optional_string (lb_event_id (bu_ledger_binding b))),
          (''ledger_hash'', quoted (lb_event_hash (bu_ledger_binding b)))]"
    using before_binding_plain [OF c(6)]
    by (simp add: closed_members_simps bundle_words show_nat_closed plain_closed closed_plain_optional)
  note w_before = template_closed(1) [OF this]
  have w_lag: "closed (render_projection_lag_reference i)" for i
    unfolding render_projection_lag_reference_def
    by (cases i) (simp_all add: closed_no_backslash template_closed(1) closed_members_simps bundle_words plain_closed show_nat_closed)
  have w_source: "closed source"
    using source assms(2) writes_closed [OF source_reads_back(2)]
    by (auto simp: plain_frame_def closed_no_backslash split: option.splits)
  have ids: "plain_text (bu_intent_id b)" "plain_text (bu_project_id b)" "plain_text (bu_session_id b)"
      "pred_option plain_text (bu_workflow_id b)" "plain_key (bu_intent_kind b)"
    using c(1-5) by (simp_all add: ascii_id_plain intent_kind_plain pred_option_def)
  have parts: "closed_members (bundle_members b members source)"
    unfolding bundle_members_def
    using source_members_spelled(1) [OF valid assms(2) members] w_events w_chain w_before w_lag w_source ids
    by (simp add: closed_members_simps bundle_words plain_closed show_nat_closed closed_plain_optional closed_no_backslash)
  obtain obj where "parse_canonical_object body prepared_bundle_keys ''prepared source bundle'' = Inr obj"
    using assms(3) by (auto simp: parse_prepared_source_bundle_def rbind_Inr_iff)
  from canonical_input_spelled [OF this] have "spelled members"
    using template_closed(2) [OF parts, of "(''members'', members)"] body by (simp add: bundle_members_def)
  with source_members_spelled(2) [OF valid assms(2) members] assms(4) show ?thesis by blast
qed

end
