(* ===== verification/Bundle_Properties.thy ===== *)
theory Bundle_Properties
  imports Bundle_Refusal Source_Install_Properties
begin

text \<open>A concrete bundle: an approved verification whose current-state member carries given bytes.\<close>

definition wit_step :: "string \<Rightarrow> string \<Rightarrow> ledger_event" where
  "wit_step eid type = \<lparr>event_id = eid, ts_ms = 0, event_type = type, project_id = ''p'', session_id = ''s'',
     summary = ''ok'', details = ''n=1''\<rparr>"

definition wit_steps :: "ledger_event list" where
  "wit_steps = [wit_step ''e1'' ''runtime.intent.accepted'', wit_step ''e2'' ''workflow.checkpoint'',
     wit_step ''e3'' ''patch.verification.approved'']"

definition wit_hash :: string where "wit_hash = sha256_bytes wit_sha []"

definition wit_link :: "string \<Rightarrow> u64 \<Rightarrow> string \<Rightarrow> prepared_event_chain" where
  "wit_link eid n previous = \<lparr>ec_event_id = eid, ec_ordinal = n, ec_previous_event_hash = previous, ec_event_hash = wit_hash\<rparr>"

definition wit_part :: "prepared_member_kind \<Rightarrow> string \<Rightarrow> u64 \<Rightarrow> string \<Rightarrow> string \<Rightarrow> prepared_member" where
  "wit_part kind path schema artifact bytes =
     \<lparr>pm_kind = kind, pm_path = path, pm_schema_version = schema,
      pm_binding = \<lparr>pb_artifact_id = Some artifact, pb_causal_id = None, pb_source_key = None, pb_event_id = Some ''e2''\<rparr>,
      pm_bytes_utf8 = bytes, pm_expected_type = ''absent'', pm_expected_identity = None, pm_readonly = False,
      pm_mode = 384, pm_ownership = None, pm_semantic_role_rank = 0\<rparr>"

definition wit_parts :: "string \<Rightarrow> prepared_member list" where
  "wit_parts bytes = [wit_part WorkflowSnapshot ''w/1.json'' 4 ''a1'' ''{}'',
     wit_part WorkflowPointer ''.rpotato/workflows/w.json'' 4 ''a2'' ''{}'', wit_part CurrentImage ''state/c.json'' 2 ''a3'' bytes]"

definition wit_verification :: "string \<Rightarrow> prepared_source_bundle" where
  "wit_verification bytes =
     \<lparr>bu_intent_id = ''i'', bu_intent_kind = ''approve-verification'', bu_project_id = ''p'', bu_session_id = ''s'',
      bu_workflow_id = Some ''w'', bu_prepared_at_ms = 0, bu_current_revision = 1, bu_current_artifact_hash = wit_hash,
      bu_ledger_binding = \<lparr>lb_event_count = 0, lb_event_id = None, lb_event_hash = ''root''\<rparr>,
      bu_source_install = None, bu_before_bytes = None, bu_proposed_bytes = None, bu_additional_members = wit_parts bytes,
      bu_semantic_events = wit_steps,
      bu_event_chain_plan = [wit_link ''e1'' 1 ''root'', wit_link ''e2'' 2 wit_hash, wit_link ''e3'' 3 wit_hash],
      bu_projection_lag_member_index = None\<rparr>"

lemma wit_hash_const: "sha256_bytes wit_sha v = wit_hash"
  by (simp add: wit_hash_def sha256_bytes_def wit_sha_def)

lemma wit_sha_digest: "digest32 wit_sha"
  by (simp add: digest32_def wit_sha_def)

lemma wit_hash_facts: "is_sha256 wit_hash" "length wit_hash = 64" "plain_key wit_hash" "plain_text wit_hash"
  using sha256_bytes_is_sha256 [OF wit_sha_digest, of "[]"] sha256_plain [of wit_hash] length_hash [OF wit_sha_digest, of "[]"]
  by (simp_all add: wit_hash_def)

lemma wit_ids: "ascii_id_valid ''i''" "ascii_id_valid ''p''" "ascii_id_valid ''s''" "ascii_id_valid ''w''"
  "ascii_id_valid ''e1''" "ascii_id_valid ''e2''" "ascii_id_valid ''e3''" "ascii_id_valid ''a1''" "ascii_id_valid ''a2''" "ascii_id_valid ''a3''"
  by code_simp+

lemma wit_paths: "stored_path_valid ''w/1.json''" "stored_path_valid ''.rpotato/workflows/w.json''" "stored_path_valid ''state/c.json''"
  by code_simp+

lemma wit_members_valid:
  assumes "bytes \<noteq> []" "length bytes \<le> 65536"
  shows "validate_verification_members (wit_verification bytes) = Inr ()"
proof -
  have check: "check_verification_member (wit_verification bytes) 0 (wit_parts bytes ! 0) = Inr ()"
    "check_verification_member (wit_verification bytes) 1 (wit_parts bytes ! 1) = Inr ()"
    "check_verification_member (wit_verification bytes) 2 (wit_parts bytes ! 2) = Inr ()"
    using assms wit_ids wit_paths
    by (simp_all add: check_verification_member_def wit_parts_def wit_part_def verification_kinds_def member_plain_file_def
        member_schema_def artifact_named_def validate_ascii_id_def transition_limit_def validate_stored_path_def
        optional_id_def workflow_pointer_path_def stored_pointer_path_def wit_verification_def Let_def)
  moreover have "prepared_member_order (wit_parts bytes ! 0) < prepared_member_order (wit_parts bytes ! 1)"
    "prepared_member_order (wit_parts bytes ! 1) < prepared_member_order (wit_parts bytes ! 2)"
    by (simp_all add: wit_parts_def wit_part_def prepared_member_order_def member_kind_rank_def Let_def word_less_nat_alt)
  ultimately have "member_loop (check_verification_member (wit_verification bytes)) True [] (wit_parts bytes) = Inr ()"
    by (simp add: wit_parts_def wit_part_def numeral_2_eq_2)
  then show ?thesis
    by (simp add: validate_verification_members_def verification_types_def verification_kinds_def wit_verification_def wit_parts_def
        wit_steps_def wit_step_def)
qed

text \<open>The lengths of its texts.\<close>

lemma wit_escaped: "list_all (\<lambda>c. plain_char c \<and> c \<noteq> CHR 0x7F) v \<Longrightarrow> escape_string_content v = v"
proof -
  assume v: "list_all (\<lambda>c. plain_char c \<and> c \<noteq> CHR 0x7F) v"
  then have "list_all plain_char v" "CHR 0x7F \<notin> set v" by (auto simp: list_all_iff)
  from plain_text_chars [OF this] plain_key_chars [OF this(1)] show ?thesis
    by (simp add: plain_text_def plain_key_def quoted_def)
qed

lemma wit_event_length:
  "list_all (\<lambda>c. plain_char c \<and> c \<noteq> CHR 0x7F) (eid @ type) \<Longrightarrow>
   length (render_semantic_event (wit_step eid type)) = length eid + length type + 125"
  by (simp add: render_semantic_event_def semantic_event_members_def wit_step_def template_def compact_layout_def
      wit_escaped plain_char_def quoted_def show_nat.simps)

lemma wit_steps_length: "map (\<lambda>e. length (render_semantic_event e)) wit_steps = [150, 146, 154]"
  unfolding wit_steps_def by (simp add: wit_event_length plain_char_def)

lemma wit_events_valid: "validate_event_chain wit_sha (wit_verification bytes) = Inr ()"
proof -
  have n: "length (render_semantic_event (wit_step ''e1'' ''runtime.intent.accepted'')) = 150"
    "length (render_semantic_event (wit_step ''e2'' ''workflow.checkpoint'')) = 146"
    "length (render_semantic_event (wit_step ''e3'' ''patch.verification.approved'')) = 154"
    using wit_steps_length by (simp_all add: wit_steps_def)
  have bytes: "event_bytes_bounded 0 wit_steps = Inr ()"
    by (simp add: wit_steps_def n checked_add_bytes_def max_prepared_event_bytes_def max_prepared_events_bytes_def
        rbind_Inr_iff enforce_byte_limit_def)
  have links: "event_links wit_sha (wit_verification bytes) 0 [] ''root''
      (zip wit_steps [wit_link ''e1'' 1 ''root'', wit_link ''e2'' 2 wit_hash, wit_link ''e3'' 3 wit_hash]) = Inr ()"
    using wit_ids wit_hash_facts(1)
    by (simp add: wit_steps_def wit_step_def wit_link_def event_link_valid_def planned_event_hash_def wit_hash_const
        validate_ascii_id_def wit_verification_def u64_of_len_def checked_add_def)
  show ?thesis
    using bytes links by (simp add: validate_event_chain_def wit_verification_def wit_steps_def)
qed

lemma wit_bundle_valid:
  assumes "bytes \<noteq> []" "length bytes \<le> 65536"
  shows "validate_prepared_source_bundle wit_sha ambient (wit_verification bytes) = Inr ()"
proof -
  have "validate_additional_members wit_sha ambient (wit_verification bytes) = Inr ()"
    using wit_members_valid [OF assms] by (simp add: validate_additional_members_def wit_verification_def wit_parts_def)
  moreover have "validate_bundle_source wit_sha (wit_verification bytes) = Inr ()"
    by (simp add: validate_bundle_source_def wit_verification_def)
  moreover have "before_binding_valid (wit_verification bytes)"
    using wit_hash_facts by (simp add: before_binding_valid_def wit_verification_def)
  ultimately show ?thesis
    using wit_events_valid wit_ids
    by (simp add: validate_prepared_source_bundle_def validate_ascii_id_def optional_id_def intent_kind_known_def wit_verification_def)
qed

lemma template_length:
  "length (template_members compact_layout ms) \<le> sum_list (map (\<lambda>(k, v). length k + length v + 4) ms)"
  by (induction ms) (auto simp: compact_layout_def quoted_def)

lemma join_length: "length (join '','' vs) \<le> sum_list (map (\<lambda>v. length v + 1) vs)"
  by (induction vs) (auto simp: join_Cons_step)

lemma wit_member_length:
  assumes "list_all (\<lambda>c. plain_char c \<and> c \<noteq> CHR 0x7F) (path @ artifact)" "length bytes < 10"
  shows "length (render_additional_member sha (wit_verification b') (wit_part kind path schema artifact bytes)) \<le>
    800 + length path + length artifact + length (escape_string_content bytes) + length (sha256_bytes sha bytes)
    + length (show_nat (unat schema))"
proof -
  have "length (member_kind_str kind) \<le> 20" by (cases kind) (simp_all add: member_kind_str_def)
  moreover have "length (show_nat (length bytes)) = 1" using assms(2) by (simp add: show_nat.simps)
  ultimately show ?thesis using assms(1)
    unfolding render_additional_member_def additional_member_fields_def wit_part_def owner_members_def binding_members_def
      template_def compact_layout_def wit_verification_def
    by (simp add: quoted_def wit_escaped plain_char_def render_optional_string_def show_bool_def show_nat.simps list_all_iff)
qed

lemma escape_length: "length (escape_string_content v) \<le> 6 * length v"
proof -
  have one: "length (escape_content_char ch) \<le> 6 * length ch" if "ch \<in> set (char_slices v)" for ch
    using char_slices_nonempty [OF that] by (cases ch) (auto simp: escape_content_char_def show_hex4_def)
  have "length (concat (map escape_content_char chs)) \<le> 6 * length (concat chs)"
    if "\<forall>ch\<in>set chs. length (escape_content_char ch) \<le> 6 * length ch" for chs
    using that by (induction chs) (auto intro: add_mono)
  from this [of "char_slices v"] one show ?thesis by (simp add: escape_string_content_def)
qed

lemma wit_renders:
  assumes "bytes \<noteq> []" "length bytes < 10"
  obtains body where "render_prepared_source_bundle wit_sha ambient (wit_verification bytes) = Inr body"
proof -
  let ?b = "wit_verification bytes"
  have valid: "validate_prepared_source_bundle wit_sha ambient ?b = Inr ()" using assms by (intro wit_bundle_valid) simp_all
  define members where "members = text_array (map (render_additional_member wit_sha ?b) (wit_parts bytes))"
  have m: "render_source_members wit_sha ?b = Inr members"
    by (simp add: render_source_members_def wit_verification_def members_def)
  have nums: "length (show_nat (unat (4 :: u64))) = 1" "length (show_nat (unat (2 :: u64))) = 1" by (simp_all add: show_nat.simps)
  have parts: "length (render_additional_member wit_sha ?b (wit_part WorkflowSnapshot ''w/1.json'' 4 ''a1'' ''{}'')) \<le> 1000"
    "length (render_additional_member wit_sha ?b (wit_part WorkflowPointer ''.rpotato/workflows/w.json'' 4 ''a2'' ''{}'')) \<le> 1000"
    "length (render_additional_member wit_sha ?b (wit_part CurrentImage ''state/c.json'' 2 ''a3'' bytes)) \<le> 1000"
    using assms escape_length [of bytes] wit_hash_facts(2) nums
      wit_member_length [of "''w/1.json''" "''a1''" "''{}''" wit_sha bytes WorkflowSnapshot 4]
      wit_member_length [of "''.rpotato/workflows/w.json''" "''a2''" "''{}''" wit_sha bytes WorkflowPointer 4]
      wit_member_length [of "''state/c.json''" "''a3''" bytes wit_sha bytes CurrentImage 2]
    by (simp_all add: plain_char_def wit_escaped wit_hash_const)
  then have members: "length members \<le> 3100"
    using join_length [of "map (render_additional_member wit_sha ?b) (wit_parts bytes)"]
    by (simp add: members_def text_array_def wit_parts_def)
  have events: "length (render_semantic_events wit_steps) \<le> 500"
    using wit_steps_length join_length [of "map render_semantic_event wit_steps"]
    by (simp add: render_semantic_events_def text_array_def wit_steps_def)
  have chain: "length (render_event_chain_plan [wit_link ''e1'' 1 ''root'', wit_link ''e2'' 2 wit_hash, wit_link ''e3'' 3 wit_hash]) \<le> 1000"
    using wit_hash_facts(2)
    by (simp add: render_event_chain_plan_def text_array_def chain_members_def wit_link_def template_def compact_layout_def
        quoted_def wit_escaped plain_char_def show_nat.simps)
  let ?body = "template compact_layout (bundle_members ?b members ''null'')"
  have "length ?body \<le> 10000"
    using members events chain wit_hash_facts(2) unfolding bundle_members_def wit_verification_def
    by (simp add: template_def compact_layout_def quoted_def wit_escaped plain_char_def show_nat.simps
        render_optional_string_def render_projection_lag_reference_def)
  moreover have "bu_source_install ?b = None" by (simp add: wit_verification_def)
  ultimately have "render_prepared_source_bundle wit_sha ambient ?b = Inr ?body"
    using valid m by (simp add: render_prepared_source_bundle_def max_prepared_bundle_bytes_def enforce_byte_limit_def Let_def)
  then show ?thesis by (rule that)
qed

lemma wit_texts: "plain_text ''w/1.json''" "plain_text ''.rpotato/workflows/w.json''" "plain_text ''state/c.json''"
  "plain_text ''{}''" "plain_key ''absent''" "plain_text ''a1''" "plain_text ''a2''" "plain_text ''a3''" "plain_text ''e2''"
  "plain_text ''ok''" "plain_text ''n=1''" "plain_text ''runtime.intent.accepted''" "plain_text ''workflow.checkpoint''"
  "plain_text ''patch.verification.approved''" "plain_text []"
  by (simp_all add: plain_text_chars plain_key_chars plain_char_def)

lemma wit_frame: "utf8_valid bytes \<Longrightarrow> plain_frame (wit_verification bytes)"
  using plain_text_valid [OF wit_texts(4)]
  by (simp add: plain_frame_def wit_verification_def wit_parts_def wit_part_def blank_member_def plain_member_def plain_binding_def
      plain_event_texts_def wit_steps_def wit_step_def wit_texts)

lemma wit_plain: "plain_text bytes \<Longrightarrow> plain_bundle (wit_verification bytes)"
  by (simp add: plain_bundle_def wit_verification_def wit_parts_def wit_part_def plain_member_def plain_binding_def
      plain_event_texts_def wit_steps_def wit_step_def wit_texts plain_bundle_source_def)

lemma wit_told: "told_bundle (wit_verification bytes)"
  by (simp add: told_bundle_def source_lengths_def wit_verification_def wit_parts_def wit_part_def role_named_def role_of_def
      derive_workflow_role_rank_def wit_steps_def wit_step_def)

lemma wit_contents: "bundle_contents (wit_verification bytes) = [''{}'', ''{}'', bytes]"
  by (simp add: bundle_contents_def option_list_def wit_verification_def wit_parts_def wit_part_def)

lemma form_feed: "escaped [CHR 0x0C] \<noteq> render_string [CHR 0x0C]" "utf8_valid [CHR 0x0C]"
  by (simp_all add: quoted_def escape_string_content_def char_slices_ascii escape_content_char_def is_control_def
      render_string_def render_char_def show_hex4_def hex_char_def utf8_valid_ascii)

section \<open>Which bundles are read back\<close>

lemma plain_bundle_of_frame:
  assumes "plain_frame b" "\<forall>v\<in>set (bundle_contents b). plain_text v"
  shows "plain_bundle b"
proof -
  have members: "plain_member m" if "m \<in> set (bu_additional_members b)" for m
  proof -
    have "plain_member (blank_member m)" "plain_text (pm_bytes_utf8 m)"
      using assms that by (auto simp: plain_frame_def list_all_iff bundle_contents_def)
    then show ?thesis by (simp add: plain_member_def blank_member_def)
  qed
  have "plain_bundle_source b"
    using assms
    by (auto simp: plain_bundle_source_def plain_frame_def bundle_contents_def option_list_def
        split: option.splits)
  with members assms(1) show ?thesis by (auto simp: plain_bundle_def plain_frame_def list_all_iff)
qed

lemma frame_plain:
  assumes "plain_frame b" "\<forall>v\<in>set (bundle_contents b). escaped v = render_string v"
  shows "\<forall>v\<in>set (bundle_contents b). plain_text v"
  using assms by (auto simp: plain_text_def bundle_contents_def option_list_def plain_frame_def list_all_iff
      split: option.splits dest!: sym [of "Some _"])

lemma frame_read_back:
  assumes "render_prepared_source_bundle sha ambient b = Inr body" "plain_frame b"
  shows "parse_prepared_source_bundle sha ambient body = Inr b \<longleftrightarrow>
      (\<forall>v\<in>set (bundle_contents b). escaped v = render_string v) \<and> told_bundle b"
    and "parse_prepared_source_bundle sha ambient body = Inr b' \<Longrightarrow> b' = b"
proof -
  have utf8: "utf8_valid v" if "v \<in> set (bundle_contents b)" for v
    using that assms(2) by (auto simp: bundle_contents_def option_list_def plain_frame_def list_all_iff split: option.splits dest!: sym [of "Some _"])
  then have plain: "(\<forall>v\<in>set (bundle_contents b). escaped v = render_string v) \<longleftrightarrow> (\<forall>v\<in>set (bundle_contents b). plain_text v)"
    by (auto simp: plain_text_def)
  note contents = parsed_contents_plain [OF assms(1,2)] and reads = bundle_reads_back [OF assms(1) plain_bundle_of_frame [OF assms(2)]]
  show "parse_prepared_source_bundle sha ambient body = Inr b \<longleftrightarrow>
      (\<forall>v\<in>set (bundle_contents b). escaped v = render_string v) \<and> told_bundle b"
    using contents [of b] reads(1) plain by blast
  show "b' = b" if "parse_prepared_source_bundle sha ambient body = Inr b'"
    using contents [OF that] reads(2) [OF _ that] by blast
qed

text \<open>
  C9 Which bundles the journal gives back. Take a bundle that passed its check and whose other texts (paths,
  identities, event types, summaries, details) are plain. Its text is read back as that bundle, or refused; and
  it is read back exactly when each of the contents it carries, the bytes of a source before and after and those
  of its members, is spelled alike by the writer that escapes it and by the canonical writer the reader compares
  it with, the lengths of its source are those of the bytes, and each snapshot or pointer of a workflow names
  the event that tells its role.
\<close>

theorem bundle_read_back_iff:
  assumes "render_prepared_source_bundle sha ambient b = Inr body" "plain_frame b"
  shows "(parse_prepared_source_bundle sha ambient body = Inr b \<longleftrightarrow>
        (\<forall>v\<in>set (bundle_contents b). escaped v = render_string v) \<and> source_lengths b
        \<and> list_all (role_named b) (bu_additional_members b))
    \<and> (parse_prepared_source_bundle sha ambient body = Inr b \<or> (\<exists>e. parse_prepared_source_bundle sha ambient body = Inl e))"
  using frame_read_back [OF assms]
  by (cases "parse_prepared_source_bundle sha ambient body") (auto simp: told_bundle_def)

lemma bundle_read_back_iff_witness:
  "\<exists>body body'. render_prepared_source_bundle wit_sha (Inl (runtime_error [] [])) (wit_verification ''{}'') = Inr body
     \<and> parse_prepared_source_bundle wit_sha (Inl (runtime_error [] [])) body = Inr (wit_verification ''{}'')
     \<and> render_prepared_source_bundle wit_sha (Inl (runtime_error [] [])) (wit_verification [CHR 0x0C]) = Inr body'
     \<and> parse_prepared_source_bundle wit_sha (Inl (runtime_error [] [])) body' \<noteq> Inr (wit_verification [CHR 0x0C])"
proof -
  let ?ambient = "Inl (runtime_error [] []) :: ledger_binding result"
  have told: "source_lengths (wit_verification bytes)"
      "list_all (role_named (wit_verification bytes)) (bu_additional_members (wit_verification bytes))" for bytes
    using wit_told [of bytes] by (simp_all add: told_bundle_def)
  obtain body where one: "render_prepared_source_bundle wit_sha ?ambient (wit_verification ''{}'') = Inr body"
    using wit_renders [of "''{}''" ?ambient] by auto
  obtain body' where two: "render_prepared_source_bundle wit_sha ?ambient (wit_verification [CHR 0x0C]) = Inr body'"
    using wit_renders [of "[CHR 0x0C]" ?ambient] by auto
  have "parse_prepared_source_bundle wit_sha ?ambient body = Inr (wit_verification ''{}'')"
    using bundle_read_back_iff [OF one wit_frame [OF plain_text_valid [OF wit_texts(4)]]] told wit_texts(4)
    by (simp add: wit_contents plain_text_def)
  moreover have "parse_prepared_source_bundle wit_sha ?ambient body' \<noteq> Inr (wit_verification [CHR 0x0C])"
    using bundle_read_back_iff [OF two wit_frame [OF form_feed(2)]] form_feed(1) by (simp add: wit_contents)
  ultimately show ?thesis using one two by blast
qed

end
