(* ===== verification/Journal_Properties.thy ===== *)
theory Journal_Properties
  imports Journal Bundle_Properties Json_Torn
begin

text \<open>
  What the journal of a project guarantees: a commit installs the whole text of a bundle or nothing,
  recovery after an interruption runs the bundle or forgets it, and the three leftovers that neither
  a commit nor recovery can get past.
\<close>

section \<open>Entries\<close>

lemma entry_put [simp]:
  "entry d n (put_entry d' n' v fs) = (if d = d' \<and> n = n' then Some v else entry d n fs)"
  by (cases d; cases d') (simp_all add: entry_def dir_entries_def put_entry_def map_dir_def update_conv)

lemma entry_drop [simp]:
  "entry d n (drop_entry d' n' fs) = (if d = d' \<and> n = n' then None else entry d n fs)"
  by (cases d; cases d') (simp_all add: entry_def dir_entries_def drop_entry_def map_dir_def delete_conv')

lemma entry_rename [simp]:
  "entry d from fs = Some v \<Longrightarrow> from \<noteq> to \<Longrightarrow>
   entry d n (rename_entry d from to fs) = (if n = to then Some v else if n = from then None else entry d n fs)"
  by (auto simp: rename_entry_def)

lemma entry_outcomes [simp]: "entry d n (fs\<lparr>jf_outcomes := ocs\<rparr>) = entry d n fs"
  by (cases d) (simp_all add: entry_def dir_entries_def)

lemma lag_of_journal [simp]:
  "jf_lag (put_entry JournalDir n v fs) = jf_lag fs" "jf_lag (drop_entry JournalDir n fs) = jf_lag fs"
  "jf_lag (rename_entry JournalDir n m fs) = jf_lag fs"
  by (simp_all add: put_entry_def drop_entry_def map_dir_def rename_entry_def split: option.split)

lemmas journal_runs = sbind_def sthen_def sreturn_def sthrow_def

text \<open>What a change of the journal under any outcome leaves.\<close>

lemma journal_outcome_rest: "\<exists>oc ocs. journal_outcome fs = (oc, fs\<lparr>jf_outcomes := ocs\<rparr>)"
proof (cases "jf_outcomes fs")
  case Nil
  then have "journal_outcome fs = (Io_ok, fs\<lparr>jf_outcomes := jf_outcomes fs\<rparr>)" by (simp add: journal_outcome_def)
  then show ?thesis by blast
qed (auto simp: journal_outcome_def)

lemma journal_step_cases:
  assumes "journal_step err change fs = (r, fs')"
  obtains ocs where "r = Inr ()" "fs' = change (fs\<lparr>jf_outcomes := ocs\<rparr>)"
    | ocs where "r = Inl err" "fs' = fs\<lparr>jf_outcomes := ocs\<rparr>"
    | ocs where "r = Inl err" "fs' = change (fs\<lparr>jf_outcomes := ocs\<rparr>)"
proof -
  obtain oc ocs where oc: "journal_outcome fs = (oc, fs\<lparr>jf_outcomes := ocs\<rparr>)" using journal_outcome_rest by blast
  show ?thesis
  proof (cases oc)
    case Io_ok
    with assms oc that(1) show ?thesis by (auto simp: journal_step_def)
  next
    case (Io_error n)
    with assms oc that(2,3) show ?thesis by (cases n) (auto simp: journal_step_def)
  qed
qed

lemma create_entry_cases:
  assumes "create_entry err d name bytes fs = (r, fs')"
  obtains ocs where "r = Inr ()" "fs' = put_entry d name bytes (fs\<lparr>jf_outcomes := ocs\<rparr>)"
    | ocs where "r = Inl err" "fs' = fs\<lparr>jf_outcomes := ocs\<rparr>"
    | ocs n where "r = Inl err" "fs' = put_entry d name (take n bytes) (fs\<lparr>jf_outcomes := ocs\<rparr>)"
proof -
  obtain oc ocs where oc: "journal_outcome fs = (oc, fs\<lparr>jf_outcomes := ocs\<rparr>)" using journal_outcome_rest by blast
  show ?thesis
  proof (cases oc)
    case Io_ok
    with assms oc that(1) show ?thesis by (auto simp: create_entry_def)
  next
    case (Io_error n)
    with assms oc that(2,3) show ?thesis by (cases n) (auto simp: create_entry_def)
  qed
qed

lemma journal_names_differ: "journal_temp i \<noteq> journal_name i" "journal_name i \<noteq> lock_name" "journal_temp i \<noteq> lock_name"
proof -
  show "journal_temp i \<noteq> journal_name i" by (simp add: journal_temp_def journal_name_def temp_suffix_def journal_suffix_def)
  have "last (journal_name i) = CHR ''n''" "last (journal_temp i) = CHR ''p''" "last lock_name = CHR ''k''"
    by (simp_all add: journal_temp_def journal_name_def temp_suffix_def journal_suffix_def lock_name_def)
  then show "journal_name i \<noteq> lock_name" "journal_temp i \<noteq> lock_name" by auto
qed

lemmas [simp] = journal_names_differ journal_names_differ [symmetric]

section \<open>A commit is atomic\<close>

text \<open>What is common to every state a commit of \<open>b\<close> can leave.\<close>

definition commit_bound :: "prepared_source_bundle \<Rightarrow> string \<Rightarrow> journal_fs \<Rightarrow> journal_fs \<Rightarrow> bool" where
  "commit_bound b body fs fs' \<longleftrightarrow>
     (entry JournalDir (journal_name (bu_intent_id b)) fs' = entry JournalDir (journal_name (bu_intent_id b)) fs
      \<or> entry JournalDir (journal_name (bu_intent_id b)) fs' = Some body)
     \<and> (\<forall>name. name \<noteq> journal_name (bu_intent_id b) \<and> name \<noteq> journal_temp (bu_intent_id b) \<longrightarrow>
          entry JournalDir name fs' = entry JournalDir name fs)
     \<and> jf_lag fs' = jf_lag fs"

text \<open>What a commit that returned has done.\<close>

definition commit_done ::
  "hasher \<Rightarrow> ledger_binding result \<Rightarrow> prepared_source_bundle \<Rightarrow> string \<Rightarrow> journal_fs \<Rightarrow> bool" where
  "commit_done sha ambient b body fs' \<longleftrightarrow>
     entry JournalDir (journal_name (bu_intent_id b)) fs' = Some body
     \<and> entry JournalDir (journal_temp (bu_intent_id b)) fs' = None
     \<and> parse_prepared_source_bundle sha ambient body = Inr b"

lemma commit_again_bound:
  assumes "commit_again sha ambient b body fs = (r, fs')"
  shows "commit_bound b body fs fs' \<and> (\<forall>p. r = Inr p \<longrightarrow> p = journal_name (bu_intent_id b) \<and> commit_done sha ambient b body fs')"
proof -
  let ?final = "journal_name (bu_intent_id b)" and ?temp = "journal_temp (bu_intent_id b)"
  have same: "commit_bound b body fs fs" by (simp add: commit_bound_def)
  show ?thesis
  proof (cases "rbind (entry_text ''prepared journal read'' JournalDir ?final fs) (\<lambda>existing.
           rbind (parse_prepared_source_bundle sha ambient existing) (\<lambda>parsed.
             if parsed \<noteq> b \<or> existing \<noteq> body then Inl (blocked_error ''prepared journal immutable conflict'' [])
             else Inr ()))")
    case (Inl e)
    with assms same show ?thesis by (auto simp: commit_again_def Let_def)
  next
    case (Inr u)
    then have final: "entry JournalDir ?final fs = Some body" "parse_prepared_source_bundle sha ambient body = Inr b"
      by (auto simp: rbind_Inr_iff entry_text_def read_utf8_def split: option.splits if_splits)
    show ?thesis
    proof (cases "entry JournalDir ?temp fs = None")
      case True
      with assms Inr final same show ?thesis by (auto simp: commit_again_def Let_def commit_done_def)
    next
      case temp: False
      show ?thesis
      proof (cases "entry_text ''prepared temp read'' JournalDir ?temp fs = Inr body")
        case False
        with assms Inr temp have "fs' = fs" "\<exists>e. r = Inl e"
          by (cases "entry_text ''prepared temp read'' JournalDir ?temp fs"; auto simp: commit_again_def Let_def)+
        with same show ?thesis by auto
      next
        case True
        with assms Inr temp have "sthen (journal_step (runtime_error ''prepared temp cleanup'' []) (drop_entry JournalDir ?temp))
            (sreturn ?final) fs = (r, fs')" by (auto simp: commit_again_def Let_def)
        then obtain r' where "journal_step (runtime_error ''prepared temp cleanup'' []) (drop_entry JournalDir ?temp) fs = (r', fs')"
          and r: "r = (case r' of Inl e \<Rightarrow> Inl e | Inr _ \<Rightarrow> Inr ?final)"
          by (auto simp: journal_runs split: sum.splits prod.splits)
        then show ?thesis
          by (cases rule: journal_step_cases)
            (use final journal_names_differ in \<open>auto simp: commit_bound_def commit_done_def\<close>)
      qed
    qed
  qed
qed

lemma write_temp_cases:
  assumes "write_temp sha ambient temp body fs = (r, fs')"
  obtains "r = Inr ()" "entry JournalDir temp fs' = Some body"
      "\<And>name. name \<noteq> temp \<Longrightarrow> entry JournalDir name fs' = entry JournalDir name fs" "jf_lag fs' = jf_lag fs"
    | e where "r = Inl e" "\<And>name. name \<noteq> temp \<Longrightarrow> entry JournalDir name fs' = entry JournalDir name fs" "jf_lag fs' = jf_lag fs"
proof (cases "entry JournalDir temp fs")
  case None
  with assms have "create_entry (runtime_error ''prepared temp write'' []) JournalDir temp body fs = (r, fs')"
    by (simp add: write_temp_def)
  then show ?thesis by (cases rule: create_entry_cases) (use that in auto)
next
  case (Some old)
  show ?thesis
  proof (cases r)
    case (Inl e)
    with assms Some that(2) show ?thesis by (auto simp: write_temp_def)
  next
    case (Inr u)
    with assms Some have "old = body" "fs' = fs"
      by (auto simp: write_temp_def entry_text_def read_utf8_def rbind_Inr_iff split: if_splits)
    with Inr Some that(1) show ?thesis by simp
  qed
qed

lemma install_bound:
  assumes "sthen (write_temp sha ambient (journal_temp (bu_intent_id b)) body)
      (sthen (journal_step err (rename_entry JournalDir (journal_temp (bu_intent_id b)) (journal_name (bu_intent_id b))))
      (sthen (\<lambda>fs. (check_installed_journal sha ambient b body fs, fs)) (sreturn (journal_name (bu_intent_id b))))) fs = (r, fs')"
  shows "commit_bound b body fs fs' \<and> (\<forall>p. r = Inr p \<longrightarrow> p = journal_name (bu_intent_id b) \<and> commit_done sha ambient b body fs')"
proof -
  let ?final = "journal_name (bu_intent_id b)" and ?temp = "journal_temp (bu_intent_id b)"
  obtain r1 fs1 where w: "write_temp sha ambient ?temp body fs = (r1, fs1)" by fastforce
  from w show ?thesis
  proof (cases rule: write_temp_cases)
    case (2 e)
    with assms w have "r = Inl e" "fs' = fs1" by (auto simp: journal_runs)
    with 2 journal_names_differ show ?thesis by (simp add: commit_bound_def)
  next
    case 1
    obtain r2 fs2 where j: "journal_step err (rename_entry JournalDir ?temp ?final) fs1 = (r2, fs2)" by fastforce
    note ren = entry_rename [OF 1(2) journal_names_differ(1)]
    have two: "commit_bound b body fs fs2 \<and>
        (r2 = Inr () \<longrightarrow> entry JournalDir ?final fs2 = Some body \<and> entry JournalDir ?temp fs2 = None)"
    proof -
      have ocs: "entry JournalDir ?temp (fs1\<lparr>jf_outcomes := ocs\<rparr>) = Some body" for ocs using 1(2) by simp
      from j show ?thesis
        by (cases rule: journal_step_cases)
          (use 1 entry_rename [OF ocs journal_names_differ(1)] journal_names_differ in \<open>auto simp: commit_bound_def\<close>)
    qed
    show ?thesis
    proof (cases r2)
      case (Inl e)
      with assms w j 1 have "r = Inl e" "fs' = fs2" by (auto simp: journal_runs)
      with two show ?thesis by simp
    next
      case (Inr u)
      with assms w j 1 have fs': "fs' = fs2"
        and r: "r = (case check_installed_journal sha ambient b body fs2 of Inl e \<Rightarrow> Inl e | Inr _ \<Rightarrow> Inr ?final)"
        by (auto simp: journal_runs split: sum.splits)
      have "parse_prepared_source_bundle sha ambient body = Inr b" if "r = Inr p" for p
      proof -
        from that r have "check_installed_journal sha ambient b body fs2 = Inr ()" by (simp split: sum.splits)
        then show ?thesis
          using two Inr by (auto simp: check_installed_journal_def rbind_Inr_iff entry_text_def read_utf8_def split: if_splits)
      qed
      with two Inr fs' r show ?thesis by (auto simp: commit_done_def split: sum.splits)
    qed
  qed
qed

lemma commit_outcome:
  assumes "render_prepared_source_bundle sha ambient b = Inr body"
    and "commit_prepared_source_bundle_under_guard sha ambient b fs = (r, fs')"
  shows "commit_bound b body fs fs'"
    and "r = Inr p \<Longrightarrow> p = journal_name (bu_intent_id b) \<and> commit_done sha ambient b body fs'"
proof -
  have "commit_bound b body fs fs' \<and> (\<forall>p. r = Inr p \<longrightarrow> p = journal_name (bu_intent_id b) \<and> commit_done sha ambient b body fs')"
  proof (cases "validate_no_competing_prepared_journal b fs")
    case (Inl e)
    with assms have "r = Inl e" "fs' = fs"
      by (auto simp: commit_prepared_source_bundle_under_guard_def journal_runs Let_def)
    then show ?thesis by (simp add: commit_bound_def)
  next
    case valid: (Inr u)
    show ?thesis
    proof (cases "entry JournalDir (journal_name (bu_intent_id b)) fs")
      case None
      with assms valid show ?thesis
        by (intro install_bound) (simp add: commit_prepared_source_bundle_under_guard_def sbind_def sthen_def Let_def)
    next
      case Some
      with assms valid show ?thesis
        by (intro commit_again_bound) (simp add: commit_prepared_source_bundle_under_guard_def sbind_def sthen_def Let_def)
    qed
  qed
  then show "commit_bound b body fs fs'" "r = Inr p \<Longrightarrow> p = journal_name (bu_intent_id b) \<and> commit_done sha ambient b body fs'"
    by blast+
qed

definition wit_journal :: "io_outcome list \<Rightarrow> journal_fs" where
  "wit_journal ocs = \<lparr>jf_entries = [(lock_name, ''7'')], jf_lag = [], jf_outcomes = ocs\<rparr>"

text \<open>
  C8 A commit to the journal is atomic, whatever its writes do. However a commit ends, under the
  bundle's name there is what was there before or the whole text of the bundle, and no entry of
  another name and no projection lag is touched. A commit that returns has installed the text, has
  left no temporary file, and the text is read back as the bundle.
\<close>

theorem journal_commit_atomic:
  assumes "commit_prepared_source_bundle_under_guard sha ambient b fs = (r, fs')"
  shows "(render_prepared_source_bundle sha ambient b = Inr body \<longrightarrow> commit_bound b body fs fs')
    \<and> (r = Inr p \<longrightarrow> p = journal_name (bu_intent_id b)
        \<and> (\<exists>body. render_prepared_source_bundle sha ambient b = Inr body \<and> commit_done sha ambient b body fs'))"
proof (cases "render_prepared_source_bundle sha ambient b")
  case (Inl e)
  with assms show ?thesis by (auto simp: commit_prepared_source_bundle_under_guard_def journal_runs Let_def)
next
  case (Inr raw)
  with commit_outcome [OF Inr assms] show ?thesis by auto
qed

lemma journal_commit_atomic_witness:
  "\<exists>body r fs'. render_prepared_source_bundle wit_sha (Inl (runtime_error [] [])) (wit_verification ''{}'') = Inr body
     \<and> commit_prepared_source_bundle_under_guard wit_sha (Inl (runtime_error [] [])) (wit_verification ''{}'')
         (wit_journal [Io_ok, Io_error 1]) = (r, fs')
     \<and> commit_bound (wit_verification ''{}'') body (wit_journal [Io_ok, Io_error 1]) fs'"
proof -
  let ?ambient = "Inl (runtime_error [] []) :: ledger_binding result"
  obtain body where body: "render_prepared_source_bundle wit_sha ?ambient (wit_verification ''{}'') = Inr body"
    using wit_renders [of "''{}''" ?ambient] by auto
  obtain r fs' where run: "commit_prepared_source_bundle_under_guard wit_sha ?ambient (wit_verification ''{}'')
      (wit_journal [Io_ok, Io_error 1]) = (r, fs')" by fastforce
  from journal_commit_atomic [OF run, of body] body run show ?thesis by blast
qed

section \<open>Recovery after an interrupted commit\<close>

text \<open>A journal with nothing to recover: no projection lag, and at most the lock of the lease.\<close>

definition idle_journal :: "journal_fs \<Rightarrow> bool" where
  "idle_journal fs \<longleftrightarrow> jf_lag fs = [] \<and> set (map fst (jf_entries fs)) \<subseteq> {lock_name}
     \<and> length (jf_entries fs) \<le> 1 \<and> sum_list (map (length \<circ> snd) (jf_entries fs)) \<le> 65536"

lemma update_fresh: "k \<notin> fst ` set es \<Longrightarrow> AList.update k v es = es @ [(k, v)]"
  by (induction es) auto

lemma delete_fresh: "k \<notin> fst ` set es \<Longrightarrow> AList.delete k es = es"
  by (induction es) (auto simp: AList.delete_eq)

lemma delete_last: "k \<notin> fst ` set es \<Longrightarrow> AList.delete k (es @ [(k, v)]) = es"
  using delete_fresh [of k es] by (simp add: AList.delete_eq)

definition with_entry :: "string \<Rightarrow> string \<Rightarrow> journal_fs \<Rightarrow> journal_fs" where
  "with_entry name bytes fs = fs\<lparr>jf_entries := jf_entries fs @ [(name, bytes)]\<rparr>"

lemma fresh_entry: "idle_journal fs \<Longrightarrow> name \<noteq> lock_name \<Longrightarrow> name \<notin> fst ` set (jf_entries fs)"
  by (auto simp: idle_journal_def)

lemma entry_none_iff: "entry JournalDir name fs = None \<longleftrightarrow> name \<notin> fst ` set (jf_entries fs)"
  by (simp add: entry_def dir_entries_def map_of_eq_None_iff)

lemma put_idle: "idle_journal fs \<Longrightarrow> name \<noteq> lock_name \<Longrightarrow> put_entry JournalDir name v fs = with_entry name v fs"
  by (simp add: put_entry_def map_dir_def with_entry_def update_fresh fresh_entry)

lemma drop_with_entry: "idle_journal fs \<Longrightarrow> name \<noteq> lock_name \<Longrightarrow> drop_entry JournalDir name (with_entry name v fs) = fs"
  by (simp add: drop_entry_def map_dir_def with_entry_def delete_last fresh_entry)

lemma entry_with [simp]: "name \<notin> fst ` set (jf_entries fs) \<Longrightarrow> entry JournalDir name (with_entry name v fs) = Some v"
  by (simp add: entry_def dir_entries_def with_entry_def map_add_def map_of_eq_None_iff [THEN iffD2])


lemma rename_with_entry:
  "idle_journal fs \<Longrightarrow> name \<noteq> lock_name \<Longrightarrow> to \<noteq> lock_name \<Longrightarrow>
   rename_entry JournalDir name to (with_entry name v fs) = with_entry to v fs"
  by (simp add: rename_entry_def fresh_entry drop_with_entry put_idle)

lemma idle_outcomes [simp]: "idle_journal (fs\<lparr>jf_outcomes := ocs\<rparr>) = idle_journal fs"
  by (simp add: idle_journal_def)

lemma with_entry_outcomes [simp]:
  "(with_entry name v fs)\<lparr>jf_outcomes := ocs\<rparr> = with_entry name v (fs\<lparr>jf_outcomes := ocs\<rparr>)"
  "jf_outcomes (with_entry name v fs) = jf_outcomes fs"
  by (simp_all add: with_entry_def)

lemma no_competitor: "idle_journal fs \<Longrightarrow> validate_no_competing_prepared_journal b fs = Inr ()"
proof -
  assume "idle_journal fs"
  then have "find (\<lambda>(name, _). name \<notin> {journal_name (bu_intent_id b), journal_temp (bu_intent_id b), lock_name}) (jf_entries fs) = None"
    by (auto simp: idle_journal_def find_None_iff)
  then show ?thesis by (simp add: validate_no_competing_prepared_journal_def)
qed


lemma recover_entries_lock:
  "recover_entries sha ambient port project names =
   recover_entries sha ambient port project (filter (\<lambda>n. n \<noteq> lock_name) names)"
  by (induction names) (auto split: option.split)

lemma ends_with_append: "ends_with p (s @ p)"
  by (simp add: ends_with_def starts_with_def)

lemma strip_suffix_append: "strip_suffix p (s @ p) = Some s"
  by (simp add: strip_suffix_def ends_with_append)

lemma ends_with_last: "ends_with p s \<Longrightarrow> p \<noteq> [] \<Longrightarrow> last s = last p"
proof -
  assume "ends_with p s" "p \<noteq> []"
  then have "take (length p) (rev s) = rev p" by (simp add: ends_with_def starts_with_def)
  then have "hd (rev s) = hd (rev p)" using \<open>p \<noteq> []\<close>
    by (metis hd_take length_greater_0_conv)
  then show ?thesis using \<open>p \<noteq> []\<close> \<open>ends_with p s\<close>
    by (cases "s = []") (auto simp: hd_rev ends_with_def starts_with_def)
qed

lemma strip_journal_names:
  "strip_suffix temp_suffix (journal_temp i) = Some i" "strip_suffix journal_suffix (journal_name i) = Some i"
  "strip_suffix temp_suffix (journal_name i) = None"
proof -
  show "strip_suffix temp_suffix (journal_temp i) = Some i" "strip_suffix journal_suffix (journal_name i) = Some i"
    by (simp_all add: journal_temp_def journal_name_def strip_suffix_append)
  have "\<not> ends_with temp_suffix (journal_name i)"
    using ends_with_last [of temp_suffix "journal_name i"]
    by (auto simp: temp_suffix_def journal_name_def journal_suffix_def)
  then show "strip_suffix temp_suffix (journal_name i) = None" by (simp add: strip_suffix_def)
qed

text \<open>A bundle that its journal text gives back.\<close>

definition readable_bundle :: "hasher \<Rightarrow> ledger_binding result \<Rightarrow> prepared_source_bundle \<Rightarrow> string \<Rightarrow> bool" where
  "readable_bundle sha ambient b body \<longleftrightarrow> render_prepared_source_bundle sha ambient b = Inr body
     \<and> parse_prepared_source_bundle sha ambient body = Inr b \<and> utf8_valid body"

lemma plain_bundle_readable:
  "render_prepared_source_bundle sha ambient b = Inr body \<Longrightarrow> plain_bundle b \<Longrightarrow> told_bundle b \<Longrightarrow>
     readable_bundle sha ambient b body"
  by (simp add: readable_bundle_def bundle_reads_back writes_utf8 [OF bundle_writes])

lemma rendered_limits:
  assumes "render_prepared_source_bundle sha ambient b = Inr body"
  shows "ascii_id_valid (bu_intent_id b)" "ascii_id_valid (bu_project_id b)" "length body \<le> max_prepared_bundle_bytes"
  using assms bundle_checked(1,2) [of sha ambient b]
  by (auto simp: render_prepared_source_bundle_def rbind_Inr_iff Let_def)

lemma ascii_name_utf8: "ascii_id_valid i \<Longrightarrow> utf8_valid (journal_name i)" "ascii_id_valid i \<Longrightarrow> utf8_valid (journal_temp i)"
proof -
  have words: "utf8_valid journal_suffix" "utf8_valid temp_suffix"
    by (simp_all add: journal_suffix_def temp_suffix_def utf8_valid_ascii)
  assume "ascii_id_valid i"
  then have "utf8_valid i" using plain_text_valid ascii_id_plain(2) by blast
  with words show "utf8_valid (journal_name i)" "utf8_valid (journal_temp i)"
    by (simp_all add: journal_name_def journal_temp_def utf8_valid_append)
qed

lemma recover_one_entry:
  assumes "idle_journal fs" "name \<noteq> lock_name" "utf8_valid name" "length body \<le> max_prepared_bundle_bytes"
  shows "recover_pending_bundles_under_guard sha ambient port project (with_entry name body fs, rest) =
    recover_entries sha ambient port project [name] (with_entry name body fs, rest)"
proof -
  have lag: "validate_projection_lag_authority sha ambient project (with_entry name body fs) = Inr False"
    using assms(1) by (simp add: validate_projection_lag_authority_def bounded_regular_entries_def with_entry_def idle_journal_def)
  have "list_all (\<lambda>(n, _). utf8_valid n) (jf_entries fs)"
    using assms(1) by (auto simp: list_all_iff idle_journal_def lock_name_def utf8_valid_ascii)
  then have names: "bounded_regular_entries max_recovery_journal_entries max_recovery_journal_bytes (\<lambda>_. True)
      (jf_entries (with_entry name body fs)) = Inr (map fst (jf_entries fs) @ [name])"
    using assms by (simp add: bounded_regular_entries_def with_entry_def idle_journal_def max_recovery_journal_entries_def
        max_recovery_journal_bytes_def max_prepared_bundle_bytes_def)
  have "filter (\<lambda>n. n \<noteq> lock_name) (sort (map fst (jf_entries fs) @ [name])) =
      sort (filter (\<lambda>n. n \<noteq> lock_name) (map fst (jf_entries fs) @ [name]))"
    by (simp add: filter_sort)
  also have "filter (\<lambda>n. n \<noteq> lock_name) (map fst (jf_entries fs) @ [name]) = [name]"
    using assms(1,2) by (auto simp: idle_journal_def filter_empty_conv)
  finally have sorted: "filter (\<lambda>n. n \<noteq> lock_name) (sort (map fst (jf_entries fs) @ [name])) = [name]" by simp
  show ?thesis
    unfolding recover_pending_bundles_under_guard_def
    by (simp add: sbind_def on_journal_def lag names recover_entries_lock [of _ _ _ _ "sort _"] sorted)
qed




text \<open>A journal entry whose text is not read back stops every recovery before it changes anything.\<close>

lemma unreadable_entry_blocks:
  assumes "idle_journal fs" "name = journal_name i \<or> name = journal_temp i" "ascii_id_valid i"
    and "length body \<le> max_prepared_bundle_bytes" "parse_prepared_source_bundle sha ambient body = Inl e"
  shows "\<exists>e. recover_pending_bundles_under_guard sha ambient port project (with_entry name body fs, rest) =
      (Inl e, (with_entry name body fs, rest))"
proof -
  have name: "name \<noteq> lock_name" "utf8_valid name" using assms(2,3) ascii_name_utf8 by auto
  have "entry JournalDir name (with_entry name body fs) = Some body" using fresh_entry [OF assms(1) name(1)] by simp
  then have read: "\<exists>e. read_journal_bundle sha ambient project i name label (with_entry name body fs) = Inl e" for label
    using assms(5) by (auto simp: read_journal_bundle_def read_regular_utf8_bounded_def read_bounded_def validate_ascii_id_def rbind_def)
  have "\<exists>e. recover_entries sha ambient port project [name] (with_entry name body fs, rest) = (Inl e, (with_entry name body fs, rest))"
    using assms(2)
  proof
    assume n: "name = journal_name i"
    from read [of "''transition final''"] obtain e where
      "read_journal_bundle sha ambient project i name ''transition final'' (with_entry name body fs) = Inl e" by blast
    then have "recover_journal sha ambient port project i name (with_entry name body fs, rest) = (Inl e, (with_entry name body fs, rest))"
      by (simp add: recover_journal_def journal_runs on_journal_def)
    with n show ?thesis by (simp add: strip_journal_names journal_runs)
  next
    assume n: "name = journal_temp i"
    from read [of "''transition temp''"] obtain e where
      "read_journal_bundle sha ambient project i name ''transition temp'' (with_entry name body fs) = Inl e" by blast
    then have "recover_temp sha ambient project i name (with_entry name body fs) = (Inl e, with_entry name body fs)"
      by (simp add: recover_temp_def journal_runs)
    with n show ?thesis by (simp add: strip_journal_names journal_runs on_journal_def)
  qed
  with recover_one_entry [OF assms(1) name assms(4), of sha ambient port project rest] show ?thesis by simp
qed




lemma entry_lag [simp]: "entry JournalDir name (fs\<lparr>jf_lag := lag\<rparr>) = entry JournalDir name fs"
  by (simp add: entry_def dir_entries_def)

lemma drop_entry_lag [simp]:
  "drop_entry JournalDir name (fs\<lparr>jf_lag := lag\<rparr>) = (drop_entry JournalDir name fs)\<lparr>jf_lag := lag\<rparr>"
  by (simp add: drop_entry_def map_dir_def)



lemma wit_readable:
  obtains body where "readable_bundle wit_sha ambient (wit_verification ''{}'') body"
proof -
  obtain body where "render_prepared_source_bundle wit_sha ambient (wit_verification ''{}'') = Inr body"
    using wit_renders [of "''{}''" ambient] by auto
  from that [OF plain_bundle_readable [OF this wit_plain [OF wit_texts(4)] wit_told]] show thesis .
qed

lemma wit_idle: "idle_journal (wit_journal ocs)"
  by (simp add: idle_journal_def wit_journal_def)

text \<open>A port whose recovery counts the bundles it has run.\<close>

definition wit_port :: "nat bundle_recovery" where
  "wit_port = (let run = (\<lambda>b (fs, n). (Inr (), (fs, n + 1))) in
     \<lparr>br_source = run, br_approval = run, br_verification = run, br_terminal_action = run, br_state_transition = run\<rparr>)"



section \<open>Leftovers that block the project\<close>

lemma blocked_transition:
  assumes "recover_pending_bundles_under_guard sha ambient port project s = (Inl e, s)"
  shows "\<exists>e. acquire_for sha ambient port project s = (Inl e, s)"
  using assms by (cases "validate_ascii_id project ''project''") (simp_all add: acquire_for_def journal_runs)

text \<open>
  C10 A source file or a preserved current state that the two writers spell differently, because it has a
  backspace, a form feed, a DEL or a C1 control, blocks its project. In a bundle whose other texts are plain, the
  text escapes such a character in one way and is read back only with the other; the commit notices after it has
  renamed the journal into place, so it fails and leaves the journal, and from then on no transition of the project
  can start: every recovery fails on the journal before it changes anything.
\<close>

theorem control_contents_block_project:
  assumes "idle_journal fs" "jf_outcomes fs = []" "render_prepared_source_bundle sha ambient b = Inr body" "plain_frame b"
    and "v \<in> set (bundle_contents b)" "escaped v \<noteq> render_string v"
  shows "(\<exists>e. commit_prepared_source_bundle_under_guard sha ambient b fs = (Inl e, with_entry (journal_name (bu_intent_id b)) body fs))
    \<and> (\<exists>e. acquire_for sha ambient port (bu_project_id b)
      ((with_entry (journal_name (bu_intent_id b)) body fs)\<lparr>jf_outcomes := ocs\<rparr>, rest) =
      (Inl e, ((with_entry (journal_name (bu_intent_id b)) body fs)\<lparr>jf_outcomes := ocs\<rparr>, rest)))"
proof -
  let ?final = "journal_name (bu_intent_id b)" and ?temp = "journal_temp (bu_intent_id b)"
  note lim = rendered_limits [OF assms(3)] and fresh = fresh_entry [OF assms(1)]
  have "\<not> plain_text v" using assms(6) by (simp add: plain_text_def)
  then obtain e where e: "parse_prepared_source_bundle sha ambient body = Inl e"
    using parsed_contents_plain [OF assms(3,4) _ assms(5)] by (cases "parse_prepared_source_bundle sha ambient body") auto
  have none: "entry JournalDir ?final fs = None" "entry JournalDir ?temp fs = None" using fresh by (simp_all add: entry_none_iff)
  have "\<exists>e. check_installed_journal sha ambient b body (with_entry ?final body fs) = Inl e"
    using e fresh by (auto simp: check_installed_journal_def entry_text_def read_utf8_def rbind_def)
  then have commit: "\<exists>e. commit_prepared_source_bundle_under_guard sha ambient b fs = (Inl e, with_entry ?final body fs)"
    using assms(1-3) none no_competitor [OF assms(1)]
    by (auto simp: commit_prepared_source_bundle_under_guard_def write_temp_def journal_runs Let_def create_entry_def
        journal_step_def journal_outcome_def put_idle rename_with_entry)
  have "\<exists>e. recover_pending_bundles_under_guard sha ambient port (bu_project_id b)
      (with_entry ?final body (fs\<lparr>jf_outcomes := ocs\<rparr>), rest) = (Inl e, (with_entry ?final body (fs\<lparr>jf_outcomes := ocs\<rparr>), rest))"
    using assms(1) by (intro unreadable_entry_blocks [OF _ _ lim(1,3) e]) simp_all
  then obtain e' where "recover_pending_bundles_under_guard sha ambient port (bu_project_id b)
      (with_entry ?final body (fs\<lparr>jf_outcomes := ocs\<rparr>), rest) = (Inl e', (with_entry ?final body (fs\<lparr>jf_outcomes := ocs\<rparr>), rest))"
    by blast
  from commit blocked_transition [OF this] show ?thesis by simp
qed

lemma control_contents_block_project_witness:
  "\<exists>body. (\<exists>e. commit_prepared_source_bundle_under_guard wit_sha (Inl (runtime_error [] [])) (wit_verification [CHR 0x0C])
        (wit_journal []) = (Inl e, with_entry ''i.prepared.json'' body (wit_journal [])))
     \<and> (\<exists>e. acquire_for wit_sha (Inl (runtime_error [] [])) wit_port ''p''
        ((with_entry ''i.prepared.json'' body (wit_journal []))\<lparr>jf_outcomes := []\<rparr>, 0) =
        (Inl e, ((with_entry ''i.prepared.json'' body (wit_journal []))\<lparr>jf_outcomes := []\<rparr>, 0)))"
proof -
  let ?ambient = "Inl (runtime_error [] []) :: ledger_binding result" and ?b = "wit_verification [CHR 0x0C]"
  obtain body where body: "render_prepared_source_bundle wit_sha ?ambient ?b = Inr body"
    using wit_renders [of "[CHR 0x0C]" ?ambient] by auto
  have ids: "journal_name (bu_intent_id ?b) = ''i.prepared.json''" "bu_project_id ?b = ''p''"
    by (simp_all add: wit_verification_def journal_name_def journal_suffix_def)
  have none: "jf_outcomes (wit_journal []) = []" by (simp add: wit_journal_def)
  have "[CHR 0x0C] \<in> set (bundle_contents ?b)" by (simp add: wit_contents)
  note blocked = control_contents_block_project [OF wit_idle none body wit_frame [OF form_feed(2)] this form_feed(1)]
  from blocked [of wit_port "[]" 0] show ?thesis unfolding ids by blast
qed

lemma find_after: "find P xs = None \<Longrightarrow> find P (xs @ ys) = find P ys"
  by (induction xs) (auto split: if_splits)

text \<open>
  A stop inside the restoring of a journal leaves a temporary file under a name that neither a
  commit nor recovery knows, so every later start of a transition fails.
\<close>

theorem restore_temp_blocks:
  assumes "idle_journal fs" "ascii_id_valid i" "length bytes \<le> max_prepared_bundle_bytes"
  defines "fs' \<equiv> with_entry (with_extension ''restore.tmp'' (journal_name i)) bytes fs"
  shows "\<exists>e. acquire_for sha ambient port project (fs', rest) = (Inl e, (fs', rest))"
    and "\<exists>e. validate_no_competing_prepared_journal b fs' = Inl e"
proof -
  let ?name = "i @ ''.prepared.restore.tmp''"
  have "strip_suffix ''json'' (journal_name i) = Some (i @ ''.prepared.'')"
    by (simp add: journal_name_def journal_suffix_def strip_suffix_def ends_with_def starts_with_def)
  then have fs': "fs' = with_entry ?name bytes fs" by (simp add: fs'_def with_extension_def)
  have strip: "strip_suffix temp_suffix ?name = None" "strip_suffix journal_suffix ?name = None"
    by (simp_all add: strip_suffix_def ends_with_def starts_with_def temp_suffix_def journal_suffix_def)
  have lock: "?name \<noteq> lock_name"
  proof
    assume "?name = lock_name"
    then have "last ?name = last lock_name" by simp
    then show False by (simp add: lock_name_def)
  qed
  have "utf8_valid i" using assms(2) plain_text_valid ascii_id_plain(2) by blast
  then have utf8: "utf8_valid ?name" by (simp add: utf8_valid_append utf8_valid_ascii)
  have "recover_entries sha ambient port project [?name] (fs', rest) =
      (Inl (blocked_error ''unknown transition journal entry'' [?name]), (fs', rest))"
    using strip lock by (simp add: sthrow_def)
  then have "recover_pending_bundles_under_guard sha ambient port project (fs', rest) =
      (Inl (blocked_error ''unknown transition journal entry'' [?name]), (fs', rest))"
    using recover_one_entry [OF assms(1) lock utf8 assms(3), of sha ambient port project rest] fs' by simp
  from blocked_transition [OF this] show "\<exists>e. acquire_for sha ambient port project (fs', rest) = (Inl e, (fs', rest))" .
  have "?name \<noteq> journal_name (bu_intent_id b)" "?name \<noteq> journal_temp (bu_intent_id b)"
    using strip strip_journal_names [of "bu_intent_id b"] by (metis option.distinct(1))+
  moreover have "find (\<lambda>(name, _). name \<notin> {journal_name (bu_intent_id b), journal_temp (bu_intent_id b), lock_name}) (jf_entries fs) = None"
    using assms(1) by (auto simp: idle_journal_def find_None_iff)
  ultimately have "find (\<lambda>(name, _). name \<notin> {journal_name (bu_intent_id b), journal_temp (bu_intent_id b), lock_name})
      (jf_entries fs @ [(?name, bytes)]) = Some (?name, bytes)"
    using lock by (simp add: find_after)
  then show "\<exists>e. validate_no_competing_prepared_journal b fs' = Inl e"
    by (simp add: validate_no_competing_prepared_journal_def fs' with_entry_def)
qed

text \<open>No proper prefix of a bundle's text is read as a bundle.\<close>

lemma torn_bundle:
  assumes "readable_bundle sha ambient b body" "n < length body"
  shows "\<exists>e. parse_prepared_source_bundle sha ambient' (take n body) = Inl e"
proof -
  obtain source members where "body = template compact_layout (bundle_members b members source)"
    using assms(1) by (auto simp: readable_bundle_def render_prepared_source_bundle_def rbind_Inr_iff Let_def)
  then obtain xs where xs: "body = CHR ''{'' # xs @ ''}''" by (simp add: template_def)
  obtain v where "parse_value (take n body @ drop n body) ''prepared source bundle'' = Inr v"
    using assms(1) by (auto simp: readable_bundle_def parse_prepared_source_bundle_def parse_canonical_object_def rbind_Inr_iff)
  moreover have "drop n body \<noteq> []" "last (drop n body) = CHR ''}''" using assms(2) xs by (simp, simp add: last_drop)
  ultimately obtain e where e: "parse_value (take n body) ''prepared source bundle'' = Inl e"
    using torn_object_refused [of "take n body" "drop n body"] xs by fastforce
  show ?thesis
    using e by (cases "parse_prepared_source_bundle sha ambient' (take n body)")
      (auto simp: parse_prepared_source_bundle_def parse_canonical_object_def rbind_Inr_iff)
qed

text \<open>
  C11 A stop inside the write of the temporary file blocks the project. Recovery removes a temporary
  file only when its text is that of a bundle, and no proper prefix of a bundle's text is: whatever
  part was written, every later start of a transition fails and leaves everything as it is.
\<close>

theorem torn_journal_temp_blocks:
  assumes "idle_journal fs" "jf_outcomes fs = Io_error (Suc n) # ocs" "readable_bundle sha ambient b body" "n < length body"
  shows "(\<exists>e. commit_prepared_source_bundle_under_guard sha ambient b fs =
      (Inl e, with_entry (journal_temp (bu_intent_id b)) (take n body) (fs\<lparr>jf_outcomes := ocs\<rparr>)))
    \<and> (\<exists>e. acquire_for sha ambient' port (bu_project_id b)
      ((with_entry (journal_temp (bu_intent_id b)) (take n body) fs)\<lparr>jf_outcomes := ocs'\<rparr>, rest) =
      (Inl e, ((with_entry (journal_temp (bu_intent_id b)) (take n body) fs)\<lparr>jf_outcomes := ocs'\<rparr>, rest)))"
proof -
  let ?temp = "journal_temp (bu_intent_id b)" and ?part = "take n body"
  have r: "render_prepared_source_bundle sha ambient b = Inr body" using assms(3) by (simp add: readable_bundle_def)
  note lim = rendered_limits [OF r] and fresh = fresh_entry [OF assms(1)]
  have none: "entry JournalDir (journal_name (bu_intent_id b)) fs = None" "entry JournalDir ?temp fs = None"
    using fresh by (simp_all add: entry_none_iff)
  have commit: "\<exists>e. commit_prepared_source_bundle_under_guard sha ambient b fs =
      (Inl e, with_entry ?temp ?part (fs\<lparr>jf_outcomes := ocs\<rparr>))"
    using assms(1,2) r none no_competitor [OF assms(1)]
    by (simp add: commit_prepared_source_bundle_under_guard_def write_temp_def journal_runs Let_def create_entry_def
        journal_outcome_def put_idle)
  obtain e where e: "parse_prepared_source_bundle sha ambient' ?part = Inl e" using torn_bundle [OF assms(3,4)] by blast
  have "length ?part \<le> max_prepared_bundle_bytes" using lim(3) by simp
  then have "\<exists>e. recover_pending_bundles_under_guard sha ambient' port (bu_project_id b)
      (with_entry ?temp ?part (fs\<lparr>jf_outcomes := ocs'\<rparr>), rest) = (Inl e, (with_entry ?temp ?part (fs\<lparr>jf_outcomes := ocs'\<rparr>), rest))"
    using assms(1) by (intro unreadable_entry_blocks [OF _ _ lim(1) _ e]) simp_all
  then obtain e' where "recover_pending_bundles_under_guard sha ambient' port (bu_project_id b)
      (with_entry ?temp ?part (fs\<lparr>jf_outcomes := ocs'\<rparr>), rest) = (Inl e', (with_entry ?temp ?part (fs\<lparr>jf_outcomes := ocs'\<rparr>), rest))"
    by blast
  from commit blocked_transition [OF this] show ?thesis by simp
qed

lemma torn_journal_temp_blocks_witness:
  "(\<exists>e. commit_prepared_source_bundle_under_guard wit_sha (Inl (runtime_error [] [])) (wit_verification ''{}'')
      (wit_journal [Io_error 1]) = (Inl e, with_entry ''i.prepared.json.tmp'' [] (wit_journal [])))
   \<and> (\<exists>e. acquire_for wit_sha (Inl (runtime_error [] [])) wit_port ''p'' (with_entry ''i.prepared.json.tmp'' [] (wit_journal []), 0) =
      (Inl e, (with_entry ''i.prepared.json.tmp'' [] (wit_journal []), 0)))"
proof -
  let ?ambient = "Inl (runtime_error [] []) :: ledger_binding result" and ?b = "wit_verification ''{}''"
  obtain body where body: "readable_bundle wit_sha ?ambient ?b body" by (rule wit_readable)
  have ids: "journal_temp (bu_intent_id ?b) = ''i.prepared.json.tmp''" "bu_project_id ?b = ''p''"
    by (simp_all add: wit_verification_def journal_temp_def temp_suffix_def)
  have one: "jf_outcomes (wit_journal [Io_error 1]) = [Io_error (Suc 0)]" "(wit_journal ocs)\<lparr>jf_outcomes := ocs'\<rparr> = wit_journal ocs'" for ocs ocs'
    by (simp_all add: wit_journal_def)
  have "0 < length body" using body
    by (auto simp: readable_bundle_def render_prepared_source_bundle_def rbind_Inr_iff Let_def template_def)
  from torn_journal_temp_blocks [OF wit_idle one(1) body this, of ?ambient wit_port "[]" 0]
  show ?thesis by (simp add: ids one)
qed

end
