(* ===== verification/Spelling_Properties.thy ===== *)
theory Spelling_Properties
  imports Json_Spelling Transcript_Properties
begin

text \<open>
  Exactly which texts of the code's own writers its readers take back. Both the current state and
  the second schema of transcript records are written with \<open>escape_string_content\<close> and read through
  the canonical parser, which compares with the text \<open>render_string\<close> would have written; an accepted
  text is well spelled, so are its parts, and a well spelled part is one both writers agree on.
\<close>

section \<open>Current states\<close>

text \<open>The strings of a snapshot are those of Rust.\<close>

definition snapshot_texts :: "current_state_snapshot \<Rightarrow> bool" where
  "snapshot_texts s \<longleftrightarrow> utf8_valid (cs_project_root s)
     \<and> pred_option utf8_valid (cs_parent_session_id s) \<and> pred_option utf8_valid (cs_branch_from_event_id s)
     \<and> pred_option utf8_valid (cs_compaction_boundary s) \<and> pred_option utf8_valid (cs_resume_source s)"

lemma optional_spelled:
  "pred_option utf8_valid v \<Longrightarrow> spelled (render_optional_string v) \<Longrightarrow> pred_option plain_text v"
  by (cases v) (simp_all add: render_optional_string_def escape_spelled)

lemma snapshot_spelled:
  assumes "snapshot_texts s" "current_state_valid sha s" "spelled (render_current_state_v2 s)"
  shows "plain_snapshot s"
proof -
  let ?ms = "current_payload_members s @ [(''artifact_hash'', quoted (cs_artifact_hash s))]"
  have plain: "plain_key (cs_previous_artifact_hash s)" "plain_key (cs_artifact_hash s)"
    "plain_text (cs_project_id s)" "plain_text (cs_session_id s)"
    using assms(2) snapshot_keys_each sha256_plain current_id_plain
    by (auto simp: current_state_valid_def)
  have parts: "closed (render_current_workflow (cs_active_workflow s))"
    "closed (render_ledger_binding (cs_ledger_binding s))"
    "closed (''['' @ join '','' (map quoted terminal_states) @ '']'')"
    using assms(2) writes_closed [OF writes_workflow] writes_closed [OF writes_binding]
      writes_closed [OF writes_terminal_states]
    by (simp_all add: current_state_valid_def)
  have "closed_members ?ms"
    unfolding current_payload_members_def
    using plain parts assms(1) [unfolded snapshot_texts_def]
    by (simp add: closed_members_simps snapshot_keys_each plain_closed escape_closed closed_optional
        show_nat_closed closed_no_backslash)
  note each = template_closed(2) [OF this assms(3) [unfolded render_current_state_template]]
  have "spelled (escaped (cs_project_root s))" "spelled (render_optional_string (cs_parent_session_id s))"
    "spelled (render_optional_string (cs_branch_from_event_id s))"
    "spelled (render_optional_string (cs_compaction_boundary s))"
    "spelled (render_optional_string (cs_resume_source s))"
    using each [of "(''project_root'', escaped (cs_project_root s))"]
      each [of "(''parent_session_id'', render_optional_string (cs_parent_session_id s))"]
      each [of "(''branch_from_event_id'', render_optional_string (cs_branch_from_event_id s))"]
      each [of "(''compaction_boundary'', render_optional_string (cs_compaction_boundary s))"]
      each [of "(''resume_source'', render_optional_string (cs_resume_source s))"]
    by (simp_all add: current_payload_members_def)
  with assms(1) show ?thesis
    by (simp add: plain_snapshot_def snapshot_texts_def escape_spelled optional_spelled)
qed

lemma parsed_state_spelled:
  assumes "parse_current_state sha ambient body ctxt = Inr s" "cs_schema_version s = 2"
  shows "current_state_valid sha s \<and> render_current_state_v2 s = body \<and> spelled body"
proof -
  obtain v where "parse_value body ctxt = Inr v"
    using assms(1) by (auto simp: parse_current_state_def rbind_Inr_iff)
  with assms have "parse_current_state_v2 sha body ctxt = Inr s"
    by (cases v) (auto simp: parse_current_state_def rbind_Inr_iff dest!: parse_v1_version split: if_splits)
  from parse_v2_valid [OF this] this show ?thesis
    using canonical_input_spelled unfolding parse_current_state_v2_def rbind_Inr_iff by blast
qed

lemma state_read_back:
  assumes "cs_schema_version s = 2" "snapshot_texts s"
  shows "parse_current_state sha ambient (render_current_state_v2 s) ctxt = Inr s \<longleftrightarrow>
    current_state_valid sha s \<and> plain_snapshot s"
  using current_state_reads_back parsed_state_spelled [OF _ assms(1)] snapshot_spelled [OF assms(2)] by blast

text \<open>
  C37 A schema 2 current state is read back from the text it is rendered to exactly when it is well
  formed (its revision is not zero, its ids, hashes, active workflow and ledger binding have the
  form the reader demands, its own hash is that of its payload) and its free texts, the project
  root, the resume source, the compaction boundary and the two branch ids, are spelled alike by the
  writer and by the canonical writer the reader compares with.
\<close>

theorem current_state_roundtrip:
  assumes "cs_schema_version s = 2" "snapshot_texts s"
  shows "parse_current_state sha ambient (render_current_state_v2 s) ctxt = Inr s \<longleftrightarrow>
    current_state_valid sha s
    \<and> (\<forall>v \<in> {cs_project_root s} \<union> set_option (cs_parent_session_id s) \<union> set_option (cs_branch_from_event_id s)
          \<union> set_option (cs_compaction_boundary s) \<union> set_option (cs_resume_source s).
        escaped v = render_string v)"
proof -
  have "plain_snapshot s \<longleftrightarrow>
     (\<forall>v \<in> {cs_project_root s} \<union> set_option (cs_parent_session_id s) \<union> set_option (cs_branch_from_event_id s)
          \<union> set_option (cs_compaction_boundary s) \<union> set_option (cs_resume_source s). escaped v = render_string v)"
    using assms(2) by (auto simp: plain_snapshot_def snapshot_texts_def plain_text_def pred_option_def)
  with state_read_back [OF assms] show ?thesis by simp
qed

lemma plain_snapshot_texts: "plain_snapshot s \<Longrightarrow> snapshot_texts s"
  by (auto simp: plain_snapshot_def snapshot_texts_def plain_text_def pred_option_def)

lemma current_state_roundtrip_witness:
  "parse_current_state wit_sha (Inl (runtime_error [] [])) (render_current_state_v2 wit_snapshot) ''ctx'' = Inr wit_snapshot"
proof -
  have "cs_schema_version wit_snapshot = 2" using wit_snapshot_valid(1) by (simp add: current_state_valid_def)
  from current_state_roundtrip [OF this plain_snapshot_texts [OF wit_snapshot_valid(2)], of wit_sha]
    wit_snapshot_valid(1) wit_snapshot_valid(2) show ?thesis
    by (auto simp: plain_snapshot_def plain_text_def pred_option_def)
qed

section \<open>The prepared image\<close>

text \<open>The free texts a transition brings along, as Rust has them, and a predecessor as it was read.\<close>

definition transition_texts :: "runtime_identity \<Rightarrow> string option \<Rightarrow> compaction_boundary_update \<Rightarrow> bool" where
  "transition_texts identity resume boundary \<longleftrightarrow>
     utf8_valid (ri_project_root identity) \<and> pred_option utf8_valid resume
     \<and> (case boundary of PreserveBoundary \<Rightarrow> True | SetBoundary b \<Rightarrow> utf8_valid b)"

definition read_state :: "hasher \<Rightarrow> current_state_snapshot \<Rightarrow> bool" where
  "read_state sha p \<longleftrightarrow> cs_schema_version p = 2 \<and> snapshot_texts p
     \<and> (\<exists>ambient body ctxt. parse_current_state sha ambient body ctxt = Inr p)"

lemma read_state_plain:
  "read_state sha p \<Longrightarrow> current_state_valid sha p \<and> plain_snapshot p \<and> snapshot_texts p"
  unfolding read_state_def using parsed_state_spelled snapshot_spelled by blast

lemma transition_snapshot_texts:
  assumes "transition_texts identity resume boundary" "pred_option snapshot_texts previous"
  shows "snapshot_texts (seal_snapshot sha
    (next_snapshot identity resume active binding previous boundary revision))"
  using assms
  by (cases previous; cases boundary)
    (simp_all add: snapshot_texts_def seal_snapshot_def next_snapshot_def transition_texts_def)

lemma transition_snapshot_plain_iff:
  assumes "pred_option plain_snapshot previous"
  shows "plain_snapshot (seal_snapshot sha
      (next_snapshot identity resume active binding previous boundary revision))
    \<longleftrightarrow> transition_inputs_plain identity resume boundary"
  using assms
  by (cases previous; cases boundary)
    (auto simp: plain_snapshot_def seal_snapshot_def next_snapshot_def transition_inputs_plain_def)

lemma inputs_plain_spelled:
  "transition_texts identity resume boundary \<Longrightarrow>
   transition_inputs_plain identity resume boundary \<longleftrightarrow>
     escaped (ri_project_root identity) = render_string (ri_project_root identity)
     \<and> (\<forall>v. resume = Some v \<or> boundary = SetBoundary v \<longrightarrow> escaped v = render_string v)"
  by (cases resume; cases boundary)
    (auto simp: transition_texts_def transition_inputs_plain_def plain_text_def)

text \<open>
  C36 The image a state transition prepares over the state it read is the text of a well-formed
  state that follows its predecessor: its revision is one more, it carries the hash of the state it
  replaces, its ledger binding is the transition's last event, and a compaction boundary is kept
  only within the session it was recorded in. That image is read back as that state exactly when
  the project root, the resume source and a new boundary are spelled alike by both JSON writers;
  otherwise it is prepared all the same.
\<close>

theorem prepared_image_follows:
  assumes "digest32 sha" "transition_inputs_valid identity active binding"
    and "transition_texts identity resume boundary" "pred_option (read_state sha) previous"
    and "prepare_state_transition_current_image sha identity resume active binding previous boundary = Inr img"
  shows "\<exists>s. ci_bytes img = render_current_state_v2 s \<and> current_state_valid sha s
    \<and> (parse_current_state sha ambient (ci_bytes img) ctxt = Inr s \<longleftrightarrow>
        escaped (ri_project_root identity) = render_string (ri_project_root identity)
        \<and> (\<forall>v. resume = Some v \<or> boundary = SetBoundary v \<longrightarrow> escaped v = render_string v))
    \<and> unat (cs_revision s) = (case previous of None \<Rightarrow> 0 | Some p \<Rightarrow> unat (cs_revision p)) + 1
    \<and> cs_previous_artifact_hash s = (case previous of None \<Rightarrow> ''none'' | Some p \<Rightarrow> cs_artifact_hash p)
    \<and> cs_project_id s = ri_project_id identity \<and> cs_session_id s = ri_session_id identity
    \<and> cs_active_workflow s = map_option binding_of_workflow active \<and> cs_ledger_binding s = binding
    \<and> (boundary = PreserveBoundary \<and> cs_compaction_boundary s \<noteq> None \<longrightarrow>
        (\<exists>p. previous = Some p \<and> cs_session_id p = cs_session_id s
           \<and> cs_compaction_boundary p = cs_compaction_boundary s))"
  using assms(5)
proof (rule transition_image_cases)
  fix revision
  let ?s = "seal_snapshot sha (next_snapshot identity resume active binding previous boundary revision)"
  assume r: "unat revision = (case previous of None \<Rightarrow> 0 | Some p \<Rightarrow> unat (cs_revision p)) + 1" "revision \<noteq> 0"
    and img: "img = image_of_snapshot ?s"
  have previous: "pred_option (current_state_valid sha) previous" "pred_option plain_snapshot previous"
    "pred_option snapshot_texts previous"
    using assms(4) by (auto simp: pred_option_def dest: read_state_plain)
  have valid: "current_state_valid sha ?s"
    using transition_snapshot_valid [OF assms(1,2) previous(1) r(2)] .
  then have "cs_schema_version ?s = 2" by (simp add: current_state_valid_def)
  note reads = state_read_back [OF this transition_snapshot_texts [OF assms(3) previous(3)], of sha ambient ctxt]
  show ?thesis
    by (rule exI [of _ ?s], simp add: img image_of_snapshot_def reads valid transition_snapshot_plain_iff [OF previous(2)]
        inputs_plain_spelled [OF assms(3)])
      (simp add: seal_snapshot_def next_snapshot_def r split: option.splits)
qed

lemma read_wit_snapshot: "read_state wit_sha wit_snapshot"
proof -
  have "parse_current_state wit_sha (Inl (runtime_error [] [])) (render_current_state_v2 wit_snapshot) [] = Inr wit_snapshot"
    by (rule current_state_reads_back [OF wit_snapshot_valid(2,1)])
  moreover have "cs_schema_version wit_snapshot = 2" using wit_snapshot_valid(1) by (simp add: current_state_valid_def)
  ultimately show ?thesis unfolding read_state_def using plain_snapshot_texts [OF wit_snapshot_valid(2)] by blast
qed

lemma prepared_image_follows_witness:
  "\<exists>img s. prepare_state_transition_current_image wit_sha
     \<lparr>ri_project_id = ''project-1'', ri_session_id = ''session-1'', ri_project_root = ''/work''\<rparr> (Some ''resume-1'') None
     \<lparr>lb_event_count = 0, lb_event_id = None, lb_event_hash = ''root''\<rparr> (Some wit_snapshot) PreserveBoundary = Inr img
   \<and> parse_current_state wit_sha (Inl (runtime_error [] [])) (ci_bytes img) ''ctx'' = Inr s \<and> unat (cs_revision s) = 2"
proof -
  have rev: "cs_revision wit_snapshot = 1"
    by (simp add: wit_snapshot_def seal_snapshot_def next_snapshot_def)
  then obtain img where img: "prepare_state_transition_current_image wit_sha
     \<lparr>ri_project_id = ''project-1'', ri_session_id = ''session-1'', ri_project_root = ''/work''\<rparr> (Some ''resume-1'') None
     \<lparr>lb_event_count = 0, lb_event_id = None, lb_event_hash = ''root''\<rparr> (Some wit_snapshot) PreserveBoundary = Inr img"
    by (simp add: prepare_state_transition_current_image_def checked_add_def)
  have texts: "transition_texts \<lparr>ri_project_id = ''project-1'', ri_session_id = ''session-1'', ri_project_root = ''/work''\<rparr>
      (Some ''resume-1'') PreserveBoundary"
    using wit_plain_text by (simp add: transition_texts_def plain_text_def)
  have "pred_option (read_state wit_sha) (Some wit_snapshot)" using read_wit_snapshot by simp
  from prepared_image_follows [OF wit_digest wit_inputs texts this img, of "Inl (runtime_error [] [])" "''ctx''"]
  obtain s where s: "parse_current_state wit_sha (Inl (runtime_error [] [])) (ci_bytes img) ''ctx'' = Inr s \<longleftrightarrow>
        escaped ''/work'' = render_string ''/work''
        \<and> (\<forall>v. Some ''resume-1'' = Some v \<or> PreserveBoundary = SetBoundary v \<longrightarrow> escaped v = render_string v)"
    and revision: "unat (cs_revision s) = unat (cs_revision wit_snapshot) + 1"
    unfolding option.case runtime_identity.simps by (elim exE conjE) (rule that; assumption)
  have "escaped ''/work'' = render_string ''/work''" "escaped ''resume-1'' = render_string ''resume-1''"
    using wit_plain_text unfolding plain_text_def by blast+
  with s have "parse_current_state wit_sha (Inl (runtime_error [] [])) (ci_bytes img) ''ctx'' = Inr s" by blast
  moreover have "unat (cs_revision s) = 2" using revision by (simp add: rev)
  ultimately show ?thesis using img by blast
qed

section \<open>Transcript records\<close>

lemma transcript_id_plain: "valid_id v \<Longrightarrow> plain_text v \<and> plain_key v"
  by (rule plain_id_text [of id_byte]) (auto simp: valid_id_def id_byte_def)

lemma transcript_sha_plain: "valid_sha256 v \<Longrightarrow> plain_text v \<and> plain_key v"
  by (rule plain_id_text [of lower_hex])
    (auto simp: valid_sha256_def lower_hex_def is_ascii_alphanumeric_def is_ascii_lowercase_def)

lemma tool_path_plain:
  assumes "valid_id p" "valid_id s" "valid_id w" "valid_id a"
  shows "plain_text (tool_output_artifact_relative_path p s w a)"
proof -
  have "list_all (\<lambda>c. id_byte c \<or> c = CHR ''/'') (tool_output_artifact_relative_path p s w a)"
    using assms by (auto simp: tool_output_artifact_relative_path_def valid_id_def list_all_iff id_byte_def
        is_ascii_alphanumeric_def is_ascii_lowercase_def is_ascii_uppercase_def is_ascii_digit_def)
  then have "plain_text (tool_output_artifact_relative_path p s w a) \<and> plain_key (tool_output_artifact_relative_path p s w a)"
    by (rule plain_id_text) (auto simp: id_byte_def)
  then show ?thesis by simp
qed

text \<open>Everything of a checked record but its content and its source pointers is plain.\<close>

lemma checked_record_plain:
  assumes "check_record sha r = Inr r"
  shows "list_all plain_text [tr_record_id r, tr_project_id r, tr_session_id r, tr_workflow_id r, tr_kind r, tr_causal_id r]"
    "plain_key (tr_content_hash r)" "plain_key (tr_artifact_hash r)"
    "case tr_tool_output r of None \<Rightarrow> True
     | Some b \<Rightarrow> plain_text (tob_id b) \<and> plain_text (tob_path b) \<and> plain_key (tob_hash b)"
    "list_all (\<lambda>p. plain_text (tsp_source_hash p)) (tr_source_pointers r)" "tr_schema_version r \<in> {1, 2}"
    "tr_schema_version r = 1 \<Longrightarrow> tr_tool_output r = None"
proof -
  note checked = check_record_Inr [OF assms]
  then have ids: "valid_id (tr_project_id r)" "valid_id (tr_record_id r)" "valid_id (tr_workflow_id r)"
    "valid_id (tr_session_id r)" "valid_id (tr_causal_id r)" and kind: "tr_kind r \<in> {''user'', ''model'', ''tool'', ''evidence''}"
    and shape: "validate_tool_binding_shape r = Inr ()"
    and pointers: "list_all (\<lambda>p. validate_source_pointer p = Inr ()) (tr_source_pointers r)"
    by simp_all
  from kind have "plain_text (tr_kind r)"
    by (auto intro!: plain_text_chars simp: plain_char_def)
  with ids transcript_id_plain
  show "list_all plain_text [tr_record_id r, tr_project_id r, tr_session_id r, tr_workflow_id r, tr_kind r, tr_causal_id r]"
    by simp
  show "plain_key (tr_content_hash r)" "plain_key (tr_artifact_hash r)"
    using checked sha256_bytes_plain by metis+
  note tool = tool_binding_shape [OF shape]
  show "tr_schema_version r \<in> {1, 2}" "tr_schema_version r = 1 \<Longrightarrow> tr_tool_output r = None" using tool by auto
  show "case tr_tool_output r of None \<Rightarrow> True
     | Some b \<Rightarrow> plain_text (tob_id b) \<and> plain_text (tob_path b) \<and> plain_key (tob_hash b)"
  proof (cases "tr_tool_output r")
    case (Some b)
    with tool have "valid_id (tob_id b)" "valid_sha256 (tob_hash b)"
      "tob_path b = tool_output_artifact_relative_path (tr_project_id r) (tr_session_id r) (tr_workflow_id r) (tob_id b)"
      by blast+
    with Some ids tool_path_plain transcript_id_plain transcript_sha_plain show ?thesis by simp
  qed simp
  show "list_all (\<lambda>p. plain_text (tsp_source_hash p)) (tr_source_pointers r)"
    using pointers transcript_sha_plain by (auto simp: list_all_iff validate_source_pointer_def split: if_splits)
qed

lemma pointer_spelled:
  assumes "valid_pointer_texts p"
  shows "closed (render_source_pointer p)" "spelled (render_source_pointer p) \<Longrightarrow> plain_pointer p"
proof -
  let ?ms = "[(''stable_ref'', quoted_escape (tsp_stable_ref p)), (''path'', quoted_escape (tsp_path p)),
      (''source_hash'', quoted_escape (tsp_source_hash p))]"
  have c: "closed_members ?ms"
    using assms transcript_keys_plain(3)
    by (simp add: closed_members_simps quoted_escape_def valid_pointer_texts_def escape_closed)
  from template_closed(1) [OF c] show "closed (render_source_pointer p)" by (simp add: render_source_pointer_def)
  assume "spelled (render_source_pointer p)"
  note each = template_closed(2) [OF c this [unfolded render_source_pointer_def]]
  have "spelled (quoted_escape (tsp_stable_ref p))" "spelled (quoted_escape (tsp_path p))"
    "spelled (quoted_escape (tsp_source_hash p))"
    using each [of "(''stable_ref'', quoted_escape (tsp_stable_ref p))"] each [of "(''path'', quoted_escape (tsp_path p))"]
      each [of "(''source_hash'', quoted_escape (tsp_source_hash p))"] by simp_all
  with assms show "plain_pointer p"
    by (simp add: plain_pointer_def valid_pointer_texts_def quoted_escape_def escape_spelled)
qed

lemma pointers_spelled:
  assumes "list_all valid_pointer_texts ps"
  shows "closed (render_source_pointers ps)" "spelled (render_source_pointers ps) \<Longrightarrow> list_all plain_pointer ps"
proof -
  have all: "\<forall>v\<in>set (map render_source_pointer ps). closed v"
    using assms pointer_spelled(1) by (auto simp: list_all_iff)
  from array_closed(1) [OF all] show "closed (render_source_pointers ps)" by (simp add: render_source_pointers_def)
  assume "spelled (render_source_pointers ps)"
  note each = array_closed(2) [OF all this [unfolded render_source_pointers_def]]
  show "list_all plain_pointer ps"
    using assms each pointer_spelled(2) by (auto simp: list_all_iff)
qed

lemma record_spelled:
  assumes "check_record sha r = Inr r" "utf8_valid (tr_content r)" "list_all valid_pointer_texts (tr_source_pointers r)"
    and "tr_schema_version r = 2" "spelled (transcript_to_json r)"
  shows "plain_text (tr_content r)" "list_all plain_pointer (tr_source_pointers r)"
proof -
  note plain = checked_record_plain [OF assms(1)]
  have tool: "closed (render_tool_binding (tr_tool_output r))"
  proof (cases "tr_tool_output r")
    case (Some b)
    have "closed_members [(''id'', quoted_escape (tob_id b)), (''path'', quoted_escape (tob_path b)), (''hash'', quoted (tob_hash b))]"
      using Some plain(4) transcript_keys_plain(4)
      by (simp add: closed_members_simps quoted_escape_def plain_closed tool_binding_keys_def)
    from template_closed(1) [OF this] Some show ?thesis by (simp add: render_tool_binding_def)
  qed (simp add: render_tool_binding_def closed_no_backslash)
  have "closed_members (transcript_members r)"
    using assms(2,4) plain(1-3) tool pointers_spelled(1) [OF assms(3)]
      transcript_keys_plain(2) [unfolded transcript_v2_keys_def, simplified]
    by (simp add: transcript_members_def body_members_def closed_members_simps quoted_escape_def plain_closed
        escape_closed show_nat_closed closed_no_backslash)
  moreover have "spelled (template compact_layout (transcript_members r))"
    using assms(4,5) by (simp add: transcript_to_json_def)
  ultimately have each: "m \<in> set (transcript_members r) \<Longrightarrow> spelled (snd m)" for m
    using template_closed(2) by blast
  have "spelled (quoted_escape (tr_content r))" "spelled (render_source_pointers (tr_source_pointers r))"
    using each [of "(''content'', quoted_escape (tr_content r))"]
      each [of "(''source_pointers'', render_source_pointers (tr_source_pointers r))"] assms(4)
    by (simp_all add: transcript_members_def body_members_def)
  with assms(2,3) pointers_spelled(2) show "plain_text (tr_content r)" "list_all plain_pointer (tr_source_pointers r)"
    by (simp_all add: quoted_escape_def escape_spelled)
qed

lemma record_reads_back:
  assumes "check_record sha r = Inr r" "transcript_texts r" "tr_schema_version r = 1 \<or> plain_record r"
  shows "parse_record sha (transcript_to_json r) = Inr r"
proof -
  note plain = checked_record_plain [OF assms(1)]
  have "json_number (transcript_values r) ''schema_version'' c = Inr (tr_schema_version r)" for c
    using plain(6) by (auto simp: transcript_values_def body_values_def json_number_def object_get_map_of u64_try_from_def)
  moreover have "tr_schema_version r = 1 \<Longrightarrow> parse_v1 (transcript_to_json r) = Inr r"
    using assms(2) plain(7) by (simp add: parse_v1_values)
  moreover have "tr_schema_version r = 2 \<Longrightarrow> parse_v2 (transcript_to_json r) = Inr r"
    using assms(3) by (auto simp: parse_v2_values)
  ultimately show ?thesis using parse_transcript_object(1) [OF assms(2) plain(6)] plain(6) assms(1)
    by (auto simp: parse_record_def)
qed

text \<open>
  C28 A transcript record that passes its own checks is read back from the text it is installed
  with exactly when it has the first schema, or its content and the references and paths of its
  source pointers are spelled alike by the writer and by the canonical writer the reader of the
  second schema compares with.
\<close>

theorem transcript_roundtrip:
  assumes "check_record sha r = Inr r" "utf8_valid (tr_content r)"
    and "list_all valid_pointer_texts (tr_source_pointers r)"
  shows "parse_record sha (transcript_to_json r) = Inr r \<longleftrightarrow>
    tr_schema_version r = 1
    \<or> (\<forall>v \<in> {tr_content r} \<union> (\<Union>p \<in> set (tr_source_pointers r). {tsp_stable_ref p, tsp_path p}).
        quoted_escape v = render_string v)"
proof -
  let ?alike = "\<forall>v \<in> {tr_content r} \<union> (\<Union>p \<in> set (tr_source_pointers r). {tsp_stable_ref p, tsp_path p}).
        quoted_escape v = render_string v"
  note plain = checked_record_plain [OF assms(1)]
  have texts: "transcript_texts r"
    using assms(2,3) plain(1-4) by (auto simp: transcript_texts_def plain_text_valid split: option.splits)
  have alike: "plain_text (tr_content r) \<and> list_all plain_pointer (tr_source_pointers r) \<longleftrightarrow> ?alike"
    using assms(2,3) plain(5)
    by (auto simp: plain_text_def quoted_escape_def plain_pointer_def valid_pointer_texts_def list_all_iff)
  have plain_alike: "plain_record r" if "?alike"
    using that alike plain(1-4) by (simp add: plain_record_def)
  have "?alike" if two: "tr_schema_version r = 2" and "parse_record sha (transcript_to_json r) = Inr r"
  proof -
    have "json_number (transcript_values r) ''schema_version'' c = Inr 2" for c
      using two by (simp add: transcript_values_def body_values_def json_number_def object_get_map_of u64_try_from_def)
    with that parse_transcript_object(1) [OF texts plain(6)] obtain r' where "parse_v2 (transcript_to_json r) = Inr r'"
      by (auto simp: parse_record_def rbind_Inr_iff)
    then have "spelled (transcript_to_json r)"
      unfolding parse_v2_def Let_def rbind_Inr_iff using canonical_input_spelled by blast
    from record_spelled [OF assms two this] alike show ?thesis by blast
  qed
  with record_reads_back [OF assms(1) texts] plain_alike plain(6) show ?thesis by blast
qed

lemma transcript_roundtrip_witness:
  "parse_record (\<lambda>_. [CHR 0x07]) (transcript_to_json wit_transcript) = Inr wit_transcript"
proof -
  have "plain_text (tr_content wit_transcript)" "tr_source_pointers wit_transcript = []"
    using wit_transcript_ok(2) by (simp_all add: plain_record_def wit_transcript_def)
  with transcript_roundtrip [OF wit_transcript_ok(1)] show ?thesis
    by (simp add: plain_text_def quoted_escape_def)
qed

end
