(* ===== verification/Spec2Isabelle.thy ===== *)
theory Spec2Isabelle
  imports Json_Properties Ledger_Properties Transaction_Properties Agent_Properties Policy_Properties
    Recovery_Properties Transcript_Properties Artifact_Properties Current_State_Properties
    Promotion_Properties Source_Install_Properties Checkpoint_Properties Journal_Properties
    Spelling_Properties
begin

text \<open>
  A model of the deterministic core of Rolling Potato (\<open>rpotato\<close>), a local coding agent in Rust: the
  parts under \<open>src/\<close> that decide what is durable, what is allowed and what is believed. The file
  and function names below are relative to \<open>src/\<close>.

  \<^bold>\<open>The program.\<close> A turn of the agent asks a local model for an action, admits or refuses the tool
  call it parses (\<open>runtime_core/agent.rs\<close>, \<open>runtime_core/policy\<close>), and runs workflows whose state is
  kept in files: an append-only ledger of chained events with a head file
  (\<open>app/workflow_adapter/ledger\<close>), workflow records with pointers, a current-state image, transcripts
  and compaction artifacts (\<open>runtime_core/workflow\<close>, \<open>runtime_core/knowledge/compaction\<close>). A change of
  state is one transaction: a plan of ledger events and files is prepared, journaled, installed and
  cleaned up (\<open>runtime_core/workflow/application\<close>), and recovery finishes what an interruption left.
  All texts go through one strict JSON codec (\<open>foundation/serialization\<close>).

  \<^bold>\<open>Conventions\<close> (\<open>Basics\<close>, \<open>Text\<close>). Machine integers are words; a Rust string is its UTF-8 bytes, a HOL
  \<open>string\<close>; a character is the slice of bytes that encodes it. \<open>Result\<close> is a sum, the question mark
  operator is \<open>rbind\<close>; an operation with effects maps a state to a result and a state (\<open>effect\<close>,
  \<open>sbind\<close>), and keeps the effects it had when it fails. An error is its code, the key of its message
  template and the values put into it. SHA-256 is a parameter (\<open>hasher\<close>); where a property needs it,
  its collision freedom or its digest length is a hypothesis.

  \<^bold>\<open>Theories.\<close>

  \<^item> \<open>Strict_Json\<close>, \<open>Json_Codec\<close>: \<open>foundation/serialization\<close> (parser, renderers, typed accessors,
    canonical form). The recursive descent is bounded by the nesting limit 64 of the code.
    \<open>Json_Roundtrip\<close>, \<open>Json_Soundness\<close>, \<open>Json_Templates\<close> and \<open>Json_Arrays\<close> prove what the codecs below
    share: parsing a rendered value, what an accepted value is, and reading a text put together from
    member templates the way the code's \<open>format!\<close> calls do. \<open>Json_Properties\<close>: round trips, uniqueness
    of the canonical text, well-formedness of accepted input.
  \<^item> \<open>Ledger_Codec\<close>, \<open>Ledger_Store\<close>: the event lines of \<open>workflow/storage_compat/ledger.rs\<close>, and the
    ledger and head files of \<open>ledger/storage\<close> and \<open>ledger/append.rs\<close>, with a file that cannot be opened
    and writes that stop after any number of bytes.
    \<open>Event_Sequence\<close>: the order of a transaction's events
    (\<open>transaction_coordinator/event_sequence.rs\<close>) over the locale \<open>event_log\<close> of an event log.
    \<open>Ledger_Writer\<close>: \<open>ledger/writer.rs\<close>, the planned appends, which interpret that locale.
    \<open>Ledger_Properties\<close>: what an append leaves when its write stops anywhere, tamper evidence of the
    ledger text and the count of its head, resumption of a plan.
  \<^item> \<open>Transactions\<close>: the four executors of \<open>workflow/application/transaction_coordinator\<close> over ports
    that may fail. \<open>Transaction_Properties\<close>: over the event sink of the real writer, whichever other call
    stops an executor, the ledger holds a prefix of the planned events, and a run that returns, or a
    later one that does, holds them all, once and in order.
  \<^item> \<open>Text_Slices\<close>, \<open>Agent_Turn\<close>: \<open>runtime_core/agent.rs\<close>, the tool registry, the two parsers of model
    decisions and the bounded loop. \<open>Agent_Properties\<close>: what a parsed call may be, and the bound.
  \<^item> \<open>Policy\<close>, \<open>Redaction\<close>: \<open>runtime_core/policy\<close> (path and command decisions, the local command
    grammar, redaction, approval records). \<open>Policy_Properties\<close>: confinement of accepted commands and
    paths, stability of redaction.
  \<^item> \<open>Workflow_Record\<close>, \<open>Workflow_Domain\<close>, \<open>Workflow_Recovery\<close>: the records and their three schema
    versions (\<open>storage_compat/record\<close>), the current-state checks (\<open>workflow/domain\<close>) and the recovery of
    pending transactions and prepared states (\<open>workflow/application/recovery\<close>, \<open>projection_barrier.rs\<close>).
    \<open>Workflow_Properties\<close>, \<open>Recovery_Properties\<close>: snapshot round trip, what the hash binds, evidence
    before effects, the ledger position an accepted state names.
  \<^item> \<open>Transcript_Codec\<close>, \<open>Transcript_Domain\<close>: transcript records, their ledger events and the replay of a
    session (\<open>storage_compat/transcript\<close>, \<open>domain/transcript.rs\<close>, \<open>ledger_projection.rs\<close>).
    \<open>Transcript_Properties\<close>: sealing, round trips, binding of record and event.
  \<^item> \<open>Compaction\<close>: the token estimates, truncation and plan of \<open>knowledge/compaction\<close>;
    \<open>Compaction_Artifact\<close>: checkpoints and artifacts; \<open>Compaction_Session\<close>: the artifact store, the chain
    and \<open>compact_session\<close> of \<open>app/context_adapter\<close>. \<open>Compaction_Properties\<close>, \<open>Artifact_Properties\<close>: budgets,
    what a plan keeps, the chain, installation however its write ends, and round trip.

  \<^item> \<open>Canonical_Texts\<close>, \<open>Transition_Domain\<close>: what the canonical codecs share (typed fields read and
    written), and the records of a prepared transition (\<open>domain/transition.rs\<close>).
  \<^item> \<open>Current_State\<close>, \<open>Current_Image\<close>, \<open>Current_Promotion\<close>: the current-state file under
    \<open>app/workflow_adapter/state\<close>: its two schemas and classes (\<open>current_snapshot\<close>), the images prepared to
    follow it with their compare-and-set installation (\<open>current_image.rs\<close>, \<open>transition_commit.rs\<close>), and the
    promotion of a schema 1 state through a temporary file (\<open>promotion.rs\<close>). \<open>Json_Torn\<close>: a torn prefix
    of a document is no document. \<open>Current_State_Properties\<close>, \<open>Promotion_Properties\<close>: round trip, what
    is read back, no lost update, promotion returns. \<open>Spelling_Properties\<close>: exactly which current states,
    prepared images and transcript records their readers take back.
  \<^item> \<open>Source_Install\<close>, \<open>Source_Replace\<close>: the plan that puts proposed bytes over a source file, its
    preparation and codec (\<open>transition/source_install\<close>, \<open>source_support.rs\<close>), and its installation by hard
    links in one directory (\<open>state/source_install.rs\<close>). \<open>Effect_Hoare\<close>: triples for effects, used by
    \<open>Source_Replace_Properties\<close> (the invariant of a run), \<open>Source_Replace_Liveness\<close>,
    \<open>Source_Plan_Properties\<close> and \<open>Source_Install_Properties\<close>: nothing lost, foreign bytes kept,
    completion after a stop.
  \<^item> \<open>Workflow_Store\<close>, \<open>Workflow_Revision\<close>: the files behind a workflow (\<open>workflow_store.rs\<close>,
    \<open>workflow_access.rs\<close>, \<open>ledger/query.rs\<close>): snapshots, pointers, the checkpoints of the ledger, the chain
    they must form, the load of a workflow, and the preparation, members and installation of the next
    revision (\<open>workflow_revision.rs\<close>). \<open>Workflow_Store_Properties\<close>, \<open>Checkpoint_Properties\<close>: an interrupted
    checkpoint leaves the old revision or the new one, a completed one is what the next load finds.
  \<^item> \<open>Bundle\<close>, \<open>Bundle_Codec\<close>, \<open>Bundle_Preparation\<close>: the prepared bundle of a transition
    (\<open>app/workflow_adapter/transition\<close>): its check (\<open>bundle_validation\<close>: whom it is for, the chain of its
    events, the shape and order of its members for each kind of transition), its text (\<open>bundle_codec\<close>,
    \<open>journal/codec.rs\<close>) and how it is put together (\<open>bundle_preparation\<close>). \<open>Journal\<close>: the journal directory
    a bundle is committed to, its removal, the projection lag beside it and the recovery of everything
    a start of a transition finds there (\<open>journal\<close>). \<open>Bundle_Roundtrip\<close>, \<open>Json_Spelling\<close> (which texts are
    canonical) and \<open>Bundle_Refusal\<close> lead to \<open>Bundle_Properties\<close>, which bundles are read back;
    \<open>Journal_Properties\<close>: a commit is atomic, what the next recovery makes of an interrupted one (it
    forgets it, runs it, or refuses it unchanged), and three leftovers that block the project.

  \<^bold>\<open>How the parts meet.\<close> The event sink of a transaction (\<open>Transactions\<close>) is proved against the ledger
  writer through the interpretation of \<open>event_log\<close>; the writer stores the lines of \<open>Ledger_Codec\<close>, which
  are JSON templates; transcripts are replayed from ledger events and feed the compaction of a
  session; workflow recovery reads ledger tails and transcripts' events. The recovery of
  \<open>Workflow_Recovery\<close> is instantiated on the files of \<open>Workflow_Store\<close>, whose chain is compared with the
  checkpoints the ledger holds; images and revisions are members of one bundle, which the journal
  keeps between its commit and its installation.

  \<^bold>\<open>Bounds and fuel.\<close> No model runs on fuel of its own: recursion is structural or has a measure; the
  one loop without a measure of its own, the read of the current state before a transition, is a
  partial function that is proved to return (\<open>transition_start_returns\<close>). The bounds are the code's: JSON nesting 64, transcript content 64 KiB, artifact text 64 KiB, 64 artifacts
  in a chain, 64 recent records, three tool calls and three follow-up turns of a loop. Counts of bytes
  and characters are natural numbers, since memory bounds them; sums and products the code saturates
  are saturated at \<open>2 ^ 64 - 1\<close>, and ordinals, revisions and sizes it checks are words.

  \<^bold>\<open>Ports.\<close> The model, the clock, leases, the SQLite projections and what the file system reports are
  parameters: records of operations that return a result and may fail. The files of the ledger, the
  current state, source installation, workflows and compaction are states of the model; every write
  takes its outcome (done, not done, done but not synced, torn) from the state. A directory is the list
  of its entries. No property assumes
  that an operation succeeds unless it says so.

  \<^bold>\<open>What modelling showed.\<close> The lemmas \<open>torn_separator_breaks_ledger\<close>, \<open>rg_preprocessor_allowed\<close>,
  \<open>split_assignment_not_redacted\<close>, \<open>tail_plus_prints_all\<close>, \<open>cargo_value_may_be_option\<close>,
  \<open>excluded_directory_itself\<close>, \<open>find_replace_shift\<close>, \<open>control_content_refused\<close>,
  \<open>unstable_rationale_refused\<close>, \<open>deep_chain_blocks_session\<close>, \<open>cut_record_never_fits\<close>,
  \<open>half_made_temp_blocks\<close>, \<open>half_made_rollback_blocks\<close>, \<open>root_file_refused\<close>, \<open>torn_promotion_blocks\<close>,
  \<open>redacted_checkpoint_refused\<close>, \<open>control_contents_block_project\<close>, \<open>torn_journal_temp_blocks\<close> and
  \<open>restore_temp_blocks\<close> state behaviours of the code that its purpose does not explain; the text before each says what happens.

  \<^bold>\<open>Not modelled.\<close> The bounded read-only tail reader of the ledger; the derived projections and the
  writer lease; the wiring of the transition ports (\<open>current_transition.rs\<close>, \<open>lifecycle\<close>), so what a
  recovered bundle installs is a port of \<open>Journal\<close>; patches, inference,
  ontology, collaboration, extensions, web search and browser control; the terminal and command
  line surfaces, reports, and the adapters that only call the operating system, processes, SQLite and
  the network. The wording of messages is replaced by keys. Lock files are acquired but not modelled
  as files.
\<close>

end
